(* ===== verification/Prelude.thy ===== *)
theory Prelude
  imports Main "HOL-Library.Word" "HOL-Library.AList" "HOL-Library.Sublist"
    "HOL-Library.Char_ord" "HOL-Library.List_Lexorder"
begin

text \<open>
  Shared vocabulary of the development: the Go types the sources use, Go maps, results of
  fallible operations, and the parts of the Go packages \<^verbatim>\<open>strings\<close>, \<^verbatim>\<open>strconv\<close>,
  \<^verbatim>\<open>fmt\<close> and \<^verbatim>\<open>math/big\<close> that the keepers call, with the lemmas about them that the
  component theories use.

  \<^item> A Go string is its list of bytes, a \<^typ>\<open>string\<close>.
  \<^item> A Go map is an association list with distinct keys; its list order stands for the
    iteration order of a \<^verbatim>\<open>range\<close> loop, which Go leaves open.
  \<^item> An operation with a pointer receiver returns the new receiver together with its results,
    so that a change made before an error return is kept, as it is in the program.
  \<^item> An error return is \<^typ>\<open>'e option\<close> (\<^term>\<open>None\<close> is \<^verbatim>\<open>nil\<close>) or the left side of a sum.
\<close>

section \<open>Types\<close>

type_synonym u64 = "64 word"
type_synonym u32 = "32 word"
type_synonym ('k, 'v) gomap = "('k \<times> 'v) list"
type_synonym bigint = "int option" \<comment> \<open>a \<^verbatim>\<open>*big.Int\<close>; \<^term>\<open>None\<close> is the nil pointer\<close>
type_synonym bytes = string

named_theorems go_eval \<open>rules that evaluate the Go library functions on literals\<close>
named_theorems gomap_simps \<open>lookup and key set of Go map operations\<close>

section \<open>Go maps\<close>

abbreviation gomap_get :: "('k, 'v) gomap \<Rightarrow> 'k \<Rightarrow> 'v option" where
  "gomap_get m \<equiv> map_of m"

abbreviation gomap_set :: "'k \<Rightarrow> 'v \<Rightarrow> ('k, 'v) gomap \<Rightarrow> ('k, 'v) gomap" where
  "gomap_set k v m \<equiv> AList.update k v m"

abbreviation gomap_delete :: "'k \<Rightarrow> ('k, 'v) gomap \<Rightarrow> ('k, 'v) gomap" where
  "gomap_delete k m \<equiv> AList.delete k m"

definition gomap_wf :: "('k, 'v) gomap \<Rightarrow> bool" where
  "gomap_wf m \<longleftrightarrow> distinct (map fst m)"

lemmas [gomap_simps] = update_conv' delete_conv'

lemma gomap_wf_Nil [simp]: "gomap_wf []"
  by (simp add: gomap_wf_def)

lemma gomap_wf_Cons [simp]: "gomap_wf ((k, v) # m) \<longleftrightarrow> map_of m k = None \<and> gomap_wf m"
  by (auto simp: gomap_wf_def map_of_eq_None_iff)

lemma gomap_wf_set [simp, intro]: "gomap_wf m \<Longrightarrow> gomap_wf (gomap_set k v m)"
  by (simp add: gomap_wf_def distinct_update)

lemma gomap_wf_delete [simp, intro]: "gomap_wf m \<Longrightarrow> gomap_wf (gomap_delete k m)"
  by (simp add: gomap_wf_def distinct_delete)

lemma set_update_subset: "set (AList.update k v m) \<subseteq> insert (k, v) (set m)"
  by (induction m) auto

lemma set_delete_subset: "set (AList.delete k m) \<subseteq> set m"
  by (auto simp: AList.delete_eq)

text \<open>The entry sum of a map: it does not depend on the iteration order.\<close>

definition gomap_sum :: "('k \<Rightarrow> 'v \<Rightarrow> int) \<Rightarrow> ('k, 'v) gomap \<Rightarrow> int" where
  "gomap_sum f m = (\<Sum>(k, v) \<leftarrow> m. f k v)"

definition sum_opt :: "('v \<Rightarrow> int) \<Rightarrow> 'v option \<Rightarrow> int" where
  "sum_opt f o' = (case o' of None \<Rightarrow> 0 | Some v \<Rightarrow> f v)"

lemma sum_opt_simps [simp]: "sum_opt f None = 0" "sum_opt f (Some v) = f v"
  by (simp_all add: sum_opt_def)

lemma gomap_sum_Nil [simp]: "gomap_sum f [] = 0"
  by (simp add: gomap_sum_def)

lemma gomap_sum_Cons [simp]: "gomap_sum f ((k, v) # m) = f k v + gomap_sum f m"
  by (simp add: gomap_sum_def)

lemma gomap_sum_set [simp]:
  "gomap_sum f (gomap_set k v m) = gomap_sum f m - sum_opt (f k) (map_of m k) + f k v"
  by (induction m) (auto simp: gomap_sum_def)

lemma gomap_sum_delete [simp]:
  "gomap_wf m \<Longrightarrow> gomap_sum f (gomap_delete k m) = gomap_sum f m - sum_opt (f k) (map_of m k)"
  by (induction m) (auto simp: gomap_wf_def map_of_eq_None_iff)

lemma gomap_sum_eq:
  assumes "gomap_wf m" "gomap_wf m'" "map_of m = map_of m'"
  shows "gomap_sum f m = gomap_sum f m'"
proof -
  have "set m = set m'"
    using assms by (simp add: gomap_wf_def map_of_inject_set)
  moreover have "distinct m" "distinct m'"
    using assms by (auto simp: gomap_wf_def distinct_map)
  ultimately show ?thesis
    unfolding gomap_sum_def by (simp add: sum_list_distinct_conv_sum_set)
qed

lemma map_of_map_snd: "map_of (map (\<lambda>(k, v). (k, f v)) m) k = map_option f (map_of m k)"
  by (induction m) auto

text \<open>Inserting the entries of a map one by one into an empty map rebuilds it.\<close>

lemma update_fresh: "map_of m k = None \<Longrightarrow> AList.update k v m = m @ [(k, v)]"
  by (induction m) (auto split: if_splits)

lemma fold_gomap_set_append:
  "gomap_wf (m @ m') \<Longrightarrow> fold (\<lambda>(key, v). gomap_set key v) m' m = m @ m'"
proof (induction m' arbitrary: m)
  case (Cons x m')
  obtain k v where x: "x = (k, v)" by force
  have "map_of m k = None" using Cons.prems by (auto simp: x gomap_wf_def map_of_eq_None_iff)
  with Cons show ?case by (simp add: x update_fresh)
qed simp

lemma fold_gomap_set: "gomap_wf m \<Longrightarrow> fold (\<lambda>(key, v). gomap_set key v) m [] = m"
  using fold_gomap_set_append [of "[]" m] by simp

text \<open>A predicate on every entry of a map.\<close>

definition gomap_all :: "('k \<Rightarrow> 'v \<Rightarrow> bool) \<Rightarrow> ('k, 'v) gomap \<Rightarrow> bool" where
  "gomap_all P m \<longleftrightarrow> (\<forall>(k, v) \<in> set m. P k v)"

lemma gomap_all_Nil [simp]: "gomap_all P []"
  by (simp add: gomap_all_def)

lemma gomap_all_Cons [simp]: "gomap_all P ((k, v) # m) \<longleftrightarrow> P k v \<and> gomap_all P m"
  by (simp add: gomap_all_def)

lemma gomap_all_set: "gomap_all P m \<Longrightarrow> P k v \<Longrightarrow> gomap_all P (gomap_set k v m)"
  using set_update_subset [of k v m] by (fastforce simp: gomap_all_def)

lemma gomap_all_delete: "gomap_all P m \<Longrightarrow> gomap_all P (gomap_delete k m)"
  using set_delete_subset [of k m] by (fastforce simp: gomap_all_def)

lemma gomap_all_get: "gomap_all P m \<Longrightarrow> map_of m k = Some v \<Longrightarrow> P k v"
  by (auto simp: gomap_all_def dest: map_of_SomeD)

lemma case_InrE:
  assumes "case x of Inl _ \<Rightarrow> False | Inr _ \<Rightarrow> True"
  obtains r where "x = Inr r"
  using assms by (cases x) simp_all

lemma option_eqI:
  assumes "\<And>v. x = Some v \<longleftrightarrow> y = Some v"
  shows "x = y"
proof (cases x)
  case None
  then show ?thesis using assms [of "the y"] by (cases y) simp_all
next
  case (Some v)
  then show ?thesis using assms [of v] by simp
qed

end
