(* ===== verification/GoStrings.thy ===== *)
theory GoStrings
  imports Prelude
begin

text \<open>
  The functions of the Go packages \<^verbatim>\<open>strings\<close>, \<^verbatim>\<open>strconv\<close>, \<^verbatim>\<open>fmt\<close>, \<^verbatim>\<open>math/big\<close> and
  \<^verbatim>\<open>encoding/hex\<close> that the sources use, on byte strings.

  \<^verbatim>\<open>strings.TrimSpace\<close> removes leading and trailing Unicode white space; the model lists the
  UTF-8 encodings of all white-space code points, so it is exact on every byte string.
  \<^verbatim>\<open>strings.ToLower\<close> and \<^verbatim>\<open>strings.EqualFold\<close> are modelled by their ASCII case mapping, which
  is what they compute on ASCII input; bytes outside ASCII are left alone.
\<close>

section \<open>TrimSpace\<close>

definition ws_tokens :: "string list" where
  "ws_tokens =
     [[CHR 0x09], [CHR 0x0A], [CHR 0x0B], [CHR 0x0C], [CHR 0x0D], [CHR 0x20],
      [CHR 0xC2, CHR 0x85], [CHR 0xC2, CHR 0xA0], [CHR 0xE1, CHR 0x9A, CHR 0x80],
      [CHR 0xE2, CHR 0x80, CHR 0x80], [CHR 0xE2, CHR 0x80, CHR 0x81],
      [CHR 0xE2, CHR 0x80, CHR 0x82], [CHR 0xE2, CHR 0x80, CHR 0x83],
      [CHR 0xE2, CHR 0x80, CHR 0x84], [CHR 0xE2, CHR 0x80, CHR 0x85],
      [CHR 0xE2, CHR 0x80, CHR 0x86], [CHR 0xE2, CHR 0x80, CHR 0x87],
      [CHR 0xE2, CHR 0x80, CHR 0x88], [CHR 0xE2, CHR 0x80, CHR 0x89],
      [CHR 0xE2, CHR 0x80, CHR 0x8A], [CHR 0xE2, CHR 0x80, CHR 0xA8],
      [CHR 0xE2, CHR 0x80, CHR 0xA9], [CHR 0xE2, CHR 0x80, CHR 0xAF],
      [CHR 0xE2, CHR 0x81, CHR 0x9F], [CHR 0xE3, CHR 0x80, CHR 0x80]]"

text \<open>Removes tokens from the front while one matches.\<close>

function strip :: "string list \<Rightarrow> string \<Rightarrow> string" where
  "strip toks s =
     (case find (\<lambda>w. w \<noteq> [] \<and> prefix w s) toks of
        None \<Rightarrow> s
      | Some w \<Rightarrow> strip toks (drop (length w) s))"
  by pat_completeness auto
termination
  by (relation "measure (\<lambda>(toks, s). length s)")
     (auto simp: find_Some_iff prefix_def)

declare strip.simps [simp del]

definition trim_left :: "string \<Rightarrow> string" where
  "trim_left s = strip ws_tokens s"

definition trim_right :: "string \<Rightarrow> string" where
  "trim_right s = rev (strip (map rev ws_tokens) (rev s))"

definition TrimSpace :: "string \<Rightarrow> string" where
  "TrimSpace s = trim_right (trim_left s)"

definition no_token :: "string list \<Rightarrow> string \<Rightarrow> bool" where
  "no_token toks s \<longleftrightarrow> (\<forall>w \<in> set toks. w \<noteq> [] \<longrightarrow> \<not> prefix w s)"

lemma strip_id:
  assumes "no_token toks s"
  shows "strip toks s = s"
proof -
  have "find (\<lambda>w. w \<noteq> [] \<and> prefix w s) toks = None"
    using assms by (auto simp: find_None_iff no_token_def)
  then show ?thesis by (subst strip.simps) simp
qed

lemma strip_no_token: "no_token toks (strip toks s)"
proof (induction toks s rule: strip.induct)
  case (1 toks s)
  show ?case
  proof (cases "find (\<lambda>w. w \<noteq> [] \<and> prefix w s) toks")
    case None
    then have "strip toks s = s" by (subst strip.simps) simp
    with None show ?thesis by (auto simp: find_None_iff no_token_def)
  next
    case (Some w)
    with "1"[OF this] show ?thesis by (simp add: strip.simps [of toks s])
  qed
qed

lemma strip_suffix: "suffix (strip toks s) s"
proof (induction toks s rule: strip.induct)
  case (1 toks s)
  show ?case
  proof (cases "find (\<lambda>w. w \<noteq> [] \<and> prefix w s) toks")
    case None
    then show ?thesis by (subst strip.simps) simp
  next
    case (Some w)
    with "1"[OF this] show ?thesis
      by (simp add: strip.simps [of toks s]) (meson suffix_drop suffix_order.trans)
  qed
qed

lemma trim_right_prefix: "prefix (trim_right t) t"
  using strip_suffix [of "map rev ws_tokens" "rev t"]
  by (simp add: trim_right_def suffix_to_prefix)

lemma no_token_prefix: "no_token toks t \<Longrightarrow> prefix u t \<Longrightarrow> no_token toks u"
  unfolding no_token_def using prefix_order.trans by blast

lemma TrimSpace_idem [simp]: "TrimSpace (TrimSpace s) = TrimSpace s"
proof -
  define t where "t = trim_left s"
  define u where "u = trim_right t"
  have "no_token ws_tokens t" by (simp add: t_def trim_left_def strip_no_token)
  then have "no_token ws_tokens u"
    using no_token_prefix trim_right_prefix u_def by blast
  then have left: "trim_left u = u" by (simp add: trim_left_def strip_id)
  have "no_token (map rev ws_tokens) (rev u)"
    by (simp add: u_def trim_right_def strip_no_token)
  then have right: "trim_right u = u" by (simp add: trim_right_def strip_id)
  show ?thesis
    using left right by (simp add: TrimSpace_def t_def [symmetric] u_def [symmetric])
qed

text \<open>White-space tokens have no printable ASCII byte, so a string that starts and ends with
  printable bytes is unchanged.\<close>

definition graphic :: "char \<Rightarrow> bool" where
  "graphic c \<longleftrightarrow> 33 \<le> (of_char c :: nat) \<and> (of_char c :: nat) \<le> 126"

lemma ws_tokens_not_graphic: "w \<in> set ws_tokens \<Longrightarrow> c \<in> set w \<Longrightarrow> \<not> graphic c"
  by (auto simp: ws_tokens_def graphic_def)

lemma no_token_graphic:
  assumes "s \<noteq> []" "graphic (hd s)" "\<And>w c. w \<in> set toks \<Longrightarrow> c \<in> set w \<Longrightarrow> \<not> graphic c"
  shows "no_token toks s"
  unfolding no_token_def
proof (intro ballI impI notI)
  fix w assume w: "w \<in> set toks" "w \<noteq> []" "prefix w s"
  then have "hd w = hd s" by (auto simp: prefix_def)
  with w assms show False by (metis list.set_sel(1))
qed

lemma TrimSpace_graphic:
  assumes "s \<noteq> []" "graphic (hd s)" "graphic (last s)"
  shows "TrimSpace s = s"
proof -
  have "trim_left s = s"
    unfolding trim_left_def using assms ws_tokens_not_graphic
    by (intro strip_id no_token_graphic) auto
  moreover have "no_token (map rev ws_tokens) (rev s)"
    using assms ws_tokens_not_graphic by (intro no_token_graphic) (auto simp: hd_rev)
  then have "trim_right s = s" by (simp add: trim_right_def strip_id)
  ultimately show ?thesis by (simp add: TrimSpace_def)
qed

lemma TrimSpace_all_graphic:
  assumes "\<And>c. c \<in> set s \<Longrightarrow> graphic c"
  shows "TrimSpace s = s"
proof (cases "s = []")
  case True
  have "no_token toks []" for toks by (simp add: no_token_def)
  with True show ?thesis by (simp add: TrimSpace_def trim_left_def trim_right_def strip_id)
next
  case False
  with assms show ?thesis by (intro TrimSpace_graphic) simp_all
qed

lemma strip_keeps:
  "c \<in> set s \<Longrightarrow> (\<And>w. w \<in> set toks \<Longrightarrow> c \<notin> set w) \<Longrightarrow> c \<in> set (strip toks s)"
proof (induction toks s rule: strip.induct)
  case (1 toks s)
  show ?case
  proof (cases "find (\<lambda>w. w \<noteq> [] \<and> prefix w s) toks")
    case None
    then show ?thesis using "1.prems" by (subst strip.simps) simp
  next
    case (Some w)
    then have w: "w \<in> set toks" "prefix w s" by (auto simp: find_Some_iff)
    then have "c \<in> set (drop (length w) s)" using "1.prems" by (auto simp: prefix_def)
    with "1.IH" [OF Some] "1.prems"(2) Some show ?thesis by (simp add: strip.simps [of toks s])
  qed
qed

lemma TrimSpace_keeps:
  assumes "c \<in> set s" "graphic c"
  shows "c \<in> set (TrimSpace s)"
proof -
  have no: "c \<notin> set w" if "w \<in> set ws_tokens" for w
    using that assms(2) ws_tokens_not_graphic by blast
  then have "c \<in> set (trim_left s)"
    unfolding trim_left_def by (intro strip_keeps assms(1))
  then have "c \<in> set (strip (map rev ws_tokens) (rev (trim_left s)))"
    using no by (intro strip_keeps) auto
  then show ?thesis by (simp add: TrimSpace_def trim_right_def)
qed

lemma TrimSpace_graphic_nonempty: "graphic c \<Longrightarrow> c \<in> set s \<Longrightarrow> TrimSpace s \<noteq> []"
  using TrimSpace_keeps by force

lemma TrimSpace_Nil [simp, go_eval]: "TrimSpace [] = []"
  by (rule TrimSpace_all_graphic) simp

lemma TrimSpace_literal [go_eval]:
  "graphic c \<Longrightarrow> graphic (last (c # cs)) \<Longrightarrow> TrimSpace (c # cs) = c # cs"
  by (rule TrimSpace_graphic) auto

lemmas [go_eval] = graphic_def

lemma graphic_i: "graphic (CHR ''i'')"
  by (simp add: graphic_def)

text \<open>A byte map that fixes exactly the bytes of the tokens commutes with stripping.\<close>

lemma prefix_map_iff:
  assumes "\<And>a c. c \<in> set w \<Longrightarrow> (f a = c) = (a = c)"
  shows "prefix w (map f s) \<longleftrightarrow> prefix w s"
  using assms
proof (induction w arbitrary: s)
  case Nil
  then show ?case by simp
next
  case (Cons c w)
  show ?case
  proof (cases s)
    case Nil
    then show ?thesis by simp
  next
    case (Cons b t)
    have "prefix w (map f t) \<longleftrightarrow> prefix w t" by (rule Cons.IH) (simp add: Cons.prems)
    moreover have "c = f b \<longleftrightarrow> c = b" using Cons.prems [of c b] by auto
    ultimately show ?thesis by (simp add: Cons)
  qed
qed

lemma strip_map:
  assumes "\<And>w a c. w \<in> set toks \<Longrightarrow> c \<in> set w \<Longrightarrow> (f a = c) = (a = c)"
  shows "strip toks (map f s) = map f (strip toks s)"
  using assms
proof (induction toks s rule: strip.induct)
  case (1 toks s)
  have "prefix w (map f s) = prefix w s" if "w \<in> set toks" for w
    using 1(2) that by (intro prefix_map_iff) blast
  then have same: "find (\<lambda>w. w \<noteq> [] \<and> prefix w (map f s)) toks = find (\<lambda>w. w \<noteq> [] \<and> prefix w s) toks"
    by (intro find_cong) auto
  show ?case
  proof (cases "find (\<lambda>w. w \<noteq> [] \<and> prefix w s) toks")
    case None
    with same show ?thesis by (simp add: strip.simps [of toks s] strip.simps [of toks "map f s"])
  next
    case (Some w)
    have "strip toks (map f (drop (length w) s)) = map f (strip toks (drop (length w) s))"
      by (rule 1(1) [OF Some 1(2)])
    with Some same show ?thesis
      by (simp add: strip.simps [of toks s] strip.simps [of toks "map f s"] drop_map)
  qed
qed

section \<open>ToLower, EqualFold\<close>

definition ascii_lower :: "char \<Rightarrow> char" where
  "ascii_lower c =
     (if 65 \<le> (of_char c :: nat) \<and> (of_char c :: nat) \<le> 90 then char_of (of_char c + 32 :: nat) else c)"

definition ToLower :: "string \<Rightarrow> string" where
  "ToLower s = map ascii_lower s"

definition EqualFold :: "string \<Rightarrow> string \<Rightarrow> bool" where
  "EqualFold s t \<longleftrightarrow> ToLower s = ToLower t"

lemmas [go_eval] = ascii_lower_def ToLower_def EqualFold_def

lemma of_char_ascii_lower:
  "(of_char (ascii_lower c) :: nat) =
     (if 65 \<le> (of_char c :: nat) \<and> (of_char c :: nat) \<le> 90 then of_char c + 32 else of_char c)"
  by (simp add: ascii_lower_def)

lemma ascii_lower_idem [simp]: "ascii_lower (ascii_lower c) = ascii_lower c"
  by (simp add: ascii_lower_def)

lemma ToLower_idem [simp]: "ToLower (ToLower s) = ToLower s"
  by (simp add: ToLower_def)

lemma ToLower_eq_Nil [simp]: "ToLower s = [] \<longleftrightarrow> s = []"
  by (simp add: ToLower_def)

lemma ascii_lower_ws:
  assumes "w \<in> set ws_tokens" "c \<in> set w"
  shows "(ascii_lower a = c) = (a = c)"
proof -
  have c: "(of_char c :: nat) \<le> 32 \<or> 128 \<le> (of_char c :: nat)"
    using assms by (auto simp: ws_tokens_def)
  show ?thesis
  proof (cases "65 \<le> (of_char a :: nat) \<and> (of_char a :: nat) \<le> 90")
    case True
    then have "(of_char (ascii_lower a) :: nat) \<noteq> of_char c" "(of_char a :: nat) \<noteq> of_char c"
      using c of_char_ascii_lower [of a] by auto
    then show ?thesis by metis
  next
    case False
    then show ?thesis by (auto simp: ascii_lower_def)
  qed
qed

lemma TrimSpace_ToLower: "TrimSpace (ToLower s) = ToLower (TrimSpace s)"
proof -
  have left: "trim_left (ToLower t) = ToLower (trim_left t)" for t
    unfolding trim_left_def ToLower_def by (rule strip_map) (rule ascii_lower_ws)
  have "strip (map rev ws_tokens) (map ascii_lower (rev t))
      = map ascii_lower (strip (map rev ws_tokens) (rev t))" for t
    by (rule strip_map) (metis ascii_lower_ws imageE list.set_map set_rev)
  then have right: "trim_right (ToLower t) = ToLower (trim_right t)" for t
    by (simp add: trim_right_def ToLower_def rev_map)
  show ?thesis by (simp add: TrimSpace_def left right)
qed

section \<open>Cut, Split, HasPrefix\<close>

text \<open>\<^verbatim>\<open>strings.Cut\<close> at a one-byte separator: the text before, the text after, and whether the
  separator was found.\<close>

fun Cut :: "string \<Rightarrow> char \<Rightarrow> string \<times> string \<times> bool" where
  "Cut [] sep = ([], [], False)"
| "Cut (c # cs) sep =
     (if c = sep then ([], cs, True)
      else (case Cut cs sep of (b, a, ok) \<Rightarrow> (c # b, a, ok)))"

text \<open>\<^verbatim>\<open>strings.Split\<close> at a one-byte separator: never empty.\<close>

fun Split :: "string \<Rightarrow> char \<Rightarrow> string list" where
  "Split [] sep = [[]]"
| "Split (c # cs) sep =
     (if c = sep then [] # Split cs sep
      else (case Split cs sep of [] \<Rightarrow> [[c]] | p # ps \<Rightarrow> (c # p) # ps))"

abbreviation HasPrefix :: "string \<Rightarrow> string \<Rightarrow> bool" where
  "HasPrefix s p \<equiv> prefix p s"

lemma Split_nonempty [simp]: "Split s sep \<noteq> []"
  by (cases "(s, sep)" rule: Split.cases) (auto split: list.split)

lemma last_Split_append:
  "sep \<notin> set t \<Longrightarrow> last (Split (s @ sep # t) sep) = t"
proof -
  assume t: "sep \<notin> set t"
  then have last: "Split t sep = [t]" by (induction t) auto
  show ?thesis
  proof (induction s)
    case Nil
    then show ?case by (simp add: last)
  next
    case (Cons a s)
    obtain p q where s: "Split (s @ sep # t) sep = p # q" by (cases "Split (s @ sep # t) sep") auto
    have "q \<noteq> []"
    proof
      assume "q = []"
      with s have "length (Split (s @ sep # t) sep) = 1" by simp
      moreover have "length (Split (s @ sep # t) sep) \<ge> 2"
        by (induction s) (auto simp: last split: list.split)
      ultimately show False by simp
    qed
    then show ?case using Cons s by simp
  qed
qed

lemma append_sep_inject:
  "c \<notin> set a \<Longrightarrow> c \<notin> set b \<Longrightarrow> a @ c # x = b @ c # y \<longleftrightarrow> a = b \<and> x = y"
proof (induction a arbitrary: b)
  case Nil
  then show ?case by (cases b) auto
next
  case (Cons d a)
  then show ?case by (cases b) auto
qed

section \<open>Decimal numbers\<close>

definition digit_char :: "nat \<Rightarrow> char" where
  "digit_char d = char_of (48 + d)"

definition is_digit :: "char \<Rightarrow> bool" where
  "is_digit c \<longleftrightarrow> 48 \<le> (of_char c :: nat) \<and> (of_char c :: nat) \<le> 57"

definition digit_val :: "char \<Rightarrow> nat" where
  "digit_val c = of_char c - 48"

fun show_nat :: "nat \<Rightarrow> string" where
  "show_nat n = (if n < 10 then [digit_char n] else show_nat (n div 10) @ [digit_char (n mod 10)])"

declare show_nat.simps [simp del]

definition read_nat :: "string \<Rightarrow> nat option" where
  "read_nat s =
     (if s \<noteq> [] \<and> list_all is_digit s then Some (foldl (\<lambda>a c. 10 * a + digit_val c) 0 s) else None)"

lemma is_digit_char [simp]: "d < 10 \<Longrightarrow> is_digit (digit_char d)"
  by (simp add: is_digit_def digit_char_def)

lemma digit_val_char [simp]: "d < 10 \<Longrightarrow> digit_val (digit_char d) = d"
  by (simp add: digit_val_def digit_char_def)

lemma show_nat_digits: "list_all is_digit (show_nat n) \<and> show_nat n \<noteq> []"
proof (induction n rule: show_nat.induct)
  case (1 n)
  then show ?case by (cases "n < 10") (simp_all add: show_nat.simps [of n])
qed

lemma foldl_show_nat: "foldl (\<lambda>a c. 10 * a + digit_val c) 0 (show_nat n) = n"
proof (induction n rule: show_nat.induct)
  case (1 n)
  then show ?case by (cases "n < 10") (simp_all add: show_nat.simps [of n])
qed

lemma read_show_nat [simp]: "read_nat (show_nat n) = Some n"
  using show_nat_digits [of n] by (simp add: read_nat_def foldl_show_nat)

lemma show_nat_inject [simp]: "show_nat m = show_nat n \<longleftrightarrow> m = n"
  by (metis option.inject read_show_nat)

lemma show_nat_no: "\<not> is_digit c \<Longrightarrow> c \<notin> set (show_nat n)"
  using show_nat_digits [of n] by (auto simp: list_all_iff)

text \<open>\<^verbatim>\<open>big.Int.String\<close> and \<^verbatim>\<open>big.Int.SetString(s, 10)\<close>: an optional sign and at least one digit,
  nothing else.\<close>

definition show_int :: "int \<Rightarrow> string" where
  "show_int i = (if i < 0 then CHR ''-'' # show_nat (nat (- i)) else show_nat (nat i))"

definition SetString10 :: "string \<Rightarrow> int option" where
  "SetString10 s =
     (case s of
        [] \<Rightarrow> None
      | c # cs \<Rightarrow>
          if c = CHR ''-'' then map_option (\<lambda>n. - int n) (read_nat cs)
          else if c = CHR ''+'' then map_option int (read_nat cs)
          else map_option int (read_nat s))"

lemma SetString10_show_int [simp]: "SetString10 (show_int i) = Some i"
proof (cases "i < 0")
  case True
  then show ?thesis by (simp add: SetString10_def show_int_def)
next
  case False
  obtain c cs where s: "show_nat (nat i) = c # cs"
    using show_nat_digits [of "nat i"] by (cases "show_nat (nat i)") auto
  then have "is_digit c" using show_nat_digits [of "nat i"] by simp
  then have "c \<noteq> CHR ''-''" "c \<noteq> CHR ''+''" by (auto simp: is_digit_def)
  moreover have "read_nat (c # cs) = Some (nat i)" using read_show_nat [of "nat i"] s by simp
  ultimately show ?thesis using False s by (simp add: SetString10_def show_int_def)
qed

lemma show_int_inject [simp]: "show_int i = show_int j \<longleftrightarrow> i = j"
  by (metis option.inject SetString10_show_int)

lemma show_int_nonempty [simp]: "show_int i \<noteq> []"
  using show_nat_digits by (simp add: show_int_def)

lemma show_nat_graphic: "c \<in> set (show_nat n) \<Longrightarrow> graphic c"
  using show_nat_digits [of n] by (auto simp: list_all_iff graphic_def is_digit_def)

lemma show_int_graphic: "c \<in> set (show_int i) \<Longrightarrow> graphic c"
  by (auto simp: show_int_def show_nat_graphic graphic_def [of "CHR ''-''"] split: if_splits)

lemma TrimSpace_show_nat [simp]: "TrimSpace (show_nat n) = show_nat n"
  by (rule TrimSpace_all_graphic) (rule show_nat_graphic)

lemma TrimSpace_show_int [simp]: "TrimSpace (show_int i) = show_int i"
  by (rule TrimSpace_all_graphic) (rule show_int_graphic)

text \<open>\<^verbatim>\<open>fmt.Sprintf("%d", v)\<close> of an unsigned value and \<^verbatim>\<open>strconv.ParseUint(s, 10, 64)\<close>.\<close>

definition show_u64 :: "u64 \<Rightarrow> string" where
  "show_u64 v = show_nat (unat v)"

definition show_u32 :: "u32 \<Rightarrow> string" where
  "show_u32 v = show_nat (unat v)"

definition ParseUint64 :: "string \<Rightarrow> u64 option" where
  "ParseUint64 s =
     (case read_nat s of None \<Rightarrow> None | Some n \<Rightarrow> if n < 2 ^ 64 then Some (of_nat n) else None)"

lemma ParseUint64_show_u64 [simp]: "ParseUint64 (show_u64 v) = Some v"
proof -
  have "unat v < 2 ^ LENGTH(64)" by (rule unsigned_less)
  then show ?thesis by (simp add: ParseUint64_def show_u64_def)
qed

lemma show_u32_inject [simp]: "show_u32 v = show_u32 w \<longleftrightarrow> v = w"
  by (simp add: show_u32_def word_unat_eq_iff)

lemma show_u64_inject [simp]: "show_u64 v = show_u64 w \<longleftrightarrow> v = w"
  by (metis option.inject ParseUint64_show_u64)

section \<open>Hexadecimal\<close>

definition hex_digit :: "nat \<Rightarrow> char" where
  "hex_digit d = (if d < 10 then char_of (48 + d) else char_of (87 + d))"

definition hex_EncodeToString :: "bytes \<Rightarrow> string" where
  "hex_EncodeToString bs = concat (map (\<lambda>c. [hex_digit (of_char c div 16), hex_digit (of_char c mod 16)]) bs)"

lemma nibble_less: "(of_char c :: nat) div 16 < 16"
proof -
  have "(of_char c :: nat) < 16 * 16" by simp
  then show ?thesis by (rule less_mult_imp_div_less)
qed

lemma of_hex_digit: "d < 16 \<Longrightarrow> (of_char (hex_digit d) :: nat) = (if d < 10 then 48 + d else 87 + d)"
  by (simp add: hex_digit_def)

lemma hex_digit_inject:
  assumes "a < 16" "b < 16" "hex_digit a = hex_digit b"
  shows "a = b"
proof -
  have "(if a < 10 then 48 + a else 87 + a) = (if b < 10 then 48 + b else 87 + b)"
    using of_hex_digit [OF assms(1)] of_hex_digit [OF assms(2)] assms(3) by metis
  then show ?thesis by (simp split: if_splits)
qed

lemma hex_EncodeToString_Nil [simp]: "hex_EncodeToString [] = []"
  by (simp add: hex_EncodeToString_def)

lemma hex_EncodeToString_eq_Nil [simp]: "hex_EncodeToString bs = [] \<longleftrightarrow> bs = []"
  by (cases bs) (simp_all add: hex_EncodeToString_def)

lemma hex_EncodeToString_inject [simp]: "hex_EncodeToString a = hex_EncodeToString b \<longleftrightarrow> a = b"
proof
  show "hex_EncodeToString a = hex_EncodeToString b \<Longrightarrow> a = b"
  proof (induction a arbitrary: b)
    case Nil
    then show ?case by (cases b) (simp_all add: hex_EncodeToString_def)
  next
    case (Cons x a)
    then obtain y b' where b: "b = y # b'" by (cases b) (simp_all add: hex_EncodeToString_def)
    have "(of_char x :: nat) div 16 = of_char y div 16"
      by (rule hex_digit_inject) (use Cons.prems b nibble_less in \<open>auto simp: hex_EncodeToString_def\<close>)
    moreover have "(of_char x :: nat) mod 16 = of_char y mod 16"
      by (rule hex_digit_inject) (use Cons.prems b in \<open>auto simp: hex_EncodeToString_def\<close>)
    ultimately have "(of_char x :: nat) = of_char y" by (metis div_mult_mod_eq)
    moreover have "a = b'" using Cons.prems Cons.IH b by (simp add: hex_EncodeToString_def)
    ultimately show ?case using b by simp
  qed
qed simp

lemma hex_graphic: "c \<in> set (hex_EncodeToString bs) \<Longrightarrow> graphic c"
proof -
  have "graphic (hex_digit d)" if "d < 16" for d using that by (simp add: graphic_def hex_digit_def)
  then show "c \<in> set (hex_EncodeToString bs) \<Longrightarrow> graphic c"
    by (auto simp: hex_EncodeToString_def nibble_less)
qed

lemma TrimSpace_hex [simp]: "TrimSpace (hex_EncodeToString bs) = hex_EncodeToString bs"
  by (rule TrimSpace_all_graphic) (rule hex_graphic)

lemma ToLower_hex [simp]: "ToLower (hex_EncodeToString bs) = hex_EncodeToString bs"
proof -
  have "ascii_lower (hex_digit d) = hex_digit d" if "d < 16" for d
    using that by (simp add: ascii_lower_def of_hex_digit)
  then have "ascii_lower c = c" if "c \<in> set (hex_EncodeToString bs)" for c
    using that by (auto simp: hex_EncodeToString_def nibble_less)
  then show ?thesis by (simp add: ToLower_def map_idI)
qed

lemma ToLower_append: "ToLower (s @ t) = ToLower s @ ToLower t"
  by (simp add: ToLower_def)

end
