(* ===== verification/Interfaces.thy ===== *)
theory Interfaces
  imports GoStrings
begin

text \<open>
  The contracts between components, as locales: a ledger of balances, a store of entries under a
  canonical key, a rate limiter, and a state machine with an invariant. Each is interpreted in the
  theory of the component that provides it, on the component's own operations.
\<close>

section \<open>A ledger of balances\<close>

text \<open>Amounts are held per address and denom. A credit and a debit take a possibly nil amount;
  \<open>total\<close> is the sum over all addresses.\<close>

locale ledger =
  fixes inv :: "'k \<Rightarrow> bool"
    and bal :: "'k \<Rightarrow> string \<Rightarrow> string \<Rightarrow> int"
    and total :: "'k \<Rightarrow> string \<Rightarrow> int"
    and credit :: "'k \<Rightarrow> string \<Rightarrow> string \<Rightarrow> bigint \<Rightarrow> 'k \<times> 'e option"
    and debit :: "'k \<Rightarrow> string \<Rightarrow> string \<Rightarrow> bigint \<Rightarrow> 'k \<times> 'e option"
  assumes credit_inv: "inv k \<Longrightarrow> inv (fst (credit k a d v))"
    and debit_inv: "inv k \<Longrightarrow> inv (fst (debit k a d v))"
    and credit_pos: "snd (credit k a d v) = None \<Longrightarrow> \<exists>x. v = Some x \<and> 0 < x"
    and debit_pos: "snd (debit k a d v) = None \<Longrightarrow> \<exists>x. v = Some x \<and> 0 < x \<and> x \<le> bal k a d"
    and credit_bal: "snd (credit k a d (Some x)) = None \<Longrightarrow>
        bal (fst (credit k a d (Some x))) b e
          = bal k b e + (if TrimSpace b = TrimSpace a \<and> TrimSpace e = TrimSpace d then x else 0)"
    and debit_bal: "inv k \<Longrightarrow> snd (debit k a d (Some x)) = None \<Longrightarrow>
        bal (fst (debit k a d (Some x))) b e
          = bal k b e - (if TrimSpace b = TrimSpace a \<and> TrimSpace e = TrimSpace d then x else 0)"
    and credit_total: "inv k \<Longrightarrow> snd (credit k a d (Some x)) = None \<Longrightarrow>
        total (fst (credit k a d (Some x))) e = total k e + (if e = TrimSpace d then x else 0)"
    and debit_total: "inv k \<Longrightarrow> snd (debit k a d (Some x)) = None \<Longrightarrow>
        total (fst (debit k a d (Some x))) e = total k e - (if e = TrimSpace d then x else 0)"
begin

text \<open>A debit that is paid out to another address moves the amount and keeps every total.\<close>

lemma transfer_conserves:
  assumes "inv k" "debit k a d v = (k1, None)" "credit k1 b d v = (k2, None)"
  shows "total k2 e = total k e" and "inv k2"
    and "bal k2 c e = bal k c e
           - (if TrimSpace c = TrimSpace a \<and> TrimSpace e = TrimSpace d then the v else 0)
           + (if TrimSpace c = TrimSpace b \<and> TrimSpace e = TrimSpace d then the v else 0)"
proof -
  obtain x where v: "v = Some x" using debit_pos [of k a d v] assms(2) by auto
  have i1: "inv k1" using debit_inv [OF assms(1), of a d v] assms(2) by simp
  show "inv k2" using credit_inv [OF i1, of b d v] assms(3) by simp
  show "total k2 e = total k e"
    using debit_total [OF assms(1), of a d x e] credit_total [OF i1, of b d x e] assms v by simp
  show "bal k2 c e = bal k c e
           - (if TrimSpace c = TrimSpace a \<and> TrimSpace e = TrimSpace d then the v else 0)
           + (if TrimSpace c = TrimSpace b \<and> TrimSpace e = TrimSpace d then the v else 0)"
    using debit_bal [OF assms(1), of a d x c e] credit_bal [of k1 b d x c e] assms v by simp
qed

text \<open>A credit followed by a debit of the same amount restores all balances.\<close>

lemma credit_debit_restores:
  assumes "inv k" "credit k a d v = (k1, None)" "debit k1 a d v = (k2, None)"
  shows "bal k2 b e = bal k b e"
proof -
  obtain x where v: "v = Some x" using credit_pos [of k a d v] assms(2) by auto
  have i1: "inv k1" using credit_inv [OF assms(1), of a d v] assms(2) by simp
  show ?thesis
    using credit_bal [of k a d x b e] debit_bal [OF i1, of a d x b e] assms v by simp
qed

end

section \<open>A state machine with an invariant\<close>

text \<open>The reachable states of a component are those that its operations lead to from an initial
  state; an invariant of the operations holds in all of them, and a relation that every operation
  respects relates every state to the later ones.\<close>

inductive reachable :: "('s \<Rightarrow> bool) \<Rightarrow> ('s \<Rightarrow> 's \<Rightarrow> bool) \<Rightarrow> 's \<Rightarrow> bool" for init step where
  start: "init s \<Longrightarrow> reachable init step s"
| next_state: "reachable init step s \<Longrightarrow> step s t \<Longrightarrow> reachable init step t"

inductive steps :: "('s \<Rightarrow> 's \<Rightarrow> bool) \<Rightarrow> 's \<Rightarrow> 's \<Rightarrow> bool" for step where
  none: "steps step s s"
| more: "steps step s t \<Longrightarrow> step t u \<Longrightarrow> steps step s u"

locale transition_system =
  fixes init :: "'s \<Rightarrow> bool"
    and step :: "'s \<Rightarrow> 's \<Rightarrow> bool"
    and inv :: "'s \<Rightarrow> bool"
  assumes init_inv: "init s \<Longrightarrow> inv s"
    and step_inv: "inv s \<Longrightarrow> step s t \<Longrightarrow> inv t"
begin

lemma reachable_inv: "reachable init step s \<Longrightarrow> inv s"
  by (induction rule: reachable.induct) (auto intro: init_inv step_inv)

lemma steps_inv: "steps step s t \<Longrightarrow> inv s \<Longrightarrow> inv t"
  by (induction rule: steps.induct) (auto intro: step_inv)

lemma steps_related:
  assumes "steps step s t" "inv s"
    and "\<And>x. rel x x" "\<And>x y z. rel x y \<Longrightarrow> rel y z \<Longrightarrow> rel x z"
    and "\<And>x y. inv x \<Longrightarrow> step x y \<Longrightarrow> rel x y"
  shows "rel s t"
  using assms(1,2)
proof (induction rule: steps.induct)
  case (none s)
  show ?case by (rule assms(3))
next
  case (more s t u)
  then show ?case using steps_inv assms(4,5) by blast
qed

end

section \<open>A store of configuration entries\<close>

text \<open>Entries are validated, brought into canonical form and stored under their trimmed id; a later
  entry with the same id replaces the earlier one.\<close>

locale keyed_store =
  fixes id_of :: "'v \<Rightarrow> string"
    and canon :: "'v \<Rightarrow> 'v"
    and check :: "'v \<Rightarrow> 'e option"
    and get :: "'k \<Rightarrow> string \<Rightarrow> 'v option"
    and put :: "'k \<Rightarrow> 'v \<Rightarrow> 'k \<times> 'e option"
  assumes put_result: "snd (put k v) = check v"
    and put_invalid: "check v \<noteq> None \<Longrightarrow> fst (put k v) = k"
    and get_put: "check v = None \<Longrightarrow>
        get (fst (put k v)) i = (if TrimSpace i = TrimSpace (id_of v) then Some (canon v) else get k i)"
begin

lemma last_put_wins:
  assumes "check v = None" "check w = None" "TrimSpace (id_of v) = TrimSpace (id_of w)"
  shows "get (fst (put (fst (put k v)) w)) i = get (fst (put k w)) i"
  using assms by (simp add: get_put)

lemma puts_commute:
  assumes "TrimSpace (id_of v) \<noteq> TrimSpace (id_of w)"
  shows "get (fst (put (fst (put k v)) w)) i = get (fst (put (fst (put k w)) v)) i"
proof (cases "check v = None \<and> check w = None")
  case True
  then show ?thesis using assms by (auto simp: get_put)
next
  case False
  then show ?thesis by (auto simp: put_invalid)
qed

end

end
