(* ===== verification/AppConfig.thy ===== *)
theory AppConfig
  imports Interfaces
begin

text \<open>
  Configuration of the application (\<^verbatim>\<open>chain/aegislink/app/config.go\<close>, \<^verbatim>\<open>genesis.go\<close>, the helpers of
  \<^verbatim>\<open>app.go\<close> and \<^verbatim>\<open>encoding.go\<close>): defaults, normalisation, merging of a stored with an explicit configuration,
  validation, and validation of a genesis. The temporary directory of the host is the argument \<open>tmp\<close>, and
  reading a configuration file is the argument \<open>loadConfig\<close>.
\<close>

section \<open>Paths\<close>

text \<open>\<^verbatim>\<open>filepath.Clean\<close> and \<^verbatim>\<open>filepath.Join\<close> on slash-separated paths: empty and dot elements vanish, a
  double-dot element removes the one before it.\<close>

fun clean_elems :: "bool \<Rightarrow> string list \<Rightarrow> string list \<Rightarrow> string list" where
  "clean_elems rooted stack [] = rev stack"
| "clean_elems rooted stack (e # es) =
     (if e = '''' \<or> e = ''.'' then clean_elems rooted stack es
      else if e = ''..'' then
        (if stack \<noteq> [] \<and> hd stack \<noteq> ''..'' then clean_elems rooted (tl stack) es
         else if rooted then clean_elems rooted stack es
         else clean_elems rooted (e # stack) es)
      else clean_elems rooted (e # stack) es)"

fun join_slash :: "string list \<Rightarrow> string" where
  "join_slash [] = ''''"
| "join_slash [e] = e"
| "join_slash (e # es) = e @ ''/'' @ join_slash es"

definition filepath_Clean :: "string \<Rightarrow> string" where
  "filepath_Clean path =
     (let rooted = (path \<noteq> '''' \<and> hd path = CHR ''/'');
          cleaned = join_slash (clean_elems rooted [] (Split path (CHR ''/'')))
      in if rooted then ''/'' @ cleaned else if cleaned = '''' then ''.'' else cleaned)"

definition filepath_Join :: "string list \<Rightarrow> string" where
  "filepath_Join elems =
     (let rest = dropWhile (\<lambda>e. e = '''') elems in if rest = [] then '''' else filepath_Clean (join_slash rest))"

section \<open>Configuration\<close>

abbreviation (input) AppName :: string where "AppName \<equiv> ''aegislink''"
abbreviation (input) DefaultChainID :: string where "DefaultChainID \<equiv> ''aegislink-local-1''"
abbreviation (input) DefaultRuntimeMode :: string where "DefaultRuntimeMode \<equiv> ''runtime-shell''"
abbreviation (input) RuntimeModeSDKStore :: string where "RuntimeModeSDKStore \<equiv> ''sdk-store-runtime''"

record Config =
  cf_AppName :: string
  cf_ChainID :: string
  cf_RuntimeMode :: string
  cf_HomeDir :: string
  cf_ConfigPath :: string
  cf_GenesisPath :: string
  cf_Modules :: "string list"
  cf_StatePath :: string
  cf_AllowedSigners :: "string list"
  cf_GovernanceAuthorities :: "string list"
  cf_RequiredThreshold :: u32

record Genesis =
  gn_AppName :: string
  gn_ChainID :: string
  gn_Modules :: "string list"
  gn_AllowedSigners :: "string list"
  gn_GovernanceAuthorities :: "string list"
  gn_RequiredThreshold :: u32

datatype config_error = ConfigError string | ConfigReadError string

definition defaultHomeDir :: "string \<Rightarrow> string" where
  "defaultHomeDir tmp = filepath_Join [tmp, ''aegislinkd'']"

definition runtimeConfigPath :: "string \<Rightarrow> string" where
  "runtimeConfigPath homeDir = filepath_Join [homeDir, ''config'', ''runtime.json'']"

definition runtimeGenesisPath :: "string \<Rightarrow> string" where
  "runtimeGenesisPath homeDir = filepath_Join [homeDir, ''config'', ''genesis.json'']"

definition runtimeStatePath :: "string \<Rightarrow> string" where
  "runtimeStatePath homeDir = filepath_Join [homeDir, ''data'', ''state.json'']"

definition runtimeStorePath :: "string \<Rightarrow> string" where
  "runtimeStorePath homeDir = filepath_Join [homeDir, ''data'', ''store'']"

definition DefaultConfig :: "string \<Rightarrow> Config" where
  "DefaultConfig tmp =
     \<lparr>cf_AppName = AppName, cf_ChainID = DefaultChainID, cf_RuntimeMode = DefaultRuntimeMode,
      cf_HomeDir = defaultHomeDir tmp, cf_ConfigPath = runtimeConfigPath (defaultHomeDir tmp),
      cf_GenesisPath = runtimeGenesisPath (defaultHomeDir tmp),
      cf_Modules = [''bridge'', ''bank'', ''registry'', ''limits'', ''pauser'', ''ibcrouter'', ''governance''],
      cf_StatePath = runtimeStatePath (defaultHomeDir tmp), cf_AllowedSigners = [],
      cf_GovernanceAuthorities = [''guardian-1''], cf_RequiredThreshold = 2\<rparr>"

text \<open>One loop of \<^verbatim>\<open>normalizeModules\<close>: trimmed names that are new are appended.\<close>

fun append_modules :: "string list \<Rightarrow> string list \<Rightarrow> string list" where
  "append_modules normalized [] = normalized"
| "append_modules normalized (m # ms) =
     (let moduleName = TrimSpace m in
      if moduleName = '''' then append_modules normalized ms
      else if moduleName \<in> set normalized then append_modules normalized ms
      else append_modules (normalized @ [moduleName]) ms)"

definition normalizeModules :: "string list \<Rightarrow> string list \<Rightarrow> string list" where
  "normalizeModules modules defaults =
     (if modules = [] then defaults else append_modules (append_modules [] modules) defaults)"

definition normalizeConfig :: "string \<Rightarrow> Config \<Rightarrow> Config" where
  "normalizeConfig tmp c =
     (let defaults = DefaultConfig tmp;
          mode = (if cf_RuntimeMode c = '''' then cf_RuntimeMode defaults else cf_RuntimeMode c);
          home = (if cf_HomeDir c = '''' then cf_HomeDir defaults else cf_HomeDir c) in
      \<lparr>cf_AppName = (if cf_AppName c = '''' then cf_AppName defaults else cf_AppName c),
       cf_ChainID = (if cf_ChainID c = '''' then cf_ChainID defaults else cf_ChainID c),
       cf_RuntimeMode = mode,
       cf_HomeDir = home,
       cf_ConfigPath = (if cf_ConfigPath c = '''' then runtimeConfigPath home else cf_ConfigPath c),
       cf_GenesisPath = (if cf_GenesisPath c = '''' then runtimeGenesisPath home else cf_GenesisPath c),
       cf_Modules = normalizeModules (cf_Modules c) (cf_Modules defaults),
       cf_StatePath = (if cf_StatePath c = '''' then
                         (if mode = RuntimeModeSDKStore then runtimeStorePath home else runtimeStatePath home)
                       else cf_StatePath c),
       cf_AllowedSigners = (if cf_AllowedSigners c = [] then cf_AllowedSigners defaults else cf_AllowedSigners c),
       cf_GovernanceAuthorities =
         (if cf_GovernanceAuthorities c = [] then cf_GovernanceAuthorities defaults else cf_GovernanceAuthorities c),
       cf_RequiredThreshold = (if cf_RequiredThreshold c = 0 then cf_RequiredThreshold defaults else cf_RequiredThreshold c)\<rparr>)"

definition mergeConfig :: "Config \<Rightarrow> Config \<Rightarrow> Config" where
  "mergeConfig base override =
     \<lparr>cf_AppName = (if cf_AppName override \<noteq> '''' then cf_AppName override else cf_AppName base),
      cf_ChainID = (if cf_ChainID override \<noteq> '''' then cf_ChainID override else cf_ChainID base),
      cf_RuntimeMode = (if cf_RuntimeMode override \<noteq> '''' then cf_RuntimeMode override else cf_RuntimeMode base),
      cf_HomeDir = (if cf_HomeDir override \<noteq> '''' then cf_HomeDir override else cf_HomeDir base),
      cf_ConfigPath = (if cf_ConfigPath override \<noteq> '''' then cf_ConfigPath override else cf_ConfigPath base),
      cf_GenesisPath = (if cf_GenesisPath override \<noteq> '''' then cf_GenesisPath override else cf_GenesisPath base),
      cf_Modules = (if cf_Modules override \<noteq> [] then cf_Modules override else cf_Modules base),
      cf_StatePath = (if cf_StatePath override \<noteq> '''' then cf_StatePath override else cf_StatePath base),
      cf_AllowedSigners = (if cf_AllowedSigners override \<noteq> [] then cf_AllowedSigners override else cf_AllowedSigners base),
      cf_GovernanceAuthorities =
        (if cf_GovernanceAuthorities override \<noteq> [] then cf_GovernanceAuthorities override else cf_GovernanceAuthorities base),
      cf_RequiredThreshold = (if 0 < cf_RequiredThreshold override then cf_RequiredThreshold override else cf_RequiredThreshold base)\<rparr>"

definition validateConfig :: "Config \<Rightarrow> config_error option" where
  "validateConfig c =
     (let mode = TrimSpace (cf_RuntimeMode c) in
      if mode \<noteq> '''' \<and> mode \<noteq> DefaultRuntimeMode \<and> mode \<noteq> RuntimeModeSDKStore then Some (ConfigError ''unsupported runtime mode'')
      else if TrimSpace (cf_HomeDir c) = '''' then Some (ConfigError ''home dir is required'')
      else if TrimSpace (cf_ConfigPath c) = '''' then Some (ConfigError ''config path is required'')
      else if TrimSpace (cf_GenesisPath c) = '''' then Some (ConfigError ''genesis path is required'')
      else if TrimSpace (cf_StatePath c) = '''' then Some (ConfigError ''state path is required'')
      else if cf_AllowedSigners c = [] then Some (ConfigError ''at least one allowed signer is required'')
      else if cf_GovernanceAuthorities c = [] then Some (ConfigError ''at least one governance authority is required'')
      else if cf_RequiredThreshold c = 0 then Some (ConfigError ''required threshold must be greater than zero'')
      else if length (cf_AllowedSigners c) < unat (cf_RequiredThreshold c)
      then Some (ConfigError ''required threshold exceeds configured signers'')
      else None)"

text \<open>What \<^verbatim>\<open>LoadConfig\<close> reports for a path.\<close>

datatype load_result = Loaded Config | NotExist | ReadFailed string

definition ResolveConfig :: "string \<Rightarrow> (string \<Rightarrow> load_result) \<Rightarrow> Config \<Rightarrow> config_error + Config" where
  "ResolveConfig tmp loadConfig explicit =
     (let cfg = normalizeConfig tmp explicit;
          resolved = (case loadConfig (cf_ConfigPath cfg) of
              Loaded stored \<Rightarrow> Inr (normalizeConfig tmp (mergeConfig stored explicit))
            | NotExist \<Rightarrow> Inr cfg
            | ReadFailed e \<Rightarrow> Inl (ConfigReadError e))
      in case resolved of
           Inl e \<Rightarrow> Inl e
         | Inr c \<Rightarrow> (case validateConfig c of Some e \<Rightarrow> Inl e | None \<Rightarrow> Inr c))"

definition DefaultGenesis :: "string \<Rightarrow> Config \<Rightarrow> Genesis" where
  "DefaultGenesis tmp c =
     (let cfg = normalizeConfig tmp c in
      \<lparr>gn_AppName = cf_AppName cfg, gn_ChainID = cf_ChainID cfg, gn_Modules = cf_Modules cfg,
       gn_AllowedSigners = cf_AllowedSigners cfg, gn_GovernanceAuthorities = cf_GovernanceAuthorities cfg,
       gn_RequiredThreshold = cf_RequiredThreshold cfg\<rparr>)"

section \<open>Genesis\<close>

text \<open>The two loops of \<^verbatim>\<open>Genesis.Validate\<close>: trimmed names must be non-empty and new.\<close>

fun check_names :: "string \<Rightarrow> string list \<Rightarrow> string list \<Rightarrow> config_error option" where
  "check_names what seen [] = None"
| "check_names what seen (n # ns) =
     (let name = TrimSpace n in
      if name = '''' then Some (ConfigError (''genesis '' @ what @ '' must not be empty''))
      else if name \<in> set seen then Some (ConfigError (''duplicate genesis '' @ what))
      else check_names what (name # seen) ns)"

definition genesis_Validate :: "Genesis \<Rightarrow> config_error option" where
  "genesis_Validate g =
     (if TrimSpace (gn_AppName g) = '''' then Some (ConfigError ''genesis app name is required'')
      else if TrimSpace (gn_ChainID g) = '''' then Some (ConfigError ''genesis chain id is required'')
      else if gn_Modules g = [] then Some (ConfigError ''genesis modules are required'')
      else if gn_AllowedSigners g = [] then Some (ConfigError ''genesis allowed signers are required'')
      else if gn_RequiredThreshold g = 0 then Some (ConfigError ''genesis required threshold must be greater than zero'')
      else if length (gn_AllowedSigners g) < unat (gn_RequiredThreshold g)
      then Some (ConfigError ''genesis threshold exceeds configured signers'')
      else case check_names ''module'' [] (gn_Modules g) of
        Some e \<Rightarrow> Some e
      | None \<Rightarrow> check_names ''signer'' [] (gn_AllowedSigners g))"

section \<open>Encoding and store keys\<close>

record EncodingConfig =
  ec_CodecName :: string
  ec_InterfaceRegistry :: "string list"
  ec_SignMode :: string
  ec_BroadcastMode :: string

definition DefaultEncodingConfig :: "string list \<Rightarrow> EncodingConfig" where
  "DefaultEncodingConfig modules =
     \<lparr>ec_CodecName = ''proto-json'', ec_InterfaceRegistry = sort (map (\<lambda>m. m @ ''.msg'') modules @ [''sdk.Msg'', ''sdk.Tx'']),
      ec_SignMode = ''direct'', ec_BroadcastMode = ''sync''\<rparr>"

definition defaultStoreKeys :: "string list \<Rightarrow> (string, string) gomap" where
  "defaultStoreKeys modules = fold (\<lambda>m. gomap_set m (AppName @ ''/'' @ m)) modules []"

section \<open>Normalisation\<close>

definition module_list :: "string list \<Rightarrow> bool" where
  "module_list ms \<longleftrightarrow> distinct ms \<and> (\<forall>m \<in> set ms. TrimSpace m = m \<and> m \<noteq> [])"

lemma append_modules_list: "module_list acc \<Longrightarrow> module_list (append_modules acc ms)"
proof (induction ms arbitrary: acc)
  case (Cons m ms)
  have "module_list (acc @ [TrimSpace m])" if "TrimSpace m \<noteq> []" "TrimSpace m \<notin> set acc"
    using Cons.prems that by (auto simp: module_list_def)
  with Cons show ?case by (simp add: Let_def)
qed simp

lemma append_modules_set: "set (append_modules acc ms) = set acc \<union> (TrimSpace ` set ms - {[]})"
  by (induction ms arbitrary: acc) (auto simp: Let_def)

text \<open>Names that are already there leave the list as it is.\<close>

lemma append_modules_absorb: "TrimSpace ` set ms \<subseteq> insert [] (set acc) \<Longrightarrow> append_modules acc ms = acc"
  by (induction ms) (auto simp: Let_def)

lemma append_modules_own:
  "module_list (acc @ ms) \<Longrightarrow> append_modules acc ms = acc @ ms"
proof (induction ms arbitrary: acc)
  case (Cons m ms)
  then have "append_modules (acc @ [m]) ms = (acc @ [m]) @ ms" by (intro Cons.IH) simp
  with Cons.prems show ?case by (simp add: Let_def module_list_def)
qed simp

lemma default_modules: "module_list (cf_Modules (DefaultConfig tmp))"
  by (simp add: module_list_def DefaultConfig_def go_eval)

lemma normalizeModules_list: "module_list defaults \<Longrightarrow> module_list (normalizeModules modules defaults)"
  by (simp add: normalizeModules_def append_modules_list module_list_def [of "[]"])

lemma normalizeModules_defaults: "module_list defaults \<Longrightarrow> set defaults \<subseteq> set (normalizeModules modules defaults)"
  by (force simp: normalizeModules_def append_modules_set module_list_def)

lemma normalizeModules_fixed:
  assumes "module_list ms" "module_list defaults" "set defaults \<subseteq> set ms"
  shows "normalizeModules ms defaults = ms"
proof -
  have "append_modules [] ms = ms" using append_modules_own [of "[]" ms] assms(1) by simp
  moreover have "append_modules ms defaults = ms"
    using assms(2,3) by (intro append_modules_absorb) (auto simp: module_list_def)
  ultimately show ?thesis using assms by (auto simp: normalizeModules_def)
qed

text \<open>A configuration whose fields are all set is a fixed point of normalisation.\<close>

definition config_complete :: "Config \<Rightarrow> bool" where
  "config_complete c \<longleftrightarrow>
     cf_AppName c \<noteq> [] \<and> cf_ChainID c \<noteq> [] \<and> cf_RuntimeMode c \<noteq> [] \<and> cf_HomeDir c \<noteq> [] \<and> cf_ConfigPath c \<noteq> []
     \<and> cf_GenesisPath c \<noteq> [] \<and> cf_StatePath c \<noteq> [] \<and> cf_GovernanceAuthorities c \<noteq> [] \<and> cf_RequiredThreshold c \<noteq> 0
     \<and> module_list (cf_Modules c)
     \<and> {''bridge'', ''bank'', ''registry'', ''limits'', ''pauser'', ''ibcrouter'', ''governance''} \<subseteq> set (cf_Modules c)"

lemma filepath_Clean_nonempty: "filepath_Clean p \<noteq> []"
  by (simp add: filepath_Clean_def Let_def)

lemma filepath_Join_nonempty: "e \<noteq> [] \<Longrightarrow> e \<in> set es \<Longrightarrow> filepath_Join es \<noteq> []"
  by (auto simp: filepath_Join_def Let_def filepath_Clean_nonempty dropWhile_eq_Nil_conv)

lemma default_paths_nonempty [simp]:
  "defaultHomeDir tmp \<noteq> []" "runtimeConfigPath h \<noteq> []" "runtimeGenesisPath h \<noteq> []" "runtimeStatePath h \<noteq> []" "runtimeStorePath h \<noteq> []"
  unfolding defaultHomeDir_def runtimeConfigPath_def runtimeGenesisPath_def runtimeStatePath_def runtimeStorePath_def
  by (rule filepath_Join_nonempty [of "''aegislinkd''"], simp, simp)
     (rule filepath_Join_nonempty [of "''config''"] filepath_Join_nonempty [of "''data''"]; simp; fail)+

lemma default_fields [simp]:
  "cf_AppName (DefaultConfig tmp) \<noteq> []" "cf_ChainID (DefaultConfig tmp) \<noteq> []" "cf_RuntimeMode (DefaultConfig tmp) \<noteq> []"
  "cf_HomeDir (DefaultConfig tmp) \<noteq> []" "cf_GovernanceAuthorities (DefaultConfig tmp) \<noteq> []" "cf_RequiredThreshold (DefaultConfig tmp) \<noteq> 0"
  "cf_AllowedSigners (DefaultConfig tmp) = []"
  "set (cf_Modules (DefaultConfig tmp)) = {''bridge'', ''bank'', ''registry'', ''limits'', ''pauser'', ''ibcrouter'', ''governance''}"
  by (simp_all add: DefaultConfig_def)

lemma normalizeConfig_complete: "config_complete (normalizeConfig tmp c)"
proof -
  have "module_list (normalizeModules (cf_Modules c) (cf_Modules (DefaultConfig tmp)))"
    by (rule normalizeModules_list [OF default_modules])
  moreover have "set (cf_Modules (DefaultConfig tmp)) \<subseteq> set (normalizeModules (cf_Modules c) (cf_Modules (DefaultConfig tmp)))"
    by (rule normalizeModules_defaults [OF default_modules])
  ultimately show ?thesis
    unfolding config_complete_def normalizeConfig_def Let_def by simp
qed

lemma normalizeConfig_fixed:
  assumes "config_complete c"
  shows "normalizeConfig tmp c = c"
proof -
  have "normalizeModules (cf_Modules c) (cf_Modules (DefaultConfig tmp)) = cf_Modules c"
    using assms default_modules [of tmp] by (intro normalizeModules_fixed) (simp_all add: config_complete_def)
  then show ?thesis
    using assms unfolding normalizeConfig_def Let_def config_complete_def by simp
qed

lemma check_names_None:
  "check_names what seen ns = None \<longleftrightarrow>
     distinct (map TrimSpace ns) \<and> set seen \<inter> TrimSpace ` set ns = {} \<and> [] \<notin> TrimSpace ` set ns"
  by (induction ns arbitrary: seen) (auto simp: Let_def)

lemma module_list_check: "module_list ms \<Longrightarrow> check_names what [] ms = None"
  by (auto simp: check_names_None module_list_def map_idI)

section \<open>Properties\<close>


definition example_config :: Config where
  "example_config = (DefaultConfig ''/tmp'')\<lparr>cf_AllowedSigners := [''0x61'', ''0x62''], cf_Modules := ['' bank '', ''extra'']\<rparr>"


end
