(* ===== verification/IBCRouter.thy ===== *)
theory IBCRouter
  imports Interfaces
begin

text \<open>
  The IBC router of \<^verbatim>\<open>chain/aegislink/x/ibcrouter\<close>: routes per asset, route profiles with their policies,
  the life cycle of outgoing transfers (pending, completed, failed, timed out, refunded), the transport
  session that goes with each transfer, and export and import. The keeper is the in-memory one,
  whose \<^verbatim>\<open>persist\<close> does nothing.
\<close>

section \<open>Route profiles\<close>

datatype router_error =
    ErrRouteNotFound | ErrRouteDisabled | ErrInvalidRoute string | ErrInvalidIBCTransfer string
  | ErrTransferNotFound | ErrTransferNotPending | ErrTransferNotRecoverable
  | ErrRouteProfileNotFound | ErrRouteProfileDisabled | ErrRouteProfileAssetNotAllowed
  | ErrRouteProfilePolicyViolation | ErrInvalidRouteProfile string | InvalidRouterState string

record AssetRoute =
  ar_AssetID :: string
  ar_DestinationDenom :: string

record RoutePolicy =
  rp_AllowedMemoPrefixes :: "string list"
  rp_AllowedActionTypes :: "string list"

record RouteProfile =
  pr_RouteID :: string
  pr_DestinationChainID :: string
  pr_ChannelID :: string
  pr_Enabled :: bool
  pr_Assets :: "AssetRoute list"
  pr_Policy :: RoutePolicy

definition assetroute_ValidateBasic :: "AssetRoute \<Rightarrow> router_error option" where
  "assetroute_ValidateBasic a =
     (if TrimSpace (ar_AssetID a) = '''' then Some (ErrInvalidRouteProfile ''missing asset id'')
      else if TrimSpace (ar_DestinationDenom a) = '''' then Some (ErrInvalidRouteProfile ''missing destination denom'')
      else None)"

definition assetroute_Canonical :: "AssetRoute \<Rightarrow> AssetRoute" where
  "assetroute_Canonical a =
     a\<lparr>ar_AssetID := TrimSpace (ar_AssetID a), ar_DestinationDenom := TrimSpace (ar_DestinationDenom a)\<rparr>"

definition policy_Canonical :: "RoutePolicy \<Rightarrow> RoutePolicy" where
  "policy_Canonical p =
     p\<lparr>rp_AllowedMemoPrefixes := map TrimSpace (rp_AllowedMemoPrefixes p),
       rp_AllowedActionTypes := map TrimSpace (rp_AllowedActionTypes p)\<rparr>"

definition routeActionType :: "string \<Rightarrow> string" where
  "routeActionType memo0 =
     (let memo = TrimSpace memo0 in
      if memo = '''' then '''' else case Cut memo (CHR '':'') of (pre, _, _) \<Rightarrow> TrimSpace pre)"

definition policy_AllowsMemo :: "RoutePolicy \<Rightarrow> string \<Rightarrow> bool" where
  "policy_AllowsMemo p memo =
     (if rp_AllowedMemoPrefixes p = [] then True
      else let trimmedMemo = TrimSpace memo in
        list_ex (\<lambda>pre. (pre = '''' \<and> trimmedMemo = '''') \<or> (pre \<noteq> '''' \<and> HasPrefix trimmedMemo pre))
          (rp_AllowedMemoPrefixes (policy_Canonical p)))"

definition policy_AllowsAction :: "RoutePolicy \<Rightarrow> string \<Rightarrow> bool" where
  "policy_AllowsAction p memo =
     (if rp_AllowedActionTypes p = [] then True
      else let actionType = routeActionType memo in
        if actionType = '''' then True
        else list_ex (\<lambda>allowed. allowed = actionType) (rp_AllowedActionTypes (policy_Canonical p)))"

fun check_assets :: "AssetRoute list \<Rightarrow> router_error option" where
  "check_assets [] = None"
| "check_assets (a # as) = (case assetroute_ValidateBasic a of Some e \<Rightarrow> Some e | None \<Rightarrow> check_assets as)"

definition profile_ValidateBasic :: "RouteProfile \<Rightarrow> router_error option" where
  "profile_ValidateBasic p =
     (if TrimSpace (pr_RouteID p) = '''' then Some (ErrInvalidRouteProfile ''missing route id'')
      else if TrimSpace (pr_DestinationChainID p) = '''' then Some (ErrInvalidRouteProfile ''missing destination chain id'')
      else if TrimSpace (pr_ChannelID p) = '''' then Some (ErrInvalidRouteProfile ''missing channel id'')
      else if pr_Assets p = [] then Some (ErrInvalidRouteProfile ''missing allowed assets'')
      else check_assets (pr_Assets p))"

definition profile_Canonical :: "RouteProfile \<Rightarrow> RouteProfile" where
  "profile_Canonical p =
     p\<lparr>pr_RouteID := TrimSpace (pr_RouteID p), pr_DestinationChainID := TrimSpace (pr_DestinationChainID p),
       pr_ChannelID := TrimSpace (pr_ChannelID p), pr_Policy := policy_Canonical (pr_Policy p),
       pr_Assets := map assetroute_Canonical (pr_Assets p)\<rparr>"

definition profile_AssetRoute :: "RouteProfile \<Rightarrow> string \<Rightarrow> AssetRoute option" where
  "profile_AssetRoute p assetID =
     (let trimmedAssetID = TrimSpace assetID in
      find (\<lambda>a. ar_AssetID a = trimmedAssetID) (pr_Assets (profile_Canonical p)))"

section \<open>Routes, transfers and transport sessions\<close>

abbreviation (input) TransferStatusPending :: string where "TransferStatusPending \<equiv> ''pending''"
abbreviation (input) TransferStatusCompleted :: string where "TransferStatusCompleted \<equiv> ''completed''"
abbreviation (input) TransferStatusAckFailed :: string where "TransferStatusAckFailed \<equiv> ''ack_failed''"
abbreviation (input) TransferStatusTimedOut :: string where "TransferStatusTimedOut \<equiv> ''timed_out''"
abbreviation (input) TransferStatusRefunded :: string where "TransferStatusRefunded \<equiv> ''refunded''"

abbreviation (input) TransportStageHandshakePending :: string where "TransportStageHandshakePending \<equiv> ''handshake_pending''"
abbreviation (input) TransportStageHandshakeOpen :: string where "TransportStageHandshakeOpen \<equiv> ''handshake_open''"
abbreviation (input) TransportStagePacketRelayed :: string where "TransportStagePacketRelayed \<equiv> ''packet_relayed''"
abbreviation (input) TransportStageAckCompleted :: string where "TransportStageAckCompleted \<equiv> ''ack_completed''"
abbreviation (input) TransportStageAckFailed :: string where "TransportStageAckFailed \<equiv> ''ack_failed''"
abbreviation (input) TransportStageTimedOut :: string where "TransportStageTimedOut \<equiv> ''timed_out''"

record Route =
  rt_AssetID :: string
  rt_DestinationChainID :: string
  rt_ChannelID :: string
  rt_DestinationDenom :: string
  rt_Enabled :: bool

record TransferRecord =
  tr_TransferID :: string
  tr_AssetID :: string
  tr_Amount :: int
  tr_Receiver :: string
  tr_DestinationChainID :: string
  tr_ChannelID :: string
  tr_DestinationDenom :: string
  tr_TimeoutHeight :: u64
  tr_Memo :: string
  tr_Status :: string
  tr_FailureReason :: string

record TransportRecord =
  tp_TransferID :: string
  tp_AssetID :: string
  tp_DestinationChainID :: string
  tp_ChannelID :: string
  tp_PacketSequence :: u64
  tp_Stage :: string
  tp_AckReason :: string

record RouterKeeper =
  ik_routes :: "(string, Route) gomap"
  ik_routeProfiles :: "(string, RouteProfile) gomap"
  ik_transfers :: "(string, TransferRecord) gomap"
  ik_transportSessions :: "(string, TransportRecord) gomap"
  ik_nextSequence :: u64

definition route_ValidateBasic :: "Route \<Rightarrow> router_error option" where
  "route_ValidateBasic r =
     (if TrimSpace (rt_AssetID r) = '''' then Some (ErrInvalidRoute ''missing asset id'')
      else if TrimSpace (rt_DestinationChainID r) = '''' then Some (ErrInvalidRoute ''missing destination chain id'')
      else if TrimSpace (rt_ChannelID r) = '''' then Some (ErrInvalidRoute ''missing channel id'')
      else if TrimSpace (rt_DestinationDenom r) = '''' then Some (ErrInvalidRoute ''missing destination denom'')
      else None)"

definition router_NewKeeper :: RouterKeeper where
  "router_NewKeeper =
     \<lparr>ik_routes = [], ik_routeProfiles = [], ik_transfers = [], ik_transportSessions = [], ik_nextSequence = 1\<rparr>"

definition routeKey :: "string \<Rightarrow> string" where
  "routeKey assetID = TrimSpace assetID"

definition routeProfileKey :: "string \<Rightarrow> string" where
  "routeProfileKey routeID = TrimSpace routeID"

definition canonicalRoute :: "Route \<Rightarrow> Route" where
  "canonicalRoute r =
     r\<lparr>rt_AssetID := TrimSpace (rt_AssetID r), rt_DestinationChainID := TrimSpace (rt_DestinationChainID r),
       rt_ChannelID := TrimSpace (rt_ChannelID r), rt_DestinationDenom := TrimSpace (rt_DestinationDenom r)\<rparr>"

definition cloneTransferRecord :: "TransferRecord \<Rightarrow> TransferRecord" where
  "cloneTransferRecord r =
     r\<lparr>tr_TransferID := TrimSpace (tr_TransferID r), tr_AssetID := TrimSpace (tr_AssetID r),
       tr_Receiver := TrimSpace (tr_Receiver r), tr_DestinationChainID := TrimSpace (tr_DestinationChainID r),
       tr_ChannelID := TrimSpace (tr_ChannelID r), tr_DestinationDenom := TrimSpace (tr_DestinationDenom r),
       tr_Memo := TrimSpace (tr_Memo r), tr_FailureReason := TrimSpace (tr_FailureReason r)\<rparr>"

definition transferSequence :: "string \<Rightarrow> u64" where
  "transferSequence transferID =
     (case ParseUint64 (last (Split (TrimSpace transferID) (CHR ''/''))) of None \<Rightarrow> 0 | Some n \<Rightarrow> n)"

definition ensureTransportSession :: "RouterKeeper \<Rightarrow> TransferRecord \<Rightarrow> TransportRecord" where
  "ensureTransportSession k r =
     (case gomap_get (ik_transportSessions k) (tr_TransferID r) of
        Some transport \<Rightarrow> transport
      | None \<Rightarrow>
          \<lparr>tp_TransferID = tr_TransferID r, tp_AssetID = tr_AssetID r,
           tp_DestinationChainID = tr_DestinationChainID r, tp_ChannelID = tr_ChannelID r,
           tp_PacketSequence = transferSequence (tr_TransferID r),
           tp_Stage = TransportStageHandshakePending, tp_AckReason = ''''\<rparr>)"

section \<open>Operations\<close>

definition router_SetRoute :: "RouterKeeper \<Rightarrow> Route \<Rightarrow> RouterKeeper \<times> router_error option" where
  "router_SetRoute k route =
     (case route_ValidateBasic route of
        Some e \<Rightarrow> (k, Some e)
      | None \<Rightarrow>
          let stored = canonicalRoute route in
          (k\<lparr>ik_routes := gomap_set (routeKey (rt_AssetID stored)) stored (ik_routes k)\<rparr>, None))"

definition router_SetRouteProfile :: "RouterKeeper \<Rightarrow> RouteProfile \<Rightarrow> RouterKeeper \<times> router_error option" where
  "router_SetRouteProfile k profile =
     (case profile_ValidateBasic profile of
        Some e \<Rightarrow> (k, Some e)
      | None \<Rightarrow>
          let stored = profile_Canonical profile in
          (k\<lparr>ik_routeProfiles := gomap_set (routeProfileKey (pr_RouteID stored)) stored (ik_routeProfiles k)\<rparr>, None))"

definition router_GetRoute :: "RouterKeeper \<Rightarrow> string \<Rightarrow> Route option" where
  "router_GetRoute k assetID = gomap_get (ik_routes k) (routeKey assetID)"

definition router_GetRouteProfile :: "RouterKeeper \<Rightarrow> string \<Rightarrow> RouteProfile option" where
  "router_GetRouteProfile k routeID = gomap_get (ik_routeProfiles k) (routeProfileKey routeID)"

definition transfer_id :: "string \<Rightarrow> u64 \<Rightarrow> string" where
  "transfer_id assetID sequence = ''ibc/'' @ TrimSpace assetID @ ''/'' @ show_u64 sequence"

definition initiateTransfer ::
    "RouterKeeper \<Rightarrow> string \<Rightarrow> bigint \<Rightarrow> string \<Rightarrow> u64 \<Rightarrow> string \<Rightarrow> string \<Rightarrow> string \<Rightarrow> string
     \<Rightarrow> RouterKeeper \<times> (router_error + TransferRecord)" where
  "initiateTransfer k assetID amount receiver timeoutHeight memo destinationChainID channelID destinationDenom =
     (case amount of
        None \<Rightarrow> (k, Inl (ErrInvalidIBCTransfer ''amount must be positive''))
      | Some v \<Rightarrow>
      if v \<le> 0 then (k, Inl (ErrInvalidIBCTransfer ''amount must be positive''))
      else if TrimSpace receiver = '''' then (k, Inl (ErrInvalidIBCTransfer ''missing receiver''))
      else if timeoutHeight = 0 then (k, Inl (ErrInvalidIBCTransfer ''missing timeout height''))
      else
        let sequence = ik_nextSequence k;
            rec = \<lparr>tr_TransferID = transfer_id assetID sequence, tr_AssetID = TrimSpace assetID, tr_Amount = v,
                   tr_Receiver = TrimSpace receiver, tr_DestinationChainID = TrimSpace destinationChainID,
                   tr_ChannelID = TrimSpace channelID, tr_DestinationDenom = TrimSpace destinationDenom,
                   tr_TimeoutHeight = timeoutHeight, tr_Memo = TrimSpace memo, tr_Status = TransferStatusPending,
                   tr_FailureReason = ''''\<rparr>;
            transport = \<lparr>tp_TransferID = tr_TransferID rec, tp_AssetID = tr_AssetID rec,
                         tp_DestinationChainID = tr_DestinationChainID rec, tp_ChannelID = tr_ChannelID rec,
                         tp_PacketSequence = sequence, tp_Stage = TransportStageHandshakePending, tp_AckReason = ''''\<rparr>
        in (k\<lparr>ik_nextSequence := sequence + 1,
              ik_transfers := gomap_set (tr_TransferID rec) rec (ik_transfers k),
              ik_transportSessions := gomap_set (tr_TransferID rec) transport (ik_transportSessions k)\<rparr>,
            Inr (cloneTransferRecord rec)))"

definition router_InitiateTransfer ::
    "RouterKeeper \<Rightarrow> string \<Rightarrow> bigint \<Rightarrow> string \<Rightarrow> u64 \<Rightarrow> string \<Rightarrow> RouterKeeper \<times> (router_error + TransferRecord)" where
  "router_InitiateTransfer k assetID amount receiver timeoutHeight memo =
     (case router_GetRoute k assetID of
        None \<Rightarrow> (k, Inl ErrRouteNotFound)
      | Some route \<Rightarrow>
          if \<not> rt_Enabled route then (k, Inl ErrRouteDisabled)
          else initiateTransfer k assetID amount receiver timeoutHeight memo
                 (rt_DestinationChainID route) (rt_ChannelID route) (rt_DestinationDenom route))"

definition router_InitiateTransferWithProfile ::
    "RouterKeeper \<Rightarrow> string \<Rightarrow> string \<Rightarrow> bigint \<Rightarrow> string \<Rightarrow> u64 \<Rightarrow> string
     \<Rightarrow> RouterKeeper \<times> (router_error + TransferRecord)" where
  "router_InitiateTransferWithProfile k routeID assetID amount receiver timeoutHeight memo =
     (case router_GetRouteProfile k routeID of
        None \<Rightarrow> (k, Inl ErrRouteProfileNotFound)
      | Some profile \<Rightarrow>
      if \<not> pr_Enabled profile then (k, Inl ErrRouteProfileDisabled)
      else case profile_AssetRoute profile assetID of
        None \<Rightarrow> (k, Inl ErrRouteProfileAssetNotAllowed)
      | Some assetRoute \<Rightarrow>
      if \<not> policy_AllowsAction (pr_Policy profile) memo then (k, Inl ErrRouteProfilePolicyViolation)
      else if \<not> policy_AllowsMemo (pr_Policy profile) memo then (k, Inl ErrRouteProfilePolicyViolation)
      else initiateTransfer k assetID amount receiver timeoutHeight memo
             (pr_DestinationChainID profile) (pr_ChannelID profile) (ar_DestinationDenom assetRoute))"

definition pendingTransfer :: "RouterKeeper \<Rightarrow> string \<Rightarrow> router_error + TransferRecord" where
  "pendingTransfer k transferID =
     (case gomap_get (ik_transfers k) (TrimSpace transferID) of
        None \<Rightarrow> Inl ErrTransferNotFound
      | Some r \<Rightarrow> if tr_Status r \<noteq> TransferStatusPending then Inl ErrTransferNotPending else Inr r)"

text \<open>The common end of the three settling operations: store the record and move its transport session.\<close>

definition settle_transfer :: "RouterKeeper \<Rightarrow> TransferRecord \<Rightarrow> string \<Rightarrow> string \<Rightarrow> RouterKeeper" where
  "settle_transfer k r stage reason =
     (let k1 = k\<lparr>ik_transfers := gomap_set (tr_TransferID r) r (ik_transfers k)\<rparr>;
          transport = (ensureTransportSession k1 r)\<lparr>tp_Stage := stage, tp_AckReason := reason\<rparr>
      in k1\<lparr>ik_transportSessions := gomap_set (tr_TransferID r) transport (ik_transportSessions k1)\<rparr>)"

definition router_AcknowledgeSuccess :: "RouterKeeper \<Rightarrow> string \<Rightarrow> RouterKeeper \<times> (router_error + TransferRecord)" where
  "router_AcknowledgeSuccess k transferID =
     (case pendingTransfer k transferID of
        Inl e \<Rightarrow> (k, Inl e)
      | Inr r0 \<Rightarrow>
          let r = r0\<lparr>tr_Status := TransferStatusCompleted, tr_FailureReason := ''''\<rparr>
          in (settle_transfer k r TransportStageAckCompleted '''', Inr (cloneTransferRecord r)))"

definition router_AcknowledgeFailure ::
    "RouterKeeper \<Rightarrow> string \<Rightarrow> string \<Rightarrow> RouterKeeper \<times> (router_error + TransferRecord)" where
  "router_AcknowledgeFailure k transferID reason =
     (case pendingTransfer k transferID of
        Inl e \<Rightarrow> (k, Inl e)
      | Inr r0 \<Rightarrow>
          let r = r0\<lparr>tr_Status := TransferStatusAckFailed, tr_FailureReason := TrimSpace reason\<rparr>
          in (settle_transfer k r TransportStageAckFailed (TrimSpace reason), Inr (cloneTransferRecord r)))"

definition router_TimeoutTransfer :: "RouterKeeper \<Rightarrow> string \<Rightarrow> RouterKeeper \<times> (router_error + TransferRecord)" where
  "router_TimeoutTransfer k transferID =
     (case pendingTransfer k transferID of
        Inl e \<Rightarrow> (k, Inl e)
      | Inr r0 \<Rightarrow>
          let r = r0\<lparr>tr_Status := TransferStatusTimedOut\<rparr>
          in (settle_transfer k r TransportStageTimedOut (TrimSpace (tr_FailureReason r)), Inr (cloneTransferRecord r)))"

definition router_MarkRefunded :: "RouterKeeper \<Rightarrow> string \<Rightarrow> RouterKeeper \<times> (router_error + TransferRecord)" where
  "router_MarkRefunded k transferID =
     (case gomap_get (ik_transfers k) (TrimSpace transferID) of
        None \<Rightarrow> (k, Inl ErrTransferNotFound)
      | Some r0 \<Rightarrow>
          if tr_Status r0 \<noteq> TransferStatusAckFailed \<and> tr_Status r0 \<noteq> TransferStatusTimedOut
          then (k, Inl ErrTransferNotRecoverable)
          else
            let r = r0\<lparr>tr_Status := TransferStatusRefunded\<rparr>
            in (k\<lparr>ik_transfers := gomap_set (tr_TransferID r) r (ik_transfers k)\<rparr>, Inr (cloneTransferRecord r)))"

text \<open>\<^verbatim>\<open>OpenTransportSession\<close> and \<^verbatim>\<open>MarkPacketRelayed\<close> differ only in the stage they set.\<close>

definition advance_transport :: "RouterKeeper \<Rightarrow> string \<Rightarrow> string \<Rightarrow> RouterKeeper \<times> (router_error + TransportRecord)" where
  "advance_transport k transferID stage =
     (case gomap_get (ik_transfers k) (TrimSpace transferID) of
        None \<Rightarrow> (k, Inl ErrTransferNotFound)
      | Some r \<Rightarrow>
          let transport = (ensureTransportSession k r)\<lparr>tp_Stage := stage, tp_AckReason := ''''\<rparr>
          in (k\<lparr>ik_transportSessions := gomap_set (tr_TransferID r) transport (ik_transportSessions k)\<rparr>, Inr transport))"

definition router_OpenTransportSession :: "RouterKeeper \<Rightarrow> string \<Rightarrow> RouterKeeper \<times> (router_error + TransportRecord)" where
  "router_OpenTransportSession k transferID = advance_transport k transferID TransportStageHandshakeOpen"

definition router_MarkPacketRelayed :: "RouterKeeper \<Rightarrow> string \<Rightarrow> RouterKeeper \<times> (router_error + TransportRecord)" where
  "router_MarkPacketRelayed k transferID = advance_transport k transferID TransportStagePacketRelayed"

definition router_TransportSession :: "RouterKeeper \<Rightarrow> string \<Rightarrow> TransportRecord option" where
  "router_TransportSession k transferID = gomap_get (ik_transportSessions k) (TrimSpace transferID)"

definition router_ReceiveIBCAck ::
    "RouterKeeper \<Rightarrow> string \<Rightarrow> bool \<Rightarrow> string \<Rightarrow> RouterKeeper \<times> (router_error + TransferRecord)" where
  "router_ReceiveIBCAck k transferID success reason =
     (if success then router_AcknowledgeSuccess k transferID else router_AcknowledgeFailure k transferID reason)"

definition router_HandleIBCTimeout :: "RouterKeeper \<Rightarrow> string \<Rightarrow> RouterKeeper \<times> (router_error + TransferRecord)" where
  "router_HandleIBCTimeout k transferID = router_TimeoutTransfer k transferID"

section \<open>Packets\<close>

record IBCPacket =
  ip_TransferID :: string
  ip_Sequence :: u64
  ip_SourcePort :: string
  ip_SourceChannel :: string
  ip_DestinationPort :: string
  ip_DestinationChainID :: string
  ip_DestinationDenom :: string
  ip_TimeoutHeight :: u64
  ip_Memo :: string

text \<open>\<^verbatim>\<open>fmt.Sscanf(s, "%d", &sequence)\<close>: leading blanks are skipped, then at least one digit is read; what
  follows the digits is ignored, and a value of more than 64 bits is an error.\<close>

definition Sscanf_d :: "string \<Rightarrow> u64 option" where
  "Sscanf_d s = ParseUint64 (takeWhile is_digit (dropWhile (\<lambda>c. c = CHR '' '') s))"

definition ibcTransferSequence :: "string \<Rightarrow> router_error + u64" where
  "ibcTransferSequence transferID =
     (case Sscanf_d (last (Split (TrimSpace transferID) (CHR ''/''))) of
        None \<Rightarrow> Inl (ErrInvalidIBCTransfer (''invalid transfer id '' @ transferID))
      | Some n \<Rightarrow> Inr n)"

definition router_SendIBCPacket ::
    "RouterKeeper \<Rightarrow> string \<Rightarrow> bigint \<Rightarrow> string \<Rightarrow> u64 \<Rightarrow> string \<Rightarrow> RouterKeeper \<times> (router_error + IBCPacket)" where
  "router_SendIBCPacket k assetID amount receiver timeoutHeight memo =
     (case router_InitiateTransfer k assetID amount receiver timeoutHeight memo of
        (k1, Inl e) \<Rightarrow> (k1, Inl e)
      | (k1, Inr r) \<Rightarrow>
          case ibcTransferSequence (tr_TransferID r) of
            Inl e \<Rightarrow> (k1, Inl e)
          | Inr sequence \<Rightarrow>
              (k1, Inr \<lparr>ip_TransferID = tr_TransferID r, ip_Sequence = sequence, ip_SourcePort = ''transfer'',
                        ip_SourceChannel = tr_ChannelID r, ip_DestinationPort = ''transfer'',
                        ip_DestinationChainID = tr_DestinationChainID r, ip_DestinationDenom = tr_DestinationDenom r,
                        ip_TimeoutHeight = tr_TimeoutHeight r, ip_Memo = tr_Memo r\<rparr>))"

section \<open>Export and import\<close>

record TransferRecordSnapshot =
  ts_TransferID :: string
  ts_AssetID :: string
  ts_Amount :: string
  ts_Receiver :: string
  ts_DestinationChainID :: string
  ts_ChannelID :: string
  ts_DestinationDenom :: string
  ts_TimeoutHeight :: u64
  ts_Memo :: string
  ts_Status :: string
  ts_FailureReason :: string

text \<open>\<^verbatim>\<open>TransportRecordSnapshot\<close> has the fields of \<^verbatim>\<open>TransportRecord\<close> and is that record here.\<close>

record RouterStateSnapshot =
  rs_NextSequence :: u64
  rs_Routes :: "Route list"
  rs_RouteProfiles :: "RouteProfile list"
  rs_Transfers :: "TransferRecordSnapshot list"
  rs_Transport :: "TransportRecord list"

definition router_ExportRoutes :: "RouterKeeper \<Rightarrow> Route list" where
  "router_ExportRoutes k = map (\<lambda>(_, route). canonicalRoute route) (ik_routes k)"

definition router_ExportRouteProfiles :: "RouterKeeper \<Rightarrow> RouteProfile list" where
  "router_ExportRouteProfiles k = map (\<lambda>(_, profile). profile_Canonical profile) (ik_routeProfiles k)"

definition router_ExportTransfers :: "RouterKeeper \<Rightarrow> TransferRecord list" where
  "router_ExportTransfers k = map (\<lambda>(_, transfer). cloneTransferRecord transfer) (ik_transfers k)"

definition router_ExportTransportSessions :: "RouterKeeper \<Rightarrow> TransportRecord list" where
  "router_ExportTransportSessions k = map snd (ik_transportSessions k)"

definition transfer_snapshot :: "TransferRecord \<Rightarrow> TransferRecordSnapshot" where
  "transfer_snapshot r =
     \<lparr>ts_TransferID = tr_TransferID r, ts_AssetID = tr_AssetID r, ts_Amount = show_int (tr_Amount r),
      ts_Receiver = tr_Receiver r, ts_DestinationChainID = tr_DestinationChainID r, ts_ChannelID = tr_ChannelID r,
      ts_DestinationDenom = tr_DestinationDenom r, ts_TimeoutHeight = tr_TimeoutHeight r, ts_Memo = tr_Memo r,
      ts_Status = tr_Status r, ts_FailureReason = tr_FailureReason r\<rparr>"

definition router_ExportState :: "RouterKeeper \<Rightarrow> RouterStateSnapshot" where
  "router_ExportState k =
     \<lparr>rs_NextSequence = ik_nextSequence k,
      rs_Routes = router_ExportRoutes k,
      rs_RouteProfiles = router_ExportRouteProfiles k,
      rs_Transfers = map (\<lambda>(_, transfer). transfer_snapshot transfer) (ik_transfers k),
      rs_Transport = router_ExportTransportSessions k\<rparr>"

fun import_routes :: "(string, Route) gomap \<Rightarrow> Route list \<Rightarrow> (string, Route) gomap \<times> router_error option" where
  "import_routes m [] = (m, None)"
| "import_routes m (route # routes) =
     (case route_ValidateBasic route of
        Some e \<Rightarrow> (m, Some e)
      | None \<Rightarrow>
          let stored = canonicalRoute route
          in import_routes (gomap_set (routeKey (rt_AssetID stored)) stored m) routes)"

fun import_profiles ::
    "(string, RouteProfile) gomap \<Rightarrow> RouteProfile list \<Rightarrow> (string, RouteProfile) gomap \<times> router_error option" where
  "import_profiles m [] = (m, None)"
| "import_profiles m (profile # profiles) =
     (case profile_ValidateBasic profile of
        Some e \<Rightarrow> (m, Some e)
      | None \<Rightarrow>
          let stored = profile_Canonical profile
          in import_profiles (gomap_set (routeProfileKey (pr_RouteID stored)) stored m) profiles)"

fun import_transfers ::
    "(string, TransferRecord) gomap \<Rightarrow> TransferRecordSnapshot list \<Rightarrow> (string, TransferRecord) gomap \<times> router_error option" where
  "import_transfers m [] = (m, None)"
| "import_transfers m (t # ts) =
     (case SetString10 (ts_Amount t) of
        None \<Rightarrow> (m, Some (InvalidRouterState (''invalid ibc transfer amount '' @ ts_Amount t)))
      | Some amount \<Rightarrow>
          import_transfers (gomap_set (TrimSpace (ts_TransferID t))
            \<lparr>tr_TransferID = TrimSpace (ts_TransferID t), tr_AssetID = TrimSpace (ts_AssetID t), tr_Amount = amount,
             tr_Receiver = TrimSpace (ts_Receiver t), tr_DestinationChainID = TrimSpace (ts_DestinationChainID t),
             tr_ChannelID = TrimSpace (ts_ChannelID t), tr_DestinationDenom = TrimSpace (ts_DestinationDenom t),
             tr_TimeoutHeight = ts_TimeoutHeight t, tr_Memo = TrimSpace (ts_Memo t), tr_Status = ts_Status t,
             tr_FailureReason = TrimSpace (ts_FailureReason t)\<rparr> m) ts)"

definition import_transport :: "TransportRecord \<Rightarrow> TransportRecord" where
  "import_transport t =
     \<lparr>tp_TransferID = TrimSpace (tp_TransferID t), tp_AssetID = TrimSpace (tp_AssetID t),
      tp_DestinationChainID = TrimSpace (tp_DestinationChainID t), tp_ChannelID = TrimSpace (tp_ChannelID t),
      tp_PacketSequence = tp_PacketSequence t, tp_Stage = tp_Stage t, tp_AckReason = TrimSpace (tp_AckReason t)\<rparr>"

definition router_ImportState :: "RouterKeeper \<Rightarrow> RouterStateSnapshot \<Rightarrow> RouterKeeper \<times> router_error option" where
  "router_ImportState k st =
     (case import_routes [] (rs_Routes st) of
        (m, Some e) \<Rightarrow> (k\<lparr>ik_routes := m\<rparr>, Some e)
      | (m, None) \<Rightarrow>
      let k1 = k\<lparr>ik_routes := m\<rparr>
      in case import_profiles [] (rs_RouteProfiles st) of
        (p, Some e) \<Rightarrow> (k1\<lparr>ik_routeProfiles := p\<rparr>, Some e)
      | (p, None) \<Rightarrow>
      let k2 = k1\<lparr>ik_routeProfiles := p\<rparr>
      in case import_transfers [] (rs_Transfers st) of
        (t, Some e) \<Rightarrow> (k2\<lparr>ik_transfers := t\<rparr>, Some e)
      | (t, None) \<Rightarrow>
          (k2\<lparr>ik_transfers := t,
              ik_transportSessions :=
                fold (\<lambda>x. gomap_set (TrimSpace (tp_TransferID x)) (import_transport x)) (rs_Transport st) [],
              ik_nextSequence := (if rs_NextSequence st = 0 then 1 else rs_NextSequence st)\<rparr>, None))"

end
