(* ===== verification/IBCRouterLife.thy ===== *)
theory IBCRouterLife
  imports IBCRouter
begin

text \<open>
  The life of an IBC transfer: how its status may change, that the terms of the transfer never change, that
  transfer ids are fresh and carry their sequence number, and the policy that a profile enforces.
\<close>

section \<open>Transfer ids\<close>

lemma show_u64_graphic: "c \<in> set (show_u64 n) \<Longrightarrow> graphic c"
  unfolding show_u64_def by (rule show_nat_graphic)

lemma show_u64_nonempty [simp]: "show_u64 n \<noteq> []"
  using show_nat_digits by (simp add: show_u64_def)

lemma transfer_id_trim [simp]: "TrimSpace (transfer_id a n) = transfer_id a n"
proof -
  have "last (transfer_id a n) = last (show_u64 n)" by (simp add: transfer_id_def)
  then have "graphic (last (transfer_id a n))" by (metis last_in_set show_u64_graphic show_u64_nonempty)
  moreover have "transfer_id a n = CHR ''i'' # (''bc/'' @ TrimSpace a @ ''/'' @ show_u64 n)" by (simp add: transfer_id_def)
  ultimately show ?thesis by (metis TrimSpace_literal graphic_i)
qed

lemma transfer_id_last: "last (Split (transfer_id a n) (CHR ''/'')) = show_u64 n"
proof -
  have "CHR ''/'' \<notin> set (show_u64 n)"
    unfolding show_u64_def by (rule show_nat_no) (simp add: is_digit_def)
  moreover have "transfer_id a n = (''ibc/'' @ TrimSpace a) @ CHR ''/'' # show_u64 n" by (simp add: transfer_id_def)
  ultimately show ?thesis by (metis last_Split_append)
qed

lemma transferSequence_id [simp]: "transferSequence (transfer_id a n) = n"
  by (simp add: transferSequence_def transfer_id_last)

lemma transfer_id_inject: "transfer_id a n = transfer_id b m \<longleftrightarrow> TrimSpace a = TrimSpace b \<and> n = m"
  using transferSequence_id [of a n] transferSequence_id [of b m] by (auto simp: transfer_id_def)

lemma Sscanf_d_show [simp]: "Sscanf_d (show_u64 n) = Some n"
proof -
  have digits: "\<forall>c \<in> set (show_u64 n). is_digit c"
    using show_nat_digits [of "unat n"] by (simp add: show_u64_def list_all_iff)
  have "hd (show_u64 n) \<noteq> CHR '' ''"
  proof -
    have "is_digit (hd (show_u64 n))" using digits hd_in_set [OF show_u64_nonempty [of n]] by blast
    then show ?thesis by (auto simp: is_digit_def)
  qed
  then have "dropWhile (\<lambda>c. c = CHR '' '') (show_u64 n) = show_u64 n"
    by (cases "show_u64 n") auto
  moreover have "takeWhile is_digit (show_u64 n) = show_u64 n" using digits by (simp add: takeWhile_eq_all_conv)
  ultimately show ?thesis by (simp only: Sscanf_d_def ParseUint64_show_u64)
qed

lemma ibcTransferSequence_id [simp]: "ibcTransferSequence (transfer_id a n) = Inr n"
  by (simp add: ibcTransferSequence_def transfer_id_last)

section \<open>How a transfer may change\<close>

definition status_reach :: "string \<Rightarrow> string \<Rightarrow> bool" where
  "status_reach s t \<longleftrightarrow>
     s = t
     \<or> s = TransferStatusPending \<and> t \<in> {TransferStatusCompleted, TransferStatusAckFailed, TransferStatusTimedOut, TransferStatusRefunded}
     \<or> s \<in> {TransferStatusAckFailed, TransferStatusTimedOut} \<and> t = TransferStatusRefunded"

definition same_terms :: "TransferRecord \<Rightarrow> TransferRecord \<Rightarrow> bool" where
  "same_terms r r' \<longleftrightarrow>
     tr_TransferID r' = tr_TransferID r \<and> tr_AssetID r' = tr_AssetID r \<and> tr_Amount r' = tr_Amount r
     \<and> tr_Receiver r' = tr_Receiver r \<and> tr_DestinationChainID r' = tr_DestinationChainID r
     \<and> tr_ChannelID r' = tr_ChannelID r \<and> tr_DestinationDenom r' = tr_DestinationDenom r
     \<and> tr_TimeoutHeight r' = tr_TimeoutHeight r \<and> tr_Memo r' = tr_Memo r"

definition transfers_evolve :: "RouterKeeper \<Rightarrow> RouterKeeper \<Rightarrow> bool" where
  "transfers_evolve k k' \<longleftrightarrow>
     (\<forall>key r. map_of (ik_transfers k) key = Some r \<longrightarrow>
        (\<exists>r'. map_of (ik_transfers k') key = Some r' \<and> status_reach (tr_Status r) (tr_Status r') \<and> same_terms r r'))"

lemma status_reach_refl [simp]: "status_reach s s"
  by (simp add: status_reach_def)

lemma status_reach_trans: "status_reach s t \<Longrightarrow> status_reach t u \<Longrightarrow> status_reach s u"
  by (auto simp: status_reach_def)

lemma same_terms_refl [simp]: "same_terms r r"
  by (simp add: same_terms_def)

lemma same_terms_trans: "same_terms r s \<Longrightarrow> same_terms s t \<Longrightarrow> same_terms r t"
  by (simp add: same_terms_def)

lemma transfers_evolve_refl: "transfers_evolve k k"
  by (simp add: transfers_evolve_def)

lemma transfers_evolve_trans: "transfers_evolve k l \<Longrightarrow> transfers_evolve l m \<Longrightarrow> transfers_evolve k m"
  unfolding transfers_evolve_def by (meson status_reach_trans same_terms_trans)

lemma transfers_evolve_same: "ik_transfers k' = ik_transfers k \<Longrightarrow> transfers_evolve k k'"
  by (simp add: transfers_evolve_def)

lemma transfers_evolve_set:
  assumes "ik_transfers k' = gomap_set key r' (ik_transfers k)"
    and "\<And>r. map_of (ik_transfers k) key = Some r \<Longrightarrow> status_reach (tr_Status r) (tr_Status r') \<and> same_terms r r'"
  shows "transfers_evolve k k'"
  using assms by (auto simp: transfers_evolve_def gomap_simps)

section \<open>The invariant of the router\<close>

lemma cloneTransferRecord_fixed:
  "cloneTransferRecord r = r \<longleftrightarrow>
     TrimSpace (tr_TransferID r) = tr_TransferID r \<and> TrimSpace (tr_AssetID r) = tr_AssetID r
     \<and> TrimSpace (tr_Receiver r) = tr_Receiver r \<and> TrimSpace (tr_DestinationChainID r) = tr_DestinationChainID r
     \<and> TrimSpace (tr_ChannelID r) = tr_ChannelID r \<and> TrimSpace (tr_DestinationDenom r) = tr_DestinationDenom r
     \<and> TrimSpace (tr_Memo r) = tr_Memo r \<and> TrimSpace (tr_FailureReason r) = tr_FailureReason r"
  by (cases r) (auto simp: cloneTransferRecord_def)

definition transfer_ok :: "nat \<Rightarrow> string \<Rightarrow> TransferRecord \<Rightarrow> bool" where
  "transfer_ok n key r \<longleftrightarrow>
     key = tr_TransferID r \<and> cloneTransferRecord r = r \<and> 0 < tr_Amount r
     \<and> (\<exists>a s. key = transfer_id a s \<and> 1 \<le> unat s \<and> unat s \<le> n)"

text \<open>Ids are counted as long as the 64-bit sequence has not wrapped.\<close>

definition router_inv :: "RouterKeeper \<Rightarrow> bool" where
  "router_inv k \<longleftrightarrow>
     gomap_wf (ik_transfers k) \<and> (\<forall>(key, r) \<in> set (ik_transfers k). key = tr_TransferID r \<and> TrimSpace key = key)
     \<and> (length (ik_transfers k) < 2 ^ 64 - 1 \<longrightarrow>
          unat (ik_nextSequence k) = length (ik_transfers k) + 1
          \<and> (\<forall>(key, r) \<in> set (ik_transfers k). transfer_ok (length (ik_transfers k)) key r))"

lemma router_inv_New: "router_inv router_NewKeeper"
  by (simp add: router_inv_def router_NewKeeper_def)

lemma router_inv_cong:
  "ik_transfers k' = ik_transfers k \<Longrightarrow> ik_nextSequence k' = ik_nextSequence k \<Longrightarrow> router_inv k' \<longleftrightarrow> router_inv k"
  by (simp add: router_inv_def)

lemma length_update: "length (AList.update k v m) = (if map_of m k = None then length m + 1 else length m)"
  by (induction m) (auto split: if_splits)

lemma transfer_ok_mono: "transfer_ok n key r \<Longrightarrow> n \<le> m \<Longrightarrow> transfer_ok m key r"
  unfolding transfer_ok_def by (meson order.trans)

lemma router_inv_get:
  assumes "router_inv k" "map_of (ik_transfers k) key = Some r"
  shows "key = tr_TransferID r" "TrimSpace key = key"
  using assms map_of_SomeD [OF assms(2)] unfolding router_inv_def by blast+

text \<open>Replacing a stored record by one with the same id, terms and canonical form keeps the invariant.\<close>

lemma router_inv_replace:
  assumes "router_inv k" "map_of (ik_transfers k) key = Some r" "same_terms r r'"
    "TrimSpace (tr_FailureReason r') = tr_FailureReason r' \<or> tr_FailureReason r' = tr_FailureReason r"
    "ik_transfers k' = gomap_set key r' (ik_transfers k)" "ik_nextSequence k' = ik_nextSequence k"
  shows "router_inv k'"
proof -
  have key: "key = tr_TransferID r" "TrimSpace key = key" by (rule router_inv_get [OF assms(1,2)])+
  have len: "length (ik_transfers k') = length (ik_transfers k)" using assms(2,5) by (simp add: length_update)
  have sub: "set (ik_transfers k') \<subseteq> insert (key, r') (set (ik_transfers k))"
    unfolding assms(5) by (rule set_update_subset)
  have mem: "(key, r) \<in> set (ik_transfers k)" using assms(2) by (rule map_of_SomeD)
  have ok: "transfer_ok n key r'" if "transfer_ok n key r" for n
  proof -
    from that have "cloneTransferRecord r = r" by (simp add: transfer_ok_def)
    then have "cloneTransferRecord r' = r'"
      using assms(3,4) unfolding cloneTransferRecord_fixed same_terms_def by metis
    with that assms(3) show ?thesis unfolding transfer_ok_def same_terms_def by metis
  qed
  show ?thesis
    unfolding router_inv_def len
  proof (intro conjI impI)
    show "gomap_wf (ik_transfers k')" using assms(1,5) by (auto simp: router_inv_def)
    show "\<forall>(key, r) \<in> set (ik_transfers k'). key = tr_TransferID r \<and> TrimSpace key = key"
      using assms(1,3) key sub unfolding router_inv_def same_terms_def by fastforce
    assume small: "length (ik_transfers k) < 2 ^ 64 - 1"
    show "unat (ik_nextSequence k') = length (ik_transfers k) + 1"
      using assms(1,6) small by (simp add: router_inv_def)
    show "\<forall>(key, r) \<in> set (ik_transfers k'). transfer_ok (length (ik_transfers k)) key r"
      using assms(1) small sub ok mem unfolding router_inv_def by fastforce
  qed
qed

section \<open>The operations\<close>

interpretation route_store: keyed_store rt_AssetID canonicalRoute route_ValidateBasic router_GetRoute router_SetRoute
  by unfold_locales
     (auto simp: router_SetRoute_def router_GetRoute_def routeKey_def canonicalRoute_def gomap_simps Let_def split: option.split)

interpretation profile_store: keyed_store pr_RouteID profile_Canonical profile_ValidateBasic
    router_GetRouteProfile router_SetRouteProfile
  by unfold_locales
     (auto simp: router_SetRouteProfile_def router_GetRouteProfile_def routeProfileKey_def profile_Canonical_def
       gomap_simps Let_def split: option.split)

inductive router_step :: "RouterKeeper \<Rightarrow> RouterKeeper \<Rightarrow> bool" where
  set_route: "router_step k (fst (router_SetRoute k r))"
| set_profile: "router_step k (fst (router_SetRouteProfile k p))"
| initiate: "router_step k (fst (router_InitiateTransfer k a v r t m))"
| initiate_profile: "router_step k (fst (router_InitiateTransferWithProfile k p a v r t m))"
| ack: "router_step k (fst (router_ReceiveIBCAck k i success reason))"
| timeout: "router_step k (fst (router_TimeoutTransfer k i))"
| refund: "router_step k (fst (router_MarkRefunded k i))"
| open_session: "router_step k (fst (router_OpenTransportSession k i))"
| relayed: "router_step k (fst (router_MarkPacketRelayed k i))"

lemma settle_transfer_simps [simp]:
  "ik_transfers (settle_transfer k r stage reason) = gomap_set (tr_TransferID r) r (ik_transfers k)"
  "ik_nextSequence (settle_transfer k r stage reason) = ik_nextSequence k"
  by (simp_all add: settle_transfer_def Let_def)

lemma advance_transport_simps [simp]:
  "ik_transfers (fst (advance_transport k i stage)) = ik_transfers k"
  "ik_nextSequence (fst (advance_transport k i stage)) = ik_nextSequence k"
  by (simp_all add: advance_transport_def Let_def split: option.split)

lemma pendingTransfer_Inr:
  "pendingTransfer k i = Inr r \<longleftrightarrow> map_of (ik_transfers k) (TrimSpace i) = Some r \<and> tr_Status r = TransferStatusPending"
  by (auto simp: pendingTransfer_def split: option.splits)

text \<open>Every settling operation replaces one record by a permitted successor, or changes no transfer.\<close>

definition replaces_one :: "RouterKeeper \<Rightarrow> RouterKeeper \<Rightarrow> bool" where
  "replaces_one k k' \<longleftrightarrow>
     (\<exists>key r r'. map_of (ik_transfers k) key = Some r \<and> same_terms r r' \<and> status_reach (tr_Status r) (tr_Status r')
        \<and> (TrimSpace (tr_FailureReason r') = tr_FailureReason r' \<or> tr_FailureReason r' = tr_FailureReason r)
        \<and> ik_transfers k' = gomap_set key r' (ik_transfers k) \<and> ik_nextSequence k' = ik_nextSequence k)"

definition keeps_transfers :: "RouterKeeper \<Rightarrow> RouterKeeper \<Rightarrow> bool" where
  "keeps_transfers k k' \<longleftrightarrow> ik_transfers k' = ik_transfers k \<and> ik_nextSequence k' = ik_nextSequence k"

lemma replaces_oneI:
  assumes "router_inv k" "map_of (ik_transfers k) (TrimSpace i) = Some r"
    "r' = r\<lparr>tr_Status := s, tr_FailureReason := f\<rparr>" "status_reach (tr_Status r) s" "TrimSpace f = f \<or> f = tr_FailureReason r"
    "ik_transfers k' = gomap_set (tr_TransferID r') r' (ik_transfers k)" "ik_nextSequence k' = ik_nextSequence k"
  shows "replaces_one k k'"
  unfolding replaces_one_def
  by (intro exI [of _ "TrimSpace i"] exI [of _ r] exI [of _ r'] conjI)
     (use assms router_inv_get(1) [OF assms(1,2)] in \<open>simp_all add: same_terms_def\<close>)

lemma settle_replaces:
  assumes "router_inv k" "pendingTransfer k i = Inr r" "r' = r\<lparr>tr_Status := s, tr_FailureReason := f\<rparr>"
    "status_reach TransferStatusPending s" "TrimSpace f = f \<or> f = tr_FailureReason r"
  shows "replaces_one k (settle_transfer k r' stage reason)"
  using assms(2) by (intro replaces_oneI [OF assms(1), where i = i and r = r and s = s and f = f]) (use assms in \<open>auto simp: pendingTransfer_Inr\<close>)

lemma ack_op:
  assumes "router_inv k"
  shows "replaces_one k (fst (router_ReceiveIBCAck k i success reason)) \<or> keeps_transfers k (fst (router_ReceiveIBCAck k i success reason))"
proof (cases "pendingTransfer k i")
  case (Inl e)
  then show ?thesis
    by (simp add: router_ReceiveIBCAck_def router_AcknowledgeSuccess_def router_AcknowledgeFailure_def keeps_transfers_def)
next
  case (Inr r)
  have "replaces_one k (settle_transfer k (r\<lparr>tr_Status := TransferStatusCompleted, tr_FailureReason := []\<rparr>) a b)"
    "replaces_one k (settle_transfer k (r\<lparr>tr_Status := TransferStatusAckFailed, tr_FailureReason := TrimSpace reason\<rparr>) a b)" for a b
    by (rule settle_replaces [OF assms Inr refl]; simp add: status_reach_def)+
  with Inr show ?thesis
    by (simp add: router_ReceiveIBCAck_def router_AcknowledgeSuccess_def router_AcknowledgeFailure_def Let_def)
qed

lemma timeout_op:
  assumes "router_inv k"
  shows "replaces_one k (fst (router_TimeoutTransfer k i)) \<or> keeps_transfers k (fst (router_TimeoutTransfer k i))"
proof (cases "pendingTransfer k i")
  case (Inl e)
  then show ?thesis by (simp add: router_TimeoutTransfer_def keeps_transfers_def)
next
  case (Inr r)
  have "replaces_one k (settle_transfer k (r\<lparr>tr_Status := TransferStatusTimedOut\<rparr>) a b)" for a b
    by (rule settle_replaces [OF assms Inr, where s = TransferStatusTimedOut and f = "tr_FailureReason r"]) (simp_all add: status_reach_def)
  with Inr show ?thesis by (simp add: router_TimeoutTransfer_def Let_def)
qed

lemma refund_op: "router_inv k \<Longrightarrow> replaces_one k (fst (router_MarkRefunded k i)) \<or> keeps_transfers k (fst (router_MarkRefunded k i))"
proof (cases "map_of (ik_transfers k) (TrimSpace i)")
  case (Some r)
  assume inv: "router_inv k"
  have "r\<lparr>tr_Status := TransferStatusRefunded\<rparr> = r\<lparr>tr_Status := TransferStatusRefunded, tr_FailureReason := tr_FailureReason r\<rparr>" by simp
  with Some show ?thesis
    by (auto simp: router_MarkRefunded_def Let_def keeps_transfers_def status_reach_def intro!: replaces_oneI [OF inv Some])
qed (simp add: router_MarkRefunded_def keeps_transfers_def)

lemma replaces_one_inv:
  assumes "router_inv k" "replaces_one k k'"
  shows "router_inv k'"
proof -
  from assms(2) obtain key r r' where "map_of (ik_transfers k) key = Some r" "same_terms r r'"
    "TrimSpace (tr_FailureReason r') = tr_FailureReason r' \<or> tr_FailureReason r' = tr_FailureReason r"
    "ik_transfers k' = gomap_set key r' (ik_transfers k)" "ik_nextSequence k' = ik_nextSequence k"
    unfolding replaces_one_def by (elim exE conjE) (rule that)
  then show ?thesis by (rule router_inv_replace [OF assms(1)])
qed

lemma replaces_one_evolve:
  assumes "replaces_one k k'"
  shows "transfers_evolve k k'"
proof -
  from assms obtain key r r' where *: "map_of (ik_transfers k) key = Some r" "same_terms r r'"
    "status_reach (tr_Status r) (tr_Status r')" "ik_transfers k' = gomap_set key r' (ik_transfers k)"
    unfolding replaces_one_def by (elim exE conjE) (rule that)
  show ?thesis
  proof (rule transfers_evolve_set [OF *(4)])
    fix q assume "map_of (ik_transfers k) key = Some q"
    with *(1) have "q = r" by (metis option.inject)
    with *(2,3) show "status_reach (tr_Status q) (tr_Status r') \<and> same_terms q r'" by blast
  qed
qed

lemma keeps_transfers_inv: "router_inv k \<Longrightarrow> keeps_transfers k k' \<Longrightarrow> router_inv k'"
  unfolding keeps_transfers_def using router_inv_cong by blast

lemma keeps_transfers_evolve: "keeps_transfers k k' \<Longrightarrow> transfers_evolve k k'"
  by (simp add: keeps_transfers_def transfers_evolve_same)

text \<open>Starting a transfer adds one record under a fresh id.\<close>

lemma transfer_id_fresh:
  assumes "router_inv k" "length (ik_transfers k) < 2 ^ 64 - 1"
  shows "map_of (ik_transfers k) (transfer_id a (ik_nextSequence k)) = None"
proof (rule ccontr)
  assume "map_of (ik_transfers k) (transfer_id a (ik_nextSequence k)) \<noteq> None"
  then obtain r where "(transfer_id a (ik_nextSequence k), r) \<in> set (ik_transfers k)"
    using map_of_SomeD by fastforce
  with assms have "transfer_ok (length (ik_transfers k)) (transfer_id a (ik_nextSequence k)) r"
    unfolding router_inv_def by blast
  then have "unat (ik_nextSequence k) \<le> length (ik_transfers k)"
    unfolding transfer_ok_def by (auto simp: transfer_id_inject)
  with assms show False by (simp add: router_inv_def)
qed

definition initiates_one :: "RouterKeeper \<Rightarrow> RouterKeeper \<Rightarrow> bool" where
  "initiates_one k k' \<longleftrightarrow>
     (\<exists>a r. tr_TransferID r = transfer_id a (ik_nextSequence k) \<and> cloneTransferRecord r = r \<and> 0 < tr_Amount r
        \<and> ik_transfers k' = gomap_set (tr_TransferID r) r (ik_transfers k) \<and> ik_nextSequence k' = ik_nextSequence k + 1)"

lemma initiateTransfer_cases:
  obtains (refused) e where "initiateTransfer k a v rcv t m dc ch dd = (k, Inl e)"
  | (started) x r where "v = Some x" "0 < x" "TrimSpace rcv \<noteq> []" "t \<noteq> 0"
      "snd (initiateTransfer k a v rcv t m dc ch dd) = Inr r"
      "r = \<lparr>tr_TransferID = transfer_id a (ik_nextSequence k), tr_AssetID = TrimSpace a, tr_Amount = x,
                   tr_Receiver = TrimSpace rcv, tr_DestinationChainID = TrimSpace dc,
                   tr_ChannelID = TrimSpace ch, tr_DestinationDenom = TrimSpace dd,
                   tr_TimeoutHeight = t, tr_Memo = TrimSpace m, tr_Status = TransferStatusPending,
                   tr_FailureReason = []\<rparr>"
      "ik_transfers (fst (initiateTransfer k a v rcv t m dc ch dd)) = gomap_set (tr_TransferID r) r (ik_transfers k)"
      "ik_nextSequence (fst (initiateTransfer k a v rcv t m dc ch dd)) = ik_nextSequence k + 1"
      "ik_routes (fst (initiateTransfer k a v rcv t m dc ch dd)) = ik_routes k"
      "ik_routeProfiles (fst (initiateTransfer k a v rcv t m dc ch dd)) = ik_routeProfiles k"
proof (cases "\<exists>x. v = Some x \<and> 0 < x \<and> TrimSpace rcv \<noteq> [] \<and> t \<noteq> 0")
  case True
  then obtain x where "v = Some x" "0 < x" "TrimSpace rcv \<noteq> []" "t \<noteq> 0" by blast
  then show ?thesis
    by (intro started [OF _ _ _ _ _ refl]) (simp_all add: initiateTransfer_def Let_def cloneTransferRecord_def)
next
  case False
  then show ?thesis
  proof (cases v)
    case (Some x)
    with False have "x \<le> 0 \<or> TrimSpace rcv = [] \<or> t = 0" by auto
    with Some show ?thesis by (cases "x \<le> 0"; cases "TrimSpace rcv = []") (simp_all add: initiateTransfer_def refused)
  qed (simp add: initiateTransfer_def refused)
qed

lemma initiates_one_inv:
  assumes "router_inv k" "initiates_one k k'"
  shows "router_inv k'"
proof -
  from assms(2) obtain a r where r: "tr_TransferID r = transfer_id a (ik_nextSequence k)" "cloneTransferRecord r = r" "0 < tr_Amount r"
    "ik_transfers k' = gomap_set (tr_TransferID r) r (ik_transfers k)" "ik_nextSequence k' = ik_nextSequence k + 1"
    unfolding initiates_one_def by (elim exE conjE) (rule that)
  have sub: "set (ik_transfers k') \<subseteq> insert (tr_TransferID r, r) (set (ik_transfers k))"
    unfolding r(4) by (rule set_update_subset)
  have keys: "\<forall>(key, q) \<in> set (ik_transfers k'). key = tr_TransferID q \<and> TrimSpace key = key"
    using assms(1) sub r(1) unfolding router_inv_def by fastforce
  have wf: "gomap_wf (ik_transfers k')" using assms(1) r(4) by (auto simp: router_inv_def)
  show ?thesis
    unfolding router_inv_def
  proof (intro conjI impI wf keys)
    assume small: "length (ik_transfers k') < 2 ^ 64 - 1"
    then have small': "length (ik_transfers k) < 2 ^ 64 - 1" by (simp add: r(4) length_update split: if_splits)
    have len: "length (ik_transfers k') = length (ik_transfers k) + 1"
      using transfer_id_fresh [OF assms(1) small'] r(1,4) by (simp add: length_update)
    have seq: "unat (ik_nextSequence k) = length (ik_transfers k) + 1" using assms(1) small' by (simp add: router_inv_def)
    show "unat (ik_nextSequence k') = length (ik_transfers k') + 1"
      using seq len small r(5) by (simp add: unat_word_ariths)
    have new: "transfer_ok (length (ik_transfers k')) (tr_TransferID r) r"
      unfolding transfer_ok_def using r(1,2,3) seq len by (metis add_leD2 order_refl)
    have "\<forall>(key, q) \<in> set (ik_transfers k). transfer_ok (length (ik_transfers k')) key q"
      using assms(1) small' len transfer_ok_mono unfolding router_inv_def by fastforce
    with new sub show "\<forall>(key, q) \<in> set (ik_transfers k'). transfer_ok (length (ik_transfers k')) key q" by fastforce
  qed
qed

lemma initiates_one_evolve:
  assumes "router_inv k" "initiates_one k k'" "length (ik_transfers k') < 2 ^ 64 - 1"
  shows "transfers_evolve k k'"
proof -
  from assms(2) obtain a r where r: "tr_TransferID r = transfer_id a (ik_nextSequence k)"
    "ik_transfers k' = gomap_set (tr_TransferID r) r (ik_transfers k)"
    unfolding initiates_one_def by (elim exE conjE) (rule that)
  have "length (ik_transfers k) < 2 ^ 64 - 1" using assms(3) by (simp add: r(2) length_update split: if_splits)
  then have "map_of (ik_transfers k) (tr_TransferID r) = None" using transfer_id_fresh [OF assms(1)] r(1) by simp
  then show ?thesis using r(2) by (intro transfers_evolve_set) auto
qed

lemma keeps_transfers_refl: "keeps_transfers k k"
  by (simp add: keeps_transfers_def)

lemma initiateTransfer_op:
  "initiates_one k (fst (initiateTransfer k a v rcv t m dc ch dd)) \<or> keeps_transfers k (fst (initiateTransfer k a v rcv t m dc ch dd))"
proof (cases rule: initiateTransfer_cases [of k a v rcv t m dc ch dd])
  case (started x r)
  have "cloneTransferRecord r = r" by (simp add: started(6) cloneTransferRecord_def)
  moreover have "tr_TransferID r = transfer_id a (ik_nextSequence k)" "0 < tr_Amount r" using started(2,6) by simp_all
  ultimately show ?thesis using started(7,8) unfolding initiates_one_def by blast
qed (simp add: keeps_transfers_def)

lemma InitiateTransfer_op:
  "initiates_one k (fst (router_InitiateTransfer k a v r t m)) \<or> keeps_transfers k (fst (router_InitiateTransfer k a v r t m))"
  by (simp add: router_InitiateTransfer_def keeps_transfers_refl initiateTransfer_op split: option.split)

lemma InitiateTransferWithProfile_op:
  "initiates_one k (fst (router_InitiateTransferWithProfile k p a v r t m))
   \<or> keeps_transfers k (fst (router_InitiateTransferWithProfile k p a v r t m))"
  by (simp add: router_InitiateTransferWithProfile_def keeps_transfers_refl initiateTransfer_op split: option.split)

lemma router_step_cases:
  assumes "router_inv k" "router_step k k'"
  shows "initiates_one k k' \<or> replaces_one k k' \<or> keeps_transfers k k'"
  using assms(2)
proof (cases rule: router_step.cases)
  case (set_route r)
  then show ?thesis by (simp add: router_SetRoute_def keeps_transfers_def Let_def split: option.split)
next
  case (set_profile p)
  then show ?thesis by (simp add: router_SetRouteProfile_def keeps_transfers_def Let_def split: option.split)
next
  case (initiate a v r t m)
  then show ?thesis using InitiateTransfer_op by blast
next
  case (initiate_profile p a v r t m)
  then show ?thesis using InitiateTransferWithProfile_op by blast
next
  case (ack i success reason)
  then show ?thesis using ack_op [OF assms(1)] by blast
next
  case (timeout i)
  then show ?thesis using timeout_op [OF assms(1)] by blast
next
  case (refund i)
  then show ?thesis using refund_op [OF assms(1)] by blast
next
  case (open_session i)
  then show ?thesis by (simp add: router_OpenTransportSession_def keeps_transfers_def)
next
  case (relayed i)
  then show ?thesis by (simp add: router_MarkPacketRelayed_def keeps_transfers_def)
qed

interpretation router: transition_system "\<lambda>k. k = router_NewKeeper" router_step router_inv
proof unfold_locales
  show "router_inv k" if "k = router_NewKeeper" for k using that router_inv_New by simp
  show "router_inv k'" if "router_inv k" "router_step k k'" for k k'
    using router_step_cases [OF that] that(1) initiates_one_inv replaces_one_inv keeps_transfers_inv by blast
qed

text \<open>Until the 64-bit sequence wraps, which takes \<open>2^64 - 1\<close> transfers, no step loses or rewrites a transfer.\<close>

definition evolves_unwrapped :: "RouterKeeper \<Rightarrow> RouterKeeper \<Rightarrow> bool" where
  "evolves_unwrapped k k' \<longleftrightarrow>
     length (ik_transfers k) \<le> length (ik_transfers k') \<and> (length (ik_transfers k') < 2 ^ 64 - 1 \<longrightarrow> transfers_evolve k k')"

lemma router_step_evolves:
  assumes "router_inv k" "router_step k k'"
  shows "evolves_unwrapped k k'"
proof -
  have "length (ik_transfers k) \<le> length (ik_transfers k')"
    using router_step_cases [OF assms]
    by (auto simp: initiates_one_def replaces_one_def keeps_transfers_def length_update)
  with router_step_cases [OF assms] show ?thesis
    unfolding evolves_unwrapped_def
    using initiates_one_evolve [OF assms(1)] replaces_one_evolve keeps_transfers_evolve by blast
qed

lemma router_steps_evolve:
  assumes "steps router_step k k'" "router_inv k" "length (ik_transfers k') < 2 ^ 64 - 1"
  shows "transfers_evolve k k'"
proof -
  have "evolves_unwrapped k k'"
  proof (rule router.steps_related [OF assms(1,2)])
    show "evolves_unwrapped x x" for x by (simp add: evolves_unwrapped_def transfers_evolve_refl)
    show "evolves_unwrapped x z" if "evolves_unwrapped x y" "evolves_unwrapped y z" for x y z
      using that transfers_evolve_trans unfolding evolves_unwrapped_def by (meson le_trans le_less_trans)
    show "evolves_unwrapped x y" if "router_inv x" "router_step x y" for x y by (rule router_step_evolves [OF that])
  qed
  with assms(3) show ?thesis by (simp add: evolves_unwrapped_def)
qed

end
