(* ===== verification/IBCRouterState.thy ===== *)
theory IBCRouterState
  imports IBCRouterLife
begin

text \<open>
  The stored form of the router's entries, that every operation keeps it, and the round trip of export and import.
\<close>

section \<open>Stored entries\<close>

definition route_entry :: "string \<Rightarrow> Route \<Rightarrow> bool" where
  "route_entry key r \<longleftrightarrow> key = rt_AssetID r \<and> canonicalRoute r = r \<and> route_ValidateBasic r = None"

definition profile_entry :: "string \<Rightarrow> RouteProfile \<Rightarrow> bool" where
  "profile_entry key p \<longleftrightarrow> key = pr_RouteID p \<and> profile_Canonical p = p \<and> profile_ValidateBasic p = None"

definition transfer_entry :: "string \<Rightarrow> TransferRecord \<Rightarrow> bool" where
  "transfer_entry key r \<longleftrightarrow> key = tr_TransferID r \<and> cloneTransferRecord r = r"

definition transport_entry :: "string \<Rightarrow> TransportRecord \<Rightarrow> bool" where
  "transport_entry key t \<longleftrightarrow> key = tp_TransferID t \<and> import_transport t = t"

definition router_stored :: "RouterKeeper \<Rightarrow> bool" where
  "router_stored k \<longleftrightarrow>
     gomap_wf (ik_routes k) \<and> gomap_wf (ik_routeProfiles k) \<and> gomap_wf (ik_transfers k) \<and> gomap_wf (ik_transportSessions k)
     \<and> gomap_all route_entry (ik_routes k) \<and> gomap_all profile_entry (ik_routeProfiles k)
     \<and> gomap_all transfer_entry (ik_transfers k) \<and> gomap_all transport_entry (ik_transportSessions k)"

lemma canonicalRoute_idem [simp]: "canonicalRoute (canonicalRoute r) = canonicalRoute r"
  by (simp add: canonicalRoute_def)

lemma policy_Canonical_idem [simp]: "policy_Canonical (policy_Canonical p) = policy_Canonical p"
  by (simp add: policy_Canonical_def)

lemma assetroute_Canonical_idem [simp]: "assetroute_Canonical (assetroute_Canonical a) = assetroute_Canonical a"
  by (simp add: assetroute_Canonical_def)

lemma profile_Canonical_idem [simp]: "profile_Canonical (profile_Canonical p) = profile_Canonical p"
  by (simp add: profile_Canonical_def)

lemma check_assets_canonical: "check_assets (map assetroute_Canonical as) = check_assets as"
  by (induction as) (simp_all add: assetroute_ValidateBasic_def assetroute_Canonical_def split: option.split)

lemma route_entry_canonical: "route_ValidateBasic r = None \<Longrightarrow> route_entry (routeKey (rt_AssetID (canonicalRoute r))) (canonicalRoute r)"
  by (simp add: route_entry_def route_ValidateBasic_def canonicalRoute_def routeKey_def split: if_splits)

lemma profile_entry_canonical:
  "profile_ValidateBasic p = None \<Longrightarrow> profile_entry (routeProfileKey (pr_RouteID (profile_Canonical p))) (profile_Canonical p)"
  by (simp add: profile_entry_def profile_ValidateBasic_def profile_Canonical_def routeProfileKey_def check_assets_canonical split: if_splits)

lemma transport_entry_new:
  assumes "transfer_entry key r"
  shows "transport_entry (tr_TransferID r)
    \<lparr>tp_TransferID = tr_TransferID r, tp_AssetID = tr_AssetID r, tp_DestinationChainID = tr_DestinationChainID r,
     tp_ChannelID = tr_ChannelID r, tp_PacketSequence = n, tp_Stage = s, tp_AckReason = []\<rparr>"
  using assms unfolding transfer_entry_def cloneTransferRecord_fixed by (simp add: transport_entry_def import_transport_def)

lemma transport_entry_ensure:
  assumes "gomap_all transport_entry (ik_transportSessions k)" "transfer_entry key r"
  shows "transport_entry (tr_TransferID r) (ensureTransportSession k r)"
proof (cases "map_of (ik_transportSessions k) (tr_TransferID r)")
  case None
  then show ?thesis using transport_entry_new [OF assms(2)] by (simp add: ensureTransportSession_def)
next
  case (Some t)
  then show ?thesis using gomap_all_get [OF assms(1)] by (simp add: ensureTransportSession_def)
qed

lemma transport_entry_stage:
  "transport_entry key t \<Longrightarrow> TrimSpace reason = reason \<Longrightarrow> transport_entry key (t\<lparr>tp_Stage := stage, tp_AckReason := reason\<rparr>)"
  by (cases t) (simp add: transport_entry_def import_transport_def)

section \<open>Every operation keeps the stored form\<close>

lemma stored_SetRoute: "router_stored k \<Longrightarrow> router_stored (fst (router_SetRoute k r))"
  using route_entry_canonical [of r]
  by (auto simp: router_SetRoute_def router_stored_def Let_def intro!: gomap_all_set split: option.split)

lemma stored_SetRouteProfile: "router_stored k \<Longrightarrow> router_stored (fst (router_SetRouteProfile k p))"
  using profile_entry_canonical [of p]
  by (auto simp: router_SetRouteProfile_def router_stored_def Let_def intro!: gomap_all_set split: option.split)

lemma stored_settle:
  assumes "router_stored k" "transfer_entry (tr_TransferID r) r" "TrimSpace reason = reason"
  shows "router_stored (settle_transfer k r stage reason)"
proof -
  have "transport_entry (tr_TransferID r) ((ensureTransportSession (k\<lparr>ik_transfers := m\<rparr>) r)\<lparr>tp_Stage := stage, tp_AckReason := reason\<rparr>)" for m
    using assms by (intro transport_entry_stage transport_entry_ensure) (simp_all add: router_stored_def)
  then show ?thesis
    using assms by (simp add: settle_transfer_def router_stored_def Let_def gomap_all_set)
qed

lemma stored_initiate: "router_stored k \<Longrightarrow> router_stored (fst (initiateTransfer k a v rcv t m dc ch dd))"
  by (auto simp: initiateTransfer_def router_stored_def Let_def transfer_entry_def cloneTransferRecord_def
      transport_entry_def import_transport_def intro!: gomap_all_set split: option.split)

lemma transfer_entry_status:
  "transfer_entry key r \<Longrightarrow> transfer_entry key (r\<lparr>tr_Status := s\<rparr>)"
  "transfer_entry key r \<Longrightarrow> TrimSpace f = f \<Longrightarrow> transfer_entry key (r\<lparr>tr_Status := s, tr_FailureReason := f\<rparr>)"
  by (simp_all add: transfer_entry_def cloneTransferRecord_fixed)

lemma stored_get:
  assumes "router_stored k" "map_of (ik_transfers k) key = Some r"
  shows "transfer_entry (tr_TransferID r) r"
proof -
  have "transfer_entry key r" using assms gomap_all_get unfolding router_stored_def by fast
  then show ?thesis by (simp add: transfer_entry_def)
qed

lemma stored_pending: "router_stored k \<Longrightarrow> pendingTransfer k i = Inr r \<Longrightarrow> transfer_entry (tr_TransferID r) r"
  using stored_get by (auto simp: pendingTransfer_Inr)

lemma stored_settle_status:
  "router_stored k \<Longrightarrow> pendingTransfer k i = Inr r \<Longrightarrow> TrimSpace reason = reason \<Longrightarrow>
     router_stored (settle_transfer k (r\<lparr>tr_Status := s\<rparr>) stage reason)"
  "router_stored k \<Longrightarrow> pendingTransfer k i = Inr r \<Longrightarrow> TrimSpace reason = reason \<Longrightarrow> TrimSpace f = f \<Longrightarrow>
     router_stored (settle_transfer k (r\<lparr>tr_Status := s, tr_FailureReason := f\<rparr>) stage reason)"
  by (rule stored_settle, assumption, simp add: transfer_entry_status stored_pending, assumption)+

lemma stored_ack: "router_stored k \<Longrightarrow> router_stored (fst (router_ReceiveIBCAck k i success reason))"
  by (auto simp: router_ReceiveIBCAck_def router_AcknowledgeSuccess_def router_AcknowledgeFailure_def Let_def
      intro: stored_settle_status(2) split: sum.split)

lemma stored_timeout: "router_stored k \<Longrightarrow> router_stored (fst (router_TimeoutTransfer k i))"
  by (auto simp: router_TimeoutTransfer_def Let_def intro: stored_settle_status(1) split: sum.split)

lemma stored_refund:
  assumes "router_stored k"
  shows "router_stored (fst (router_MarkRefunded k i))"
proof (cases "map_of (ik_transfers k) (TrimSpace i)")
  case (Some r)
  have "transfer_entry (tr_TransferID r) (r\<lparr>tr_Status := TransferStatusRefunded\<rparr>)"
    using transfer_entry_status(1) [OF stored_get [OF assms Some]] .
  with assms Some show ?thesis by (simp add: router_MarkRefunded_def router_stored_def Let_def gomap_all_set)
qed (simp add: router_MarkRefunded_def assms)

lemma stored_advance:
  assumes "router_stored k"
  shows "router_stored (fst (advance_transport k i stage))"
proof (cases "map_of (ik_transfers k) (TrimSpace i)")
  case (Some r)
  have "transport_entry (tr_TransferID r) ((ensureTransportSession k r)\<lparr>tp_Stage := stage, tp_AckReason := []\<rparr>)"
    using assms stored_get [OF assms Some] by (intro transport_entry_stage transport_entry_ensure) (simp_all add: router_stored_def)
  with assms Some show ?thesis by (simp add: advance_transport_def router_stored_def Let_def gomap_all_set)
qed (simp add: advance_transport_def assms)

lemma stored_step: "router_step k k' \<Longrightarrow> router_stored k \<Longrightarrow> router_stored k'"
  by (induction rule: router_step.induct)
     (simp_all add: stored_SetRoute stored_SetRouteProfile stored_ack stored_timeout stored_refund stored_advance
       router_OpenTransportSession_def router_MarkPacketRelayed_def router_InitiateTransfer_def
       router_InitiateTransferWithProfile_def stored_initiate split: option.split)

interpretation router_store: transition_system "\<lambda>k. k = router_NewKeeper" router_step router_stored
proof unfold_locales
  show "router_stored k" if "k = router_NewKeeper" for k using that by (simp add: router_stored_def router_NewKeeper_def)
qed (rule stored_step)

section \<open>Round trip\<close>

lemma canonical_ids:
  "rt_AssetID (canonicalRoute r) = TrimSpace (rt_AssetID r)"
  "pr_RouteID (profile_Canonical p) = TrimSpace (pr_RouteID p)"
  "tp_TransferID (import_transport t) = TrimSpace (tp_TransferID t)"
  by (simp_all add: canonicalRoute_def profile_Canonical_def import_transport_def)

lemma import_routes_export:
  "gomap_all route_entry rs \<Longrightarrow>
     import_routes m (map (\<lambda>(_, r). canonicalRoute r) rs) = (fold (\<lambda>(key, r). gomap_set key r) rs m, None)"
proof (induction rs arbitrary: m)
  case (Cons x rs)
  obtain key r where x: "x = (key, r)" by force
  with Cons.prems have r: "key = rt_AssetID r" "canonicalRoute r = r" "route_ValidateBasic r = None"
    by (simp_all add: route_entry_def)
  then have "routeKey (rt_AssetID r) = key" by (metis canonical_ids(1) routeKey_def)
  with Cons r(2,3) show ?case by (simp add: x Let_def)
qed simp

lemma import_profiles_export:
  "gomap_all profile_entry ps \<Longrightarrow>
     import_profiles m (map (\<lambda>(_, p). profile_Canonical p) ps) = (fold (\<lambda>(key, p). gomap_set key p) ps m, None)"
proof (induction ps arbitrary: m)
  case (Cons x ps)
  obtain key p where x: "x = (key, p)" by force
  with Cons.prems have p: "key = pr_RouteID p" "profile_Canonical p = p" "profile_ValidateBasic p = None"
    by (simp_all add: profile_entry_def)
  then have "routeProfileKey (pr_RouteID p) = key" by (metis canonical_ids(2) routeProfileKey_def)
  with Cons p(2,3) show ?case by (simp add: x Let_def)
qed simp

lemma transfer_record_eta [simp]:
  "\<lparr>tr_TransferID = tr_TransferID t, tr_AssetID = tr_AssetID t, tr_Amount = tr_Amount t, tr_Receiver = tr_Receiver t,
    tr_DestinationChainID = tr_DestinationChainID t, tr_ChannelID = tr_ChannelID t, tr_DestinationDenom = tr_DestinationDenom t,
    tr_TimeoutHeight = tr_TimeoutHeight t, tr_Memo = tr_Memo t, tr_Status = tr_Status t, tr_FailureReason = tr_FailureReason t\<rparr> = t"
  by simp

lemma import_transfers_export:
  "gomap_all transfer_entry ts \<Longrightarrow>
     import_transfers m (map (\<lambda>(_, t). transfer_snapshot t) ts) = (fold (\<lambda>(key, t). gomap_set key t) ts m, None)"
proof (induction ts arbitrary: m)
  case (Cons x ts)
  obtain key t where x: "x = (key, t)" by force
  with Cons.prems have "key = tr_TransferID t" "cloneTransferRecord t = t" by (simp_all add: transfer_entry_def)
  with Cons show ?case unfolding cloneTransferRecord_fixed by (simp add: x transfer_snapshot_def)
qed simp

lemma import_transports_export:
  "gomap_all transport_entry ts \<Longrightarrow>
     fold (\<lambda>x. gomap_set (TrimSpace (tp_TransferID x)) (import_transport x)) (map snd ts) m
       = fold (\<lambda>(key, t). gomap_set key t) ts m"
proof (induction ts arbitrary: m)
  case (Cons x ts)
  obtain key t where x: "x = (key, t)" by force
  with Cons.prems have t: "key = tp_TransferID t" "import_transport t = t" by (simp_all add: transport_entry_def)
  then have "TrimSpace (tp_TransferID t) = key" by (metis canonical_ids(3))
  with Cons t(2) show ?case by (simp add: x)
qed simp

lemma router_import_exported:
  assumes "router_stored k" "ik_nextSequence k \<noteq> 0"
  shows "router_ImportState k0 (router_ExportState k) = (k, None)"
  using assms unfolding router_stored_def
  by (simp add: router_ImportState_def router_ExportState_def router_ExportRoutes_def router_ExportRouteProfiles_def
      router_ExportTransportSessions_def import_routes_export import_profiles_export import_transfers_export
      import_transports_export fold_gomap_set)

section \<open>Properties\<close>

definition example_profile :: RouteProfile where
  "example_profile =
     \<lparr>pr_RouteID = ''osmosis-fast'', pr_DestinationChainID = ''osmosis-1'', pr_ChannelID = ''channel-0'', pr_Enabled = True,
      pr_Assets = [\<lparr>ar_AssetID = ''eth.usdc'', ar_DestinationDenom = ''ibc/usdc''\<rparr>],
      pr_Policy = \<lparr>rp_AllowedMemoPrefixes = [''swap:''], rp_AllowedActionTypes = [''swap'']\<rparr>\<rparr>"

definition example_router :: RouterKeeper where
  "example_router = fst (router_SetRouteProfile router_NewKeeper example_profile)"

definition example_sent :: RouterKeeper where
  "example_sent = fst (router_InitiateTransferWithProfile example_router ''osmosis-fast'' ''eth.usdc'' (Some 25) ''osmo1x'' 90 ''swap:uosmo'')"

definition example_refunded :: RouterKeeper where
  "example_refunded = fst (router_MarkRefunded (fst (router_TimeoutTransfer example_sent ''ibc/eth.usdc/1'')) ''ibc/eth.usdc/1'')"

lemma example_sent_reachable: "reachable (\<lambda>k. k = router_NewKeeper) router_step example_sent"
  unfolding example_sent_def example_router_def
  by (rule reachable.next_state [OF reachable.next_state [OF reachable.start]]) (rule refl, rule router_step.set_profile, rule router_step.initiate_profile)

lemma example_refunded_steps: "steps router_step example_sent example_refunded"
  unfolding example_refunded_def
  by (rule steps.more [OF steps.more [OF steps.none]]) (rule router_step.timeout, rule router_step.refund)

text \<open>C22: from any reachable router, whatever operations follow (as long as the 64-bit sequence has not
  wrapped), a recorded transfer is never lost, its asset, amount, receiver, route, timeout and memo never change, and its
  status only moves from pending to completed, failed or timed out, and from failed or timed out to refunded.\<close>

theorem transfer_life_cycle:
  assumes "reachable (\<lambda>k. k = router_NewKeeper) router_step k" "steps router_step k k'"
    and "length (ik_transfers k') < 2 ^ 64 - 1" "map_of (ik_transfers k) i = Some r"
  shows "\<exists>r'. map_of (ik_transfers k') i = Some r' \<and> status_reach (tr_Status r) (tr_Status r') \<and> same_terms r r'"
  using router_steps_evolve [OF assms(2) router.reachable_inv [OF assms(1)] assms(3)] assms(4)
  unfolding transfers_evolve_def by blast

theorem transfer_life_cycle_witness:
  "\<exists>r'. map_of (ik_transfers example_refunded) ''ibc/eth.usdc/1'' = Some r'
        \<and> status_reach TransferStatusPending (tr_Status r') \<and> tr_Amount r' = 25"
proof -
  have len: "length (ik_transfers example_refunded) = 1" by code_simp
  obtain r where r: "map_of (ik_transfers example_sent) ''ibc/eth.usdc/1'' = Some r" "tr_Status r = TransferStatusPending" "tr_Amount r = 25"
  proof -
    have "map_option (\<lambda>r. (tr_Status r, tr_Amount r)) (map_of (ik_transfers example_sent) ''ibc/eth.usdc/1'') = Some (TransferStatusPending, 25)"
      by code_simp
    then show ?thesis using that by (auto simp: map_option_eq_Some)
  qed
  from transfer_life_cycle [OF example_sent_reachable example_refunded_steps _ r(1)] len r(2,3)
  show ?thesis by (auto simp: same_terms_def)
qed

text \<open> a transfer through a route profile is accepted only if the profile exists, is enabled,
  lists the asset and its policy admits the memo and its action; then the record is pending, has the route of the profile
  and the destination denom of the asset, is stored under its id, and the id carries the sequence number, which the next
  transfer does not reuse.\<close>

theorem profile_transfer_obeys_policy:
  assumes "router_InitiateTransferWithProfile k routeID assetID amount receiver timeoutHeight memo = (k', Inr r)"
  shows "\<exists>p a. router_GetRouteProfile k routeID = Some p \<and> pr_Enabled p \<and> profile_AssetRoute p assetID = Some a
     \<and> policy_AllowsMemo (pr_Policy p) memo \<and> policy_AllowsAction (pr_Policy p) memo
     \<and> amount = Some (tr_Amount r) \<and> 0 < tr_Amount r \<and> tr_Status r = TransferStatusPending
     \<and> tr_DestinationChainID r = TrimSpace (pr_DestinationChainID p) \<and> tr_ChannelID r = TrimSpace (pr_ChannelID p)
     \<and> tr_DestinationDenom r = TrimSpace (ar_DestinationDenom a) \<and> tr_TransferID r = transfer_id assetID (ik_nextSequence k)
     \<and> transferSequence (tr_TransferID r) = ik_nextSequence k \<and> ik_nextSequence k' = ik_nextSequence k + 1
     \<and> map_of (ik_transfers k') (tr_TransferID r) = Some r"
proof -
  from assms obtain p a where pa: "router_GetRouteProfile k routeID = Some p" "pr_Enabled p" "profile_AssetRoute p assetID = Some a"
    "policy_AllowsMemo (pr_Policy p) memo" "policy_AllowsAction (pr_Policy p) memo"
    "initiateTransfer k assetID amount receiver timeoutHeight memo (pr_DestinationChainID p) (pr_ChannelID p) (ar_DestinationDenom a) = (k', Inr r)"
    by (auto simp: router_InitiateTransferWithProfile_def split: option.splits if_splits)
  show ?thesis
  proof (cases rule: initiateTransfer_cases [of k assetID amount receiver timeoutHeight memo "pr_DestinationChainID p" "pr_ChannelID p" "ar_DestinationDenom a"])
    case (started x s)
    with pa(6) have "s = r" "ik_nextSequence k' = ik_nextSequence k + 1" "ik_transfers k' = gomap_set (tr_TransferID s) s (ik_transfers k)"
      by simp_all
    with started(1,2,6) pa(1-5) show ?thesis by (intro exI [of _ p] exI [of _ a]) (simp add: gomap_simps)
  qed (use pa(6) in simp)
qed

theorem profile_transfer_obeys_policy_witness:
  "\<exists>p. router_GetRouteProfile example_router ''osmosis-fast'' = Some p \<and> policy_AllowsMemo (pr_Policy p) ''swap:uosmo''"
proof -
  have "case snd (router_InitiateTransferWithProfile example_router ''osmosis-fast'' ''eth.usdc'' (Some 25) ''osmo1x'' 90 ''swap:uosmo'')
      of Inl _ \<Rightarrow> False | Inr _ \<Rightarrow> True" by code_simp
  then obtain k' r where
    "router_InitiateTransferWithProfile example_router ''osmosis-fast'' ''eth.usdc'' (Some 25) ''osmo1x'' 90 ''swap:uosmo'' = (k', Inr r)"
    by (metis case_InrE prod.collapse)
  from profile_transfer_obeys_policy [OF this] show ?thesis by blast
qed

text \<open>C34: a refund is granted exactly for a failed or timed-out transfer, and after it neither a second
  refund nor an acknowledgement nor a timeout of that transfer is accepted.\<close>

theorem refund_exactly_once:
  assumes "router_stored k"
  shows "((\<exists>r. snd (router_MarkRefunded k i) = Inr r) \<longleftrightarrow>
           (\<exists>r. map_of (ik_transfers k) (TrimSpace i) = Some r \<and> tr_Status r \<in> {TransferStatusAckFailed, TransferStatusTimedOut}))
     \<and> ((\<exists>r. snd (router_MarkRefunded k i) = Inr r) \<longrightarrow>
           snd (router_MarkRefunded (fst (router_MarkRefunded k i)) i) = Inl ErrTransferNotRecoverable
           \<and> snd (router_ReceiveIBCAck (fst (router_MarkRefunded k i)) i success reason) = Inl ErrTransferNotPending
           \<and> snd (router_HandleIBCTimeout (fst (router_MarkRefunded k i)) i) = Inl ErrTransferNotPending)"
proof (cases "map_of (ik_transfers k) (TrimSpace i)")
  case None
  then show ?thesis by (simp add: router_MarkRefunded_def)
next
  case (Some r)
  have "transfer_entry (TrimSpace i) r" using assms Some gomap_all_get unfolding router_stored_def by fast
  then have "tr_TransferID r = TrimSpace i" by (simp add: transfer_entry_def)
  with Some show ?thesis
    by (simp add: router_MarkRefunded_def router_ReceiveIBCAck_def router_AcknowledgeSuccess_def router_AcknowledgeFailure_def
        router_HandleIBCTimeout_def router_TimeoutTransfer_def pendingTransfer_def Let_def gomap_simps)
qed

theorem refund_exactly_once_witness:
  "snd (router_MarkRefunded (fst (router_MarkRefunded (fst (router_TimeoutTransfer example_sent ''ibc/eth.usdc/1'')) ''ibc/eth.usdc/1'')) ''ibc/eth.usdc/1'')
     = Inl ErrTransferNotRecoverable"
proof -
  have inv: "router_stored (fst (router_TimeoutTransfer example_sent ''ibc/eth.usdc/1''))"
    by (rule stored_timeout [OF router_store.reachable_inv [OF example_sent_reachable]])
  have "case snd (router_MarkRefunded (fst (router_TimeoutTransfer example_sent ''ibc/eth.usdc/1'')) ''ibc/eth.usdc/1'') of Inl _ \<Rightarrow> False | Inr _ \<Rightarrow> True"
    by code_simp
  then have "\<exists>r. snd (router_MarkRefunded (fst (router_TimeoutTransfer example_sent ''ibc/eth.usdc/1'')) ''ibc/eth.usdc/1'') = Inr r"
    by (blast elim: case_InrE)
  with refund_exactly_once [OF inv, of "''ibc/eth.usdc/1''"] show ?thesis by blast
qed

text \<open> importing the exported state of any reachable router, into any keeper, succeeds and restores
  routes, profiles, transfers, transport sessions and the sequence counter.\<close>

theorem router_export_import:
  assumes "reachable (\<lambda>k. k = router_NewKeeper) router_step k" "ik_nextSequence k \<noteq> 0"
  shows "router_ImportState k0 (router_ExportState k) = (k, None)"
  by (rule router_import_exported [OF router_store.reachable_inv [OF assms(1)] assms(2)])

theorem router_export_import_witness:
  "router_ImportState router_NewKeeper (router_ExportState example_sent) = (example_sent, None)"
proof -
  have "ik_nextSequence example_sent \<noteq> 0" by code_simp
  then show ?thesis by (rule router_export_import [OF example_sent_reachable])
qed

end
