(* ===== verification/Registry.thy ===== *)
theory Registry
  imports GoStrings
begin

text \<open>
  The asset registry of \<^verbatim>\<open>chain/aegislink/x/registry\<close>: validation and canonical form of an asset,
  the derivation of its destination denom, and the keeper that stores assets by trimmed id and
  keeps destination denoms unique up to letter case.
\<close>

section \<open>Assets\<close>

datatype registry_error = ErrInvalidAsset string | ErrAssetAlreadyExists | ErrAssetNotFound

abbreviation (input) KindNativeETH :: string where "KindNativeETH \<equiv> ''native_eth''"
abbreviation (input) KindERC20 :: string where "KindERC20 \<equiv> ''erc20''"

record Asset =
  as_AssetID :: string
  as_SourceChainID :: string
  as_SourceAssetKind :: string
  as_SourceAssetAddress :: string
  as_SourceContract :: string
  as_Denom :: string
  as_DestinationDenom :: string
  as_Decimals :: u32
  as_DisplayName :: string
  as_DisplaySymbol :: string
  as_Enabled :: bool

definition asset_ValidateBasic :: "Asset \<Rightarrow> registry_error option" where
  "asset_ValidateBasic a =
     (if TrimSpace (as_AssetID a) = '''' then Some (ErrInvalidAsset ''missing asset id'')
      else if TrimSpace (as_SourceChainID a) = '''' then Some (ErrInvalidAsset ''missing source chain id'')
      else if as_SourceAssetKind a \<noteq> KindNativeETH \<and> as_SourceAssetKind a \<noteq> KindERC20
      then Some (ErrInvalidAsset ''invalid source asset kind'')
      else if TrimSpace (as_DisplaySymbol a) = '''' \<and> TrimSpace (as_DisplayName a) = ''''
      then Some (ErrInvalidAsset ''missing display symbol'')
      else if as_SourceAssetKind a = KindERC20
              \<and> TrimSpace (as_SourceAssetAddress a) = '''' \<and> TrimSpace (as_SourceContract a) = ''''
      then Some (ErrInvalidAsset ''missing source asset address'')
      else if 18 < as_Decimals a then Some (ErrInvalidAsset ''decimals must be <= 18'')
      else None)"

section \<open>Derivation of the destination denom\<close>

definition normalizedSymbol :: "string \<Rightarrow> string" where
  "normalizedSymbol value =
     ToLower (TrimSpace (filter (\<lambda>c. c \<noteq> CHR ''.'' \<and> c \<noteq> CHR ''-'' \<and> c \<noteq> CHR ''_'') value))"

definition assetPrefixFromAssetID :: "string \<Rightarrow> string" where
  "assetPrefixFromAssetID assetID =
     (let trimmed = TrimSpace assetID in
      if trimmed = '''' then ''''
      else case Cut trimmed (CHR ''.'') of
        (pre, _, ok) \<Rightarrow> if ok then normalizedSymbol pre else normalizedSymbol trimmed)"

definition assetSuffixFromAssetID :: "string \<Rightarrow> string" where
  "assetSuffixFromAssetID assetID =
     (let trimmed = TrimSpace assetID in
      if trimmed = '''' then ''''
      else case Cut trimmed (CHR ''.'') of
        (_, post, ok) \<Rightarrow> if ok then normalizedSymbol post else '''')"

definition deriveDestinationDenom :: "Asset \<Rightarrow> string" where
  "deriveDestinationDenom a =
     (let p = assetPrefixFromAssetID (as_AssetID a);
          pre = (if p = '''' then ''asset'' else p) in
      if as_SourceAssetKind a = KindNativeETH then ''u'' @ pre
      else if as_SourceAssetKind a = KindERC20 then
        (let s1 = assetSuffixFromAssetID (as_AssetID a);
             s2 = (if s1 = '''' then normalizedSymbol (as_DisplaySymbol a) else s1);
             symbol = (if s2 = '''' then ''token'' else s2)
         in ''u'' @ pre @ symbol)
      else ''u'' @ pre @ normalizedSymbol (as_DisplaySymbol a))"

definition deriveAssetMetadata :: "Asset \<Rightarrow> Asset" where
  "deriveAssetMetadata a =
     (let d = deriveDestinationDenom a in a\<lparr>as_DestinationDenom := d, as_Denom := d\<rparr>)"

definition canonicalAsset :: "Asset \<Rightarrow> Asset" where
  "canonicalAsset a0 =
     (let a1 = a0\<lparr>as_AssetID := TrimSpace (as_AssetID a0),
                  as_SourceChainID := TrimSpace (as_SourceChainID a0),
                  as_SourceAssetAddress := TrimSpace (as_SourceAssetAddress a0),
                  as_SourceContract := TrimSpace (as_SourceContract a0),
                  as_SourceAssetKind := TrimSpace (as_SourceAssetKind a0),
                  as_Denom := TrimSpace (as_Denom a0),
                  as_DestinationDenom := TrimSpace (as_DestinationDenom a0),
                  as_DisplayName := TrimSpace (as_DisplayName a0),
                  as_DisplaySymbol := TrimSpace (as_DisplaySymbol a0)\<rparr>;
          a2 = (if as_DisplaySymbol a1 = '''' then a1\<lparr>as_DisplaySymbol := as_DisplayName a1\<rparr> else a1);
          a3 = (if as_SourceAssetAddress a2 = '''' then a2\<lparr>as_SourceAssetAddress := as_SourceContract a2\<rparr> else a2);
          a4 = (if as_SourceContract a3 = '''' then a3\<lparr>as_SourceContract := as_SourceAssetAddress a3\<rparr> else a3);
          a5 = (if as_SourceAssetKind a4 = '''' \<and> as_SourceAssetAddress a4 \<noteq> ''''
                then a4\<lparr>as_SourceAssetKind := KindERC20\<rparr> else a4)
      in a5)"

section \<open>The keeper\<close>

record RegistryKeeper =
  rk_assets :: "(string, Asset) gomap"

definition registry_NewKeeper :: RegistryKeeper where
  "registry_NewKeeper = \<lparr>rk_assets = []\<rparr>"

definition assetKey :: "string \<Rightarrow> string" where
  "assetKey assetID = TrimSpace assetID"

definition ensureDestinationDenomAvailable :: "RegistryKeeper \<Rightarrow> Asset \<Rightarrow> string \<Rightarrow> registry_error option" where
  "ensureDestinationDenomAvailable k asset key =
     (if list_ex (\<lambda>(existingKey, existingAsset). existingKey \<noteq> key
           \<and> EqualFold (as_DestinationDenom existingAsset) (as_DestinationDenom asset)) (rk_assets k)
      then Some ErrAssetAlreadyExists else None)"

definition registry_RegisterAsset :: "RegistryKeeper \<Rightarrow> Asset \<Rightarrow> RegistryKeeper \<times> registry_error option" where
  "registry_RegisterAsset k asset =
     (let stored = deriveAssetMetadata (canonicalAsset asset) in
      case asset_ValidateBasic stored of
        Some e \<Rightarrow> (k, Some e)
      | None \<Rightarrow>
          let key = assetKey (as_AssetID stored) in
          if gomap_get (rk_assets k) key \<noteq> None then (k, Some ErrAssetAlreadyExists)
          else case ensureDestinationDenomAvailable k stored key of
            Some e \<Rightarrow> (k, Some e)
          | None \<Rightarrow> (k\<lparr>rk_assets := gomap_set key stored (rk_assets k)\<rparr>, None))"

definition registry_GetAsset :: "RegistryKeeper \<Rightarrow> string \<Rightarrow> Asset option" where
  "registry_GetAsset k assetID = gomap_get (rk_assets k) (assetKey assetID)"

definition setAssetEnabled :: "RegistryKeeper \<Rightarrow> string \<Rightarrow> bool \<Rightarrow> RegistryKeeper \<times> registry_error option" where
  "setAssetEnabled k assetID enabled =
     (let key = assetKey assetID in
      case gomap_get (rk_assets k) key of
        None \<Rightarrow> (k, Some ErrAssetNotFound)
      | Some asset \<Rightarrow>
          (k\<lparr>rk_assets := gomap_set key (asset\<lparr>as_Enabled := enabled\<rparr>) (rk_assets k)\<rparr>, None))"

definition registry_DisableAsset :: "RegistryKeeper \<Rightarrow> string \<Rightarrow> RegistryKeeper \<times> registry_error option" where
  "registry_DisableAsset k assetID = setAssetEnabled k assetID False"

definition registry_EnableAsset :: "RegistryKeeper \<Rightarrow> string \<Rightarrow> RegistryKeeper \<times> registry_error option" where
  "registry_EnableAsset k assetID = setAssetEnabled k assetID True"

definition registry_ExportAssets :: "RegistryKeeper \<Rightarrow> Asset list" where
  "registry_ExportAssets k = map (\<lambda>(key, asset). canonicalAsset asset) (rk_assets k)"

fun import_assets :: "RegistryKeeper \<Rightarrow> Asset list \<Rightarrow> RegistryKeeper \<times> registry_error option" where
  "import_assets k [] = (k, None)"
| "import_assets k (asset # assets) =
     (let stored = deriveAssetMetadata (canonicalAsset asset) in
      case asset_ValidateBasic stored of
        Some e \<Rightarrow> (k, Some e)
      | None \<Rightarrow>
          let key = assetKey (as_AssetID stored) in
          case ensureDestinationDenomAvailable k stored key of
            Some e \<Rightarrow> (k, Some e)
          | None \<Rightarrow> import_assets (k\<lparr>rk_assets := gomap_set key stored (rk_assets k)\<rparr>) assets)"

definition registry_ImportAssets :: "RegistryKeeper \<Rightarrow> Asset list \<Rightarrow> RegistryKeeper \<times> registry_error option" where
  "registry_ImportAssets k assets = import_assets (k\<lparr>rk_assets := []\<rparr>) assets"

section \<open>The registry invariant\<close>

text \<open>A stored asset is keyed by its own trimmed id, is valid, canonical but for its denoms, and
  carries the derived denom in both denom fields.\<close>

definition stored_asset :: "string \<Rightarrow> Asset \<Rightarrow> bool" where
  "stored_asset key a \<longleftrightarrow>
     key = as_AssetID a \<and> TrimSpace (as_AssetID a) = as_AssetID a
     \<and> asset_ValidateBasic a = None
     \<and> as_DestinationDenom a = deriveDestinationDenom a
     \<and> as_Denom a = as_DestinationDenom a"

definition registry_inv :: "RegistryKeeper \<Rightarrow> bool" where
  "registry_inv k \<longleftrightarrow>
     gomap_wf (rk_assets k)
     \<and> (\<forall>(key, a) \<in> set (rk_assets k). stored_asset key a)
     \<and> (\<forall>(k1, a1) \<in> set (rk_assets k). \<forall>(k2, a2) \<in> set (rk_assets k).
          EqualFold (as_DestinationDenom a1) (as_DestinationDenom a2) \<longrightarrow> k1 = k2)"

lemma deriveDestinationDenom_cong:
  "as_AssetID a = as_AssetID b \<Longrightarrow> as_SourceAssetKind a = as_SourceAssetKind b \<Longrightarrow>
   as_DisplaySymbol a = as_DisplaySymbol b \<Longrightarrow> deriveDestinationDenom a = deriveDestinationDenom b"
  by (simp add: deriveDestinationDenom_def Let_def)

lemma deriveDestinationDenom_update [simp]:
  "deriveDestinationDenom (a\<lparr>as_DestinationDenom := d\<rparr>) = deriveDestinationDenom a"
  "deriveDestinationDenom (a\<lparr>as_Denom := d\<rparr>) = deriveDestinationDenom a"
  "deriveDestinationDenom (a\<lparr>as_Enabled := e\<rparr>) = deriveDestinationDenom a"
  by (rule deriveDestinationDenom_cong; simp)+

lemma asset_ValidateBasic_update [simp]:
  "asset_ValidateBasic (a\<lparr>as_Enabled := e\<rparr>) = asset_ValidateBasic a"
  by (simp add: asset_ValidateBasic_def)

lemma canonicalAsset_AssetID [simp]: "as_AssetID (canonicalAsset a) = TrimSpace (as_AssetID a)"
  by (simp add: canonicalAsset_def Let_def)

lemma deriveAssetMetadata_stored:
  assumes "asset_ValidateBasic (deriveAssetMetadata (canonicalAsset a)) = None"
  shows "stored_asset (TrimSpace (as_AssetID a)) (deriveAssetMetadata (canonicalAsset a))"
  using assms by (simp add: stored_asset_def deriveAssetMetadata_def Let_def)

lemma registry_inv_New: "registry_inv registry_NewKeeper"
  by (simp add: registry_inv_def registry_NewKeeper_def)

lemma registry_inv_insert:
  assumes "registry_inv k" "stored_asset key a" "ensureDestinationDenomAvailable k a key = None"
  shows "registry_inv (k\<lparr>rk_assets := gomap_set key a (rk_assets k)\<rparr>)"
proof -
  have old: "\<not> EqualFold (as_DestinationDenom b) (as_DestinationDenom a)"
    if "(k', b) \<in> set (rk_assets k)" "k' \<noteq> key" for k' b
    using assms(3) that by (auto simp: ensureDestinationDenomAvailable_def list_ex_iff split: if_splits)
  have sub: "set (gomap_set key a (rk_assets k)) \<subseteq> insert (key, a) (set (rk_assets k))"
    by (rule set_update_subset)
  have sym: "EqualFold x y \<longleftrightarrow> EqualFold y x" for x y by (auto simp: EqualFold_def)
  have wf: "gomap_wf (gomap_set key a (rk_assets k))"
    using assms(1) by (auto simp: registry_inv_def)
  have st: "\<forall>(k', b) \<in> set (gomap_set key a (rk_assets k)). stored_asset k' b"
    using assms sub by (fastforce simp: registry_inv_def)
  have "k1 = k2"
    if "(k1, a1) \<in> set (gomap_set key a (rk_assets k))" "(k2, a2) \<in> set (gomap_set key a (rk_assets k))"
      "EqualFold (as_DestinationDenom a1) (as_DestinationDenom a2)" for k1 k2 a1 a2
  proof -
    have "(k1, a1) = (key, a) \<or> (k1, a1) \<in> set (rk_assets k)"
      "(k2, a2) = (key, a) \<or> (k2, a2) \<in> set (rk_assets k)" using that sub by auto
    then show ?thesis
      using old sym that(3) assms(1) unfolding registry_inv_def by blast
  qed
  with wf st show ?thesis by (auto simp: registry_inv_def)
qed

lemma registry_inv_Register: "registry_inv k \<Longrightarrow> registry_inv (fst (registry_RegisterAsset k a))"
  by (auto simp: registry_RegisterAsset_def Let_def assetKey_def deriveAssetMetadata_def
      intro!: registry_inv_insert deriveAssetMetadata_stored [unfolded deriveAssetMetadata_def Let_def]
      split: option.split)

lemma stored_asset_enabled: "stored_asset key a \<Longrightarrow> stored_asset key (a\<lparr>as_Enabled := e\<rparr>)"
  by (simp add: stored_asset_def)

lemma ensure_unaffected:
  assumes "registry_inv k" "map_of (rk_assets k) key = Some a"
  shows "ensureDestinationDenomAvailable k (a\<lparr>as_Enabled := e\<rparr>) key = None"
proof -
  have "(key, a) \<in> set (rk_assets k)" using assms(2) by (rule map_of_SomeD)
  with assms(1) show ?thesis
    unfolding registry_inv_def ensureDestinationDenomAvailable_def list_ex_iff by fastforce
qed

lemma registry_inv_setEnabled: "registry_inv k \<Longrightarrow> registry_inv (fst (setAssetEnabled k i e))"
proof (cases "map_of (rk_assets k) (assetKey i)")
  case None
  then show "registry_inv k \<Longrightarrow> ?thesis" by (simp add: setAssetEnabled_def Let_def)
next
  case (Some a)
  assume inv: "registry_inv k"
  have "stored_asset (assetKey i) a"
    using inv map_of_SomeD [OF Some] unfolding registry_inv_def by blast
  with inv Some show ?thesis
    by (simp add: setAssetEnabled_def Let_def registry_inv_insert stored_asset_enabled ensure_unaffected)
qed

lemma import_assets_inv: "registry_inv k \<Longrightarrow> registry_inv (fst (import_assets k as))"
proof (induction k as rule: import_assets.induct)
  case (1 k)
  then show ?case by simp
next
  case (2 k a as)
  let ?s = "deriveAssetMetadata (canonicalAsset a)"
  have id: "assetKey (as_AssetID ?s) = TrimSpace (as_AssetID a)"
    by (simp add: assetKey_def deriveAssetMetadata_def Let_def)
  show ?case
  proof (cases "asset_ValidateBasic ?s = None \<and> ensureDestinationDenomAvailable k ?s (assetKey (as_AssetID ?s)) = None")
    case True
    then have "registry_inv (k\<lparr>rk_assets := gomap_set (assetKey (as_AssetID ?s)) ?s (rk_assets k)\<rparr>)"
      using "2.prems" id by (intro registry_inv_insert) (auto intro: deriveAssetMetadata_stored)
    with "2.IH" True show ?thesis by (simp add: Let_def)
  next
    case False
    then show ?thesis using "2.prems" by (auto simp: Let_def split: option.split)
  qed
qed

lemma GetAsset_stored:
  "registry_inv k \<Longrightarrow> registry_GetAsset k i = Some a \<Longrightarrow> stored_asset (TrimSpace i) a"
  unfolding registry_GetAsset_def assetKey_def registry_inv_def by (blast dest: map_of_SomeD)

lemma GetAsset_trim [simp]: "registry_GetAsset k (TrimSpace i) = registry_GetAsset k i"
  by (simp add: registry_GetAsset_def assetKey_def)

section \<open>How the registry evolves\<close>

text \<open>No operation removes an asset or changes its denoms; this is what the bridge accounting
  relies on.\<close>

definition registry_extends :: "RegistryKeeper \<Rightarrow> RegistryKeeper \<Rightarrow> bool" where
  "registry_extends r r' \<longleftrightarrow>
     (\<forall>i a. registry_GetAsset r i = Some a \<longrightarrow>
        (\<exists>a'. registry_GetAsset r' i = Some a' \<and> as_Denom a' = as_Denom a
              \<and> as_DestinationDenom a' = as_DestinationDenom a))"

lemma registry_extends_refl [simp]: "registry_extends r r"
  by (simp add: registry_extends_def)

lemma registry_extends_trans: "registry_extends r s \<Longrightarrow> registry_extends s t \<Longrightarrow> registry_extends r t"
  unfolding registry_extends_def by metis

lemma registry_extends_Register: "registry_extends k (fst (registry_RegisterAsset k a))"
  by (auto simp: registry_RegisterAsset_def registry_extends_def registry_GetAsset_def Let_def gomap_simps
      split: option.split)

lemma registry_extends_setEnabled: "registry_extends k (fst (setAssetEnabled k i e))"
  by (auto simp: setAssetEnabled_def registry_extends_def registry_GetAsset_def Let_def gomap_simps
      split: option.split)

text \<open>A derived denom starts with \<open>u\<close>, so it is never blank.\<close>

lemma deriveDestinationDenom_nonblank: "TrimSpace (deriveDestinationDenom a) \<noteq> []"
proof -
  have "CHR ''u'' \<in> set (deriveDestinationDenom a)"
    by (simp add: deriveDestinationDenom_def Let_def)
  moreover have "graphic (CHR ''u'')" by (simp add: graphic_def)
  ultimately show ?thesis by (rule TrimSpace_graphic_nonempty [rotated])
qed

section \<open>Properties\<close>

text \<open> registering, enabling, disabling and importing assets keep the registry
  valid, and in a valid registry two lookups that return assets with the same destination denom, up to
  letter case, were for the same asset.\<close>

theorem registry_denoms_unique:
  assumes "registry_inv k"
  shows "registry_inv (fst (registry_RegisterAsset k a))
    \<and> registry_inv (fst (registry_EnableAsset k i)) \<and> registry_inv (fst (registry_DisableAsset k i))
    \<and> registry_inv (fst (registry_ImportAssets k as))
    \<and> (registry_GetAsset k i = Some x \<longrightarrow> registry_GetAsset k j = Some y \<longrightarrow>
           EqualFold (as_DestinationDenom x) (as_DestinationDenom y) \<longrightarrow> TrimSpace i = TrimSpace j)"
proof (intro conjI impI)
  show "registry_inv (fst (registry_ImportAssets k as))"
    unfolding registry_ImportAssets_def by (rule import_assets_inv) (simp add: registry_inv_def)
  assume "registry_GetAsset k i = Some x" "registry_GetAsset k j = Some y"
    "EqualFold (as_DestinationDenom x) (as_DestinationDenom y)"
  with assms show "TrimSpace i = TrimSpace j"
    unfolding registry_inv_def registry_GetAsset_def assetKey_def by (blast dest: map_of_SomeD)
qed (simp_all add: assms registry_inv_Register registry_EnableAsset_def registry_DisableAsset_def registry_inv_setEnabled)

definition example_registry :: RegistryKeeper where
  "example_registry = fst (registry_RegisterAsset registry_NewKeeper
     \<lparr>as_AssetID = '' eth '', as_SourceChainID = ''1'', as_SourceAssetKind = ''native_eth'', as_SourceAssetAddress = [],
      as_SourceContract = [], as_Denom = [], as_DestinationDenom = [], as_Decimals = 18,
      as_DisplayName = ''Ether'', as_DisplaySymbol = ''ETH'', as_Enabled = True\<rparr>)"

theorem registry_denoms_unique_witness:
  "registry_inv example_registry \<and> as_Denom (the (registry_GetAsset example_registry ''eth'')) = ''ueth''"
proof
  show "registry_inv example_registry"
    unfolding example_registry_def by (rule registry_denoms_unique [OF registry_inv_New, THEN conjunct1])
  show "as_Denom (the (registry_GetAsset example_registry ''eth'')) = ''ueth''" by code_simp
qed

text \<open>Registration succeeds exactly when the canonical asset is valid, its id is
  new and its derived denom is not taken; it then stores the canonical asset with the derived denom
  under the trimmed id and leaves all other entries; on an error nothing changes.\<close>

lemma registry_register_effect:
  "let stored = deriveAssetMetadata (canonicalAsset a) in
   case registry_RegisterAsset k a of
     (k', None) \<Rightarrow>
       asset_ValidateBasic stored = None \<and> registry_GetAsset k (as_AssetID a) = None
       \<and> ensureDestinationDenomAvailable k stored (TrimSpace (as_AssetID a)) = None
       \<and> registry_GetAsset k' (as_AssetID a) = Some stored
       \<and> as_DestinationDenom stored = deriveDestinationDenom (canonicalAsset a) \<and> as_Denom stored = as_DestinationDenom stored
       \<and> (\<forall>j. TrimSpace j \<noteq> TrimSpace (as_AssetID a) \<longrightarrow> registry_GetAsset k' j = registry_GetAsset k j)
   | (k', Some e) \<Rightarrow>
       k' = k \<and> (asset_ValidateBasic stored = Some e
         \<or> e = ErrAssetAlreadyExists \<and> (registry_GetAsset k (as_AssetID a) \<noteq> None
              \<or> ensureDestinationDenomAvailable k stored (TrimSpace (as_AssetID a)) \<noteq> None))"
proof -
  let ?s = "deriveAssetMetadata (canonicalAsset a)"
  have id: "as_AssetID ?s = TrimSpace (as_AssetID a)" "as_Denom ?s = as_DestinationDenom ?s"
    "as_DestinationDenom ?s = deriveDestinationDenom (canonicalAsset a)"
    by (simp_all add: deriveAssetMetadata_def Let_def)
  have e: "ensureDestinationDenomAvailable k ?s key = None \<or> ensureDestinationDenomAvailable k ?s key = Some ErrAssetAlreadyExists" for key
    by (simp add: ensureDestinationDenomAvailable_def)
  show ?thesis
    unfolding Let_def registry_RegisterAsset_def id registry_GetAsset_def assetKey_def
    using e [of "TrimSpace (as_AssetID a)"]
    by (auto simp: gomap_simps id split: option.splits)
qed

end
