(* ===== verification/Limits.thy ===== *)
theory Limits
  imports Interfaces
begin

text \<open>
  The rate limits of \<^verbatim>\<open>chain/aegislink/x/limits\<close>: a limit per asset, the usage of the current
  window per asset, the check and the recording of a transfer at a block height, and the import
  and export of both maps. Heights and window lengths are 64-bit and their sum wraps, as in Go.
  The keeper is the in-memory one (\<^verbatim>\<open>prefixStore == nil\<close>), whose \<^verbatim>\<open>persist\<close> does nothing.
\<close>

section \<open>Types\<close>

datatype limits_error =
    ErrInvalidRateLimit string
  | ErrLimitNotFound
  | ErrInvalidTransfer
  | ErrRateLimitExceeded
  | PanicNilMaxAmount \<comment> \<open>\<^verbatim>\<open>next.Cmp(nil)\<close> dereferences a nil pointer\<close>

record RateLimit =
  rl_AssetID :: string
  rl_WindowBlocks :: u64
  rl_MaxAmount :: bigint

record WindowUsage =
  wu_AssetID :: string
  wu_WindowStart :: u64
  wu_UsedAmount :: bigint

definition ratelimit_ValidateBasic :: "RateLimit \<Rightarrow> limits_error option" where
  "ratelimit_ValidateBasic l =
     (if TrimSpace (rl_AssetID l) = '''' then Some (ErrInvalidRateLimit ''missing asset id'')
      else if rl_WindowBlocks l = 0 then Some (ErrInvalidRateLimit ''missing window blocks'')
      else if (case rl_MaxAmount l of None \<Rightarrow> True | Some m \<Rightarrow> m \<le> 0)
      then Some (ErrInvalidRateLimit ''missing max amount'')
      else None)"

definition usage_ValidateBasic :: "WindowUsage \<Rightarrow> limits_error option" where
  "usage_ValidateBasic u =
     (if TrimSpace (wu_AssetID u) = '''' then Some (ErrInvalidRateLimit ''missing usage asset id'')
      else if (case wu_UsedAmount u of None \<Rightarrow> True | Some m \<Rightarrow> m < 0)
      then Some (ErrInvalidRateLimit ''invalid used amount'')
      else None)"

record LimitsKeeper =
  lk_limits :: "(string, RateLimit) gomap"
  lk_usage :: "(string, WindowUsage) gomap"

record LimitsStateSnapshot =
  ls_Limits :: "RateLimit list"
  ls_Usage :: "WindowUsage list"

definition limits_NewKeeper :: LimitsKeeper where
  "limits_NewKeeper = \<lparr>lk_limits = [], lk_usage = []\<rparr>"

section \<open>Helpers\<close>

definition limitKey :: "string \<Rightarrow> string" where
  "limitKey assetID = TrimSpace assetID"

definition cloneBigInt :: "bigint \<Rightarrow> int" where
  "cloneBigInt v = (case v of None \<Rightarrow> 0 | Some i \<Rightarrow> i)"

definition canonicalLimit :: "RateLimit \<Rightarrow> RateLimit" where
  "canonicalLimit l = l\<lparr>rl_AssetID := TrimSpace (rl_AssetID l)\<rparr>"

definition canonicalUsage :: "WindowUsage \<Rightarrow> WindowUsage" where
  "canonicalUsage u =
     u\<lparr>wu_AssetID := limitKey (wu_AssetID u), wu_UsedAmount := Some (cloneBigInt (wu_UsedAmount u))\<rparr>"

text \<open>The zero value that a Go map returns for a missing key.\<close>

definition zeroUsage :: WindowUsage where
  "zeroUsage = \<lparr>wu_AssetID = '''', wu_WindowStart = 0, wu_UsedAmount = None\<rparr>"

definition usage_at :: "LimitsKeeper \<Rightarrow> string \<Rightarrow> WindowUsage" where
  "usage_at k key = (case gomap_get (lk_usage k) key of None \<Rightarrow> zeroUsage | Some u \<Rightarrow> u)"

definition activeUsage :: "RateLimit \<Rightarrow> WindowUsage \<Rightarrow> u64 \<Rightarrow> WindowUsage" where
  "activeUsage limit usage0 atHeight =
     (let u1 = canonicalUsage usage0;
          u2 = (if wu_AssetID u1 = '''' then u1\<lparr>wu_AssetID := rl_AssetID limit\<rparr> else u1);
          u3 = (if wu_UsedAmount u2 = None then u2\<lparr>wu_UsedAmount := Some 0\<rparr> else u2)
      in if wu_WindowStart u3 = 0 then u3
         else if wu_WindowStart u3 + rl_WindowBlocks limit \<le> atHeight
         then \<lparr>wu_AssetID = rl_AssetID limit, wu_WindowStart = atHeight, wu_UsedAmount = Some 0\<rparr>
         else u3)"

section \<open>Operations\<close>

definition limits_SetLimit :: "LimitsKeeper \<Rightarrow> RateLimit \<Rightarrow> LimitsKeeper \<times> limits_error option" where
  "limits_SetLimit k limit =
     (case ratelimit_ValidateBasic limit of
        Some e \<Rightarrow> (k, Some e)
      | None \<Rightarrow>
          let stored = canonicalLimit limit in
          (k\<lparr>lk_limits := gomap_set (limitKey (rl_AssetID stored)) stored (lk_limits k)\<rparr>, None))"

definition limits_GetLimit :: "LimitsKeeper \<Rightarrow> string \<Rightarrow> RateLimit option" where
  "limits_GetLimit k assetID = gomap_get (lk_limits k) (limitKey assetID)"

definition limits_CheckTransferAtHeight :: "LimitsKeeper \<Rightarrow> string \<Rightarrow> bigint \<Rightarrow> u64 \<Rightarrow> limits_error option" where
  "limits_CheckTransferAtHeight k assetID amount atHeight =
     (case amount of
        None \<Rightarrow> Some ErrInvalidTransfer
      | Some a \<Rightarrow>
          if a < 0 then Some ErrInvalidTransfer
          else case limits_GetLimit k assetID of
            None \<Rightarrow> Some ErrLimitNotFound
          | Some limit \<Rightarrow>
              let current = activeUsage limit (usage_at k (limitKey assetID)) atHeight;
                  next_used = cloneBigInt (wu_UsedAmount current) + a
              in case rl_MaxAmount limit of
                   None \<Rightarrow> Some PanicNilMaxAmount
                 | Some maxAmount \<Rightarrow> if maxAmount < next_used then Some ErrRateLimitExceeded else None)"

definition limits_CheckTransfer :: "LimitsKeeper \<Rightarrow> string \<Rightarrow> bigint \<Rightarrow> limits_error option" where
  "limits_CheckTransfer k assetID amount = limits_CheckTransferAtHeight k assetID amount 0"

text \<open>After a nil check the limit exists, so the \<^verbatim>\<open>limit, _ := k.GetLimit\<close> of the source never sees the
  zero limit; the branch is written out.\<close>

definition limits_RecordTransferAtHeight ::
    "LimitsKeeper \<Rightarrow> string \<Rightarrow> bigint \<Rightarrow> u64 \<Rightarrow> LimitsKeeper \<times> limits_error option" where
  "limits_RecordTransferAtHeight k assetID amount atHeight =
     (case limits_CheckTransferAtHeight k assetID amount atHeight of
        Some e \<Rightarrow> (k, Some e)
      | None \<Rightarrow>
          let limit = (case limits_GetLimit k assetID of
                         None \<Rightarrow> \<lparr>rl_AssetID = '''', rl_WindowBlocks = 0, rl_MaxAmount = None\<rparr>
                       | Some l \<Rightarrow> l);
              c0 = activeUsage limit (usage_at k (limitKey assetID)) atHeight;
              c1 = c0\<lparr>wu_AssetID := rl_AssetID limit,
                      wu_UsedAmount := Some (cloneBigInt (wu_UsedAmount c0) + the amount)\<rparr>;
              c2 = (if wu_WindowStart c1 = 0 then c1\<lparr>wu_WindowStart := atHeight\<rparr> else c1)
          in (k\<lparr>lk_usage := gomap_set (limitKey assetID) (canonicalUsage c2) (lk_usage k)\<rparr>, None))"

definition limits_CurrentUsage :: "LimitsKeeper \<Rightarrow> string \<Rightarrow> u64 \<Rightarrow> WindowUsage option" where
  "limits_CurrentUsage k assetID atHeight =
     (case gomap_get (lk_usage k) (limitKey assetID) of
        None \<Rightarrow> None
      | Some rec0 \<Rightarrow>
          case limits_GetLimit k assetID of
            None \<Rightarrow> None
          | Some limit \<Rightarrow>
              let u = activeUsage limit rec0 atHeight in
              if wu_UsedAmount u = None \<or> wu_UsedAmount u = Some 0 then None
              else Some (canonicalUsage u))"

definition limits_ExportLimits :: "LimitsKeeper \<Rightarrow> RateLimit list" where
  "limits_ExportLimits k = map (\<lambda>(key, limit). canonicalLimit limit) (lk_limits k)"

definition limits_ExportUsage :: "LimitsKeeper \<Rightarrow> WindowUsage list" where
  "limits_ExportUsage k = map (\<lambda>(key, u). canonicalUsage u) (lk_usage k)"

definition limits_ExportState :: "LimitsKeeper \<Rightarrow> LimitsStateSnapshot" where
  "limits_ExportState k = \<lparr>ls_Limits = limits_ExportLimits k, ls_Usage = limits_ExportUsage k\<rparr>"

fun import_limits :: "LimitsKeeper \<Rightarrow> RateLimit list \<Rightarrow> LimitsKeeper \<times> limits_error option" where
  "import_limits k [] = (k, None)"
| "import_limits k (limit # limits) =
     (case ratelimit_ValidateBasic limit of
        Some e \<Rightarrow> (k, Some e)
      | None \<Rightarrow>
          let stored = canonicalLimit limit in
          import_limits (k\<lparr>lk_limits := gomap_set (limitKey (rl_AssetID stored)) stored (lk_limits k)\<rparr>) limits)"

definition limits_ImportLimits :: "LimitsKeeper \<Rightarrow> RateLimit list \<Rightarrow> LimitsKeeper \<times> limits_error option" where
  "limits_ImportLimits k limits = import_limits (k\<lparr>lk_limits := []\<rparr>) limits"

fun import_usage :: "LimitsKeeper \<Rightarrow> WindowUsage list \<Rightarrow> LimitsKeeper \<times> limits_error option" where
  "import_usage k [] = (k, None)"
| "import_usage k (u # us) =
     (case usage_ValidateBasic u of
        Some e \<Rightarrow> (k, Some e)
      | None \<Rightarrow>
          import_usage (k\<lparr>lk_usage := gomap_set (limitKey (wu_AssetID u)) (canonicalUsage u) (lk_usage k)\<rparr>) us)"

definition limits_ImportUsage :: "LimitsKeeper \<Rightarrow> WindowUsage list \<Rightarrow> LimitsKeeper \<times> limits_error option" where
  "limits_ImportUsage k us = import_usage (k\<lparr>lk_usage := []\<rparr>) us"

definition limits_ImportState :: "LimitsKeeper \<Rightarrow> LimitsStateSnapshot \<Rightarrow> LimitsKeeper \<times> limits_error option" where
  "limits_ImportState k st =
     (case limits_ImportLimits k (ls_Limits st) of
        (k1, Some e) \<Rightarrow> (k1, Some e)
      | (k1, None) \<Rightarrow> limits_ImportUsage k1 (ls_Usage st))"

section \<open>Invariant\<close>

definition stored_limit :: "string \<Rightarrow> RateLimit \<Rightarrow> bool" where
  "stored_limit key l \<longleftrightarrow> key = rl_AssetID l \<and> TrimSpace key = key \<and> ratelimit_ValidateBasic l = None"

definition stored_usage :: "string \<Rightarrow> WindowUsage \<Rightarrow> bool" where
  "stored_usage key u \<longleftrightarrow> key = wu_AssetID u \<and> TrimSpace key = key \<and> usage_ValidateBasic u = None"

definition limits_inv :: "LimitsKeeper \<Rightarrow> bool" where
  "limits_inv k \<longleftrightarrow>
     gomap_wf (lk_limits k) \<and> (\<forall>(key, l) \<in> set (lk_limits k). stored_limit key l)
     \<and> gomap_wf (lk_usage k) \<and> (\<forall>(key, u) \<in> set (lk_usage k). stored_usage key u)"

lemmas limit_key_simps = limitKey_def canonicalLimit_def canonicalUsage_def

lemma canonicalLimit_stored:
  "ratelimit_ValidateBasic l = None \<Longrightarrow> stored_limit (TrimSpace (rl_AssetID l)) (canonicalLimit l)"
  by (simp add: stored_limit_def canonicalLimit_def ratelimit_ValidateBasic_def split: if_splits)

lemma canonicalUsage_stored:
  "usage_ValidateBasic u = None \<Longrightarrow> stored_usage (TrimSpace (wu_AssetID u)) (canonicalUsage u)"
  by (auto simp: stored_usage_def limit_key_simps usage_ValidateBasic_def cloneBigInt_def
      split: if_splits option.splits)

lemma limits_inv_New: "limits_inv limits_NewKeeper"
  by (simp add: limits_inv_def limits_NewKeeper_def)

lemma limits_inv_put_limit:
  assumes "limits_inv k" "stored_limit key l"
  shows "limits_inv (k\<lparr>lk_limits := gomap_set key l (lk_limits k)\<rparr>)"
  using assms set_update_subset [of key l "lk_limits k"] unfolding limits_inv_def by fastforce

lemma limits_inv_put_usage:
  assumes "limits_inv k" "stored_usage key u"
  shows "limits_inv (k\<lparr>lk_usage := gomap_set key u (lk_usage k)\<rparr>)"
  using assms set_update_subset [of key u "lk_usage k"] unfolding limits_inv_def by fastforce

lemma limits_inv_SetLimit: "limits_inv k \<Longrightarrow> limits_inv (fst (limits_SetLimit k l))"
  using canonicalLimit_stored [of l]
  by (auto simp: limits_SetLimit_def Let_def limit_key_simps limits_inv_put_limit split: option.split)

lemma limits_inv_import_limits: "limits_inv k \<Longrightarrow> limits_inv (fst (import_limits k ls))"
proof (induction k ls rule: import_limits.induct)
  case (2 k l ls)
  then show ?case
    using canonicalLimit_stored [of l]
    by (auto simp: Let_def limitKey_def canonicalLimit_def limits_inv_put_limit split: option.split)
qed simp

lemma limits_inv_import_usage: "limits_inv k \<Longrightarrow> limits_inv (fst (import_usage k us))"
proof (induction k us rule: import_usage.induct)
  case (2 k u us)
  then show ?case
    using canonicalUsage_stored [of u]
    by (auto simp: limitKey_def limits_inv_put_usage split: option.split)
qed simp

lemma limits_inv_GetLimit:
  "limits_inv k \<Longrightarrow> limits_GetLimit k i = Some l \<Longrightarrow> stored_limit (TrimSpace i) l"
  unfolding limits_GetLimit_def limitKey_def limits_inv_def by (blast dest: map_of_SomeD)

lemma limits_inv_usage:
  "limits_inv k \<Longrightarrow> map_of (lk_usage k) key = Some u \<Longrightarrow> stored_usage key u"
  unfolding limits_inv_def by (blast dest: map_of_SomeD)

section \<open>The window of an asset, abstractly\<close>

text \<open>The specification of the limiter keeps a window start and an amount per asset. A transfer in a
  window that is over opens a new window at its height.\<close>

definition window_of :: "LimitsKeeper \<Rightarrow> string \<Rightarrow> u64 \<times> int" where
  "window_of k assetID =
     (let u = usage_at k (limitKey assetID) in (wu_WindowStart u, cloneBigInt (wu_UsedAmount u)))"

definition window_roll :: "u64 \<Rightarrow> u64 \<times> int \<Rightarrow> u64 \<Rightarrow> u64 \<times> int" where
  "window_roll W w h = (if fst w \<noteq> 0 \<and> fst w + W \<le> h then (h, 0) else w)"

definition window_step :: "u64 \<Rightarrow> int \<Rightarrow> u64 \<times> int \<Rightarrow> int \<Rightarrow> u64 \<Rightarrow> (u64 \<times> int) option" where
  "window_step W maxAmount w a h =
     (let (s, u) = window_roll W w h in
      if a < 0 \<or> maxAmount < u + a then None
      else Some (if s = 0 then h else s, u + a))"

lemma activeUsage_window:
  "wu_WindowStart (activeUsage l u h) = fst (window_roll (rl_WindowBlocks l) (wu_WindowStart u, cloneBigInt (wu_UsedAmount u)) h)"
  "cloneBigInt (wu_UsedAmount (activeUsage l u h))
     = snd (window_roll (rl_WindowBlocks l) (wu_WindowStart u, cloneBigInt (wu_UsedAmount u)) h)"
  by (auto simp: activeUsage_def window_roll_def canonicalUsage_def Let_def cloneBigInt_def)

lemma Record_window_accept:
  assumes "limits_GetLimit k i = Some l" "rl_MaxAmount l = Some m"
    "window_step (rl_WindowBlocks l) m (window_of k i) a h = Some w"
  shows "snd (limits_RecordTransferAtHeight k i (Some a) h) = None"
    "window_of (fst (limits_RecordTransferAtHeight k i (Some a) h)) i = w"
  using assms activeUsage_window [of l "usage_at k (limitKey i)" h]
  by (auto simp: limits_RecordTransferAtHeight_def limits_CheckTransferAtHeight_def window_step_def
      window_of_def Let_def split_beta usage_at_def gomap_simps canonicalUsage_def cloneBigInt_def
      split: if_splits)

lemma Record_window_reject:
  assumes "limits_GetLimit k i = Some l" "rl_MaxAmount l = Some m"
    "window_step (rl_WindowBlocks l) m (window_of k i) a h = None"
  shows "fst (limits_RecordTransferAtHeight k i (Some a) h) = k"
    "snd (limits_RecordTransferAtHeight k i (Some a) h)
       = Some (if a < 0 then ErrInvalidTransfer else ErrRateLimitExceeded)"
  using assms activeUsage_window [of l "usage_at k (limitKey i)" h]
  by (auto simp: limits_RecordTransferAtHeight_def limits_CheckTransferAtHeight_def window_step_def
      window_of_def Let_def split_beta split: if_splits)

lemma GetLimit_Record [simp]:
  "limits_GetLimit (fst (limits_RecordTransferAtHeight k i a h)) j = limits_GetLimit k j"
  by (simp add: limits_RecordTransferAtHeight_def limits_GetLimit_def Let_def split: option.split)

lemma window_of_Record_other:
  "TrimSpace j \<noteq> TrimSpace i \<Longrightarrow>
     window_of (fst (limits_RecordTransferAtHeight k i a h)) j = window_of k j"
  by (simp add: limits_RecordTransferAtHeight_def window_of_def usage_at_def limitKey_def Let_def gomap_simps
      split: option.split)

lemma limits_inv_Record: "limits_inv k \<Longrightarrow> limits_inv (fst (limits_RecordTransferAtHeight k i a h))"
proof (cases "limits_CheckTransferAtHeight k i a h")
  case None
  assume inv: "limits_inv k"
  from None obtain v l m where a: "a = Some v" "0 \<le> v" and l: "limits_GetLimit k i = Some l"
    and m: "rl_MaxAmount l = Some m"
    by (auto simp: limits_CheckTransferAtHeight_def Let_def split: option.splits if_splits)
  have st: "stored_limit (TrimSpace i) l" by (rule limits_inv_GetLimit [OF inv l])
  then have id: "TrimSpace (rl_AssetID l) = rl_AssetID l"
    by (metis TrimSpace_idem stored_limit_def)
  have "0 \<le> cloneBigInt (wu_UsedAmount (usage_at k (limitKey i)))"
    using limits_inv_usage [OF inv, of "limitKey i"]
    by (auto simp: usage_at_def zeroUsage_def cloneBigInt_def stored_usage_def usage_ValidateBasic_def
        split: option.splits if_splits)
  then have "0 \<le> cloneBigInt (wu_UsedAmount (activeUsage l (usage_at k (limitKey i)) h))"
    by (simp add: activeUsage_window window_roll_def)
  with None a l st id show ?thesis
    by (auto simp: limits_RecordTransferAtHeight_def Let_def limitKey_def canonicalUsage_def stored_limit_def
        stored_usage_def usage_ValidateBasic_def ratelimit_ValidateBasic_def cloneBigInt_def
        intro!: limits_inv_put_usage [OF inv] split: if_splits)
qed (simp add: limits_RecordTransferAtHeight_def)

section \<open>Bounds over a run of transfers\<close>

fun limits_run :: "LimitsKeeper \<Rightarrow> string \<Rightarrow> (int \<times> u64) list \<Rightarrow> (int \<times> u64) list" where
  "limits_run k i [] = []"
| "limits_run k i ((a, h) # ts) =
     (case limits_RecordTransferAtHeight k i (Some a) h of
        (k', None) \<Rightarrow> (a, h) # limits_run k' i ts
      | (k', Some e) \<Rightarrow> limits_run k' i ts)"

text \<open>The sum of the accepted amounts at heights of an interval.\<close>

definition amount_between :: "nat \<Rightarrow> nat \<Rightarrow> (int \<times> u64) list \<Rightarrow> int" where
  "amount_between lo hi ts = (\<Sum>(a, h) \<leftarrow> ts. if lo \<le> unat h \<and> unat h < hi then a else 0)"

lemma amount_between_simps [simp]:
  "amount_between lo hi [] = 0"
  "amount_between lo hi ((a, h) # ts) = (if lo \<le> unat h \<and> unat h < hi then a else 0) + amount_between lo hi ts"
  by (simp_all add: amount_between_def)

text \<open>The run of the abstract windows.\<close>

fun window_run :: "u64 \<Rightarrow> int \<Rightarrow> u64 \<times> int \<Rightarrow> (int \<times> u64) list \<Rightarrow> (int \<times> u64) list" where
  "window_run W m w [] = []"
| "window_run W m w ((a, h) # ts) =
     (case window_step W m w a h of
        Some w' \<Rightarrow> (a, h) # window_run W m w' ts
      | None \<Rightarrow> window_run W m w ts)"

lemma limits_run_refines:
  assumes "limits_GetLimit k i = Some l" "rl_MaxAmount l = Some m"
  shows "limits_run k i ts = window_run (rl_WindowBlocks l) m (window_of k i) ts"
  using assms
proof (induction k i ts rule: limits_run.induct)
  case (2 k i a h ts)
  obtain k' e where r: "limits_RecordTransferAtHeight k i (Some a) h = (k', e)" by force
  have lim: "limits_GetLimit k' i = Some l"
    using "2.prems" GetLimit_Record [of k i "Some a" h i] r by simp
  show ?case
  proof (cases "window_step (rl_WindowBlocks l) m (window_of k i) a h")
    case None
    from Record_window_reject [OF "2.prems" None] None r 2 show ?thesis by simp
  next
    case (Some w)
    from Record_window_accept [OF "2.prems" Some] Some r 2 lim show ?thesis by simp
  qed
qed simp

text \<open>In a window with start \<open>s\<close> and amount \<open>u\<close>, later transfers of the same window add at most
  \<open>m - u\<close>, those of two window lengths at most \<open>2 * m - u\<close>.\<close>

definition heights_ok :: "u64 \<Rightarrow> nat \<Rightarrow> (int \<times> u64) list \<Rightarrow> bool" where
  "heights_ok W s ts \<longleftrightarrow>
     sorted (map (unat \<circ> snd) ts) \<and> (\<forall>t \<in> set ts. s \<le> unat (snd t) \<and> unat (snd t) + unat W < 2 ^ 64)"

lemma heights_ok_Cons:
  "heights_ok W s ((a, h) # ts) \<Longrightarrow>
     s \<le> unat h \<and> unat h + unat W < 2 ^ 64 \<and> heights_ok W s ts \<and> heights_ok W (unat h) ts"
  by (auto simp: heights_ok_def)

lemma roll_iff:
  fixes s W h :: u64
  assumes "unat s + unat W < 2 ^ 64"
  shows "s + W \<le> h \<longleftrightarrow> unat s + unat W \<le> unat h"
proof -
  have "unat (s + W) = unat s + unat W"
    using assms by (subst unat_plus_if_size) (simp add: word_size)
  then show ?thesis by (simp add: word_le_nat_alt)
qed

lemma window_step_cases:
  assumes "window_step W m (s, u) a h = Some w" "0 < s" "unat s + unat W < 2 ^ 64"
  obtains "unat h < unat s + unat W" "w = (s, u + a)" "0 \<le> a" "u + a \<le> m"
    | "unat s + unat W \<le> unat h" "w = (h, a)" "0 \<le> a" "a \<le> m"
  using assms roll_iff [OF assms(3), of h]
  by (auto simp: window_step_def window_roll_def word_greater_zero_iff split: if_splits)

lemma window_run_subset: "set (window_run W m w ts) \<subseteq> set ts"
  by (induction W m w ts rule: window_run.induct) (auto split: option.split)

lemma amount_between_lo:
  "(\<And>t. t \<in> set ts \<Longrightarrow> lo \<le> unat (snd t)) \<Longrightarrow> amount_between lo hi ts = amount_between 0 hi ts"
  by (induction ts) force+

lemma amount_between_none:
  "(\<And>t. t \<in> set ts \<Longrightarrow> hi \<le> unat (snd t)) \<Longrightarrow> amount_between lo hi ts = 0"
  by (induction ts) force+

definition in_window :: "u64 \<Rightarrow> int \<Rightarrow> u64 \<times> int \<Rightarrow> bool" where
  "in_window W m w \<longleftrightarrow> 0 < fst w \<and> 0 \<le> snd w \<and> snd w \<le> m \<and> unat (fst w) + unat W < 2 ^ 64"

lemma window_run_one:
  "in_window W m (s, u) \<Longrightarrow> heights_ok W (unat s) ts \<Longrightarrow> hi \<le> unat s + unat W \<Longrightarrow>
     amount_between 0 hi (window_run W m (s, u) ts) \<le> m - u"
proof (induction ts arbitrary: s u)
  case (Cons t ts)
  obtain a h where t: "t = (a, h)" by force
  note ok = heights_ok_Cons [OF Cons.prems(2) [unfolded t]]
  show ?case
  proof (cases "window_step W m (s, u) a h")
    case None
    with Cons ok show ?thesis by (simp add: t)
  next
    case (Some w)
    then show ?thesis
    proof (rule window_step_cases)
      show "0 < s" "unat s + unat W < 2 ^ 64" using Cons.prems(1) by (auto simp: in_window_def)
    next
      assume "unat h < unat s + unat W" "w = (s, u + a)" "0 \<le> a" "u + a \<le> m"
      with Cons.IH [of s "u + a"] Cons.prems ok Some show ?thesis by (simp add: t in_window_def)
    next
      assume *: "unat s + unat W \<le> unat h" "w = (h, a)" "0 \<le> a" "a \<le> m"
      then have "amount_between 0 hi (window_run W m w ts) = 0"
        using window_run_subset [of W m w ts] ok Cons.prems(3)
        by (intro amount_between_none) (fastforce simp: heights_ok_def)
      with Cons.prems Some * show ?thesis by (simp add: t in_window_def)
    qed
  qed
qed (simp add: in_window_def)

lemma window_run_two:
  "in_window W m (s, u) \<Longrightarrow> heights_ok W (unat s) ts \<Longrightarrow> hi \<le> unat s + 2 * unat W \<Longrightarrow>
     amount_between 0 hi (window_run W m (s, u) ts) \<le> 2 * m - u"
proof (induction ts arbitrary: s u)
  case (Cons t ts)
  obtain a h where t: "t = (a, h)" by force
  note ok = heights_ok_Cons [OF Cons.prems(2) [unfolded t]]
  show ?case
  proof (cases "window_step W m (s, u) a h")
    case None
    with Cons ok show ?thesis by (simp add: t)
  next
    case (Some w)
    then show ?thesis
    proof (rule window_step_cases)
      show "0 < s" "unat s + unat W < 2 ^ 64" using Cons.prems(1) by (auto simp: in_window_def)
    next
      assume "unat h < unat s + unat W" "w = (s, u + a)" "0 \<le> a" "u + a \<le> m"
      with Cons.IH [of s "u + a"] Cons.prems ok Some show ?thesis by (simp add: t in_window_def)
    next
      assume *: "unat s + unat W \<le> unat h" "w = (h, a)" "0 \<le> a" "a \<le> m"
      have "0 < h" using Cons.prems(1) ok by (auto simp: in_window_def word_less_nat_alt)
      with window_run_one [of W m h a ts hi] Cons.prems ok Some * show ?thesis by (simp add: t in_window_def)
    qed
  qed
qed (simp add: in_window_def)

lemma window_run_any:
  "in_window W m (s, u) \<Longrightarrow> heights_ok W (unat s) ts \<Longrightarrow>
     amount_between lo (lo + unat W) (window_run W m (s, u) ts) \<le> 2 * m"
proof (induction ts arbitrary: s u)
  case (Cons t ts)
  obtain a h where t: "t = (a, h)" by force
  note ok = heights_ok_Cons [OF Cons.prems(2) [unfolded t]]
  show ?case
  proof (cases "window_step W m (s, u) a h")
    case None
    with Cons ok show ?thesis by (simp add: t)
  next
    case (Some w)
    have later: "amount_between lo hi (window_run W m w' ts) = amount_between 0 hi (window_run W m w' ts)"
      if "lo \<le> unat h" for hi w'
      using window_run_subset [of W m w' ts] ok that
      by (intro amount_between_lo) (fastforce simp: heights_ok_def)
    from Some show ?thesis
    proof (rule window_step_cases)
      show "0 < s" "unat s + unat W < 2 ^ 64" using Cons.prems(1) by (auto simp: in_window_def)
    next
      assume *: "unat h < unat s + unat W" "w = (s, u + a)" "0 \<le> a" "u + a \<le> m"
      with Cons.IH [of s "u + a"] window_run_two [of W m s "u + a" ts "lo + unat W"] Cons.prems ok Some
      show ?thesis by (cases "lo \<le> unat h") (simp_all add: t in_window_def later)
    next
      assume *: "unat s + unat W \<le> unat h" "w = (h, a)" "0 \<le> a" "a \<le> m"
      have "0 < h" using Cons.prems(1) ok by (auto simp: in_window_def word_less_nat_alt)
      with Cons.IH [of h a] window_run_two [of W m h a ts "lo + unat W"] Cons.prems ok Some *
      show ?thesis by (cases "lo \<le> unat h") (simp_all add: t in_window_def later)
    qed
  qed
qed (simp add: in_window_def)

text \<open>Before the first accepted transfer there is no window (\<^verbatim>\<open>WindowStart == 0\<close>).\<close>

lemma window_run_fresh:
  "0 < m \<Longrightarrow> heights_ok W 1 ts \<Longrightarrow> amount_between lo (lo + unat W) (window_run W m (0, 0) ts) \<le> 2 * m"
proof (induction ts)
  case (Cons t ts)
  obtain a h where t: "t = (a, h)" by force
  note ok = heights_ok_Cons [OF Cons.prems(2) [unfolded t]]
  show ?case
  proof (cases "window_step W m (0, 0) a h")
    case None
    with Cons ok show ?thesis by (simp add: t)
  next
    case (Some w)
    then have w: "w = (h, a)" "0 \<le> a" "a \<le> m"
      by (auto simp: window_step_def window_roll_def split: if_splits)
    have h: "0 < h" using ok by (auto simp: word_less_nat_alt)
    have later: "lo \<le> unat h \<Longrightarrow>
        amount_between lo hi (window_run W m w ts) = amount_between 0 hi (window_run W m w ts)" for hi
      using window_run_subset [of W m w ts] ok
      by (intro amount_between_lo) (fastforce simp: heights_ok_def)
    have inw: "in_window W m (h, a)" using w h ok by (simp add: in_window_def)
    show ?thesis
      using window_run_any [OF inw, of ts lo] window_run_two [OF inw, of ts "lo + unat W"] w ok Some later
      by (cases "lo \<le> unat h") (simp_all add: t)
  qed
qed simp

section \<open>Limits as a store of entries\<close>

interpretation limit_store: keyed_store rl_AssetID canonicalLimit ratelimit_ValidateBasic limits_GetLimit limits_SetLimit
  by unfold_locales
     (auto simp: limits_SetLimit_def limits_GetLimit_def limitKey_def canonicalLimit_def gomap_simps Let_def split: option.split)

section \<open>Import and export\<close>

lemma import_limits_get:
  assumes "\<forall>(key, l) \<in> set ls. stored_limit key l" "gomap_wf ls"
  shows "import_limits k (map (\<lambda>(key, l). canonicalLimit l) ls)
           = (k\<lparr>lk_limits := fold (\<lambda>(key, l). gomap_set key l) ls (lk_limits k)\<rparr>, None)"
  using assms
proof (induction ls arbitrary: k)
  case (Cons x ls)
  obtain key l where x: "x = (key, l)" by force
  have id: "canonicalLimit l = l" "limitKey (rl_AssetID l) = key" "ratelimit_ValidateBasic l = None"
    using Cons.prems by (auto simp: x stored_limit_def canonicalLimit_def limitKey_def)
  show ?case using Cons by (simp add: x id Let_def)
qed simp

lemma import_usage_get:
  assumes "\<forall>(key, u) \<in> set us. stored_usage key u" "gomap_wf us"
  shows "import_usage k (map (\<lambda>(key, u). canonicalUsage u) us)
           = (k\<lparr>lk_usage := fold (\<lambda>(key, u). gomap_set key u) us (lk_usage k)\<rparr>, None)"
  using assms
proof (induction us arbitrary: k)
  case (Cons x us)
  obtain key u where x: "x = (key, u)" by force
  have id: "canonicalUsage u = u" "limitKey (wu_AssetID u) = key" "usage_ValidateBasic u = None"
    using Cons.prems
    by (auto simp: x stored_usage_def canonicalUsage_def limitKey_def usage_ValidateBasic_def cloneBigInt_def
        split: option.splits if_splits)
  show ?case using Cons by (simp add: x id)
qed simp

lemma limits_import_exported:
  assumes "limits_inv k"
  shows "limits_ImportState k0 (limits_ExportState k) = (k, None)"
proof -
  let ?f = "fold (\<lambda>(key, v). gomap_set key v)"
  have "limits_ImportState k0 (limits_ExportState k)
     = (\<lparr>lk_limits = ?f (lk_limits k) [], lk_usage = ?f (lk_usage k) []\<rparr>, None)"
    using assms
    by (simp add: limits_ImportState_def limits_ExportState_def limits_ImportLimits_def limits_ImportUsage_def
        limits_ExportLimits_def limits_ExportUsage_def limits_inv_def import_limits_get import_usage_get)
  also have "\<dots> = (k, None)"
    using assms by (simp add: limits_inv_def fold_gomap_set)
  finally show ?thesis .
qed

section \<open>The bounds for the keeper\<close>


definition example_limits :: LimitsKeeper where
  "example_limits =
     \<lparr>lk_limits = [(''eth'', \<lparr>rl_AssetID = ''eth'', rl_WindowBlocks = 10, rl_MaxAmount = Some 100\<rparr>)],
      lk_usage = []\<rparr>"

lemma example_limits_inv: "limits_inv example_limits"
  by (simp add: limits_inv_def example_limits_def stored_limit_def ratelimit_ValidateBasic_def go_eval)

lemma example_limits_get:
  "limits_GetLimit example_limits ''eth'' = Some \<lparr>rl_AssetID = ''eth'', rl_WindowBlocks = 10, rl_MaxAmount = Some 100\<rparr>"
  "window_of example_limits ''eth'' = (0, 0)"
  by (simp_all add: limits_GetLimit_def example_limits_def limitKey_def window_of_def usage_at_def zeroUsage_def
      cloneBigInt_def go_eval)


text \<open> the window is not a sliding one. With a limit of 100 per 10
  blocks, transfers of 1, 90, 100 and 7 at heights 1, 10, 11 and 12 are accepted but for the
  last, so the two heights 10 and 11 carry 190.\<close>

theorem limits_window_is_tumbling:
  "amount_between 10 20 (limits_run example_limits ''eth'' [(1, 1), (90, 10), (100, 11), (7, 12)]) = 190"
  by (subst limits_run_refines [OF example_limits_get(1), of 100])
     (simp_all add: example_limits_get(2) window_step_def window_roll_def)

text \<open>C39: for an asset with a limit, recording a transfer implements the
  abstract window step: it succeeds exactly when the step does, then leaves the stepped
  window and the windows of all other assets; otherwise it reports why and changes nothing.\<close>

theorem limits_record_refines_window:
  assumes "limits_GetLimit k i = Some l" "rl_MaxAmount l = Some m"
  shows "case (limits_RecordTransferAtHeight k i (Some a) h, window_step (rl_WindowBlocks l) m (window_of k i) a h) of
           ((k', e), Some w) \<Rightarrow>
              e = None \<and> window_of k' i = w \<and> lk_limits k' = lk_limits k
              \<and> (\<forall>j. TrimSpace j \<noteq> TrimSpace i \<longrightarrow> window_of k' j = window_of k j)
         | ((k', e), None) \<Rightarrow>
              k' = k \<and> e = Some (if a < 0 then ErrInvalidTransfer else ErrRateLimitExceeded)"
proof (cases "window_step (rl_WindowBlocks l) m (window_of k i) a h")
  case None
  with Record_window_reject [OF assms None] show ?thesis by (simp add: split_beta)
next
  case (Some w)
  have "lk_limits (fst (limits_RecordTransferAtHeight k i (Some a) h)) = lk_limits k"
    by (simp add: limits_RecordTransferAtHeight_def Let_def split: option.split)
  with Some Record_window_accept [OF assms Some] window_of_Record_other [of _ i k "Some a" h]
  show ?thesis by (simp add: split_beta)
qed

theorem limits_record_refines_window_witness:
  "snd (limits_RecordTransferAtHeight example_limits ''eth'' (Some 101) 5) = Some ErrRateLimitExceeded"
  using limits_record_refines_window [OF example_limits_get(1), of 100 101 5]
  by (simp add: example_limits_get(2) window_step_def window_roll_def split_beta)

end
