(* ===== verification/Governance.thy ===== *)
theory Governance
  imports IBCRouterState Registry Limits
begin

text \<open>
  The governance module of \<^verbatim>\<open>chain/aegislink/x/governance/keeper\<close>: authorities may switch an asset on or
  off, replace a rate limit and replace the policy of a route profile; every applied proposal is recorded
  with the authority that applied it, and no proposal id is applied twice. The keeper is the in-memory one; it
  holds the registry, limits and router keepers that it points to.
\<close>

section \<open>Proposals\<close>

datatype gov_error =
    ErrInvalidProposal string | ErrUnauthorizedProposal | ErrDuplicateProposal string
  | GovRegistryError registry_error | GovLimitsError limits_error | GovRouterError router_error

abbreviation (input) ProposalKindAssetStatus :: string where "ProposalKindAssetStatus \<equiv> ''asset_status''"
abbreviation (input) ProposalKindLimitUpdate :: string where "ProposalKindLimitUpdate \<equiv> ''limit_update''"
abbreviation (input) ProposalKindRoutePolicy :: string where "ProposalKindRoutePolicy \<equiv> ''route_policy''"

record AssetStatusProposal =
  asp_ProposalID :: string
  asp_AssetID :: string
  asp_Enabled :: bool

record LimitUpdateProposal =
  lup_ProposalID :: string
  lup_Limit :: RateLimit

record RoutePolicyUpdateProposal =
  rpp_ProposalID :: string
  rpp_RouteID :: string
  rpp_Policy :: RoutePolicy

record ProposalRecord =
  gp_ProposalID :: string
  gp_Kind :: string
  gp_TargetID :: string
  gp_Summary :: string
  gp_AppliedBy :: string

record GovernanceKeeper =
  gk_registry :: RegistryKeeper
  gk_limits :: LimitsKeeper
  gk_ibcRouter :: RouterKeeper
  gk_authorities :: "string list" \<comment> \<open>the key set of the Go map\<close>
  gk_applied :: "ProposalRecord list"

definition assetstatus_ValidateBasic :: "AssetStatusProposal \<Rightarrow> gov_error option" where
  "assetstatus_ValidateBasic p =
     (if TrimSpace (asp_ProposalID p) = '''' then Some (ErrInvalidProposal ''missing proposal id'')
      else if TrimSpace (asp_AssetID p) = '''' then Some (ErrInvalidProposal ''missing asset id'')
      else None)"

definition limitupdate_ValidateBasic :: "LimitUpdateProposal \<Rightarrow> gov_error option" where
  "limitupdate_ValidateBasic p =
     (if TrimSpace (lup_ProposalID p) = '''' then Some (ErrInvalidProposal ''missing proposal id'')
      else map_option GovLimitsError (ratelimit_ValidateBasic (lup_Limit p)))"

definition routepolicy_ValidateBasic :: "RoutePolicyUpdateProposal \<Rightarrow> gov_error option" where
  "routepolicy_ValidateBasic p =
     (if TrimSpace (rpp_ProposalID p) = '''' then Some (ErrInvalidProposal ''missing proposal id'')
      else if TrimSpace (rpp_RouteID p) = '''' then Some (ErrInvalidProposal ''missing route id'')
      else None)"

section \<open>Authorities\<close>

definition canonicalAuthority :: "string \<Rightarrow> string" where
  "canonicalAuthority authority = TrimSpace authority"

fun canonicalAuthoritySet :: "string list \<Rightarrow> string list" where
  "canonicalAuthoritySet [] = []"
| "canonicalAuthoritySet (a # as) =
     (let authority = canonicalAuthority a in
      if authority = '''' then canonicalAuthoritySet as else List.insert authority (canonicalAuthoritySet as))"

definition authorize :: "GovernanceKeeper \<Rightarrow> string \<Rightarrow> gov_error + string" where
  "authorize k a =
     (let authority = canonicalAuthority a in
      if authority = '''' then Inl ErrUnauthorizedProposal
      else if authority \<notin> set (gk_authorities k) then Inl ErrUnauthorizedProposal
      else Inr authority)"

section \<open>Operations\<close>

definition gov_NewKeeper :: "RegistryKeeper \<Rightarrow> LimitsKeeper \<Rightarrow> RouterKeeper \<Rightarrow> string list \<Rightarrow> GovernanceKeeper" where
  "gov_NewKeeper registry limits router authorities =
     \<lparr>gk_registry = registry, gk_limits = limits, gk_ibcRouter = router,
      gk_authorities = canonicalAuthoritySet authorities, gk_applied = []\<rparr>"

definition assertProposalNotApplied :: "GovernanceKeeper \<Rightarrow> string \<Rightarrow> gov_error option" where
  "assertProposalNotApplied k proposalID =
     (let i = TrimSpace proposalID in
      if list_ex (\<lambda>r. gp_ProposalID r = i) (gk_applied k) then Some (ErrDuplicateProposal i) else None)"

definition show_bool :: "bool \<Rightarrow> string" where
  "show_bool b = (if b then ''true'' else ''false'')"

definition gov_ApplyAssetStatusProposal ::
    "GovernanceKeeper \<Rightarrow> string \<Rightarrow> AssetStatusProposal \<Rightarrow> GovernanceKeeper \<times> gov_error option" where
  "gov_ApplyAssetStatusProposal k authority proposal =
     (case assetstatus_ValidateBasic proposal of
        Some e \<Rightarrow> (k, Some e)
      | None \<Rightarrow>
      case assertProposalNotApplied k (asp_ProposalID proposal) of
        Some e \<Rightarrow> (k, Some e)
      | None \<Rightarrow>
      case authorize k authority of
        Inl e \<Rightarrow> (k, Some e)
      | Inr appliedBy \<Rightarrow>
      case (if asp_Enabled proposal then registry_EnableAsset (gk_registry k) (asp_AssetID proposal)
            else registry_DisableAsset (gk_registry k) (asp_AssetID proposal)) of
        (registry', Some e) \<Rightarrow> (k\<lparr>gk_registry := registry'\<rparr>, Some (GovRegistryError e))
      | (registry', None) \<Rightarrow>
          (k\<lparr>gk_registry := registry',
             gk_applied := gk_applied k @
               [\<lparr>gp_ProposalID = TrimSpace (asp_ProposalID proposal), gp_Kind = ProposalKindAssetStatus,
                 gp_TargetID = TrimSpace (asp_AssetID proposal),
                 gp_Summary = ''set asset '' @ TrimSpace (asp_AssetID proposal) @ '' enabled='' @ show_bool (asp_Enabled proposal),
                 gp_AppliedBy = appliedBy\<rparr>]\<rparr>, None))"

definition gov_ApplyLimitUpdateProposal ::
    "GovernanceKeeper \<Rightarrow> string \<Rightarrow> LimitUpdateProposal \<Rightarrow> GovernanceKeeper \<times> gov_error option" where
  "gov_ApplyLimitUpdateProposal k authority proposal =
     (case limitupdate_ValidateBasic proposal of
        Some e \<Rightarrow> (k, Some e)
      | None \<Rightarrow>
      case assertProposalNotApplied k (lup_ProposalID proposal) of
        Some e \<Rightarrow> (k, Some e)
      | None \<Rightarrow>
      case authorize k authority of
        Inl e \<Rightarrow> (k, Some e)
      | Inr appliedBy \<Rightarrow>
      let limit = lup_Limit proposal in
      case limits_SetLimit (gk_limits k) limit of
        (limits', Some e) \<Rightarrow> (k\<lparr>gk_limits := limits'\<rparr>, Some (GovLimitsError e))
      | (limits', None) \<Rightarrow>
          (k\<lparr>gk_limits := limits',
             gk_applied := gk_applied k @
               [\<lparr>gp_ProposalID = TrimSpace (lup_ProposalID proposal), gp_Kind = ProposalKindLimitUpdate,
                 gp_TargetID = TrimSpace (rl_AssetID limit),
                 gp_Summary = ''set limit for '' @ TrimSpace (rl_AssetID limit) @ '' to '' @ show_int (cloneBigInt (rl_MaxAmount limit)),
                 gp_AppliedBy = appliedBy\<rparr>]\<rparr>, None))"

definition gov_ApplyRoutePolicyUpdateProposal ::
    "GovernanceKeeper \<Rightarrow> string \<Rightarrow> RoutePolicyUpdateProposal \<Rightarrow> GovernanceKeeper \<times> gov_error option" where
  "gov_ApplyRoutePolicyUpdateProposal k authority proposal =
     (case routepolicy_ValidateBasic proposal of
        Some e \<Rightarrow> (k, Some e)
      | None \<Rightarrow>
      case assertProposalNotApplied k (rpp_ProposalID proposal) of
        Some e \<Rightarrow> (k, Some e)
      | None \<Rightarrow>
      case authorize k authority of
        Inl e \<Rightarrow> (k, Some e)
      | Inr appliedBy \<Rightarrow>
      case router_GetRouteProfile (gk_ibcRouter k) (rpp_RouteID proposal) of
        None \<Rightarrow> (k, Some (GovRouterError ErrRouteProfileNotFound))
      | Some profile \<Rightarrow>
      case router_SetRouteProfile (gk_ibcRouter k) (profile\<lparr>pr_Policy := policy_Canonical (rpp_Policy proposal)\<rparr>) of
        (router', Some e) \<Rightarrow> (k\<lparr>gk_ibcRouter := router'\<rparr>, Some (GovRouterError e))
      | (router', None) \<Rightarrow>
          (k\<lparr>gk_ibcRouter := router',
             gk_applied := gk_applied k @
               [\<lparr>gp_ProposalID = TrimSpace (rpp_ProposalID proposal), gp_Kind = ProposalKindRoutePolicy,
                 gp_TargetID = TrimSpace (rpp_RouteID proposal),
                 gp_Summary = ''updated route policy for '' @ TrimSpace (rpp_RouteID proposal),
                 gp_AppliedBy = appliedBy\<rparr>]\<rparr>, None))"

text \<open>\<^verbatim>\<open>StateSnapshot\<close> has the applied proposals as its only field and is that list here.\<close>

definition gov_ExportState :: "GovernanceKeeper \<Rightarrow> ProposalRecord list" where
  "gov_ExportState k = gk_applied k"

definition gov_ImportState :: "GovernanceKeeper \<Rightarrow> ProposalRecord list \<Rightarrow> GovernanceKeeper" where
  "gov_ImportState k state =
     k\<lparr>gk_applied := map (\<lambda>p. \<lparr>gp_ProposalID = TrimSpace (gp_ProposalID p), gp_Kind = gp_Kind p,
         gp_TargetID = TrimSpace (gp_TargetID p), gp_Summary = TrimSpace (gp_Summary p),
         gp_AppliedBy = canonicalAuthority (gp_AppliedBy p)\<rparr>) state\<rparr>"

section \<open>The audit trail\<close>

inductive gov_step :: "GovernanceKeeper \<Rightarrow> GovernanceKeeper \<Rightarrow> bool" where
  asset_status: "gov_step k (fst (gov_ApplyAssetStatusProposal k a p))"
| limit_update: "gov_step k (fst (gov_ApplyLimitUpdateProposal k a q))"
| route_policy: "gov_step k (fst (gov_ApplyRoutePolicyUpdateProposal k a r))"

definition gov_init :: "GovernanceKeeper \<Rightarrow> bool" where
  "gov_init k \<longleftrightarrow> (\<exists>registry limits router authorities. k = gov_NewKeeper registry limits router authorities)"

definition gov_inv :: "GovernanceKeeper \<Rightarrow> bool" where
  "gov_inv k \<longleftrightarrow>
     distinct (map gp_ProposalID (gk_applied k))
     \<and> (\<forall>r \<in> set (gk_applied k). gp_ProposalID r \<noteq> [] \<and> TrimSpace (gp_ProposalID r) = gp_ProposalID r
          \<and> gp_AppliedBy r \<in> set (gk_authorities k))"

text \<open>An operation either refuses and leaves every keeper as it was, or appends one record for the caller.\<close>

definition gov_outcome :: "GovernanceKeeper \<Rightarrow> string \<Rightarrow> string \<Rightarrow> GovernanceKeeper \<times> gov_error option \<Rightarrow> bool" where
  "gov_outcome k a i out \<longleftrightarrow>
     (snd out \<noteq> None \<and> fst out = k)
     \<or> (snd out = None \<and> TrimSpace i \<noteq> [] \<and> TrimSpace i \<notin> gp_ProposalID ` set (gk_applied k)
         \<and> canonicalAuthority a \<in> set (gk_authorities k) \<and> gk_authorities (fst out) = gk_authorities k
         \<and> (\<exists>r. gk_applied (fst out) = gk_applied k @ [r] \<and> gp_ProposalID r = TrimSpace i \<and> gp_AppliedBy r = canonicalAuthority a))"

lemma assertProposalNotApplied_None:
  "assertProposalNotApplied k i = None \<longleftrightarrow> TrimSpace i \<notin> gp_ProposalID ` set (gk_applied k)"
  by (force simp: assertProposalNotApplied_def Let_def list_ex_iff)

lemma authorize_Inr: "authorize k a = Inr b \<longleftrightarrow> b = canonicalAuthority a \<and> b \<noteq> [] \<and> b \<in> set (gk_authorities k)"
  by (auto simp: authorize_def Let_def)

lemma setAssetEnabled_error: "setAssetEnabled r i e = (r', Some err) \<Longrightarrow> r' = r"
  by (auto simp: setAssetEnabled_def Let_def split: option.splits)

lemma SetLimit_error: "limits_SetLimit l x = (l', Some err) \<Longrightarrow> l' = l"
  by (auto simp: limits_SetLimit_def Let_def split: option.splits)

lemma SetRouteProfile_error: "router_SetRouteProfile k p = (k', Some err) \<Longrightarrow> k' = k"
  by (auto simp: router_SetRouteProfile_def Let_def split: option.splits)

lemmas gov_guards = assertProposalNotApplied_None authorize_Inr assetstatus_ValidateBasic_def limitupdate_ValidateBasic_def
  routepolicy_ValidateBasic_def

lemma outcome_asset_status: "gov_outcome k a (asp_ProposalID p) (gov_ApplyAssetStatusProposal k a p)"
  unfolding gov_ApplyAssetStatusProposal_def gov_outcome_def registry_EnableAsset_def registry_DisableAsset_def
  by (auto simp: gov_guards dest!: setAssetEnabled_error split: option.splits sum.splits prod.splits if_splits)

lemma outcome_limit_update: "gov_outcome k a (lup_ProposalID p) (gov_ApplyLimitUpdateProposal k a p)"
  unfolding gov_ApplyLimitUpdateProposal_def gov_outcome_def
  by (auto simp: gov_guards Let_def dest!: SetLimit_error split: option.splits sum.splits prod.splits if_splits)

lemma outcome_route_policy: "gov_outcome k a (rpp_ProposalID p) (gov_ApplyRoutePolicyUpdateProposal k a p)"
  unfolding gov_ApplyRoutePolicyUpdateProposal_def gov_outcome_def
  by (auto simp: gov_guards dest!: SetRouteProfile_error split: option.splits sum.splits prod.splits if_splits)

lemma gov_outcome_inv: "gov_inv k \<Longrightarrow> gov_outcome k a i out \<Longrightarrow> gov_inv (fst out)"
  unfolding gov_outcome_def gov_inv_def by (elim disjE conjE exE) simp_all

lemma gov_outcome_prefix: "gov_outcome k a i out \<Longrightarrow> prefix (gk_applied k) (gk_applied (fst out))"
  unfolding gov_outcome_def by (elim disjE conjE exE) simp_all

lemma gov_step_outcome: "gov_step k k' \<Longrightarrow> \<exists>a i out. gov_outcome k a i out \<and> k' = fst out"
  by (induction rule: gov_step.induct)
     (metis outcome_asset_status, metis outcome_limit_update, metis outcome_route_policy)

interpretation governance: transition_system gov_init gov_step gov_inv
proof unfold_locales
  show "gov_inv k" if "gov_init k" for k using that by (auto simp: gov_init_def gov_NewKeeper_def gov_inv_def)
  show "gov_inv k'" if "gov_inv k" "gov_step k k'" for k k'
    using gov_step_outcome [OF that(2)] gov_outcome_inv [OF that(1)] by blast
qed

section \<open>Properties\<close>

definition example_governance :: GovernanceKeeper where
  "example_governance = gov_NewKeeper example_registry limits_NewKeeper example_router ['' guardian-1 '']"

definition example_policy_proposal :: RoutePolicyUpdateProposal where
  "example_policy_proposal =
     \<lparr>rpp_ProposalID = ''route-policy-1'', rpp_RouteID = ''osmosis-fast'',
      rpp_Policy = \<lparr>rp_AllowedMemoPrefixes = [''stake:''], rp_AllowedActionTypes = []\<rparr>\<rparr>"

definition example_governed :: GovernanceKeeper where
  "example_governed = fst (gov_ApplyRoutePolicyUpdateProposal example_governance ''guardian-1'' example_policy_proposal)"

lemma example_governed_reachable: "reachable gov_init gov_step example_governed"
  unfolding example_governed_def example_governance_def
  by (rule reachable.next_state [OF reachable.start]) (auto simp: gov_init_def intro: gov_step.route_policy)

lemma example_governed_applied:
  "map (\<lambda>r. (gp_ProposalID r, gp_AppliedBy r)) (gk_applied example_governed) = [(''route-policy-1'', ''guardian-1'')]"
  by code_simp

text \<open> in every reachable governance state the recorded proposal ids are pairwise different and every
  record names one of the configured authorities; later operations only append to the record.\<close>

theorem governance_audit_trail:
  assumes "reachable gov_init gov_step k" "steps gov_step k k'"
  shows "distinct (map gp_ProposalID (gk_applied k)) \<and> gp_AppliedBy ` set (gk_applied k) \<subseteq> set (gk_authorities k)
     \<and> prefix (gk_applied k) (gk_applied k')"
proof -
  have inv: "gov_inv k" by (rule governance.reachable_inv [OF assms(1)])
  have "prefix (gk_applied k) (gk_applied k')"
  proof (rule governance.steps_related [OF assms(2) inv, where rel = "\<lambda>x y. prefix (gk_applied x) (gk_applied y)"])
    show "prefix (gk_applied x) (gk_applied y)" if "gov_step x y" for x y
      using gov_step_outcome [OF that] gov_outcome_prefix by blast
  qed (blast intro: prefix_order.order_refl prefix_order.trans)+
  with inv show ?thesis unfolding gov_inv_def by blast
qed

theorem governance_audit_trail_witness:
  "distinct (map gp_ProposalID (gk_applied example_governed)) \<and> length (gk_applied example_governed) = 1"
proof -
  have "length (gk_applied example_governed) = 1"
    using arg_cong [OF example_governed_applied, of length] by simp
  with governance_audit_trail [OF example_governed_reachable steps.none] show ?thesis by blast
qed

text \<open>C32: a proposal whose caller is not an authority, or whose id has been applied by a proposal of any of
  the three kinds, is refused and changes neither registry, limits, router nor the record; a proposal that is
  accepted makes every later proposal with its id fail.\<close>

theorem governance_applies_once:
  assumes "canonicalAuthority a \<notin> set (gk_authorities k) \<or> TrimSpace i \<in> gp_ProposalID ` set (gk_applied k)"
    and "asp_ProposalID p = i" "lup_ProposalID q = i" "rpp_ProposalID r = i"
  shows "fst (gov_ApplyAssetStatusProposal k a p) = k \<and> snd (gov_ApplyAssetStatusProposal k a p) \<noteq> None
     \<and> fst (gov_ApplyLimitUpdateProposal k a q) = k \<and> snd (gov_ApplyLimitUpdateProposal k a q) \<noteq> None
     \<and> fst (gov_ApplyRoutePolicyUpdateProposal k a r) = k \<and> snd (gov_ApplyRoutePolicyUpdateProposal k a r) \<noteq> None"
proof -
  have "fst out = k \<and> snd out \<noteq> None" if "gov_outcome k a i out" for out
    using that assms(1) unfolding gov_outcome_def by blast
  note this [OF outcome_asset_status [of k a p, unfolded assms(2)]] this [OF outcome_limit_update [of k a q, unfolded assms(3)]]
    this [OF outcome_route_policy [of k a r, unfolded assms(4)]]
  then show ?thesis by blast
qed

theorem governance_applies_once_witness:
  "fst (gov_ApplyRoutePolicyUpdateProposal example_governed ''guardian-1'' example_policy_proposal) = example_governed
   \<and> snd (gov_ApplyRoutePolicyUpdateProposal example_governed ''guardian-1'' example_policy_proposal) \<noteq> None"
proof -
  have "TrimSpace (rpp_ProposalID example_policy_proposal) \<in> gp_ProposalID ` set (gk_applied example_governed)" by code_simp
  with governance_applies_once [of "''guardian-1''" example_governed "rpp_ProposalID example_policy_proposal"
      "\<lparr>asp_ProposalID = rpp_ProposalID example_policy_proposal, asp_AssetID = [], asp_Enabled = False\<rparr>"
      "\<lparr>lup_ProposalID = rpp_ProposalID example_policy_proposal, lup_Limit = undefined\<rparr>" example_policy_proposal]
  show ?thesis by simp
qed

text \<open>C33: once a route policy proposal has been applied, a transfer through that route is accepted only
  if the new policy admits its memo and action; the destination and the asset list of the route stay as they were.\<close>

theorem governed_policy_binds_transfers:
  assumes "gov_ApplyRoutePolicyUpdateProposal k a p = (k', None)"
    and "router_InitiateTransferWithProfile (gk_ibcRouter k') (rpp_RouteID p) assetID amount receiver timeoutHeight memo = (router', Inr r)"
    and "router_stored (gk_ibcRouter k)"
  shows "policy_AllowsMemo (policy_Canonical (rpp_Policy p)) memo \<and> policy_AllowsAction (policy_Canonical (rpp_Policy p)) memo
     \<and> (\<exists>profile asset. router_GetRouteProfile (gk_ibcRouter k) (rpp_RouteID p) = Some profile
          \<and> profile_AssetRoute profile assetID = Some asset \<and> tr_DestinationChainID r = TrimSpace (pr_DestinationChainID profile)
          \<and> tr_DestinationDenom r = TrimSpace (ar_DestinationDenom asset))"
proof -
  from assms(1) obtain profile where
    get: "router_GetRouteProfile (gk_ibcRouter k) (rpp_RouteID p) = Some profile"
    and put: "router_SetRouteProfile (gk_ibcRouter k) (profile\<lparr>pr_Policy := policy_Canonical (rpp_Policy p)\<rparr>) = (gk_ibcRouter k', None)"
    unfolding gov_ApplyRoutePolicyUpdateProposal_def by (auto split: option.splits sum.splits prod.splits)
  have entry: "profile_entry (TrimSpace (rpp_RouteID p)) profile"
    using get assms(3) gomap_all_get unfolding router_stored_def router_GetRouteProfile_def routeProfileKey_def by fast
  let ?new = "profile\<lparr>pr_Policy := policy_Canonical (rpp_Policy p)\<rparr>"
  have new: "profile_Canonical ?new = ?new"
  proof -
    have "profile_Canonical ?new = (profile_Canonical profile)\<lparr>pr_Policy := policy_Canonical (rpp_Policy p)\<rparr>"
      by (simp add: profile_Canonical_def)
    with entry show ?thesis by (simp add: profile_entry_def)
  qed
  have key: "TrimSpace (rpp_RouteID p) = TrimSpace (pr_RouteID ?new)"
    using entry canonical_ids(2) [of profile] by (simp add: profile_entry_def)
  have valid: "profile_ValidateBasic ?new = None"
    using profile_store.put_result [of "gk_ibcRouter k" ?new] put by simp
  have "router_GetRouteProfile (gk_ibcRouter k') (rpp_RouteID p) = Some ?new"
    using profile_store.get_put [OF valid, of "gk_ibcRouter k" "rpp_RouteID p"] unfolding put new key by simp
  with assms(2) have "\<exists>asset. policy_AllowsMemo (pr_Policy ?new) memo \<and> policy_AllowsAction (pr_Policy ?new) memo
      \<and> profile_AssetRoute ?new assetID = Some asset
      \<and> tr_DestinationChainID r = TrimSpace (pr_DestinationChainID ?new) \<and> tr_DestinationDenom r = TrimSpace (ar_DestinationDenom asset)"
    by (auto simp: router_InitiateTransferWithProfile_def initiateTransfer_def cloneTransferRecord_def Let_def split: option.splits if_splits)
  moreover have "profile_AssetRoute ?new assetID = profile_AssetRoute profile assetID"
    by (simp add: profile_AssetRoute_def profile_Canonical_def Let_def)
  ultimately show ?thesis using get by auto
qed

theorem governed_policy_binds_transfers_witness:
  "\<exists>router' r. router_InitiateTransferWithProfile (gk_ibcRouter example_governed) ''osmosis-fast'' ''eth.usdc'' (Some 25) ''osmo1x'' 90 ''stake:uosmo'' = (router', Inr r)
     \<and> policy_AllowsMemo (policy_Canonical (rpp_Policy example_policy_proposal)) ''stake:uosmo''"
proof -
  have ok: "snd (gov_ApplyRoutePolicyUpdateProposal example_governance ''guardian-1'' example_policy_proposal) = None" by code_simp
  then have applied: "gov_ApplyRoutePolicyUpdateProposal example_governance ''guardian-1'' example_policy_proposal = (example_governed, None)"
    by (metis example_governed_def prod.collapse)
  have "case snd (router_InitiateTransferWithProfile (gk_ibcRouter example_governed) ''osmosis-fast'' ''eth.usdc'' (Some 25) ''osmo1x'' 90 ''stake:uosmo'')
      of Inl _ \<Rightarrow> False | Inr _ \<Rightarrow> True" by code_simp
  then obtain router' r where sent:
    "router_InitiateTransferWithProfile (gk_ibcRouter example_governed) (rpp_RouteID example_policy_proposal) ''eth.usdc'' (Some 25) ''osmo1x'' 90 ''stake:uosmo'' = (router', Inr r)"
    by (metis case_InrE prod.collapse example_policy_proposal_def RoutePolicyUpdateProposal.select_convs(2))
  have "router_stored (gk_ibcRouter example_governance)"
  proof -
    have "reachable (\<lambda>k. k = router_NewKeeper) router_step example_router"
      unfolding example_router_def by (rule reachable.next_state [OF reachable.start]) (rule refl, rule router_step.set_profile)
    then show ?thesis using router_store.reachable_inv by (simp add: example_governance_def gov_NewKeeper_def)
  qed
  from governed_policy_binds_transfers [OF applied sent this] sent show ?thesis
    by (metis example_policy_proposal_def RoutePolicyUpdateProposal.select_convs(2))
qed

end
