(* ===== verification/Sha256.thy ===== *)
theory Sha256
  imports GoStrings
begin

unbundle bit_operations_syntax

text \<open>
  \<^verbatim>\<open>crypto/sha256\<close> (FIPS 180-4) and the fixed-width and variable-length integer encodings of
  \<^verbatim>\<open>encoding/binary\<close>, as functions on byte strings. The keepers use the hash only through
  \<^verbatim>\<open>hex.EncodeToString(sha256.Sum256(b))\<close>; the development relies on its digest having 32
  bytes and never on any other property of it.
\<close>

section \<open>Words and bytes\<close>

definition byte_of :: "char \<Rightarrow> u32" where
  "byte_of c = of_nat (of_char c)"

definition be32 :: "char \<Rightarrow> char \<Rightarrow> char \<Rightarrow> char \<Rightarrow> u32" where
  "be32 a b c d =
     push_bit 24 (byte_of a) OR push_bit 16 (byte_of b) OR push_bit 8 (byte_of c) OR byte_of d"

text \<open>The \<^term>\<open>n\<close> low-order bytes of a number, most significant first.\<close>

fun be_bytes :: "nat \<Rightarrow> nat \<Rightarrow> bytes" where
  "be_bytes 0 x = []"
| "be_bytes (Suc n) x = be_bytes n (x div 256) @ [char_of (x mod 256)]"

definition put32 :: "u32 \<Rightarrow> bytes" where
  "put32 w = be_bytes 4 (unat w)"

text \<open>\<^verbatim>\<open>binary.BigEndian.PutUint64\<close> and \<^verbatim>\<open>binary.PutUvarint\<close>.\<close>

definition PutUint64 :: "u64 \<Rightarrow> bytes" where
  "PutUint64 w = be_bytes 8 (unat w)"

fun PutUvarint :: "nat \<Rightarrow> bytes" where
  "PutUvarint x =
     (if 128 \<le> x then char_of (x mod 128 + 128) # PutUvarint (x div 128) else [char_of x])"

declare PutUvarint.simps [simp del]

fun words_of :: "bytes \<Rightarrow> u32 list" where
  "words_of (a # b # c # d # rest) = be32 a b c d # words_of rest"
| "words_of _ = []"

section \<open>The compression function\<close>

definition rotr :: "nat \<Rightarrow> u32 \<Rightarrow> u32" where
  "rotr n w = drop_bit n w OR push_bit (32 - n) w"

definition sha_k :: "u32 list" where
  "sha_k =
    [1116352408, 1899447441, 3049323471, 3921009573, 961987163, 1508970993, 2453635748, 2870763221,
     3624381080, 310598401, 607225278, 1426881987, 1925078388, 2162078206, 2614888103, 3248222580,
     3835390401, 4022224774, 264347078, 604807628, 770255983, 1249150122, 1555081692, 1996064986,
     2554220882, 2821834349, 2952996808, 3210313671, 3336571891, 3584528711, 113926993, 338241895,
     666307205, 773529912, 1294757372, 1396182291, 1695183700, 1986661051, 2177026350, 2456956037,
     2730485921, 2820302411, 3259730800, 3345764771, 3516065817, 3600352804, 4094571909, 275423344,
     430227734, 506948616, 659060556, 883997877, 958139571, 1322822218, 1537002063, 1747873779,
     1955562222, 2024104815, 2227730452, 2361852424, 2428436474, 2756734187, 3204031479, 3329325298]"

type_synonym sha_state = "u32 \<times> u32 \<times> u32 \<times> u32 \<times> u32 \<times> u32 \<times> u32 \<times> u32"

definition sha_init :: sha_state where
  "sha_init = (1779033703, 3144134277, 1013904242, 2773480762, 1359893119, 2600822924, 528734635, 1541459225)"

text \<open>The message schedule, from the sixteen words of the block: the last sixteen words are kept
  newest first, and each step adds one.\<close>

fun sha_schedule :: "nat \<Rightarrow> u32 list \<Rightarrow> u32 list" where
  "sha_schedule 0 ws = ws"
| "sha_schedule (Suc n) ws =
     (let i = length ws;
          w15 = ws ! (i - 15); w2 = ws ! (i - 2);
          s0 = rotr 7 w15 XOR rotr 18 w15 XOR drop_bit 3 w15;
          s1 = rotr 17 w2 XOR rotr 19 w2 XOR drop_bit 10 w2
      in sha_schedule n (ws @ [ws ! (i - 16) + s0 + ws ! (i - 7) + s1]))"

fun sha_round :: "sha_state \<Rightarrow> u32 \<times> u32 \<Rightarrow> sha_state" where
  "sha_round (a, b, c, d, e, f, g, h) (k, w) =
     (let s1 = rotr 6 e XOR rotr 11 e XOR rotr 25 e;
          ch = (e AND f) XOR (NOT e AND g);
          t1 = h + s1 + ch + k + w;
          s0 = rotr 2 a XOR rotr 13 a XOR rotr 22 a;
          maj = (a AND b) XOR (a AND c) XOR (b AND c);
          t2 = s0 + maj
      in (t1 + t2, a, b, c, d + t1, e, f, g))"

fun sha_add :: "sha_state \<Rightarrow> sha_state \<Rightarrow> sha_state" where
  "sha_add (a, b, c, d, e, f, g, h) (a', b', c', d', e', f', g', h') =
     (a + a', b + b', c + c', d + d', e + e', f + f', g + g', h + h')"

definition sha_block :: "sha_state \<Rightarrow> u32 list \<Rightarrow> sha_state" where
  "sha_block st ws = sha_add st (foldl sha_round st (zip sha_k (sha_schedule 48 ws)))"

fun sha_blocks :: "sha_state \<Rightarrow> u32 list \<Rightarrow> nat \<Rightarrow> sha_state" where
  "sha_blocks st ws 0 = st"
| "sha_blocks st ws (Suc n) = sha_blocks (sha_block st (take 16 ws)) (drop 16 ws) n"

definition sha_pad :: "bytes \<Rightarrow> bytes" where
  "sha_pad m =
     m @ CHR 0x80 # replicate ((119 - length m mod 64) mod 64) (CHR 0x00)
       @ PutUint64 (of_nat (8 * length m))"

fun sha_out :: "sha_state \<Rightarrow> bytes" where
  "sha_out (a, b, c, d, e, f, g, h) =
     put32 a @ put32 b @ put32 c @ put32 d @ put32 e @ put32 f @ put32 g @ put32 h"

definition Sum256 :: "bytes \<Rightarrow> bytes" where
  "Sum256 m = (let ws = words_of (sha_pad m) in sha_out (sha_blocks sha_init ws (length ws div 16)))"

lemma length_be_bytes [simp]: "length (be_bytes n x) = n"
  by (induction n arbitrary: x) auto

lemma be_bytes_inject:
  "be_bytes n x = be_bytes n y \<Longrightarrow> x < 256 ^ n \<Longrightarrow> y < 256 ^ n \<Longrightarrow> x = y"
proof (induction n arbitrary: x y)
  case 0
  then show ?case by simp
next
  case (Suc n)
  have "x div 256 = y div 256"
    by (rule Suc.IH) (use Suc.prems in \<open>auto simp: less_mult_imp_div_less mult.commute\<close>)
  moreover have "char_of (x mod 256) = (char_of (y mod 256) :: char)"
    using Suc.prems by simp
  then have "x mod 256 = y mod 256" by (simp add: char_of_eq_iff take_bit_eq_mod)
  ultimately show ?case by (metis div_mult_mod_eq)
qed

lemma PutUint64_append_inject [simp]:
  "PutUint64 a @ r = PutUint64 b @ s \<longleftrightarrow> a = b \<and> r = s"
proof
  assume eq: "PutUint64 a @ r = PutUint64 b @ s"
  then have "be_bytes 8 (unat a) = be_bytes 8 (unat b)" and rs: "r = s"
    by (simp_all add: PutUint64_def)
  moreover have "unat v < 256 ^ 8" for v :: u64
    using unsigned_less [of v] by simp
  ultimately have "unat a = unat b" by (intro be_bytes_inject)
  then show "a = b \<and> r = s" using rs by (simp add: word_unat_eq_iff)
qed simp

text \<open>The variable-length encoding is prefix-free.\<close>

lemma PutUvarint_append_inject [simp]:
  "PutUvarint m @ r = PutUvarint n @ s \<longleftrightarrow> m = n \<and> r = s"
proof
  show "PutUvarint m @ r = PutUvarint n @ s \<Longrightarrow> m = n \<and> r = s"
  proof (induction m arbitrary: n rule: PutUvarint.induct)
    case (1 m)
    have c: "(of_char (char_of x :: char) :: nat) = x" if "x < 256" for x using that by simp
    have small: "x mod 128 + 128 < (256 :: nat)" for x
      by (metis add_less_mono1 mod_less_divisor numeral_Bit0 zero_less_numeral)
    consider "128 \<le> m" "128 \<le> n" | "128 \<le> m" "n < 128" | "m < 128" "128 \<le> n" | "m < 128" "n < 128"
      by linarith
    then show ?case
    proof cases
      case a: 1
      then have h: "char_of (m mod 128 + 128) = (char_of (n mod 128 + 128) :: char)"
        and t: "PutUvarint (m div 128) @ r = PutUvarint (n div 128) @ s"
        using "1.prems" by (simp_all add: PutUvarint.simps [of m] PutUvarint.simps [of n])
      have "m mod 128 = n mod 128" using h c [OF small, of m] c [OF small, of n] by simp
      moreover have "m div 128 = n div 128 \<and> r = s" using "1.IH" a t by blast
      ultimately show ?thesis by (metis div_mult_mod_eq)
    next
      case a: 2
      then have "char_of (m mod 128 + 128) = (char_of n :: char)"
        using "1.prems" by (simp add: PutUvarint.simps [of m] PutUvarint.simps [of n])
      then have "m mod 128 + 128 = n" using c [OF small, of m] c [of n] a by simp
      with a show ?thesis by simp
    next
      case a: 3
      then have "char_of m = (char_of (n mod 128 + 128) :: char)"
        using "1.prems" by (simp add: PutUvarint.simps [of m] PutUvarint.simps [of n])
      then have "m = n mod 128 + 128" using c [OF small, of n] c [of m] a by simp
      with a show ?thesis by simp
    next
      case a: 4
      then have "char_of m = (char_of n :: char)" "r = s"
        using "1.prems" by (simp_all add: PutUvarint.simps [of m] PutUvarint.simps [of n])
      then show ?thesis using c [of m] c [of n] a by simp
    qed
  qed
qed simp

lemma length_put32 [simp]: "length (put32 w) = 4"
  by (simp add: put32_def)

lemma length_sha_out [simp]: "length (sha_out st) = 32"
  by (cases st rule: sha_out.cases) simp

lemma length_Sum256 [simp]: "length (Sum256 m) = 32"
  by (simp add: Sum256_def Let_def)

lemma Sum256_nonempty [simp]: "Sum256 m \<noteq> []"
  by (metis length_Sum256 list.size(3) zero_neq_numeral)

end
