(* ===== verification/BridgeTypes.thy ===== *)
theory BridgeTypes
  imports Sha256
begin

text \<open>
  The data types of \<^verbatim>\<open>chain/aegislink/x/bridge/types\<close>: claim identities, deposit and withdrawal
  claims, attestations and their proofs, their basic validation, the canonical byte encodings
  that are hashed into replay keys and claim digests, and the payload that attestation signers
  sign. The secp256k1 and Keccak-256 packages the code imports are the fields of the record
  \<open>crypto\<close>, an argument of every definition that uses them.
\<close>

section \<open>Errors\<close>

text \<open>A wrapped error carries its format text and the arguments of the format.\<close>

datatype types_error =
    ErrInvalidClaim string "string list"
  | ErrInvalidAttestation string "string list"

section \<open>Imported cryptography\<close>

record ('pk, 'sk) crypto =
  cr_Keccak256 :: "bytes \<Rightarrow> bytes"
  cr_RecoverCompact :: "bytes \<Rightarrow> bytes \<Rightarrow> 'pk option"
  cr_SerializeUncompressed :: "'pk \<Rightarrow> bytes"
  cr_PrivKeyFromBytes :: "bytes \<Rightarrow> 'sk"
  cr_IsZero :: "'sk \<Rightarrow> bool"
  cr_PubKey :: "'sk \<Rightarrow> 'pk"
  cr_SignCompact :: "'sk \<Rightarrow> bytes \<Rightarrow> bytes"

section \<open>Canonical encodings\<close>

abbreviation (input) ClaimKindUnspecified :: string where "ClaimKindUnspecified \<equiv> ''''"
abbreviation (input) ClaimKindDeposit :: string where "ClaimKindDeposit \<equiv> ''deposit''"
abbreviation (input) ClaimKindWithdrawal :: string where "ClaimKindWithdrawal \<equiv> ''withdrawal''"

abbreviation (input) SourceAssetKindUnspecified :: string where "SourceAssetKindUnspecified \<equiv> ''''"
abbreviation (input) SourceAssetKindNativeETH :: string where "SourceAssetKindNativeETH \<equiv> ''native_eth''"
abbreviation (input) SourceAssetKindERC20 :: string where "SourceAssetKindERC20 \<equiv> ''erc20''"

definition canonicalReplaySourceAssetKind :: "string \<Rightarrow> string" where
  "canonicalReplaySourceAssetKind k =
     (let t = TrimSpace k in
      if t = '''' \<or> t = SourceAssetKindERC20 then ''''
      else if t = SourceAssetKindNativeETH then SourceAssetKindNativeETH
      else t)"

definition writeCanonicalString :: "string \<Rightarrow> bytes" where
  "writeCanonicalString value =
     (let normalized = TrimSpace value in PutUvarint (length normalized) @ normalized)"

definition writeCanonicalBigInt :: "bigint \<Rightarrow> bytes" where
  "writeCanonicalBigInt value =
     (case value of None \<Rightarrow> writeCanonicalString '''' | Some v \<Rightarrow> writeCanonicalString (show_int v))"

definition canonicalIdentityBytes ::
    "string \<Rightarrow> string \<Rightarrow> string \<Rightarrow> string \<Rightarrow> string \<Rightarrow> u64 \<Rightarrow> u64 \<Rightarrow> bytes" where
  "canonicalIdentityBytes kind sourceAssetKind sourceChainID sourceContract sourceTxHash sourceLogIndex nonce =
     writeCanonicalString kind
     @ writeCanonicalString (canonicalReplaySourceAssetKind sourceAssetKind)
     @ writeCanonicalString sourceChainID
     @ writeCanonicalString sourceContract
     @ writeCanonicalString sourceTxHash
     @ PutUint64 sourceLogIndex
     @ PutUint64 nonce"

definition ReplayKey ::
    "string \<Rightarrow> string \<Rightarrow> string \<Rightarrow> string \<Rightarrow> string \<Rightarrow> u64 \<Rightarrow> u64 \<Rightarrow> string" where
  "ReplayKey kind sourceAssetKind sourceChainID sourceContract sourceTxHash sourceLogIndex nonce =
     hex_EncodeToString (Sum256 (canonicalIdentityBytes kind sourceAssetKind sourceChainID
       sourceContract sourceTxHash sourceLogIndex nonce))"

definition canonicalClaimBytes ::
    "string \<Rightarrow> string \<Rightarrow> string \<Rightarrow> string \<Rightarrow> string \<Rightarrow> u64 \<Rightarrow> u64
     \<Rightarrow> string \<Rightarrow> string \<Rightarrow> bigint \<Rightarrow> string \<Rightarrow> u64 \<Rightarrow> bytes" where
  "canonicalClaimBytes kind sourceAssetKind sourceChainID sourceContract sourceTxHash sourceLogIndex nonce
       destinationChainID assetID amount recipient deadline =
     canonicalIdentityBytes kind sourceAssetKind sourceChainID sourceContract sourceTxHash sourceLogIndex nonce
     @ writeCanonicalString destinationChainID
     @ writeCanonicalString assetID
     @ writeCanonicalBigInt amount
     @ writeCanonicalString recipient
     @ PutUint64 deadline"

definition ClaimDigest ::
    "string \<Rightarrow> string \<Rightarrow> string \<Rightarrow> string \<Rightarrow> string \<Rightarrow> u64 \<Rightarrow> u64
     \<Rightarrow> string \<Rightarrow> string \<Rightarrow> bigint \<Rightarrow> string \<Rightarrow> u64 \<Rightarrow> string" where
  "ClaimDigest kind sourceAssetKind sourceChainID sourceContract sourceTxHash sourceLogIndex nonce
       destinationChainID assetID amount recipient deadline =
     hex_EncodeToString (Sum256 (canonicalClaimBytes kind sourceAssetKind sourceChainID sourceContract
       sourceTxHash sourceLogIndex nonce destinationChainID assetID amount recipient deadline))"

section \<open>Claims\<close>

record ClaimIdentity =
  ci_Kind :: string
  ci_SourceAssetKind :: string
  ci_SourceChainID :: string
  ci_SourceContract :: string
  ci_SourceTxHash :: string
  ci_SourceLogIndex :: u64
  ci_Nonce :: u64
  ci_MessageID :: string

definition DerivedMessageID :: "ClaimIdentity \<Rightarrow> string" where
  "DerivedMessageID c =
     ReplayKey (ci_Kind c) (ci_SourceAssetKind c) (ci_SourceChainID c) (ci_SourceContract c)
       (ci_SourceTxHash c) (ci_SourceLogIndex c) (ci_Nonce c)"

definition identity_ReplayKey :: "ClaimIdentity \<Rightarrow> string" where
  "identity_ReplayKey c = DerivedMessageID c"

definition identity_ValidateBasic :: "ClaimIdentity \<Rightarrow> types_error option" where
  "identity_ValidateBasic c =
     (let sourceAssetKind = TrimSpace (ci_SourceAssetKind c) in
      if ci_Kind c \<noteq> ClaimKindDeposit \<and> ci_Kind c \<noteq> ClaimKindWithdrawal
      then Some (ErrInvalidClaim ''invalid claim kind %q'' [ci_Kind c])
      else if sourceAssetKind \<noteq> SourceAssetKindUnspecified \<and> sourceAssetKind \<noteq> SourceAssetKindNativeETH
              \<and> sourceAssetKind \<noteq> SourceAssetKindERC20
      then Some (ErrInvalidClaim ''invalid source asset kind'' [])
      else if TrimSpace (ci_SourceChainID c) = '''' then Some (ErrInvalidClaim ''missing source chain id'' [])
      else if TrimSpace (ci_SourceTxHash c) = '''' then Some (ErrInvalidClaim ''missing source tx hash'' [])
      else if (sourceAssetKind = SourceAssetKindUnspecified \<or> sourceAssetKind = SourceAssetKindERC20)
              \<and> TrimSpace (ci_SourceContract c) = ''''
      then Some (ErrInvalidClaim ''missing source contract'' [])
      else if TrimSpace (ci_MessageID c) = '''' then Some (ErrInvalidClaim ''missing message id'' [])
      else if ci_MessageID c \<noteq> DerivedMessageID c then Some (ErrInvalidClaim ''message id mismatch'' [])
      else None)"

text \<open>\<^verbatim>\<open>DepositClaim\<close> and \<^verbatim>\<open>WithdrawalClaim\<close> have the same fields.\<close>

record DepositClaim =
  dc_Identity :: ClaimIdentity
  dc_DestinationChainID :: string
  dc_AssetID :: string
  dc_Amount :: bigint
  dc_Recipient :: string
  dc_Deadline :: u64

record WithdrawalClaim =
  wc_Identity :: ClaimIdentity
  wc_DestinationChainID :: string
  wc_AssetID :: string
  wc_Amount :: bigint
  wc_Recipient :: string
  wc_Deadline :: u64

text \<open>\<^verbatim>\<open>x == nil || x.Sign() <= 0\<close>.\<close>

definition not_positive :: "bigint \<Rightarrow> bool" where
  "not_positive a = (case a of None \<Rightarrow> True | Some v \<Rightarrow> v \<le> 0)"

definition deposit_ValidateBasic :: "DepositClaim \<Rightarrow> types_error option" where
  "deposit_ValidateBasic c =
     (if ci_Kind (dc_Identity c) \<noteq> ClaimKindDeposit
      then Some (ErrInvalidClaim ''deposit claim must use deposit identity'' [])
      else case identity_ValidateBasic (dc_Identity c) of
        Some e \<Rightarrow> Some e
      | None \<Rightarrow>
          if TrimSpace (dc_DestinationChainID c) = '''' then Some (ErrInvalidClaim ''missing destination chain id'' [])
          else if TrimSpace (dc_AssetID c) = '''' then Some (ErrInvalidClaim ''missing asset id'' [])
          else if not_positive (dc_Amount c) then Some (ErrInvalidClaim ''amount must be positive'' [])
          else if TrimSpace (dc_Recipient c) = '''' then Some (ErrInvalidClaim ''missing recipient'' [])
          else if dc_Deadline c = 0 then Some (ErrInvalidClaim ''missing deadline'' [])
          else None)"

definition deposit_Digest :: "DepositClaim \<Rightarrow> string" where
  "deposit_Digest c =
     (let i = dc_Identity c in
      ClaimDigest (ci_Kind i) (ci_SourceAssetKind i) (ci_SourceChainID i) (ci_SourceContract i)
        (ci_SourceTxHash i) (ci_SourceLogIndex i) (ci_Nonce i)
        (dc_DestinationChainID c) (dc_AssetID c) (dc_Amount c) (dc_Recipient c) (dc_Deadline c))"

definition withdrawal_ValidateBasic :: "WithdrawalClaim \<Rightarrow> types_error option" where
  "withdrawal_ValidateBasic c =
     (if ci_Kind (wc_Identity c) \<noteq> ClaimKindWithdrawal
      then Some (ErrInvalidClaim ''withdrawal claim must use withdrawal identity'' [])
      else case identity_ValidateBasic (wc_Identity c) of
        Some e \<Rightarrow> Some e
      | None \<Rightarrow>
          if TrimSpace (wc_DestinationChainID c) = '''' then Some (ErrInvalidClaim ''missing destination chain id'' [])
          else if TrimSpace (wc_AssetID c) = '''' then Some (ErrInvalidClaim ''missing asset id'' [])
          else if not_positive (wc_Amount c) then Some (ErrInvalidClaim ''amount must be positive'' [])
          else if TrimSpace (wc_Recipient c) = '''' then Some (ErrInvalidClaim ''missing recipient'' [])
          else if wc_Deadline c = 0 then Some (ErrInvalidClaim ''missing deadline'' [])
          else None)"

definition withdrawal_Digest :: "WithdrawalClaim \<Rightarrow> string" where
  "withdrawal_Digest c =
     (let i = wc_Identity c in
      ClaimDigest (ci_Kind i) (ci_SourceAssetKind i) (ci_SourceChainID i) (ci_SourceContract i)
        (ci_SourceTxHash i) (ci_SourceLogIndex i) (ci_Nonce i)
        (wc_DestinationChainID c) (wc_AssetID c) (wc_Amount c) (wc_Recipient c) (wc_Deadline c))"

section \<open>Attestations\<close>

record AttestationProof =
  pf_Signer :: string
  pf_Signature :: bytes

record Attestation =
  att_MessageID :: string
  att_PayloadHash :: string
  att_Signers :: "string list"
  att_Proofs :: "AttestationProof list"
  att_Threshold :: u32
  att_Expiry :: u64
  att_SignerSetVersion :: u64

definition maxProofsPerAttestation :: nat where
  "maxProofsPerAttestation = 128"

definition validateEnvelope :: "Attestation \<Rightarrow> types_error option" where
  "validateEnvelope a =
     (if TrimSpace (att_MessageID a) = '''' then Some (ErrInvalidAttestation ''missing message id'' [])
      else if TrimSpace (att_PayloadHash a) = '''' then Some (ErrInvalidAttestation ''missing payload hash'' [])
      else if att_Threshold a = 0 then Some (ErrInvalidAttestation ''missing threshold'' [])
      else if att_Expiry a = 0 then Some (ErrInvalidAttestation ''missing expiry'' [])
      else if att_SignerSetVersion a = 0 then Some (ErrInvalidAttestation ''missing signer set version'' [])
      else None)"

text \<open>The two loops of \<^verbatim>\<open>Attestation.ValidateBasic\<close>, with the set of signers seen so far.\<close>

fun check_proofs :: "AttestationProof list \<Rightarrow> string list \<Rightarrow> types_error option" where
  "check_proofs [] seen = None"
| "check_proofs (p # ps) seen =
     (let signer = TrimSpace (pf_Signer p) in
      if signer = '''' then Some (ErrInvalidAttestation ''empty proof signer'' [])
      else if pf_Signature p = [] then Some (ErrInvalidAttestation ''missing proof signature'' [])
      else if signer \<in> set seen then Some (ErrInvalidAttestation ''duplicate proof signer %q'' [signer])
      else check_proofs ps (signer # seen))"

fun check_signers :: "string list \<Rightarrow> string list \<Rightarrow> types_error option" where
  "check_signers [] seen = None"
| "check_signers (s # ss) seen =
     (let signer = TrimSpace s in
      if signer = '''' then Some (ErrInvalidAttestation ''empty signer'' [])
      else if signer \<in> set seen then Some (ErrInvalidAttestation ''duplicate signer %q'' [signer])
      else check_signers ss (signer # seen))"

definition attestation_ValidateBasic :: "Attestation \<Rightarrow> types_error option" where
  "attestation_ValidateBasic a =
     (case validateEnvelope a of
        Some e \<Rightarrow> Some e
      | None \<Rightarrow>
          if att_Proofs a = [] then Some (ErrInvalidAttestation ''missing proofs'' [])
          else if maxProofsPerAttestation < length (att_Proofs a)
          then Some (ErrInvalidAttestation ''proof count %d exceeds maximum %d''
                 [show_nat (length (att_Proofs a)), show_nat maxProofsPerAttestation])
          else if length (att_Proofs a) < unat (att_Threshold a)
          then Some (ErrInvalidAttestation ''threshold exceeds proof count'' [])
          else case check_proofs (att_Proofs a) [] of
            Some e \<Rightarrow> Some e
          | None \<Rightarrow> check_signers (att_Signers a) [])"

section \<open>Signing\<close>

definition NormalizeSignerAddress :: "string \<Rightarrow> string" where
  "NormalizeSignerAddress address = ToLower (TrimSpace address)"

fun join :: "string \<Rightarrow> string list \<Rightarrow> string" where
  "join sep [] = ''''"
| "join sep [s] = s"
| "join sep (s # t # ss) = s @ sep @ join sep (t # ss)"

definition encode_field :: "string \<Rightarrow> string" where
  "encode_field f = show_nat (length f) @ '':'' @ f"

definition signing_fields :: "Attestation \<Rightarrow> string list" where
  "signing_fields a =
     [''aegislink.attestation.v1'',
      TrimSpace (att_MessageID a),
      ToLower (TrimSpace (att_PayloadHash a)),
      show_u32 (att_Threshold a),
      show_u64 (att_Expiry a),
      show_u64 (att_SignerSetVersion a)]"

definition signing_payload :: "Attestation \<Rightarrow> string" where
  "signing_payload a = join ''|'' (map encode_field (signing_fields a))"

definition keccak256 :: "('pk, 'sk) crypto \<Rightarrow> bytes \<Rightarrow> bytes" where
  "keccak256 cr data = cr_Keccak256 cr data"

definition SigningDigest :: "('pk, 'sk) crypto \<Rightarrow> Attestation \<Rightarrow> types_error + bytes" where
  "SigningDigest cr a =
     (case validateEnvelope a of
        Some e \<Rightarrow> Inl e
      | None \<Rightarrow> Inr (keccak256 cr (signing_payload a)))"

definition SignerAddressFromPublicKey :: "('pk, 'sk) crypto \<Rightarrow> 'pk \<Rightarrow> string" where
  "SignerAddressFromPublicKey cr publicKey =
     (let hash = keccak256 cr (drop 1 (cr_SerializeUncompressed cr publicKey))
      in ''0x'' @ hex_EncodeToString (drop (length hash - 20) hash))"

text \<open>\<^verbatim>\<open>hex.DecodeString\<close>: an even number of hexadecimal digits.\<close>

definition hex_val :: "char \<Rightarrow> nat option" where
  "hex_val c =
     (let n = (of_char c :: nat) in
      if 48 \<le> n \<and> n \<le> 57 then Some (n - 48)
      else if 97 \<le> n \<and> n \<le> 102 then Some (n - 87)
      else if 65 \<le> n \<and> n \<le> 70 then Some (n - 55)
      else None)"

fun hex_DecodeString :: "string \<Rightarrow> bytes option" where
  "hex_DecodeString [] = Some []"
| "hex_DecodeString [c] = None"
| "hex_DecodeString (a # b # rest) =
     (case (hex_val a, hex_val b, hex_DecodeString rest) of
        (Some x, Some y, Some bs) \<Rightarrow> Some (char_of (16 * x + y) # bs)
      | _ \<Rightarrow> None)"

definition TrimPrefix :: "string \<Rightarrow> string \<Rightarrow> string" where
  "TrimPrefix s p = (if prefix p s then drop (length p) s else s)"

definition parsePrivateKeyHex :: "('pk, 'sk) crypto \<Rightarrow> string \<Rightarrow> types_error + 'sk" where
  "parsePrivateKeyHex cr privateKeyHex =
     (let trimmed = TrimPrefix (TrimSpace privateKeyHex) ''0x'' in
      if trimmed = '''' then Inl (ErrInvalidAttestation ''missing private key'' [])
      else case hex_DecodeString trimmed of
        None \<Rightarrow> Inl (ErrInvalidAttestation ''decode private key: %v'' [trimmed])
      | Some decoded \<Rightarrow>
          let privateKey = cr_PrivKeyFromBytes cr decoded in
          if cr_IsZero cr privateKey then Inl (ErrInvalidAttestation ''zero private key'' [])
          else Inr privateKey)"

definition SignAttestationWithPrivateKeyHex ::
    "('pk, 'sk) crypto \<Rightarrow> Attestation \<Rightarrow> string \<Rightarrow> types_error + AttestationProof" where
  "SignAttestationWithPrivateKeyHex cr attestation privateKeyHex =
     (case SigningDigest cr attestation of
        Inl e \<Rightarrow> Inl e
      | Inr digest \<Rightarrow>
          case parsePrivateKeyHex cr privateKeyHex of
            Inl e \<Rightarrow> Inl e
          | Inr privateKey \<Rightarrow>
              Inr \<lparr>pf_Signer = SignerAddressFromPublicKey cr (cr_PubKey cr privateKey),
                   pf_Signature = cr_SignCompact cr privateKey digest\<rparr>)"

definition SignerAddressFromPrivateKeyHex :: "('pk, 'sk) crypto \<Rightarrow> string \<Rightarrow> types_error + string" where
  "SignerAddressFromPrivateKeyHex cr privateKeyHex =
     (case parsePrivateKeyHex cr privateKeyHex of
        Inl e \<Rightarrow> Inl e
      | Inr privateKey \<Rightarrow> Inr (SignerAddressFromPublicKey cr (cr_PubKey cr privateKey)))"

definition SignRawPayload :: "('pk, 'sk) crypto \<Rightarrow> bytes \<Rightarrow> string \<Rightarrow> types_error + bytes" where
  "SignRawPayload cr payload privateKeyHex =
     (case parsePrivateKeyHex cr privateKeyHex of
        Inl e \<Rightarrow> Inl e
      | Inr privateKey \<Rightarrow> Inr (cr_SignCompact cr privateKey (keccak256 cr payload)))"

definition RecoverSignerFromPayload :: "('pk, 'sk) crypto \<Rightarrow> bytes \<Rightarrow> bytes \<Rightarrow> types_error + string" where
  "RecoverSignerFromPayload cr payload signature =
     (if signature = [] then Inl (ErrInvalidAttestation ''empty signature'' [])
      else case cr_RecoverCompact cr signature (keccak256 cr payload) of
        None \<Rightarrow> Inl (ErrInvalidAttestation ''recover signer: %v'' [])
      | Some publicKey \<Rightarrow> Inr (SignerAddressFromPublicKey cr publicKey))"

section \<open>The encodings are uniquely decodable\<close>

lemma writeCanonicalString_append_inject [simp]:
  "writeCanonicalString a @ r = writeCanonicalString b @ s \<longleftrightarrow> TrimSpace a = TrimSpace b \<and> r = s"
  by (auto simp: writeCanonicalString_def Let_def)

lemma writeCanonicalBigInt_append_inject [simp]:
  "writeCanonicalBigInt a @ r = writeCanonicalBigInt b @ s \<longleftrightarrow> a = b \<and> r = s"
  by (auto simp: writeCanonicalBigInt_def split: option.split) (metis show_int_nonempty)+

lemma PutUint64_inject [simp]: "PutUint64 a = PutUint64 b \<longleftrightarrow> a = b"
  using PutUint64_append_inject [of a "[]" b "[]"] by simp

lemma canonicalReplaySourceAssetKind_trim [simp]:
  "TrimSpace (canonicalReplaySourceAssetKind k) = canonicalReplaySourceAssetKind k"
  by (simp add: canonicalReplaySourceAssetKind_def Let_def go_eval)

text \<open>Two identities are the same claim when they agree up to surrounding white space and up to the
  two spellings of the ERC-20 asset kind.\<close>

definition same_identity :: "ClaimIdentity \<Rightarrow> ClaimIdentity \<Rightarrow> bool" where
  "same_identity a b \<longleftrightarrow>
     TrimSpace (ci_Kind a) = TrimSpace (ci_Kind b)
     \<and> canonicalReplaySourceAssetKind (ci_SourceAssetKind a) = canonicalReplaySourceAssetKind (ci_SourceAssetKind b)
     \<and> TrimSpace (ci_SourceChainID a) = TrimSpace (ci_SourceChainID b)
     \<and> TrimSpace (ci_SourceContract a) = TrimSpace (ci_SourceContract b)
     \<and> TrimSpace (ci_SourceTxHash a) = TrimSpace (ci_SourceTxHash b)
     \<and> ci_SourceLogIndex a = ci_SourceLogIndex b
     \<and> ci_Nonce a = ci_Nonce b"

definition identity_bytes :: "ClaimIdentity \<Rightarrow> bytes" where
  "identity_bytes c =
     canonicalIdentityBytes (ci_Kind c) (ci_SourceAssetKind c) (ci_SourceChainID c)
       (ci_SourceContract c) (ci_SourceTxHash c) (ci_SourceLogIndex c) (ci_Nonce c)"

definition deposit_bytes :: "DepositClaim \<Rightarrow> bytes" where
  "deposit_bytes c =
     (let i = dc_Identity c in
      canonicalClaimBytes (ci_Kind i) (ci_SourceAssetKind i) (ci_SourceChainID i) (ci_SourceContract i)
        (ci_SourceTxHash i) (ci_SourceLogIndex i) (ci_Nonce i)
        (dc_DestinationChainID c) (dc_AssetID c) (dc_Amount c) (dc_Recipient c) (dc_Deadline c))"

lemma DerivedMessageID_bytes: "DerivedMessageID c = hex_EncodeToString (Sum256 (identity_bytes c))"
  by (simp add: DerivedMessageID_def ReplayKey_def identity_bytes_def)

lemma deposit_Digest_bytes: "deposit_Digest c = hex_EncodeToString (Sum256 (deposit_bytes c))"
  by (simp add: deposit_Digest_def ClaimDigest_def deposit_bytes_def Let_def)

lemma identity_bytes_append_inject:
  "identity_bytes a @ r = identity_bytes b @ s \<longleftrightarrow> same_identity a b \<and> r = s"
  by (auto simp: identity_bytes_def canonicalIdentityBytes_def same_identity_def)

lemma identity_bytes_eq_iff: "identity_bytes a = identity_bytes b \<longleftrightarrow> same_identity a b"
  using identity_bytes_append_inject [of a "[]" b "[]"] by simp

lemma DerivedMessageID_cong: "same_identity a b \<Longrightarrow> DerivedMessageID a = DerivedMessageID b"
  by (metis DerivedMessageID_bytes identity_bytes_eq_iff)

lemma DerivedMessageID_nonblank [simp]: "TrimSpace (DerivedMessageID c) = DerivedMessageID c"
  by (simp add: DerivedMessageID_bytes)

lemma DerivedMessageID_nonempty [simp]: "DerivedMessageID c \<noteq> []"
  by (simp add: DerivedMessageID_bytes)

lemma DerivedMessageID_update [simp]: "DerivedMessageID (c\<lparr>ci_MessageID := m\<rparr>) = DerivedMessageID c"
  by (simp add: DerivedMessageID_def)

lemma encode_field_append_inject [simp]:
  "encode_field f @ r = encode_field g @ s \<longleftrightarrow> f = g \<and> r = s"
proof
  assume "encode_field f @ r = encode_field g @ s"
  then have eq: "show_nat (length f) @ CHR '':'' # (f @ r) = show_nat (length g) @ CHR '':'' # (g @ s)"
    by (simp add: encode_field_def)
  have "CHR '':'' \<notin> set (show_nat n)" for n
    by (rule show_nat_no) (simp add: is_digit_def)
  with eq have "show_nat (length f) = show_nat (length g)" "f @ r = g @ s"
    by (simp_all add: append_sep_inject)
  then show "f = g \<and> r = s" by simp
qed simp

lemma encode_field_inject [simp]: "encode_field f = encode_field g \<longleftrightarrow> f = g"
  using encode_field_append_inject [of f "[]" g "[]"] by simp

lemma join_encode_inject:
  "length fs = length gs \<Longrightarrow>
     join ''|'' (map encode_field fs) = join ''|'' (map encode_field gs) \<longleftrightarrow> fs = gs"
proof (induction fs arbitrary: gs)
  case Nil
  then show ?case by simp
next
  case (Cons f fs)
  then obtain g gs' where gs: "gs = g # gs'" "length fs = length gs'" by (cases gs) auto
  show ?case
  proof (cases fs)
    case Nil
    then show ?thesis using gs by simp
  next
    case (Cons f2 fs2)
    then obtain g2 gs2 where "gs' = g2 # gs2" using gs by (cases gs') auto
    then show ?thesis using Cons gs Cons.IH [of gs'] by simp
  qed
qed

section \<open>Normal forms of addresses\<close>

lemma NormalizeSignerAddress_idem [simp]:
  "NormalizeSignerAddress (NormalizeSignerAddress a) = NormalizeSignerAddress a"
  by (simp add: NormalizeSignerAddress_def TrimSpace_ToLower)

lemma SignerAddressFromPublicKey_normal [simp]:
  "NormalizeSignerAddress (SignerAddressFromPublicKey cr pk) = SignerAddressFromPublicKey cr pk"
proof -
  define h where "h = keccak256 cr (drop 1 (cr_SerializeUncompressed cr pk))"
  have "TrimSpace (''0x'' @ hex_EncodeToString bs) = ''0x'' @ hex_EncodeToString bs" for bs
    by (rule TrimSpace_all_graphic) (auto simp: graphic_def [of "CHR ''0''"] graphic_def [of "CHR ''x''"] hex_graphic)
  moreover have "ToLower ''0x'' = ''0x''" by (simp add: ToLower_def ascii_lower_def)
  ultimately show ?thesis
    unfolding NormalizeSignerAddress_def SignerAddressFromPublicKey_def Let_def h_def [symmetric]
    by (simp only: ToLower_append ToLower_hex)
qed

section \<open>What validation guarantees\<close>

lemma deposit_ValidateBasic_None:
  assumes "deposit_ValidateBasic c = None"
  shows "ci_Kind (dc_Identity c) = ClaimKindDeposit"
    and "ci_MessageID (dc_Identity c) = DerivedMessageID (dc_Identity c)"
    and "\<exists>v. dc_Amount c = Some v \<and> 0 < v"
    and "TrimSpace (dc_AssetID c) \<noteq> []" and "TrimSpace (dc_Recipient c) \<noteq> []"
    and "dc_Deadline c \<noteq> 0"
  using assms
  by (auto simp: deposit_ValidateBasic_def identity_ValidateBasic_def not_positive_def Let_def
      split: if_splits option.splits)

lemma check_proofs_distinct:
  "check_proofs ps seen = None \<Longrightarrow>
     distinct (map (\<lambda>p. TrimSpace (pf_Signer p)) ps)
     \<and> set (map (\<lambda>p. TrimSpace (pf_Signer p)) ps) \<inter> set seen = {}
     \<and> (\<forall>p \<in> set ps. pf_Signature p \<noteq> [] \<and> TrimSpace (pf_Signer p) \<noteq> [])"
  by (induction ps seen rule: check_proofs.induct) (auto simp: Let_def image_iff split: if_splits)

lemma attestation_ValidateBasic_None:
  assumes "attestation_ValidateBasic a = None"
  shows "validateEnvelope a = None" and "length (att_Proofs a) \<le> 128"
    and "unat (att_Threshold a) \<le> length (att_Proofs a)" and "0 < att_Threshold a"
    and "check_proofs (att_Proofs a) [] = None"
  using assms
  by (auto simp: attestation_ValidateBasic_def maxProofsPerAttestation_def validateEnvelope_def word_greater_zero_iff
      split: if_splits option.splits)

end
