(* ===== verification/Pauser.thy ===== *)
theory Pauser
  imports GoStrings
begin

text \<open>
  The pause switches of \<^verbatim>\<open>chain/aegislink/x/pauser/keeper\<close>: a set of paused flow names, keyed
  by the trimmed name. The bridge keeper asks it before every deposit and withdrawal.
\<close>

datatype pauser_error = ErrInvalidFlow | ErrFlowPaused

record PauserKeeper =
  pk_paused :: "(string, bool) gomap"

definition pauser_NewKeeper :: PauserKeeper where
  "pauser_NewKeeper = \<lparr>pk_paused = []\<rparr>"

definition flowKey :: "string \<Rightarrow> pauser_error + string" where
  "flowKey flow = (let key = TrimSpace flow in if key = '''' then Inl ErrInvalidFlow else Inr key)"

definition pauser_Pause :: "PauserKeeper \<Rightarrow> string \<Rightarrow> PauserKeeper \<times> pauser_error option" where
  "pauser_Pause k flow =
     (case flowKey flow of
        Inl e \<Rightarrow> (k, Some e)
      | Inr key \<Rightarrow> (k\<lparr>pk_paused := gomap_set key True (pk_paused k)\<rparr>, None))"

definition pauser_Unpause :: "PauserKeeper \<Rightarrow> string \<Rightarrow> PauserKeeper \<times> pauser_error option" where
  "pauser_Unpause k flow =
     (case flowKey flow of
        Inl e \<Rightarrow> (k, Some e)
      | Inr key \<Rightarrow> (k\<lparr>pk_paused := gomap_delete key (pk_paused k)\<rparr>, None))"

definition pauser_IsPaused :: "PauserKeeper \<Rightarrow> string \<Rightarrow> bool" where
  "pauser_IsPaused k flow =
     (case flowKey flow of
        Inl e \<Rightarrow> False
      | Inr key \<Rightarrow> (case gomap_get (pk_paused k) key of None \<Rightarrow> False | Some b \<Rightarrow> b))"

definition pauser_AssertNotPaused :: "PauserKeeper \<Rightarrow> string \<Rightarrow> pauser_error option" where
  "pauser_AssertNotPaused k flow = (if pauser_IsPaused k flow then Some ErrFlowPaused else None)"

definition pauser_ExportPausedFlows :: "PauserKeeper \<Rightarrow> string list" where
  "pauser_ExportPausedFlows k = sort (map fst (pk_paused k))"

text \<open>The loop of \<^verbatim>\<open>ImportPausedFlows\<close>; flows before an invalid one stay imported.\<close>

fun import_flows :: "PauserKeeper \<Rightarrow> string list \<Rightarrow> PauserKeeper \<times> pauser_error option" where
  "import_flows k [] = (k, None)"
| "import_flows k (flow # flows) =
     (case flowKey flow of
        Inl e \<Rightarrow> (k, Some e)
      | Inr key \<Rightarrow> import_flows (k\<lparr>pk_paused := gomap_set key True (pk_paused k)\<rparr>) flows)"

definition pauser_ImportPausedFlows :: "PauserKeeper \<Rightarrow> string list \<Rightarrow> PauserKeeper \<times> pauser_error option" where
  "pauser_ImportPausedFlows k flows = import_flows (k\<lparr>pk_paused := []\<rparr>) flows"

section \<open>Invariant and functional behaviour\<close>

text \<open>Keys are trimmed and non-empty, and every stored flag is set.\<close>

definition pauser_inv :: "PauserKeeper \<Rightarrow> bool" where
  "pauser_inv k \<longleftrightarrow>
     gomap_wf (pk_paused k)
     \<and> (\<forall>(f, b) \<in> set (pk_paused k). b \<and> TrimSpace f = f \<and> f \<noteq> [])"

lemma flowKey_Inr: "flowKey f = Inr key \<longleftrightarrow> key = TrimSpace f \<and> key \<noteq> []"
  by (auto simp: flowKey_def Let_def)

lemma pauser_inv_New: "pauser_inv pauser_NewKeeper"
  by (simp add: pauser_inv_def pauser_NewKeeper_def)

lemma pauser_inv_insert:
  "pauser_inv k \<Longrightarrow> TrimSpace f = f \<Longrightarrow> f \<noteq> [] \<Longrightarrow> pauser_inv (k\<lparr>pk_paused := gomap_set f True (pk_paused k)\<rparr>)"
  using set_update_subset [of f True "pk_paused k"] unfolding pauser_inv_def by fastforce

lemma pauser_inv_Pause: "pauser_inv k \<Longrightarrow> pauser_inv (fst (pauser_Pause k f))"
  by (auto simp: pauser_Pause_def flowKey_Inr pauser_inv_insert split: sum.split)

lemma pauser_inv_Unpause: "pauser_inv k \<Longrightarrow> pauser_inv (fst (pauser_Unpause k f))"
  using set_delete_subset by (fastforce simp: pauser_Unpause_def pauser_inv_def split: sum.split)

lemma import_flows_inv: "pauser_inv k \<Longrightarrow> pauser_inv (fst (import_flows k fs))"
  by (induction k fs rule: import_flows.induct)
     (auto simp: flowKey_Inr pauser_inv_insert split: sum.split)

lemma import_flows_get:
  "(\<forall>f \<in> set fs. TrimSpace f \<noteq> []) \<Longrightarrow>
     snd (import_flows k fs) = None
     \<and> map_of (pk_paused (fst (import_flows k fs))) key
       = (if key \<in> TrimSpace ` set fs then Some True else map_of (pk_paused k) key)"
  by (induction k fs rule: import_flows.induct)
     (auto simp: flowKey_def Let_def gomap_simps)

lemma IsPaused_Pause:
  "snd (pauser_Pause k f) = None \<Longrightarrow>
     pauser_IsPaused (fst (pauser_Pause k f)) g \<longleftrightarrow> TrimSpace g = TrimSpace f \<or> pauser_IsPaused k g"
  by (auto simp: pauser_Pause_def pauser_IsPaused_def flowKey_def Let_def gomap_simps
      split: option.splits if_splits)

lemma IsPaused_Unpause:
  "snd (pauser_Unpause k f) = None \<Longrightarrow>
     pauser_IsPaused (fst (pauser_Unpause k f)) g \<longleftrightarrow> TrimSpace g \<noteq> TrimSpace f \<and> pauser_IsPaused k g"
  by (auto simp: pauser_Unpause_def pauser_IsPaused_def flowKey_def Let_def gomap_simps
      split: option.splits if_splits)

section \<open>Properties\<close>

text \<open>Pausing and unpausing succeed exactly for flow names that are not blank, set or clear
  the switch of that name up to white space and of no other, and an error changes nothing.\<close>

lemma pauser_switches:
  "(case pauser_Pause k f of
     (k', None) \<Rightarrow> TrimSpace f \<noteq> [] \<and> (\<forall>g. pauser_IsPaused k' g \<longleftrightarrow> TrimSpace g = TrimSpace f \<or> pauser_IsPaused k g)
   | (k', Some e) \<Rightarrow> TrimSpace f = [] \<and> e = ErrInvalidFlow \<and> k' = k)
   \<and> (case pauser_Unpause k f of
     (k', None) \<Rightarrow> TrimSpace f \<noteq> [] \<and> (\<forall>g. pauser_IsPaused k' g \<longleftrightarrow> TrimSpace g \<noteq> TrimSpace f \<and> pauser_IsPaused k g)
   | (k', Some e) \<Rightarrow> TrimSpace f = [] \<and> e = ErrInvalidFlow \<and> k' = k)"
  using IsPaused_Pause [of k f] IsPaused_Unpause [of k f]
  by (auto simp: pauser_Pause_def pauser_Unpause_def flowKey_def Let_def)

text \<open>Importing the exported flows of a keeper in a valid state succeeds and
  pauses exactly the flows that were paused.\<close>

lemma pauser_import_exported:
  assumes "pauser_inv k"
  shows "snd (pauser_ImportPausedFlows k0 (pauser_ExportPausedFlows k)) = None
    \<and> pauser_IsPaused (fst (pauser_ImportPausedFlows k0 (pauser_ExportPausedFlows k))) f = pauser_IsPaused k f"
proof -
  let ?fs = "pauser_ExportPausedFlows k" and ?k0 = "k0\<lparr>pk_paused := []\<rparr>"
  have names: "set ?fs = fst ` set (pk_paused k)" by (simp add: pauser_ExportPausedFlows_def)
  have trimmed: "TrimSpace g = g \<and> g \<noteq> []" if "g \<in> set ?fs" for g
    using assms that unfolding names pauser_inv_def by auto
  then have img: "TrimSpace ` set ?fs = fst ` set (pk_paused k)" using names by force
  have "map_of (pk_paused k) key = (if key \<in> fst ` set (pk_paused k) then Some True else None)" for key
  proof (cases "map_of (pk_paused k) key")
    case None
    then show ?thesis by (simp add: map_of_eq_None_iff)
  next
    case (Some b)
    then have "(key, b) \<in> set (pk_paused k)" by (rule map_of_SomeD)
    with assms have "b" unfolding pauser_inv_def by blast
    with Some \<open>(key, b) \<in> set (pk_paused k)\<close> show ?thesis by force
  qed
  moreover have "snd (import_flows ?k0 ?fs) = None
      \<and> map_of (pk_paused (fst (import_flows ?k0 ?fs))) key = (if key \<in> TrimSpace ` set ?fs then Some True else None)" for key
    using import_flows_get [of ?fs ?k0 key] trimmed by simp
  ultimately show ?thesis
    unfolding pauser_ImportPausedFlows_def pauser_IsPaused_def img by (simp split: sum.split)
qed

end
