(* ===== verification/Bridge.thy ===== *)
theory Bridge
  imports BridgeTypes Pauser Registry Limits
begin

text \<open>
  The bridge keeper of \<^verbatim>\<open>chain/aegislink/x/bridge/keeper\<close>: signer sets, verification of an
  attested deposit claim, minting against a deposit, burning for a withdrawal, the accounting
  invariant with its circuit breaker, and the export and import of the keeper's state. The keeper
  holds the only copy of the registry, limits and pauser keepers it points to. It is the in-memory
  keeper (\<^verbatim>\<open>prefixStore == nil\<close>), whose \<^verbatim>\<open>persist\<close> does nothing.
\<close>

section \<open>Errors and records\<close>

datatype bridge_error =
    ErrDuplicateClaim
  | ErrInsufficientAttestationQuorum
  | ErrFinalityWindowExpired
  | ErrAttestationExpired
  | ErrMessageIDMismatch
  | ErrPayloadHashMismatch
  | ErrSignerSetVersionMismatch
  | ErrSignerSetInactive
  | ErrInvalidAttestationSignature
  | ErrUnknownAsset
  | ErrAssetDisabled
  | ErrAssetPaused string
  | ErrInsufficientSupply
  | ErrInvalidWithdrawal string
  | ErrAccountingInvariantBroken string
  | ErrBridgeCircuitOpen string
  | BridgeTypesError types_error
  | BridgeLimitsError limits_error
  | InvalidSignerSet string "string list"
  | InvalidBridgeState string string

abbreviation (input) ClaimStatusAccepted :: string where "ClaimStatusAccepted \<equiv> ''accepted''"
abbreviation (input) ClaimStatusRejected :: string where "ClaimStatusRejected \<equiv> ''rejected''"
abbreviation (input) withdrawalSourceChainID :: string where "withdrawalSourceChainID \<equiv> ''aegislink-1''"
abbreviation (input) withdrawalSourceModule :: string where "withdrawalSourceModule \<equiv> ''aegislink.bridge''"
abbreviation (input) canonicalNativeETHAddress :: string where
  "canonicalNativeETHAddress \<equiv> ''0x0000000000000000000000000000000000000000''"

record SignerSet =
  ss_Version :: u64
  ss_Signers :: "string list"
  ss_Threshold :: u32
  ss_ActivatedAt :: u64
  ss_ExpiresAt :: u64

record ClaimRecord =
  cl_MessageID :: string
  cl_SourceTxHash :: string
  cl_Denom :: string
  cl_AssetID :: string
  cl_Recipient :: string
  cl_Amount :: int
  cl_Status :: string

record WithdrawalRecord =
  wr_BlockHeight :: u64
  wr_Identity :: ClaimIdentity
  wr_AssetID :: string
  wr_AssetAddress :: string
  wr_Amount :: int
  wr_Recipient :: string
  wr_Deadline :: u64
  wr_Signature :: bytes

record ClaimResult =
  res_Status :: string
  res_MessageID :: string
  res_Denom :: string
  res_Amount :: bigint

record BridgeKeeper =
  bk_registry :: RegistryKeeper
  bk_limits :: LimitsKeeper
  bk_pauser :: PauserKeeper
  bk_signerSets :: "(u64, SignerSet) gomap"
  bk_currentHeight :: u64
  bk_processedClaims :: "(string, ClaimRecord) gomap"
  bk_rejectedClaims :: u64
  bk_supplyByDenom :: "(string, int) gomap"
  bk_withdrawals :: "WithdrawalRecord list"
  bk_circuitBreakerTripped :: bool
  bk_lastInvariantError :: string
  bk_nextWithdrawalNonce :: u64

section \<open>Signer sets\<close>

fun check_set_signers :: "string list \<Rightarrow> string list \<Rightarrow> bridge_error option" where
  "check_set_signers [] seen = None"
| "check_set_signers (s # ss) seen =
     (let signer = ToLower (TrimSpace s) in
      if signer = '''' then Some (InvalidSignerSet ''empty signer'' [])
      else if signer \<in> set seen then Some (InvalidSignerSet ''duplicate signer %q'' [signer])
      else check_set_signers ss (signer # seen))"

definition signerset_ValidateBasic :: "SignerSet \<Rightarrow> bridge_error option" where
  "signerset_ValidateBasic s =
     (if ss_Version s = 0 then Some (InvalidSignerSet ''missing signer set version'' [])
      else if ss_Signers s = [] then Some (InvalidSignerSet ''missing signers'' [])
      else if ss_Threshold s = 0 then Some (InvalidSignerSet ''missing threshold'' [])
      else if length (ss_Signers s) < unat (ss_Threshold s)
      then Some (InvalidSignerSet ''threshold exceeds signer count'' [])
      else if ss_ExpiresAt s \<noteq> 0 \<and> ss_ExpiresAt s < ss_ActivatedAt s
      then Some (InvalidSignerSet ''expiry before activation'' [])
      else check_set_signers (ss_Signers s) [])"

definition normalizeSignerSet :: "SignerSet \<Rightarrow> SignerSet" where
  "normalizeSignerSet s = s\<lparr>ss_Signers := sort (map NormalizeSignerAddress (ss_Signers s))\<rparr>"

definition bridge_UpsertSignerSet :: "BridgeKeeper \<Rightarrow> SignerSet \<Rightarrow> BridgeKeeper \<times> bridge_error option" where
  "bridge_UpsertSignerSet k s =
     (case signerset_ValidateBasic s of
        Some e \<Rightarrow> (k, Some e)
      | None \<Rightarrow> (k\<lparr>bk_signerSets := gomap_set (ss_Version s) (normalizeSignerSet s) (bk_signerSets k)\<rparr>, None))"

text \<open>The loop of \<^verbatim>\<open>ActiveSignerSet\<close> over the map, with the candidate found so far.\<close>

definition set_active_at :: "u64 \<Rightarrow> SignerSet \<Rightarrow> bool" where
  "set_active_at height s \<longleftrightarrow>
     ss_ActivatedAt s \<le> height \<and> (ss_ExpiresAt s = 0 \<or> height \<le> ss_ExpiresAt s)"

fun pick_active :: "u64 \<Rightarrow> (u64, SignerSet) gomap \<Rightarrow> SignerSet option \<Rightarrow> SignerSet option" where
  "pick_active height [] active = active"
| "pick_active height ((v, s) # sets) active =
     (if \<not> set_active_at height s then pick_active height sets active
      else case active of
        None \<Rightarrow> pick_active height sets (Some s)
      | Some a \<Rightarrow> pick_active height sets (if ss_Version a < ss_Version s then Some s else Some a))"

definition bridge_ActiveSignerSet :: "BridgeKeeper \<Rightarrow> bridge_error + SignerSet" where
  "bridge_ActiveSignerSet k =
     (case pick_active (bk_currentHeight k) (bk_signerSets k) None of
        None \<Rightarrow> Inl ErrSignerSetInactive
      | Some s \<Rightarrow> Inr s)"

definition bridge_SignerSet :: "BridgeKeeper \<Rightarrow> u64 \<Rightarrow> SignerSet option" where
  "bridge_SignerSet k version = (if version = 0 then None else gomap_get (bk_signerSets k) version)"

definition bridge_ExportSignerSets :: "BridgeKeeper \<Rightarrow> SignerSet list" where
  "bridge_ExportSignerSets k =
     sort_key ss_Version (map (\<lambda>(v, s). normalizeSignerSet s) (bk_signerSets k))"

section \<open>Verification of a deposit claim\<close>

definition verifyProof :: "('pk, 'sk) crypto \<Rightarrow> AttestationProof \<Rightarrow> bytes \<Rightarrow> bridge_error + string" where
  "verifyProof cr proof digest =
     (if pf_Signature proof = [] then Inl ErrInvalidAttestationSignature
      else case cr_RecoverCompact cr (pf_Signature proof) digest of
        None \<Rightarrow> Inl ErrInvalidAttestationSignature
      | Some publicKey \<Rightarrow>
          let recovered = SignerAddressFromPublicKey cr publicKey in
          if recovered \<noteq> NormalizeSignerAddress (pf_Signer proof) then Inl ErrInvalidAttestationSignature
          else Inr recovered)"

fun count_verified ::
    "('pk, 'sk) crypto \<Rightarrow> bytes \<Rightarrow> string list \<Rightarrow> AttestationProof list \<Rightarrow> string list \<Rightarrow> u32 \<Rightarrow> u32" where
  "count_verified cr digest allowed [] seen verified = verified"
| "count_verified cr digest allowed (p # ps) seen verified =
     (case verifyProof cr p digest of
        Inl e \<Rightarrow> count_verified cr digest allowed ps seen verified
      | Inr recovered \<Rightarrow>
          if recovered \<in> set seen then count_verified cr digest allowed ps seen verified
          else count_verified cr digest allowed ps (recovered # seen)
                 (if recovered \<in> set allowed then verified + 1 else verified))"

definition verifyDepositClaim ::
    "('pk, 'sk) crypto \<Rightarrow> BridgeKeeper \<Rightarrow> DepositClaim \<Rightarrow> Attestation \<Rightarrow> bridge_error option" where
  "verifyDepositClaim cr k claim attestation =
     (case attestation_ValidateBasic attestation of
        Some e \<Rightarrow> Some (BridgeTypesError e)
      | None \<Rightarrow>
      if ci_MessageID (dc_Identity claim) \<noteq> att_MessageID attestation then Some ErrMessageIDMismatch
      else if deposit_Digest claim \<noteq> att_PayloadHash attestation then Some ErrPayloadHashMismatch
      else if dc_Deadline claim < bk_currentHeight k then Some ErrFinalityWindowExpired
      else if att_Expiry attestation < bk_currentHeight k then Some ErrAttestationExpired
      else case bridge_ActiveSignerSet k of
        Inl e \<Rightarrow> Some e
      | Inr activeSignerSet \<Rightarrow>
      if att_SignerSetVersion attestation \<noteq> ss_Version activeSignerSet then Some ErrSignerSetVersionMismatch
      else if att_Threshold attestation < ss_Threshold activeSignerSet then Some ErrInsufficientAttestationQuorum
      else case SigningDigest cr attestation of
        Inl e \<Rightarrow> Some (BridgeTypesError e)
      | Inr digest \<Rightarrow>
          let allowed = map NormalizeSignerAddress (ss_Signers activeSignerSet) in
          if count_verified cr digest allowed (att_Proofs attestation) [] 0 < ss_Threshold activeSignerSet
          then Some ErrInsufficientAttestationQuorum
          else None)"

section \<open>Accounting\<close>

definition cloneAmount :: "bigint \<Rightarrow> int" where
  "cloneAmount amount = (case amount of None \<Rightarrow> 0 | Some v \<Rightarrow> v)"

definition bridgeDenomForAsset :: "Asset \<Rightarrow> string" where
  "bridgeDenomForAsset asset =
     (let denom = TrimSpace (as_DestinationDenom asset) in
      if denom \<noteq> '''' then denom else TrimSpace (as_Denom asset))"

definition sourceAssetAddressForWithdrawal :: "Asset \<Rightarrow> string" where
  "sourceAssetAddressForWithdrawal asset =
     (if TrimSpace (as_SourceAssetAddress asset) \<noteq> '''' then TrimSpace (as_SourceAssetAddress asset)
      else if TrimSpace (as_SourceContract asset) \<noteq> '''' then TrimSpace (as_SourceContract asset)
      else if as_SourceAssetKind asset = KindNativeETH then canonicalNativeETHAddress
      else '''')"

definition mintRepresentation :: "BridgeKeeper \<Rightarrow> string \<Rightarrow> int \<Rightarrow> BridgeKeeper" where
  "mintRepresentation k denom amount =
     (let current = (case gomap_get (bk_supplyByDenom k) denom of None \<Rightarrow> 0 | Some v \<Rightarrow> v)
      in k\<lparr>bk_supplyByDenom := gomap_set denom (current + amount) (bk_supplyByDenom k)\<rparr>)"

definition burnRepresentation :: "BridgeKeeper \<Rightarrow> string \<Rightarrow> int \<Rightarrow> BridgeKeeper \<times> bridge_error option" where
  "burnRepresentation k denom amount =
     (case gomap_get (bk_supplyByDenom k) denom of
        None \<Rightarrow> (k, Some ErrInsufficientSupply)
      | Some current \<Rightarrow>
          if current < amount then (k, Some ErrInsufficientSupply)
          else (k\<lparr>bk_supplyByDenom := gomap_set denom (current - amount) (bk_supplyByDenom k)\<rparr>, None))"

definition acceptDepositClaim ::
    "BridgeKeeper \<Rightarrow> string \<Rightarrow> DepositClaim \<Rightarrow> Asset \<Rightarrow> BridgeKeeper \<times> ClaimResult" where
  "acceptDepositClaim k claimKey claim asset =
     (let denom = bridgeDenomForAsset asset;
          k1 = mintRepresentation k denom (cloneAmount (dc_Amount claim));
          k2 = k1\<lparr>bk_processedClaims := gomap_set claimKey
                   \<lparr>cl_MessageID = ci_MessageID (dc_Identity claim),
                    cl_SourceTxHash = ci_SourceTxHash (dc_Identity claim),
                    cl_Denom = denom,
                    cl_AssetID = dc_AssetID claim,
                    cl_Recipient = dc_Recipient claim,
                    cl_Amount = cloneAmount (dc_Amount claim),
                    cl_Status = ClaimStatusAccepted\<rparr> (bk_processedClaims k1)\<rparr>
      in (k2, \<lparr>res_Status = ClaimStatusAccepted,
               res_MessageID = ci_MessageID (dc_Identity claim),
               res_Denom = denom,
               res_Amount = Some (cloneAmount (dc_Amount claim))\<rparr>))"

definition cloneWithdrawalRecord :: "WithdrawalRecord \<Rightarrow> WithdrawalRecord" where
  "cloneWithdrawalRecord r =
     \<lparr>wr_BlockHeight = wr_BlockHeight r, wr_Identity = wr_Identity r, wr_AssetID = wr_AssetID r,
      wr_AssetAddress = wr_AssetAddress r, wr_Amount = wr_Amount r, wr_Recipient = wr_Recipient r,
      wr_Deadline = wr_Deadline r, wr_Signature = wr_Signature r\<rparr>"

section \<open>The accounting invariant and the circuit breaker\<close>

text \<open>The text of an accounting error, as \<^verbatim>\<open>Error()\<close> renders it.\<close>

definition accounting_error_text :: "string \<Rightarrow> string" where
  "accounting_error_text detail = ''bridge accounting invariant failed: '' @ detail"

definition tripCircuit :: "BridgeKeeper \<Rightarrow> string \<Rightarrow> BridgeKeeper \<times> bridge_error option" where
  "tripCircuit k detail =
     (k\<lparr>bk_circuitBreakerTripped := True, bk_lastInvariantError := accounting_error_text detail\<rparr>,
      Some (ErrAccountingInvariantBroken detail))"

text \<open>The four loops of \<^verbatim>\<open>CheckAccountingInvariant\<close>: accepted claims add to the expected supply,
  withdrawals subtract, every supply entry must match, and nothing but zero may remain.\<close>

definition expected_get :: "(string, int) gomap \<Rightarrow> string \<Rightarrow> int" where
  "expected_get m d = (case gomap_get m d of None \<Rightarrow> 0 | Some v \<Rightarrow> v)"

fun expect_claims :: "(string, int) gomap \<Rightarrow> (string, ClaimRecord) gomap \<Rightarrow> (string, int) gomap" where
  "expect_claims expected [] = expected"
| "expect_claims expected ((key, c) # cs) =
     (if cl_Status c \<noteq> ClaimStatusAccepted then expect_claims expected cs
      else expect_claims (gomap_set (cl_Denom c) (expected_get expected (cl_Denom c) + cl_Amount c) expected) cs)"

fun expect_withdrawals ::
    "RegistryKeeper \<Rightarrow> (string, int) gomap \<Rightarrow> WithdrawalRecord list \<Rightarrow> string + (string, int) gomap" where
  "expect_withdrawals reg expected [] = Inr expected"
| "expect_withdrawals reg expected (w # ws) =
     (case registry_GetAsset reg (wr_AssetID w) of
        None \<Rightarrow> Inl (''missing asset metadata for withdrawal asset '' @ wr_AssetID w)
      | Some asset \<Rightarrow>
          let denom = bridgeDenomForAsset asset;
              rest = expected_get expected denom - wr_Amount w
          in if rest < 0
             then Inl (''negative expected supply for asset '' @ wr_AssetID w @ '' denom '' @ denom)
             else expect_withdrawals reg (gomap_set denom rest expected) ws)"

fun compare_supply :: "(string, int) gomap \<Rightarrow> (string, int) gomap \<Rightarrow> string + (string, int) gomap" where
  "compare_supply expected [] = Inr expected"
| "compare_supply expected ((denom, actual) # supply) =
     (let want = expected_get expected denom in
      if actual \<noteq> want
      then Inl (''denom '' @ denom @ '' supply mismatch want='' @ show_int want @ '' got='' @ show_int actual)
      else compare_supply (gomap_delete denom expected) supply)"

fun check_remaining :: "(string, int) gomap \<Rightarrow> string option" where
  "check_remaining [] = None"
| "check_remaining ((denom, remaining) # rest) =
     (if remaining = 0 then check_remaining rest
      else Some (''denom '' @ denom @ '' missing supply entry want='' @ show_int remaining))"

definition accounting_failure :: "BridgeKeeper \<Rightarrow> string option" where
  "accounting_failure k =
     (case expect_withdrawals (bk_registry k) (expect_claims [] (bk_processedClaims k)) (bk_withdrawals k) of
        Inl detail \<Rightarrow> Some detail
      | Inr expected \<Rightarrow>
          case compare_supply expected (bk_supplyByDenom k) of
            Inl detail \<Rightarrow> Some detail
          | Inr rest \<Rightarrow> check_remaining rest)"

definition bridge_CheckAccountingInvariant :: "BridgeKeeper \<Rightarrow> BridgeKeeper \<times> bridge_error option" where
  "bridge_CheckAccountingInvariant k =
     (case accounting_failure k of
        None \<Rightarrow> (k, None)
      | Some detail \<Rightarrow> tripCircuit k detail)"

definition ensureCircuitHealthy :: "BridgeKeeper \<Rightarrow> bridge_error option" where
  "ensureCircuitHealthy k =
     (if bk_circuitBreakerTripped k then Some (ErrBridgeCircuitOpen (bk_lastInvariantError k)) else None)"

section \<open>The keeper's operations\<close>

definition bridge_NewKeeper ::
    "RegistryKeeper \<Rightarrow> LimitsKeeper \<Rightarrow> PauserKeeper \<Rightarrow> string list \<Rightarrow> u32 \<Rightarrow> BridgeKeeper" where
  "bridge_NewKeeper registry limits pauser allowedSigners requiredThreshold =
     (let threshold = (if requiredThreshold = 0 then 1 else requiredThreshold) in
      \<lparr>bk_registry = registry, bk_limits = limits, bk_pauser = pauser,
       bk_signerSets = [(1, normalizeSignerSet \<lparr>ss_Version = 1, ss_Signers = allowedSigners,
                              ss_Threshold = threshold, ss_ActivatedAt = 0, ss_ExpiresAt = 0\<rparr>)],
       bk_currentHeight = 0, bk_processedClaims = [], bk_rejectedClaims = 0, bk_supplyByDenom = [],
       bk_withdrawals = [], bk_circuitBreakerTripped = False, bk_lastInvariantError = '''',
       bk_nextWithdrawalNonce = 1\<rparr>)"

definition bridge_SetCurrentHeight :: "BridgeKeeper \<Rightarrow> u64 \<Rightarrow> BridgeKeeper" where
  "bridge_SetCurrentHeight k height = k\<lparr>bk_currentHeight := height\<rparr>"

text \<open>Every early return of \<^verbatim>\<open>ExecuteDepositClaim\<close> counts a rejected claim.\<close>

definition reject_claim ::
    "BridgeKeeper \<Rightarrow> string \<Rightarrow> bridge_error \<Rightarrow> BridgeKeeper \<times> ClaimResult \<times> bridge_error option" where
  "reject_claim k messageID err =
     (k\<lparr>bk_rejectedClaims := bk_rejectedClaims k + 1\<rparr>,
      \<lparr>res_Status = ClaimStatusRejected, res_MessageID = messageID, res_Denom = '''', res_Amount = None\<rparr>,
      Some err)"

definition bridge_ExecuteDepositClaim ::
    "('pk, 'sk) crypto \<Rightarrow> BridgeKeeper \<Rightarrow> DepositClaim \<Rightarrow> Attestation
     \<Rightarrow> BridgeKeeper \<times> ClaimResult \<times> bridge_error option" where
  "bridge_ExecuteDepositClaim cr k claim attestation =
     (let messageID = ci_MessageID (dc_Identity claim) in
      case ensureCircuitHealthy k of
        Some err \<Rightarrow> reject_claim k messageID err
      | None \<Rightarrow>
      case deposit_ValidateBasic claim of
        Some err \<Rightarrow> reject_claim k '''' (BridgeTypesError err)
      | None \<Rightarrow>
      let claimKey = identity_ReplayKey (dc_Identity claim) in
      if gomap_get (bk_processedClaims k) claimKey \<noteq> None then reject_claim k messageID ErrDuplicateClaim
      else case verifyDepositClaim cr k claim attestation of
        Some err \<Rightarrow> reject_claim k messageID err
      | None \<Rightarrow>
      case registry_GetAsset (bk_registry k) (dc_AssetID claim) of
        None \<Rightarrow> reject_claim k messageID ErrUnknownAsset
      | Some asset \<Rightarrow>
      if \<not> as_Enabled asset then reject_claim k messageID ErrAssetDisabled
      else if pauser_AssertNotPaused (bk_pauser k) (dc_AssetID claim) \<noteq> None
      then reject_claim k messageID (ErrAssetPaused (dc_AssetID claim))
      else case limits_CheckTransferAtHeight (bk_limits k) (dc_AssetID claim) (dc_Amount claim) (bk_currentHeight k) of
        Some err \<Rightarrow> reject_claim k messageID (BridgeLimitsError err)
      | None \<Rightarrow>
      case limits_RecordTransferAtHeight (bk_limits k) (dc_AssetID claim) (dc_Amount claim) (bk_currentHeight k) of
        (limits', Some err) \<Rightarrow> reject_claim (k\<lparr>bk_limits := limits'\<rparr>) messageID (BridgeLimitsError err)
      | (limits', None) \<Rightarrow>
      case acceptDepositClaim (k\<lparr>bk_limits := limits'\<rparr>) claimKey claim asset of
        (k1, result) \<Rightarrow>
      case bridge_CheckAccountingInvariant k1 of
        (k2, Some err) \<Rightarrow> reject_claim k2 messageID err
      | (k2, None) \<Rightarrow> (k2, result, None))"

definition isZeroHexAddress :: "string \<Rightarrow> bool" where
  "isZeroHexAddress value =
     (let trimmed = TrimSpace value in
      if trimmed = '''' then False else EqualFold trimmed canonicalNativeETHAddress)"

definition withdrawal_preimage :: "u64 \<Rightarrow> u64 \<Rightarrow> string \<Rightarrow> string \<Rightarrow> int \<Rightarrow> string" where
  "withdrawal_preimage height nonce assetID recipient amount =
     show_u64 height @ '':'' @ show_u64 nonce @ '':'' @ assetID @ '':'' @ TrimSpace recipient @ '':'' @ show_int amount"

definition newWithdrawalRecord ::
    "BridgeKeeper \<Rightarrow> string \<Rightarrow> string \<Rightarrow> int \<Rightarrow> string \<Rightarrow> u64 \<Rightarrow> bytes \<Rightarrow> BridgeKeeper \<times> WithdrawalRecord" where
  "newWithdrawalRecord k assetID assetAddress amount recipient deadline signature =
     (let nonce = bk_nextWithdrawalNonce k;
          k1 = k\<lparr>bk_nextWithdrawalNonce := nonce + 1\<rparr>;
          txHash = ''0x'' @ hex_EncodeToString (Sum256
                     (withdrawal_preimage (bk_currentHeight k) nonce assetID recipient amount));
          identity0 = \<lparr>ci_Kind = ClaimKindWithdrawal, ci_SourceAssetKind = '''',
                       ci_SourceChainID = withdrawalSourceChainID, ci_SourceContract = withdrawalSourceModule,
                       ci_SourceTxHash = txHash, ci_SourceLogIndex = 0, ci_Nonce = nonce, ci_MessageID = ''''\<rparr>;
          identity = identity0\<lparr>ci_MessageID := DerivedMessageID identity0\<rparr>
      in (k1, \<lparr>wr_BlockHeight = bk_currentHeight k, wr_Identity = identity, wr_AssetID = TrimSpace assetID,
               wr_AssetAddress = TrimSpace assetAddress, wr_Amount = amount, wr_Recipient = TrimSpace recipient,
               wr_Deadline = deadline, wr_Signature = signature\<rparr>))"

definition bridge_ExecuteWithdrawal ::
    "BridgeKeeper \<Rightarrow> string \<Rightarrow> bigint \<Rightarrow> string \<Rightarrow> u64 \<Rightarrow> bytes
     \<Rightarrow> BridgeKeeper \<times> (bridge_error + WithdrawalRecord)" where
  "bridge_ExecuteWithdrawal k assetID amount recipient deadline signature =
     (case ensureCircuitHealthy k of
        Some err \<Rightarrow> (k, Inl err)
      | None \<Rightarrow>
      if not_positive amount then (k, Inl (ErrInvalidWithdrawal ''amount must be positive''))
      else if TrimSpace assetID = '''' then (k, Inl (ErrInvalidWithdrawal ''missing asset id''))
      else if TrimSpace recipient = '''' \<or> isZeroHexAddress recipient
      then (k, Inl (ErrInvalidWithdrawal ''invalid recipient''))
      else if deadline = 0 then (k, Inl (ErrInvalidWithdrawal ''missing deadline''))
      else if signature = [] then (k, Inl (ErrInvalidWithdrawal ''missing signature''))
      else case registry_GetAsset (bk_registry k) assetID of
        None \<Rightarrow> (k, Inl ErrUnknownAsset)
      | Some asset \<Rightarrow>
      if \<not> as_Enabled asset then (k, Inl ErrAssetDisabled)
      else if pauser_AssertNotPaused (bk_pauser k) assetID \<noteq> None then (k, Inl (ErrAssetPaused assetID))
      else case limits_CheckTransferAtHeight (bk_limits k) assetID amount (bk_currentHeight k) of
        Some err \<Rightarrow> (k, Inl (BridgeLimitsError err))
      | None \<Rightarrow>
      case limits_RecordTransferAtHeight (bk_limits k) assetID amount (bk_currentHeight k) of
        (limits', Some err) \<Rightarrow> (k\<lparr>bk_limits := limits'\<rparr>, Inl (BridgeLimitsError err))
      | (limits', None) \<Rightarrow>
      let k1 = k\<lparr>bk_limits := limits'\<rparr>;
          denom = bridgeDenomForAsset asset;
          value = cloneAmount amount
      in if (case gomap_get (bk_supplyByDenom k1) denom of None \<Rightarrow> True | Some currentSupply \<Rightarrow> currentSupply < value)
         then (k1, Inl ErrInsufficientSupply)
         else case newWithdrawalRecord k1 assetID (sourceAssetAddressForWithdrawal asset) value recipient deadline signature of
           (k2, rec) \<Rightarrow>
         case burnRepresentation k2 denom value of
           (k3, Some err) \<Rightarrow> (k3, Inl err)
         | (k3, None) \<Rightarrow>
         case bridge_CheckAccountingInvariant (k3\<lparr>bk_withdrawals := bk_withdrawals k3 @ [rec]\<rparr>) of
           (k4, Some err) \<Rightarrow> (k4, Inl err)
         | (k4, None) \<Rightarrow> (k4, Inr (cloneWithdrawalRecord rec)))"

definition bridge_SupplyForDenom :: "BridgeKeeper \<Rightarrow> string \<Rightarrow> int" where
  "bridge_SupplyForDenom k denom = (case gomap_get (bk_supplyByDenom k) denom of None \<Rightarrow> 0 | Some v \<Rightarrow> v)"

definition bridge_Withdrawals :: "BridgeKeeper \<Rightarrow> u64 \<Rightarrow> u64 \<Rightarrow> WithdrawalRecord list" where
  "bridge_Withdrawals k fromHeight toHeight =
     (if toHeight < fromHeight then []
      else map cloneWithdrawalRecord
        (filter (\<lambda>w. \<not> (wr_BlockHeight w < fromHeight \<or> toHeight < wr_BlockHeight w)) (bk_withdrawals k)))"

end
