(* ===== verification/BridgeAccounting.thy ===== *)
theory BridgeAccounting
  imports Bridge Interfaces
begin

text \<open>
  What the accounting check of the bridge decides, and that no operation of the keeper ever makes it
  fail: the check is equivalent to a statement about sums over claims and withdrawals, and that
  statement is part of an invariant that holds from the new keeper on.
\<close>

section \<open>The check, declaratively\<close>

definition claims_sum :: "(string, ClaimRecord) gomap \<Rightarrow> string \<Rightarrow> int" where
  "claims_sum cs d =
     gomap_sum (\<lambda>key c. if cl_Status c = ClaimStatusAccepted \<and> cl_Denom c = d then cl_Amount c else 0) cs"

definition withdrawal_denom :: "RegistryKeeper \<Rightarrow> WithdrawalRecord \<Rightarrow> string option" where
  "withdrawal_denom reg w = map_option bridgeDenomForAsset (registry_GetAsset reg (wr_AssetID w))"

definition withdrawn_sum :: "RegistryKeeper \<Rightarrow> WithdrawalRecord list \<Rightarrow> string \<Rightarrow> int" where
  "withdrawn_sum reg ws d = (\<Sum>w \<leftarrow> ws. if withdrawal_denom reg w = Some d then wr_Amount w else 0)"

definition accounting_holds :: "BridgeKeeper \<Rightarrow> bool" where
  "accounting_holds k \<longleftrightarrow>
     (\<forall>w \<in> set (bk_withdrawals k).
        \<exists>d. withdrawal_denom (bk_registry k) w = Some d
            \<and> withdrawn_sum (bk_registry k) (bk_withdrawals k) d \<le> claims_sum (bk_processedClaims k) d)
     \<and> (\<forall>d. bridge_SupplyForDenom k d
            = claims_sum (bk_processedClaims k) d - withdrawn_sum (bk_registry k) (bk_withdrawals k) d)"

lemma withdrawn_sum_simps [simp]:
  "withdrawn_sum reg [] d = 0"
  "withdrawn_sum reg (w # ws) d = (if withdrawal_denom reg w = Some d then wr_Amount w else 0) + withdrawn_sum reg ws d"
  "withdrawn_sum reg (ws @ vs) d = withdrawn_sum reg ws d + withdrawn_sum reg vs d"
  by (simp_all add: withdrawn_sum_def)

lemma withdrawn_sum_nonneg: "\<forall>w \<in> set ws. 0 \<le> wr_Amount w \<Longrightarrow> 0 \<le> withdrawn_sum reg ws d"
  by (induction ws) auto

lemma expected_get_set [simp]: "expected_get (gomap_set e v m) d = (if d = e then v else expected_get m d)"
  by (simp add: expected_get_def gomap_simps)

lemma expected_get_Nil [simp]: "expected_get [] d = 0"
  by (simp add: expected_get_def)

lemma expect_claims_get: "expected_get (expect_claims m cs) d = expected_get m d + claims_sum cs d"
  by (induction m cs rule: expect_claims.induct) (auto simp: claims_sum_def)

lemma expect_claims_wf: "gomap_wf m \<Longrightarrow> gomap_wf (expect_claims m cs)"
  by (induction m cs rule: expect_claims.induct) auto

text \<open>Amounts of withdrawals are not negative, so the running check is a check of the sum.\<close>

lemma expect_withdrawals_get:
  "expect_withdrawals reg m ws = Inr m' \<Longrightarrow> expected_get m' d = expected_get m d - withdrawn_sum reg ws d"
  by (induction reg m ws rule: expect_withdrawals.induct)
     (auto simp: Let_def withdrawal_denom_def split: option.splits if_splits)

lemma expect_withdrawals_wf: "gomap_wf m \<Longrightarrow> expect_withdrawals reg m ws = Inr m' \<Longrightarrow> gomap_wf m'"
  by (induction reg m ws rule: expect_withdrawals.induct) (auto simp: Let_def split: option.splits if_splits)

definition covered :: "RegistryKeeper \<Rightarrow> (string, int) gomap \<Rightarrow> WithdrawalRecord list \<Rightarrow> WithdrawalRecord \<Rightarrow> bool" where
  "covered reg m ws w \<longleftrightarrow> (\<exists>d. withdrawal_denom reg w = Some d \<and> withdrawn_sum reg ws d \<le> expected_get m d)"

lemma withdrawn_sum_zero:
  "\<forall>v \<in> set ws. withdrawal_denom reg v \<noteq> Some e \<Longrightarrow> withdrawn_sum reg ws e = 0"
  by (induction ws) auto

lemma expect_withdrawals_Inr:
  "\<forall>w \<in> set ws. 0 \<le> wr_Amount w \<Longrightarrow>
     isl (expect_withdrawals reg m ws) \<longleftrightarrow> \<not> (\<forall>w \<in> set ws. covered reg m ws w)"
proof (induction ws arbitrary: m)
  case (Cons w ws)
  show ?case
  proof (cases "registry_GetAsset reg (wr_AssetID w)")
    case None
    then show ?thesis by (simp add: withdrawal_denom_def covered_def)
  next
    case (Some a)
    define e where "e = bridgeDenomForAsset a"
    have wd: "withdrawal_denom reg w = Some e" using Some by (simp add: withdrawal_denom_def e_def)
    let ?m1 = "gomap_set e (expected_get m e - wr_Amount w) m"
    have nn: "0 \<le> withdrawn_sum reg ws e" using Cons.prems by (simp add: withdrawn_sum_nonneg)
    have head: "covered reg m (w # ws) w \<longleftrightarrow> wr_Amount w + withdrawn_sum reg ws e \<le> expected_get m e"
      by (simp add: covered_def wd)
    show ?thesis
    proof (cases "expected_get m e - wr_Amount w < 0")
      case True
      then show ?thesis using Some head nn by (simp add: e_def [symmetric])
    next
      case False
      then have pos: "wr_Amount w \<le> expected_get m e" by simp
      have same: "covered reg ?m1 ws v \<longleftrightarrow> covered reg m (w # ws) v" for v
      proof -
        have "withdrawn_sum reg ws d \<le> expected_get ?m1 d \<longleftrightarrow> withdrawn_sum reg (w # ws) d \<le> expected_get m d" for d
          by (cases "d = e") (simp_all add: wd, arith)
        then show ?thesis unfolding covered_def by simp
      qed
      have "covered reg m (w # ws) w" if all: "\<forall>v \<in> set ws. covered reg ?m1 ws v"
      proof (cases "\<exists>v \<in> set ws. withdrawal_denom reg v = Some e")
        case True
        then obtain v where v: "v \<in> set ws" "withdrawal_denom reg v = Some e" by blast
        with all have "covered reg ?m1 ws v" by blast
        with v show ?thesis unfolding head by (simp add: covered_def)
      next
        case False
        then show ?thesis unfolding head using pos withdrawn_sum_zero [of ws reg e] by simp
      qed
      with Cons.IH [of ?m1] Cons.prems same have "isl (expect_withdrawals reg ?m1 ws) \<longleftrightarrow>
          \<not> (\<forall>v \<in> set (w # ws). covered reg m (w # ws) v)" by auto
      then show ?thesis using Some False by (simp add: e_def [symmetric] Let_def)
    qed
  qed
qed simp

lemma expected_get_delete: "expected_get (gomap_delete e m) d = (if d = e then 0 else expected_get m d)"
  by (simp add: expected_get_def gomap_simps)

lemma compare_supply_get:
  "compare_supply m entries = Inr m' \<Longrightarrow> map_of m' d = (if d \<in> fst ` set entries then None else map_of m d)"
  by (induction m entries rule: compare_supply.induct) (auto simp: Let_def gomap_simps split: if_splits)

lemma compare_supply_wf: "gomap_wf m \<Longrightarrow> compare_supply m entries = Inr m' \<Longrightarrow> gomap_wf m'"
  by (induction m entries rule: compare_supply.induct) (auto simp: Let_def split: if_splits)

lemma compare_supply_Inr:
  "gomap_wf entries \<Longrightarrow> isl (compare_supply m entries) \<longleftrightarrow> \<not> (\<forall>(d, v) \<in> set entries. v = expected_get m d)"
proof (induction m entries rule: compare_supply.induct)
  case (2 m e actual entries)
  have fresh: "e \<notin> fst ` set entries" using "2.prems" by (simp add: map_of_eq_None_iff)
  have "(\<forall>(d, v) \<in> set entries. v = expected_get (gomap_delete e m) d) \<longleftrightarrow> (\<forall>(d, v) \<in> set entries. v = expected_get m d)"
    using fresh by (intro ball_cong) (auto simp: expected_get_delete image_iff)
  with 2 show ?case by (auto simp: Let_def)
qed simp

lemma check_remaining_None: "check_remaining m = None \<longleftrightarrow> (\<forall>(d, v) \<in> set m. v = 0)"
  by (induction m rule: check_remaining.induct) auto

lemma compare_remaining:
  assumes "gomap_wf entries" "gomap_wf m"
  shows "(case compare_supply m entries of Inl e \<Rightarrow> Some e | Inr rest \<Rightarrow> check_remaining rest) = None
     \<longleftrightarrow> (\<forall>d. expected_get entries d = expected_get m d)"
proof (cases "compare_supply m entries")
  case (Inl e)
  then have "\<not> (\<forall>(d, v) \<in> set entries. v = expected_get m d)"
    using compare_supply_Inr [OF assms(1), of m] by simp
  then obtain d v where dv: "(d, v) \<in> set entries" "v \<noteq> expected_get m d" by auto
  then have "expected_get entries d = v"
    using assms(1) by (simp add: expected_get_def gomap_wf_def map_of_is_SomeI)
  with dv Inl show ?thesis by auto
next
  case (Inr m')
  then have match: "\<forall>(d, v) \<in> set entries. v = expected_get m d"
    using compare_supply_Inr [OF assms(1), of m] by simp
  note rest = compare_supply_get [OF Inr]
  have in_supply: "expected_get entries d = expected_get m d" if "d \<in> fst ` set entries" for d
    using that match assms(1) by (auto simp: expected_get_def gomap_wf_def map_of_is_SomeI)
  have out: "expected_get entries d = 0" if "d \<notin> fst ` set entries" for d
    using that map_of_eq_None_iff [of entries d] by (simp add: expected_get_def)
  have wf: "gomap_wf m'" by (rule compare_supply_wf [OF assms(2) Inr])
  have "check_remaining m' = None \<longleftrightarrow> (\<forall>d. expected_get m' d = 0)"
    unfolding check_remaining_None using wf
    by (auto simp: expected_get_def gomap_wf_def map_of_is_SomeI split: option.splits dest: map_of_SomeD)
  also have "\<dots> \<longleftrightarrow> (\<forall>d. d \<notin> fst ` set entries \<longrightarrow> expected_get m d = 0)"
    using rest by (simp add: expected_get_def)
  also have "\<dots> \<longleftrightarrow> (\<forall>d. expected_get entries d = expected_get m d)"
    using in_supply out by metis
  finally show ?thesis using Inr by simp
qed

lemma accounting_failure_None:
  assumes "gomap_wf (bk_supplyByDenom k)" "\<forall>w \<in> set (bk_withdrawals k). 0 \<le> wr_Amount w"
  shows "accounting_failure k = None \<longleftrightarrow> accounting_holds k"
proof -
  let ?m = "expect_claims [] (bk_processedClaims k)" and ?r = "bk_registry k" and ?ws = "bk_withdrawals k"
  have wf: "gomap_wf ?m" by (simp add: expect_claims_wf)
  have get: "expected_get ?m d = claims_sum (bk_processedClaims k) d" for d by (simp add: expect_claims_get)
  have cov: "(\<forall>w \<in> set ?ws. covered ?r ?m ?ws w) \<longleftrightarrow>
      (\<forall>w \<in> set ?ws. \<exists>d. withdrawal_denom ?r w = Some d \<and> withdrawn_sum ?r ?ws d \<le> claims_sum (bk_processedClaims k) d)"
    by (simp add: covered_def get)
  note ew = expect_withdrawals_Inr [OF assms(2), of ?r ?m, unfolded cov]
  show ?thesis
  proof (cases "expect_withdrawals ?r ?m ?ws")
    case (Inl e)
    then show ?thesis using ew by (simp add: accounting_failure_def accounting_holds_def)
  next
    case (Inr m')
    have "accounting_failure k = None \<longleftrightarrow> (\<forall>d. expected_get (bk_supplyByDenom k) d = expected_get m' d)"
      using Inr compare_remaining [OF assms(1) expect_withdrawals_wf [OF wf Inr]]
      by (simp add: accounting_failure_def)
    also have "\<dots> \<longleftrightarrow> accounting_holds k"
      using ew Inr expect_withdrawals_get [OF Inr]
      by (simp add: accounting_holds_def get expected_get_def [of "bk_supplyByDenom k"] bridge_SupplyForDenom_def)
    finally show ?thesis .
  qed
qed

section \<open>The invariant of the keeper\<close>

definition claim_record_ok :: "ClaimRecord \<Rightarrow> bool" where
  "claim_record_ok c \<longleftrightarrow> cl_Status c = ClaimStatusAccepted \<and> 0 < cl_Amount c"

definition ledger_ok :: "BridgeKeeper \<Rightarrow> bool" where
  "ledger_ok k \<longleftrightarrow>
     gomap_wf (bk_processedClaims k) \<and> gomap_wf (bk_supplyByDenom k)
     \<and> (\<forall>(key, c) \<in> set (bk_processedClaims k). claim_record_ok c)
     \<and> (\<forall>w \<in> set (bk_withdrawals k). 0 < wr_Amount w \<and> registry_GetAsset (bk_registry k) (wr_AssetID w) \<noteq> None)
     \<and> (\<forall>d. withdrawn_sum (bk_registry k) (bk_withdrawals k) d \<le> claims_sum (bk_processedClaims k) d)
     \<and> (\<forall>d. bridge_SupplyForDenom k d
            = claims_sum (bk_processedClaims k) d - withdrawn_sum (bk_registry k) (bk_withdrawals k) d)"

definition bridge_inv :: "BridgeKeeper \<Rightarrow> bool" where
  "bridge_inv k \<longleftrightarrow>
     registry_inv (bk_registry k) \<and> limits_inv (bk_limits k) \<and> pauser_inv (bk_pauser k)
     \<and> ledger_ok k \<and> \<not> bk_circuitBreakerTripped k"

lemma ledger_ok_accounting: "ledger_ok k \<Longrightarrow> accounting_holds k"
  unfolding ledger_ok_def accounting_holds_def withdrawal_denom_def by auto

lemma ledger_ok_nonneg: "ledger_ok k \<Longrightarrow> 0 \<le> bridge_SupplyForDenom k d"
  unfolding ledger_ok_def by (metis diff_ge_0_iff_ge)

lemma ledger_ok_no_failure: "ledger_ok k \<Longrightarrow> accounting_failure k = None"
  by (subst accounting_failure_None) (auto simp: ledger_ok_accounting ledger_ok_def less_imp_le)

lemma ledger_ok_check: "ledger_ok k \<Longrightarrow> bridge_CheckAccountingInvariant k = (k, None)"
  by (simp add: bridge_CheckAccountingInvariant_def ledger_ok_no_failure)

lemma ledger_ok_cong:
  assumes "bk_registry k' = bk_registry k" "bk_processedClaims k' = bk_processedClaims k"
    "bk_supplyByDenom k' = bk_supplyByDenom k" "bk_withdrawals k' = bk_withdrawals k"
  shows "ledger_ok k' \<longleftrightarrow> ledger_ok k"
  by (simp add: ledger_ok_def bridge_SupplyForDenom_def assms)

lemma SupplyForDenom_set [simp]:
  "bridge_SupplyForDenom (k\<lparr>bk_supplyByDenom := gomap_set e v m\<rparr>) d
     = (if d = e then v else bridge_SupplyForDenom (k\<lparr>bk_supplyByDenom := m\<rparr>) d)"
  by (simp add: bridge_SupplyForDenom_def gomap_simps)

lemma SupplyForDenom_get: "(case map_of (bk_supplyByDenom k) d of None \<Rightarrow> 0 | Some v \<Rightarrow> v) = bridge_SupplyForDenom k d"
  by (simp add: bridge_SupplyForDenom_def)

lemma claims_sum_set:
  "map_of cs key = None \<Longrightarrow> cl_Status c = ClaimStatusAccepted \<Longrightarrow>
     claims_sum (gomap_set key c cs) d = claims_sum cs d + (if cl_Denom c = d then cl_Amount c else 0)"
  by (simp add: claims_sum_def)

lemma claim_records_set:
  "\<forall>(key, c) \<in> set cs. claim_record_ok c \<Longrightarrow> claim_record_ok c' \<Longrightarrow>
     \<forall>(key, c) \<in> set (gomap_set key' c' cs). claim_record_ok c"
  using set_update_subset [of key' c' cs] by fastforce

lemma accept_simps [simp]:
  "bk_registry (fst (acceptDepositClaim k key claim asset)) = bk_registry k"
  "bk_withdrawals (fst (acceptDepositClaim k key claim asset)) = bk_withdrawals k"
  "bk_processedClaims (fst (acceptDepositClaim k key claim asset)) =
     gomap_set key \<lparr>cl_MessageID = ci_MessageID (dc_Identity claim), cl_SourceTxHash = ci_SourceTxHash (dc_Identity claim),
        cl_Denom = bridgeDenomForAsset asset, cl_AssetID = dc_AssetID claim, cl_Recipient = dc_Recipient claim,
        cl_Amount = cloneAmount (dc_Amount claim), cl_Status = ClaimStatusAccepted\<rparr> (bk_processedClaims k)"
  "bk_supplyByDenom (fst (acceptDepositClaim k key claim asset)) =
     gomap_set (bridgeDenomForAsset asset)
       (bridge_SupplyForDenom k (bridgeDenomForAsset asset) + cloneAmount (dc_Amount claim)) (bk_supplyByDenom k)"
  by (simp_all add: acceptDepositClaim_def mintRepresentation_def Let_def bridge_SupplyForDenom_def)

lemma accept_supply:
  "bridge_SupplyForDenom (fst (acceptDepositClaim k key claim asset)) d
     = bridge_SupplyForDenom k d + (if d = bridgeDenomForAsset asset then cloneAmount (dc_Amount claim) else 0)"
  by (simp add: bridge_SupplyForDenom_def [of "fst x" for x] gomap_simps) (simp add: bridge_SupplyForDenom_def)

lemma ledger_ok_accept:
  assumes "ledger_ok k" "map_of (bk_processedClaims k) key = None" "dc_Amount claim = Some v" "0 < v"
  shows "ledger_ok (fst (acceptDepositClaim k key claim asset))"
  unfolding ledger_ok_def
proof (intro conjI allI)
  have amt: "cloneAmount (dc_Amount claim) = v" using assms by (simp add: cloneAmount_def)
  show "gomap_wf (bk_processedClaims (fst (acceptDepositClaim k key claim asset)))"
    "gomap_wf (bk_supplyByDenom (fst (acceptDepositClaim k key claim asset)))"
    using assms by (auto simp: ledger_ok_def)
  show "\<forall>(key, c) \<in> set (bk_processedClaims (fst (acceptDepositClaim k key claim asset))). claim_record_ok c"
    unfolding accept_simps by (rule claim_records_set) (use assms amt in \<open>simp_all add: ledger_ok_def claim_record_ok_def\<close>)
  show "\<forall>w \<in> set (bk_withdrawals (fst (acceptDepositClaim k key claim asset))).
      0 < wr_Amount w \<and> registry_GetAsset (bk_registry (fst (acceptDepositClaim k key claim asset))) (wr_AssetID w) \<noteq> None"
    using assms by (simp add: ledger_ok_def)
  fix d
  have "withdrawn_sum (bk_registry k) (bk_withdrawals k) d \<le> claims_sum (bk_processedClaims k) d"
    using assms(1) by (simp add: ledger_ok_def)
  then show "withdrawn_sum (bk_registry (fst (acceptDepositClaim k key claim asset)))
        (bk_withdrawals (fst (acceptDepositClaim k key claim asset))) d
      \<le> claims_sum (bk_processedClaims (fst (acceptDepositClaim k key claim asset))) d"
    using assms(2,4) amt by (simp add: claims_sum_set)
  have "bridge_SupplyForDenom k d = claims_sum (bk_processedClaims k) d - withdrawn_sum (bk_registry k) (bk_withdrawals k) d"
    using assms(1) by (simp add: ledger_ok_def)
  then show "bridge_SupplyForDenom (fst (acceptDepositClaim k key claim asset)) d =
      claims_sum (bk_processedClaims (fst (acceptDepositClaim k key claim asset))) d
      - withdrawn_sum (bk_registry (fst (acceptDepositClaim k key claim asset)))
          (bk_withdrawals (fst (acceptDepositClaim k key claim asset))) d"
    using assms(2) by (simp add: accept_supply claims_sum_set)
qed

lemma ledger_ok_withdraw:
  assumes "ledger_ok k" "registry_GetAsset (bk_registry k) (wr_AssetID w) = Some asset"
    "0 < wr_Amount w" "wr_Amount w \<le> bridge_SupplyForDenom k (bridgeDenomForAsset asset)"
    "bk_registry k' = bk_registry k" "bk_processedClaims k' = bk_processedClaims k"
    "bk_withdrawals k' = bk_withdrawals k @ [w]"
    "bk_supplyByDenom k' = gomap_set (bridgeDenomForAsset asset)
       (bridge_SupplyForDenom k (bridgeDenomForAsset asset) - wr_Amount w) (bk_supplyByDenom k)"
  shows "ledger_ok k'"
proof -
  have wd: "withdrawal_denom (bk_registry k) w = Some (bridgeDenomForAsset asset)"
    using assms(2) by (simp add: withdrawal_denom_def)
  have sup: "bridge_SupplyForDenom k' d =
      bridge_SupplyForDenom k d - (if d = bridgeDenomForAsset asset then wr_Amount w else 0)" for d
    using assms(8) by (simp add: bridge_SupplyForDenom_def gomap_simps)
  show ?thesis
    using assms(1-4) unfolding ledger_ok_def assms(5-8) sup
    by (simp add: wd)
qed

lemma ledger_ok_registry:
  assumes "ledger_ok k" "registry_extends (bk_registry k) reg"
  shows "ledger_ok (k\<lparr>bk_registry := reg\<rparr>)"
proof -
  have known: "\<exists>a'. registry_GetAsset reg i = Some a' \<and> bridgeDenomForAsset a' = bridgeDenomForAsset a"
    if "registry_GetAsset (bk_registry k) i = Some a" for i a
    using assms(2) that unfolding registry_extends_def bridgeDenomForAsset_def by metis
  have wd: "withdrawal_denom reg w = withdrawal_denom (bk_registry k) w" if "w \<in> set (bk_withdrawals k)" for w
    using assms(1) that known by (fastforce simp: ledger_ok_def withdrawal_denom_def)
  have "withdrawn_sum reg (bk_withdrawals k) d = withdrawn_sum (bk_registry k) (bk_withdrawals k) d" for d
    unfolding withdrawn_sum_def by (intro arg_cong [of _ _ sum_list] map_cong) (simp_all add: wd)
  moreover have "registry_GetAsset reg (wr_AssetID w) \<noteq> None" if "w \<in> set (bk_withdrawals k)" for w
    using assms(1) that known by (fastforce simp: ledger_ok_def)
  ultimately show ?thesis using assms(1) by (simp add: ledger_ok_def bridge_SupplyForDenom_def)
qed

section \<open>What a deposit and a withdrawal do\<close>

lemma reject_claim_simps [simp]:
  "fst (reject_claim k m e) = k\<lparr>bk_rejectedClaims := bk_rejectedClaims k + 1\<rparr>"
  "snd (snd (reject_claim k m e)) = Some e"
  by (simp_all add: reject_claim_def)

lemma Record_after_Check:
  "limits_CheckTransferAtHeight k i a h = None \<Longrightarrow> snd (limits_RecordTransferAtHeight k i a h) = None"
  by (simp add: limits_RecordTransferAtHeight_def Let_def)

text \<open>The state that an accepted deposit leaves, and the guards it has passed.\<close>

definition deposit_guards :: "('pk, 'sk) crypto \<Rightarrow> BridgeKeeper \<Rightarrow> DepositClaim \<Rightarrow> Attestation \<Rightarrow> Asset \<Rightarrow> bool" where
  "deposit_guards cr k claim att asset \<longleftrightarrow>
     deposit_ValidateBasic claim = None
     \<and> map_of (bk_processedClaims k) (identity_ReplayKey (dc_Identity claim)) = None
     \<and> verifyDepositClaim cr k claim att = None
     \<and> registry_GetAsset (bk_registry k) (dc_AssetID claim) = Some asset \<and> as_Enabled asset
     \<and> \<not> pauser_IsPaused (bk_pauser k) (dc_AssetID claim)
     \<and> limits_CheckTransferAtHeight (bk_limits k) (dc_AssetID claim) (dc_Amount claim) (bk_currentHeight k) = None"

definition deposit_state :: "BridgeKeeper \<Rightarrow> DepositClaim \<Rightarrow> Asset \<Rightarrow> BridgeKeeper" where
  "deposit_state k claim asset =
     fst (acceptDepositClaim
       (k\<lparr>bk_limits := fst (limits_RecordTransferAtHeight (bk_limits k) (dc_AssetID claim) (dc_Amount claim) (bk_currentHeight k))\<rparr>)
       (identity_ReplayKey (dc_Identity claim)) claim asset)"

lemma ledger_ok_deposit_state:
  assumes "ledger_ok k" "deposit_guards cr k claim att asset"
  shows "ledger_ok (deposit_state k claim asset)"
proof -
  let ?k = "k\<lparr>bk_limits := fst (limits_RecordTransferAtHeight (bk_limits k) (dc_AssetID claim) (dc_Amount claim) (bk_currentHeight k))\<rparr>"
  from assms(2) obtain v where "dc_Amount claim = Some v" "0 < v"
    using deposit_ValidateBasic_None(3) by (auto simp: deposit_guards_def)
  moreover have "ledger_ok ?k" using assms(1) by (simp add: ledger_ok_cong [of ?k k])
  ultimately show ?thesis
    unfolding deposit_state_def using assms(2)
    by (intro ledger_ok_accept) (simp_all add: deposit_guards_def)
qed

lemma deposit_accept:
  assumes "bridge_inv k" "deposit_guards cr k claim att asset"
  shows "bridge_ExecuteDepositClaim cr k claim att =
    (deposit_state k claim asset,
     \<lparr>res_Status = ClaimStatusAccepted, res_MessageID = ci_MessageID (dc_Identity claim),
      res_Denom = bridgeDenomForAsset asset, res_Amount = Some (cloneAmount (dc_Amount claim))\<rparr>, None)"
proof -
  have ok: "bridge_CheckAccountingInvariant (deposit_state k claim asset) = (deposit_state k claim asset, None)"
    using ledger_ok_check [OF ledger_ok_deposit_state [OF _ assms(2)]] assms(1) by (simp add: bridge_inv_def)
  obtain l where l: "limits_RecordTransferAtHeight (bk_limits k) (dc_AssetID claim) (dc_Amount claim) (bk_currentHeight k) = (l, None)"
    using assms(2) Record_after_Check by (metis deposit_guards_def prod.collapse)
  have st: "acceptDepositClaim (k\<lparr>bk_limits := l\<rparr>) (identity_ReplayKey (dc_Identity claim)) claim asset =
     (deposit_state k claim asset,
      \<lparr>res_Status = ClaimStatusAccepted, res_MessageID = ci_MessageID (dc_Identity claim),
       res_Denom = bridgeDenomForAsset asset, res_Amount = Some (cloneAmount (dc_Amount claim))\<rparr>)"
    by (simp add: deposit_state_def l acceptDepositClaim_def Let_def)
  show ?thesis
    using assms ok
    by (simp add: bridge_ExecuteDepositClaim_def ensureCircuitHealthy_def bridge_inv_def deposit_guards_def
        pauser_AssertNotPaused_def Let_def l st)
qed

lemma deposit_reject:
  assumes "\<nexists>asset. deposit_guards cr k claim att asset" "\<not> bk_circuitBreakerTripped k"
  shows "\<exists>m e. bridge_ExecuteDepositClaim cr k claim att = reject_claim k m e"
  using assms
  by (auto simp: bridge_ExecuteDepositClaim_def deposit_guards_def ensureCircuitHealthy_def
      pauser_AssertNotPaused_def Let_def split: option.split)

lemma deposit_cases:
  assumes "bridge_inv k"
  obtains (accept) asset where "deposit_guards cr k claim att asset"
      "fst (bridge_ExecuteDepositClaim cr k claim att) = deposit_state k claim asset"
      "snd (snd (bridge_ExecuteDepositClaim cr k claim att)) = None"
    | (reject) e where "fst (bridge_ExecuteDepositClaim cr k claim att) = k\<lparr>bk_rejectedClaims := bk_rejectedClaims k + 1\<rparr>"
      "snd (snd (bridge_ExecuteDepositClaim cr k claim att)) = Some e"
proof (cases "\<exists>asset. deposit_guards cr k claim att asset")
  case True
  then obtain asset where g: "deposit_guards cr k claim att asset" ..
  show ?thesis by (rule accept [OF g]) (simp_all add: deposit_accept [OF assms g])
next
  case False
  then obtain m e where "bridge_ExecuteDepositClaim cr k claim att = reject_claim k m e"
    using deposit_reject assms unfolding bridge_inv_def by blast
  then show ?thesis using reject by auto
qed

lemma deposit_state_simps [simp]:
  "bk_registry (deposit_state k claim asset) = bk_registry k"
  "bk_pauser (deposit_state k claim asset) = bk_pauser k"
  "bk_signerSets (deposit_state k claim asset) = bk_signerSets k"
  "bk_currentHeight (deposit_state k claim asset) = bk_currentHeight k"
  "bk_withdrawals (deposit_state k claim asset) = bk_withdrawals k"
  "bk_rejectedClaims (deposit_state k claim asset) = bk_rejectedClaims k"
  "bk_circuitBreakerTripped (deposit_state k claim asset) = bk_circuitBreakerTripped k"
  "bk_nextWithdrawalNonce (deposit_state k claim asset) = bk_nextWithdrawalNonce k"
  "bk_limits (deposit_state k claim asset)
     = fst (limits_RecordTransferAtHeight (bk_limits k) (dc_AssetID claim) (dc_Amount claim) (bk_currentHeight k))"
  by (simp_all add: deposit_state_def acceptDepositClaim_def mintRepresentation_def Let_def)

lemma deposit_state_supply:
  "bridge_SupplyForDenom (deposit_state k claim asset) d
     = bridge_SupplyForDenom k d + (if d = bridgeDenomForAsset asset then cloneAmount (dc_Amount claim) else 0)"
  by (simp add: deposit_state_def acceptDepositClaim_def mintRepresentation_def Let_def bridge_SupplyForDenom_def
      gomap_simps)

lemma deposit_state_claims:
  "map_of (bk_processedClaims (deposit_state k claim asset)) key =
     (if key = identity_ReplayKey (dc_Identity claim)
      then Some \<lparr>cl_MessageID = ci_MessageID (dc_Identity claim), cl_SourceTxHash = ci_SourceTxHash (dc_Identity claim),
                 cl_Denom = bridgeDenomForAsset asset, cl_AssetID = dc_AssetID claim,
                 cl_Recipient = dc_Recipient claim, cl_Amount = cloneAmount (dc_Amount claim),
                 cl_Status = ClaimStatusAccepted\<rparr>
      else map_of (bk_processedClaims k) key)"
  by (simp add: deposit_state_def acceptDepositClaim_def mintRepresentation_def Let_def gomap_simps)

lemma bridge_inv_deposit:
  assumes "bridge_inv k"
  shows "bridge_inv (fst (bridge_ExecuteDepositClaim cr k claim att))"
  using assms
proof (cases rule: deposit_cases [OF assms, of cr claim att])
  case (1 asset)
  with assms show ?thesis
    by (auto simp: bridge_inv_def limits_inv_Record ledger_ok_deposit_state)
next
  case (2 e)
  with assms show ?thesis
    by (simp add: bridge_inv_def ledger_ok_cong [of "k\<lparr>bk_rejectedClaims := n\<rparr>" k for n])
qed

text \<open>A withdrawal either fails and changes at most the usage of its rate limit, or burns.\<close>

definition withdraw_guards ::
    "BridgeKeeper \<Rightarrow> string \<Rightarrow> bigint \<Rightarrow> string \<Rightarrow> u64 \<Rightarrow> bytes \<Rightarrow> Asset \<Rightarrow> int \<Rightarrow> bool" where
  "withdraw_guards k assetID amount recipient deadline signature asset v \<longleftrightarrow>
     amount = Some v \<and> 0 < v \<and> TrimSpace assetID \<noteq> [] \<and> TrimSpace recipient \<noteq> []
     \<and> \<not> isZeroHexAddress recipient \<and> deadline \<noteq> 0 \<and> signature \<noteq> []
     \<and> registry_GetAsset (bk_registry k) assetID = Some asset \<and> as_Enabled asset
     \<and> \<not> pauser_IsPaused (bk_pauser k) assetID
     \<and> limits_CheckTransferAtHeight (bk_limits k) assetID amount (bk_currentHeight k) = None"

definition withdraw_limited :: "BridgeKeeper \<Rightarrow> string \<Rightarrow> int \<Rightarrow> BridgeKeeper" where
  "withdraw_limited k assetID v =
     k\<lparr>bk_limits := fst (limits_RecordTransferAtHeight (bk_limits k) assetID (Some v) (bk_currentHeight k))\<rparr>"

definition withdraw_record :: "BridgeKeeper \<Rightarrow> string \<Rightarrow> int \<Rightarrow> string \<Rightarrow> u64 \<Rightarrow> bytes \<Rightarrow> Asset \<Rightarrow> WithdrawalRecord" where
  "withdraw_record k assetID v recipient deadline signature asset =
     snd (newWithdrawalRecord k assetID (sourceAssetAddressForWithdrawal asset) v recipient deadline signature)"

definition withdraw_state :: "BridgeKeeper \<Rightarrow> string \<Rightarrow> int \<Rightarrow> string \<Rightarrow> u64 \<Rightarrow> bytes \<Rightarrow> Asset \<Rightarrow> BridgeKeeper" where
  "withdraw_state k assetID v recipient deadline signature asset =
     (withdraw_limited k assetID v)
       \<lparr>bk_nextWithdrawalNonce := bk_nextWithdrawalNonce k + 1,
        bk_supplyByDenom := gomap_set (bridgeDenomForAsset asset)
           (bridge_SupplyForDenom k (bridgeDenomForAsset asset) - v) (bk_supplyByDenom k),
        bk_withdrawals := bk_withdrawals k @ [withdraw_record k assetID v recipient deadline signature asset]\<rparr>"

lemma withdraw_limited_simps [simp]:
  "bk_registry (withdraw_limited k i v) = bk_registry k"
  "bk_pauser (withdraw_limited k i v) = bk_pauser k"
  "bk_signerSets (withdraw_limited k i v) = bk_signerSets k"
  "bk_processedClaims (withdraw_limited k i v) = bk_processedClaims k"
  "bk_supplyByDenom (withdraw_limited k i v) = bk_supplyByDenom k"
  "bk_withdrawals (withdraw_limited k i v) = bk_withdrawals k"
  "bk_circuitBreakerTripped (withdraw_limited k i v) = bk_circuitBreakerTripped k"
  "bk_nextWithdrawalNonce (withdraw_limited k i v) = bk_nextWithdrawalNonce k"
  "bk_currentHeight (withdraw_limited k i v) = bk_currentHeight k"
  "bridge_SupplyForDenom (withdraw_limited k i v) d = bridge_SupplyForDenom k d"
  by (simp_all add: withdraw_limited_def bridge_SupplyForDenom_def)

lemma newWithdrawalRecord_limited:
  "newWithdrawalRecord (withdraw_limited k i v) assetID addr amt r dl sig =
     ((withdraw_limited k i v)\<lparr>bk_nextWithdrawalNonce := bk_nextWithdrawalNonce k + 1\<rparr>,
      snd (newWithdrawalRecord k assetID addr amt r dl sig))"
  by (simp add: newWithdrawalRecord_def Let_def)

lemma withdraw_record_simps [simp]:
  "wr_Amount (withdraw_record k i v r dl sig asset) = v"
  "wr_AssetID (withdraw_record k i v r dl sig asset) = TrimSpace i"
  "wr_Recipient (withdraw_record k i v r dl sig asset) = TrimSpace r"
  "wr_BlockHeight (withdraw_record k i v r dl sig asset) = bk_currentHeight k"
  "ci_Nonce (wr_Identity (withdraw_record k i v r dl sig asset)) = bk_nextWithdrawalNonce k"
  by (simp_all add: withdraw_record_def newWithdrawalRecord_def Let_def)

lemma ledger_ok_withdraw_state:
  assumes "ledger_ok k" "withdraw_guards k i amount r dl sig asset v"
    "v \<le> bridge_SupplyForDenom k (bridgeDenomForAsset asset)"
  shows "ledger_ok (withdraw_state k i v r dl sig asset)"
  by (rule ledger_ok_withdraw [OF assms(1), of "withdraw_record k i v r dl sig asset" asset])
     (use assms in \<open>simp_all add: withdraw_guards_def withdraw_state_def\<close>)

lemma cloneWithdrawalRecord_id [simp]: "cloneWithdrawalRecord r = r"
  by (simp add: cloneWithdrawalRecord_def)

lemma withdraw_accept:
  assumes "bridge_inv k" "withdraw_guards k i amount r dl sig asset v"
    "v \<le> bridge_SupplyForDenom k (bridgeDenomForAsset asset)"
  shows "bridge_ExecuteWithdrawal k i amount r dl sig =
    (withdraw_state k i v r dl sig asset, Inr (withdraw_record k i v r dl sig asset))"
proof -
  let ?d = "bridgeDenomForAsset asset"
  have a: "amount = Some v" "0 < v" using assms(2) by (auto simp: withdraw_guards_def)
  obtain c where c: "map_of (bk_supplyByDenom k) ?d = Some c" "bridge_SupplyForDenom k ?d = c"
    using assms(3) a by (auto simp: bridge_SupplyForDenom_def split: option.splits)
  have none: "limits_CheckTransferAtHeight (bk_limits k) i (Some v) (bk_currentHeight k) = None"
    using assms(2) a by (simp add: withdraw_guards_def)
  have l: "limits_RecordTransferAtHeight (bk_limits k) i (Some v) (bk_currentHeight k)
      = (bk_limits (withdraw_limited k i v), None)"
    using Record_after_Check [OF none] by (simp add: withdraw_limited_def prod_eq_iff)
  have k1: "k\<lparr>bk_limits := bk_limits (withdraw_limited k i v)\<rparr> = withdraw_limited k i v"
    by (simp add: withdraw_limited_def)
  have ok: "bridge_CheckAccountingInvariant (withdraw_state k i v r dl sig asset) = (withdraw_state k i v r dl sig asset, None)"
    using ledger_ok_check [OF ledger_ok_withdraw_state [OF _ assms(2,3)]] assms(1) by (simp add: bridge_inv_def)
  have st: "(withdraw_limited k i v)\<lparr>bk_nextWithdrawalNonce := bk_nextWithdrawalNonce k + 1,
      bk_supplyByDenom := gomap_set ?d (c - v) (bk_supplyByDenom k),
      bk_withdrawals := bk_withdrawals k @ [withdraw_record k i v r dl sig asset]\<rparr> = withdraw_state k i v r dl sig asset"
    by (simp add: withdraw_state_def c)
  show ?thesis
    using assms a c
    by (simp add: bridge_ExecuteWithdrawal_def ensureCircuitHealthy_def bridge_inv_def withdraw_guards_def
        pauser_AssertNotPaused_def not_positive_def cloneAmount_def Let_def l k1 newWithdrawalRecord_limited
        burnRepresentation_def withdraw_record_def [symmetric] st ok)
qed

lemma withdraw_short:
  assumes "bridge_inv k" "withdraw_guards k i amount r dl sig asset v"
    "bridge_SupplyForDenom k (bridgeDenomForAsset asset) < v"
  shows "bridge_ExecuteWithdrawal k i amount r dl sig = (withdraw_limited k i v, Inl ErrInsufficientSupply)"
proof -
  have a: "amount = Some v" "0 < v" using assms(2) by (auto simp: withdraw_guards_def)
  have none: "limits_CheckTransferAtHeight (bk_limits k) i (Some v) (bk_currentHeight k) = None"
    using assms(2) a by (simp add: withdraw_guards_def)
  obtain l where l: "limits_RecordTransferAtHeight (bk_limits k) i (Some v) (bk_currentHeight k) = (l, None)"
    using Record_after_Check [OF none] by (cases "limits_RecordTransferAtHeight (bk_limits k) i (Some v) (bk_currentHeight k)") simp
  show ?thesis
    using assms a l none
    by (simp add: bridge_ExecuteWithdrawal_def ensureCircuitHealthy_def bridge_inv_def withdraw_guards_def
        pauser_AssertNotPaused_def not_positive_def cloneAmount_def Let_def withdraw_limited_def
        bridge_SupplyForDenom_def split: option.splits)
qed

lemma withdraw_refused:
  assumes "bridge_inv k" "\<nexists>asset v. withdraw_guards k i amount r dl sig asset v"
  shows "\<exists>e. bridge_ExecuteWithdrawal k i amount r dl sig = (k, Inl e) \<and> e \<noteq> ErrInsufficientSupply"
  using assms
  by (auto simp: bridge_ExecuteWithdrawal_def withdraw_guards_def ensureCircuitHealthy_def bridge_inv_def
      pauser_AssertNotPaused_def not_positive_def Let_def split: option.splits)

lemma withdraw_cases:
  assumes "bridge_inv k"
  obtains (burn) asset v where "withdraw_guards k i amount r dl sig asset v"
      "v \<le> bridge_SupplyForDenom k (bridgeDenomForAsset asset)"
      "bridge_ExecuteWithdrawal k i amount r dl sig
         = (withdraw_state k i v r dl sig asset, Inr (withdraw_record k i v r dl sig asset))"
    | (short) asset v where "withdraw_guards k i amount r dl sig asset v"
      "bridge_SupplyForDenom k (bridgeDenomForAsset asset) < v"
      "bridge_ExecuteWithdrawal k i amount r dl sig = (withdraw_limited k i v, Inl ErrInsufficientSupply)"
    | (refused) e where "bridge_ExecuteWithdrawal k i amount r dl sig = (k, Inl e)" "e \<noteq> ErrInsufficientSupply"
  using withdraw_accept [OF assms] withdraw_short [OF assms] withdraw_refused [OF assms]
  by (metis not_less)

lemma bridge_inv_withdraw:
  assumes "bridge_inv k"
  shows "bridge_inv (fst (bridge_ExecuteWithdrawal k i amount r dl sig))"
proof (cases rule: withdraw_cases [OF assms, of i amount r dl sig])
  case (1 asset v)
  have "limits_inv (bk_limits (withdraw_state k i v r dl sig asset))"
    using assms by (simp add: withdraw_state_def withdraw_limited_def bridge_inv_def limits_inv_Record)
  with 1 assms ledger_ok_withdraw_state [OF _ 1(1,2)] show ?thesis
    by (simp add: bridge_inv_def) (simp add: withdraw_state_def)
next
  case (2 asset v)
  with assms show ?thesis
    by (simp add: bridge_inv_def ledger_ok_cong [of "withdraw_limited k i v" k])
       (simp add: withdraw_limited_def limits_inv_Record)
next
  case (3 e)
  with assms show ?thesis by simp
qed

end
