(* ===== verification/BridgeAuth.thy ===== *)
theory BridgeAuth
  imports BridgeAccounting
begin

text \<open>
  Who may mint: the count of verified proofs is the number of distinct allowed signers that signed
  the attestation, the active signer set is the one with the highest version among those active
  at the current height whatever the iteration order of the map, and an identity that was accepted
  once is refused in every later state.
\<close>

section \<open>Counting distinct signers\<close>

definition verified_signers :: "('pk, 'sk) crypto \<Rightarrow> bytes \<Rightarrow> AttestationProof list \<Rightarrow> string set" where
  "verified_signers cr digest ps = {s. \<exists>p \<in> set ps. verifyProof cr p digest = Inr s}"

lemma verified_signers_simps [simp]:
  "verified_signers cr digest [] = {}"
  "verified_signers cr digest (p # ps) =
     (case verifyProof cr p digest of Inl e \<Rightarrow> {} | Inr s \<Rightarrow> {s}) \<union> verified_signers cr digest ps"
  by (auto simp: verified_signers_def split: sum.split)

lemma finite_verified_signers [simp]: "finite (verified_signers cr digest ps)"
  by (induction ps) (auto split: sum.split)

lemma unat_plus_one: "unat v + 1 < 2 ^ 32 \<Longrightarrow> unat (v + 1) = unat v + 1" for v :: u32
  by (subst unat_plus_if_size) (simp add: word_size)

lemma count_verified_card:
  "unat v + length ps < 2 ^ 32 \<Longrightarrow>
     unat (count_verified cr digest allowed ps seen v)
       = unat v + card ((verified_signers cr digest ps - set seen) \<inter> set allowed)"
proof (induction cr digest allowed ps seen v rule: count_verified.induct)
  case (2 cr digest allowed p ps seen v)
  show ?case
  proof (cases "verifyProof cr p digest")
    case (Inl e)
    with 2 show ?thesis by simp
  next
    case (Inr s)
    let ?V = "verified_signers cr digest ps"
    show ?thesis
    proof (cases "s \<in> set seen")
      case True
      then have "insert s ?V - set seen = ?V - set seen" by auto
      with 2 Inr True show ?thesis by simp
    next
      case False
      have split: "(insert s ?V - set seen) \<inter> set allowed =
          ((?V - set (s # seen)) \<inter> set allowed) \<union> (if s \<in> set allowed then {s} else {})"
        using False by auto
      have card: "card ((insert s ?V - set seen) \<inter> set allowed) =
          card ((?V - set (s # seen)) \<inter> set allowed) + (if s \<in> set allowed then 1 else 0)"
        unfolding split by (subst card_Un_disjoint) auto
      have "unat (if s \<in> set allowed then v + 1 else v) = unat v + (if s \<in> set allowed then 1 else 0)"
        using "2.prems" unat_plus_one [of v] by simp
      with "2.IH"(3) [OF Inr False] "2.prems" Inr False card show ?thesis by simp
    qed
  qed
qed simp

section \<open>What verification establishes\<close>

lemma verifyDepositClaim_None:
  assumes "verifyDepositClaim cr k claim att = None"
  obtains s digest where "bridge_ActiveSignerSet k = Inr s" "SigningDigest cr att = Inr digest"
    "attestation_ValidateBasic att = None" "att_MessageID att = ci_MessageID (dc_Identity claim)"
    "att_PayloadHash att = deposit_Digest claim" "bk_currentHeight k \<le> dc_Deadline claim"
    "bk_currentHeight k \<le> att_Expiry att" "att_SignerSetVersion att = ss_Version s"
    "ss_Threshold s \<le> att_Threshold att"
    "ss_Threshold s \<le> count_verified cr digest (map NormalizeSignerAddress (ss_Signers s)) (att_Proofs att) [] 0"
  using assms
  by (auto simp: verifyDepositClaim_def Let_def not_less split: option.splits if_splits sum.splits)

lemma quorum_of_verified:
  assumes "verifyDepositClaim cr k claim att = None"
  shows "\<exists>s digest. bridge_ActiveSignerSet k = Inr s \<and> SigningDigest cr att = Inr digest
    \<and> att_MessageID att = ci_MessageID (dc_Identity claim) \<and> att_PayloadHash att = deposit_Digest claim
    \<and> bk_currentHeight k \<le> dc_Deadline claim \<and> bk_currentHeight k \<le> att_Expiry att
    \<and> att_SignerSetVersion att = ss_Version s
    \<and> unat (ss_Threshold s) \<le> card (verified_signers cr digest (att_Proofs att)
                                     \<inter> NormalizeSignerAddress ` set (ss_Signers s))"
proof -
  from assms obtain s digest where *: "bridge_ActiveSignerSet k = Inr s" "SigningDigest cr att = Inr digest"
    "attestation_ValidateBasic att = None" "att_MessageID att = ci_MessageID (dc_Identity claim)"
    "att_PayloadHash att = deposit_Digest claim" "bk_currentHeight k \<le> dc_Deadline claim"
    "bk_currentHeight k \<le> att_Expiry att" "att_SignerSetVersion att = ss_Version s"
    "ss_Threshold s \<le> count_verified cr digest (map NormalizeSignerAddress (ss_Signers s)) (att_Proofs att) [] 0"
    by (rule verifyDepositClaim_None)
  have "length (att_Proofs att) \<le> 128" by (rule attestation_ValidateBasic_None(2) [OF *(3)])
  then have "unat (count_verified cr digest (map NormalizeSignerAddress (ss_Signers s)) (att_Proofs att) [] 0)
      = card (verified_signers cr digest (att_Proofs att) \<inter> NormalizeSignerAddress ` set (ss_Signers s))"
    by (subst count_verified_card) simp_all
  with * show ?thesis by (auto simp: word_le_nat_alt)
qed

text \<open>A proof counts only when the signature recovers to the key whose address the proof names.\<close>

lemma verifyProof_Inr:
  "verifyProof cr p digest = Inr s \<longleftrightarrow>
     pf_Signature p \<noteq> [] \<and> s = NormalizeSignerAddress (pf_Signer p)
     \<and> (\<exists>pk. cr_RecoverCompact cr (pf_Signature p) digest = Some pk \<and> SignerAddressFromPublicKey cr pk = s)"
  by (auto simp: verifyProof_def Let_def split: option.splits)

section \<open>The active signer set\<close>

definition best_set :: "u64 \<Rightarrow> SignerSet set \<Rightarrow> SignerSet option \<Rightarrow> SignerSet option \<Rightarrow> bool" where
  "best_set h S a r \<longleftrightarrow>
     (case r of
        None \<Rightarrow> a = None \<and> (\<forall>s \<in> S. \<not> set_active_at h s)
      | Some m \<Rightarrow> (a = Some m \<or> m \<in> S \<and> set_active_at h m)
          \<and> (\<forall>s \<in> S. set_active_at h s \<longrightarrow> ss_Version s \<le> ss_Version m)
          \<and> (\<forall>x. a = Some x \<longrightarrow> ss_Version x \<le> ss_Version m))"

lemma pick_active_best: "best_set h (snd ` set sets) a (pick_active h sets a)"
proof (induction h sets a rule: pick_active.induct)
  case (1 h a)
  then show ?case by (auto simp: best_set_def split: option.split)
next
  case (2 h v s sets a)
  show ?case
  proof (cases "set_active_at h s")
    case False
    with 2 show ?thesis by (auto simp: best_set_def split: option.splits)
  next
    case True
    show ?thesis
    proof (cases a)
      case None
      with 2 True show ?thesis by (auto simp: best_set_def split: option.splits)
    next
      case (Some x)
      with 2 True show ?thesis
        by (auto simp: best_set_def not_less split: option.splits if_splits)
    qed
  qed
qed

lemma best_set_unique:
  assumes "best_set h S None r" "best_set h S None r'"
    "\<And>s t. s \<in> S \<Longrightarrow> t \<in> S \<Longrightarrow> ss_Version s = ss_Version t \<Longrightarrow> s = t"
  shows "r = r'"
proof (cases r)
  case None
  with assms(1,2) show ?thesis by (cases r') (auto simp: best_set_def)
next
  case (Some m)
  with assms(1) have m: "m \<in> S" "set_active_at h m" "\<And>s. s \<in> S \<Longrightarrow> set_active_at h s \<Longrightarrow> ss_Version s \<le> ss_Version m"
    by (auto simp: best_set_def)
  with assms(2) obtain m' where r': "r' = Some m'" by (cases r') (auto simp: best_set_def)
  with assms(2) have "m' \<in> S" "set_active_at h m'" "\<And>s. s \<in> S \<Longrightarrow> set_active_at h s \<Longrightarrow> ss_Version s \<le> ss_Version m'"
    by (auto simp: best_set_def)
  with m have "m = m'" by (intro assms(3) order.antisym)
  with Some r' show ?thesis by simp
qed

lemma ss_Version_normalize [simp]: "ss_Version (normalizeSignerSet s) = ss_Version s"
  by (simp add: normalizeSignerSet_def)

definition signer_sets_inv :: "BridgeKeeper \<Rightarrow> bool" where
  "signer_sets_inv k \<longleftrightarrow>
     gomap_wf (bk_signerSets k)
     \<and> (\<forall>(v, s) \<in> set (bk_signerSets k). v = ss_Version s
          \<and> ss_Signers s = sort (map NormalizeSignerAddress (ss_Signers s)))"

lemma normalizeSignerSet_fixed:
  "ss_Signers (normalizeSignerSet s) = sort (map NormalizeSignerAddress (ss_Signers (normalizeSignerSet s)))"
proof -
  have id: "map NormalizeSignerAddress xs = xs" if "\<forall>x \<in> set xs. NormalizeSignerAddress x = x" for xs
    using that by (induction xs) auto
  have "\<forall>x \<in> set (sort (map NormalizeSignerAddress (ss_Signers s))). NormalizeSignerAddress x = x" by auto
  from id [OF this] show ?thesis by (simp add: normalizeSignerSet_def sorted_sort_id)
qed

lemma signer_sets_inv_Upsert: "signer_sets_inv k \<Longrightarrow> signer_sets_inv (fst (bridge_UpsertSignerSet k s))"
proof (cases "signerset_ValidateBasic s")
  case None
  assume inv: "signer_sets_inv k"
  have "ss_Version (normalizeSignerSet s) = ss_Version s" by (simp add: normalizeSignerSet_def)
  with None inv normalizeSignerSet_fixed [of s] set_update_subset [of "ss_Version s" "normalizeSignerSet s" "bk_signerSets k"]
  show ?thesis unfolding signer_sets_inv_def bridge_UpsertSignerSet_def by fastforce
qed (simp add: bridge_UpsertSignerSet_def)

section \<open>Replay protection\<close>

definition claims_grow :: "BridgeKeeper \<Rightarrow> BridgeKeeper \<Rightarrow> bool" where
  "claims_grow k k' \<longleftrightarrow>
     (\<forall>key c. map_of (bk_processedClaims k) key = Some c \<longrightarrow> map_of (bk_processedClaims k') key = Some c)"

lemma claims_grow_deposit:
  assumes "bridge_inv k"
  shows "claims_grow k (fst (bridge_ExecuteDepositClaim cr k claim att))"
proof (cases rule: deposit_cases [OF assms, of cr claim att])
  case (1 asset)
  then show ?thesis by (auto simp: claims_grow_def deposit_state_claims deposit_guards_def)
qed (simp add: claims_grow_def)

lemma claims_grow_withdraw:
  assumes "bridge_inv k"
  shows "claims_grow k (fst (bridge_ExecuteWithdrawal k i amount r dl sig))"
  by (cases rule: withdraw_cases [OF assms, of i amount r dl sig])
     (simp_all add: claims_grow_def withdraw_state_def)

lemma deposit_duplicate:
  assumes "map_of (bk_processedClaims k) (identity_ReplayKey (dc_Identity claim)) \<noteq> None"
    "deposit_ValidateBasic claim = None" "\<not> bk_circuitBreakerTripped k"
  shows "bridge_ExecuteDepositClaim cr k claim att
     = reject_claim k (ci_MessageID (dc_Identity claim)) ErrDuplicateClaim"
  using assms by (simp add: bridge_ExecuteDepositClaim_def ensureCircuitHealthy_def Let_def)

end
