(* ===== verification/BridgeState.thy ===== *)
theory BridgeState
  imports BridgeAuth
begin

text \<open>
  Export and import of the bridge keeper's state (\<^verbatim>\<open>x/bridge/keeper/state.go\<close>). Amounts travel as
  decimal strings, signer sets are normalised again on import, and an import that meets an invalid
  amount stops there and leaves what it has set so far.
\<close>

record ClaimRecordSnapshot =
  cs_ClaimKey :: string
  cs_MessageID :: string
  cs_SourceTxHash :: string
  cs_Denom :: string
  cs_AssetID :: string
  cs_Recipient :: string
  cs_Amount :: string
  cs_Status :: string

record WithdrawalRecordSnapshot =
  ws_BlockHeight :: u64
  ws_Identity :: ClaimIdentity
  ws_AssetID :: string
  ws_AssetAddress :: string
  ws_Amount :: string
  ws_Recipient :: string
  ws_Deadline :: u64
  ws_Signature :: bytes

text \<open>\<^verbatim>\<open>SignerSetSnapshot\<close> has the fields of \<^verbatim>\<open>SignerSet\<close> and is that record here.\<close>

record BridgeStateSnapshot =
  bst_CurrentHeight :: u64
  bst_NextWithdrawalNonce :: u64
  bst_RejectedClaims :: u64
  bst_CircuitBreakerTripped :: bool
  bst_LastInvariantError :: string
  bst_SignerSets :: "SignerSet list"
  bst_ProcessedClaims :: "ClaimRecordSnapshot list"
  bst_SupplyByDenom :: "(string, string) gomap"
  bst_Withdrawals :: "WithdrawalRecordSnapshot list"

definition claim_snapshot :: "string \<Rightarrow> ClaimRecord \<Rightarrow> ClaimRecordSnapshot" where
  "claim_snapshot claimKey r =
     \<lparr>cs_ClaimKey = claimKey, cs_MessageID = cl_MessageID r, cs_SourceTxHash = cl_SourceTxHash r,
      cs_Denom = cl_Denom r, cs_AssetID = cl_AssetID r, cs_Recipient = cl_Recipient r,
      cs_Amount = show_int (cl_Amount r), cs_Status = cl_Status r\<rparr>"

definition withdrawal_snapshot :: "WithdrawalRecord \<Rightarrow> WithdrawalRecordSnapshot" where
  "withdrawal_snapshot w =
     \<lparr>ws_BlockHeight = wr_BlockHeight w, ws_Identity = wr_Identity w, ws_AssetID = wr_AssetID w,
      ws_AssetAddress = wr_AssetAddress w, ws_Amount = show_int (wr_Amount w), ws_Recipient = wr_Recipient w,
      ws_Deadline = wr_Deadline w, ws_Signature = wr_Signature w\<rparr>"

definition bridge_ExportState :: "BridgeKeeper \<Rightarrow> BridgeStateSnapshot" where
  "bridge_ExportState k =
     \<lparr>bst_CurrentHeight = bk_currentHeight k,
      bst_NextWithdrawalNonce = bk_nextWithdrawalNonce k,
      bst_RejectedClaims = bk_rejectedClaims k,
      bst_CircuitBreakerTripped = bk_circuitBreakerTripped k,
      bst_LastInvariantError = bk_lastInvariantError k,
      bst_SignerSets = map snd (bk_signerSets k),
      bst_ProcessedClaims = map (\<lambda>(claimKey, r). claim_snapshot claimKey r) (bk_processedClaims k),
      bst_SupplyByDenom = map (\<lambda>(denom, amount). (denom, show_int amount)) (bk_supplyByDenom k),
      bst_Withdrawals = map withdrawal_snapshot (bk_withdrawals k)\<rparr>"

fun import_claims ::
    "(string, ClaimRecord) gomap \<Rightarrow> ClaimRecordSnapshot list \<Rightarrow> (string, ClaimRecord) gomap \<times> bridge_error option" where
  "import_claims m [] = (m, None)"
| "import_claims m (c # cs) =
     (case SetString10 (cs_Amount c) of
        None \<Rightarrow> (m, Some (InvalidBridgeState ''invalid processed claim amount %q'' (cs_Amount c)))
      | Some amount \<Rightarrow>
          import_claims (gomap_set (cs_ClaimKey c)
            \<lparr>cl_MessageID = cs_MessageID c, cl_SourceTxHash = cs_SourceTxHash c, cl_Denom = cs_Denom c,
             cl_AssetID = cs_AssetID c, cl_Recipient = cs_Recipient c, cl_Amount = amount,
             cl_Status = cs_Status c\<rparr> m) cs)"

fun import_supply ::
    "(string, int) gomap \<Rightarrow> (string, string) gomap \<Rightarrow> (string, int) gomap \<times> bridge_error option" where
  "import_supply m [] = (m, None)"
| "import_supply m ((denom, amount) # ds) =
     (case SetString10 amount of
        None \<Rightarrow> (m, Some (InvalidBridgeState ''invalid supply amount %q'' amount))
      | Some parsed \<Rightarrow> import_supply (gomap_set denom parsed m) ds)"

fun import_withdrawals ::
    "WithdrawalRecord list \<Rightarrow> WithdrawalRecordSnapshot list \<Rightarrow> WithdrawalRecord list \<times> bridge_error option" where
  "import_withdrawals acc [] = (acc, None)"
| "import_withdrawals acc (w # ws) =
     (case SetString10 (ws_Amount w) of
        None \<Rightarrow> (acc, Some (InvalidBridgeState ''invalid withdrawal amount %q'' (ws_Amount w)))
      | Some amount \<Rightarrow>
          import_withdrawals (acc @
            [\<lparr>wr_BlockHeight = ws_BlockHeight w, wr_Identity = ws_Identity w, wr_AssetID = ws_AssetID w,
              wr_AssetAddress = ws_AssetAddress w, wr_Amount = amount, wr_Recipient = ws_Recipient w,
              wr_Deadline = ws_Deadline w, wr_Signature = ws_Signature w\<rparr>]) ws)"

definition import_signer_sets :: "SignerSet list \<Rightarrow> (u64, SignerSet) gomap" where
  "import_signer_sets sets =
     fold (\<lambda>s. let n = normalizeSignerSet s in gomap_set (ss_Version n) n) sets []"

definition bridge_ImportState :: "BridgeKeeper \<Rightarrow> BridgeStateSnapshot \<Rightarrow> BridgeKeeper \<times> bridge_error option" where
  "bridge_ImportState k0 st =
     (let nonce = bst_NextWithdrawalNonce st;
          k1 = k0\<lparr>bk_currentHeight := bst_CurrentHeight st,
                  bk_nextWithdrawalNonce := (if nonce = 0 then 1 else nonce),
                  bk_rejectedClaims := bst_RejectedClaims st,
                  bk_circuitBreakerTripped := bst_CircuitBreakerTripped st,
                  bk_lastInvariantError := bst_LastInvariantError st\<rparr>;
          k2 = (if bst_SignerSets st \<noteq> [] then k1\<lparr>bk_signerSets := import_signer_sets (bst_SignerSets st)\<rparr> else k1)
      in case import_claims [] (bst_ProcessedClaims st) of
           (m, Some e) \<Rightarrow> (k2\<lparr>bk_processedClaims := m\<rparr>, Some e)
         | (m, None) \<Rightarrow>
      let k3 = k2\<lparr>bk_processedClaims := m\<rparr>
      in case import_supply [] (bst_SupplyByDenom st) of
           (s, Some e) \<Rightarrow> (k3\<lparr>bk_supplyByDenom := s\<rparr>, Some e)
         | (s, None) \<Rightarrow>
      let k4 = k3\<lparr>bk_supplyByDenom := s\<rparr>
      in case import_withdrawals [] (bst_Withdrawals st) of
           (w, e) \<Rightarrow> (k4\<lparr>bk_withdrawals := w\<rparr>, e))"

section \<open>Round trip\<close>

lemma claim_record_eta [simp]:
  "\<lparr>cl_MessageID = cl_MessageID r, cl_SourceTxHash = cl_SourceTxHash r, cl_Denom = cl_Denom r,
    cl_AssetID = cl_AssetID r, cl_Recipient = cl_Recipient r, cl_Amount = cl_Amount r, cl_Status = cl_Status r\<rparr> = r"
  by simp

lemma import_claims_snapshots:
  "import_claims m (map (\<lambda>(key, r). claim_snapshot key r) cs) = (fold (\<lambda>(key, r). gomap_set key r) cs m, None)"
  by (induction cs arbitrary: m) (auto simp: claim_snapshot_def)

lemma import_supply_snapshots:
  "import_supply m (map (\<lambda>(d, v). (d, show_int v)) ds) = (fold (\<lambda>(d, v). gomap_set d v) ds m, None)"
  by (induction ds arbitrary: m) auto

lemma import_withdrawals_snapshots:
  "import_withdrawals acc (map withdrawal_snapshot ws) = (acc @ ws, None)"
  by (induction ws arbitrary: acc) (auto simp: withdrawal_snapshot_def)

lemma import_signer_sets_export:
  assumes "signer_sets_inv k"
  shows "import_signer_sets (map snd (bk_signerSets k)) = bk_signerSets k"
proof -
  have "fold (\<lambda>s. let n = normalizeSignerSet s in gomap_set (ss_Version n) n) (map snd sets) m
      = fold (\<lambda>(v, s). gomap_set v s) sets m"
    if "\<forall>(v, s) \<in> set sets. v = ss_Version s \<and> ss_Signers s = sort (map NormalizeSignerAddress (ss_Signers s))"
    for sets m
    using that
  proof (induction sets arbitrary: m)
    case (Cons x sets)
    obtain v s where x: "x = (v, s)" by force
    have "normalizeSignerSet s = s" using Cons.prems by (simp add: x normalizeSignerSet_def)
    moreover have "v = ss_Version s" using Cons.prems by (simp add: x)
    ultimately show ?case using Cons by (simp add: x Let_def)
  qed simp
  then show ?thesis
    using assms unfolding signer_sets_inv_def import_signer_sets_def by (simp add: fold_gomap_set)
qed

text \<open>An import restores everything but the keepers that the bridge points to; a nonce counter that has
  wrapped to zero comes back as one.\<close>

lemma bridge_import_exported:
  assumes "signer_sets_inv k" "bk_signerSets k \<noteq> []" "gomap_wf (bk_processedClaims k)" "gomap_wf (bk_supplyByDenom k)"
  shows "bridge_ImportState k0 (bridge_ExportState k) =
    (k\<lparr>bk_registry := bk_registry k0, bk_limits := bk_limits k0, bk_pauser := bk_pauser k0,
       bk_nextWithdrawalNonce := (if bk_nextWithdrawalNonce k = 0 then 1 else bk_nextWithdrawalNonce k)\<rparr>, None)"
  using assms
  by (simp add: bridge_ImportState_def bridge_ExportState_def Let_def import_claims_snapshots
      import_supply_snapshots import_withdrawals_snapshots import_signer_sets_export fold_gomap_set)

lemma bridge_export_import_eq:
  assumes "signer_sets_inv k" "bk_signerSets k \<noteq> []" "gomap_wf (bk_processedClaims k)"
    "gomap_wf (bk_supplyByDenom k)" "bk_nextWithdrawalNonce k \<noteq> 0"
    "bk_registry k0 = bk_registry k" "bk_limits k0 = bk_limits k" "bk_pauser k0 = bk_pauser k"
  shows "bridge_ImportState k0 (bridge_ExportState k) = (k, None)"
  using bridge_import_exported [OF assms(1-4), of k0] assms(5-8) by simp

end
