(* ===== verification/BridgeProperties.thy ===== *)
theory BridgeProperties
  imports BridgeState
begin

text \<open>
  The bridge keeper as a state machine, its invariant in all reachable states, and the properties of
  deposits, withdrawals, signer sets and accounting, with a concrete bridge on which each of
  them is exercised.
\<close>

section \<open>The state machine\<close>

text \<open>A bridge keeper starts as \<^verbatim>\<open>NewKeeper\<close> on valid registry, limits and pauser keepers; the
  application and its governance call these operations on it and on those keepers.\<close>

definition bridge_init :: "BridgeKeeper \<Rightarrow> bool" where
  "bridge_init k \<longleftrightarrow>
     (\<exists>reg lim pau signers threshold. registry_inv reg \<and> limits_inv lim \<and> pauser_inv pau
        \<and> k = bridge_NewKeeper reg lim pau signers threshold)"

inductive bridge_step :: "('pk, 'sk) crypto \<Rightarrow> BridgeKeeper \<Rightarrow> BridgeKeeper \<Rightarrow> bool" for cr where
  deposit: "bridge_step cr k (fst (bridge_ExecuteDepositClaim cr k claim att))"
| withdraw: "bridge_step cr k (fst (bridge_ExecuteWithdrawal k assetID amount recipient deadline signature))"
| height: "bridge_step cr k (bridge_SetCurrentHeight k h)"
| signers: "bridge_step cr k (fst (bridge_UpsertSignerSet k s))"
| check: "bridge_step cr k (fst (bridge_CheckAccountingInvariant k))"
| register: "bridge_step cr k (k\<lparr>bk_registry := fst (registry_RegisterAsset (bk_registry k) a)\<rparr>)"
| enable: "bridge_step cr k (k\<lparr>bk_registry := fst (setAssetEnabled (bk_registry k) i b)\<rparr>)"
| limit: "bridge_step cr k (k\<lparr>bk_limits := fst (limits_SetLimit (bk_limits k) l)\<rparr>)"
| pause: "bridge_step cr k (k\<lparr>bk_pauser := fst (pauser_Pause (bk_pauser k) f)\<rparr>)"
| unpause: "bridge_step cr k (k\<lparr>bk_pauser := fst (pauser_Unpause (bk_pauser k) f)\<rparr>)"

inductive_cases bridge_stepE: "bridge_step cr k k'"

lemma bridge_init_inv: "bridge_init k \<Longrightarrow> bridge_inv k"
  by (auto simp: bridge_init_def bridge_inv_def bridge_NewKeeper_def ledger_ok_def Let_def
      bridge_SupplyForDenom_def claims_sum_def)

lemma bridge_inv_UpsertSignerSet: "bridge_inv k \<Longrightarrow> bridge_inv (fst (bridge_UpsertSignerSet k s))"
  by (simp add: bridge_UpsertSignerSet_def bridge_inv_def
      ledger_ok_cong [of "k\<lparr>bk_signerSets := n\<rparr>" k for n] split: option.split)

lemma bridge_inv_check: "bridge_inv k \<Longrightarrow> fst (bridge_CheckAccountingInvariant k) = k"
  by (simp add: bridge_inv_def ledger_ok_check)

lemma bridge_inv_step:
  assumes "bridge_inv k" "bridge_step cr k k'"
  shows "bridge_inv k'"
  using assms(2)
proof cases
  case (height h)
  then show ?thesis
    using assms(1) by (simp add: bridge_SetCurrentHeight_def bridge_inv_def
        ledger_ok_cong [of "k\<lparr>bk_currentHeight := n\<rparr>" k for n])
next
  case (register a)
  then show ?thesis
    using assms(1) by (simp add: bridge_inv_def registry_inv_Register ledger_ok_registry registry_extends_Register)
next
  case (enable i b)
  then show ?thesis
    using assms(1) by (simp add: bridge_inv_def registry_inv_setEnabled ledger_ok_registry registry_extends_setEnabled)
next
  case (limit l)
  then show ?thesis
    using assms(1) by (simp add: bridge_inv_def limits_inv_SetLimit ledger_ok_cong [of "k\<lparr>bk_limits := n\<rparr>" k for n])
next
  case (pause f)
  then show ?thesis
    using assms(1) by (simp add: bridge_inv_def pauser_inv_Pause ledger_ok_cong [of "k\<lparr>bk_pauser := n\<rparr>" k for n])
next
  case (unpause f)
  then show ?thesis
    using assms(1) by (simp add: bridge_inv_def pauser_inv_Unpause ledger_ok_cong [of "k\<lparr>bk_pauser := n\<rparr>" k for n])
qed (use assms(1) in \<open>simp_all add: bridge_inv_deposit bridge_inv_withdraw bridge_inv_UpsertSignerSet bridge_inv_check\<close>)

interpretation bridge: transition_system bridge_init "bridge_step cr" bridge_inv for cr
  by unfold_locales (fact bridge_init_inv, rule bridge_inv_step)

lemma claims_grow_step: "bridge_inv k \<Longrightarrow> bridge_step cr k k' \<Longrightarrow> claims_grow k k'"
  by (erule bridge_stepE)
     (simp_all add: claims_grow_deposit claims_grow_withdraw bridge_inv_check,
      simp_all add: claims_grow_def bridge_SetCurrentHeight_def bridge_UpsertSignerSet_def split: option.split)

lemma claims_grow_steps: "steps (bridge_step cr) k k' \<Longrightarrow> bridge_inv k \<Longrightarrow> claims_grow k k'"
  by (rule bridge.steps_related [where rel = claims_grow])
     (auto simp: claims_grow_def [of x x for x] intro: claims_grow_step, auto simp: claims_grow_def)

section \<open>The nonces of withdrawals\<close>

definition nonces_inv :: "BridgeKeeper \<Rightarrow> bool" where
  "nonces_inv k \<longleftrightarrow>
     map (\<lambda>w. ci_Nonce (wr_Identity w)) (bk_withdrawals k) = map (\<lambda>n. word_of_nat (n + 1)) [0..<length (bk_withdrawals k)]
     \<and> bk_nextWithdrawalNonce k = word_of_nat (length (bk_withdrawals k) + 1)"

lemma nonces_inv_cong:
  "bk_withdrawals k' = bk_withdrawals k \<Longrightarrow> bk_nextWithdrawalNonce k' = bk_nextWithdrawalNonce k \<Longrightarrow>
     nonces_inv k' \<longleftrightarrow> nonces_inv k"
  by (simp add: nonces_inv_def)

lemma nonces_inv_deposit:
  assumes "bridge_inv k" "nonces_inv k"
  shows "nonces_inv (fst (bridge_ExecuteDepositClaim cr k claim att))"
  by (cases rule: deposit_cases [OF assms(1), of cr claim att]) (use assms(2) in \<open>simp_all add: nonces_inv_def\<close>)

lemma nonces_inv_withdraw:
  assumes "bridge_inv k" "nonces_inv k"
  shows "nonces_inv (fst (bridge_ExecuteWithdrawal k i amount r dl sig))"
  by (cases rule: withdraw_cases [OF assms(1), of i amount r dl sig])
     (use assms(2) in \<open>simp_all add: nonces_inv_def withdraw_state_def\<close>)

lemma nonces_inv_step:
  assumes "bridge_inv k" "nonces_inv k" "bridge_step cr k k'"
  shows "nonces_inv k'"
  using assms(3)
proof cases
  case (deposit claim att)
  then show ?thesis using nonces_inv_deposit [OF assms(1,2)] by simp
next
  case (withdraw assetID amount recipient deadline signature)
  then show ?thesis using nonces_inv_withdraw [OF assms(1,2)] by simp
next
  case check
  then show ?thesis using assms(2) by (simp add: bridge_inv_check [OF assms(1)])
next
  case (signers s)
  then show ?thesis using assms(2) by (simp add: bridge_UpsertSignerSet_def nonces_inv_def split: option.split)
qed (use assms(2) in \<open>simp_all add: nonces_inv_def bridge_SetCurrentHeight_def\<close>)

interpretation nonces: transition_system bridge_init "bridge_step cr" "\<lambda>k. bridge_inv k \<and> nonces_inv k" for cr
proof unfold_locales
  fix k assume "bridge_init k"
  then show "bridge_inv k \<and> nonces_inv k"
    by (auto simp: bridge_init_inv) (auto simp: bridge_init_def nonces_inv_def bridge_NewKeeper_def Let_def)
qed (use bridge_inv_step nonces_inv_step in blast)

section \<open>A concrete bridge\<close>

text \<open>A toy signature scheme in which a signature names its key: keys and addresses are the key bytes.
  It has the properties that the code relies on and lets the definitions compute.\<close>

definition example_crypto :: "(string, string) crypto" where
  "example_crypto =
     \<lparr>cr_Keccak256 = (\<lambda>data. data),
      cr_RecoverCompact = (\<lambda>sig digest. if sig = [] then None else Some (drop 1 sig)),
      cr_SerializeUncompressed = (\<lambda>pk. CHR ''*'' # pk),
      cr_PrivKeyFromBytes = (\<lambda>bs. bs),
      cr_IsZero = (\<lambda>sk. sk = []),
      cr_PubKey = (\<lambda>sk. sk),
      cr_SignCompact = (\<lambda>sk digest. CHR ''*'' # sk)\<rparr>"

definition example_asset :: Asset where
  "example_asset =
     \<lparr>as_AssetID = ''eth'', as_SourceChainID = ''11155111'', as_SourceAssetKind = ''native_eth'',
      as_SourceAssetAddress = [], as_SourceContract = [], as_Denom = ''ueth'', as_DestinationDenom = ''ueth'',
      as_Decimals = 18, as_DisplayName = ''Ether'', as_DisplaySymbol = ''ETH'', as_Enabled = True\<rparr>"

definition example_bridge :: BridgeKeeper where
  "example_bridge =
     (bridge_NewKeeper \<lparr>rk_assets = [(''eth'', example_asset)]\<rparr> example_limits pauser_NewKeeper [''0x62'', ''0x61''] 2)
       \<lparr>bk_currentHeight := 5\<rparr>"

definition example_identity :: ClaimIdentity where
  "example_identity =
     (let i = \<lparr>ci_Kind = ''deposit'', ci_SourceAssetKind = ''native_eth'', ci_SourceChainID = ''11155111'',
               ci_SourceContract = [], ci_SourceTxHash = ''0xab'', ci_SourceLogIndex = 0, ci_Nonce = 1, ci_MessageID = []\<rparr>
      in i\<lparr>ci_MessageID := DerivedMessageID i\<rparr>)"

definition example_claim :: DepositClaim where
  "example_claim =
     \<lparr>dc_Identity = example_identity, dc_DestinationChainID = ''aegislink-1'', dc_AssetID = ''eth'',
      dc_Amount = Some 40, dc_Recipient = ''alice'', dc_Deadline = 100\<rparr>"

definition example_attestation :: Attestation where
  "example_attestation =
     \<lparr>att_MessageID = ci_MessageID example_identity, att_PayloadHash = deposit_Digest example_claim,
      att_Signers = [],
      att_Proofs = [\<lparr>pf_Signer = ''0x61'', pf_Signature = ''*a''\<rparr>, \<lparr>pf_Signer = ''0x62'', pf_Signature = ''*b''\<rparr>],
      att_Threshold = 2, att_Expiry = 100, att_SignerSetVersion = 1\<rparr>"

lemma example_asset_stored: "stored_asset ''eth'' example_asset"
proof -
  have "deriveDestinationDenom example_asset = ''ueth''" by code_simp
  then show ?thesis
    by (simp add: stored_asset_def asset_ValidateBasic_def go_eval) (simp add: example_asset_def go_eval)
qed

lemma example_registry_inv: "registry_inv \<lparr>rk_assets = [(''eth'', example_asset)]\<rparr>"
  by (simp add: registry_inv_def example_asset_stored)

lemma example_bridge_inv: "bridge_inv example_bridge"
proof -
  have "bridge_init (bridge_NewKeeper \<lparr>rk_assets = [(''eth'', example_asset)]\<rparr> example_limits pauser_NewKeeper [''0x62'', ''0x61''] 2)"
    unfolding bridge_init_def using example_registry_inv example_limits_inv pauser_inv_New by blast
  from bridge_inv_step [OF bridge_init_inv [OF this] bridge_step.height [of example_crypto _ 5]]
  show ?thesis by (simp add: example_bridge_def bridge_SetCurrentHeight_def)
qed

lemma example_identity_MessageID: "ci_MessageID example_identity = DerivedMessageID example_identity"
  by (simp add: example_identity_def Let_def DerivedMessageID_def)

lemma example_identity_fields:
  "ci_Kind example_identity = ''deposit''" "ci_SourceAssetKind example_identity = ''native_eth''"
  "ci_SourceChainID example_identity = ''11155111''" "ci_SourceTxHash example_identity = ''0xab''"
  by (simp_all add: example_identity_def Let_def)

lemma example_claim_valid: "deposit_ValidateBasic example_claim = None"
  by (simp add: deposit_ValidateBasic_def identity_ValidateBasic_def example_claim_def example_identity_fields
      example_identity_MessageID not_positive_def Let_def go_eval)

lemma example_addresses:
  "SignerAddressFromPublicKey example_crypto ''a'' = ''0x61''"
  "SignerAddressFromPublicKey example_crypto ''b'' = ''0x62''"
  by code_simp+

lemma deposit_Digest_trim [simp]: "TrimSpace (deposit_Digest c) = deposit_Digest c" "deposit_Digest c \<noteq> []"
  by (simp_all add: deposit_Digest_bytes)

lemma example_active: "bridge_ActiveSignerSet example_bridge =
    Inr \<lparr>ss_Version = 1, ss_Signers = [''0x61'', ''0x62''], ss_Threshold = 2, ss_ActivatedAt = 0, ss_ExpiresAt = 0\<rparr>"
proof -
  have "sort (map NormalizeSignerAddress [''0x62'', ''0x61'']) = [''0x61'', ''0x62'']" by code_simp
  then show ?thesis
    by (simp add: bridge_ActiveSignerSet_def example_bridge_def bridge_NewKeeper_def set_active_at_def
        normalizeSignerSet_def Let_def)
qed

lemma example_envelope: "validateEnvelope example_attestation = None"
  by (simp add: validateEnvelope_def example_attestation_def example_identity_MessageID go_eval)

lemma example_proofs:
  "verifyProof example_crypto \<lparr>pf_Signer = ''0x61'', pf_Signature = ''*a''\<rparr> d = Inr ''0x61''"
  "verifyProof example_crypto \<lparr>pf_Signer = ''0x62'', pf_Signature = ''*b''\<rparr> d = Inr ''0x62''"
  by (simp_all add: verifyProof_def Let_def example_crypto_def [THEN arg_cong, of cr_RecoverCompact]
      example_addresses NormalizeSignerAddress_def go_eval)

lemma example_verified: "verifyDepositClaim example_crypto example_bridge example_claim example_attestation = None"
proof -
  have norm: "NormalizeSignerAddress ''0x61'' = ''0x61''" "NormalizeSignerAddress ''0x62'' = ''0x62''"
    by (simp_all add: NormalizeSignerAddress_def go_eval)
  have basic: "attestation_ValidateBasic example_attestation = None"
    by (simp add: attestation_ValidateBasic_def example_envelope)
       (simp add: example_attestation_def maxProofsPerAttestation_def Let_def go_eval)
  show ?thesis
    unfolding verifyDepositClaim_def basic example_active SigningDigest_def example_envelope
    by (simp add: Let_def) (simp add: example_attestation_def example_claim_def example_bridge_def bridge_NewKeeper_def
        Let_def example_proofs norm)
qed

lemma example_deposit_guards:
  "deposit_guards example_crypto example_bridge example_claim example_attestation example_asset"
proof -
  have "registry_GetAsset (bk_registry example_bridge) (dc_AssetID example_claim) = Some example_asset"
    by (simp add: example_bridge_def bridge_NewKeeper_def example_claim_def registry_GetAsset_def assetKey_def Let_def go_eval)
  moreover have "limits_CheckTransferAtHeight (bk_limits example_bridge) ''eth'' (Some 40) 5 = None"
    by (simp add: example_bridge_def bridge_NewKeeper_def Let_def limits_CheckTransferAtHeight_def
        example_limits_get(1) activeUsage_window) (simp add: example_limits_def usage_at_def zeroUsage_def window_roll_def cloneBigInt_def)
  moreover have "\<not> pauser_IsPaused (bk_pauser example_bridge) ''eth''"
    by (simp add: example_bridge_def bridge_NewKeeper_def Let_def pauser_IsPaused_def pauser_NewKeeper_def split: sum.split)
  moreover have "map_of (bk_processedClaims example_bridge) key = None" "as_Enabled example_asset"
    "bk_currentHeight example_bridge = 5" for key
    by (simp_all add: example_bridge_def bridge_NewKeeper_def example_asset_def Let_def)
  ultimately show ?thesis
    using example_claim_valid example_verified
    by (simp add: deposit_guards_def) (simp add: example_claim_def)
qed

section \<open>Properties\<close>

text \<open> two claim identities have the same replay key exactly when they
  agree on all their fields, up to surrounding white space and up to the two spellings of the ERC-20
  asset kind. The hypothesis is collision resistance of SHA-256, needed only for the two byte
  strings that are hashed.\<close>

theorem replay_key_identifies_claim:
  assumes "Sum256 (identity_bytes a) = Sum256 (identity_bytes b) \<Longrightarrow> identity_bytes a = identity_bytes b"
  shows "identity_ReplayKey a = identity_ReplayKey b \<longleftrightarrow> same_identity a b"
proof
  assume "identity_ReplayKey a = identity_ReplayKey b"
  then show "same_identity a b"
    using assms by (simp add: identity_ReplayKey_def DerivedMessageID_bytes identity_bytes_eq_iff)
qed (simp add: identity_ReplayKey_def DerivedMessageID_cong)

theorem replay_key_identifies_claim_witness:
  "identity_ReplayKey (example_identity\<lparr>ci_SourceChainID := '' 11155111''\<rparr>) = identity_ReplayKey example_identity
   \<longleftrightarrow> same_identity (example_identity\<lparr>ci_SourceChainID := '' 11155111''\<rparr>) example_identity"
proof (rule replay_key_identifies_claim)
  have "TrimSpace '' 11155111'' = ''11155111''" by code_simp
  then have "same_identity (example_identity\<lparr>ci_SourceChainID := '' 11155111''\<rparr>) example_identity"
    by (simp add: same_identity_def example_identity_fields go_eval)
  then show "identity_bytes (example_identity\<lparr>ci_SourceChainID := '' 11155111''\<rparr>) = identity_bytes example_identity"
    by (simp add: identity_bytes_eq_iff)
qed

text \<open>C36: two deposit claims have the same digest exactly when they have the
  same identity, destination chain, asset, recipient (all up to surrounding white space), amount and
  deadline, again given that SHA-256 does not collide on the two encodings.\<close>

theorem claim_digest_binds_payload:
  assumes "Sum256 (deposit_bytes a) = Sum256 (deposit_bytes b) \<Longrightarrow> deposit_bytes a = deposit_bytes b"
  shows "deposit_Digest a = deposit_Digest b \<longleftrightarrow>
     same_identity (dc_Identity a) (dc_Identity b)
     \<and> TrimSpace (dc_DestinationChainID a) = TrimSpace (dc_DestinationChainID b)
     \<and> TrimSpace (dc_AssetID a) = TrimSpace (dc_AssetID b)
     \<and> dc_Amount a = dc_Amount b
     \<and> TrimSpace (dc_Recipient a) = TrimSpace (dc_Recipient b)
     \<and> dc_Deadline a = dc_Deadline b"
proof -
  have "deposit_bytes a = deposit_bytes b \<longleftrightarrow>
     same_identity (dc_Identity a) (dc_Identity b)
     \<and> TrimSpace (dc_DestinationChainID a) = TrimSpace (dc_DestinationChainID b)
     \<and> TrimSpace (dc_AssetID a) = TrimSpace (dc_AssetID b) \<and> dc_Amount a = dc_Amount b
     \<and> TrimSpace (dc_Recipient a) = TrimSpace (dc_Recipient b) \<and> dc_Deadline a = dc_Deadline b"
    unfolding deposit_bytes_def canonicalClaimBytes_def Let_def identity_bytes_def [symmetric]
    by (simp add: identity_bytes_append_inject)
  with assms show ?thesis by (auto simp: deposit_Digest_bytes)
qed

theorem claim_digest_binds_payload_witness:
  "deposit_Digest (example_claim\<lparr>dc_Recipient := ''alice ''\<rparr>) = deposit_Digest example_claim"
proof -
  have t: "TrimSpace ''alice '' = ''alice''" by code_simp
  have same: "same_identity i i" for i by (simp add: same_identity_def)
  have "deposit_bytes (example_claim\<lparr>dc_Recipient := ''alice ''\<rparr>) = deposit_bytes example_claim"
    by (simp add: deposit_bytes_def canonicalClaimBytes_def Let_def writeCanonicalString_def [of "''alice ''"]
        writeCanonicalString_def [of "''alice''"] example_claim_def t go_eval)
  from claim_digest_binds_payload [OF this] same show ?thesis
    by (simp add: t) (simp add: example_claim_def go_eval)
qed

text \<open>C37: the payload that signers sign determines the message id, the
  payload hash (without regard to case), the threshold, the expiry and the signer set version of the
  attestation; no two different attestations share it.\<close>

theorem signing_payload_binds_attestation:
  "signing_payload a = signing_payload b \<longleftrightarrow>
     TrimSpace (att_MessageID a) = TrimSpace (att_MessageID b)
     \<and> ToLower (TrimSpace (att_PayloadHash a)) = ToLower (TrimSpace (att_PayloadHash b))
     \<and> att_Threshold a = att_Threshold b \<and> att_Expiry a = att_Expiry b
     \<and> att_SignerSetVersion a = att_SignerSetVersion b"
  unfolding signing_payload_def
  by (subst join_encode_inject) (simp_all add: signing_fields_def)

text \<open>What the code relies on from the secp256k1 package: a compact signature is not empty, and recovering
  from it and the signed digest gives the public key of the signing key.\<close>

definition crypto_recovers :: "('pk, 'sk) crypto \<Rightarrow> bool" where
  "crypto_recovers cr \<longleftrightarrow>
     (\<forall>sk d. cr_SignCompact cr sk d \<noteq> [] \<and> cr_RecoverCompact cr (cr_SignCompact cr sk d) d = Some (cr_PubKey cr sk))"

text \<open>C38: a proof made by \<^verbatim>\<open>SignAttestationWithPrivateKeyHex\<close> passes the
  keeper's proof verification, which recovers the address of the signing key.\<close>

theorem signed_attestation_verifies:
  assumes "crypto_recovers cr" "SignAttestationWithPrivateKeyHex cr att key = Inr proof"
  shows "\<exists>digest. SigningDigest cr att = Inr digest \<and> verifyProof cr proof digest = Inr (pf_Signer proof)
           \<and> SignerAddressFromPrivateKeyHex cr key = Inr (pf_Signer proof)"
  using assms
  by (auto simp: SignAttestationWithPrivateKeyHex_def SignerAddressFromPrivateKeyHex_def crypto_recovers_def
      verifyProof_def Let_def split: sum.splits)

theorem signed_attestation_verifies_witness:
  "\<exists>digest. SigningDigest example_crypto example_attestation = Inr digest
     \<and> verifyProof example_crypto \<lparr>pf_Signer = ''0x61'', pf_Signature = ''*a''\<rparr> digest = Inr ''0x61''"
proof -
  have ok: "crypto_recovers example_crypto" by (simp add: crypto_recovers_def example_crypto_def)
  have key: "parsePrivateKeyHex example_crypto ''0x61'' = Inr ''a''" by code_simp
  have "SignAttestationWithPrivateKeyHex example_crypto example_attestation ''0x61''
      = Inr \<lparr>pf_Signer = SignerAddressFromPublicKey example_crypto ''a'', pf_Signature = ''*a''\<rparr>"
    by (simp add: SignAttestationWithPrivateKeyHex_def SigningDigest_def example_envelope key)
       (simp add: example_crypto_def)
  from signed_attestation_verifies [OF ok this [unfolded example_addresses]] show ?thesis by auto
qed

text \<open>C29: when no withdrawal has a negative amount, \<^verbatim>\<open>CheckAccountingInvariant\<close>
  returns nil, with an unchanged keeper, exactly when every withdrawal has a registered asset and for every denom
  the recorded supply is the accepted claims minus the withdrawals, which is not negative;
  otherwise it trips the circuit breaker and records the error.\<close>

theorem accounting_check_decides:
  assumes "gomap_wf (bk_supplyByDenom k)" "\<forall>w \<in> set (bk_withdrawals k). 0 \<le> wr_Amount w"
  shows "if accounting_holds k then bridge_CheckAccountingInvariant k = (k, None)
         else \<exists>detail. bridge_CheckAccountingInvariant k =
            (k\<lparr>bk_circuitBreakerTripped := True, bk_lastInvariantError := accounting_error_text detail\<rparr>,
             Some (ErrAccountingInvariantBroken detail))"
  using accounting_failure_None [OF assms]
  by (auto simp: bridge_CheckAccountingInvariant_def tripCircuit_def)

theorem accounting_check_decides_witness:
  "snd (bridge_CheckAccountingInvariant (example_bridge\<lparr>bk_supplyByDenom := [(''ueth'', 1)]\<rparr>)) \<noteq> None"
proof -
  let ?k = "example_bridge\<lparr>bk_supplyByDenom := [(''ueth'', 1)]\<rparr>"
  have e: "bk_withdrawals example_bridge = []" "bk_processedClaims example_bridge = []"
    by (simp_all add: example_bridge_def bridge_NewKeeper_def Let_def)
  have "\<not> accounting_holds ?k"
    by (auto simp: accounting_holds_def bridge_SupplyForDenom_def claims_sum_def e intro!: exI [of _ "''ueth''"])
  with accounting_check_decides [of ?k] e show ?thesis by auto
qed

text \<open>C13: in every state reached from a new keeper by deposits, withdrawals,
  height, signer set, registry, limit and pause operations, the circuit breaker is closed, the
  accounting check succeeds, and the supply of every denom is the sum of the accepted claims minus the
  sum of the withdrawals and not negative.\<close>

theorem bridge_breaker_never_trips:
  assumes "reachable bridge_init (bridge_step cr) k"
  shows "\<not> bk_circuitBreakerTripped k \<and> bridge_CheckAccountingInvariant k = (k, None)
    \<and> bridge_SupplyForDenom k d
        = claims_sum (bk_processedClaims k) d - withdrawn_sum (bk_registry k) (bk_withdrawals k) d
    \<and> 0 \<le> bridge_SupplyForDenom k d"
proof -
  have "bridge_inv k" by (rule bridge.reachable_inv [OF assms])
  then show ?thesis
    by (auto simp: bridge_inv_def ledger_ok_check ledger_ok_nonneg) (simp add: ledger_ok_def)
qed

lemma example_reachable: "reachable bridge_init (bridge_step example_crypto) example_bridge"
proof -
  let ?k = "bridge_NewKeeper \<lparr>rk_assets = [(''eth'', example_asset)]\<rparr> example_limits pauser_NewKeeper [''0x62'', ''0x61''] 2"
  have "bridge_init ?k"
    unfolding bridge_init_def using example_registry_inv example_limits_inv pauser_inv_New by blast
  then have "reachable bridge_init (bridge_step example_crypto) ?k" by (rule reachable.start)
  from reachable.next_state [OF this bridge_step.height [of example_crypto _ 5]]
  show ?thesis by (simp add: example_bridge_def bridge_SetCurrentHeight_def)
qed

theorem bridge_breaker_never_trips_witness:
  "bridge_CheckAccountingInvariant (deposit_state example_bridge example_claim example_asset)
     = (deposit_state example_bridge example_claim example_asset, None)"
proof -
  have "reachable bridge_init (bridge_step example_crypto)
      (fst (bridge_ExecuteDepositClaim example_crypto example_bridge example_claim example_attestation))"
    by (rule reachable.next_state [OF example_reachable bridge_step.deposit])
  from bridge_breaker_never_trips [OF this] show ?thesis
    by (simp add: deposit_accept [OF example_bridge_inv example_deposit_guards])
qed

text \<open>C3: once the keeper has accepted a claim, every later submission of a
  claim with the same identity, in any state that any operations lead to and with any attestation,
  is refused, and changes nothing but the count of rejected claims.\<close>

theorem accepted_claim_never_accepted_again:
  assumes "bridge_inv k" "bridge_ExecuteDepositClaim cr k claim att = (k1, res, None)"
    and "steps (bridge_step cr) k1 k2" "same_identity (dc_Identity claim') (dc_Identity claim)"
  shows "snd (snd (bridge_ExecuteDepositClaim cr k2 claim' att')) =
           Some (case deposit_ValidateBasic claim' of Some e \<Rightarrow> BridgeTypesError e | None \<Rightarrow> ErrDuplicateClaim)
         \<and> fst (bridge_ExecuteDepositClaim cr k2 claim' att') = k2\<lparr>bk_rejectedClaims := bk_rejectedClaims k2 + 1\<rparr>"
proof -
  have inv1: "bridge_inv k1" using bridge_inv_deposit [OF assms(1), of cr claim att] assms(2) by simp
  have inv2: "bridge_inv k2" by (rule bridge.steps_inv [OF assms(3) inv1])
  have key: "identity_ReplayKey (dc_Identity claim') = identity_ReplayKey (dc_Identity claim)"
    using DerivedMessageID_cong [OF assms(4)] by (simp add: identity_ReplayKey_def)
  have "map_of (bk_processedClaims k1) (identity_ReplayKey (dc_Identity claim)) \<noteq> None"
    using assms(2) by (cases rule: deposit_cases [OF assms(1), of cr claim att]) (simp_all add: deposit_state_claims)
  then have dup: "map_of (bk_processedClaims k2) (identity_ReplayKey (dc_Identity claim')) \<noteq> None"
    using claims_grow_steps [OF assms(3) inv1] key by (auto simp: claims_grow_def)
  show ?thesis
  proof (cases "deposit_ValidateBasic claim'")
    case None
    with dup inv2 show ?thesis by (simp add: deposit_duplicate bridge_inv_def)
  next
    case (Some e)
    with inv2 show ?thesis
      by (simp add: bridge_ExecuteDepositClaim_def ensureCircuitHealthy_def bridge_inv_def Let_def)
  qed
qed

theorem accepted_claim_never_accepted_again_witness:
  "snd (snd (bridge_ExecuteDepositClaim example_crypto (deposit_state example_bridge example_claim example_asset)
       example_claim example_attestation)) = Some ErrDuplicateClaim"
  using accepted_claim_never_accepted_again [OF example_bridge_inv
      deposit_accept [OF example_bridge_inv example_deposit_guards] steps.none, of example_claim example_attestation]
  by (simp add: same_identity_def example_claim_valid)

text \<open>C4: when a deposit is accepted, the attestation names the claim's message id
  and digest, neither deadline nor expiry has passed, its signer set version is that of the active set, and at least
  the active threshold of distinct members of the active set have each signed the digest of the
  attestation with a signature that recovers to their address.\<close>

theorem mint_requires_quorum:
  assumes "bridge_inv k" "snd (snd (bridge_ExecuteDepositClaim cr k claim att)) = None"
  shows "\<exists>s digest S. bridge_ActiveSignerSet k = Inr s \<and> SigningDigest cr att = Inr digest
    \<and> att_MessageID att = ci_MessageID (dc_Identity claim) \<and> att_PayloadHash att = deposit_Digest claim
    \<and> bk_currentHeight k \<le> dc_Deadline claim \<and> bk_currentHeight k \<le> att_Expiry att
    \<and> att_SignerSetVersion att = ss_Version s
    \<and> finite S \<and> unat (ss_Threshold s) \<le> card S \<and> S \<subseteq> NormalizeSignerAddress ` set (ss_Signers s)
    \<and> (\<forall>signer \<in> S. \<exists>p \<in> set (att_Proofs att). \<exists>pk. NormalizeSignerAddress (pf_Signer p) = signer
          \<and> cr_RecoverCompact cr (pf_Signature p) digest = Some pk \<and> SignerAddressFromPublicKey cr pk = signer)"
proof (cases rule: deposit_cases [OF assms(1), of cr claim att])
  case (1 asset)
  then have "verifyDepositClaim cr k claim att = None" by (simp add: deposit_guards_def)
  from quorum_of_verified [OF this] obtain s digest where
    *: "bridge_ActiveSignerSet k = Inr s" "SigningDigest cr att = Inr digest"
    "att_MessageID att = ci_MessageID (dc_Identity claim)" "att_PayloadHash att = deposit_Digest claim"
    "bk_currentHeight k \<le> dc_Deadline claim" "bk_currentHeight k \<le> att_Expiry att"
    "att_SignerSetVersion att = ss_Version s"
    "unat (ss_Threshold s) \<le> card (verified_signers cr digest (att_Proofs att) \<inter> NormalizeSignerAddress ` set (ss_Signers s))"
    by blast
  show ?thesis
    by (intro exI [of _ s] exI [of _ digest]
        exI [of _ "verified_signers cr digest (att_Proofs att) \<inter> NormalizeSignerAddress ` set (ss_Signers s)"])
       (use * in \<open>auto simp: verified_signers_def verifyProof_Inr\<close>)
next
  case (2 e)
  with assms(2) show ?thesis by simp
qed

theorem mint_requires_quorum_witness:
  "\<exists>s digest S. bridge_ActiveSignerSet example_bridge = Inr s
     \<and> SigningDigest example_crypto example_attestation = Inr digest \<and> unat (ss_Threshold s) \<le> card (S :: string set)"
  using mint_requires_quorum [OF example_bridge_inv, of example_crypto example_claim example_attestation]
    deposit_accept [OF example_bridge_inv example_deposit_guards]
  by auto

text \<open> \<^verbatim>\<open>ActiveSignerSet\<close> returns a stored set that is active at the current
  height and has the highest version among those, or an error when there is none; the
  result is the same for every iteration order of the map.\<close>

theorem active_signer_set_is_highest:
  assumes "signer_sets_inv k"
  shows "(case bridge_ActiveSignerSet k of
      Inl e \<Rightarrow> e = ErrSignerSetInactive \<and> (\<forall>(v, s) \<in> set (bk_signerSets k). \<not> set_active_at (bk_currentHeight k) s)
    | Inr m \<Rightarrow> (ss_Version m, m) \<in> set (bk_signerSets k) \<and> set_active_at (bk_currentHeight k) m
        \<and> (\<forall>(v, s) \<in> set (bk_signerSets k). set_active_at (bk_currentHeight k) s \<longrightarrow> v \<le> ss_Version m))
    \<and> (set sets = set (bk_signerSets k) \<longrightarrow>
      bridge_ActiveSignerSet (k\<lparr>bk_signerSets := sets\<rparr>) = bridge_ActiveSignerSet k)"
proof (intro conjI impI)
  have ver: "v = ss_Version s" if "(v, s) \<in> set (bk_signerSets k)" for v s
    using assms that by (auto simp: signer_sets_inv_def)
  have best: "best_set (bk_currentHeight k) (snd ` set (bk_signerSets k)) None
      (pick_active (bk_currentHeight k) (bk_signerSets k) None)" by (rule pick_active_best)
  then show "case bridge_ActiveSignerSet k of
      Inl e \<Rightarrow> e = ErrSignerSetInactive \<and> (\<forall>(v, s) \<in> set (bk_signerSets k). \<not> set_active_at (bk_currentHeight k) s)
    | Inr m \<Rightarrow> (ss_Version m, m) \<in> set (bk_signerSets k) \<and> set_active_at (bk_currentHeight k) m
        \<and> (\<forall>(v, s) \<in> set (bk_signerSets k). set_active_at (bk_currentHeight k) s \<longrightarrow> v \<le> ss_Version m)"
    using ver by (force simp: bridge_ActiveSignerSet_def best_set_def split: option.splits)
  assume sets: "set sets = set (bk_signerSets k)"
  have inj: "s = t" if "s \<in> snd ` set (bk_signerSets k)" "t \<in> snd ` set (bk_signerSets k)" "ss_Version s = ss_Version t" for s t
  proof -
    from that obtain v w where in_sets: "(v, s) \<in> set (bk_signerSets k)" "(w, t) \<in> set (bk_signerSets k)" by auto
    have d: "distinct (map fst (bk_signerSets k))" using assms by (simp add: signer_sets_inv_def gomap_wf_def)
    have "(v, t) \<in> set (bk_signerSets k)"
      using in_sets(2) unfolding ver [OF in_sets(1)] ver [OF in_sets(2)] that(3) .
    from eq_key_imp_eq_value [OF d in_sets(1) this] show ?thesis .
  qed
  have "best_set (bk_currentHeight k) (snd ` set (bk_signerSets k)) None (pick_active (bk_currentHeight k) sets None)"
    using pick_active_best [of "bk_currentHeight k" sets None] by (simp add: sets)
  then have "pick_active (bk_currentHeight k) sets None = pick_active (bk_currentHeight k) (bk_signerSets k) None"
    by (rule best_set_unique [OF _ best inj])
  then show "bridge_ActiveSignerSet (k\<lparr>bk_signerSets := sets\<rparr>) = bridge_ActiveSignerSet k"
    by (simp add: bridge_ActiveSignerSet_def)
qed

lemma example_signer_sets_inv: "signer_sets_inv example_bridge"
  using normalizeSignerSet_fixed by (simp add: signer_sets_inv_def example_bridge_def bridge_NewKeeper_def Let_def)

theorem active_signer_set_is_highest_witness:
  "(1, \<lparr>ss_Version = 1, ss_Signers = [''0x61'', ''0x62''], ss_Threshold = 2, ss_ActivatedAt = 0, ss_ExpiresAt = 0\<rparr>)
     \<in> set (bk_signerSets example_bridge)"
  using active_signer_set_is_highest [OF example_signer_sets_inv, of "bk_signerSets example_bridge"]
  by (simp add: example_active)

text \<open>C30: a deposit either is accepted, and then mints exactly the claimed amount of the
  asset's denom, stores the claim under its replay key, uses up the rate limit and changes
  nothing else, or it is refused with an error and only counts as rejected. It is accepted exactly
  when all its guards hold.\<close>

theorem deposit_effect:
  assumes "bridge_inv k"
  shows "case bridge_ExecuteDepositClaim cr k claim att of
      (k', res, None) \<Rightarrow>
        (\<exists>asset v. deposit_guards cr k claim att asset \<and> dc_Amount claim = Some v \<and> 0 < v
          \<and> res = \<lparr>res_Status = ClaimStatusAccepted, res_MessageID = ci_MessageID (dc_Identity claim),
                   res_Denom = bridgeDenomForAsset asset, res_Amount = Some v\<rparr>
          \<and> (\<forall>d. bridge_SupplyForDenom k' d = bridge_SupplyForDenom k d + (if d = bridgeDenomForAsset asset then v else 0))
          \<and> map_of (bk_processedClaims k') (identity_ReplayKey (dc_Identity claim))
              = Some \<lparr>cl_MessageID = ci_MessageID (dc_Identity claim), cl_SourceTxHash = ci_SourceTxHash (dc_Identity claim),
                      cl_Denom = bridgeDenomForAsset asset, cl_AssetID = dc_AssetID claim,
                      cl_Recipient = dc_Recipient claim, cl_Amount = v, cl_Status = ClaimStatusAccepted\<rparr>
          \<and> (\<forall>key. key \<noteq> identity_ReplayKey (dc_Identity claim) \<longrightarrow>
                 map_of (bk_processedClaims k') key = map_of (bk_processedClaims k) key)
          \<and> bk_limits k' = fst (limits_RecordTransferAtHeight (bk_limits k) (dc_AssetID claim) (Some v) (bk_currentHeight k))
          \<and> bk_withdrawals k' = bk_withdrawals k \<and> bk_rejectedClaims k' = bk_rejectedClaims k)
    | (k', res, Some e) \<Rightarrow>
        (\<nexists>asset. deposit_guards cr k claim att asset)
        \<and> k' = k\<lparr>bk_rejectedClaims := bk_rejectedClaims k + 1\<rparr> \<and> res_Status res = ClaimStatusRejected"
proof (cases "\<exists>asset. deposit_guards cr k claim att asset")
  case True
  then obtain asset where g: "deposit_guards cr k claim att asset" ..
  then obtain v where v: "dc_Amount claim = Some v" "0 < v"
    using deposit_ValidateBasic_None(3) by (auto simp: deposit_guards_def)
  show ?thesis
    by (simp add: deposit_accept [OF assms g], intro exI [of _ asset])
       (simp add: g v deposit_state_supply deposit_state_claims cloneAmount_def)
next
  case False
  then obtain m e where "bridge_ExecuteDepositClaim cr k claim att = reject_claim k m e"
    using deposit_reject assms unfolding bridge_inv_def by blast
  with False show ?thesis by (simp add: reject_claim_def)
qed

theorem deposit_effect_witness:
  "bridge_SupplyForDenom (fst (bridge_ExecuteDepositClaim example_crypto example_bridge example_claim example_attestation)) ''ueth'' = 40"
proof -
  have "bridgeDenomForAsset example_asset = ''ueth''"
    by (simp add: bridgeDenomForAsset_def example_asset_def go_eval)
  moreover have "bridge_SupplyForDenom example_bridge ''ueth'' = 0"
    by (simp add: bridge_SupplyForDenom_def example_bridge_def bridge_NewKeeper_def Let_def)
  moreover have "asset = example_asset"
    if "deposit_guards example_crypto example_bridge example_claim example_attestation asset" for asset
    using that example_deposit_guards by (simp add: deposit_guards_def)
  ultimately show ?thesis
    using deposit_effect [OF example_bridge_inv, of example_crypto example_claim example_attestation]
      deposit_accept [OF example_bridge_inv example_deposit_guards]
    by (auto simp: example_claim_def)
qed

text \<open>C31: a withdrawal that succeeds passed all guards, burns exactly the amount, appends one
  record with the next nonce, the current height and the trimmed recipient, and uses up the rate limit; one
  that the supply does not cover fails and keeps only its use of the rate limit; any other
  failure leaves the keeper as it was.\<close>

theorem withdrawal_effect:
  assumes "bridge_inv k"
  shows "case bridge_ExecuteWithdrawal k assetID amount recipient deadline signature of
      (k', Inr w) \<Rightarrow>
        (\<exists>asset v. withdraw_guards k assetID amount recipient deadline signature asset v
          \<and> v \<le> bridge_SupplyForDenom k (bridgeDenomForAsset asset)
          \<and> (\<forall>d. bridge_SupplyForDenom k' d = bridge_SupplyForDenom k d - (if d = bridgeDenomForAsset asset then v else 0))
          \<and> bk_withdrawals k' = bk_withdrawals k @ [w]
          \<and> wr_Amount w = v \<and> wr_Recipient w = TrimSpace recipient \<and> wr_AssetID w = TrimSpace assetID
          \<and> wr_BlockHeight w = bk_currentHeight k \<and> ci_Nonce (wr_Identity w) = bk_nextWithdrawalNonce k
          \<and> bk_nextWithdrawalNonce k' = bk_nextWithdrawalNonce k + 1
          \<and> bk_limits k' = fst (limits_RecordTransferAtHeight (bk_limits k) assetID (Some v) (bk_currentHeight k))
          \<and> bk_processedClaims k' = bk_processedClaims k)
    | (k', Inl e) \<Rightarrow>
        if e = ErrInsufficientSupply
        then \<exists>v. amount = Some v \<and> k' = k\<lparr>bk_limits := fst (limits_RecordTransferAtHeight (bk_limits k) assetID (Some v) (bk_currentHeight k))\<rparr>
        else k' = k"
proof (cases rule: withdraw_cases [OF assms, of assetID amount recipient deadline signature])
  case (1 asset v)
  have "bridge_SupplyForDenom (withdraw_state k assetID v recipient deadline signature asset) d
      = bridge_SupplyForDenom k d - (if d = bridgeDenomForAsset asset then v else 0)" for d
    by (simp add: withdraw_state_def bridge_SupplyForDenom_def gomap_simps)
  with 1 show ?thesis
    by (simp, intro exI [of _ asset] exI [of _ v]) (simp add: withdraw_state_def withdraw_limited_def)
next
  case (2 asset v)
  then show ?thesis by (auto simp: withdraw_limited_def withdraw_guards_def)
next
  case (3 e)
  then show ?thesis by simp
qed

lemma example_funded_inv: "bridge_inv (deposit_state example_bridge example_claim example_asset)"
  using bridge_inv_deposit [OF example_bridge_inv, of example_crypto example_claim example_attestation]
  by (simp add: deposit_accept [OF example_bridge_inv example_deposit_guards])

definition example_funded :: BridgeKeeper where
  "example_funded = deposit_state example_bridge example_claim example_asset"

lemma example_funded_simps:
  "bk_registry example_funded = \<lparr>rk_assets = [(''eth'', example_asset)]\<rparr>" "bk_pauser example_funded = pauser_NewKeeper"
  "bk_currentHeight example_funded = 5" "bk_withdrawals example_funded = []" "bk_nextWithdrawalNonce example_funded = 1"
  "\<not> bk_circuitBreakerTripped example_funded"
  by (simp_all add: example_funded_def) (simp_all add: example_bridge_def bridge_NewKeeper_def Let_def)

lemma example_funded_supply: "bridge_SupplyForDenom example_funded ''ueth'' = 40"
  by (simp add: example_funded_def deposit_state_supply)
     (simp add: bridge_SupplyForDenom_def example_bridge_def bridge_NewKeeper_def Let_def bridgeDenomForAsset_def
       example_asset_def example_claim_def cloneAmount_def go_eval)

lemma example_funded_window:
  "limits_GetLimit (bk_limits example_funded) ''eth'' = Some \<lparr>rl_AssetID = ''eth'', rl_WindowBlocks = 10, rl_MaxAmount = Some 100\<rparr>"
  "window_of (bk_limits example_funded) ''eth'' = (5, 40)"
proof -
  have lim: "bk_limits example_funded = fst (limits_RecordTransferAtHeight example_limits ''eth'' (Some 40) 5)"
    by (simp add: example_funded_def) (simp add: example_claim_def example_bridge_def bridge_NewKeeper_def Let_def)
  show "limits_GetLimit (bk_limits example_funded) ''eth'' = Some \<lparr>rl_AssetID = ''eth'', rl_WindowBlocks = 10, rl_MaxAmount = Some 100\<rparr>"
    unfolding lim by (simp add: example_limits_get)
  show "window_of (bk_limits example_funded) ''eth'' = (5, 40)"
    unfolding lim by (rule Record_window_accept(2) [OF example_limits_get(1), of 100])
      (simp_all add: example_limits_get(2) window_step_def window_roll_def)
qed

lemma example_withdraw_guards:
  assumes "0 < v" "v \<le> 60"
  shows "withdraw_guards example_funded ''eth'' (Some v) ''0xrecipient'' 50 ''s'' example_asset v"
proof -
  have "snd (limits_RecordTransferAtHeight (bk_limits example_funded) ''eth'' (Some v) 5) = None"
    by (rule Record_window_accept(1) [OF example_funded_window(1), of 100 _ _ "(5, 40 + v)"])
       (use assms in \<open>simp_all add: example_funded_window(2) window_step_def window_roll_def\<close>)
  then have "limits_CheckTransferAtHeight (bk_limits example_funded) ''eth'' (Some v) 5 = None"
    by (auto simp: limits_RecordTransferAtHeight_def split: option.splits)
  moreover have "\<not> isZeroHexAddress ''0xrecipient''"
    by (simp add: isZeroHexAddress_def Let_def go_eval)
  ultimately show ?thesis
    using assms by (simp add: withdraw_guards_def example_funded_simps registry_GetAsset_def assetKey_def
        pauser_IsPaused_def pauser_NewKeeper_def example_asset_def flowKey_def go_eval)
qed

lemma example_denom: "bridgeDenomForAsset example_asset = ''ueth''"
  by (simp add: bridgeDenomForAsset_def example_asset_def go_eval)

theorem withdrawal_effect_witness:
  "bridge_SupplyForDenom (fst (bridge_ExecuteWithdrawal example_funded ''eth'' (Some 15) ''0xrecipient'' 50 ''s'')) ''ueth'' = 25"
proof -
  have g: "withdraw_guards example_funded ''eth'' (Some 15) ''0xrecipient'' 50 ''s'' example_asset 15"
    by (rule example_withdraw_guards) simp_all
  have acc: "\<exists>w. snd (bridge_ExecuteWithdrawal example_funded ''eth'' (Some 15) ''0xrecipient'' 50 ''s'') = Inr w"
    using withdraw_accept [OF example_funded_inv [folded example_funded_def] g] example_funded_supply by (simp add: example_denom)
  have same: "asset = example_asset" "v = 15"
    if "withdraw_guards example_funded ''eth'' (Some 15) ''0xrecipient'' 50 ''s'' asset v" for asset v
    using that g by (simp_all add: withdraw_guards_def)
  from acc obtain k' w where kw: "bridge_ExecuteWithdrawal example_funded ''eth'' (Some 15) ''0xrecipient'' 50 ''s'' = (k', Inr w)"
    by (metis prod.collapse)
  from withdrawal_effect [OF example_funded_inv [folded example_funded_def], where assetID = "''eth''" and amount = "Some 15"
      and recipient = "''0xrecipient''" and deadline = 50 and signature = "''s''", unfolded kw]
  obtain asset v where "withdraw_guards example_funded ''eth'' (Some 15) ''0xrecipient'' 50 ''s'' asset v"
    "bridge_SupplyForDenom k' ''ueth''
       = bridge_SupplyForDenom example_funded ''ueth'' - (if ''ueth'' = bridgeDenomForAsset asset then v else 0)"
    by auto
  with same [of asset v] kw show ?thesis by (simp add: example_denom example_funded_supply)
qed

text \<open> a withdrawal that passes the guards but exceeds the supply fails with
  \<^verbatim>\<open>ErrInsufficientSupply\<close>, and the amount stays counted against the rate limit of the asset.\<close>

theorem short_withdrawal_consumes_quota:
  assumes "bridge_inv k" "withdraw_guards k assetID amount recipient deadline signature asset v"
    and "bridge_SupplyForDenom k (bridgeDenomForAsset asset) < v"
    and "limits_GetLimit (bk_limits k) assetID = Some l" "rl_MaxAmount l = Some m"
  shows "\<exists>k'. bridge_ExecuteWithdrawal k assetID amount recipient deadline signature = (k', Inl ErrInsufficientSupply)
    \<and> Some (window_of (bk_limits k') assetID)
        = window_step (rl_WindowBlocks l) m (window_of (bk_limits k) assetID) v (bk_currentHeight k)"
proof -
  have none: "snd (limits_RecordTransferAtHeight (bk_limits k) assetID (Some v) (bk_currentHeight k)) = None"
    using assms(2) Record_after_Check by (auto simp: withdraw_guards_def)
  show ?thesis
  proof (cases "window_step (rl_WindowBlocks l) m (window_of (bk_limits k) assetID) v (bk_currentHeight k)")
    case None
    with Record_window_reject(2) [OF assms(4,5) None] none show ?thesis by simp
  next
    case (Some w)
    with withdraw_short [OF assms(1-3)] Record_window_accept(2) [OF assms(4,5) Some] show ?thesis
      by (simp add: withdraw_limited_def)
  qed
qed

theorem short_withdrawal_consumes_quota_witness:
  "\<exists>k'. bridge_ExecuteWithdrawal example_funded ''eth'' (Some 50) ''0xrecipient'' 50 ''s'' = (k', Inl ErrInsufficientSupply)
     \<and> window_of (bk_limits k') ''eth'' = (5, 90)"
proof -
  have g: "withdraw_guards example_funded ''eth'' (Some 50) ''0xrecipient'' 50 ''s'' example_asset 50"
    by (rule example_withdraw_guards) simp_all
  have short: "bridge_SupplyForDenom example_funded (bridgeDenomForAsset example_asset) < 50"
    by (simp add: example_denom example_funded_supply)
  from short_withdrawal_consumes_quota [OF example_funded_inv [folded example_funded_def] g short example_funded_window(1)]
  show ?thesis
    by (auto simp: example_funded_window(2) example_funded_simps window_step_def window_roll_def)
qed

text \<open> in every reachable state with fewer than \<open>2 ^ 64 - 1\<close> withdrawals the
  nonces of the withdrawals are 1, 2, 3 and so on, hence all different, and the next nonce is unused.\<close>

theorem withdrawal_nonces_unique:
  assumes "reachable bridge_init (bridge_step cr) k" "length (bk_withdrawals k) < 2 ^ 64 - 1"
  shows "map (\<lambda>w. unat (ci_Nonce (wr_Identity w))) (bk_withdrawals k) = [1..<length (bk_withdrawals k) + 1]
    \<and> distinct (map (\<lambda>w. ci_Nonce (wr_Identity w)) (bk_withdrawals k))
    \<and> bk_nextWithdrawalNonce k \<notin> set (map (\<lambda>w. ci_Nonce (wr_Identity w)) (bk_withdrawals k))"
proof -
  have inv: "nonces_inv k" using nonces.reachable_inv [OF assms(1)] by blast
  have small: "unat (word_of_nat (n + 1) :: u64) = n + 1" if "n \<le> length (bk_withdrawals k)" for n
    using that assms(2) by (simp only: unat_of_nat) simp
  have words: "map (\<lambda>w. ci_Nonce (wr_Identity w)) (bk_withdrawals k)
      = map (\<lambda>n. word_of_nat (n + 1)) [0..<length (bk_withdrawals k)]"
    using inv by (simp only: nonces_inv_def)
  have "map unat (map (\<lambda>n. word_of_nat (n + 1) :: u64) [0..<length (bk_withdrawals k)]) = map Suc [0..<length (bk_withdrawals k)]"
  proof -
    have "(unat \<circ> (\<lambda>n. word_of_nat (n + 1) :: u64)) n = Suc n" if "n \<in> set [0..<length (bk_withdrawals k)]" for n
      using small [of n] that by (simp only: o_apply) simp
    then show ?thesis unfolding map_map by (rule map_cong [OF refl])
  qed
  then have unats: "map unat (map (\<lambda>w. ci_Nonce (wr_Identity w)) (bk_withdrawals k)) = [1..<length (bk_withdrawals k) + 1]"
    unfolding words by (simp only: map_Suc_upt) simp
  then have nums: "map (\<lambda>w. unat (ci_Nonce (wr_Identity w))) (bk_withdrawals k) = [1..<length (bk_withdrawals k) + 1]"
    by (simp add: o_def)
  have "distinct (map (\<lambda>w. ci_Nonce (wr_Identity w)) (bk_withdrawals k))"
  proof -
    have "distinct (map unat (map (\<lambda>w. ci_Nonce (wr_Identity w)) (bk_withdrawals k)))"
      unfolding unats by (rule distinct_upt)
    then show ?thesis using distinct_map by blast
  qed
  moreover have "unat (bk_nextWithdrawalNonce k) \<notin> set (map unat (map (\<lambda>w. ci_Nonce (wr_Identity w)) (bk_withdrawals k)))"
    unfolding unats using inv small [of "length (bk_withdrawals k)"] by (simp only: nonces_inv_def) simp
  ultimately show ?thesis using nums by auto
qed

lemma example_reachable_funded: "reachable bridge_init (bridge_step example_crypto) example_funded"
proof -
  have "reachable bridge_init (bridge_step example_crypto)
      (fst (bridge_ExecuteDepositClaim example_crypto example_bridge example_claim example_attestation))"
    by (rule reachable.next_state [OF example_reachable bridge_step.deposit])
  then show ?thesis by (simp add: deposit_accept [OF example_bridge_inv example_deposit_guards] example_funded_def)
qed

theorem withdrawal_nonces_unique_witness:
  "map (\<lambda>w. unat (ci_Nonce (wr_Identity w)))
     (bk_withdrawals (fst (bridge_ExecuteWithdrawal example_funded ''eth'' (Some 15) ''0xrecipient'' 50 ''s''))) = [1]"
proof -
  let ?k = "fst (bridge_ExecuteWithdrawal example_funded ''eth'' (Some 15) ''0xrecipient'' 50 ''s'')"
  have g: "withdraw_guards example_funded ''eth'' (Some 15) ''0xrecipient'' 50 ''s'' example_asset 15"
    by (rule example_withdraw_guards) simp_all
  have len: "length (bk_withdrawals ?k) = 1"
    using withdraw_accept [OF example_funded_inv [folded example_funded_def] g] example_funded_supply
    by (simp add: example_denom withdraw_state_def example_funded_simps)
  have "reachable bridge_init (bridge_step example_crypto) ?k"
    by (rule reachable.next_state [OF example_reachable_funded bridge_step.withdraw])
  from withdrawal_nonces_unique [OF this] len show ?thesis by simp
qed

text \<open> while the circuit breaker is tripped, every deposit and every withdrawal is
  refused with the recorded reason; a deposit only counts as rejected and a withdrawal changes nothing.\<close>

theorem open_breaker_refuses:
  assumes "bk_circuitBreakerTripped k"
  shows "bridge_ExecuteDepositClaim cr k claim att
      = reject_claim k (ci_MessageID (dc_Identity claim)) (ErrBridgeCircuitOpen (bk_lastInvariantError k))
    \<and> bridge_ExecuteWithdrawal k assetID amount recipient deadline signature
      = (k, Inl (ErrBridgeCircuitOpen (bk_lastInvariantError k)))"
  using assms
  by (simp add: bridge_ExecuteDepositClaim_def bridge_ExecuteWithdrawal_def ensureCircuitHealthy_def Let_def)

theorem open_breaker_refuses_witness:
  "snd (bridge_ExecuteWithdrawal (fst (tripCircuit example_funded ''denom'')) ''eth'' (Some 15) ''0xrecipient'' 50 ''s'')
     = Inl (ErrBridgeCircuitOpen (accounting_error_text ''denom''))"
  by (subst open_breaker_refuses [THEN conjunct2]) (simp_all add: tripCircuit_def)

text \<open> importing the exported state into a keeper over the same registry, limits and
  pauser gives back the same keeper: claims, supply, withdrawals, signer sets, counters, nonce and
  circuit breaker.\<close>

theorem bridge_export_import:
  assumes "signer_sets_inv k" "bk_signerSets k \<noteq> []" "gomap_wf (bk_processedClaims k)"
    "gomap_wf (bk_supplyByDenom k)" "bk_nextWithdrawalNonce k \<noteq> 0"
    "bk_registry k0 = bk_registry k" "bk_limits k0 = bk_limits k" "bk_pauser k0 = bk_pauser k"
  shows "bridge_ImportState k0 (bridge_ExportState k) = (k, None)"
  by (rule bridge_export_import_eq [OF assms])

theorem bridge_export_import_witness:
  "bridge_ImportState (example_bridge\<lparr>bk_limits := bk_limits example_funded\<rparr>) (bridge_ExportState example_funded)
     = (example_funded, None)"
proof -
  have sets: "bk_signerSets example_funded = bk_signerSets example_bridge" by (simp add: example_funded_def)
  have "ledger_ok example_funded" using example_funded_inv by (simp add: bridge_inv_def example_funded_def)
  then have wf: "gomap_wf (bk_processedClaims example_funded)" "gomap_wf (bk_supplyByDenom example_funded)"
    by (simp_all add: ledger_ok_def)
  have "signer_sets_inv example_funded" "bk_signerSets example_funded \<noteq> []"
    using example_signer_sets_inv sets
    by (simp_all add: signer_sets_inv_def) (simp add: example_bridge_def bridge_NewKeeper_def Let_def)
  from bridge_export_import [OF this wf] show ?thesis
    by (simp add: example_funded_simps) (simp add: example_bridge_def bridge_NewKeeper_def Let_def)
qed

end
