(* ===== verification/Bank.thy ===== *)
theory Bank
  imports Interfaces
begin

text \<open>
  The wallet balances of \<^verbatim>\<open>chain/aegislink/x/bank/keeper\<close>: amounts per address and denom, credits
  and debits, and the sorted export and checked import of all balances. An injected persist hook
  may fail after a credit or debit has changed the balances; the application rolls back then.
  The keeper has no prefix store, so that \<^verbatim>\<open>persist\<close> does nothing more than run the hook.
  The address check of the Cosmos SDK is the argument \<open>bech32\<close>.
\<close>

section \<open>State\<close>

datatype bank_error =
    ErrInvalidAddress | ErrInvalidDenom | ErrInvalidAmount | ErrInsufficientBalance
  | BankPersistError string

record BalanceRecord =
  br_Address :: string
  br_Denom :: string
  br_Amount :: string

record BankStateSnapshot =
  bs_Balances :: "BalanceRecord list"

record BankKeeper =
  bank_balances :: "(string, (string, int) gomap) gomap"
  bank_persistHook :: "string option" \<comment> \<open>\<^term>\<open>None\<close>: no hook, or one that returns nil\<close>

definition bank_NewKeeper :: BankKeeper where
  "bank_NewKeeper = \<lparr>bank_balances = [], bank_persistHook = None\<rparr>"

definition bank_persist :: "BankKeeper \<Rightarrow> bank_error option" where
  "bank_persist k = (case bank_persistHook k of None \<Rightarrow> None | Some msg \<Rightarrow> Some (BankPersistError msg))"

definition bank_SetPersistHookForTesting :: "BankKeeper \<Rightarrow> string option \<Rightarrow> BankKeeper" where
  "bank_SetPersistHookForTesting k hook = k\<lparr>bank_persistHook := hook\<rparr>"

section \<open>Normalisation\<close>

definition bank_normalizeAddress :: "(string \<Rightarrow> bool) \<Rightarrow> string \<Rightarrow> bank_error + string" where
  "bank_normalizeAddress bech32 address =
     (let trimmed = TrimSpace address in
      if trimmed = '''' then Inl ErrInvalidAddress
      else if \<not> bech32 trimmed then Inl ErrInvalidAddress
      else Inr trimmed)"

definition normalizeDenom :: "string \<Rightarrow> bank_error + string" where
  "normalizeDenom denom =
     (let trimmed = TrimSpace denom in if trimmed = '''' then Inl ErrInvalidDenom else Inr trimmed)"

definition normalizeAmount :: "bigint \<Rightarrow> bank_error + int" where
  "normalizeAmount amount =
     (case amount of
        None \<Rightarrow> Inl ErrInvalidAmount
      | Some v \<Rightarrow> if v \<le> 0 then Inl ErrInvalidAmount else Inr v)"

definition normalizeAmountString :: "string \<Rightarrow> bank_error + int" where
  "normalizeAmountString amount =
     (let trimmed = TrimSpace amount in
      if trimmed = '''' then Inl ErrInvalidAmount
      else case SetString10 trimmed of
        None \<Rightarrow> Inl ErrInvalidAmount
      | Some parsed \<Rightarrow> if parsed \<le> 0 then Inl ErrInvalidAmount else Inr parsed)"

section \<open>Operations\<close>

text \<open>\<^verbatim>\<open>k.balances[a][d]\<close> of a map of maps; a missing inner map reads as nil.\<close>

definition denoms_at :: "BankKeeper \<Rightarrow> string \<Rightarrow> (string, int) gomap" where
  "denoms_at k a = (case gomap_get (bank_balances k) a of None \<Rightarrow> [] | Some m \<Rightarrow> m)"

definition bank_Credit :: "BankKeeper \<Rightarrow> string \<Rightarrow> string \<Rightarrow> bigint \<Rightarrow> BankKeeper \<times> bank_error option" where
  "bank_Credit k address denom amount =
     (let normalizedAddress = TrimSpace address in
      if normalizedAddress = '''' then (k, Some ErrInvalidAddress)
      else case normalizeDenom denom of
        Inl e \<Rightarrow> (k, Some e)
      | Inr normalizedDenom \<Rightarrow>
          case normalizeAmount amount of
            Inl e \<Rightarrow> (k, Some e)
          | Inr normalizedAmount \<Rightarrow>
              let denoms = denoms_at k normalizedAddress;
                  current = (case gomap_get denoms normalizedDenom of None \<Rightarrow> 0 | Some v \<Rightarrow> v);
                  k' = k\<lparr>bank_balances :=
                         gomap_set normalizedAddress
                           (gomap_set normalizedDenom (current + normalizedAmount) denoms) (bank_balances k)\<rparr>
              in (k', bank_persist k'))"

definition bank_Debit :: "BankKeeper \<Rightarrow> string \<Rightarrow> string \<Rightarrow> bigint \<Rightarrow> BankKeeper \<times> bank_error option" where
  "bank_Debit k address denom amount =
     (let normalizedAddress = TrimSpace address in
      if normalizedAddress = '''' then (k, Some ErrInvalidAddress)
      else case normalizeDenom denom of
        Inl e \<Rightarrow> (k, Some e)
      | Inr normalizedDenom \<Rightarrow>
          case normalizeAmount amount of
            Inl e \<Rightarrow> (k, Some e)
          | Inr normalizedAmount \<Rightarrow>
              case gomap_get (bank_balances k) normalizedAddress of
                None \<Rightarrow> (k, Some ErrInsufficientBalance)
              | Some denoms \<Rightarrow>
                  case gomap_get denoms normalizedDenom of
                    None \<Rightarrow> (k, Some ErrInsufficientBalance)
                  | Some current \<Rightarrow>
                      if current < normalizedAmount then (k, Some ErrInsufficientBalance)
                      else
                        let rest = current - normalizedAmount;
                            denoms' = (if rest = 0 then gomap_delete normalizedDenom denoms
                                       else gomap_set normalizedDenom rest denoms);
                            k' = k\<lparr>bank_balances :=
                                   (if denoms' = [] then gomap_delete normalizedAddress (bank_balances k)
                                    else gomap_set normalizedAddress denoms' (bank_balances k))\<rparr>
                        in (k', bank_persist k'))"

definition bank_BalanceOf :: "BankKeeper \<Rightarrow> string \<Rightarrow> string \<Rightarrow> int" where
  "bank_BalanceOf k address denom =
     (let normalizedAddress = TrimSpace address; normalizedDenom = TrimSpace denom in
      if normalizedDenom = '''' then 0
      else case gomap_get (bank_balances k) normalizedAddress of
        None \<Rightarrow> 0
      | Some denoms \<Rightarrow> (case gomap_get denoms normalizedDenom of None \<Rightarrow> 0 | Some amount \<Rightarrow> amount))"

definition bank_Balances :: "(string \<Rightarrow> bool) \<Rightarrow> BankKeeper \<Rightarrow> string \<Rightarrow> bank_error + BalanceRecord list" where
  "bank_Balances bech32 k address =
     (case bank_normalizeAddress bech32 address of
        Inl e \<Rightarrow> Inl e
      | Inr normalizedAddress \<Rightarrow>
          Inr (sort_key br_Denom
                 (map (\<lambda>(denom, amount). \<lparr>br_Address = normalizedAddress, br_Denom = denom, br_Amount = show_int amount\<rparr>)
                    (denoms_at k normalizedAddress))))"

text \<open>The two nested loops of \<^verbatim>\<open>ExportState\<close>, over sorted addresses and sorted denoms.\<close>

definition export_address :: "BankKeeper \<Rightarrow> string \<Rightarrow> BalanceRecord list" where
  "export_address k address =
     map (\<lambda>denom. \<lparr>br_Address = address, br_Denom = denom,
                   br_Amount = show_int (case gomap_get (denoms_at k address) denom of None \<Rightarrow> 0 | Some v \<Rightarrow> v)\<rparr>)
       (sort (map fst (denoms_at k address)))"

definition bank_ExportState :: "BankKeeper \<Rightarrow> BankStateSnapshot" where
  "bank_ExportState k =
     \<lparr>bs_Balances = concat (map (export_address k) (sort (map fst (bank_balances k))))\<rparr>"

definition bank_ExportBalances :: "BankKeeper \<Rightarrow> BalanceRecord list" where
  "bank_ExportBalances k = bs_Balances (bank_ExportState k)"

fun load_balances ::
    "(string, (string, int) gomap) gomap \<Rightarrow> BalanceRecord list \<Rightarrow> bank_error + (string, (string, int) gomap) gomap" where
  "load_balances nextBalances [] = Inr nextBalances"
| "load_balances nextBalances (r # rs) =
     (let address = TrimSpace (br_Address r) in
      if address = '''' then Inl ErrInvalidAddress
      else case normalizeDenom (br_Denom r) of
        Inl e \<Rightarrow> Inl e
      | Inr denom \<Rightarrow>
          case normalizeAmountString (br_Amount r) of
            Inl e \<Rightarrow> Inl e
          | Inr amount \<Rightarrow>
              let inner = (case gomap_get nextBalances address of None \<Rightarrow> [] | Some m \<Rightarrow> m)
              in load_balances (gomap_set address (gomap_set denom amount inner) nextBalances) rs)"

definition bank_loadState :: "BankKeeper \<Rightarrow> BankStateSnapshot \<Rightarrow> bool \<Rightarrow> BankKeeper \<times> bank_error option" where
  "bank_loadState k state persist =
     (case load_balances [] (bs_Balances state) of
        Inl e \<Rightarrow> (k, Some e)
      | Inr nextBalances \<Rightarrow>
          let k' = k\<lparr>bank_balances := nextBalances\<rparr>
          in (k', if persist then bank_persist k' else None))"

definition bank_ImportState :: "BankKeeper \<Rightarrow> BankStateSnapshot \<Rightarrow> BankKeeper \<times> bank_error option" where
  "bank_ImportState k state = bank_loadState k state False"

section \<open>Invariant\<close>

text \<open>Addresses and denoms are trimmed and non-empty, no address has an empty inner map, and every
  stored amount is positive.\<close>

definition denoms_inv :: "(string, int) gomap \<Rightarrow> bool" where
  "denoms_inv m \<longleftrightarrow> gomap_wf m \<and> (\<forall>(d, v) \<in> set m. TrimSpace d = d \<and> d \<noteq> [] \<and> 0 < v)"

definition bank_inv :: "BankKeeper \<Rightarrow> bool" where
  "bank_inv k \<longleftrightarrow>
     gomap_wf (bank_balances k)
     \<and> (\<forall>(a, m) \<in> set (bank_balances k). TrimSpace a = a \<and> a \<noteq> [] \<and> m \<noteq> [] \<and> denoms_inv m)"

definition bank_total :: "BankKeeper \<Rightarrow> string \<Rightarrow> int" where
  "bank_total k d = gomap_sum (\<lambda>a m. sum_opt id (map_of m d)) (bank_balances k)"

lemma bank_inv_New: "bank_inv bank_NewKeeper"
  by (simp add: bank_inv_def bank_NewKeeper_def)

lemma bank_inv_denoms: "bank_inv k \<Longrightarrow> map_of (bank_balances k) a = Some m \<Longrightarrow> denoms_inv m"
  unfolding bank_inv_def by (blast dest: map_of_SomeD)

lemma denoms_inv_at: "bank_inv k \<Longrightarrow> denoms_inv (denoms_at k a)"
  using bank_inv_denoms [of k a]
  by (simp add: denoms_at_def split: option.split) (simp add: denoms_inv_def)

lemma denoms_inv_get: "denoms_inv m \<Longrightarrow> map_of m d = Some v \<Longrightarrow> 0 < v"
  unfolding denoms_inv_def by (blast dest: map_of_SomeD)

lemma denoms_inv_set:
  "denoms_inv m \<Longrightarrow> TrimSpace d = d \<Longrightarrow> d \<noteq> [] \<Longrightarrow> 0 < v \<Longrightarrow> denoms_inv (gomap_set d v m)"
  using set_update_subset [of d v m] unfolding denoms_inv_def by fastforce

lemma denoms_inv_delete: "denoms_inv m \<Longrightarrow> denoms_inv (gomap_delete d m)"
  using set_delete_subset [of d m] unfolding denoms_inv_def by fastforce

lemma bank_inv_set:
  assumes "bank_inv k" "TrimSpace a = a" "a \<noteq> []" "m \<noteq> []" "denoms_inv m"
  shows "bank_inv (k\<lparr>bank_balances := gomap_set a m (bank_balances k)\<rparr>)"
  using assms set_update_subset [of a m "bank_balances k"] unfolding bank_inv_def by fastforce

lemma bank_inv_delete:
  assumes "bank_inv k"
  shows "bank_inv (k\<lparr>bank_balances := gomap_delete a (bank_balances k)\<rparr>)"
  using assms set_delete_subset [of a "bank_balances k"] unfolding bank_inv_def by fastforce

lemma update_not_Nil [simp]: "AList.update k v m \<noteq> []"
  by (cases m) auto

lemmas normalize_defs = normalizeDenom_def normalizeAmount_def Let_def

lemma bank_inv_Credit: "bank_inv k \<Longrightarrow> bank_inv (fst (bank_Credit k a d v))"
  using denoms_inv_get [OF denoms_inv_at, of k "TrimSpace a" "TrimSpace d"]
  by (auto simp: bank_Credit_def normalize_defs intro!: bank_inv_set denoms_inv_set denoms_inv_at
      split: sum.split option.split)

lemma bank_inv_Debit: "bank_inv k \<Longrightarrow> bank_inv (fst (bank_Debit k a d v))"
  by (auto simp: bank_Debit_def normalize_defs
      intro!: bank_inv_set bank_inv_delete denoms_inv_set denoms_inv_delete dest: bank_inv_denoms
      split: sum.split option.split)

section \<open>Credits and debits\<close>

lemma Credit_None:
  "snd (bank_Credit k a d v) = None \<Longrightarrow>
     TrimSpace a \<noteq> [] \<and> TrimSpace d \<noteq> [] \<and> (\<exists>x. v = Some x \<and> 0 < x) \<and> bank_persistHook k = None"
  by (auto simp: bank_Credit_def normalize_defs bank_persist_def split: if_splits option.splits)

lemma BalanceOf_denoms_at:
  "bank_BalanceOf k a d = (if TrimSpace d = [] then 0 else sum_opt id (map_of (denoms_at k (TrimSpace a)) (TrimSpace d)))"
  by (simp add: bank_BalanceOf_def denoms_at_def Let_def sum_opt_def split: option.split)

lemma Credit_denoms_at:
  assumes "TrimSpace a \<noteq> []" "TrimSpace d \<noteq> []" "0 < x"
  shows "denoms_at (fst (bank_Credit k a d (Some x))) b =
    (if b = TrimSpace a
     then gomap_set (TrimSpace d) (sum_opt id (map_of (denoms_at k b) (TrimSpace d)) + x) (denoms_at k b)
     else denoms_at k b)"
  using assms
  by (auto simp: bank_Credit_def normalize_defs denoms_at_def gomap_simps sum_opt_def split: option.split)

lemma Credit_balance:
  assumes "snd (bank_Credit k a d (Some x)) = None"
  shows "bank_BalanceOf (fst (bank_Credit k a d (Some x))) b e =
    bank_BalanceOf k b e + (if TrimSpace b = TrimSpace a \<and> TrimSpace e = TrimSpace d then x else 0)"
  using Credit_None [OF assms]
  by (auto simp: BalanceOf_denoms_at Credit_denoms_at gomap_simps)

lemma bank_total_at:
  assumes "bank_inv k"
  shows "gomap_sum (\<lambda>a m. sum_opt id (map_of m d)) (gomap_set a m (bank_balances k))
    = bank_total k d - sum_opt id (map_of (denoms_at k a) d) + sum_opt id (map_of m d)"
  by (simp add: bank_total_def denoms_at_def sum_opt_def split: option.split)

lemma Credit_total:
  assumes "bank_inv k" "snd (bank_Credit k a d (Some x)) = None"
  shows "bank_total (fst (bank_Credit k a d (Some x))) e = bank_total k e + (if e = TrimSpace d then x else 0)"
  using Credit_None [OF assms(2)] bank_total_at [OF assms(1)]
  by (auto simp: bank_Credit_def normalize_defs bank_total_def [of "k\<lparr>bank_balances := b\<rparr>" for b] gomap_simps
      split: option.split)

lemma Debit_None:
  assumes "snd (bank_Debit k a d v) = None"
  obtains x m c where "v = Some x" "0 < x" "TrimSpace a \<noteq> []" "TrimSpace d \<noteq> []"
    "map_of (bank_balances k) (TrimSpace a) = Some m" "map_of m (TrimSpace d) = Some c" "x \<le> c"
    "bank_persistHook k = None"
    "fst (bank_Debit k a d v) = k\<lparr>bank_balances :=
       (let m' = (if c = x then gomap_delete (TrimSpace d) m else gomap_set (TrimSpace d) (c - x) m)
        in if m' = [] then gomap_delete (TrimSpace a) (bank_balances k)
           else gomap_set (TrimSpace a) m' (bank_balances k))\<rparr>"
  using assms
  by (auto simp: bank_Debit_def normalize_defs bank_persist_def split: if_splits option.splits)

lemma Debit_denoms_at:
  assumes "bank_inv k" "snd (bank_Debit k a d (Some x)) = None"
  shows "map_of (denoms_at (fst (bank_Debit k a d (Some x))) b) e =
    (if b = TrimSpace a \<and> e = TrimSpace d
     then (if map_of (denoms_at k b) e = Some x then None else map_option (\<lambda>c. c - x) (map_of (denoms_at k b) e))
     else map_of (denoms_at k b) e)"
proof -
  let ?a = "TrimSpace a" and ?d = "TrimSpace d"
  from assms(2) obtain m c where *: "map_of (bank_balances k) ?a = Some m" "map_of m ?d = Some c"
    "fst (bank_Debit k a d (Some x)) = k\<lparr>bank_balances :=
       (let m' = (if c = x then gomap_delete ?d m else gomap_set ?d (c - x) m)
        in if m' = [] then gomap_delete ?a (bank_balances k) else gomap_set ?a m' (bank_balances k))\<rparr>"
    by (rule Debit_None) auto
  define m' where "m' = (if c = x then gomap_delete ?d m else gomap_set ?d (c - x) m)"
  have "denoms_at (fst (bank_Debit k a d (Some x))) b = (if b = ?a then m' else denoms_at k b)"
    using * by (simp add: denoms_at_def Let_def m'_def [symmetric] gomap_simps)
  moreover have "denoms_at k ?a = m" using * by (simp add: denoms_at_def)
  ultimately show ?thesis using * by (auto simp: m'_def gomap_simps)
qed

lemma Debit_balance:
  assumes "bank_inv k" "snd (bank_Debit k a d (Some x)) = None"
  shows "bank_BalanceOf (fst (bank_Debit k a d (Some x))) b e =
    bank_BalanceOf k b e - (if TrimSpace b = TrimSpace a \<and> TrimSpace e = TrimSpace d then x else 0)"
proof -
  from assms(2) obtain m c where "map_of (bank_balances k) (TrimSpace a) = Some m" "map_of m (TrimSpace d) = Some c"
    "TrimSpace d \<noteq> []" by (rule Debit_None)
  then have "map_of (denoms_at k (TrimSpace a)) (TrimSpace d) = Some c" "TrimSpace d \<noteq> []"
    by (simp_all add: denoms_at_def)
  then show ?thesis by (auto simp: BalanceOf_denoms_at Debit_denoms_at [OF assms])
qed

lemma Debit_total:
  assumes "bank_inv k" "snd (bank_Debit k a d (Some x)) = None"
  shows "bank_total (fst (bank_Debit k a d (Some x))) e = bank_total k e - (if e = TrimSpace d then x else 0)"
proof -
  let ?a = "TrimSpace a" and ?d = "TrimSpace d"
  from assms(2) obtain m c where *: "map_of (bank_balances k) ?a = Some m" "map_of m ?d = Some c"
    "fst (bank_Debit k a d (Some x)) = k\<lparr>bank_balances :=
       (let m' = (if c = x then gomap_delete ?d m else gomap_set ?d (c - x) m)
        in if m' = [] then gomap_delete ?a (bank_balances k) else gomap_set ?a m' (bank_balances k))\<rparr>"
    by (rule Debit_None) auto
  define m' where "m' = (if c = x then gomap_delete ?d m else gomap_set ?d (c - x) m)"
  have "sum_opt id (map_of m' e) = sum_opt id (map_of m e) - (if e = ?d then x else 0)"
    using * by (auto simp: m'_def gomap_simps)
  moreover have "bank_total (fst (bank_Debit k a d (Some x))) e
      = bank_total k e - sum_opt id (map_of m e) + sum_opt id (map_of m' e)"
    using * assms(1) by (auto simp: bank_total_def Let_def m'_def [symmetric] bank_inv_def)
  ultimately show ?thesis by simp
qed

interpretation bank: ledger bank_inv bank_BalanceOf bank_total bank_Credit bank_Debit
proof unfold_locales
  fix k a d and v :: bigint
  show "snd (bank_Credit k a d v) = None \<Longrightarrow> \<exists>x. v = Some x \<and> 0 < x"
    by (blast dest: Credit_None)
  assume "snd (bank_Debit k a d v) = None"
  then show "\<exists>x. v = Some x \<and> 0 < x \<and> x \<le> bank_BalanceOf k a d"
    by (rule Debit_None) (simp add: bank_BalanceOf_def)
qed (simp_all add: bank_inv_Credit bank_inv_Debit Credit_balance Debit_balance Credit_total Debit_total)

section \<open>Import and export\<close>

definition record_amount :: "BalanceRecord \<Rightarrow> int" where
  "record_amount r = (case SetString10 (br_Amount r) of None \<Rightarrow> 0 | Some v \<Rightarrow> v)"

definition good_record :: "BalanceRecord \<Rightarrow> bool" where
  "good_record r \<longleftrightarrow> TrimSpace (br_Address r) = br_Address r \<and> br_Address r \<noteq> []
     \<and> TrimSpace (br_Denom r) = br_Denom r \<and> br_Denom r \<noteq> []
     \<and> (\<exists>v > 0. br_Amount r = show_int v)"

definition nested_get :: "(string, (string, int) gomap) gomap \<Rightarrow> string \<Rightarrow> string \<Rightarrow> int option" where
  "nested_get m a d = (case map_of m a of None \<Rightarrow> None | Some inner \<Rightarrow> map_of inner d)"

lemma load_balances_good:
  assumes "\<forall>r \<in> set rs. good_record r" "distinct (map (\<lambda>r. (br_Address r, br_Denom r)) rs)"
  shows "\<exists>m'. load_balances m rs = Inr m' \<and>
     (\<forall>a d. nested_get m' a d =
        (case map_of (map (\<lambda>r. ((br_Address r, br_Denom r), record_amount r)) rs) (a, d) of
           Some v \<Rightarrow> Some v | None \<Rightarrow> nested_get m a d))"
  using assms
proof (induction rs arbitrary: m)
  case Nil
  then show ?case by simp
next
  case (Cons r rs)
  from Cons.prems obtain v where r: "TrimSpace (br_Address r) = br_Address r" "br_Address r \<noteq> []"
    "TrimSpace (br_Denom r) = br_Denom r" "br_Denom r \<noteq> []" "0 < v" "br_Amount r = show_int v"
    by (auto simp: good_record_def)
  have amt: "normalizeAmountString (br_Amount r) = Inr v" "record_amount r = v"
    using r by (simp_all add: normalizeAmountString_def Let_def record_amount_def)
  define m1 where "m1 = gomap_set (br_Address r)
     (gomap_set (br_Denom r) v (case map_of m (br_Address r) of None \<Rightarrow> [] | Some i \<Rightarrow> i)) m"
  have step: "load_balances m (r # rs) = load_balances m1 rs"
    using r amt by (simp add: normalizeDenom_def Let_def m1_def)
  have get: "nested_get m1 a d = (if a = br_Address r \<and> d = br_Denom r then Some v else nested_get m a d)" for a d
    by (simp add: nested_get_def m1_def gomap_simps split: option.split)
  have "map_of (map (\<lambda>r. ((br_Address r, br_Denom r), record_amount r)) rs) (br_Address r, br_Denom r) = None"
    using Cons.prems by (force simp: map_of_eq_None_iff)
  note fresh = this
  obtain m' where m': "load_balances m1 rs = Inr m'"
    "\<And>a d. nested_get m' a d =
        (case map_of (map (\<lambda>r. ((br_Address r, br_Denom r), record_amount r)) rs) (a, d) of
           Some v \<Rightarrow> Some v | None \<Rightarrow> nested_get m1 a d)"
    using Cons.IH [of m1] Cons.prems by auto
  show ?case
  proof (intro exI [of _ m'] conjI allI)
    show "load_balances m (r # rs) = Inr m'" using step m'(1) by simp
    fix a d
    show "nested_get m' a d =
        (case map_of (map (\<lambda>r. ((br_Address r, br_Denom r), record_amount r)) (r # rs)) (a, d) of
           Some v \<Rightarrow> Some v | None \<Rightarrow> nested_get m a d)"
      using fresh by (cases "a = br_Address r \<and> d = br_Denom r") (auto simp: m'(2) get amt split: option.split)
  qed
qed

lemma export_address_records:
  assumes "denoms_inv (denoms_at k a)"
  shows "r \<in> set (export_address k a) \<longleftrightarrow>
    br_Address r = a \<and> (\<exists>v. map_of (denoms_at k a) (br_Denom r) = Some v \<and> br_Amount r = show_int v)"
    (is "?l \<longleftrightarrow> ?r")
proof
  assume ?l
  then obtain d where d: "d \<in> fst ` set (denoms_at k a)"
    and r: "r = \<lparr>br_Address = a, br_Denom = d, br_Amount = show_int (case map_of (denoms_at k a) d of None \<Rightarrow> 0 | Some v \<Rightarrow> v)\<rparr>"
    by (auto simp: export_address_def)
  from d obtain v where "map_of (denoms_at k a) d = Some v" by (metis domD dom_map_of_conv_image_fst)
  with r show ?r by simp
next
  assume ?r
  then obtain v where v: "br_Address r = a" "map_of (denoms_at k a) (br_Denom r) = Some v" "br_Amount r = show_int v"
    by blast
  then have "br_Denom r \<in> set (sort (map fst (denoms_at k a)))"
    by (metis domI dom_map_of_conv_image_fst list.set_map set_sort)
  moreover have "r = \<lparr>br_Address = a, br_Denom = br_Denom r,
      br_Amount = show_int (case map_of (denoms_at k a) (br_Denom r) of None \<Rightarrow> 0 | Some v \<Rightarrow> v)\<rparr>"
    using v by simp
  ultimately show ?l unfolding export_address_def by (metis (mono_tags, lifting) image_eqI list.set_map)
qed

lemma Export_records:
  assumes "bank_inv k"
  shows "r \<in> set (bs_Balances (bank_ExportState k)) \<longleftrightarrow>
    (\<exists>v. nested_get (bank_balances k) (br_Address r) (br_Denom r) = Some v \<and> br_Amount r = show_int v)"
proof -
  have "r \<in> set (bs_Balances (bank_ExportState k)) \<longleftrightarrow>
      (\<exists>a \<in> fst ` set (bank_balances k). r \<in> set (export_address k a))"
    by (auto simp: bank_ExportState_def)
  also have "\<dots> \<longleftrightarrow> br_Address r \<in> fst ` set (bank_balances k)
      \<and> (\<exists>v. map_of (denoms_at k (br_Address r)) (br_Denom r) = Some v \<and> br_Amount r = show_int v)"
    unfolding export_address_records [OF denoms_inv_at [OF assms]] by (rule iffI) simp_all
  also have "br_Address r \<in> fst ` set (bank_balances k) \<longleftrightarrow> map_of (bank_balances k) (br_Address r) \<noteq> None"
    by (simp add: map_of_eq_None_iff)
  finally show ?thesis by (auto simp: nested_get_def denoms_at_def split: option.splits)
qed

lemma Export_distinct:
  assumes "bank_inv k"
  shows "distinct (map (\<lambda>r. (br_Address r, br_Denom r)) (bs_Balances (bank_ExportState k)))"
proof -
  have one: "map (\<lambda>r. (br_Address r, br_Denom r)) (export_address k a) = map (Pair a) (sort (map fst (denoms_at k a)))" for a
    by (simp add: export_address_def)
  have "distinct (map fst (denoms_at k a))" for a
    using denoms_inv_at [OF assms, of a] by (simp add: denoms_inv_def gomap_wf_def)
  then have d: "distinct (map (Pair a) (sort (map fst (denoms_at k a))))" for a
    by (simp add: distinct_map inj_on_def)
  have "distinct (concat (map (\<lambda>a. map (Pair a) (sort (map fst (denoms_at k a)))) as))" if "distinct as" for as
    using that d by (induction as) auto
  moreover have "distinct (sort (map fst (bank_balances k)))"
    using assms by (simp add: bank_inv_def gomap_wf_def)
  ultimately show ?thesis
    by (simp add: bank_ExportState_def map_concat o_def one)
qed

lemma nested_get_good:
  assumes "bank_inv k" "nested_get (bank_balances k) a d = Some v"
  shows "TrimSpace a = a \<and> a \<noteq> [] \<and> TrimSpace d = d \<and> d \<noteq> [] \<and> 0 < v"
proof -
  from assms(2) obtain m where m: "map_of (bank_balances k) a = Some m" "map_of m d = Some v"
    by (auto simp: nested_get_def split: option.splits)
  from map_of_SomeD [OF m(1)] map_of_SomeD [OF m(2)] assms(1)
  show ?thesis unfolding bank_inv_def denoms_inv_def by blast
qed

lemma Import_Export:
  assumes "bank_inv k"
  shows "\<exists>k'. bank_ImportState k0 (bank_ExportState k) = (k', None)
     \<and> (\<forall>a d. nested_get (bank_balances k') a d = nested_get (bank_balances k) a d)"
proof -
  let ?rs = "bs_Balances (bank_ExportState k)"
  let ?m = "map (\<lambda>r. ((br_Address r, br_Denom r), record_amount r)) ?rs"
  have good: "\<forall>r \<in> set ?rs. good_record r"
  proof
    fix r assume "r \<in> set ?rs"
    then obtain v where v: "nested_get (bank_balances k) (br_Address r) (br_Denom r) = Some v" "br_Amount r = show_int v"
      unfolding Export_records [OF assms] by (elim exE conjE)
    show "good_record r" using nested_get_good [OF assms v(1)] v(2) by (simp add: good_record_def)
  qed
  obtain m' where m': "load_balances [] ?rs = Inr m'"
    "\<And>a d. nested_get m' a d = (case map_of ?m (a, d) of Some v \<Rightarrow> Some v | None \<Rightarrow> nested_get [] a d)"
    using load_balances_good [OF good Export_distinct [OF assms], of "[]"] by blast
  have d: "distinct (map fst ?m)" using Export_distinct [OF assms] by (simp add: o_def)
  have "map_of ?m (a, d) = Some v \<longleftrightarrow> nested_get (bank_balances k) a d = Some v" for a d v
  proof -
    have "map_of ?m (a, d) = Some v \<longleftrightarrow> (\<exists>r \<in> set ?rs. br_Address r = a \<and> br_Denom r = d \<and> record_amount r = v)"
      using map_of_eq_Some_iff [OF d, of "(a, d)" v] by auto
    also have "\<dots> \<longleftrightarrow> nested_get (bank_balances k) a d = Some v"
    proof
      assume "nested_get (bank_balances k) a d = Some v"
      then show "\<exists>r \<in> set ?rs. br_Address r = a \<and> br_Denom r = d \<and> record_amount r = v"
        by (intro bexI [of _ "\<lparr>br_Address = a, br_Denom = d, br_Amount = show_int v\<rparr>"])
           (auto simp: Export_records [OF assms] record_amount_def)
    qed (auto simp: Export_records [OF assms] record_amount_def)
    finally show ?thesis .
  qed
  note iff = this
  have eq: "map_of ?m (a, d) = nested_get (bank_balances k) a d" for a d
    by (rule option_eqI) (rule iff)
  have "nested_get m' a d = nested_get (bank_balances k) a d" for a d
    unfolding m'(2) eq by (simp add: nested_get_def [of "[]"] split: option.split)
  with m'(1) show ?thesis
    by (auto simp: bank_ImportState_def bank_loadState_def Let_def)
qed

lemma BalanceOf_nested:
  "bank_BalanceOf k a d = (if TrimSpace d = [] then 0 else sum_opt id (nested_get (bank_balances k) (TrimSpace a) (TrimSpace d)))"
  by (simp add: bank_BalanceOf_def nested_get_def Let_def sum_opt_def split: option.split)

text \<open>Loading keeps the state valid, and two valid states with the same entries have the same totals.\<close>

lemma load_balances_inv:
  "load_balances m rs = Inr m' \<Longrightarrow> bank_inv (k\<lparr>bank_balances := m\<rparr>) \<Longrightarrow> bank_inv (k\<lparr>bank_balances := m'\<rparr>)"
proof (induction m rs rule: load_balances.induct)
  case (2 m r rs)
  from "2.prems"(1) obtain v where r: "TrimSpace (br_Address r) \<noteq> []" "normalizeDenom (br_Denom r) = Inr (TrimSpace (br_Denom r))"
    "TrimSpace (br_Denom r) \<noteq> []" "normalizeAmountString (br_Amount r) = Inr v" "0 < v"
    by (auto simp: Let_def normalizeDenom_def normalizeAmountString_def split: if_splits option.splits)
  let ?inner = "case map_of m (TrimSpace (br_Address r)) of None \<Rightarrow> [] | Some i \<Rightarrow> i"
  have "denoms_inv ?inner"
    using denoms_inv_at [OF "2.prems"(2), of "TrimSpace (br_Address r)"] by (simp add: denoms_at_def)
  then have "bank_inv (k\<lparr>bank_balances := gomap_set (TrimSpace (br_Address r)) (gomap_set (TrimSpace (br_Denom r)) v ?inner) m\<rparr>)"
    using bank_inv_set [OF "2.prems"(2), of "TrimSpace (br_Address r)"] r by (simp add: denoms_inv_set)
  with "2.IH" [OF refl r(1) r(2) r(4) refl] "2.prems"(1) r show ?case by (simp add: Let_def)
qed simp

definition denom_column :: "BankKeeper \<Rightarrow> string \<Rightarrow> (string, int) gomap" where
  "denom_column k d = List.map_filter (\<lambda>(a, m). map_option (Pair a) (map_of m d)) (bank_balances k)"

lemma denom_column_sum: "gomap_sum (\<lambda>_ v. v) (denom_column k d) = bank_total k d"
proof -
  have "gomap_sum (\<lambda>_ v. v) (List.map_filter (\<lambda>(a, m). map_option (Pair a) (map_of m d)) b)
      = gomap_sum (\<lambda>a m. sum_opt id (map_of m d)) b" for b :: "(string, (string, int) gomap) gomap"
    by (induction b) (auto simp: List.map_filter_simps split: option.split)
  then show ?thesis by (simp add: denom_column_def bank_total_def)
qed

lemma denom_column_get:
  assumes "gomap_wf (bank_balances k)"
  shows "gomap_wf (denom_column k d)" "map_of (denom_column k d) a = nested_get (bank_balances k) a d"
proof -
  have "gomap_wf (List.map_filter (\<lambda>(a, m). map_option (Pair a) (map_of m d)) b)
      \<and> map_of (List.map_filter (\<lambda>(a, m). map_option (Pair a) (map_of m d)) b) a = nested_get b a d"
    if "gomap_wf b" for b :: "(string, (string, int) gomap) gomap" and a
    using that
  proof (induction b arbitrary: a)
    case (Cons x b)
    obtain c m where x: "x = (c, m)" by force
    with Cons.prems have "map_of b c = None" "gomap_wf b" by simp_all
    then show ?case
      using Cons.IH [of c] Cons.IH [of a] by (auto simp: x List.map_filter_simps nested_get_def split: option.split)
  qed (simp add: List.map_filter_simps nested_get_def)
  from this [OF assms] show "gomap_wf (denom_column k d)" "map_of (denom_column k d) a = nested_get (bank_balances k) a d"
    by (simp_all add: denom_column_def)
qed

lemma bank_total_cong:
  assumes "bank_inv k" "bank_inv k'" "\<And>a. nested_get (bank_balances k') a d = nested_get (bank_balances k) a d"
  shows "bank_total k' d = bank_total k d"
proof -
  have wf: "gomap_wf (bank_balances k)" "gomap_wf (bank_balances k')" using assms(1,2) by (simp_all add: bank_inv_def)
  have "gomap_sum (\<lambda>_ v. v) (denom_column k' d) = gomap_sum (\<lambda>_ v. v) (denom_column k d)"
    by (rule gomap_sum_eq) (auto simp: denom_column_get [OF wf(1)] denom_column_get [OF wf(2)] assms(3))
  then show ?thesis by (simp add: denom_column_sum)
qed

lemma bank_import_exported:
  assumes "bank_inv k"
  obtains k' where "bank_ImportState k0 (bank_ExportState k) = (k', None)" "bank_inv k'" "bank_persistHook k' = bank_persistHook k0"
    "\<And>a d. bank_BalanceOf k' a d = bank_BalanceOf k a d" "\<And>d. bank_total k' d = bank_total k d"
proof -
  obtain k' where k': "bank_ImportState k0 (bank_ExportState k) = (k', None)"
    "\<And>a d. nested_get (bank_balances k') a d = nested_get (bank_balances k) a d"
    using Import_Export [OF assms, of k0] by blast
  then obtain m where m: "load_balances [] (bs_Balances (bank_ExportState k)) = Inr m" "k' = k0\<lparr>bank_balances := m\<rparr>"
    by (auto simp: bank_ImportState_def bank_loadState_def Let_def split: sum.splits)
  have "bank_inv k'" using load_balances_inv [OF m(1), of k0] by (simp add: m(2) bank_inv_def [of "k0\<lparr>bank_balances := []\<rparr>"])
  with k' show ?thesis
    by (intro that [of k']) (simp_all add: m(2) BalanceOf_nested, rule bank_total_cong [OF assms], simp_all)
qed

section \<open>Properties\<close>

text \<open> in a valid state a credit that succeeds adds exactly the amount to
  the trimmed address and denom and to the total of the denom, a debit that succeeds subtracts
  exactly the amount, which the address held; other balances and totals do not change and the
  state stays valid.\<close>

theorem bank_credit_debit_exact:
  assumes "bank_inv k"
  shows "(snd (bank_Credit k a d (Some x)) = None \<longrightarrow>
      (let k' = fst (bank_Credit k a d (Some x)) in
       0 < x \<and> bank_inv k'
       \<and> (\<forall>b e. bank_BalanceOf k' b e = bank_BalanceOf k b e
             + (if TrimSpace b = TrimSpace a \<and> TrimSpace e = TrimSpace d then x else 0))
       \<and> (\<forall>e. bank_total k' e = bank_total k e + (if e = TrimSpace d then x else 0))))
    \<and> (snd (bank_Debit k a d (Some x)) = None \<longrightarrow>
      (let k' = fst (bank_Debit k a d (Some x)) in
       0 < x \<and> x \<le> bank_BalanceOf k a d \<and> bank_inv k'
       \<and> (\<forall>b e. bank_BalanceOf k' b e = bank_BalanceOf k b e
             - (if TrimSpace b = TrimSpace a \<and> TrimSpace e = TrimSpace d then x else 0))
       \<and> (\<forall>e. bank_total k' e = bank_total k e - (if e = TrimSpace d then x else 0))))"
  using assms bank.credit_pos [of k a d "Some x"] bank.debit_pos [of k a d "Some x"]
  by (simp add: Let_def bank.credit_inv bank.debit_inv bank.credit_bal bank.debit_bal
      bank.credit_total bank.debit_total)

definition example_bank :: BankKeeper where
  "example_bank = \<lparr>bank_balances = [(''alice'', [(''ueth'', 5)])], bank_persistHook = None\<rparr>"

lemma example_bank_inv: "bank_inv example_bank"
  by (simp add: bank_inv_def example_bank_def denoms_inv_def go_eval)

theorem bank_credit_debit_exact_witness:
  "bank_BalanceOf (fst (bank_Debit example_bank '' alice'' ''ueth'' (Some 2))) ''alice'' ''ueth'' = 3"
proof -
  have t: "TrimSpace '' alice'' = ''alice''" by code_simp
  have "snd (bank_Debit example_bank '' alice'' ''ueth'' (Some 2)) = None"
    by (simp add: bank_Debit_def example_bank_def normalize_defs t go_eval bank_persist_def)
  with bank_credit_debit_exact [OF example_bank_inv, of "'' alice''" "''ueth''" 2]
  have "bank_BalanceOf (fst (bank_Debit example_bank '' alice'' ''ueth'' (Some 2))) ''alice'' ''ueth''
      = bank_BalanceOf example_bank ''alice'' ''ueth'' - 2"
    by (simp add: Let_def t go_eval)
  then show ?thesis by (simp add: bank_BalanceOf_def example_bank_def go_eval)
qed

text \<open> moving an amount from one address to another by a debit and a
  credit keeps the total of every denom.\<close>

theorem bank_transfer_conserves:
  assumes "bank_inv k" "bank_Debit k a d v = (k1, None)" "bank_Credit k1 b d v = (k2, None)"
  shows "bank_total k2 e = bank_total k e"
  by (rule bank.transfer_conserves(1) [OF assms])

theorem bank_transfer_conserves_witness:
  "bank_total (fst (bank_Credit (fst (bank_Debit example_bank ''alice'' ''ueth'' (Some 2))) ''bob'' ''ueth'' (Some 2))) ''ueth''
     = bank_total example_bank ''ueth''"
proof -
  let ?k1 = "\<lparr>bank_balances = [(''alice'', [(''ueth'', 3)])], bank_persistHook = None\<rparr>"
  let ?k2 = "\<lparr>bank_balances = [(''alice'', [(''ueth'', 3)]), (''bob'', [(''ueth'', 2)])], bank_persistHook = None\<rparr>"
  have 1: "bank_Debit example_bank ''alice'' ''ueth'' (Some 2) = (?k1, None)"
    by (simp add: bank_Debit_def example_bank_def normalize_defs go_eval bank_persist_def)
  have 2: "bank_Credit ?k1 ''bob'' ''ueth'' (Some 2) = (?k2, None)"
    by (simp add: bank_Credit_def normalize_defs denoms_at_def go_eval bank_persist_def)
  show ?thesis using bank_transfer_conserves [OF example_bank_inv 1 2] 1 2 by simp
qed

end
