(* ===== verification/App.thy ===== *)
theory App
  imports AppConfig Governance BridgeProperties Bank
begin

text \<open>
  The application of \<^verbatim>\<open>chain/aegislink/app\<close>: it owns one keeper of every module, routes every call to them under one
  lock (so that calls are atomic steps), rolls a deposit or withdrawal back when the bank refuses its part, queues
  deposit claims for the next block, and reports its status. The registry, limits and pauser keepers are the ones inside the
  bridge keeper, which the governance keeper shares. The runtime is the in-memory \<^verbatim>\<open>runtime-shell\<close>.
\<close>

section \<open>State\<close>

datatype app_error =
    AppBankError bank_error | AppBridgeError bridge_error | AppTypesError types_error
  | AppLimitsError limits_error | AppErrorJoin app_error app_error | AppWalletMigrationRequired string
  | AppRegistryError registry_error | AppPauserError pauser_error | AppRouterError router_error

record QueuedDepositClaim =
  qd_Claim :: DepositClaim
  qd_Attestation :: Attestation
  qd_EnqueuedAtHeight :: u64

record AppliedClaimBalance =
  ab_Address :: string
  ab_Denom :: string
  ab_Amount :: string

text \<open>The last submission message is the rendered error, or the message id of the claim.\<close>

datatype submission_message = NoMessage | MessageID string | ErrorMessage app_error

record BlockProgress =
  bp_Height :: u64
  bp_AppliedQueuedClaims :: nat
  bp_PendingQueuedClaims :: nat
  bp_BridgeCurrentHeight :: u64
  bp_LastSubmissionMessage :: submission_message
  bp_AppliedClaimBalances :: "AppliedClaimBalance list"

record App =
  app_Config :: Config
  app_bank :: BankKeeper
  app_bridge :: BridgeKeeper
  app_router :: RouterKeeper
  app_authorities :: "string list"
  app_applied :: "ProposalRecord list"
  app_encoding :: EncodingConfig
  app_storeKeys :: "(string, string) gomap"
  app_modules :: "string list"
  app_pending :: "QueuedDepositClaim list"

definition app_governance :: "App \<Rightarrow> GovernanceKeeper" where
  "app_governance a =
     \<lparr>gk_registry = bk_registry (app_bridge a), gk_limits = bk_limits (app_bridge a), gk_ibcRouter = app_router a,
      gk_authorities = app_authorities a, gk_applied = app_applied a\<rparr>"

definition app_set_governance :: "App \<Rightarrow> GovernanceKeeper \<Rightarrow> App" where
  "app_set_governance a g =
     a\<lparr>app_bridge := (app_bridge a)\<lparr>bk_registry := gk_registry g, bk_limits := gk_limits g\<rparr>,
       app_router := gk_ibcRouter g, app_authorities := gk_authorities g, app_applied := gk_applied g\<rparr>"

definition newAppFromKeepers :: "Config \<Rightarrow> BankKeeper \<Rightarrow> BridgeKeeper \<Rightarrow> GovernanceKeeper \<Rightarrow> App" where
  "newAppFromKeepers cfg bank bridge governance =
     (let modules = [''bridge'', ''bank'', ''registry'', ''limits'', ''pauser'', ''ibcrouter'', ''governance''] in
      \<lparr>app_Config = cfg, app_bank = bank, app_bridge = bridge, app_router = gk_ibcRouter governance,
       app_authorities = gk_authorities governance, app_applied = gk_applied governance,
       app_encoding = DefaultEncodingConfig modules, app_storeKeys = defaultStoreKeys modules, app_modules = modules, app_pending = []\<rparr>)"

text \<open>\<^verbatim>\<open>NewWithConfig\<close> in the \<^verbatim>\<open>runtime-shell\<close> mode; the store-backed mode opens a database.\<close>

definition app_NewWithConfig :: "string \<Rightarrow> Config \<Rightarrow> App" where
  "app_NewWithConfig tmp c =
     (let cfg = normalizeConfig tmp c;
          bank = bank_NewKeeper; registry = registry_NewKeeper; limits = limits_NewKeeper; pauser = pauser_NewKeeper;
          router = router_NewKeeper;
          governance = gov_NewKeeper registry limits router (cf_GovernanceAuthorities cfg);
          bridge = bridge_NewKeeper registry limits pauser (cf_AllowedSigners cfg) (cf_RequiredThreshold cfg)
      in newAppFromKeepers cfg bank bridge governance)"

definition app_New :: "string \<Rightarrow> App" where
  "app_New tmp = app_NewWithConfig tmp (DefaultConfig tmp)"

section \<open>Deposits and withdrawals\<close>

definition bank_NormalizeAddress :: "(string \<Rightarrow> bool) \<Rightarrow> string \<Rightarrow> bank_error + string" where
  "bank_NormalizeAddress bech32 address = bank_normalizeAddress bech32 address"

text \<open>\<^verbatim>\<open>rollbackDepositClaimState\<close> and \<^verbatim>\<open>rollbackWithdrawalState\<close>, which are the same code: re-import the three
  snapshots, then flush. Only the bank's flush can fail without a store.\<close>

definition rollback_state ::
    "App \<Rightarrow> BridgeStateSnapshot \<Rightarrow> BankStateSnapshot \<Rightarrow> LimitsStateSnapshot \<Rightarrow> App \<times> app_error option" where
  "rollback_state a bridgeState bankState limitsState =
     (case bridge_ImportState (app_bridge a) bridgeState of
        (b, Some e) \<Rightarrow> (a\<lparr>app_bridge := b\<rparr>, Some (AppBridgeError e))
      | (b, None) \<Rightarrow>
      let a1 = a\<lparr>app_bridge := b\<rparr> in
      case bank_ImportState (app_bank a1) bankState of
        (k, Some e) \<Rightarrow> (a1\<lparr>app_bank := k\<rparr>, Some (AppBankError e))
      | (k, None) \<Rightarrow>
      let a2 = a1\<lparr>app_bank := k\<rparr> in
      case limits_ImportState (bk_limits (app_bridge a2)) limitsState of
        (l, Some e) \<Rightarrow> (a2\<lparr>app_bridge := (app_bridge a2)\<lparr>bk_limits := l\<rparr>\<rparr>, Some (AppLimitsError e))
      | (l, None) \<Rightarrow>
      let a3 = a2\<lparr>app_bridge := (app_bridge a2)\<lparr>bk_limits := l\<rparr>\<rparr>
      in (a3, map_option AppBankError (bank_persist (app_bank a3))))"

definition rollbackDepositClaimState ::
    "App \<Rightarrow> BridgeStateSnapshot \<Rightarrow> BankStateSnapshot \<Rightarrow> LimitsStateSnapshot \<Rightarrow> App \<times> app_error option" where
  "rollbackDepositClaimState a bridgeState bankState limitsState = rollback_state a bridgeState bankState limitsState"

definition rollbackWithdrawalState ::
    "App \<Rightarrow> BridgeStateSnapshot \<Rightarrow> BankStateSnapshot \<Rightarrow> LimitsStateSnapshot \<Rightarrow> App \<times> app_error option" where
  "rollbackWithdrawalState a bridgeState bankState limitsState = rollback_state a bridgeState bankState limitsState"

definition zeroClaimResult :: ClaimResult where
  "zeroClaimResult = \<lparr>res_Status = '''', res_MessageID = '''', res_Denom = '''', res_Amount = None\<rparr>"

definition join_errors :: "app_error \<Rightarrow> app_error option \<Rightarrow> app_error" where
  "join_errors e rollbackErr = (case rollbackErr of Some r \<Rightarrow> AppErrorJoin e r | None \<Rightarrow> e)"

definition submitDepositClaimLocked ::
    "('pk, 'sk) crypto \<Rightarrow> (string \<Rightarrow> bool) \<Rightarrow> App \<Rightarrow> DepositClaim \<Rightarrow> Attestation \<Rightarrow> App \<times> ClaimResult \<times> app_error option" where
  "submitDepositClaimLocked cr bech32 a claim0 attestation =
     (case bank_NormalizeAddress bech32 (dc_Recipient claim0) of
        Inl e \<Rightarrow> (a, zeroClaimResult, Some (AppBankError e))
      | Inr normalizedRecipient \<Rightarrow>
      let claim = claim0\<lparr>dc_Recipient := normalizedRecipient\<rparr>;
          bridgeState = bridge_ExportState (app_bridge a);
          bankState = bank_ExportState (app_bank a);
          limitsState = limits_ExportState (bk_limits (app_bridge a))
      in case bridge_ExecuteDepositClaim cr (app_bridge a) claim attestation of
           (b, result, Some e) \<Rightarrow> (a\<lparr>app_bridge := b\<rparr>, result, Some (AppBridgeError e))
         | (b, result, None) \<Rightarrow>
         let a1 = a\<lparr>app_bridge := b\<rparr> in
         case bank_Credit (app_bank a1) (dc_Recipient claim) (res_Denom result) (res_Amount result) of
           (k, Some e) \<Rightarrow>
             (case rollbackDepositClaimState (a1\<lparr>app_bank := k\<rparr>) bridgeState bankState limitsState of
                (a2, rollbackErr) \<Rightarrow> (a2, zeroClaimResult, Some (join_errors (AppBankError e) rollbackErr)))
         | (k, None) \<Rightarrow> (a1\<lparr>app_bank := k\<rparr>, result, None))"

definition app_SubmitDepositClaim ::
    "('pk, 'sk) crypto \<Rightarrow> (string \<Rightarrow> bool) \<Rightarrow> App \<Rightarrow> DepositClaim \<Rightarrow> Attestation \<Rightarrow> App \<times> ClaimResult \<times> app_error option" where
  "app_SubmitDepositClaim cr bech32 a claim attestation = submitDepositClaimLocked cr bech32 a claim attestation"

definition app_ExecuteWithdrawal ::
    "(string \<Rightarrow> bool) \<Rightarrow> App \<Rightarrow> string \<Rightarrow> string \<Rightarrow> bigint \<Rightarrow> string \<Rightarrow> u64 \<Rightarrow> bytes \<Rightarrow> App \<times> (app_error + WithdrawalRecord)" where
  "app_ExecuteWithdrawal bech32 a ownerAddress assetID amount recipient deadline signature =
     (case bank_NormalizeAddress bech32 ownerAddress of
        Inl e \<Rightarrow> (a, Inl (AppBankError e))
      | Inr normalizedOwner \<Rightarrow>
      let bridgeState = bridge_ExportState (app_bridge a);
          bankState = bank_ExportState (app_bank a);
          limitsState = limits_ExportState (bk_limits (app_bridge a))
      in case bridge_ExecuteWithdrawal (app_bridge a) assetID amount recipient deadline signature of
           (b, Inl e) \<Rightarrow> (a\<lparr>app_bridge := b\<rparr>, Inl (AppBridgeError e))
         | (b, Inr withdrawal) \<Rightarrow>
         let a1 = a\<lparr>app_bridge := b\<rparr> in
         case registry_GetAsset (bk_registry (app_bridge a1)) assetID of
           None \<Rightarrow>
             (case rollbackWithdrawalState a1 bridgeState bankState limitsState of
                (a2, Some rollbackErr) \<Rightarrow> (a2, Inl rollbackErr)
              | (a2, None) \<Rightarrow> (a2, Inl (AppBridgeError ErrUnknownAsset)))
         | Some asset \<Rightarrow>
         case bank_Debit (app_bank a1) normalizedOwner (as_Denom asset) (Some (wr_Amount withdrawal)) of
           (k, Some e) \<Rightarrow>
             (case rollbackWithdrawalState (a1\<lparr>app_bank := k\<rparr>) bridgeState bankState limitsState of
                (a2, rollbackErr) \<Rightarrow> (a2, Inl (join_errors (AppBankError e) rollbackErr)))
         | (k, None) \<Rightarrow> (a1\<lparr>app_bank := k\<rparr>, Inr withdrawal))"

section \<open>Blocks\<close>

definition app_SetCurrentHeight :: "App \<Rightarrow> u64 \<Rightarrow> App" where
  "app_SetCurrentHeight a height = a\<lparr>app_bridge := bridge_SetCurrentHeight (app_bridge a) height\<rparr>"

definition app_QueueDepositClaim ::
    "(string \<Rightarrow> bool) \<Rightarrow> App \<Rightarrow> DepositClaim \<Rightarrow> Attestation \<Rightarrow> App \<times> app_error option" where
  "app_QueueDepositClaim bech32 a claim attestation =
     (case deposit_ValidateBasic claim of
        Some e \<Rightarrow> (a, Some (AppTypesError e))
      | None \<Rightarrow>
      case attestation_ValidateBasic attestation of
        Some e \<Rightarrow> (a, Some (AppTypesError e))
      | None \<Rightarrow>
      case bank_NormalizeAddress bech32 (dc_Recipient claim) of
        Inl e \<Rightarrow> (a, Some (AppBankError e))
      | Inr normalizedRecipient \<Rightarrow>
          let currentHeight = bst_CurrentHeight (bridge_ExportState (app_bridge a)) in
          (a\<lparr>app_pending := app_pending a @
               [\<lparr>qd_Claim = claim\<lparr>dc_Recipient := normalizedRecipient\<rparr>, qd_Attestation = attestation,
                 qd_EnqueuedAtHeight = currentHeight\<rparr>]\<rparr>, None))"

text \<open>The loop of \<^verbatim>\<open>AdvanceBlock\<close> over the claims it has taken from the queue.\<close>

fun submit_pending ::
    "('pk, 'sk) crypto \<Rightarrow> (string \<Rightarrow> bool) \<Rightarrow> QueuedDepositClaim list \<Rightarrow> App \<Rightarrow> BlockProgress \<Rightarrow> App \<times> BlockProgress" where
  "submit_pending cr bech32 [] a progress = (a, progress)"
| "submit_pending cr bech32 (s # ss) a progress =
     (case submitDepositClaimLocked cr bech32 a (qd_Claim s) (qd_Attestation s) of
        (a1, result, Some e) \<Rightarrow> submit_pending cr bech32 ss a1 (progress\<lparr>bp_LastSubmissionMessage := ErrorMessage e\<rparr>)
      | (a1, result, None) \<Rightarrow>
          submit_pending cr bech32 ss a1
            (progress\<lparr>bp_AppliedQueuedClaims := bp_AppliedQueuedClaims progress + 1,
               bp_LastSubmissionMessage := MessageID (ci_MessageID (dc_Identity (qd_Claim s))),
               bp_AppliedClaimBalances := bp_AppliedClaimBalances progress @
                 [\<lparr>ab_Address = dc_Recipient (qd_Claim s), ab_Denom = res_Denom result,
                   ab_Amount = show_int (bank_BalanceOf (app_bank a1) (dc_Recipient (qd_Claim s)) (res_Denom result))\<rparr>]\<rparr>))"

definition app_AdvanceBlock :: "('pk, 'sk) crypto \<Rightarrow> (string \<Rightarrow> bool) \<Rightarrow> App \<Rightarrow> App \<times> BlockProgress" where
  "app_AdvanceBlock cr bech32 a =
     (let nextHeight = bst_CurrentHeight (bridge_ExportState (app_bridge a)) + 1;
          a1 = a\<lparr>app_bridge := bridge_SetCurrentHeight (app_bridge a) nextHeight\<rparr>;
          progress = \<lparr>bp_Height = nextHeight, bp_AppliedQueuedClaims = 0, bp_PendingQueuedClaims = 0,
                      bp_BridgeCurrentHeight = nextHeight, bp_LastSubmissionMessage = NoMessage, bp_AppliedClaimBalances = []\<rparr>
      in if app_pending a1 = [] then (a1, progress)
         else case submit_pending cr bech32 (app_pending a1) (a1\<lparr>app_pending := []\<rparr>) progress of
           (a2, p) \<Rightarrow> (a2, p\<lparr>bp_PendingQueuedClaims := length (app_pending a2)\<rparr>))"

section \<open>Calls that go to one keeper\<close>

definition app_RegisterAsset :: "App \<Rightarrow> Asset \<Rightarrow> App \<times> registry_error option" where
  "app_RegisterAsset a asset =
     (case registry_RegisterAsset (bk_registry (app_bridge a)) asset of
        (r, e) \<Rightarrow> (a\<lparr>app_bridge := (app_bridge a)\<lparr>bk_registry := r\<rparr>\<rparr>, e))"

definition app_SetLimit :: "App \<Rightarrow> RateLimit \<Rightarrow> App \<times> limits_error option" where
  "app_SetLimit a limit =
     (case limits_SetLimit (bk_limits (app_bridge a)) limit of
        (l, e) \<Rightarrow> (a\<lparr>app_bridge := (app_bridge a)\<lparr>bk_limits := l\<rparr>\<rparr>, e))"

definition app_Pause :: "App \<Rightarrow> string \<Rightarrow> App \<times> pauser_error option" where
  "app_Pause a flow =
     (case pauser_Pause (bk_pauser (app_bridge a)) flow of
        (p, e) \<Rightarrow> (a\<lparr>app_bridge := (app_bridge a)\<lparr>bk_pauser := p\<rparr>\<rparr>, e))"

definition app_Unpause :: "App \<Rightarrow> string \<Rightarrow> App \<times> pauser_error option" where
  "app_Unpause a flow =
     (case pauser_Unpause (bk_pauser (app_bridge a)) flow of
        (p, e) \<Rightarrow> (a\<lparr>app_bridge := (app_bridge a)\<lparr>bk_pauser := p\<rparr>\<rparr>, e))"

definition app_CreditWallet :: "App \<Rightarrow> string \<Rightarrow> string \<Rightarrow> bigint \<Rightarrow> App \<times> bank_error option" where
  "app_CreditWallet a address denom amount =
     (case bank_Credit (app_bank a) address denom amount of (k, e) \<Rightarrow> (a\<lparr>app_bank := k\<rparr>, e))"

definition app_DebitWallet :: "App \<Rightarrow> string \<Rightarrow> string \<Rightarrow> bigint \<Rightarrow> App \<times> bank_error option" where
  "app_DebitWallet a address denom amount =
     (case bank_Debit (app_bank a) address denom amount of (k, e) \<Rightarrow> (a\<lparr>app_bank := k\<rparr>, e))"

definition app_SetRoute :: "App \<Rightarrow> Route \<Rightarrow> App \<times> router_error option" where
  "app_SetRoute a route = (case router_SetRoute (app_router a) route of (k, e) \<Rightarrow> (a\<lparr>app_router := k\<rparr>, e))"

definition app_SetRouteProfile :: "App \<Rightarrow> RouteProfile \<Rightarrow> App \<times> router_error option" where
  "app_SetRouteProfile a profile =
     (case router_SetRouteProfile (app_router a) profile of (k, e) \<Rightarrow> (a\<lparr>app_router := k\<rparr>, e))"

definition app_InitiateIBCTransfer ::
    "App \<Rightarrow> string \<Rightarrow> bigint \<Rightarrow> string \<Rightarrow> u64 \<Rightarrow> string \<Rightarrow> App \<times> (router_error + TransferRecord)" where
  "app_InitiateIBCTransfer a assetID amount receiver timeoutHeight memo =
     (case router_InitiateTransfer (app_router a) assetID amount receiver timeoutHeight memo of
        (k, r) \<Rightarrow> (a\<lparr>app_router := k\<rparr>, r))"

definition app_InitiateIBCTransferWithProfile ::
    "App \<Rightarrow> string \<Rightarrow> string \<Rightarrow> bigint \<Rightarrow> string \<Rightarrow> u64 \<Rightarrow> string \<Rightarrow> App \<times> (router_error + TransferRecord)" where
  "app_InitiateIBCTransferWithProfile a routeID assetID amount receiver timeoutHeight memo =
     (case router_InitiateTransferWithProfile (app_router a) routeID assetID amount receiver timeoutHeight memo of
        (k, r) \<Rightarrow> (a\<lparr>app_router := k\<rparr>, r))"

definition app_FailIBCTransfer :: "App \<Rightarrow> string \<Rightarrow> string \<Rightarrow> App \<times> (router_error + TransferRecord)" where
  "app_FailIBCTransfer a transferID reason =
     (case router_AcknowledgeFailure (app_router a) transferID reason of (k, r) \<Rightarrow> (a\<lparr>app_router := k\<rparr>, r))"

definition app_TimeoutIBCTransfer :: "App \<Rightarrow> string \<Rightarrow> App \<times> (router_error + TransferRecord)" where
  "app_TimeoutIBCTransfer a transferID =
     (case router_TimeoutTransfer (app_router a) transferID of (k, r) \<Rightarrow> (a\<lparr>app_router := k\<rparr>, r))"

definition app_CompleteIBCTransfer :: "App \<Rightarrow> string \<Rightarrow> App \<times> (router_error + TransferRecord)" where
  "app_CompleteIBCTransfer a transferID =
     (case router_AcknowledgeSuccess (app_router a) transferID of (k, r) \<Rightarrow> (a\<lparr>app_router := k\<rparr>, r))"

definition app_RefundIBCTransfer :: "App \<Rightarrow> string \<Rightarrow> App \<times> (router_error + TransferRecord)" where
  "app_RefundIBCTransfer a transferID =
     (case router_MarkRefunded (app_router a) transferID of (k, r) \<Rightarrow> (a\<lparr>app_router := k\<rparr>, r))"

definition app_ApplyAssetStatusProposal :: "App \<Rightarrow> string \<Rightarrow> AssetStatusProposal \<Rightarrow> App \<times> gov_error option" where
  "app_ApplyAssetStatusProposal a authority proposal =
     (case gov_ApplyAssetStatusProposal (app_governance a) authority proposal of (g, e) \<Rightarrow> (app_set_governance a g, e))"

definition app_ApplyLimitUpdateProposal :: "App \<Rightarrow> string \<Rightarrow> LimitUpdateProposal \<Rightarrow> App \<times> gov_error option" where
  "app_ApplyLimitUpdateProposal a authority proposal =
     (case gov_ApplyLimitUpdateProposal (app_governance a) authority proposal of (g, e) \<Rightarrow> (app_set_governance a g, e))"

definition app_ApplyRoutePolicyUpdateProposal :: "App \<Rightarrow> string \<Rightarrow> RoutePolicyUpdateProposal \<Rightarrow> App \<times> gov_error option" where
  "app_ApplyRoutePolicyUpdateProposal a authority proposal =
     (case gov_ApplyRoutePolicyUpdateProposal (app_governance a) authority proposal of (g, e) \<Rightarrow> (app_set_governance a g, e))"

section \<open>Queries\<close>

definition app_Withdrawals :: "App \<Rightarrow> u64 \<Rightarrow> u64 \<Rightarrow> WithdrawalRecord list" where
  "app_Withdrawals a fromHeight toHeight = bridge_Withdrawals (app_bridge a) fromHeight toHeight"

definition app_WalletBalances :: "(string \<Rightarrow> bool) \<Rightarrow> App \<Rightarrow> string \<Rightarrow> bank_error + BalanceRecord list" where
  "app_WalletBalances bech32 a address = bank_Balances bech32 (app_bank a) address"

definition app_WalletBalance :: "App \<Rightarrow> string \<Rightarrow> string \<Rightarrow> int" where
  "app_WalletBalance a address denom = bank_BalanceOf (app_bank a) address denom"

definition app_ActiveSignerSet :: "App \<Rightarrow> bridge_error + SignerSet" where
  "app_ActiveSignerSet a = bridge_ActiveSignerSet (app_bridge a)"

definition app_SignerSets :: "App \<Rightarrow> SignerSet list" where
  "app_SignerSets a = bridge_ExportSignerSets (app_bridge a)"

definition app_Routes :: "App \<Rightarrow> Route list" where
  "app_Routes a = router_ExportRoutes (app_router a)"

definition app_Transfers :: "App \<Rightarrow> TransferRecord list" where
  "app_Transfers a = router_ExportTransfers (app_router a)"

definition app_RouteProfiles :: "App \<Rightarrow> RouteProfile list" where
  "app_RouteProfiles a = router_ExportRouteProfiles (app_router a)"

definition app_ModuleNames :: "App \<Rightarrow> string list" where
  "app_ModuleNames a = app_modules a"

definition app_StoreKeys :: "App \<Rightarrow> (string, string) gomap" where
  "app_StoreKeys a = app_storeKeys a"

definition app_DefaultGenesis :: "string \<Rightarrow> App \<Rightarrow> Genesis" where
  "app_DefaultGenesis tmp a = DefaultGenesis tmp (app_Config a)"

definition query_GetClaim :: "App \<Rightarrow> string \<Rightarrow> ClaimRecordSnapshot option" where
  "query_GetClaim a message =
     (let messageID = TrimSpace message in
      if messageID = '''' then None
      else find (\<lambda>r. cs_MessageID r = messageID) (bst_ProcessedClaims (bridge_ExportState (app_bridge a))))"

definition query_GetSignerSet :: "App \<Rightarrow> u64 \<Rightarrow> SignerSet option" where
  "query_GetSignerSet a version = bridge_SignerSet (app_bridge a) version"

definition routeID :: "Route \<Rightarrow> string" where
  "routeID route = rt_AssetID route @ ''@'' @ rt_DestinationChainID route @ '':'' @ rt_ChannelID route"

definition enabledRouteIDs :: "Route list \<Rightarrow> string list" where
  "enabledRouteIDs routes = sort (map routeID (filter rt_Enabled routes))"

record AppStatus =
  st_AppName :: string
  st_ChainID :: string
  st_RuntimeMode :: string
  st_HomeDir :: string
  st_ConfigPath :: string
  st_GenesisPath :: string
  st_StatePath :: string
  st_Initialized :: bool
  st_ModuleNames :: "string list"
  st_Modules :: nat
  st_AllowedSigners :: "string list"
  st_GovernanceAuthorities :: "string list"
  st_ActiveSignerSetVersion :: u64
  st_ActiveSignerThreshold :: u32
  st_SignerSetCount :: nat
  st_SignerSetVersions :: "u64 list"
  st_EnabledRouteIDs :: "string list"
  st_RequiredThreshold :: u32
  st_CurrentHeight :: u64
  st_Assets :: nat
  st_Limits :: nat
  st_PausedFlows :: nat
  st_ProcessedClaims :: nat
  st_FailedClaims :: u64
  st_BridgeCircuitOpen :: bool
  st_LastInvariantError :: string
  st_PendingDepositClaims :: nat
  st_Withdrawals :: nat
  st_Routes :: nat
  st_Transfers :: nat
  st_PendingTransfers :: nat
  st_CompletedTransfers :: nat
  st_FailedTransfers :: nat
  st_TimedOutTransfers :: nat
  st_RefundedTransfers :: nat
  st_GovernanceProposals :: nat
  st_SupplyByDenom :: "(string, string) gomap"

definition runtimeInitialized :: "(string \<Rightarrow> bool) \<Rightarrow> Config \<Rightarrow> bool" where
  "runtimeInitialized exists cfg =
     list_all (\<lambda>path. TrimSpace path \<noteq> '''' \<and> exists path) [cf_ConfigPath cfg, cf_GenesisPath cfg, cf_StatePath cfg]"

definition count_status :: "string \<Rightarrow> TransferRecord list \<Rightarrow> nat" where
  "count_status status transfers = length (filter (\<lambda>t. tr_Status t = status) transfers)"

definition app_Status :: "(string \<Rightarrow> bool) \<Rightarrow> App \<Rightarrow> AppStatus" where
  "app_Status exists a =
     (let cfg = app_Config a;
          bridgeState = bridge_ExportState (app_bridge a);
          transfers = router_ExportTransfers (app_router a);
          routes = router_ExportRoutes (app_router a);
          signerSets = bridge_ExportSignerSets (app_bridge a)
      in \<lparr>st_AppName = cf_AppName cfg, st_ChainID = cf_ChainID cfg, st_RuntimeMode = cf_RuntimeMode cfg,
          st_HomeDir = cf_HomeDir cfg, st_ConfigPath = cf_ConfigPath cfg, st_GenesisPath = cf_GenesisPath cfg,
          st_StatePath = cf_StatePath cfg, st_Initialized = runtimeInitialized exists cfg,
          st_ModuleNames = app_ModuleNames a, st_Modules = length (app_modules a),
          st_AllowedSigners = cf_AllowedSigners cfg, st_GovernanceAuthorities = cf_GovernanceAuthorities cfg,
          st_ActiveSignerSetVersion = (case bridge_ActiveSignerSet (app_bridge a) of Inl _ \<Rightarrow> 0 | Inr s \<Rightarrow> ss_Version s),
          st_ActiveSignerThreshold = (case bridge_ActiveSignerSet (app_bridge a) of Inl _ \<Rightarrow> 0 | Inr s \<Rightarrow> ss_Threshold s),
          st_SignerSetCount = length signerSets, st_SignerSetVersions = map ss_Version signerSets,
          st_EnabledRouteIDs = enabledRouteIDs routes, st_RequiredThreshold = cf_RequiredThreshold cfg,
          st_CurrentHeight = bst_CurrentHeight bridgeState,
          st_Assets = length (registry_ExportAssets (bk_registry (app_bridge a))),
          st_Limits = length (limits_ExportLimits (bk_limits (app_bridge a))),
          st_PausedFlows = length (pauser_ExportPausedFlows (bk_pauser (app_bridge a))),
          st_ProcessedClaims = length (bst_ProcessedClaims bridgeState),
          st_FailedClaims = bk_rejectedClaims (app_bridge a), st_BridgeCircuitOpen = bk_circuitBreakerTripped (app_bridge a),
          st_LastInvariantError = bk_lastInvariantError (app_bridge a), st_PendingDepositClaims = length (app_pending a),
          st_Withdrawals = length (bst_Withdrawals bridgeState), st_Routes = length (router_ExportRoutes (app_router a)),
          st_Transfers = length transfers,
          st_PendingTransfers = count_status TransferStatusPending transfers,
          st_CompletedTransfers = count_status TransferStatusCompleted transfers,
          st_FailedTransfers = count_status TransferStatusAckFailed transfers,
          st_TimedOutTransfers = count_status TransferStatusTimedOut transfers,
          st_RefundedTransfers = count_status TransferStatusRefunded transfers,
          st_GovernanceProposals = length (gov_ExportState (app_governance a)),
          st_SupplyByDenom = bst_SupplyByDenom bridgeState\<rparr>)"

end
