(* ===== verification/AppLedger.thy ===== *)
theory AppLedger
  imports App
begin

text \<open>
  The ledger of the whole application: what a deposit, a withdrawal and a block do to the bridge supply and to the wallet
  balances together, that a refusal by the bank is rolled back, and that the two ledgers agree in every reachable state.
\<close>

section \<open>The invariant of the application\<close>

text \<open>The books of the application: the bridge and the bank keep their invariants, and the supply of every denom is what the
  wallets hold plus \<open>out\<close>, the part of it that has left the wallets without being withdrawn.\<close>

definition app_books :: "(string \<Rightarrow> int) \<Rightarrow> App \<Rightarrow> bool" where
  "app_books out a \<longleftrightarrow>
     bridge_inv (app_bridge a) \<and> signer_sets_inv (app_bridge a) \<and> bk_signerSets (app_bridge a) \<noteq> []
     \<and> bank_inv (app_bank a) \<and> (\<forall>d. bridge_SupplyForDenom (app_bridge a) d = bank_total (app_bank a) d + out d)"

abbreviation app_inv :: "App \<Rightarrow> bool" where
  "app_inv \<equiv> app_books (\<lambda>d. 0)"

text \<open>What a rollback gives back: the bridge as it was (a nonce counter that had wrapped to zero restarts at one), the
  balances as they were, and nothing else touched.\<close>

definition restored :: "App \<Rightarrow> App \<Rightarrow> bool" where
  "restored a a' \<longleftrightarrow>
     app_bridge a' = (app_bridge a)\<lparr>bk_nextWithdrawalNonce :=
        (if bk_nextWithdrawalNonce (app_bridge a) = 0 then 1 else bk_nextWithdrawalNonce (app_bridge a))\<rparr>
     \<and> bank_inv (app_bank a') \<and> bank_persistHook (app_bank a') = bank_persistHook (app_bank a)
     \<and> (\<forall>x d. bank_BalanceOf (app_bank a') x d = bank_BalanceOf (app_bank a) x d)
     \<and> (\<forall>d. bank_total (app_bank a') d = bank_total (app_bank a) d)
     \<and> a' = a\<lparr>app_bridge := app_bridge a', app_bank := app_bank a'\<rparr>"

lemma rollback_restores:
  assumes "app_books out a" "a1 = a\<lparr>app_bridge := b, app_bank := k\<rparr>" "bk_registry b = bk_registry (app_bridge a)"
    "bk_pauser b = bk_pauser (app_bridge a)" "bank_persistHook k = bank_persistHook (app_bank a)"
  shows "restored a (fst (rollback_state a1 (bridge_ExportState (app_bridge a)) (bank_ExportState (app_bank a))
    (limits_ExportState (bk_limits (app_bridge a)))))"
proof -
  have wf: "gomap_wf (bk_processedClaims (app_bridge a))" "gomap_wf (bk_supplyByDenom (app_bridge a))"
    "limits_inv (bk_limits (app_bridge a))" "bank_inv (app_bank a)"
    using assms(1) by (simp_all add: app_books_def bridge_inv_def ledger_ok_def)
  obtain k' where k': "bank_ImportState (app_bank a1) (bank_ExportState (app_bank a)) = (k', None)" "bank_inv k'"
    "bank_persistHook k' = bank_persistHook (app_bank a1)" "\<And>x d. bank_BalanceOf k' x d = bank_BalanceOf (app_bank a) x d"
    "\<And>d. bank_total k' d = bank_total (app_bank a) d"
    by (rule bank_import_exported [OF wf(4), of "app_bank a1"]) (rule that)
  have "bridge_ImportState (app_bridge a1) (bridge_ExportState (app_bridge a)) =
    ((app_bridge a)\<lparr>bk_registry := bk_registry (app_bridge a1), bk_limits := bk_limits (app_bridge a1),
       bk_pauser := bk_pauser (app_bridge a1), bk_nextWithdrawalNonce :=
        (if bk_nextWithdrawalNonce (app_bridge a) = 0 then 1 else bk_nextWithdrawalNonce (app_bridge a))\<rparr>, None)"
    using assms(1) wf by (intro bridge_import_exported) (simp_all add: app_books_def)
  then show ?thesis
    using assms(2-5) k' limits_import_exported [OF wf(3)]
    by (simp add: rollback_state_def Let_def restored_def split del: if_split)
qed

lemma restored_supply:
  assumes "restored a a'"
  shows "bridge_SupplyForDenom (app_bridge a') d = bridge_SupplyForDenom (app_bridge a) d"
  using assms by (simp add: restored_def bridge_SupplyForDenom_def)

lemma restored_inv: "app_books out a \<Longrightarrow> restored a a' \<Longrightarrow> app_books out a'"
proof -
  assume a: "app_books out a" and r: "restored a a'"
  have "ledger_ok (app_bridge a') \<longleftrightarrow> ledger_ok (app_bridge a)"
    using r by (intro ledger_ok_cong) (simp_all add: restored_def)
  then have "bridge_inv (app_bridge a')" "signer_sets_inv (app_bridge a')" "bk_signerSets (app_bridge a') \<noteq> []"
    using a r by (simp_all add: app_books_def restored_def bridge_inv_def signer_sets_inv_def)
  then show "app_books out a'" using a r restored_supply [OF r] by (simp add: app_books_def restored_def)
qed

section \<open>Denoms\<close>

lemma bridgeDenom_trim [simp]: "TrimSpace (bridgeDenomForAsset asset) = bridgeDenomForAsset asset"
  by (simp add: bridgeDenomForAsset_def Let_def)

lemma stored_denom:
  assumes "registry_inv r" "registry_GetAsset r i = Some asset"
  shows "bridgeDenomForAsset asset = TrimSpace (as_Denom asset)" "bridgeDenomForAsset asset \<noteq> []"
proof -
  have "as_DestinationDenom asset = deriveDestinationDenom asset" "as_Denom asset = as_DestinationDenom asset"
    using GetAsset_stored [OF assms] by (simp_all add: stored_asset_def)
  with deriveDestinationDenom_nonblank [of asset]
  show "bridgeDenomForAsset asset = TrimSpace (as_Denom asset)" "bridgeDenomForAsset asset \<noteq> []"
    by (simp_all add: bridgeDenomForAsset_def Let_def)
qed

section \<open>Deposits\<close>

lemma credit_error_hook: "bank_Credit k x d v = (k', Some e) \<Longrightarrow> bank_persistHook k' = bank_persistHook k"
  by (auto simp: bank_Credit_def Let_def split: if_splits sum.splits)

lemma debit_error_hook: "bank_Debit k x d v = (k', Some e) \<Longrightarrow> bank_persistHook k' = bank_persistHook k"
  by (auto simp: bank_Debit_def Let_def split: if_splits sum.splits option.splits)

text \<open>The four ways a submission can end.\<close>

lemma submit_cases:
  assumes "app_books out a"
  obtains
    (address) e where "submitDepositClaimLocked cr bech32 a claim att = (a, zeroClaimResult, Some e)"
  | (rejected) e where
      "fst (submitDepositClaimLocked cr bech32 a claim att)
         = a\<lparr>app_bridge := (app_bridge a)\<lparr>bk_rejectedClaims := bk_rejectedClaims (app_bridge a) + 1\<rparr>\<rparr>"
      "snd (snd (submitDepositClaimLocked cr bech32 a claim att)) = Some e"
  | (rolled_back) e where "restored a (fst (submitDepositClaimLocked cr bech32 a claim att))"
      "snd (snd (submitDepositClaimLocked cr bech32 a claim att)) = Some e"
  | (accepted) asset v k res where
      "deposit_guards cr (app_bridge a) (claim\<lparr>dc_Recipient := TrimSpace (dc_Recipient claim)\<rparr>) att asset"
      "dc_Amount claim = Some v" "res_Denom res = bridgeDenomForAsset asset" "res_Amount res = Some v"
      "bank_Credit (app_bank a) (TrimSpace (dc_Recipient claim)) (bridgeDenomForAsset asset) (Some v) = (k, None)"
      "submitDepositClaimLocked cr bech32 a claim att =
         (a\<lparr>app_bridge := deposit_state (app_bridge a) (claim\<lparr>dc_Recipient := TrimSpace (dc_Recipient claim)\<rparr>) asset,
            app_bank := k\<rparr>, res, None)"
proof (cases "bank_NormalizeAddress bech32 (dc_Recipient claim)")
  case (Inl e)
  then show ?thesis by (intro address) (simp add: submitDepositClaimLocked_def)
next
  case (Inr x)
  then have x: "x = TrimSpace (dc_Recipient claim)"
    by (auto simp: bank_NormalizeAddress_def bank_normalizeAddress_def Let_def split: if_splits)
  let ?claim = "claim\<lparr>dc_Recipient := TrimSpace (dc_Recipient claim)\<rparr>"
  have inv: "bridge_inv (app_bridge a)" using assms by (simp add: app_books_def)
  show ?thesis
  proof (cases "\<exists>asset. deposit_guards cr (app_bridge a) ?claim att asset")
    case False
    then obtain m e where "bridge_ExecuteDepositClaim cr (app_bridge a) ?claim att = reject_claim (app_bridge a) m e"
      using deposit_reject inv unfolding bridge_inv_def by blast
    with Inr x show ?thesis by (intro rejected) (simp_all add: submitDepositClaimLocked_def Let_def reject_claim_def)
  next
    case True
    then obtain asset where g: "deposit_guards cr (app_bridge a) ?claim att asset" ..
    then obtain v where v: "dc_Amount claim = Some v" using deposit_ValidateBasic_None(3) [of ?claim] by (auto simp: deposit_guards_def)
    note run = deposit_accept [OF inv g]
    obtain k e where credit: "bank_Credit (app_bank a) (TrimSpace (dc_Recipient claim)) (bridgeDenomForAsset asset) (Some v) = (k, e)"
      by fastforce
    show ?thesis
    proof (cases e)
      case None
      with credit run Inr x v show ?thesis
        by (intro accepted [OF g v _ _ _]) (simp_all add: submitDepositClaimLocked_def Let_def cloneAmount_def)
    next
      case (Some err)
      let ?a1 = "a\<lparr>app_bridge := deposit_state (app_bridge a) ?claim asset, app_bank := k\<rparr>"
      have "restored a (fst (rollback_state ?a1 (bridge_ExportState (app_bridge a)) (bank_ExportState (app_bank a))
          (limits_ExportState (bk_limits (app_bridge a)))))"
        using credit Some by (intro rollback_restores [OF assms refl]) (simp_all add: credit_error_hook)
      with credit Some run Inr x v show ?thesis
        by (intro rolled_back) (simp_all add: submitDepositClaimLocked_def rollbackDepositClaimState_def Let_def cloneAmount_def split_beta)
    qed
  qed
qed

lemma bridge_inv_rejected: "bridge_inv k \<Longrightarrow> bridge_inv (k\<lparr>bk_rejectedClaims := n\<rparr>)"
  by (simp add: bridge_inv_def ledger_ok_cong [of "k\<lparr>bk_rejectedClaims := n\<rparr>" k])

lemma app_inv_submit:
  assumes "app_books out a"
  shows "app_books out (fst (submitDepositClaimLocked cr bech32 a claim att))"
proof (cases rule: submit_cases [OF assms, of cr bech32 claim att])
  case (1 e)
  then show ?thesis using assms by simp
next
  case (2 e)
  then show ?thesis
    using assms by (simp add: app_books_def bridge_inv_rejected signer_sets_inv_def) (simp add: bridge_SupplyForDenom_def)
next
  case (3 e)
  then show ?thesis using restored_inv [OF assms] by simp
next
  case (4 asset v k res)
  let ?claim = "claim\<lparr>dc_Recipient := TrimSpace (dc_Recipient claim)\<rparr>"
  have inv: "bridge_inv (app_bridge a)" "bank_inv (app_bank a)" using assms by (simp_all add: app_books_def)
  have "bridge_inv (deposit_state (app_bridge a) ?claim asset)"
    using bridge_inv_deposit [OF inv(1), of cr ?claim att] deposit_accept [OF inv(1) 4(1)] by simp
  moreover have "bank_inv k" "bank_total k d = bank_total (app_bank a) d + (if d = bridgeDenomForAsset asset then v else 0)" for d
    using bank.credit_inv [OF inv(2), of "TrimSpace (dc_Recipient claim)" "bridgeDenomForAsset asset" "Some v"]
      bank.credit_total [OF inv(2), of "TrimSpace (dc_Recipient claim)" "bridgeDenomForAsset asset" v d] 4(5) by simp_all
  ultimately show ?thesis
    using assms 4(2,6) by (simp add: app_books_def deposit_state_supply cloneAmount_def signer_sets_inv_def)
qed

section \<open>Withdrawals\<close>

lemma withdrawal_cases:
  assumes "app_books out a"
  obtains
    (refused) e where "app_ExecuteWithdrawal bech32 a owner i amount r dl sig = (a, Inl e)" "e \<noteq> AppBridgeError ErrInsufficientSupply"
  | (short) asset v where "withdraw_guards (app_bridge a) i amount r dl sig asset v"
      "bridge_SupplyForDenom (app_bridge a) (bridgeDenomForAsset asset) < v"
      "app_ExecuteWithdrawal bech32 a owner i amount r dl sig
         = (a\<lparr>app_bridge := withdraw_limited (app_bridge a) i v\<rparr>, Inl (AppBridgeError ErrInsufficientSupply))"
  | (rolled_back) e where "restored a (fst (app_ExecuteWithdrawal bech32 a owner i amount r dl sig))"
      "snd (app_ExecuteWithdrawal bech32 a owner i amount r dl sig) = Inl e" "e \<noteq> AppBridgeError ErrInsufficientSupply"
  | (paid) asset v k where "withdraw_guards (app_bridge a) i amount r dl sig asset v"
      "v \<le> bridge_SupplyForDenom (app_bridge a) (bridgeDenomForAsset asset)"
      "bank_Debit (app_bank a) (TrimSpace owner) (as_Denom asset) (Some v) = (k, None)"
      "app_ExecuteWithdrawal bech32 a owner i amount r dl sig =
         (a\<lparr>app_bridge := withdraw_state (app_bridge a) i v r dl sig asset, app_bank := k\<rparr>,
          Inr (withdraw_record (app_bridge a) i v r dl sig asset))"
proof (cases "bank_NormalizeAddress bech32 owner")
  case (Inl e)
  then show ?thesis by (intro refused [of "AppBankError e"]) (simp_all add: app_ExecuteWithdrawal_def)
next
  case (Inr x)
  then have x: "x = TrimSpace owner"
    by (auto simp: bank_NormalizeAddress_def bank_normalizeAddress_def Let_def split: if_splits)
  have inv: "bridge_inv (app_bridge a)" using assms by (simp add: app_books_def)
  show ?thesis
  proof (cases rule: withdraw_cases [OF inv, of i amount r dl sig])
    case (1 asset v)
    have asset: "registry_GetAsset (bk_registry (withdraw_state (app_bridge a) i v r dl sig asset)) i = Some asset"
      using 1(1) by (simp add: withdraw_guards_def withdraw_state_def)
    obtain k e where debit: "bank_Debit (app_bank a) (TrimSpace owner) (as_Denom asset) (Some v) = (k, e)" by fastforce
    show ?thesis
    proof (cases e)
      case None
      with debit asset 1(3) Inr x show ?thesis
        by (intro paid [OF 1(1,2)]) (simp_all add: app_ExecuteWithdrawal_def Let_def)
    next
      case (Some err)
      let ?a1 = "a\<lparr>app_bridge := withdraw_state (app_bridge a) i v r dl sig asset, app_bank := k\<rparr>"
      let ?undone = "rollback_state ?a1 (bridge_ExportState (app_bridge a)) (bank_ExportState (app_bank a))
          (limits_ExportState (bk_limits (app_bridge a)))"
      have "restored a (fst ?undone)"
        using debit Some by (intro rollback_restores [OF assms refl]) (simp_all add: debit_error_hook withdraw_state_def)
      moreover have "join_errors (AppBankError err) (snd ?undone) \<noteq> AppBridgeError ErrInsufficientSupply"
        by (simp add: join_errors_def split: option.split)
      ultimately show ?thesis
        using debit Some asset 1(3) Inr x
        by (intro rolled_back [of "join_errors (AppBankError err) (snd ?undone)"])
           (simp_all add: app_ExecuteWithdrawal_def rollbackWithdrawalState_def Let_def split_beta)
    qed
  next
    case (2 asset v)
    with Inr show ?thesis by (intro short) (simp_all add: app_ExecuteWithdrawal_def Let_def)
  next
    case (3 e)
    with Inr show ?thesis by (intro refused [of "AppBridgeError e"]) (simp_all add: app_ExecuteWithdrawal_def Let_def)
  qed
qed

lemma app_inv_withdraw:
  assumes "app_books out a"
  shows "app_books out (fst (app_ExecuteWithdrawal bech32 a owner i amount r dl sig))"
proof (cases rule: withdrawal_cases [OF assms, of bech32 owner i amount r dl sig])
  case (1 e)
  then show ?thesis using assms by simp
next
  case (2 asset v)
  have "bridge_inv (withdraw_limited (app_bridge a) i v)"
    using assms by (simp add: app_books_def bridge_inv_def ledger_ok_cong [of "withdraw_limited k i v" k for k])
      (simp add: withdraw_limited_def limits_inv_Record)
  with 2(3) assms show ?thesis by (simp add: app_books_def signer_sets_inv_def)
next
  case (3 e)
  then show ?thesis using restored_inv [OF assms] by simp
next
  case (4 asset v k)
  have inv: "bridge_inv (app_bridge a)" "bank_inv (app_bank a)" using assms by (simp_all add: app_books_def)
  have bridge: "bridge_inv (withdraw_state (app_bridge a) i v r dl sig asset)"
    using bridge_inv_withdraw [OF inv(1), of i amount r dl sig] withdraw_accept [OF inv(1) 4(1,2)] by simp
  have denom: "bridgeDenomForAsset asset = TrimSpace (as_Denom asset)"
    using 4(1) inv(1) by (intro stored_denom) (auto simp: withdraw_guards_def bridge_inv_def)
  have bank: "bank_inv k" "bank_total k d = bank_total (app_bank a) d - (if d = bridgeDenomForAsset asset then v else 0)" for d
    using bank.debit_inv [OF inv(2), of "TrimSpace owner" "as_Denom asset" "Some v"]
      bank.debit_total [OF inv(2), of "TrimSpace owner" "as_Denom asset" v d] 4(3) denom by simp_all
  have "bridge_SupplyForDenom (withdraw_state (app_bridge a) i v r dl sig asset) d
      = bridge_SupplyForDenom (app_bridge a) d - (if d = bridgeDenomForAsset asset then v else 0)" for d
    by (simp add: withdraw_state_def bridge_SupplyForDenom_def gomap_simps)
  with bridge bank assms 4(4) show ?thesis
    by (simp add: app_books_def) (simp add: withdraw_state_def signer_sets_inv_def)
qed

section \<open>Blocks and the other operations\<close>

lemma app_inv_pending: "app_books out (a\<lparr>app_pending := q\<rparr>) \<longleftrightarrow> app_books out a"
  by (simp add: app_books_def)

lemma app_inv_height: "app_books out a \<Longrightarrow> app_books out (a\<lparr>app_bridge := bridge_SetCurrentHeight (app_bridge a) h\<rparr>)"
  using bridge_inv_step [OF _ bridge_step.height, of "app_bridge a" h]
  by (simp add: app_books_def) (simp add: bridge_SetCurrentHeight_def signer_sets_inv_def bridge_SupplyForDenom_def)

lemma app_inv_submit_pending: "app_books out a \<Longrightarrow> app_books out (fst (submit_pending cr bech32 ss a progress))"
proof (induction ss arbitrary: a progress)
  case (Cons s ss)
  obtain a1 res e where run: "submitDepositClaimLocked cr bech32 a (qd_Claim s) (qd_Attestation s) = (a1, res, e)"
    by (metis prod_cases3)
  have "app_books out a1" using app_inv_submit [OF Cons.prems, of cr bech32 "qd_Claim s" "qd_Attestation s"] run by simp
  with Cons.IH run show ?case by (cases e) simp_all
qed simp

lemma app_inv_AdvanceBlock:
  assumes "app_books out a"
  shows "app_books out (fst (app_AdvanceBlock cr bech32 a))"
proof -
  let ?at = "\<lambda>h. a\<lparr>app_bridge := bridge_SetCurrentHeight (app_bridge a) h\<rparr>"
  have "app_books out ((?at h)\<lparr>app_pending := []\<rparr>)" for h by (simp only: app_inv_pending app_inv_height [OF assms])
  then have "app_books out (fst (submit_pending cr bech32 ss ((?at h)\<lparr>app_pending := []\<rparr>) p))" for h ss p
    by (rule app_inv_submit_pending)
  then show ?thesis by (simp add: app_AdvanceBlock_def Let_def split_beta app_inv_height [OF assms])
qed

text \<open>An operation of the bridge keeper's own step relation that leaves supply and signer sets alone.\<close>

lemma app_inv_bridge_op:
  assumes "app_books out a" "bridge_inv b" "bk_signerSets b = bk_signerSets (app_bridge a)" "bk_supplyByDenom b = bk_supplyByDenom (app_bridge a)"
  shows "app_books out (a\<lparr>app_bridge := b\<rparr>)"
  using assms by (simp add: app_books_def signer_sets_inv_def bridge_SupplyForDenom_def)

inductive app_step :: "('pk, 'sk) crypto \<Rightarrow> (string \<Rightarrow> bool) \<Rightarrow> App \<Rightarrow> App \<Rightarrow> bool" for cr bech32 where
  submit: "app_step cr bech32 a (fst (app_SubmitDepositClaim cr bech32 a claim att))"
| withdraw: "app_step cr bech32 a (fst (app_ExecuteWithdrawal bech32 a owner i amount r dl sig))"
| queue: "app_step cr bech32 a (fst (app_QueueDepositClaim bech32 a claim att))"
| block: "app_step cr bech32 a (fst (app_AdvanceBlock cr bech32 a))"
| height: "app_step cr bech32 a (app_SetCurrentHeight a h)"
| register: "app_step cr bech32 a (fst (app_RegisterAsset a asset))"
| limit: "app_step cr bech32 a (fst (app_SetLimit a l))"
| pause: "app_step cr bech32 a (fst (app_Pause a f))"
| unpause: "app_step cr bech32 a (fst (app_Unpause a f))"
| asset_status: "app_step cr bech32 a (fst (app_ApplyAssetStatusProposal a authority p))"
| limit_update: "app_step cr bech32 a (fst (app_ApplyLimitUpdateProposal a authority q))"
| route_policy: "app_step cr bech32 a (fst (app_ApplyRoutePolicyUpdateProposal a authority rp))"
| router: "router_step (app_router a) k \<Longrightarrow> app_step cr bech32 a (a\<lparr>app_router := k\<rparr>)"
| signers: "app_step cr bech32 a (a\<lparr>app_bridge := fst (bridge_UpsertSignerSet (app_bridge a) s)\<rparr>)"
| persistence: "app_step cr bech32 a (a\<lparr>app_bank := bank_SetPersistHookForTesting (app_bank a) hook\<rparr>)"

definition app_init :: "App \<Rightarrow> bool" where
  "app_init a \<longleftrightarrow> (\<exists>tmp cfg. a = app_NewWithConfig tmp cfg)"

lemma app_init_inv:
  assumes "app_init a"
  shows "app_inv a"
proof -
  obtain signers threshold where b: "app_bridge a = bridge_NewKeeper registry_NewKeeper limits_NewKeeper pauser_NewKeeper signers threshold"
    and k: "app_bank a = bank_NewKeeper"
    using assms by (auto simp: app_init_def app_NewWithConfig_def newAppFromKeepers_def Let_def)
  have "bridge_init (app_bridge a)"
    unfolding bridge_init_def b using registry_inv_New limits_inv_New pauser_inv_New by blast
  moreover have "signer_sets_inv (app_bridge a)" "bk_signerSets (app_bridge a) \<noteq> []"
    using normalizeSignerSet_fixed unfolding b bridge_NewKeeper_def signer_sets_inv_def Let_def by simp_all
  ultimately show ?thesis
    using bridge_init_inv bank_inv_New
    by (simp add: app_books_def k) (simp add: b bridge_NewKeeper_def bank_NewKeeper_def bank_total_def bridge_SupplyForDenom_def Let_def)
qed

lemma app_inv_governance:
  assumes "app_books out a" "registry_inv (gk_registry g)" "limits_inv (gk_limits g)" "registry_extends (bk_registry (app_bridge a)) (gk_registry g)"
  shows "app_books out (app_set_governance a g)"
proof -
  let ?b = "(app_bridge a)\<lparr>bk_registry := gk_registry g, bk_limits := gk_limits g\<rparr>"
  have "ledger_ok ((app_bridge a)\<lparr>bk_registry := gk_registry g\<rparr>)"
    using assms by (intro ledger_ok_registry) (simp_all add: app_books_def bridge_inv_def)
  then have "ledger_ok ?b" by (simp add: ledger_ok_cong [of ?b "(app_bridge a)\<lparr>bk_registry := gk_registry g\<rparr>"])
  then have "bridge_inv ?b" using assms by (simp add: bridge_inv_def app_books_def)
  then show ?thesis
    using assms(1) by (simp add: app_books_def app_set_governance_def signer_sets_inv_def bridge_SupplyForDenom_def)
qed

lemma gov_keepers:
  "gk_registry (fst (gov_ApplyAssetStatusProposal g a p)) \<in> {gk_registry g, fst (setAssetEnabled (gk_registry g) (asp_AssetID p) (asp_Enabled p))}"
  "gk_limits (fst (gov_ApplyAssetStatusProposal g a p)) = gk_limits g"
  "gk_registry (fst (gov_ApplyLimitUpdateProposal g a q)) = gk_registry g"
  "gk_limits (fst (gov_ApplyLimitUpdateProposal g a q)) \<in> {gk_limits g, fst (limits_SetLimit (gk_limits g) (lup_Limit q))}"
  "gk_registry (fst (gov_ApplyRoutePolicyUpdateProposal g a r)) = gk_registry g"
  "gk_limits (fst (gov_ApplyRoutePolicyUpdateProposal g a r)) = gk_limits g"
  by (auto simp: gov_ApplyAssetStatusProposal_def gov_ApplyLimitUpdateProposal_def gov_ApplyRoutePolicyUpdateProposal_def
      registry_EnableAsset_def registry_DisableAsset_def Let_def split: option.split sum.split prod.split)

lemma app_governance_simps [simp]:
  "gk_registry (app_governance a) = bk_registry (app_bridge a)" "gk_limits (app_governance a) = bk_limits (app_bridge a)"
  "gk_authorities (app_governance a) = app_authorities a" "gk_applied (app_governance a) = app_applied a"
  "gk_ibcRouter (app_governance a) = app_router a"
  by (simp_all add: app_governance_def)

lemma app_inv_proposals:
  assumes "app_books out a"
  shows "app_books out (fst (app_ApplyAssetStatusProposal a b p))" "app_books out (fst (app_ApplyLimitUpdateProposal a b q))"
    "app_books out (fst (app_ApplyRoutePolicyUpdateProposal a b r))"
proof -
  have reg: "registry_inv (bk_registry (app_bridge a))" "limits_inv (bk_limits (app_bridge a))"
    using assms by (simp_all add: app_books_def bridge_inv_def)
  show "app_books out (fst (app_ApplyAssetStatusProposal a b p))"
    using gov_keepers(1,2) [of "app_governance a" b p] reg
    by (auto simp: app_ApplyAssetStatusProposal_def split_beta registry_inv_setEnabled registry_extends_setEnabled
        intro!: app_inv_governance [OF assms])
  show "app_books out (fst (app_ApplyLimitUpdateProposal a b q))"
    using gov_keepers(3,4) [of "app_governance a" b q] reg
    by (auto simp: app_ApplyLimitUpdateProposal_def split_beta limits_inv_SetLimit intro!: app_inv_governance [OF assms])
  show "app_books out (fst (app_ApplyRoutePolicyUpdateProposal a b r))"
    using gov_keepers(5,6) [of "app_governance a" b r] reg
    by (auto simp: app_ApplyRoutePolicyUpdateProposal_def split_beta intro!: app_inv_governance [OF assms])
qed

lemma app_inv_step:
  assumes "app_books out a" "app_step cr bech32 a a'"
  shows "app_books out a'"
  using assms(2)
proof cases
  case (submit claim att)
  then show ?thesis using app_inv_submit [OF assms(1)] by (simp add: app_SubmitDepositClaim_def)
next
  case (withdraw owner i amount r dl sig)
  then show ?thesis using app_inv_withdraw [OF assms(1)] by simp
next
  case (queue claim att)
  then show ?thesis
    using assms(1) by (simp add: app_QueueDepositClaim_def Let_def app_inv_pending split: option.split sum.split)
next
  case (block)
  then show ?thesis using app_inv_AdvanceBlock [OF assms(1)] by simp
next
  case (height h)
  then show ?thesis using app_inv_height [OF assms(1)] by (simp add: app_SetCurrentHeight_def)
next
  case (register asset)
  have "bridge_inv ((app_bridge a)\<lparr>bk_registry := fst (registry_RegisterAsset (bk_registry (app_bridge a)) asset)\<rparr>)"
    using assms(1) bridge_step.register by (auto simp: app_books_def intro: bridge_inv_step)
  with register show ?thesis by (auto simp: app_RegisterAsset_def split_beta intro!: app_inv_bridge_op [OF assms(1)])
next
  case (limit l)
  have "bridge_inv ((app_bridge a)\<lparr>bk_limits := fst (limits_SetLimit (bk_limits (app_bridge a)) l)\<rparr>)"
    using assms(1) bridge_step.limit by (auto simp: app_books_def intro: bridge_inv_step)
  with limit show ?thesis by (auto simp: app_SetLimit_def split_beta intro!: app_inv_bridge_op [OF assms(1)])
next
  case (pause f)
  have "bridge_inv ((app_bridge a)\<lparr>bk_pauser := fst (pauser_Pause (bk_pauser (app_bridge a)) f)\<rparr>)"
    using assms(1) bridge_step.pause by (auto simp: app_books_def intro: bridge_inv_step)
  with pause show ?thesis by (auto simp: app_Pause_def split_beta intro!: app_inv_bridge_op [OF assms(1)])
next
  case (unpause f)
  have "bridge_inv ((app_bridge a)\<lparr>bk_pauser := fst (pauser_Unpause (bk_pauser (app_bridge a)) f)\<rparr>)"
    using assms(1) bridge_step.unpause by (auto simp: app_books_def intro: bridge_inv_step)
  with unpause show ?thesis by (auto simp: app_Unpause_def split_beta intro!: app_inv_bridge_op [OF assms(1)])
next
  case (signers s)
  have "bk_signerSets (fst (bridge_UpsertSignerSet (app_bridge a) s)) \<noteq> []"
    using assms(1) by (auto simp: bridge_UpsertSignerSet_def app_books_def split: option.split)
  moreover have "bk_supplyByDenom (fst (bridge_UpsertSignerSet (app_bridge a) s)) = bk_supplyByDenom (app_bridge a)"
    by (simp add: bridge_UpsertSignerSet_def split: option.split)
  ultimately show ?thesis
    using signers assms(1) by (simp add: app_books_def bridge_inv_UpsertSignerSet signer_sets_inv_Upsert bridge_SupplyForDenom_def)
next
  case (persistence hook)
  then show ?thesis
    using assms(1) by (simp add: app_books_def bank_SetPersistHookForTesting_def bank_inv_def bank_total_def)
qed (use app_inv_proposals [OF assms(1)] assms(1) in \<open>simp_all add: app_books_def\<close>)

interpretation application: transition_system app_init "app_step cr bech32" app_inv for cr bech32
  by unfold_locales (fact app_init_inv, rule app_inv_step)

end
