(* ===== verification/AppProperties.thy ===== *)
theory AppProperties
  imports AppLedger
begin

text \<open>
  The properties of the application as a whole, on an application that is configured, given an asset and a limit, and
  funded by one attested deposit.
\<close>

section \<open>A concrete application\<close>

definition example_raw_asset :: Asset where
  "example_raw_asset = example_asset\<lparr>as_AssetID := '' eth '', as_Denom := [], as_DestinationDenom := []\<rparr>"

definition example_app_config :: Config where
  "example_app_config = (DefaultConfig ''/tmp'')\<lparr>cf_AllowedSigners := [''0x62'', ''0x61'']\<rparr>"

definition example_app :: App where
  "example_app =
     app_SetCurrentHeight
       (fst (app_SetLimit
         (fst (app_RegisterAsset (app_NewWithConfig ''/tmp'' example_app_config) example_raw_asset))
         \<lparr>rl_AssetID = ''eth'', rl_WindowBlocks = 10, rl_MaxAmount = Some 100\<rparr>)) 5"

definition any_address :: "string \<Rightarrow> bool" where
  "any_address x = True"

definition example_app_funded :: App where
  "example_app_funded = fst (app_SubmitDepositClaim example_crypto any_address example_app example_claim example_attestation)"

definition example_app_unsaved :: App where
  "example_app_unsaved = example_app\<lparr>app_bank := bank_SetPersistHookForTesting (app_bank example_app) (Some ''disk full'')\<rparr>"

lemma example_app_reachable: "reachable app_init (app_step example_crypto any_address) example_app"
  unfolding example_app_def
  by (rule reachable.next_state [OF reachable.next_state [OF reachable.next_state [OF reachable.start]]])
     (auto simp: app_init_def, rule app_step.register, rule app_step.limit, rule app_step.height)

lemma example_app_inv: "app_inv example_app"
  by (rule application.reachable_inv [OF example_app_reachable])

lemma example_app_bridge: "app_bridge example_app = example_bridge"
proof -
  have reg: "registry_RegisterAsset registry_NewKeeper example_raw_asset = (\<lparr>rk_assets = [(''eth'', example_asset)]\<rparr>, None)" by code_simp
  have lim: "limits_SetLimit limits_NewKeeper \<lparr>rl_AssetID = ''eth'', rl_WindowBlocks = 10, rl_MaxAmount = Some 100\<rparr> = (example_limits, None)"
    by code_simp
  have cfg: "normalizeConfig ''/tmp'' example_app_config = example_app_config"
    by (rule normalizeConfig_fixed) (simp add: config_complete_def example_app_config_def default_modules, simp add: DefaultConfig_def)
  have "app_bridge (app_NewWithConfig ''/tmp'' example_app_config)
      = bridge_NewKeeper registry_NewKeeper limits_NewKeeper pauser_NewKeeper [''0x62'', ''0x61''] 2"
    by (simp add: app_NewWithConfig_def cfg newAppFromKeepers_def Let_def) (simp add: example_app_config_def DefaultConfig_def)
  then show ?thesis
    by (simp add: example_app_def app_SetCurrentHeight_def app_SetLimit_def app_RegisterAsset_def bridge_NewKeeper_def reg lim
        split_beta Let_def bridge_SetCurrentHeight_def example_bridge_def)
qed

lemma example_app_bank: "app_bank example_app = bank_NewKeeper"
  by (simp add: example_app_def app_SetCurrentHeight_def app_SetLimit_def app_RegisterAsset_def app_NewWithConfig_def
      newAppFromKeepers_def split_beta Let_def)

lemma example_recipient: "example_claim\<lparr>dc_Recipient := TrimSpace (dc_Recipient example_claim)\<rparr> = example_claim"
  by (simp add: example_claim_def go_eval)

lemma example_normalized: "bank_NormalizeAddress any_address (dc_Recipient example_claim) = Inr ''alice''"
  by (simp add: bank_NormalizeAddress_def bank_normalizeAddress_def any_address_def example_claim_def Let_def go_eval)

lemma example_app_submit:
  "app_SubmitDepositClaim example_crypto any_address example_app example_claim example_attestation =
     (example_app\<lparr>app_bridge := example_funded, app_bank := fst (bank_Credit bank_NewKeeper ''alice'' ''ueth'' (Some 40))\<rparr>,
      \<lparr>res_Status = ClaimStatusAccepted, res_MessageID = ci_MessageID (dc_Identity example_claim), res_Denom = ''ueth'', res_Amount = Some 40\<rparr>, None)"
proof -
  have "snd (bank_Credit bank_NewKeeper ''alice'' ''ueth'' (Some 40)) = None" by code_simp
  then obtain k where "bank_Credit bank_NewKeeper ''alice'' ''ueth'' (Some 40) = (k, None)" by (metis prod.collapse)
  moreover have "example_claim\<lparr>dc_Recipient := ''alice''\<rparr> = example_claim" by (simp add: example_claim_def)
  moreover have "dc_Amount example_claim = Some 40" by (simp add: example_claim_def)
  ultimately show ?thesis
    by (simp add: app_SubmitDepositClaim_def submitDepositClaimLocked_def example_normalized example_app_bridge example_app_bank
        deposit_accept [OF example_bridge_inv example_deposit_guards] example_denom example_funded_def cloneAmount_def Let_def)
       (simp add: example_claim_def)
qed

section \<open>Properties\<close>


lemma example_app_funded_reachable: "reachable app_init (app_step example_crypto any_address) example_app_funded"
  unfolding example_app_funded_def by (rule reachable.next_state [OF example_app_reachable app_step.submit])

lemma example_app_funded_eq:
  "example_app_funded = example_app\<lparr>app_bridge := example_funded, app_bank := fst (bank_Credit bank_NewKeeper ''alice'' ''ueth'' (Some 40))\<rparr>"
  by (simp add: example_app_funded_def example_app_submit)


text \<open>C11: a submitted claim either is accepted, and then the supply of its denom and the recipient's balance both
  grow by the claimed amount and no other supply or balance changes; or it fails, also when the bridge accepted it and the
  bank did not, and then the bridge is what it was but for the count of rejected claims, every balance is what it was,
  and the rest of the application is untouched.\<close>

theorem deposit_all_or_nothing:
  assumes "app_inv a" "bk_nextWithdrawalNonce (app_bridge a) \<noteq> 0"
  shows "case app_SubmitDepositClaim cr bech32 a claim att of
      (a', res, None) \<Rightarrow>
        \<exists>v. dc_Amount claim = Some v \<and> 0 < v \<and> res_Amount res = Some v
          \<and> (\<forall>d. bridge_SupplyForDenom (app_bridge a') d = bridge_SupplyForDenom (app_bridge a) d + (if d = res_Denom res then v else 0))
          \<and> (\<forall>x d. bank_BalanceOf (app_bank a') x d = bank_BalanceOf (app_bank a) x d
                + (if TrimSpace x = TrimSpace (dc_Recipient claim) \<and> TrimSpace d = res_Denom res then v else 0))
    | (a', res, Some e) \<Rightarrow>
        (\<exists>n. app_bridge a' = (app_bridge a)\<lparr>bk_rejectedClaims := n\<rparr>)
        \<and> (\<forall>x d. bank_BalanceOf (app_bank a') x d = bank_BalanceOf (app_bank a) x d)
        \<and> a' = a\<lparr>app_bridge := app_bridge a', app_bank := app_bank a'\<rparr>"
proof (cases rule: submit_cases [OF assms(1), of cr bech32 claim att])
  case (1 e)
  then show ?thesis
    by (simp add: app_SubmitDepositClaim_def) (rule exI [of _ "bk_rejectedClaims (app_bridge a)"], simp)
next
  case (2 e)
  then obtain res where "submitDepositClaimLocked cr bech32 a claim att =
      (a\<lparr>app_bridge := (app_bridge a)\<lparr>bk_rejectedClaims := bk_rejectedClaims (app_bridge a) + 1\<rparr>\<rparr>, res, Some e)"
    by (metis prod.collapse)
  then show ?thesis by (auto simp: app_SubmitDepositClaim_def)
next
  case (3 e)
  then obtain a' res where run: "submitDepositClaimLocked cr bech32 a claim att = (a', res, Some e)" and r: "restored a a'"
    by (metis prod.collapse)
  have "\<exists>n. app_bridge a' = (app_bridge a)\<lparr>bk_rejectedClaims := n\<rparr>"
    using r assms(2) by (intro exI [of _ "bk_rejectedClaims (app_bridge a)"]) (simp add: restored_def)
  with r show ?thesis
    unfolding app_SubmitDepositClaim_def run restored_def prod.case option.case by blast
next
  case (4 asset v k res)
  have "0 < v" using bank.credit_pos [of "app_bank a" "TrimSpace (dc_Recipient claim)" "bridgeDenomForAsset asset" "Some v"] 4(5) by simp
  moreover have "bank_BalanceOf k x d = bank_BalanceOf (app_bank a) x d
      + (if TrimSpace x = TrimSpace (dc_Recipient claim) \<and> TrimSpace d = bridgeDenomForAsset asset then v else 0)" for x d
    using bank.credit_bal [of "app_bank a" "TrimSpace (dc_Recipient claim)" "bridgeDenomForAsset asset" v x d] 4(5) by simp
  ultimately show ?thesis
    using 4(2-4) by (simp add: app_SubmitDepositClaim_def 4(6) deposit_state_supply cloneAmount_def)
qed

theorem deposit_all_or_nothing_witness:
  "snd (snd (app_SubmitDepositClaim example_crypto any_address example_app_unsaved example_claim example_attestation)) \<noteq> None
   \<and> bank_BalanceOf (app_bank (fst (app_SubmitDepositClaim example_crypto any_address example_app_unsaved example_claim example_attestation))) ''alice'' ''ueth'' = 0
   \<and> bk_processedClaims (app_bridge (fst (app_SubmitDepositClaim example_crypto any_address example_app_unsaved example_claim example_attestation))) = []"
proof -
  have inv: "app_inv example_app_unsaved"
    unfolding example_app_unsaved_def by (rule app_inv_step [OF example_app_inv app_step.persistence])
  have bridge: "app_bridge example_app_unsaved = example_bridge" by (simp add: example_app_unsaved_def example_app_bridge)
  have bank: "app_bank example_app_unsaved = \<lparr>bank_balances = [], bank_persistHook = Some ''disk full''\<rparr>"
    by (simp add: example_app_unsaved_def example_app_bank bank_SetPersistHookForTesting_def bank_NewKeeper_def)
  obtain a' res out where run: "app_SubmitDepositClaim example_crypto any_address example_app_unsaved example_claim example_attestation = (a', res, out)"
    by (metis prod_cases3)
  have "out \<noteq> None"
  proof
    assume "out = None"
    with run have none: "submitDepositClaimLocked example_crypto any_address example_app_unsaved example_claim example_attestation = (a', res, None)"
      by (simp add: app_SubmitDepositClaim_def)
    show False
    proof (cases rule: submit_cases [OF inv, of example_crypto any_address example_claim example_attestation])
      case (4 asset v k res)
      then show ?thesis
        using Credit_None [of "app_bank example_app_unsaved" "TrimSpace (dc_Recipient example_claim)" "bridgeDenomForAsset asset" "Some v"]
        by (simp add: bank)
    qed (use none in simp_all)
  qed
  then obtain e where e: "out = Some e" by blast
  have "bk_nextWithdrawalNonce (app_bridge example_app_unsaved) \<noteq> 0" by (simp add: bridge example_bridge_def bridge_NewKeeper_def Let_def)
  from deposit_all_or_nothing [OF inv this, where cr = example_crypto and ?bech32.0 = any_address and claim = example_claim and att = example_attestation]
  have "\<exists>n. app_bridge a' = (app_bridge example_app_unsaved)\<lparr>bk_rejectedClaims := n\<rparr>"
    "bank_BalanceOf (app_bank a') ''alice'' ''ueth'' = bank_BalanceOf (app_bank example_app_unsaved) ''alice'' ''ueth''"
    unfolding run e by simp_all
  then show ?thesis
    unfolding run e by (auto simp: bridge bank example_bridge_def bridge_NewKeeper_def Let_def bank_BalanceOf_def)
qed

text \<open>C12: a withdrawal either is executed, and then the supply of the asset's denom and the owner's balance both
  shrink by the amount, which the owner held; or it fails and leaves bridge, balances and the rest of the
  application as they were, except that a withdrawal that the supply does not cover keeps its use of the rate limit.\<close>

theorem withdrawal_all_or_nothing:
  assumes "app_inv a" "bk_nextWithdrawalNonce (app_bridge a) \<noteq> 0"
  shows "case app_ExecuteWithdrawal bech32 a owner i amount r dl sig of
      (a', Inr w) \<Rightarrow>
        \<exists>v denom. amount = Some v \<and> 0 < v \<and> wr_Amount w = v \<and> v \<le> bank_BalanceOf (app_bank a) owner denom
          \<and> (\<forall>d. bridge_SupplyForDenom (app_bridge a') d = bridge_SupplyForDenom (app_bridge a) d - (if d = denom then v else 0))
          \<and> (\<forall>x d. bank_BalanceOf (app_bank a') x d = bank_BalanceOf (app_bank a) x d
                - (if TrimSpace x = TrimSpace owner \<and> TrimSpace d = denom then v else 0))
    | (a', Inl e) \<Rightarrow>
        (if e = AppBridgeError ErrInsufficientSupply then \<exists>l. app_bridge a' = (app_bridge a)\<lparr>bk_limits := l\<rparr>
         else app_bridge a' = app_bridge a)
        \<and> (\<forall>x d. bank_BalanceOf (app_bank a') x d = bank_BalanceOf (app_bank a) x d)
        \<and> a' = a\<lparr>app_bridge := app_bridge a', app_bank := app_bank a'\<rparr>"
proof (cases rule: withdrawal_cases [OF assms(1), of bech32 owner i amount r dl sig])
  case (1 e)
  then show ?thesis by simp
next
  case (2 asset v)
  then show ?thesis by (auto simp: withdraw_limited_def)
next
  case (3 e)
  then obtain a' where run: "app_ExecuteWithdrawal bech32 a owner i amount r dl sig = (a', Inl e)" and r: "restored a a'"
    by (metis prod.collapse)
  show ?thesis using r assms(2) 3(3) unfolding run by (auto simp: restored_def)
next
  case (4 asset v k)
  have inv: "bridge_inv (app_bridge a)" "bank_inv (app_bank a)" using assms by (simp_all add: app_books_def)
  have denom: "TrimSpace (as_Denom asset) = bridgeDenomForAsset asset"
    using 4(1) inv(1) by (intro stored_denom [symmetric]) (auto simp: withdraw_guards_def bridge_inv_def)
  have "snd (bank_Debit (app_bank a) (TrimSpace owner) (as_Denom asset) (Some v)) = None" using 4(3) by simp
  note debit = bank.debit_pos [OF this] bank.debit_bal [OF inv(2) this]
  have "v \<le> bank_BalanceOf (app_bank a) owner (bridgeDenomForAsset asset)"
    using debit(1) by (auto simp: bank_BalanceOf_def denom)
  moreover have "bridge_SupplyForDenom (withdraw_state (app_bridge a) i v r dl sig asset) d
      = bridge_SupplyForDenom (app_bridge a) d - (if d = bridgeDenomForAsset asset then v else 0)" for d
    by (simp add: withdraw_state_def bridge_SupplyForDenom_def gomap_simps)
  ultimately show ?thesis
    using debit(2) 4(1) unfolding 4(3,4)
    by (simp add: withdraw_guards_def denom) (intro exI [of _ "bridgeDenomForAsset asset"], simp)
qed

lemma example_app_funded_facts:
  "app_bridge example_app_funded = example_funded" "bank_BalanceOf (app_bank example_app_funded) ''alice'' ''ueth'' = 40"
proof -
  show "app_bridge example_app_funded = example_funded" by (simp add: example_app_funded_eq)
  have "bank_BalanceOf (fst (bank_Credit bank_NewKeeper ''alice'' ''ueth'' (Some 40))) ''alice'' ''ueth'' = 40" by code_simp
  then show "bank_BalanceOf (app_bank example_app_funded) ''alice'' ''ueth'' = 40" by (simp add: example_app_funded_eq)
qed

theorem withdrawal_all_or_nothing_witness:
  "\<exists>e. snd (app_ExecuteWithdrawal any_address example_app_funded ''bob'' ''eth'' (Some 15) ''0xrecipient'' 50 ''s'') = Inl e
     \<and> app_bridge (fst (app_ExecuteWithdrawal any_address example_app_funded ''bob'' ''eth'' (Some 15) ''0xrecipient'' 50 ''s'')) = example_funded"
proof -
  have inv: "app_inv example_app_funded" by (rule application.reachable_inv [OF example_app_funded_reachable])
  have nonce: "bk_nextWithdrawalNonce (app_bridge example_app_funded) \<noteq> 0"
    by (simp add: example_app_funded_facts example_funded_simps)
  have supply40: "bridge_SupplyForDenom (app_bridge example_app_funded) ''ueth'' = 40"
    by (simp add: example_app_funded_facts example_funded_supply)
  obtain a' out where run: "app_ExecuteWithdrawal any_address example_app_funded ''bob'' ''eth'' (Some 15) ''0xrecipient'' 50 ''s'' = (a', out)"
    by fastforce
  have bob: "bank_BalanceOf (app_bank example_app_funded) ''bob'' d = 0" for d
  proof -
    have "map_of (bank_balances (fst (bank_Credit bank_NewKeeper ''alice'' ''ueth'' (Some 40)))) ''bob'' = None" by code_simp
    then show ?thesis by (simp add: example_app_funded_eq bank_BalanceOf_def Let_def go_eval)
  qed
  note result = withdrawal_all_or_nothing [OF inv nonce, where ?bech32.0 = any_address and owner = "''bob''" and i = "''eth''"
      and amount = "Some 15" and r = "''0xrecipient''" and dl = 50 and sig = "''s''", unfolded run]
  obtain e where e: "out = Inl e" using result bob by (cases out) auto
  have "e \<noteq> AppBridgeError ErrInsufficientSupply"
  proof (cases rule: withdrawal_cases [OF inv, of any_address "''bob''" "''eth''" "Some 15" "''0xrecipient''" 50 "''s''"])
    case (2 asset v)
    have "asset = example_asset" "v = 15"
      using 2(1) example_withdraw_guards [of 15] by (simp_all add: withdraw_guards_def example_app_funded_facts)
    with 2(2) supply40 show ?thesis by (simp add: example_denom)
  qed (use run e in auto)
  with result e run show ?thesis by (simp add: example_app_funded_facts)
qed

text \<open>The reference for a block: submit the claims of a list one after the other and note which were accepted.\<close>

fun run_claims ::
    "('pk, 'sk) crypto \<Rightarrow> (string \<Rightarrow> bool) \<Rightarrow> App \<Rightarrow> QueuedDepositClaim list \<Rightarrow> App \<times> bool list" where
  "run_claims cr bech32 a [] = (a, [])"
| "run_claims cr bech32 a (q # qs) =
     (case app_SubmitDepositClaim cr bech32 a (qd_Claim q) (qd_Attestation q) of
        (a1, res, e) \<Rightarrow> (case run_claims cr bech32 a1 qs of (a2, oks) \<Rightarrow> (a2, (e = None) # oks)))"

lemma rollback_pending: "app_pending (fst (rollback_state a b k l)) = app_pending a"
  by (simp add: rollback_state_def Let_def split: prod.split option.split)

lemma submit_pending_queue: "app_pending (fst (submitDepositClaimLocked cr bech32 a claim att)) = app_pending a"
  by (simp add: submitDepositClaimLocked_def rollbackDepositClaimState_def Let_def split_beta rollback_pending
      split: sum.split option.split)

lemma submit_pending_runs:
  "fst (submit_pending cr bech32 qs a p) = fst (run_claims cr bech32 a qs)
   \<and> bp_AppliedQueuedClaims (snd (submit_pending cr bech32 qs a p)) = bp_AppliedQueuedClaims p + length (filter id (snd (run_claims cr bech32 a qs)))
   \<and> bp_Height (snd (submit_pending cr bech32 qs a p)) = bp_Height p
   \<and> app_pending (fst (run_claims cr bech32 a qs)) = app_pending a"
proof (induction qs arbitrary: a p)
  case (Cons q qs)
  obtain a1 res e where run: "submitDepositClaimLocked cr bech32 a (qd_Claim q) (qd_Attestation q) = (a1, res, e)"
    by (metis prod_cases3)
  have "app_pending a1 = app_pending a" using submit_pending_queue [of cr bech32 a "qd_Claim q" "qd_Attestation q"] run by simp
  with Cons.IH [of a1] run show ?case
    by (cases e) (simp_all add: app_SubmitDepositClaim_def split_beta)
qed simp

text \<open>C35: advancing a block raises the height by one and then submits the queued claims once each, in the order in which
  they were queued, exactly as direct submissions at the new height would; afterwards the queue is empty, and the progress report counts the
  accepted ones.\<close>

theorem block_drains_queue:
  "fst (app_AdvanceBlock cr bech32 a)
     = fst (run_claims cr bech32 (app_SetCurrentHeight (a\<lparr>app_pending := []\<rparr>) (bk_currentHeight (app_bridge a) + 1)) (app_pending a))
   \<and> app_pending (fst (app_AdvanceBlock cr bech32 a)) = []
   \<and> bp_Height (snd (app_AdvanceBlock cr bech32 a)) = bk_currentHeight (app_bridge a) + 1
   \<and> bp_PendingQueuedClaims (snd (app_AdvanceBlock cr bech32 a)) = 0
   \<and> bp_AppliedQueuedClaims (snd (app_AdvanceBlock cr bech32 a))
       = length (filter id (snd (run_claims cr bech32 (app_SetCurrentHeight (a\<lparr>app_pending := []\<rparr>) (bk_currentHeight (app_bridge a) + 1)) (app_pending a))))"
proof (cases "app_pending a")
  case Nil
  then have "a\<lparr>app_pending := []\<rparr> = a" by (cases a) simp
  with Nil show ?thesis by (simp add: app_AdvanceBlock_def Let_def app_SetCurrentHeight_def bridge_ExportState_def)
next
  case Cons
  then have ne: "app_pending a \<noteq> []" by simp
  let ?h = "bk_currentHeight (app_bridge a) + 1"
  let ?a1 = "app_SetCurrentHeight (a\<lparr>app_pending := []\<rparr>) ?h"
  let ?p = "\<lparr>bp_Height = ?h, bp_AppliedQueuedClaims = 0, bp_PendingQueuedClaims = 0, bp_BridgeCurrentHeight = ?h,
             bp_LastSubmissionMessage = NoMessage, bp_AppliedClaimBalances = []\<rparr>"
  note run = submit_pending_runs [of cr bech32 "app_pending a" ?a1 ?p]
  have pending: "app_pending (fst (submit_pending cr bech32 (app_pending a) ?a1 ?p)) = []"
    using run by (simp add: app_SetCurrentHeight_def)
  have a1: "a\<lparr>app_bridge := bridge_SetCurrentHeight (app_bridge a) ?h, app_pending := []\<rparr> = ?a1"
    by (cases a) (simp add: app_SetCurrentHeight_def)
  have "app_AdvanceBlock cr bech32 a =
      (fst (submit_pending cr bech32 (app_pending a) ?a1 ?p), (snd (submit_pending cr bech32 (app_pending a) ?a1 ?p))\<lparr>bp_PendingQueuedClaims := 0\<rparr>)"
    using ne pending by (simp add: app_AdvanceBlock_def Let_def split_beta bridge_ExportState_def a1)
  then show ?thesis using run pending by simp
qed

lemma setAssetEnabled_get:
  "setAssetEnabled k i b = (k', None) \<Longrightarrow> registry_GetAsset k' j = Some asset \<Longrightarrow> TrimSpace j = TrimSpace i \<Longrightarrow> as_Enabled asset = b"
  by (auto simp: setAssetEnabled_def registry_GetAsset_def assetKey_def Let_def gomap_simps split: option.splits)

text \<open>C26: after a governance proposal has switched an asset off, no deposit claim for it is accepted and no withdrawal of it is
  executed, whoever submits them and however the asset id is padded.\<close>

theorem disabled_asset_is_frozen:
  assumes "app_inv a" "app_ApplyAssetStatusProposal a authority p = (a', None)" "\<not> asp_Enabled p"
    and "TrimSpace (dc_AssetID claim) = TrimSpace (asp_AssetID p)" "TrimSpace i = TrimSpace (asp_AssetID p)"
  shows "snd (snd (app_SubmitDepositClaim cr bech32 a' claim att)) \<noteq> None
     \<and> (\<exists>e. snd (app_ExecuteWithdrawal bech32 a' owner i amount r dl sig) = Inl e)"
proof -
  from assms(2) obtain g where g: "gov_ApplyAssetStatusProposal (app_governance a) authority p = (g, None)" "a' = app_set_governance a g"
    by (auto simp: app_ApplyAssetStatusProposal_def split: prod.splits)
  then have reg: "setAssetEnabled (bk_registry (app_bridge a)) (asp_AssetID p) False = (gk_registry g, None)"
    using assms(3) by (auto simp: gov_ApplyAssetStatusProposal_def registry_DisableAsset_def split: option.splits sum.splits prod.splits)
  have off: "\<not> as_Enabled asset"
    if "registry_GetAsset (bk_registry (app_bridge a')) j = Some asset" "TrimSpace j = TrimSpace (asp_AssetID p)" for j asset
  proof -
    have "bk_registry (app_bridge a') = gk_registry g" by (simp add: g(2) app_set_governance_def)
    with that setAssetEnabled_get [OF reg] show ?thesis by simp
  qed
  have inv: "app_inv a'" using app_inv_proposals(1) [OF assms(1), of authority p] assms(2) by simp
  have "snd (snd (app_SubmitDepositClaim cr bech32 a' claim att)) \<noteq> None"
  proof (cases rule: submit_cases [OF inv, of cr bech32 claim att])
    case (4 asset v k res)
    with off [of "dc_AssetID claim" asset] assms(4) show ?thesis by (simp add: deposit_guards_def)
  qed (simp_all add: app_SubmitDepositClaim_def)
  moreover have "\<exists>e. snd (app_ExecuteWithdrawal bech32 a' owner i amount r dl sig) = Inl e"
  proof (cases rule: withdrawal_cases [OF inv, of bech32 owner i amount r dl sig])
    case (4 asset v k)
    with off [of i asset] assms(5) show ?thesis by (simp add: withdraw_guards_def)
  qed simp_all
  ultimately show ?thesis by blast
qed

theorem disabled_asset_is_frozen_witness:
  "snd (snd (app_SubmitDepositClaim example_crypto any_address
       (fst (app_ApplyAssetStatusProposal example_app ''guardian-1'' \<lparr>asp_ProposalID = ''p1'', asp_AssetID = ''eth'', asp_Enabled = False\<rparr>))
       example_claim example_attestation)) \<noteq> None"
proof -
  let ?p = "\<lparr>asp_ProposalID = ''p1'', asp_AssetID = ''eth'', asp_Enabled = False\<rparr>"
  have "snd (app_ApplyAssetStatusProposal example_app ''guardian-1'' ?p) = None" by code_simp
  then have run: "app_ApplyAssetStatusProposal example_app ''guardian-1'' ?p = (fst (app_ApplyAssetStatusProposal example_app ''guardian-1'' ?p), None)"
    by (metis prod.collapse)
  have "dc_AssetID example_claim = asp_AssetID ?p" "\<not> asp_Enabled ?p" by (simp_all add: example_claim_def)
  with disabled_asset_is_frozen [OF example_app_inv run, where claim = example_claim and i = "asp_AssetID ?p" and cr = example_crypto
      and att = example_attestation and ?bech32.0 = any_address]
  show ?thesis by metis
qed

end
