(* ===== verification/AppState.thy ===== *)
theory AppState
  imports AppProperties
begin

text \<open>
  Saving and loading the application (\<^verbatim>\<open>app/runtime_state.go\<close> and \<^verbatim>\<open>Save\<close>, \<^verbatim>\<open>LoadWithConfig\<close> of \<^verbatim>\<open>app.go\<close>) in the
  \<^verbatim>\<open>runtime-shell\<close> mode: the state of every keeper is written to one JSON file and imported on the next start; a file from before
  the bank module existed has its balances rebuilt from the accepted claims. What reading and decoding a file gives is the
  argument \<open>readState\<close>.
\<close>

section \<open>The saved state\<close>

record runtimeState =
  ru_Assets :: "Asset list"
  ru_Bank :: BankStateSnapshot
  ru_Limits :: LimitsStateSnapshot
  ru_PausedFlows :: "string list"
  ru_PendingClaims :: "QueuedDepositClaim list"
  ru_Bridge :: BridgeStateSnapshot
  ru_IBCRouter :: RouterStateSnapshot
  ru_Governance :: "ProposalRecord list"
  ru_bankPresent :: bool

text \<open>The \<^verbatim>\<open>limits\<close> entry of a file: absent, the list that old versions wrote, or a snapshot.\<close>

datatype raw_limits = NoLimits | LegacyLimits "RateLimit list" | LimitsSnapshot LimitsStateSnapshot

record rawRuntimeState =
  raw_Assets :: "Asset list"
  raw_Bank :: "BankStateSnapshot option"
  raw_Limits :: raw_limits
  raw_PausedFlows :: "string list"
  raw_PendingClaims :: "QueuedDepositClaim list"
  raw_Bridge :: BridgeStateSnapshot
  raw_IBCRouter :: RouterStateSnapshot
  raw_Governance :: "ProposalRecord list"

datatype read_result = StateFile rawRuntimeState | StateMissing | StateUnreadable string

definition zeroBridgeState :: BridgeStateSnapshot where
  "zeroBridgeState =
     \<lparr>bst_CurrentHeight = 0, bst_NextWithdrawalNonce = 0, bst_RejectedClaims = 0, bst_CircuitBreakerTripped = False,
      bst_LastInvariantError = '''', bst_SignerSets = [], bst_ProcessedClaims = [], bst_SupplyByDenom = [], bst_Withdrawals = []\<rparr>"

definition zeroRuntimeState :: runtimeState where
  "zeroRuntimeState =
     \<lparr>ru_Assets = [], ru_Bank = \<lparr>bs_Balances = []\<rparr>, ru_Limits = \<lparr>ls_Limits = [], ls_Usage = []\<rparr>, ru_PausedFlows = [], ru_PendingClaims = [],
      ru_Bridge = zeroBridgeState,
      ru_IBCRouter = \<lparr>rs_NextSequence = 0, rs_Routes = [], rs_RouteProfiles = [], rs_Transfers = [], rs_Transport = []\<rparr>,
      ru_Governance = [], ru_bankPresent = False\<rparr>"

definition loadRuntimeState :: "(string \<Rightarrow> read_result) \<Rightarrow> string \<Rightarrow> string + runtimeState" where
  "loadRuntimeState readState path =
     (if path = '''' then Inr zeroRuntimeState
      else case readState path of
        StateMissing \<Rightarrow> Inr zeroRuntimeState
      | StateUnreadable e \<Rightarrow> Inl e
      | StateFile raw \<Rightarrow>
          Inr \<lparr>ru_Assets = raw_Assets raw,
               ru_Bank = (case raw_Bank raw of Some b \<Rightarrow> b | None \<Rightarrow> \<lparr>bs_Balances = []\<rparr>),
               ru_Limits = (case raw_Limits raw of NoLimits \<Rightarrow> \<lparr>ls_Limits = [], ls_Usage = []\<rparr>
                            | LegacyLimits l \<Rightarrow> \<lparr>ls_Limits = l, ls_Usage = []\<rparr> | LimitsSnapshot s \<Rightarrow> s),
               ru_PausedFlows = raw_PausedFlows raw, ru_PendingClaims = raw_PendingClaims raw, ru_Bridge = raw_Bridge raw,
               ru_IBCRouter = raw_IBCRouter raw, ru_Governance = raw_Governance raw, ru_bankPresent = (raw_Bank raw \<noteq> None)\<rparr>)"

section \<open>Balances of old files\<close>

definition parseBase10BigInt :: "string \<Rightarrow> app_error + int" where
  "parseBase10BigInt value =
     (if value = '''' then Inr 0
      else case SetString10 value of
        None \<Rightarrow> Inl (AppWalletMigrationRequired (''invalid balance amount '' @ value))
      | Some parsed \<Rightarrow> Inr parsed)"

fun parse_supply :: "(string, string) gomap \<Rightarrow> (string, int) gomap \<Rightarrow> app_error + (string, int) gomap" where
  "parse_supply [] acc = Inr acc"
| "parse_supply ((denom, amount) # ds) acc =
     (if amount = '''' then parse_supply ds acc
      else case parseBase10BigInt amount of
        Inl e \<Rightarrow> Inl e
      | Inr parsed \<Rightarrow> parse_supply ds (gomap_set denom parsed acc))"

text \<open>The loop over the accepted claims, adding to \<^verbatim>\<open>aggregated[recipient][denom]\<close>.\<close>

definition aggregate :: "(string, (string, int) gomap) gomap \<Rightarrow> string \<Rightarrow> string \<Rightarrow> int \<Rightarrow> (string, (string, int) gomap) gomap" where
  "aggregate m recipient denom amount =
     (let inner = (case gomap_get m recipient of None \<Rightarrow> [] | Some i \<Rightarrow> i);
          current = (case gomap_get inner denom of None \<Rightarrow> 0 | Some v \<Rightarrow> v)
      in gomap_set recipient (gomap_set denom (current + amount) inner) m)"

fun aggregate_claims ::
    "ClaimRecordSnapshot list \<Rightarrow> (string, (string, int) gomap) gomap \<Rightarrow> app_error + (string, (string, int) gomap) gomap" where
  "aggregate_claims [] m = Inr m"
| "aggregate_claims (c # cs) m =
     (if cs_Status c \<noteq> ClaimStatusAccepted then aggregate_claims cs m
      else if cs_Recipient c = '''' then Inl (AppWalletMigrationRequired '''')
      else case parseBase10BigInt (cs_Amount c) of
        Inl e \<Rightarrow> Inl e
      | Inr amount \<Rightarrow> aggregate_claims cs (aggregate m (cs_Recipient c) (cs_Denom c) amount))"

definition aggregated_records :: "(string, (string, int) gomap) gomap \<Rightarrow> BalanceRecord list" where
  "aggregated_records m =
     concat (map (\<lambda>address.
       let inner = (case gomap_get m address of None \<Rightarrow> [] | Some i \<Rightarrow> i) in
       map (\<lambda>denom. \<lparr>br_Address = address, br_Denom = denom,
                     br_Amount = show_int (case gomap_get inner denom of None \<Rightarrow> 0 | Some v \<Rightarrow> v)\<rparr>)
         (sort (map fst inner))) (sort (map fst m)))"

text \<open>The total of a denom over the sorted records, and whether the denom occurred at all.\<close>

definition aggregated_total :: "(string, (string, int) gomap) gomap \<Rightarrow> string \<Rightarrow> int option" where
  "aggregated_total m denom =
     (let amounts = List.map_filter (\<lambda>(_, inner). gomap_get inner denom) m in
      if amounts = [] then None else Some (sum_list amounts))"

definition resolvedBankState :: "runtimeState \<Rightarrow> app_error + BankStateSnapshot" where
  "resolvedBankState s =
     (if ru_bankPresent s then Inr (ru_Bank s)
      else if bst_ProcessedClaims (ru_Bridge s) = [] \<and> bst_SupplyByDenom (ru_Bridge s) = [] \<and> bst_Withdrawals (ru_Bridge s) = []
      then Inr \<lparr>bs_Balances = []\<rparr>
      else if bst_Withdrawals (ru_Bridge s) \<noteq> [] then Inl (AppWalletMigrationRequired '''')
      else case parse_supply (bst_SupplyByDenom (ru_Bridge s)) [] of
        Inl e \<Rightarrow> Inl e
      | Inr supplyByDenom \<Rightarrow>
      case aggregate_claims (bst_ProcessedClaims (ru_Bridge s)) [] of
        Inl e \<Rightarrow> Inl e
      | Inr aggregated \<Rightarrow>
          if list_ex (\<lambda>(denom, supply'). aggregated_total aggregated denom \<noteq> Some supply') supplyByDenom
          then Inl (AppWalletMigrationRequired '''')
          else Inr \<lparr>bs_Balances = aggregated_records aggregated\<rparr>)"

section \<open>Save and load\<close>

definition app_Save :: "App \<Rightarrow> runtimeState" where
  "app_Save a =
     \<lparr>ru_Assets = registry_ExportAssets (bk_registry (app_bridge a)), ru_Bank = bank_ExportState (app_bank a),
      ru_Limits = limits_ExportState (bk_limits (app_bridge a)), ru_PausedFlows = pauser_ExportPausedFlows (bk_pauser (app_bridge a)),
      ru_PendingClaims = app_pending a, ru_Bridge = bridge_ExportState (app_bridge a), ru_IBCRouter = router_ExportState (app_router a),
      ru_Governance = gov_ExportState (app_governance a), ru_bankPresent = False\<rparr>"

datatype load_error = LoadConfigError config_error | LoadStateError string | LoadImportError app_error

definition app_import :: "App \<Rightarrow> runtimeState \<Rightarrow> app_error + App" where
  "app_import a state =
     (case registry_ImportAssets (bk_registry (app_bridge a)) (ru_Assets state) of
        (_, Some e) \<Rightarrow> Inl (AppRegistryError e)
      | (registry, None) \<Rightarrow>
      case limits_ImportState (bk_limits (app_bridge a)) (ru_Limits state) of
        (_, Some e) \<Rightarrow> Inl (AppLimitsError e)
      | (limits, None) \<Rightarrow>
      case pauser_ImportPausedFlows (bk_pauser (app_bridge a)) (ru_PausedFlows state) of
        (_, Some e) \<Rightarrow> Inl (AppPauserError e)
      | (pauser, None) \<Rightarrow>
      case bridge_ImportState ((app_bridge a)\<lparr>bk_registry := registry, bk_limits := limits, bk_pauser := pauser\<rparr>) (ru_Bridge state) of
        (_, Some e) \<Rightarrow> Inl (AppBridgeError e)
      | (bridge, None) \<Rightarrow>
      case router_ImportState (app_router a) (ru_IBCRouter state) of
        (_, Some e) \<Rightarrow> Inl (AppRouterError e)
      | (router, None) \<Rightarrow>
      let a1 = a\<lparr>app_bridge := bridge, app_router := router\<rparr>;
          a2 = app_set_governance a1 (gov_ImportState (app_governance a1) (ru_Governance state))
      in case resolvedBankState state of
        Inl e \<Rightarrow> Inl e
      | Inr bankState \<Rightarrow>
      case bank_ImportState (app_bank a2) bankState of
        (_, Some e) \<Rightarrow> Inl (AppBankError e)
      | (bank, None) \<Rightarrow> Inr (a2\<lparr>app_bank := bank, app_pending := ru_PendingClaims state\<rparr>))"

definition app_LoadWithConfig ::
    "string \<Rightarrow> (string \<Rightarrow> load_result) \<Rightarrow> (string \<Rightarrow> read_result) \<Rightarrow> Config \<Rightarrow> load_error + App" where
  "app_LoadWithConfig tmp loadConfig readState cfg =
     (case ResolveConfig tmp loadConfig cfg of
        Inl e \<Rightarrow> Inl (LoadConfigError e)
      | Inr resolved \<Rightarrow>
          let a = app_NewWithConfig tmp resolved in
          case loadRuntimeState readState (cf_StatePath (app_Config a)) of
            Inl e \<Rightarrow> Inl (LoadStateError e)
          | Inr state \<Rightarrow> (case app_import a state of Inl e \<Rightarrow> Inl (LoadImportError e) | Inr a' \<Rightarrow> Inr a'))"

text \<open>What \<^verbatim>\<open>json.Unmarshal\<close> gives back for a file that \<^verbatim>\<open>Save\<close> wrote with \<^verbatim>\<open>json.Marshal\<close>: every exported field, with the
  \<^verbatim>\<open>bank\<close> and \<^verbatim>\<open>limits\<close> objects present.\<close>

definition raw_of_saved :: "runtimeState \<Rightarrow> rawRuntimeState" where
  "raw_of_saved s =
     \<lparr>raw_Assets = ru_Assets s, raw_Bank = Some (ru_Bank s), raw_Limits = LimitsSnapshot (ru_Limits s), raw_PausedFlows = ru_PausedFlows s,
      raw_PendingClaims = ru_PendingClaims s, raw_Bridge = ru_Bridge s, raw_IBCRouter = ru_IBCRouter s, raw_Governance = ru_Governance s\<rparr>"

section \<open>Assets survive export and import\<close>

text \<open>The fields of a canonical asset.\<close>

definition fill_symbol :: "Asset \<Rightarrow> Asset" where
  "fill_symbol a = (if as_DisplaySymbol a = '''' then a\<lparr>as_DisplaySymbol := as_DisplayName a\<rparr> else a)"

definition fill_address :: "Asset \<Rightarrow> Asset" where
  "fill_address a = (if as_SourceAssetAddress a = '''' then a\<lparr>as_SourceAssetAddress := as_SourceContract a\<rparr> else a)"

definition fill_contract :: "Asset \<Rightarrow> Asset" where
  "fill_contract a = (if as_SourceContract a = '''' then a\<lparr>as_SourceContract := as_SourceAssetAddress a\<rparr> else a)"

definition fill_kind :: "Asset \<Rightarrow> Asset" where
  "fill_kind a = (if as_SourceAssetKind a = '''' \<and> as_SourceAssetAddress a \<noteq> '''' then a\<lparr>as_SourceAssetKind := KindERC20\<rparr> else a)"

definition trim_asset :: "Asset \<Rightarrow> Asset" where
  "trim_asset a = a\<lparr>as_AssetID := TrimSpace (as_AssetID a), as_SourceChainID := TrimSpace (as_SourceChainID a),
     as_SourceAssetAddress := TrimSpace (as_SourceAssetAddress a), as_SourceContract := TrimSpace (as_SourceContract a),
     as_SourceAssetKind := TrimSpace (as_SourceAssetKind a), as_Denom := TrimSpace (as_Denom a),
     as_DestinationDenom := TrimSpace (as_DestinationDenom a), as_DisplayName := TrimSpace (as_DisplayName a),
     as_DisplaySymbol := TrimSpace (as_DisplaySymbol a)\<rparr>"

lemma canonicalAsset_stages: "canonicalAsset a = fill_kind (fill_contract (fill_address (fill_symbol (trim_asset a))))"
  unfolding canonicalAsset_def Let_def fill_kind_def fill_contract_def fill_address_def fill_symbol_def trim_asset_def by (rule refl)

lemma stage_fields [simp]:
  "as_DisplaySymbol (fill_symbol a) = (if as_DisplaySymbol a = [] then as_DisplayName a else as_DisplaySymbol a)"
  "as_SourceAssetAddress (fill_address a) = (if as_SourceAssetAddress a = [] then as_SourceContract a else as_SourceAssetAddress a)"
  "as_SourceContract (fill_contract a) = (if as_SourceContract a = [] then as_SourceAssetAddress a else as_SourceContract a)"
  "as_SourceAssetKind (fill_kind a) = (if as_SourceAssetKind a = [] \<and> as_SourceAssetAddress a \<noteq> [] then KindERC20 else as_SourceAssetKind a)"
  by (simp_all add: fill_symbol_def fill_address_def fill_contract_def fill_kind_def)

lemma stage_keeps [simp]:
  "as_AssetID (fill_symbol a) = as_AssetID a" "as_SourceChainID (fill_symbol a) = as_SourceChainID a" "as_SourceAssetKind (fill_symbol a) = as_SourceAssetKind a"
  "as_SourceAssetAddress (fill_symbol a) = as_SourceAssetAddress a" "as_SourceContract (fill_symbol a) = as_SourceContract a" "as_Denom (fill_symbol a) = as_Denom a"
  "as_DestinationDenom (fill_symbol a) = as_DestinationDenom a" "as_Decimals (fill_symbol a) = as_Decimals a" "as_DisplayName (fill_symbol a) = as_DisplayName a"
  "as_Enabled (fill_symbol a) = as_Enabled a"
  "as_AssetID (fill_address a) = as_AssetID a" "as_SourceChainID (fill_address a) = as_SourceChainID a" "as_SourceAssetKind (fill_address a) = as_SourceAssetKind a"
  "as_SourceContract (fill_address a) = as_SourceContract a" "as_Denom (fill_address a) = as_Denom a" "as_DestinationDenom (fill_address a) = as_DestinationDenom a"
  "as_Decimals (fill_address a) = as_Decimals a" "as_DisplayName (fill_address a) = as_DisplayName a" "as_DisplaySymbol (fill_address a) = as_DisplaySymbol a"
  "as_Enabled (fill_address a) = as_Enabled a"
  "as_AssetID (fill_contract a) = as_AssetID a" "as_SourceChainID (fill_contract a) = as_SourceChainID a" "as_SourceAssetKind (fill_contract a) = as_SourceAssetKind a"
  "as_SourceAssetAddress (fill_contract a) = as_SourceAssetAddress a" "as_Denom (fill_contract a) = as_Denom a" "as_DestinationDenom (fill_contract a) = as_DestinationDenom a"
  "as_Decimals (fill_contract a) = as_Decimals a" "as_DisplayName (fill_contract a) = as_DisplayName a" "as_DisplaySymbol (fill_contract a) = as_DisplaySymbol a"
  "as_Enabled (fill_contract a) = as_Enabled a"
  "as_AssetID (fill_kind a) = as_AssetID a" "as_SourceChainID (fill_kind a) = as_SourceChainID a" "as_SourceContract (fill_kind a) = as_SourceContract a"
  "as_SourceAssetAddress (fill_kind a) = as_SourceAssetAddress a" "as_Denom (fill_kind a) = as_Denom a" "as_DestinationDenom (fill_kind a) = as_DestinationDenom a"
  "as_Decimals (fill_kind a) = as_Decimals a" "as_DisplayName (fill_kind a) = as_DisplayName a" "as_DisplaySymbol (fill_kind a) = as_DisplaySymbol a"
  "as_Enabled (fill_kind a) = as_Enabled a"
  by (simp_all add: fill_symbol_def fill_address_def fill_contract_def fill_kind_def)

lemma trim_fields [simp]:
  "as_AssetID (trim_asset a) = TrimSpace (as_AssetID a)" "as_SourceChainID (trim_asset a) = TrimSpace (as_SourceChainID a)"
  "as_SourceAssetAddress (trim_asset a) = TrimSpace (as_SourceAssetAddress a)" "as_SourceContract (trim_asset a) = TrimSpace (as_SourceContract a)"
  "as_SourceAssetKind (trim_asset a) = TrimSpace (as_SourceAssetKind a)" "as_Denom (trim_asset a) = TrimSpace (as_Denom a)"
  "as_DestinationDenom (trim_asset a) = TrimSpace (as_DestinationDenom a)" "as_DisplayName (trim_asset a) = TrimSpace (as_DisplayName a)"
  "as_DisplaySymbol (trim_asset a) = TrimSpace (as_DisplaySymbol a)" "as_Decimals (trim_asset a) = as_Decimals a" "as_Enabled (trim_asset a) = as_Enabled a"
  by (simp_all add: trim_asset_def)

lemma trim_kind [simp]: "TrimSpace ''erc20'' = ''erc20''"
  by (simp add: go_eval)

lemma canonicalAsset_idem [simp]: "canonicalAsset (canonicalAsset a) = canonicalAsset a"
  by (rule Asset.equality) (simp_all add: canonicalAsset_stages)

lemma derive_fields [simp]:
  "as_AssetID (deriveAssetMetadata a) = as_AssetID a" "as_SourceChainID (deriveAssetMetadata a) = as_SourceChainID a"
  "as_SourceAssetKind (deriveAssetMetadata a) = as_SourceAssetKind a" "as_SourceAssetAddress (deriveAssetMetadata a) = as_SourceAssetAddress a"
  "as_SourceContract (deriveAssetMetadata a) = as_SourceContract a" "as_Denom (deriveAssetMetadata a) = deriveDestinationDenom a"
  "as_DestinationDenom (deriveAssetMetadata a) = deriveDestinationDenom a" "as_Decimals (deriveAssetMetadata a) = as_Decimals a"
  "as_DisplayName (deriveAssetMetadata a) = as_DisplayName a" "as_DisplaySymbol (deriveAssetMetadata a) = as_DisplaySymbol a"
  "as_Enabled (deriveAssetMetadata a) = as_Enabled a"
  by (simp_all add: deriveAssetMetadata_def Let_def)

lemma derive_canonical_idem:
  "deriveAssetMetadata (canonicalAsset (deriveAssetMetadata (canonicalAsset a))) = deriveAssetMetadata (canonicalAsset a)"
proof -
  have "deriveDestinationDenom (canonicalAsset (deriveAssetMetadata (canonicalAsset a))) = deriveDestinationDenom (canonicalAsset a)"
    by (rule deriveDestinationDenom_cong) (simp_all add: canonicalAsset_stages)
  then show ?thesis by (intro Asset.equality) (simp_all add: canonicalAsset_stages)
qed

definition registry_canonical :: "RegistryKeeper \<Rightarrow> bool" where
  "registry_canonical k \<longleftrightarrow> gomap_all (\<lambda>_ a. deriveAssetMetadata (canonicalAsset a) = a) (rk_assets k)"

lemma registry_canonical_Register: "registry_canonical k \<Longrightarrow> registry_canonical (fst (registry_RegisterAsset k a))"
  by (simp add: registry_canonical_def registry_RegisterAsset_def Let_def derive_canonical_idem gomap_all_set split: option.split)

lemma canonical_enabled:
  "deriveAssetMetadata (canonicalAsset (a\<lparr>as_Enabled := b\<rparr>)) = (deriveAssetMetadata (canonicalAsset a))\<lparr>as_Enabled := b\<rparr>"
proof -
  have "deriveDestinationDenom (canonicalAsset (a\<lparr>as_Enabled := b\<rparr>)) = deriveDestinationDenom (canonicalAsset a)"
    by (rule deriveDestinationDenom_cong) (simp_all add: canonicalAsset_stages)
  then show ?thesis by (intro Asset.equality) (simp_all add: canonicalAsset_stages)
qed

lemma registry_canonical_setEnabled: "registry_canonical k \<Longrightarrow> registry_canonical (fst (setAssetEnabled k i b))"
  by (auto simp: registry_canonical_def setAssetEnabled_def Let_def canonical_enabled
      intro!: gomap_all_set dest: gomap_all_get split: option.split)

lemma import_assets_export:
  assumes "gomap_wf (m @ as)" "\<forall>(key, a) \<in> set as. stored_asset key a \<and> deriveAssetMetadata (canonicalAsset a) = a"
    and "\<forall>(k1, a1) \<in> set (m @ as). \<forall>(k2, a2) \<in> set (m @ as).
          EqualFold (as_DestinationDenom a1) (as_DestinationDenom a2) \<longrightarrow> k1 = k2"
  shows "import_assets \<lparr>rk_assets = m\<rparr> (map (\<lambda>(_, a). canonicalAsset a) as) = (\<lparr>rk_assets = m @ as\<rparr>, None)"
  using assms
proof (induction as arbitrary: m)
  case (Cons x as)
  obtain key a where x: "x = (key, a)" by force
  have a: "stored_asset key a" "deriveAssetMetadata (canonicalAsset a) = a" using Cons.prems(2) by (simp_all add: x)
  have key: "assetKey (as_AssetID a) = key" "asset_ValidateBasic a = None" using a(1) by (simp_all add: stored_asset_def assetKey_def)
  have "k1 = key" if "(k1, a1) \<in> set m" "EqualFold (as_DestinationDenom a1) (as_DestinationDenom a)" for k1 a1
    using Cons.prems(3) that by (fastforce simp: x)
  then have free: "ensureDestinationDenomAvailable \<lparr>rk_assets = m\<rparr> a key = None"
    by (auto simp: ensureDestinationDenomAvailable_def list_ex_iff)
  have "map_of m key = None" using Cons.prems(1) by (auto simp: x gomap_wf_def map_of_eq_None_iff)
  then have fresh: "gomap_set key a m = m @ [(key, a)]" by (rule update_fresh)
  have "import_assets \<lparr>rk_assets = m @ [(key, a)]\<rparr> (map (\<lambda>(_, a). canonicalAsset a) as) = (\<lparr>rk_assets = (m @ [(key, a)]) @ as\<rparr>, None)"
    using Cons.prems by (intro Cons.IH) (simp_all add: x)
  then show ?case using a(2) key free fresh by (simp add: x Let_def)
qed simp

lemma registry_import_exported:
  assumes "registry_inv k" "registry_canonical k"
  shows "registry_ImportAssets k0 (registry_ExportAssets k) = (k, None)"
proof -
  have "import_assets \<lparr>rk_assets = []\<rparr> (map (\<lambda>(_, a). canonicalAsset a) (rk_assets k)) = (\<lparr>rk_assets = [] @ rk_assets k\<rparr>, None)"
    using assms unfolding registry_inv_def registry_canonical_def gomap_all_def by (intro import_assets_export) auto
  moreover have empty: "k0\<lparr>rk_assets := []\<rparr> = \<lparr>rk_assets = []\<rparr>" by (cases k0) simp
  ultimately show ?thesis unfolding registry_ImportAssets_def registry_ExportAssets_def empty by (cases k) simp
qed

section \<open>What every operation leaves alone\<close>

text \<open>Deposits, withdrawals and blocks touch the bridge, the bank and the queue only, and of the bridge neither registry nor pauser.\<close>

definition app_frame :: "App \<Rightarrow> App \<Rightarrow> bool" where
  "app_frame a a' \<longleftrightarrow>
     app_router a' = app_router a \<and> app_authorities a' = app_authorities a \<and> app_applied a' = app_applied a
     \<and> bk_registry (app_bridge a') = bk_registry (app_bridge a)"

lemma app_frame_trans: "app_frame a b \<Longrightarrow> app_frame b c \<Longrightarrow> app_frame a c"
  by (simp add: app_frame_def)

lemma restored_frame:
  assumes "restored a a'"
  shows "app_frame a a'"
proof -
  have a': "a' = a\<lparr>app_bridge := app_bridge a', app_bank := app_bank a'\<rparr>" using assms unfolding restored_def by blast
  have "app_router a' = app_router a" "app_authorities a' = app_authorities a" "app_applied a' = app_applied a"
    by (subst a', simp)+
  with assms show ?thesis by (simp add: app_frame_def restored_def)
qed

lemma submit_frame:
  assumes "app_books out a"
  shows "app_frame a (fst (submitDepositClaimLocked cr bech32 a claim att))"
proof (cases rule: submit_cases [OF assms, of cr bech32 claim att])
  case (3 e)
  then show ?thesis by (simp add: restored_frame)
qed (simp_all add: app_frame_def)

lemma submit_pending_frame: "app_books out a \<Longrightarrow> app_frame a (fst (submit_pending cr bech32 ss a progress))"
proof (induction ss arbitrary: a progress)
  case (Cons s ss)
  obtain a1 res e where run: "submitDepositClaimLocked cr bech32 a (qd_Claim s) (qd_Attestation s) = (a1, res, e)"
    by (metis prod_cases3)
  have "app_books out a1" "app_frame a a1"
    using app_inv_submit [OF Cons.prems, of cr bech32 "qd_Claim s" "qd_Attestation s"]
      submit_frame [OF Cons.prems, of cr bech32 "qd_Claim s" "qd_Attestation s"] run by simp_all
  with Cons.IH [of a1] run app_frame_trans show ?case by (cases e) fastforce+
qed (simp add: app_frame_def)

lemma AdvanceBlock_frame:
  assumes "app_books out a"
  shows "app_frame a (fst (app_AdvanceBlock cr bech32 a))"
proof -
  let ?h = "bst_CurrentHeight (bridge_ExportState (app_bridge a)) + 1"
  let ?a1 = "a\<lparr>app_bridge := bridge_SetCurrentHeight (app_bridge a) ?h, app_pending := []\<rparr>"
  have inv: "app_books out ?a1" using assms by (simp add: app_inv_pending app_inv_height)
  have "app_frame a ?a1" by (simp add: app_frame_def bridge_SetCurrentHeight_def)
  then have "app_frame a (fst (submit_pending cr bech32 ss ?a1 p))" for ss p
    using submit_pending_frame [OF inv] app_frame_trans by blast
  moreover have "app_frame a (a\<lparr>app_bridge := bridge_SetCurrentHeight (app_bridge a) ?h\<rparr>)"
    by (simp add: app_frame_def bridge_SetCurrentHeight_def)
  ultimately show ?thesis by (simp add: app_AdvanceBlock_def Let_def split_beta)
qed

lemma withdraw_frame:
  assumes "app_books out a"
  shows "app_frame a (fst (app_ExecuteWithdrawal bech32 a owner i amount r dl sig))"
proof (cases rule: withdrawal_cases [OF assms, of bech32 owner i amount r dl sig])
  case (3 e)
  then show ?thesis by (simp add: restored_frame)
qed (simp_all add: app_frame_def withdraw_state_def)

text \<open>What the saved entries look like: canonical assets, stored router entries, trimmed proposal ids.\<close>

definition app_stored :: "App \<Rightarrow> bool" where
  "app_stored a \<longleftrightarrow> registry_canonical (bk_registry (app_bridge a)) \<and> router_stored (app_router a) \<and> gov_inv (app_governance a)"

lemma app_stored_frame: "app_stored a \<Longrightarrow> app_frame a a' \<Longrightarrow> app_stored a'"
  by (simp add: app_stored_def app_frame_def gov_inv_def)

lemma app_stored_governance:
  assumes "app_stored a" "gov_inv g" "registry_canonical (gk_registry g)" "router_stored (gk_ibcRouter g)"
  shows "app_stored (app_set_governance a g)"
  using assms by (simp add: app_stored_def app_set_governance_def gov_inv_def)

lemma gov_routers:
  "gk_ibcRouter (fst (gov_ApplyAssetStatusProposal g a p)) = gk_ibcRouter g"
  "gk_ibcRouter (fst (gov_ApplyLimitUpdateProposal g a q)) = gk_ibcRouter g"
  "router_stored (gk_ibcRouter g) \<Longrightarrow> router_stored (gk_ibcRouter (fst (gov_ApplyRoutePolicyUpdateProposal g a r)))"
proof -
  show "gk_ibcRouter (fst (gov_ApplyAssetStatusProposal g a p)) = gk_ibcRouter g"
    by (simp add: gov_ApplyAssetStatusProposal_def split: option.split sum.split prod.split)
  show "gk_ibcRouter (fst (gov_ApplyLimitUpdateProposal g a q)) = gk_ibcRouter g"
    by (simp add: gov_ApplyLimitUpdateProposal_def Let_def split: option.split sum.split prod.split)
  show "router_stored (gk_ibcRouter g) \<Longrightarrow> router_stored (gk_ibcRouter (fst (gov_ApplyRoutePolicyUpdateProposal g a r)))"
    using stored_SetRouteProfile
    by (auto simp: gov_ApplyRoutePolicyUpdateProposal_def dest!: arg_cong [of _ _ fst] split: option.split sum.split prod.split)
qed

lemma app_stored_proposals:
  assumes "app_stored a"
  shows "app_stored (fst (app_ApplyAssetStatusProposal a b p))" "app_stored (fst (app_ApplyLimitUpdateProposal a b q))"
    "app_stored (fst (app_ApplyRoutePolicyUpdateProposal a b r))"
proof -
  have g: "gov_inv (app_governance a)" "registry_canonical (bk_registry (app_bridge a))" "router_stored (app_router a)"
    using assms by (simp_all add: app_stored_def)
  note inv = gov_outcome_inv [OF g(1) outcome_asset_status] gov_outcome_inv [OF g(1) outcome_limit_update]
    gov_outcome_inv [OF g(1) outcome_route_policy]
  show "app_stored (fst (app_ApplyAssetStatusProposal a b p))"
    using gov_keepers(1) [of "app_governance a" b p] inv(1) g
    by (auto simp: app_ApplyAssetStatusProposal_def split_beta gov_routers registry_canonical_setEnabled
        intro!: app_stored_governance [OF assms])
  show "app_stored (fst (app_ApplyLimitUpdateProposal a b q))"
    using inv(2) g
    by (auto simp: app_ApplyLimitUpdateProposal_def split_beta gov_routers gov_keepers intro!: app_stored_governance [OF assms])
  show "app_stored (fst (app_ApplyRoutePolicyUpdateProposal a b r))"
    using inv(3) g
    by (auto simp: app_ApplyRoutePolicyUpdateProposal_def split_beta gov_routers gov_keepers intro!: app_stored_governance [OF assms])
qed

lemma app_stored_step:
  assumes "app_inv a" "app_stored a" "app_step cr bech32 a a'"
  shows "app_stored a'"
  using assms(3)
proof cases
  case (submit claim att)
  then show ?thesis using app_stored_frame [OF assms(2) submit_frame [OF assms(1)]] by (simp add: app_SubmitDepositClaim_def)
next
  case (withdraw owner i amount r dl sig)
  then show ?thesis using app_stored_frame [OF assms(2) withdraw_frame [OF assms(1)]] by simp
next
  case block
  then show ?thesis using app_stored_frame [OF assms(2) AdvanceBlock_frame [OF assms(1)]] by simp
next
  case (register asset)
  then show ?thesis
    using assms(2) by (simp add: app_stored_def app_RegisterAsset_def split_beta registry_canonical_Register gov_inv_def)
next
  case (router k)
  then show ?thesis using assms(2) stored_step by (simp add: app_stored_def gov_inv_def)
qed (use assms(2) app_stored_proposals [OF assms(2)] in
  \<open>simp_all add: app_stored_def app_QueueDepositClaim_def app_SetCurrentHeight_def bridge_SetCurrentHeight_def app_SetLimit_def app_Pause_def
     app_Unpause_def bridge_UpsertSignerSet_def gov_inv_def split_beta Let_def split: option.split sum.split\<close>)

interpretation stored_application: transition_system app_init "app_step cr bech32" "\<lambda>a. app_inv a \<and> app_stored a" for cr bech32
proof unfold_locales
  fix a assume "app_init a"
  moreover from this have "app_stored a"
    using router_store.init_inv
    by (auto simp: app_init_def app_stored_def app_NewWithConfig_def newAppFromKeepers_def bridge_NewKeeper_def registry_canonical_def
        registry_NewKeeper_def gov_inv_def gov_NewKeeper_def Let_def)
  ultimately show "app_inv a \<and> app_stored a" using app_init_inv by blast
qed (use app_inv_step app_stored_step in blast)

section \<open>A restart\<close>

lemma gov_import_ids:
  "gov_inv g \<Longrightarrow> map gp_ProposalID (gk_applied (gov_ImportState g0 (gov_ExportState g))) = map gp_ProposalID (gk_applied g)"
  by (simp add: gov_ImportState_def gov_ExportState_def gov_inv_def)

lemma resolved_present: "ru_bankPresent s \<Longrightarrow> resolvedBankState s = Inr (ru_Bank s)"
  by (simp add: resolvedBankState_def)



end
