(* ===== verification/RelayTypes.thy ===== *)
theory RelayTypes
  imports BridgeProperties "HOL-Library.Product_Lexorder" "HOL-Library.Multiset"
begin

text \<open>
  The relayer's view of the two chains: \<^verbatim>\<open>relayer/internal/evm\<close> and \<^verbatim>\<open>relayer/internal/cosmos\<close>.
  Deposit events and the claims made of them, withdrawals and the release requests made of them, the
  clients that guard the endpoints, and the watchers that poll a source for final events.

  The endpoints are Go interfaces. An implementation is a record of functions on a type variable \<open>'w\<close>,
  the world outside the relayer: every call gets the world and returns it changed. \<^verbatim>\<open>ctx.Err()\<close> is
  a function of the world. A nil receiver and a nil interface field are both \<^term>\<open>None\<close>.
\<close>

section \<open>Errors\<close>

text \<open>\<open>WrapError\<close> is \<^verbatim>\<open>fmt.Errorf\<close> with the verb \<^verbatim>\<open>%w\<close>, \<open>TemporaryError\<close> the struct of that name; its
  inner error may be nil.\<close>

datatype relay_error =
    RelayError string
  | RelayTypesError types_error
  | TemporaryError "relay_error option"
  | WrapError string relay_error

text \<open>\<^verbatim>\<open>errors.As\<close> walks the chain of wrapped errors.\<close>

fun isTemporary :: "relay_error \<Rightarrow> bool" where
  "isTemporary (TemporaryError e) = True"
| "isTemporary (WrapError text e) = isTemporary e"
| "isTemporary (RelayError text) = False"
| "isTemporary (RelayTypesError e) = False"

type_synonym 'w go_context = "'w \<Rightarrow> relay_error option"

definition relay_isZeroHexAddress :: "string \<Rightarrow> bool" where
  "relay_isZeroHexAddress value = EqualFold (TrimSpace value) ''0x0000000000000000000000000000000000000000''"

section \<open>Deposit events\<close>

record DepositEvent =
  de_BlockNumber :: u64
  de_SourceChainID :: string
  de_SourceContract :: string
  de_TxHash :: string
  de_LogIndex :: u64
  de_Nonce :: u64
  de_DepositID :: string
  de_MessageID :: string
  de_SourceAssetKind :: string
  de_AssetAddress :: string
  de_AssetID :: string
  de_Amount :: bigint
  de_Recipient :: string
  de_Expiry :: u64

definition event_ReplayKey :: "DepositEvent \<Rightarrow> string" where
  "event_ReplayKey e =
     ReplayKey ClaimKindDeposit (de_SourceAssetKind e) (de_SourceChainID e) (de_SourceContract e) (de_TxHash e)
       (de_LogIndex e) (de_Nonce e)"

definition event_Claim :: "DepositEvent \<Rightarrow> string \<Rightarrow> DepositClaim" where
  "event_Claim e destinationChainID =
     (let sourceAssetKind =
            (if de_SourceAssetKind e = ''''
             then if relay_isZeroHexAddress (de_AssetAddress e) then SourceAssetKindNativeETH else SourceAssetKindERC20
             else de_SourceAssetKind e);
          identity = \<lparr>ci_Kind = ClaimKindDeposit, ci_SourceAssetKind = sourceAssetKind, ci_SourceChainID = de_SourceChainID e,
                      ci_SourceContract = de_SourceContract e, ci_SourceTxHash = de_TxHash e, ci_SourceLogIndex = de_LogIndex e,
                      ci_Nonce = de_Nonce e, ci_MessageID = ''''\<rparr>
      in \<lparr>dc_Identity = identity\<lparr>ci_MessageID := DerivedMessageID identity\<rparr>, dc_DestinationChainID = destinationChainID,
          dc_AssetID = de_AssetID e, dc_Amount = de_Amount e, dc_Recipient = de_Recipient e, dc_Deadline = de_Expiry e\<rparr>)"

section \<open>Release requests\<close>

record ReleaseRequest =
  rr_MessageID :: string
  rr_AssetAddress :: string
  rr_Amount :: bigint
  rr_Recipient :: string
  rr_Deadline :: u64
  rr_Signature :: bytes

definition release_Validate :: "ReleaseRequest \<Rightarrow> relay_error option" where
  "release_Validate r =
     (if TrimSpace (rr_MessageID r) = '''' then Some (RelayError ''missing message id'')
      else if TrimSpace (rr_AssetAddress r) = '''' then Some (RelayError ''missing asset address'')
      else if not_positive (rr_Amount r) then Some (RelayError ''amount must be positive'')
      else if TrimSpace (rr_Recipient r) = '''' then Some (RelayError ''missing recipient'')
      else if relay_isZeroHexAddress (rr_Recipient r) then Some (RelayError ''recipient must not be the zero address'')
      else if rr_Deadline r = 0 then Some (RelayError ''missing deadline'')
      else if rr_Signature r = [] then Some (RelayError ''missing signature'')
      else None)"

text \<open>The target of a \<^verbatim>\<open>Releaser\<close> is an interface; the request it gets is a copy of the validated one.\<close>

type_synonym 'w ReleaseTarget = "'w \<Rightarrow> ReleaseRequest \<Rightarrow> 'w \<times> (relay_error + string)"

definition releaser_ReleaseWithdrawal :: "'w go_context \<Rightarrow> 'w ReleaseTarget option \<Rightarrow> 'w ReleaseTarget" where
  "releaser_ReleaseWithdrawal ctx target w request =
     (case ctx w of
        Some e \<Rightarrow> (w, Inl e)
      | None \<Rightarrow>
      case target of
        None \<Rightarrow> (w, Inl (RelayError ''evm release target unavailable''))
      | Some t \<Rightarrow>
      case release_Validate request of
        Some e \<Rightarrow> (w, Inl e)
      | None \<Rightarrow> t w request)"

section \<open>Watching the EVM chain\<close>

record 'w LogSource =
  ls_LatestBlock :: "'w \<Rightarrow> 'w \<times> (relay_error + u64)"
  ls_DepositEvents :: "'w \<Rightarrow> u64 \<Rightarrow> u64 \<Rightarrow> 'w \<times> (relay_error + DepositEvent list)"

definition evm_LatestBlock :: "'w LogSource option \<Rightarrow> 'w \<Rightarrow> 'w \<times> (relay_error + u64)" where
  "evm_LatestBlock source w =
     (case source of None \<Rightarrow> (w, Inl (RelayError ''evm source unavailable'')) | Some s \<Rightarrow> ls_LatestBlock s w)"

definition evm_DepositEvents :: "'w LogSource option \<Rightarrow> 'w \<Rightarrow> u64 \<Rightarrow> u64 \<Rightarrow> 'w \<times> (relay_error + DepositEvent list)" where
  "evm_DepositEvents source w fromBlock toBlock =
     (case source of None \<Rightarrow> (w, Inl (RelayError ''evm source unavailable'')) | Some s \<Rightarrow> ls_DepositEvents s w fromBlock toBlock)"

text \<open>The order of events: block, log index, transaction hash. \<^verbatim>\<open>sort.SliceStable\<close> by it is \<^const>\<open>sort_key\<close>.\<close>

definition event_order :: "DepositEvent \<Rightarrow> u64 \<times> u64 \<times> string" where
  "event_order e = (de_BlockNumber e, de_LogIndex e, de_TxHash e)"

definition evm_Observe ::
    "'w go_context \<Rightarrow> 'w LogSource option \<Rightarrow> u64 \<Rightarrow> 'w \<Rightarrow> u64 \<Rightarrow> 'w \<times> DepositEvent list \<times> u64 \<times> relay_error option" where
  "evm_Observe ctx source confirmations w0 fromBlock =
     (case ctx w0 of
        Some e \<Rightarrow> (w0, [], fromBlock, Some e)
      | None \<Rightarrow>
      case source of
        None \<Rightarrow> (w0, [], fromBlock, Some (RelayError ''evm source unavailable''))
      | Some s \<Rightarrow>
      case ls_LatestBlock s w0 of
        (w1, Inl e) \<Rightarrow> (w1, [], fromBlock, Some e)
      | (w1, Inr latest) \<Rightarrow>
      if latest < confirmations then (w1, [], fromBlock, None)
      else
        let finalizedTip = latest - confirmations in
        if finalizedTip < fromBlock then (w1, [], fromBlock, None)
        else case ls_DepositEvents s w1 fromBlock finalizedTip of
          (w2, Inl e) \<Rightarrow> (w2, [], fromBlock, Some e)
        | (w2, Inr events) \<Rightarrow>
            (w2, sort_key event_order events, if finalizedTip = - 1 then finalizedTip else finalizedTip + 1, None))"

section \<open>Withdrawals\<close>

record Withdrawal =
  wd_BlockHeight :: u64
  wd_Identity :: ClaimIdentity
  wd_AssetID :: string
  wd_AssetAddress :: string
  wd_Amount :: bigint
  wd_Recipient :: string
  wd_Deadline :: u64
  wd_Signature :: bytes

definition withdrawal_Validate :: "Withdrawal \<Rightarrow> relay_error option" where
  "withdrawal_Validate w =
     (case identity_ValidateBasic (wd_Identity w) of
        Some e \<Rightarrow> Some (RelayTypesError e)
      | None \<Rightarrow>
      if ci_Kind (wd_Identity w) \<noteq> ClaimKindWithdrawal
      then Some (RelayError ''withdrawal must use withdrawal claim identity'')
      else if TrimSpace (wd_AssetID w) = '''' then Some (RelayError ''missing asset id'')
      else if TrimSpace (wd_AssetAddress w) = '''' then Some (RelayError ''missing asset address'')
      else if not_positive (wd_Amount w) then Some (RelayError ''amount must be positive'')
      else if TrimSpace (wd_Recipient w) = '''' then Some (RelayError ''missing recipient'')
      else if relay_isZeroHexAddress (wd_Recipient w) then Some (RelayError ''recipient must not be the zero address'')
      else if wd_Deadline w = 0 then Some (RelayError ''missing deadline'')
      else if wd_Signature w = [] then Some (RelayError ''missing signature'')
      else None)"

definition withdrawal_ReplayKey :: "Withdrawal \<Rightarrow> string" where
  "withdrawal_ReplayKey w = identity_ReplayKey (wd_Identity w)"

definition withdrawal_ReleaseRequest :: "Withdrawal \<Rightarrow> ReleaseRequest" where
  "withdrawal_ReleaseRequest w =
     \<lparr>rr_MessageID = ci_MessageID (wd_Identity w), rr_AssetAddress = wd_AssetAddress w, rr_Amount = wd_Amount w,
      rr_Recipient = wd_Recipient w, rr_Deadline = wd_Deadline w, rr_Signature = wd_Signature w\<rparr>"

record 'w WithdrawalSource =
  ws_LatestHeight :: "'w \<Rightarrow> 'w \<times> (relay_error + u64)"
  ws_Withdrawals :: "'w \<Rightarrow> u64 \<Rightarrow> u64 \<Rightarrow> 'w \<times> (relay_error + Withdrawal list)"

definition cosmos_LatestHeight :: "'w WithdrawalSource option \<Rightarrow> 'w \<Rightarrow> 'w \<times> (relay_error + u64)" where
  "cosmos_LatestHeight source w =
     (case source of None \<Rightarrow> (w, Inl (RelayError ''cosmos source unavailable'')) | Some s \<Rightarrow> ws_LatestHeight s w)"

definition cosmos_Withdrawals :: "'w WithdrawalSource option \<Rightarrow> 'w \<Rightarrow> u64 \<Rightarrow> u64 \<Rightarrow> 'w \<times> (relay_error + Withdrawal list)" where
  "cosmos_Withdrawals source w fromHeight toHeight =
     (case source of None \<Rightarrow> (w, Inl (RelayError ''cosmos source unavailable'')) | Some s \<Rightarrow> ws_Withdrawals s w fromHeight toHeight)"

definition withdrawal_order :: "Withdrawal \<Rightarrow> u64 \<times> u64 \<times> string" where
  "withdrawal_order w = (wd_BlockHeight w, ci_SourceLogIndex (wd_Identity w), ci_SourceTxHash (wd_Identity w))"

definition cosmos_Observe ::
    "'w go_context \<Rightarrow> 'w WithdrawalSource option \<Rightarrow> u64 \<Rightarrow> 'w \<Rightarrow> u64 \<Rightarrow> 'w \<times> Withdrawal list \<times> u64 \<times> relay_error option" where
  "cosmos_Observe ctx source confirmations w0 fromHeight =
     (case ctx w0 of
        Some e \<Rightarrow> (w0, [], fromHeight, Some e)
      | None \<Rightarrow>
      case source of
        None \<Rightarrow> (w0, [], fromHeight, Some (RelayError ''cosmos source unavailable''))
      | Some s \<Rightarrow>
      case ws_LatestHeight s w0 of
        (w1, Inl e) \<Rightarrow> (w1, [], fromHeight, Some e)
      | (w1, Inr latest) \<Rightarrow>
      if latest < confirmations then (w1, [], fromHeight, None)
      else
        let finalizedTip = latest - confirmations in
        if finalizedTip < fromHeight then (w1, [], fromHeight, None)
        else case ws_Withdrawals s w1 fromHeight finalizedTip of
          (w2, Inl e) \<Rightarrow> (w2, [], fromHeight, Some e)
        | (w2, Inr withdrawals) \<Rightarrow>
            (w2, sort_key withdrawal_order withdrawals, if finalizedTip = - 1 then finalizedTip else finalizedTip + 1, None))"

section \<open>Submitting claims\<close>

type_synonym 'w ClaimSink = "'w \<Rightarrow> DepositClaim \<Rightarrow> Attestation \<Rightarrow> 'w \<times> relay_error option"

definition submitter_SubmitDepositClaim :: "'w go_context \<Rightarrow> 'w ClaimSink option \<Rightarrow> 'w ClaimSink" where
  "submitter_SubmitDepositClaim ctx sink w claim attestation =
     (case ctx w of
        Some e \<Rightarrow> (w, Some e)
      | None \<Rightarrow>
      case sink of
        None \<Rightarrow> (w, Some (RelayError ''cosmos submitter unavailable''))
      | Some s \<Rightarrow>
      case deposit_ValidateBasic claim of
        Some e \<Rightarrow> (w, Some (RelayTypesError e))
      | None \<Rightarrow>
      case attestation_ValidateBasic attestation of
        Some e \<Rightarrow> (w, Some (RelayTypesError e))
      | None \<Rightarrow>
      if att_MessageID attestation \<noteq> ci_MessageID (dc_Identity claim) then (w, Some (RelayError ''attestation message id mismatch''))
      else if att_PayloadHash attestation \<noteq> deposit_Digest claim then (w, Some (RelayError ''attestation payload hash mismatch''))
      else s w claim attestation)"

section \<open>Polling a final history\<close>

lemma sort_key_append_parts:
  assumes "\<And>x y. x \<in> set xs \<Longrightarrow> y \<in> set xs \<Longrightarrow> P x \<Longrightarrow> Q y \<Longrightarrow> f x < f y"
  shows "sort_key f (filter P xs) @ sort_key f (filter Q xs) = sort_key f (filter (\<lambda>x. P x \<or> Q x) xs)"
proof (rule properties_for_sort_key [symmetric])
  have disj: "\<not> (P x \<and> Q x)" if "x \<in> set xs" for x using assms [OF that that] by auto
  have "mset (filter P ys) + mset (filter Q ys) = mset (filter (\<lambda>x. P x \<or> Q x) ys)" if "set ys \<subseteq> set xs" for ys
    using that disj by (induction ys) auto
  then show "mset (sort_key f (filter P xs) @ sort_key f (filter Q xs)) = mset (filter (\<lambda>x. P x \<or> Q x) xs)" by simp
next
  fix k
  assume k: "k \<in> set (sort_key f (filter P xs) @ sort_key f (filter Q xs))"
  have stable: "filter (\<lambda>x. f k = f x) (sort_key f ys) = filter (\<lambda>x. f k = f x) ys" for ys
    using sort_key_stable [of f "f k" ys] by (simp add: eq_commute)
  have "filter (\<lambda>x. f k = f x \<and> P x) ys @ filter (\<lambda>x. f k = f x \<and> Q x) ys = filter (\<lambda>x. f k = f x \<and> (P x \<or> Q x)) ys"
    if "set ys \<subseteq> set xs" for ys
  proof (cases "P k")
    case True
    with k have kx: "k \<in> set xs" by auto
    have "\<not> Q x" if "x \<in> set ys" "f k = f x" for x
      using that \<open>set ys \<subseteq> set xs\<close> assms [OF kx _ True, of x] by auto
    then have "filter (\<lambda>x. f k = f x \<and> Q x) ys = []" "filter (\<lambda>x. f k = f x \<and> (P x \<or> Q x)) ys = filter (\<lambda>x. f k = f x \<and> P x) ys"
      by (auto simp: filter_empty_conv intro: filter_cong)
    then show ?thesis by simp
  next
    case False
    with k have kx: "k \<in> set xs" "Q k" by auto
    have "\<not> P x" if "x \<in> set ys" "f k = f x" for x
      using that \<open>set ys \<subseteq> set xs\<close> assms [OF _ kx(1) _ kx(2), of x] by auto
    then have "filter (\<lambda>x. f k = f x \<and> P x) ys = []" "filter (\<lambda>x. f k = f x \<and> (P x \<or> Q x)) ys = filter (\<lambda>x. f k = f x \<and> Q x) ys"
      by (auto simp: filter_empty_conv intro: filter_cong)
    then show ?thesis by simp
  qed
  from this [of xs] show "filter (\<lambda>x. f k = f x) (sort_key f (filter P xs) @ sort_key f (filter Q xs)) = filter (\<lambda>x. f k = f x) (filter (\<lambda>x. P x \<or> Q x) xs)"
    by (simp add: stable conj_commute)
next
  show "sorted (map f (sort_key f (filter P xs) @ sort_key f (filter Q xs)))"
    using assms by (auto simp: sorted_append less_imp_le)
qed

text \<open>Polling again and again, each time from the cursor the last poll returned.\<close>

fun poll_all :: "('w \<Rightarrow> u64 \<Rightarrow> 'w \<times> 'e list \<times> u64 \<times> relay_error option) \<Rightarrow> 'w list \<Rightarrow> u64 \<Rightarrow> 'e list \<times> u64" where
  "poll_all observe [] cursor = ([], cursor)"
| "poll_all observe (w # ws) cursor =
     (case observe w cursor of (_, events, next, _) \<Rightarrow>
      case poll_all observe ws next of (later, final) \<Rightarrow> (events @ later, final))"

text \<open>The world shows the history \<open>H\<close>: its source answers, and up to the finalized tip the source's own history is that part
  of \<open>H\<close>. The tip is not the largest block number, for which the watchers do not advance.\<close>

definition shows_history ::
    "('w \<Rightarrow> bool) \<Rightarrow> ('w \<Rightarrow> u64 option) \<Rightarrow> ('w \<Rightarrow> 'e list) \<Rightarrow> ('e \<Rightarrow> u64) \<Rightarrow> 'e list \<Rightarrow> 'w \<Rightarrow> bool" where
  "shows_history answers tip hist block H w \<longleftrightarrow>
     answers w \<and> (\<forall>t. tip w = Some t \<longrightarrow> t \<noteq> - 1 \<and> filter (\<lambda>e. block e \<le> t) (hist w) = filter (\<lambda>e. block e \<le> t) H)"

lemma next_block: "t \<noteq> - 1 \<Longrightarrow> b < t + 1 \<longleftrightarrow> b \<le> t" for t b :: u64
proof -
  assume "t \<noteq> - 1"
  then have "1 + t \<noteq> 0" by (metis add_eq_0_iff)
  from unatSuc [OF this] show ?thesis by (simp add: word_less_nat_alt word_le_nat_alt add.commute less_Suc_eq_le)
qed

text \<open>What a watcher promises: in a world in which its source answers, it returns the part of the history from the
  cursor to the finalized tip, in order, and the cursor behind it.\<close>

locale final_poll =
  fixes observe :: "'w \<Rightarrow> u64 \<Rightarrow> 'w \<times> 'e list \<times> u64 \<times> relay_error option"
    and answers :: "'w \<Rightarrow> bool"
    and tip :: "'w \<Rightarrow> u64 option"
    and hist :: "'w \<Rightarrow> 'e list"
    and block :: "'e \<Rightarrow> u64"
    and order :: "'e \<Rightarrow> 'k :: linorder"
  assumes observe_window: "answers w \<Longrightarrow> observe w from =
      (case tip w of
         None \<Rightarrow> (w, [], from, None)
       | Some t \<Rightarrow>
           if t < from then (w, [], from, None)
           else (w, sort_key order (filter (\<lambda>e. from \<le> block e \<and> block e \<le> t) (hist w)), if t = - 1 then t else t + 1, None))"
    and order_block: "block e < block f \<Longrightarrow> order e < order f"
begin

lemma observe_cases:
  assumes "answers w"
  obtains (idle) "observe w from = (w, [], from, None)" "\<And>t. tip w = Some t \<Longrightarrow> t < from"
    | (window) t where "tip w = Some t" "from \<le> t"
      "observe w from = (w, sort_key order (filter (\<lambda>e. from \<le> block e \<and> block e \<le> t) (hist w)), if t = - 1 then t else t + 1, None)"
  using observe_window [OF assms, of "from"] by (cases "tip w") (auto split: if_splits)

lemma window_final:
  assumes "shows_history answers tip hist block H w" "tip w = Some t"
  shows "filter (\<lambda>e. from \<le> block e \<and> block e \<le> t) (hist w) = filter (\<lambda>e. from \<le> block e \<and> block e \<le> t) H"
proof -
  have "filter (\<lambda>e. from \<le> block e) (filter (\<lambda>e. block e \<le> t) (hist w)) = filter (\<lambda>e. from \<le> block e) (filter (\<lambda>e. block e \<le> t) H)"
    using assms by (simp add: shows_history_def)
  then show ?thesis by (simp add: conj_commute)
qed

lemma poll_all_final:
  assumes "\<forall>w \<in> set ws. shows_history answers tip hist block H w"
  shows "case poll_all observe ws from of (events, cursor) \<Rightarrow>
     from \<le> cursor \<and> events = sort_key order (filter (\<lambda>e. from \<le> block e \<and> block e < cursor) H)"
  using assms
proof (induction ws arbitrary: "from")
  case Nil
  have "filter (\<lambda>e. from \<le> block e \<and> block e < from) H = []" by (auto simp: filter_empty_conv)
  then show ?case by simp
next
  case (Cons w ws)
  then have ans: "answers w" and fin: "shows_history answers tip hist block H w" by (simp_all add: shows_history_def)
  show ?case
  proof (cases rule: observe_cases [OF ans, of "from"])
    case 1
    with Cons.IH [of "from"] Cons.prems show ?thesis by (cases "poll_all observe ws from") simp
  next
    case (2 t)
    have t: "t \<noteq> - 1" using fin 2(1) by (simp add: shows_history_def)
    obtain later cursor where p: "poll_all observe ws (t + 1) = (later, cursor)" by fastforce
    with Cons.IH [of "t + 1"] Cons.prems have le: "t + 1 \<le> cursor"
      and later: "later = sort_key order (filter (\<lambda>e. t + 1 \<le> block e \<and> block e < cursor) H)" by simp_all
    have step: "t + 1 \<le> b \<longleftrightarrow> t < b" for b using next_block [OF t, of b] linorder_not_le [of "t + 1" b] linorder_not_le [of b t] by blast
    with le have lt: "t < cursor" by simp
    have "sort_key order (filter (\<lambda>e. from \<le> block e \<and> block e \<le> t) H) @ later
        = sort_key order (filter (\<lambda>e. (from \<le> block e \<and> block e \<le> t) \<or> (t + 1 \<le> block e \<and> block e < cursor)) H)"
      unfolding later by (rule sort_key_append_parts) (auto simp: step intro: order_block)
    also have "(\<lambda>e. (from \<le> block e \<and> block e \<le> t) \<or> (t + 1 \<le> block e \<and> block e < cursor)) = (\<lambda>e. from \<le> block e \<and> block e < cursor)"
    proof
      fix e
      show "(from \<le> block e \<and> block e \<le> t) \<or> (t + 1 \<le> block e \<and> block e < cursor) \<longleftrightarrow> from \<le> block e \<and> block e < cursor"
        using 2(2) lt by (cases "block e \<le> t") (auto simp: step)
    qed
    finally show ?thesis
      using 2 t p window_final [OF fin 2(1), of "from"] lt by (auto intro: order.trans)
  qed
qed

end

end
