(* ===== verification/RelayFiles.thy ===== *)
theory RelayFiles
  imports RelayTypes
begin

text \<open>
  The file runtime of the relayer: \<^verbatim>\<open>relayer/internal/evm/file_runtime.go\<close> and
  \<^verbatim>\<open>relayer/internal/cosmos/file_runtime.go\<close>. Sources read their events from JSON files and
  sinks append to JSON outboxes. A file holds what its JSON text decodes to; reading it can fail, and
  every write can fail, after which the old content is still there, because the code writes a temporary file
  and renames it.
\<close>

section \<open>Files\<close>

datatype read_fault = ReadFault relay_error | DecodeFault relay_error

text \<open>\<open>fl_writes\<close> lists the outcomes of the coming writes; after them writes succeed.\<close>

record 'a File =
  fl_content :: "'a option"
  fl_fault :: "read_fault option"
  fl_writes :: "relay_error option list"

definition read_file :: "'a File \<Rightarrow> read_fault + 'a option" where
  "read_file f = (case fl_fault f of Some e \<Rightarrow> Inl e | None \<Rightarrow> Inr (fl_content f))"

definition write_file :: "'a \<Rightarrow> 'a File \<Rightarrow> 'a File \<times> relay_error option" where
  "write_file v f =
     (case fl_writes f of
        Some e # rest \<Rightarrow> (f\<lparr>fl_writes := rest\<rparr>, Some e)
      | None # rest \<Rightarrow> (f\<lparr>fl_content := Some v, fl_fault := None, fl_writes := rest\<rparr>, None)
      | [] \<Rightarrow> (f\<lparr>fl_content := Some v, fl_fault := None\<rparr>, None))"

definition load_json :: "'a \<Rightarrow> string \<Rightarrow> 'a File \<Rightarrow> relay_error + 'a" where
  "load_json zero path f =
     (if path = '''' then Inr zero
      else case read_file f of
        Inl (ReadFault e) \<Rightarrow> Inl e
      | Inl (DecodeFault e) \<Rightarrow> Inl e
      | Inr None \<Rightarrow> Inr zero
      | Inr (Some v) \<Rightarrow> Inr v)"

definition persistJSON :: "string \<Rightarrow> 'a \<Rightarrow> 'a File \<Rightarrow> 'a File \<times> relay_error option" where
  "persistJSON path v f = (if path = '''' then (f, None) else write_file v f)"

section \<open>Base64\<close>

text \<open>\<^verbatim>\<open>base64.StdEncoding\<close>: groups of three bytes as four characters, padded at the end; decoding skips line ends and
  does not look at the unused bits of the last group.\<close>

definition base64_char :: "nat \<Rightarrow> char" where
  "base64_char n =
     char_of (if n < 26 then 65 + n else if n < 52 then 71 + n else if n < 62 then n - 4 else if n = 62 then 43 else 47)"

definition base64_val :: "char \<Rightarrow> nat option" where
  "base64_val c =
     (let n = (of_char c :: nat) in
      if 65 \<le> n \<and> n \<le> 90 then Some (n - 65)
      else if 97 \<le> n \<and> n \<le> 122 then Some (n - 71)
      else if 48 \<le> n \<and> n \<le> 57 then Some (n + 4)
      else if n = 43 then Some 62
      else if n = 47 then Some 63
      else None)"

fun base64_EncodeToString :: "bytes \<Rightarrow> string" where
  "base64_EncodeToString [] = ''''"
| "base64_EncodeToString [a] =
     (let x = of_char a in [base64_char (x div 4), base64_char ((x mod 4) * 16), CHR ''='', CHR ''=''])"
| "base64_EncodeToString [a, b] =
     (let x = of_char a; y = of_char b
      in [base64_char (x div 4), base64_char ((x mod 4) * 16 + y div 16), base64_char ((y mod 16) * 4), CHR ''=''])"
| "base64_EncodeToString (a # b # c # rest) =
     (let x = of_char a; y = of_char b; z = of_char c
      in base64_char (x div 4) # base64_char ((x mod 4) * 16 + y div 16) # base64_char ((y mod 16) * 4 + z div 64)
         # base64_char (z mod 64) # base64_EncodeToString rest)"

fun base64_groups :: "string \<Rightarrow> bytes option" where
  "base64_groups [] = Some []"
| "base64_groups (p # q # r # s # rest) =
     (case (base64_val p, base64_val q) of
        (Some a, Some b) \<Rightarrow>
          (case base64_val r of
             None \<Rightarrow> if r = CHR ''='' \<and> s = CHR ''='' \<and> rest = [] then Some [char_of (a * 4 + b div 16)] else None
           | Some c \<Rightarrow>
               (case base64_val s of
                  None \<Rightarrow>
                    if s = CHR ''='' \<and> rest = [] then Some [char_of (a * 4 + b div 16), char_of ((b mod 16) * 16 + c div 4)] else None
                | Some d \<Rightarrow>
                    map_option (\<lambda>bs. char_of (a * 4 + b div 16) # char_of ((b mod 16) * 16 + c div 4) # char_of ((c mod 4) * 64 + d) # bs)
                      (base64_groups rest)))
      | _ \<Rightarrow> None)"
| "base64_groups s = None"

definition base64_DecodeString :: "string \<Rightarrow> bytes option" where
  "base64_DecodeString s = base64_groups (filter (\<lambda>c. of_char c \<noteq> (10 :: nat) \<and> of_char c \<noteq> (13 :: nat)) s)"

lemma base64_val_char [simp]: "n < 64 \<Longrightarrow> base64_val (base64_char n) = Some n"
  by (auto simp: base64_val_def base64_char_def Let_def)

lemma split_group:
  fixes m q n :: nat
  assumes "q < n"
  shows "(m * n + q) div n = m" "(m * n + q) mod n = q"
  using assms by simp_all

lemma byte_less: "(of_char c :: nat) < 256"
  using nibble_less [of c] by linarith

lemma base64_parts:
  fixes x y z :: nat
  assumes "x < 256" "y < 256" "z < 256"
  shows "x div 4 < 64" "(x mod 4) * 16 + y div 16 < 64" "(y mod 16) * 4 + z div 64 < 64" "(x mod 4) * 16 < 64" "(y mod 16) * 4 < 64"
    and "((x mod 4) * 16 + y div 16) div 16 = x mod 4" "((x mod 4) * 16 + y div 16) mod 16 = y div 16"
    and "((y mod 16) * 4 + z div 64) div 4 = y mod 16" "((y mod 16) * 4 + z div 64) mod 4 = z div 64"
proof -
  have "y div 16 < 16" "z div 64 < 4" "x mod 4 < 4" "y mod 16 < 16" using assms by auto
  then show "(x mod 4) * 16 + y div 16 < 64" "(y mod 16) * 4 + z div 64 < 64" "(x mod 4) * 16 < 64" "(y mod 16) * 4 < 64"
    "((x mod 4) * 16 + y div 16) div 16 = x mod 4" "((x mod 4) * 16 + y div 16) mod 16 = y div 16"
    "((y mod 16) * 4 + z div 64) div 4 = y mod 16" "((y mod 16) * 4 + z div 64) mod 4 = z div 64"
    by (simp_all add: split_group)
  show "x div 4 < 64" using assms by auto
qed

lemma base64_pad [simp]: "base64_val (CHR ''='') = None"
  by (simp add: base64_val_def)

lemma base64_groups_Encode: "base64_groups (base64_EncodeToString bs) = Some bs"
proof (induction bs rule: base64_EncodeToString.induct)
  case (2 a)
  note parts = base64_parts [OF byte_less [of a] byte_less [of a] byte_less [of a]]
  have "((of_char a :: nat) mod 4 * 16) div 16 = of_char a mod 4" by simp
  with parts(1,4) show ?case by (simp add: Let_def)
next
  case (3 a b)
  note parts = base64_parts [OF byte_less [of a] byte_less [of b] byte_less [of b]]
  have "((of_char b :: nat) mod 16 * 4) div 4 = of_char b mod 16" by simp
  with parts(1,2,5,6,7) show ?case by (simp add: Let_def)
next
  case (4 a b c rest)
  note parts = base64_parts [OF byte_less [of a] byte_less [of b] byte_less [of c]]
  have "(of_char c :: nat) mod 64 < 64" by simp
  with parts(1,2,3,6,7,8,9) 4 show ?case by (simp add: Let_def)
qed simp

lemma base64_char_no_line_end: "n < 64 \<Longrightarrow> of_char (base64_char n) \<noteq> (10 :: nat) \<and> of_char (base64_char n) \<noteq> (13 :: nat)"
  by (auto simp: base64_char_def)

lemma base64_Encode_chars:
  "list_all (\<lambda>c. of_char c \<noteq> (10 :: nat) \<and> of_char c \<noteq> (13 :: nat)) (base64_EncodeToString bs)"
proof (induction bs rule: base64_EncodeToString.induct)
  case (2 a)
  note parts = base64_parts [OF byte_less [of a] byte_less [of a] byte_less [of a]]
  show ?case by (simp add: Let_def base64_char_no_line_end parts(1,4))
next
  case (3 a b)
  note parts = base64_parts [OF byte_less [of a] byte_less [of b] byte_less [of b]]
  show ?case by (simp add: Let_def base64_char_no_line_end parts(1,2,5))
next
  case (4 a b c rest)
  note parts = base64_parts [OF byte_less [of a] byte_less [of b] byte_less [of c]]
  have "(of_char c :: nat) mod 64 < 64" by simp
  with 4 show ?case by (simp add: Let_def base64_char_no_line_end parts(1,2,3))
qed simp

lemma base64_roundtrip [simp]: "base64_DecodeString (base64_EncodeToString bs) = Some bs"
proof -
  have "filter (\<lambda>c. of_char c \<noteq> (10 :: nat) \<and> of_char c \<noteq> (13 :: nat)) (base64_EncodeToString bs) = base64_EncodeToString bs"
    using base64_Encode_chars by (simp add: filter_id_conv list_all_iff)
  then show ?thesis by (simp add: base64_DecodeString_def base64_groups_Encode)
qed

section \<open>The EVM side\<close>

record persistedDepositEvent =
  pd_BlockNumber :: u64
  pd_SourceChainID :: string
  pd_SourceContract :: string
  pd_TxHash :: string
  pd_LogIndex :: u64
  pd_Nonce :: u64
  pd_DepositID :: string
  pd_MessageID :: string
  pd_AssetAddress :: string
  pd_AssetID :: string
  pd_Amount :: string
  pd_Recipient :: string
  pd_Expiry :: u64

record persistedDepositState =
  ds_LatestBlock :: u64
  ds_DepositEvents :: "persistedDepositEvent list"

record persistedReleaseRequest =
  pq_MessageID :: string
  pq_AssetAddress :: string
  pq_Amount :: string
  pq_Recipient :: string
  pq_Deadline :: u64
  pq_Signature :: string

section \<open>The Cosmos side\<close>

record persistedWithdrawal =
  pw_BlockHeight :: u64
  pw_Kind :: string
  pw_SourceChainID :: string
  pw_SourceContract :: string
  pw_SourceTxHash :: string
  pw_SourceLogIndex :: u64
  pw_Nonce :: u64
  pw_MessageID :: string
  pw_AssetID :: string
  pw_AssetAddress :: string
  pw_Amount :: string
  pw_Recipient :: string
  pw_Deadline :: u64
  pw_Signature :: string
  pw_SignatureBase64 :: string

record persistedWithdrawalState =
  wt_LatestHeight :: u64
  wt_Withdrawals :: "persistedWithdrawal list"

record persistedDepositClaim =
  pc_Kind :: string
  pc_SourceAssetKind :: string
  pc_SourceChainID :: string
  pc_SourceContract :: string
  pc_SourceTxHash :: string
  pc_SourceLogIndex :: u64
  pc_Nonce :: u64
  pc_MessageID :: string
  pc_DestinationChainID :: string
  pc_AssetID :: string
  pc_Amount :: string
  pc_Recipient :: string
  pc_Deadline :: u64

text \<open>\<^verbatim>\<open>persistedAttestation\<close> has the fields of \<^typ>\<open>Attestation\<close>.\<close>

record persistedClaimSubmission =
  ps_Claim :: persistedDepositClaim
  ps_Attestation :: Attestation

text \<open>A vote of an oracle signer (\<^verbatim>\<open>relayer/internal/attestations/file_source.go\<close>).\<close>

record persistedVote =
  pv_MessageID :: string
  pv_PayloadHash :: string
  pv_Signer :: string
  pv_Expiry :: u64
  pv_Signature :: bytes

text \<open>The world of the file runtime: the files behind the endpoints, and the state of the context.\<close>

record FileWorld =
  fw_ctx :: "relay_error option"
  fw_votes :: "persistedVote list File"
  fw_evm :: "persistedDepositState File"
  fw_releases :: "persistedReleaseRequest list File"
  fw_cosmos :: "persistedWithdrawalState File"
  fw_claims :: "persistedClaimSubmission list File"

definition log_load :: "string \<Rightarrow> FileWorld \<Rightarrow> relay_error + persistedDepositState" where
  "log_load path w = load_json \<lparr>ds_LatestBlock = 0, ds_DepositEvents = []\<rparr> path (fw_evm w)"

definition release_loadOutbox :: "string \<Rightarrow> FileWorld \<Rightarrow> relay_error + persistedReleaseRequest list" where
  "release_loadOutbox path w = load_json [] path (fw_releases w)"

definition withdrawal_load :: "string \<Rightarrow> FileWorld \<Rightarrow> relay_error + persistedWithdrawalState" where
  "withdrawal_load path w = load_json \<lparr>wt_LatestHeight = 0, wt_Withdrawals = []\<rparr> path (fw_cosmos w)"

definition claim_loadOutbox :: "string \<Rightarrow> FileWorld \<Rightarrow> relay_error + persistedClaimSubmission list" where
  "claim_loadOutbox path w = load_json [] path (fw_claims w)"

section \<open>Sources\<close>

definition file_LatestBlock :: "string \<Rightarrow> FileWorld \<Rightarrow> FileWorld \<times> (relay_error + u64)" where
  "file_LatestBlock path w =
     (case fw_ctx w of
        Some e \<Rightarrow> (w, Inl e)
      | None \<Rightarrow> (case log_load path w of Inl e \<Rightarrow> (w, Inl e) | Inr state \<Rightarrow> (w, Inr (ds_LatestBlock state))))"

definition decode_event :: "persistedDepositEvent \<Rightarrow> relay_error + DepositEvent" where
  "decode_event e =
     (case SetString10 (pd_Amount e) of
        None \<Rightarrow> Inl (RelayError (''invalid deposit amount '' @ pd_Amount e))
      | Some amount \<Rightarrow>
          Inr \<lparr>de_BlockNumber = pd_BlockNumber e, de_SourceChainID = pd_SourceChainID e, de_SourceContract = pd_SourceContract e,
               de_TxHash = pd_TxHash e, de_LogIndex = pd_LogIndex e, de_Nonce = pd_Nonce e, de_DepositID = pd_DepositID e,
               de_MessageID = pd_MessageID e, de_SourceAssetKind = '''', de_AssetAddress = pd_AssetAddress e,
               de_AssetID = pd_AssetID e, de_Amount = Some amount, de_Recipient = pd_Recipient e, de_Expiry = pd_Expiry e\<rparr>)"

fun collect_events :: "u64 \<Rightarrow> u64 \<Rightarrow> persistedDepositEvent list \<Rightarrow> relay_error + DepositEvent list" where
  "collect_events fromBlock toBlock [] = Inr []"
| "collect_events fromBlock toBlock (e # es) =
     (if pd_BlockNumber e < fromBlock \<or> toBlock < pd_BlockNumber e then collect_events fromBlock toBlock es
      else case decode_event e of
        Inl err \<Rightarrow> Inl err
      | Inr event \<Rightarrow> (case collect_events fromBlock toBlock es of Inl err \<Rightarrow> Inl err | Inr events \<Rightarrow> Inr (event # events)))"

definition file_DepositEvents :: "string \<Rightarrow> FileWorld \<Rightarrow> u64 \<Rightarrow> u64 \<Rightarrow> FileWorld \<times> (relay_error + DepositEvent list)" where
  "file_DepositEvents path w fromBlock toBlock =
     (case fw_ctx w of
        Some e \<Rightarrow> (w, Inl e)
      | None \<Rightarrow> (case log_load path w of Inl e \<Rightarrow> (w, Inl e) | Inr state \<Rightarrow> (w, collect_events fromBlock toBlock (ds_DepositEvents state))))"

definition FileLogSource :: "string \<Rightarrow> FileWorld LogSource" where
  "FileLogSource path = \<lparr>ls_LatestBlock = file_LatestBlock path, ls_DepositEvents = file_DepositEvents path\<rparr>"

definition file_LatestHeight :: "string \<Rightarrow> FileWorld \<Rightarrow> FileWorld \<times> (relay_error + u64)" where
  "file_LatestHeight path w =
     (case fw_ctx w of
        Some e \<Rightarrow> (w, Inl e)
      | None \<Rightarrow> (case withdrawal_load path w of Inl e \<Rightarrow> (w, Inl e) | Inr state \<Rightarrow> (w, Inr (wt_LatestHeight state))))"

definition withdrawal_of :: "persistedWithdrawal \<Rightarrow> int \<Rightarrow> bytes \<Rightarrow> Withdrawal" where
  "withdrawal_of p amount signature =
     \<lparr>wd_BlockHeight = pw_BlockHeight p,
      wd_Identity = \<lparr>ci_Kind = pw_Kind p, ci_SourceAssetKind = '''', ci_SourceChainID = pw_SourceChainID p,
        ci_SourceContract = pw_SourceContract p, ci_SourceTxHash = pw_SourceTxHash p, ci_SourceLogIndex = pw_SourceLogIndex p,
        ci_Nonce = pw_Nonce p, ci_MessageID = pw_MessageID p\<rparr>,
      wd_AssetID = pw_AssetID p, wd_AssetAddress = pw_AssetAddress p, wd_Amount = Some amount, wd_Recipient = pw_Recipient p,
      wd_Deadline = pw_Deadline p, wd_Signature = signature\<rparr>"

definition decode_withdrawal :: "persistedWithdrawal \<Rightarrow> relay_error + Withdrawal" where
  "decode_withdrawal p =
     (case SetString10 (pw_Amount p) of
        None \<Rightarrow> Inl (RelayError (''invalid withdrawal amount '' @ pw_Amount p))
      | Some amount \<Rightarrow>
      case base64_DecodeString (pw_Signature p) of
        None \<Rightarrow> Inl (WrapError ''decode withdrawal signature'' (RelayError ''illegal base64 data''))
      | Some signature \<Rightarrow> Inr (withdrawal_of p amount signature))"

text \<open>The command runtime (\<^verbatim>\<open>command_runtime.go\<close>) accepts the signature under a second name as well.\<close>

definition decodePersistedWithdrawal :: "persistedWithdrawal \<Rightarrow> relay_error + Withdrawal" where
  "decodePersistedWithdrawal p =
     (case SetString10 (pw_Amount p) of
        None \<Rightarrow> Inl (RelayError (''invalid withdrawal amount '' @ pw_Amount p))
      | Some amount \<Rightarrow>
      let signatureBase64 = (if pw_Signature p = '''' then pw_SignatureBase64 p else pw_Signature p)
      in case base64_DecodeString signatureBase64 of
           None \<Rightarrow> Inl (WrapError ''decode withdrawal signature'' (RelayError ''illegal base64 data''))
         | Some signature \<Rightarrow> Inr (withdrawal_of p amount signature))"

fun collect_withdrawals :: "u64 \<Rightarrow> u64 \<Rightarrow> persistedWithdrawal list \<Rightarrow> relay_error + Withdrawal list" where
  "collect_withdrawals fromHeight toHeight [] = Inr []"
| "collect_withdrawals fromHeight toHeight (p # ps) =
     (if pw_BlockHeight p < fromHeight \<or> toHeight < pw_BlockHeight p then collect_withdrawals fromHeight toHeight ps
      else case decode_withdrawal p of
        Inl err \<Rightarrow> Inl err
      | Inr withdrawal \<Rightarrow>
          (case collect_withdrawals fromHeight toHeight ps of Inl err \<Rightarrow> Inl err | Inr withdrawals \<Rightarrow> Inr (withdrawal # withdrawals)))"

definition file_Withdrawals :: "string \<Rightarrow> FileWorld \<Rightarrow> u64 \<Rightarrow> u64 \<Rightarrow> FileWorld \<times> (relay_error + Withdrawal list)" where
  "file_Withdrawals path w fromHeight toHeight =
     (case fw_ctx w of
        Some e \<Rightarrow> (w, Inl e)
      | None \<Rightarrow>
          (case withdrawal_load path w of Inl e \<Rightarrow> (w, Inl e) | Inr state \<Rightarrow> (w, collect_withdrawals fromHeight toHeight (wt_Withdrawals state))))"

definition FileWithdrawalSource :: "string \<Rightarrow> FileWorld WithdrawalSource" where
  "FileWithdrawalSource path = \<lparr>ws_LatestHeight = file_LatestHeight path, ws_Withdrawals = file_Withdrawals path\<rparr>"

section \<open>Sinks\<close>

text \<open>\<^verbatim>\<open>request.Amount.String()\<close> of a nil pointer is \<^verbatim>\<open><nil>\<close>.\<close>

definition show_bigint :: "bigint \<Rightarrow> string" where
  "show_bigint v = (case v of None \<Rightarrow> ''<nil>'' | Some i \<Rightarrow> show_int i)"

definition file_ReleaseWithdrawal :: "string \<Rightarrow> FileWorld ReleaseTarget" where
  "file_ReleaseWithdrawal path w request =
     (case fw_ctx w of
        Some e \<Rightarrow> (w, Inl e)
      | None \<Rightarrow>
      case release_loadOutbox path w of
        Inl e \<Rightarrow> (w, Inl e)
      | Inr outbox \<Rightarrow>
      case persistJSON path (outbox @ [\<lparr>pq_MessageID = rr_MessageID request, pq_AssetAddress = rr_AssetAddress request,
             pq_Amount = show_bigint (rr_Amount request), pq_Recipient = rr_Recipient request, pq_Deadline = rr_Deadline request,
             pq_Signature = base64_EncodeToString (rr_Signature request)\<rparr>]) (fw_releases w) of
        (f, Some e) \<Rightarrow> (w\<lparr>fw_releases := f\<rparr>, Inl e)
      | (f, None) \<Rightarrow> (w\<lparr>fw_releases := f\<rparr>, Inr (rr_MessageID request)))"

definition persisted_claim :: "DepositClaim \<Rightarrow> persistedDepositClaim" where
  "persisted_claim claim =
     (let i = dc_Identity claim in
      \<lparr>pc_Kind = ci_Kind i, pc_SourceAssetKind = ci_SourceAssetKind i, pc_SourceChainID = ci_SourceChainID i,
       pc_SourceContract = ci_SourceContract i, pc_SourceTxHash = ci_SourceTxHash i, pc_SourceLogIndex = ci_SourceLogIndex i,
       pc_Nonce = ci_Nonce i, pc_MessageID = ci_MessageID i, pc_DestinationChainID = dc_DestinationChainID claim,
       pc_AssetID = dc_AssetID claim, pc_Amount = show_bigint (dc_Amount claim), pc_Recipient = dc_Recipient claim,
       pc_Deadline = dc_Deadline claim\<rparr>)"

definition file_SubmitDepositClaim :: "string \<Rightarrow> FileWorld ClaimSink" where
  "file_SubmitDepositClaim path w claim attestation =
     (case fw_ctx w of
        Some e \<Rightarrow> (w, Some e)
      | None \<Rightarrow>
      case claim_loadOutbox path w of
        Inl e \<Rightarrow> (w, Some e)
      | Inr outbox \<Rightarrow>
      case persistJSON path (outbox @ [\<lparr>ps_Claim = persisted_claim claim, ps_Attestation = attestation\<rparr>]) (fw_claims w) of
        (f, err) \<Rightarrow> (w\<lparr>fw_claims := f\<rparr>, err))"

section \<open>The file sources keep the watchers' contract\<close>

definition returns :: "'e + 'a \<Rightarrow> bool" where
  "returns x = (case x of Inl e \<Rightarrow> False | Inr v \<Rightarrow> True)"

lemma returns_simps [simp]: "returns (Inr v)" "\<not> returns (Inl e)"
  by (simp_all add: returns_def)

lemma returns_projr: "returns x \<longleftrightarrow> x = Inr (projr x)"
  by (cases x) simp_all

definition file_tip :: "u64 \<Rightarrow> u64 \<Rightarrow> u64 option" where
  "file_tip confirmations latest = (if latest < confirmations then None else Some (latest - confirmations))"

text \<open>What a log file shows: the events it holds, if all their amounts are numbers.\<close>

definition log_state :: "string \<Rightarrow> FileWorld \<Rightarrow> persistedDepositState" where
  "log_state path w = projr (log_load path w)"

definition log_answers :: "string \<Rightarrow> FileWorld \<Rightarrow> bool" where
  "log_answers path w \<longleftrightarrow> fw_ctx w = None \<and> returns (log_load path w) \<and> list_all (returns \<circ> decode_event) (ds_DepositEvents (log_state path w))"

definition log_tip :: "string \<Rightarrow> u64 \<Rightarrow> FileWorld \<Rightarrow> u64 option" where
  "log_tip path confirmations w = file_tip confirmations (ds_LatestBlock (log_state path w))"

definition log_events :: "string \<Rightarrow> FileWorld \<Rightarrow> DepositEvent list" where
  "log_events path w = map (projr \<circ> decode_event) (ds_DepositEvents (log_state path w))"

definition withdrawal_state :: "string \<Rightarrow> FileWorld \<Rightarrow> persistedWithdrawalState" where
  "withdrawal_state path w = projr (withdrawal_load path w)"

definition withdrawals_answer :: "string \<Rightarrow> FileWorld \<Rightarrow> bool" where
  "withdrawals_answer path w \<longleftrightarrow>
     fw_ctx w = None \<and> returns (withdrawal_load path w) \<and> list_all (returns \<circ> decode_withdrawal) (wt_Withdrawals (withdrawal_state path w))"

definition withdrawals_tip :: "string \<Rightarrow> u64 \<Rightarrow> FileWorld \<Rightarrow> u64 option" where
  "withdrawals_tip path confirmations w = file_tip confirmations (wt_LatestHeight (withdrawal_state path w))"

definition withdrawals_seen :: "string \<Rightarrow> FileWorld \<Rightarrow> Withdrawal list" where
  "withdrawals_seen path w = map (projr \<circ> decode_withdrawal) (wt_Withdrawals (withdrawal_state path w))"

lemma collect_events_filter:
  "list_all (returns \<circ> decode_event) es \<Longrightarrow>
     collect_events a b es = Inr (filter (\<lambda>e. a \<le> de_BlockNumber e \<and> de_BlockNumber e \<le> b) (map (projr \<circ> decode_event) es))"
proof (induction es)
  case (Cons e es)
  have "de_BlockNumber (projr (decode_event e)) = pd_BlockNumber e" if "returns (decode_event e)"
    using that by (auto simp: decode_event_def split: option.splits)
  with Cons show ?case by (auto simp: not_less not_le split: sum.splits)
qed simp

lemma collect_withdrawals_filter:
  "list_all (returns \<circ> decode_withdrawal) ps \<Longrightarrow>
     collect_withdrawals a b ps = Inr (filter (\<lambda>w. a \<le> wd_BlockHeight w \<and> wd_BlockHeight w \<le> b) (map (projr \<circ> decode_withdrawal) ps))"
proof (induction ps)
  case (Cons p ps)
  have "wd_BlockHeight (projr (decode_withdrawal p)) = pw_BlockHeight p" if "returns (decode_withdrawal p)"
    using that by (auto simp: decode_withdrawal_def withdrawal_of_def split: option.splits)
  with Cons show ?case by (auto simp: not_less not_le split: sum.splits)
qed simp

lemma evm_file_observe:
  assumes "log_answers path w"
  shows "evm_Observe fw_ctx (Some (FileLogSource path)) conf w from =
      (case log_tip path conf w of
         None \<Rightarrow> (w, [], from, None)
       | Some t \<Rightarrow>
           if t < from then (w, [], from, None)
           else (w, sort_key event_order (filter (\<lambda>e. from \<le> de_BlockNumber e \<and> de_BlockNumber e \<le> t) (log_events path w)),
                 if t = - 1 then t else t + 1, None))"
proof -
  from assms have load: "fw_ctx w = None" "log_load path w = Inr (log_state path w)"
    and ev: "collect_events a b (ds_DepositEvents (log_state path w))
        = Inr (filter (\<lambda>e. a \<le> de_BlockNumber e \<and> de_BlockNumber e \<le> b) (log_events path w))" for a b
    by (simp_all add: log_answers_def log_state_def returns_projr [symmetric] collect_events_filter log_events_def)
  show ?thesis
    by (simp add: evm_Observe_def FileLogSource_def file_LatestBlock_def file_DepositEvents_def load ev log_tip_def file_tip_def Let_def)
qed

lemma cosmos_file_observe:
  assumes "withdrawals_answer path w"
  shows "cosmos_Observe fw_ctx (Some (FileWithdrawalSource path)) conf w from =
      (case withdrawals_tip path conf w of
         None \<Rightarrow> (w, [], from, None)
       | Some t \<Rightarrow>
           if t < from then (w, [], from, None)
           else (w, sort_key withdrawal_order (filter (\<lambda>e. from \<le> wd_BlockHeight e \<and> wd_BlockHeight e \<le> t) (withdrawals_seen path w)),
                 if t = - 1 then t else t + 1, None))"
proof -
  from assms have load: "fw_ctx w = None" "withdrawal_load path w = Inr (withdrawal_state path w)"
    and ev: "collect_withdrawals a b (wt_Withdrawals (withdrawal_state path w))
        = Inr (filter (\<lambda>e. a \<le> wd_BlockHeight e \<and> wd_BlockHeight e \<le> b) (withdrawals_seen path w))" for a b
    by (simp_all add: withdrawals_answer_def withdrawal_state_def returns_projr [symmetric] collect_withdrawals_filter withdrawals_seen_def)
  show ?thesis
    by (simp add: cosmos_Observe_def FileWithdrawalSource_def file_LatestHeight_def file_Withdrawals_def load ev withdrawals_tip_def
        file_tip_def Let_def)
qed

interpretation evm_poll: final_poll "evm_Observe fw_ctx (Some (FileLogSource path)) conf" "log_answers path" "log_tip path conf"
    "log_events path" de_BlockNumber event_order for path conf
  by unfold_locales (simp_all add: evm_file_observe event_order_def)

interpretation cosmos_poll: final_poll "cosmos_Observe fw_ctx (Some (FileWithdrawalSource path)) conf" "withdrawals_answer path"
    "withdrawals_tip path conf" "withdrawals_seen path" wd_BlockHeight withdrawal_order for path conf
  by unfold_locales (simp_all add: cosmos_file_observe withdrawal_order_def)

end
