(* ===== verification/ReplayStore.thy ===== *)
theory ReplayStore
  imports RelayFiles
begin

text \<open>
  The replay store of the relayer, \<^verbatim>\<open>relayer/internal/replay/store.go\<close>: block cursors and the keys of the
  events that were relayed, in memory and in a file. The file at the store's path is an argument of the operations
  that write it; the mutex is not modelled, the pipeline uses the store from one goroutine.
\<close>

record persistedState =
  pz_Checkpoints :: "(string, u64) gomap"
  pz_Processed :: "string list"

text \<open>The keys of a Go set, without repetition.\<close>

record Store =
  st_path :: string
  st_checkpoints :: "(string, u64) gomap"
  st_processed :: "string list"
  st_loadErr :: "relay_error option"

type_synonym store_file = "persistedState File"

definition store_NewStore :: Store where
  "store_NewStore = \<lparr>st_path = '''', st_checkpoints = [], st_processed = [], st_loadErr = None\<rparr>"

definition store_load :: "Store \<Rightarrow> store_file \<Rightarrow> Store \<times> relay_error option" where
  "store_load s f =
     (if st_path s = '''' then (s, None)
      else case read_file f of
        Inl (ReadFault e) \<Rightarrow> (s, Some (WrapError ''read replay state'' e))
      | Inl (DecodeFault e) \<Rightarrow> (s, Some (WrapError ''decode replay state'' e))
      | Inr None \<Rightarrow> (s, None)
      | Inr (Some state) \<Rightarrow>
          (s\<lparr>st_checkpoints := fold (\<lambda>(key, value). gomap_set key value) (pz_Checkpoints state) (st_checkpoints s),
             st_processed := fold List.insert (pz_Processed state) (st_processed s)\<rparr>, None))"

text \<open>An empty path panics.\<close>

definition store_NewStoreAt :: "string \<Rightarrow> store_file \<Rightarrow> Store option" where
  "store_NewStoreAt path f =
     (if path = '''' then None
      else case store_load \<lparr>st_path = path, st_checkpoints = [], st_processed = [], st_loadErr = None\<rparr> f of
        (s, err) \<Rightarrow> Some (s\<lparr>st_loadErr := err\<rparr>))"

definition store_Checkpoint :: "Store \<Rightarrow> string \<Rightarrow> u64" where
  "store_Checkpoint s key = (case gomap_get (st_checkpoints s) key of None \<Rightarrow> 0 | Some v \<Rightarrow> v)"

definition store_Err :: "Store \<Rightarrow> relay_error option" where
  "store_Err s = st_loadErr s"

definition persistLocked :: "Store \<Rightarrow> store_file \<Rightarrow> store_file \<times> relay_error option" where
  "persistLocked s f =
     (if st_path s = '''' then (f, None)
      else write_file \<lparr>pz_Checkpoints = st_checkpoints s, pz_Processed = st_processed s\<rparr> f)"

definition store_SaveCheckpoint :: "Store \<Rightarrow> store_file \<Rightarrow> string \<Rightarrow> u64 \<Rightarrow> Store \<times> store_file \<times> relay_error option" where
  "store_SaveCheckpoint s f key value =
     (case st_loadErr s of
        Some e \<Rightarrow> (s, f, Some (WrapError ''replay store unavailable'' e))
      | None \<Rightarrow>
          let s' = s\<lparr>st_checkpoints := gomap_set key value (st_checkpoints s)\<rparr>
          in (case persistLocked s' f of (f', err) \<Rightarrow> (s', f', err)))"

definition store_MarkProcessed :: "Store \<Rightarrow> store_file \<Rightarrow> string \<Rightarrow> Store \<times> store_file \<times> relay_error option" where
  "store_MarkProcessed s f key =
     (case st_loadErr s of
        Some e \<Rightarrow> (s, f, Some (WrapError ''replay store unavailable'' e))
      | None \<Rightarrow>
          let s' = s\<lparr>st_processed := List.insert key (st_processed s)\<rparr>
          in (case persistLocked s' f of (f', err) \<Rightarrow> (s', f', err)))"

definition store_IsProcessed :: "Store \<Rightarrow> string \<Rightarrow> bool" where
  "store_IsProcessed s key \<longleftrightarrow> key \<in> set (st_processed s)"

section \<open>The store in memory\<close>

lemma Checkpoint_SaveCheckpoint:
  "st_loadErr s = None \<Longrightarrow>
     store_Checkpoint (fst (store_SaveCheckpoint s f key v)) k = (if k = key then v else store_Checkpoint s k)"
  by (simp add: store_SaveCheckpoint_def store_Checkpoint_def Let_def gomap_simps split: prod.splits)

lemma SaveCheckpoint_keeps [simp]:
  "st_processed (fst (store_SaveCheckpoint s f key v)) = st_processed s"
  "st_loadErr (fst (store_SaveCheckpoint s f key v)) = st_loadErr s"
  "st_path (fst (store_SaveCheckpoint s f key v)) = st_path s"
  by (simp_all add: store_SaveCheckpoint_def Let_def split: option.splits prod.splits)

lemma MarkProcessed_keeps [simp]:
  "st_checkpoints (fst (store_MarkProcessed s f key)) = st_checkpoints s"
  "st_loadErr (fst (store_MarkProcessed s f key)) = st_loadErr s"
  "st_path (fst (store_MarkProcessed s f key)) = st_path s"
  by (simp_all add: store_MarkProcessed_def Let_def split: option.splits prod.splits)

lemma MarkProcessed_processed:
  "st_loadErr s = None \<Longrightarrow> set (st_processed (fst (store_MarkProcessed s f key))) = insert key (set (st_processed s))"
  by (simp add: store_MarkProcessed_def Let_def split: prod.splits)

section \<open>The store after a restart\<close>

text \<open>The file holds what the store holds.\<close>

definition store_synced :: "Store \<Rightarrow> store_file \<Rightarrow> bool" where
  "store_synced s f \<longleftrightarrow> fl_fault f = None
     \<and> (case fl_content f of
          None \<Rightarrow> st_checkpoints s = [] \<and> st_processed s = []
        | Some state \<Rightarrow> pz_Checkpoints state = st_checkpoints s \<and> pz_Processed state = st_processed s)"

definition store_wf :: "Store \<Rightarrow> bool" where
  "store_wf s \<longleftrightarrow> gomap_wf (st_checkpoints s) \<and> distinct (st_processed s)"

lemma fold_insert_distinct: "distinct xs \<Longrightarrow> set xs \<inter> set ys = {} \<Longrightarrow> fold List.insert xs ys = rev xs @ ys"
  by (induction xs arbitrary: ys) auto

lemma persist_synced:
  assumes "persistLocked s f = (f', None)" "st_path s \<noteq> ''''"
  shows "store_synced s f'"
  using assms by (auto simp: persistLocked_def write_file_def store_synced_def split: list.splits option.splits)

lemma MarkProcessed_synced:
  assumes "store_MarkProcessed s f key = (s', f', None)" "st_path s \<noteq> ''''"
  shows "store_synced s' f'"
proof -
  from assms(1) have "persistLocked s' f = (f', None)" "st_path s' = st_path s"
    by (auto simp: store_MarkProcessed_def Let_def split: option.splits prod.splits)
  with assms(2) show ?thesis by (simp add: persist_synced)
qed

lemma SaveCheckpoint_synced:
  assumes "store_SaveCheckpoint s f key v = (s', f', None)" "st_path s \<noteq> ''''"
  shows "store_synced s' f'"
proof -
  from assms(1) have "persistLocked s' f = (f', None)" "st_path s' = st_path s"
    by (auto simp: store_SaveCheckpoint_def Let_def split: option.splits prod.splits)
  with assms(2) show ?thesis by (simp add: persist_synced)
qed

lemma store_wf_MarkProcessed: "store_wf s \<Longrightarrow> store_wf (fst (store_MarkProcessed s f key))"
  by (simp add: store_wf_def store_MarkProcessed_def Let_def split: option.splits prod.splits)

lemma store_wf_SaveCheckpoint: "store_wf s \<Longrightarrow> store_wf (fst (store_SaveCheckpoint s f key v))"
  by (auto simp: store_wf_def store_SaveCheckpoint_def Let_def split: option.splits prod.splits)

text \<open>Opening a store on a synced file gives back the same cursors and keys.\<close>

lemma reopen_synced:
  assumes "store_synced s f" "store_wf s" "path \<noteq> ''''"
  obtains s' where "store_NewStoreAt path f = Some s'" "st_loadErr s' = None" "st_path s' = path"
    "st_checkpoints s' = st_checkpoints s" "set (st_processed s') = set (st_processed s)" "store_wf s'"
proof (cases "fl_content f")
  case None
  with assms show ?thesis
    by (intro that [of "\<lparr>st_path = path, st_checkpoints = [], st_processed = [], st_loadErr = None\<rparr>"])
       (simp_all add: store_NewStoreAt_def store_load_def read_file_def store_synced_def store_wf_def)
next
  case (Some state)
  with assms show ?thesis
    by (intro that [of "\<lparr>st_path = path, st_checkpoints = st_checkpoints s, st_processed = rev (st_processed s), st_loadErr = None\<rparr>"])
       (simp_all add: store_NewStoreAt_def store_load_def read_file_def store_synced_def store_wf_def fold_insert_distinct fold_gomap_set)
qed

end
