(* ===== verification/Pipeline.thy ===== *)
theory Pipeline
  imports ReplayStore
begin

text \<open>
  The relay pipeline: \<^verbatim>\<open>relayer/internal/pipeline/pipeline.go\<close> and \<^verbatim>\<open>daemon.go\<close>. One run polls the EVM chain for
  deposits, has each new one attested and submits it to the chain with retries, then polls the chain for withdrawals and
  releases each new one on the EVM side; the replay store keeps the cursors and the keys of what was relayed. The
  daemon repeats runs until its context ends, a run fails for good, or the configured number of runs is reached.
\<close>

section \<open>State\<close>

record RunSummary =
  rs_DepositFromBlock :: u64
  rs_DepositNextCursor :: u64
  rs_DepositsObserved :: nat
  rs_DuplicateDeposits :: nat
  rs_DepositsSubmitted :: nat
  rs_DepositSubmitAttempts :: int
  rs_WithdrawalFromHeight :: u64
  rs_WithdrawalNextCursor :: u64
  rs_WithdrawalsObserved :: nat
  rs_DuplicateWithdrawals :: nat
  rs_WithdrawalsReleased :: nat
  rs_WithdrawalReleaseAttempts :: int

text \<open>The fields of the summary that count automatic deliveries are written by the delivery coordinator only.\<close>

definition zeroRunSummary :: RunSummary where
  "zeroRunSummary =
     \<lparr>rs_DepositFromBlock = 0, rs_DepositNextCursor = 0, rs_DepositsObserved = 0, rs_DuplicateDeposits = 0, rs_DepositsSubmitted = 0,
      rs_DepositSubmitAttempts = 0, rs_WithdrawalFromHeight = 0, rs_WithdrawalNextCursor = 0, rs_WithdrawalsObserved = 0,
      rs_DuplicateWithdrawals = 0, rs_WithdrawalsReleased = 0, rs_WithdrawalReleaseAttempts = 0\<rparr>"

text \<open>The five interfaces of the coordinator and the two settings it reads.\<close>

record 'w Coordinator =
  co_CosmosChainID :: string
  co_SubmissionRetryLimit :: int
  co_depositWatcher :: "'w \<Rightarrow> u64 \<Rightarrow> 'w \<times> DepositEvent list \<times> u64 \<times> relay_error option"
  co_collector :: "'w \<Rightarrow> string \<Rightarrow> string \<Rightarrow> 'w \<times> (relay_error + Attestation)"
  co_submitter :: "'w ClaimSink"
  co_withdrawalWatcher :: "'w \<Rightarrow> u64 \<Rightarrow> 'w \<times> Withdrawal list \<times> u64 \<times> relay_error option"
  co_evmRelease :: "'w ReleaseTarget"

text \<open>What a run changes: the world outside, the store, and the file of the store.\<close>

record 'w Relay =
  rl_world :: 'w
  rl_store :: Store
  rl_file :: store_file

abbreviation (input) depositCheckpointKey :: string where "depositCheckpointKey \<equiv> ''evm-deposits''"
abbreviation (input) withdrawalCheckpointKey :: string where "withdrawalCheckpointKey \<equiv> ''cosmos-withdrawals''"

section \<open>Retries\<close>

text \<open>The loop of \<^verbatim>\<open>submitWithRetry\<close> and \<^verbatim>\<open>releaseWithRetry\<close> from attempt number \<open>attempt\<close> on.\<close>

function retry_loop ::
    "('w \<Rightarrow> 'w \<times> relay_error option) \<Rightarrow> string \<Rightarrow> int \<Rightarrow> int \<Rightarrow> relay_error option \<Rightarrow> 'w \<Rightarrow> 'w \<times> int \<times> relay_error option" where
  "retry_loop call label attempts attempt lastErr w =
     (if attempts < attempt then (w, attempts, Some (WrapError label (case lastErr of None \<Rightarrow> RelayError ''%!w(<nil>)'' | Some e \<Rightarrow> e)))
      else case call w of
        (w', None) \<Rightarrow> (w', attempt, None)
      | (w', Some e) \<Rightarrow>
          if \<not> isTemporary e \<or> attempt = attempts then (w', attempts, Some (WrapError label e))
          else retry_loop call label attempts (attempt + 1) (Some e) w')"
  by pat_completeness auto
termination
  by (relation "measure (\<lambda>(call, label, attempts, attempt, lastErr, w). nat (attempts + 1 - attempt))") auto

declare retry_loop.simps [simp del]

definition submitWithRetry ::
    "'w Coordinator \<Rightarrow> DepositClaim \<Rightarrow> Attestation \<Rightarrow> 'w \<Rightarrow> 'w \<times> int \<times> relay_error option" where
  "submitWithRetry c claim attestation w =
     (let attempts = (if co_SubmissionRetryLimit c \<le> 0 then 1 else co_SubmissionRetryLimit c)
      in retry_loop (\<lambda>w. co_submitter c w claim attestation) ''submit deposit claim'' attempts 1 None w)"

definition releaseWithRetry :: "'w Coordinator \<Rightarrow> ReleaseRequest \<Rightarrow> 'w \<Rightarrow> 'w \<times> int \<times> relay_error option" where
  "releaseWithRetry c request w =
     (let attempts = (if co_SubmissionRetryLimit c \<le> 0 then 1 else co_SubmissionRetryLimit c)
      in retry_loop (\<lambda>w. case co_evmRelease c w request of (w', Inl e) \<Rightarrow> (w', Some e) | (w', Inr hash) \<Rightarrow> (w', None))
           ''release withdrawal'' attempts 1 None w)"

section \<open>Deposits\<close>

fun deposit_loop ::
    "'w Coordinator \<Rightarrow> DepositEvent list \<Rightarrow> 'w Relay \<Rightarrow> RunSummary \<Rightarrow> 'w Relay \<times> RunSummary \<times> relay_error option" where
  "deposit_loop c [] r summary = (r, summary, None)"
| "deposit_loop c (event # events) r summary =
     (if store_IsProcessed (rl_store r) (event_ReplayKey event)
      then deposit_loop c events r (summary\<lparr>rs_DuplicateDeposits := rs_DuplicateDeposits summary + 1\<rparr>)
      else
        let claim = event_Claim event (co_CosmosChainID c) in
        case deposit_ValidateBasic claim of
          Some e \<Rightarrow> (r, summary, Some (RelayTypesError e))
        | None \<Rightarrow>
        case co_collector c (rl_world r) (ci_MessageID (dc_Identity claim)) (deposit_Digest claim) of
          (w1, Inl e) \<Rightarrow> (r\<lparr>rl_world := w1\<rparr>, summary, Some e)
        | (w1, Inr attestation) \<Rightarrow>
        case submitWithRetry c claim attestation w1 of
          (w2, attempts, err) \<Rightarrow>
        let summary1 = summary\<lparr>rs_DepositSubmitAttempts := rs_DepositSubmitAttempts summary + attempts\<rparr> in
        case err of
          Some e \<Rightarrow> (r\<lparr>rl_world := w2\<rparr>, summary1, Some e)
        | None \<Rightarrow>
        let summary2 = summary1\<lparr>rs_DepositsSubmitted := rs_DepositsSubmitted summary1 + 1\<rparr> in
        case store_MarkProcessed (rl_store r) (rl_file r) (event_ReplayKey event) of
          (s, f, Some e) \<Rightarrow> (\<lparr>rl_world = w2, rl_store = s, rl_file = f\<rparr>, summary2, Some (WrapError ''mark deposit processed'' e))
        | (s, f, None) \<Rightarrow> deposit_loop c events \<lparr>rl_world = w2, rl_store = s, rl_file = f\<rparr> summary2)"

definition runDeposits :: "'w Coordinator \<Rightarrow> 'w Relay \<Rightarrow> RunSummary \<Rightarrow> 'w Relay \<times> RunSummary \<times> relay_error option" where
  "runDeposits c r0 summary0 =
     (let fromBlock = store_Checkpoint (rl_store r0) depositCheckpointKey;
          summary1 = summary0\<lparr>rs_DepositFromBlock := fromBlock\<rparr>
      in case co_depositWatcher c (rl_world r0) fromBlock of
           (w, events, nextCursor, Some e) \<Rightarrow> (r0\<lparr>rl_world := w\<rparr>, summary1, Some e)
         | (w, events, nextCursor, None) \<Rightarrow>
         case deposit_loop c events (r0\<lparr>rl_world := w\<rparr>) (summary1\<lparr>rs_DepositsObserved := length events\<rparr>) of
           (r1, summary2, Some e) \<Rightarrow> (r1, summary2, Some e)
         | (r1, summary2, None) \<Rightarrow>
         case store_SaveCheckpoint (rl_store r1) (rl_file r1) depositCheckpointKey nextCursor of
           (s, f, Some e) \<Rightarrow> (r1\<lparr>rl_store := s, rl_file := f\<rparr>, summary2, Some (WrapError ''save deposit checkpoint'' e))
         | (s, f, None) \<Rightarrow> (r1\<lparr>rl_store := s, rl_file := f\<rparr>, summary2\<lparr>rs_DepositNextCursor := nextCursor\<rparr>, None))"

section \<open>Withdrawals\<close>

fun withdrawal_loop ::
    "'w Coordinator \<Rightarrow> Withdrawal list \<Rightarrow> 'w Relay \<Rightarrow> RunSummary \<Rightarrow> 'w Relay \<times> RunSummary \<times> relay_error option" where
  "withdrawal_loop c [] r summary = (r, summary, None)"
| "withdrawal_loop c (withdrawal # withdrawals) r summary =
     (if store_IsProcessed (rl_store r) (withdrawal_ReplayKey withdrawal)
      then withdrawal_loop c withdrawals r (summary\<lparr>rs_DuplicateWithdrawals := rs_DuplicateWithdrawals summary + 1\<rparr>)
      else
        case withdrawal_Validate withdrawal of
          Some e \<Rightarrow> (r, summary, Some e)
        | None \<Rightarrow>
        case releaseWithRetry c (withdrawal_ReleaseRequest withdrawal) (rl_world r) of
          (w1, attempts, err) \<Rightarrow>
        let summary1 = summary\<lparr>rs_WithdrawalReleaseAttempts := rs_WithdrawalReleaseAttempts summary + attempts\<rparr> in
        case err of
          Some e \<Rightarrow> (r\<lparr>rl_world := w1\<rparr>, summary1, Some e)
        | None \<Rightarrow>
        let summary2 = summary1\<lparr>rs_WithdrawalsReleased := rs_WithdrawalsReleased summary1 + 1\<rparr> in
        case store_MarkProcessed (rl_store r) (rl_file r) (withdrawal_ReplayKey withdrawal) of
          (s, f, Some e) \<Rightarrow> (\<lparr>rl_world = w1, rl_store = s, rl_file = f\<rparr>, summary2, Some (WrapError ''mark withdrawal processed'' e))
        | (s, f, None) \<Rightarrow> withdrawal_loop c withdrawals \<lparr>rl_world = w1, rl_store = s, rl_file = f\<rparr> summary2)"

definition runWithdrawals :: "'w Coordinator \<Rightarrow> 'w Relay \<Rightarrow> RunSummary \<Rightarrow> 'w Relay \<times> RunSummary \<times> relay_error option" where
  "runWithdrawals c r0 summary0 =
     (let fromHeight = store_Checkpoint (rl_store r0) withdrawalCheckpointKey;
          summary1 = summary0\<lparr>rs_WithdrawalFromHeight := fromHeight\<rparr>
      in case co_withdrawalWatcher c (rl_world r0) fromHeight of
           (w, withdrawals, nextCursor, Some e) \<Rightarrow> (r0\<lparr>rl_world := w\<rparr>, summary1, Some e)
         | (w, withdrawals, nextCursor, None) \<Rightarrow>
         case withdrawal_loop c withdrawals (r0\<lparr>rl_world := w\<rparr>) (summary1\<lparr>rs_WithdrawalsObserved := length withdrawals\<rparr>) of
           (r1, summary2, Some e) \<Rightarrow> (r1, summary2, Some e)
         | (r1, summary2, None) \<Rightarrow>
         case store_SaveCheckpoint (rl_store r1) (rl_file r1) withdrawalCheckpointKey nextCursor of
           (s, f, Some e) \<Rightarrow> (r1\<lparr>rl_store := s, rl_file := f\<rparr>, summary2, Some (WrapError ''save withdrawal checkpoint'' e))
         | (s, f, None) \<Rightarrow> (r1\<lparr>rl_store := s, rl_file := f\<rparr>, summary2\<lparr>rs_WithdrawalNextCursor := nextCursor\<rparr>, None))"

definition pipeline_RunOnceWithSummary :: "'w Coordinator \<Rightarrow> 'w Relay \<Rightarrow> 'w Relay \<times> RunSummary \<times> relay_error option" where
  "pipeline_RunOnceWithSummary c r =
     (case store_Err (rl_store r) of
        Some e \<Rightarrow> (r, zeroRunSummary, Some (WrapError ''replay store'' e))
      | None \<Rightarrow>
      case runDeposits c r zeroRunSummary of
        (r1, summary, Some e) \<Rightarrow> (r1, summary, Some e)
      | (r1, summary, None) \<Rightarrow> runWithdrawals c r1 summary)"

section \<open>The daemon\<close>

text \<open>Durations are in nanoseconds. \<^verbatim>\<open>ctx.Err()\<close> and the wait between runs (a timer or the end of the context) are
  functions of the state; a wait says whether the context has ended.\<close>

record DaemonConfig =
  dm_PollInterval :: int
  dm_FailureBackoff :: int
  dm_MaxConsecutiveRuns :: int

record 'm LoopEvent =
  le_Iteration :: int
  le_Summary :: 'm
  le_Err :: "relay_error option"
  le_Temporary :: bool
  le_ConsecutiveFailures :: int

definition NewDaemon :: "DaemonConfig \<Rightarrow> DaemonConfig" where
  "NewDaemon cfg =
     \<lparr>dm_PollInterval = (if dm_PollInterval cfg \<le> 0 then 1000000000 else dm_PollInterval cfg),
      dm_FailureBackoff = (if dm_FailureBackoff cfg \<le> 0 then 5 * 1000000000 else dm_FailureBackoff cfg),
      dm_MaxConsecutiveRuns = dm_MaxConsecutiveRuns cfg\<rparr>"

text \<open>One round of the loop. The left side is a return of the loop, the right side the state, the failures in a row and the events
  with which the next round starts.\<close>

definition loop_round ::
    "('s \<Rightarrow> bool) \<Rightarrow> ('s \<Rightarrow> int \<Rightarrow> 's \<times> bool) \<Rightarrow> ('s \<Rightarrow> 's \<times> 'm \<times> relay_error option) \<Rightarrow> DaemonConfig
     \<Rightarrow> int \<Rightarrow> int \<Rightarrow> 'm LoopEvent list \<Rightarrow> 's \<Rightarrow> ('s \<times> 'm LoopEvent list \<times> relay_error option) + ('s \<times> 'm LoopEvent list \<times> int)" where
  "loop_round ended wait runOnce cfg iteration failures events s =
     (if ended s then Inl (s, events, None)
      else case runOnce s of
        (s1, summary, Some e) \<Rightarrow>
          if ended s1 then Inl (s1, events, None)
          else
            let temporary = isTemporary e;
                failures' = (if temporary then failures + 1 else failures);
                events' = events @ [\<lparr>le_Iteration = iteration, le_Summary = summary, le_Err = Some e, le_Temporary = temporary,
                                     le_ConsecutiveFailures = failures'\<rparr>]
            in if \<not> temporary then Inl (s1, events', Some e)
               else if 0 < dm_MaxConsecutiveRuns cfg \<and> dm_MaxConsecutiveRuns cfg \<le> iteration then Inl (s1, events', None)
               else (case wait s1 (dm_FailureBackoff cfg) of
                       (s2, done) \<Rightarrow> if done then Inl (s2, events', None) else Inr (s2, events', failures'))
      | (s1, summary, None) \<Rightarrow>
          let events' = events @ [\<lparr>le_Iteration = iteration, le_Summary = summary, le_Err = None, le_Temporary = False,
                                   le_ConsecutiveFailures = 0\<rparr>]
          in if 0 < dm_MaxConsecutiveRuns cfg \<and> dm_MaxConsecutiveRuns cfg \<le> iteration then Inl (s1, events', None)
             else (case wait s1 (dm_PollInterval cfg) of
                     (s2, done) \<Rightarrow> if done then Inl (s2, events', None) else Inr (s2, events', 0)))"

text \<open>The loop from iteration number \<open>iteration\<close> on, with the events emitted so far. A loop that does not end has the value \<^term>\<open>None\<close>.
  The iteration number is an unbounded integer here: with a limit on the number of runs it never exceeds that limit.\<close>

partial_function (option) run_loop ::
    "('s \<Rightarrow> bool) \<Rightarrow> ('s \<Rightarrow> int \<Rightarrow> 's \<times> bool) \<Rightarrow> ('s \<Rightarrow> 's \<times> 'm \<times> relay_error option) \<Rightarrow> DaemonConfig
     \<Rightarrow> int \<Rightarrow> int \<Rightarrow> 'm LoopEvent list \<Rightarrow> 's \<Rightarrow> ('s \<times> 'm LoopEvent list \<times> relay_error option) option" where
  "run_loop ended wait runOnce cfg iteration failures events s =
     (case loop_round ended wait runOnce cfg iteration failures events s of
        Inl result \<Rightarrow> Some result
      | Inr (s', events', failures') \<Rightarrow> run_loop ended wait runOnce cfg (iteration + 1) failures' events' s')"

definition daemon_Run ::
    "('w Relay \<Rightarrow> bool) \<Rightarrow> ('w Relay \<Rightarrow> int \<Rightarrow> 'w Relay \<times> bool) \<Rightarrow> 'w Coordinator \<Rightarrow> DaemonConfig \<Rightarrow> 'w Relay
     \<Rightarrow> ('w Relay \<times> RunSummary LoopEvent list \<times> relay_error option) option" where
  "daemon_Run ended wait c cfg r = run_loop ended wait (pipeline_RunOnceWithSummary c) (NewDaemon cfg) 1 0 [] r"

end
