(* ===== verification/Collector.thy ===== *)
theory Collector
  imports RelayFiles
begin

text \<open>
  The attestation collector of the relayer, \<^verbatim>\<open>relayer/internal/attestations\<close>: signed votes in a file, and the collector
  that picks as many voters as the threshold asks for, those whose votes expire last, and signs the attestation
  with their keys.
\<close>

section \<open>Votes\<close>

record Vote =
  vt_Signer :: string
  vt_Expiry :: u64

definition vote_fields :: "string \<Rightarrow> string \<Rightarrow> u64 \<Rightarrow> string list" where
  "vote_fields messageID payloadHash expiry =
     [''aegislink.vote.v1'', TrimSpace messageID, ToLower (TrimSpace payloadHash), show_u64 expiry]"

definition voteSigningPayload :: "string \<Rightarrow> string \<Rightarrow> u64 \<Rightarrow> string" where
  "voteSigningPayload messageID payloadHash expiry = join ''|'' (map encode_field (vote_fields messageID payloadHash expiry))"

definition SignVote :: "('pk, 'sk) crypto \<Rightarrow> string \<Rightarrow> string \<Rightarrow> u64 \<Rightarrow> string \<Rightarrow> relay_error + persistedVote" where
  "SignVote cr messageID payloadHash expiry privateKeyHex =
     (case SignerAddressFromPrivateKeyHex cr privateKeyHex of
        Inl e \<Rightarrow> Inl (WrapError ''sign vote: derive signer address'' (RelayTypesError e))
      | Inr address \<Rightarrow>
      case SignRawPayload cr (voteSigningPayload messageID payloadHash expiry) privateKeyHex of
        Inl e \<Rightarrow> Inl (WrapError ''sign vote'' (RelayTypesError e))
      | Inr sig \<Rightarrow>
          Inr \<lparr>pv_MessageID = TrimSpace messageID, pv_PayloadHash = ToLower (TrimSpace payloadHash), pv_Signer = address,
               pv_Expiry = expiry, pv_Signature = sig\<rparr>)"

text \<open>The body of the loop over the file's votes: a vote that is for another message, unsigned or not signed by its claimed
  signer is dropped.\<close>

definition accepted_vote :: "('pk, 'sk) crypto \<Rightarrow> string \<Rightarrow> string \<Rightarrow> persistedVote \<Rightarrow> Vote option" where
  "accepted_vote cr messageID payloadHash vote =
     (if pv_MessageID vote \<noteq> messageID \<or> pv_PayloadHash vote \<noteq> payloadHash then None
      else if pv_Signature vote = [] then None
      else case RecoverSignerFromPayload cr (voteSigningPayload (pv_MessageID vote) (pv_PayloadHash vote) (pv_Expiry vote)) (pv_Signature vote) of
        Inl e \<Rightarrow> None
      | Inr recovered \<Rightarrow>
          if \<not> EqualFold recovered (TrimSpace (pv_Signer vote)) then None
          else Some \<lparr>vt_Signer = recovered, vt_Expiry = pv_Expiry vote\<rparr>)"

definition votes_load :: "string \<Rightarrow> FileWorld \<Rightarrow> relay_error + persistedVote list" where
  "votes_load path w = load_json [] path (fw_votes w)"

definition file_Votes :: "('pk, 'sk) crypto \<Rightarrow> string \<Rightarrow> FileWorld \<Rightarrow> string \<Rightarrow> string \<Rightarrow> FileWorld \<times> (relay_error + Vote list)" where
  "file_Votes cr path w messageID payloadHash =
     (case fw_ctx w of
        Some e \<Rightarrow> (w, Inl e)
      | None \<Rightarrow>
      if path = '''' then (w, Inr [])
      else case votes_load path w of
        Inl e \<Rightarrow> (w, Inl e)
      | Inr votes \<Rightarrow> (w, Inr (List.map_filter (accepted_vote cr messageID payloadHash) votes)))"

section \<open>The collector\<close>

record 'w Collector =
  cc_source :: "('w \<Rightarrow> string \<Rightarrow> string \<Rightarrow> 'w \<times> (relay_error + Vote list)) option"
  cc_threshold :: u32
  cc_signerSetVersion :: u64
  cc_signerKeys :: "(string, string) gomap"

fun key_lookup :: "('pk, 'sk) crypto \<Rightarrow> string list \<Rightarrow> (string, string) gomap \<Rightarrow> (string, string) gomap" where
  "key_lookup cr [] m = m"
| "key_lookup cr (key # keys) m =
     (case SignerAddressFromPrivateKeyHex cr key of
        Inl e \<Rightarrow> key_lookup cr keys m
      | Inr address \<Rightarrow> key_lookup cr keys (gomap_set address key m))"

definition NewCollector ::
    "('pk, 'sk) crypto \<Rightarrow> ('w \<Rightarrow> string \<Rightarrow> string \<Rightarrow> 'w \<times> (relay_error + Vote list)) option \<Rightarrow> u32 \<Rightarrow> u64 \<Rightarrow> string list \<Rightarrow> 'w Collector" where
  "NewCollector cr source threshold signerSetVersion signerKeys =
     \<lparr>cc_source = source, cc_threshold = threshold,
      cc_signerSetVersion = (if signerSetVersion = 0 then 1 else signerSetVersion),
      cc_signerKeys = key_lookup cr signerKeys []\<rparr>"

text \<open>The latest expiry per voter.\<close>

definition add_vote :: "Vote \<Rightarrow> (string, u64) gomap \<Rightarrow> (string, u64) gomap" where
  "add_vote vote unique =
     (let signer = TrimSpace (vt_Signer vote) in
      if signer = '''' then unique
      else case gomap_get unique signer of
        None \<Rightarrow> gomap_set signer (vt_Expiry vote) unique
      | Some expiry \<Rightarrow> if expiry < vt_Expiry vote then gomap_set signer (vt_Expiry vote) unique else unique)"

text \<open>Without a single vote the collector takes all signers it has keys for, with the largest expiry.\<close>

definition unique_votes :: "'w Collector \<Rightarrow> Vote list \<Rightarrow> (string, u64) gomap" where
  "unique_votes c votes =
     (let unique = fold add_vote votes [] in
      if unique = [] then fold (\<lambda>(signer, key). gomap_set signer (- 1)) (cc_signerKeys c) [] else unique)"

text \<open>Latest expiry first, then by address; \<open>- 1 - e\<close> reverses the order of the expiries.\<close>

definition ranked_votes :: "(string, u64) gomap \<Rightarrow> (string \<times> u64) list" where
  "ranked_votes unique = sort_key (\<lambda>(signer, expiry). (- 1 - expiry, signer)) unique"

text \<open>The loop over the chosen voters: their addresses and the earliest expiry.\<close>

fun choose_signers :: "'w Collector \<Rightarrow> (string \<times> u64) list \<Rightarrow> string list \<Rightarrow> u64 \<Rightarrow> (string list \<times> u64) option" where
  "choose_signers c [] signers expiry = Some (signers, expiry)"
| "choose_signers c ((voter, voteExpiry) # votes) signers expiry =
     (let signer = NormalizeSignerAddress voter in
      if gomap_get (cc_signerKeys c) signer = None then None
      else choose_signers c votes (signers @ [signer]) (if expiry = 0 \<or> voteExpiry < expiry then voteExpiry else expiry))"

fun sign_all :: "('pk, 'sk) crypto \<Rightarrow> 'w Collector \<Rightarrow> Attestation \<Rightarrow> string list \<Rightarrow> types_error + AttestationProof list" where
  "sign_all cr c attestation [] = Inr []"
| "sign_all cr c attestation (signer # signers) =
     (case SignAttestationWithPrivateKeyHex cr attestation (case gomap_get (cc_signerKeys c) signer of None \<Rightarrow> '''' | Some key \<Rightarrow> key) of
        Inl e \<Rightarrow> Inl e
      | Inr proof \<Rightarrow> (case sign_all cr c attestation signers of Inl e \<Rightarrow> Inl e | Inr proofs \<Rightarrow> Inr (proof # proofs)))"

text \<open>The attestation that is signed: its proofs do not enter the signed payload.\<close>

definition unsigned_attestation :: "'w Collector \<Rightarrow> string \<Rightarrow> string \<Rightarrow> string list \<Rightarrow> string list \<Rightarrow> u64 \<Rightarrow> Attestation" where
  "unsigned_attestation c messageID payloadHash signers chosen expiry =
     \<lparr>att_MessageID = messageID, att_PayloadHash = payloadHash, att_Signers = signers,
      att_Proofs = map (\<lambda>s. \<lparr>pf_Signer = s, pf_Signature = []\<rparr>) chosen, att_Threshold = cc_threshold c,
      att_Expiry = expiry, att_SignerSetVersion = cc_signerSetVersion c\<rparr>"

definition ErrThresholdNotMet :: relay_error where
  "ErrThresholdNotMet = RelayError ''attestation threshold not met''"

definition collector_Collect ::
    "('pk, 'sk) crypto \<Rightarrow> 'w go_context \<Rightarrow> 'w Collector option \<Rightarrow> 'w \<Rightarrow> string \<Rightarrow> string \<Rightarrow> 'w \<times> (relay_error + Attestation)" where
  "collector_Collect cr ctx collector w messageID payloadHash =
     (case collector of
        None \<Rightarrow> (w, Inl ErrThresholdNotMet)
      | Some c \<Rightarrow>
      case cc_source c of
        None \<Rightarrow> (w, Inl ErrThresholdNotMet)
      | Some source \<Rightarrow>
      case ctx w of
        Some e \<Rightarrow> (w, Inl e)
      | None \<Rightarrow>
      case source w messageID payloadHash of
        (w', Inl e) \<Rightarrow> (w', Inl e)
      | (w', Inr votes) \<Rightarrow>
      let unique = unique_votes c votes in
      if cc_threshold c = 0 \<or> word_of_nat (length unique) < cc_threshold c then (w', Inl ErrThresholdNotMet)
      else case choose_signers c (take (unat (cc_threshold c)) (ranked_votes unique)) [] 0 of
        None \<Rightarrow> (w', Inl ErrThresholdNotMet)
      | Some (chosen, expiry) \<Rightarrow>
      let signers = sort chosen;
          attestation = unsigned_attestation c messageID payloadHash signers chosen expiry
      in case sign_all cr c attestation signers of
           Inl e \<Rightarrow> (w', Inl (RelayTypesError e))
         | Inr proofs \<Rightarrow> (w', Inr (attestation\<lparr>att_Proofs := proofs\<rparr>)))"

section \<open>The keys of the collector\<close>

definition keys_ok :: "('pk, 'sk) crypto \<Rightarrow> string set \<Rightarrow> (string, string) gomap \<Rightarrow> bool" where
  "keys_ok cr keys m \<longleftrightarrow> gomap_wf m \<and> gomap_all (\<lambda>a k. SignerAddressFromPrivateKeyHex cr k = Inr a \<and> k \<in> keys) m"

lemma key_lookup_ok: "keys_ok cr K m \<Longrightarrow> set keys \<subseteq> K \<Longrightarrow> keys_ok cr K (key_lookup cr keys m)"
  by (induction cr keys m rule: key_lookup.induct) (auto simp: keys_ok_def gomap_all_set split: sum.splits)

lemma NewCollector_keys: "keys_ok cr (set keys) (cc_signerKeys (NewCollector cr source threshold version keys))"
  using key_lookup_ok [of cr "set keys" "[]" keys] by (simp add: NewCollector_def keys_ok_def)

lemma address_normal:
  assumes "SignerAddressFromPrivateKeyHex cr k = Inr a"
  shows "NormalizeSignerAddress a = a" "TrimSpace a = a" "a \<noteq> []"
proof -
  from assms obtain pk where a: "a = SignerAddressFromPublicKey cr pk"
    by (auto simp: SignerAddressFromPrivateKeyHex_def split: sum.splits)
  then show n: "NormalizeSignerAddress a = a" by simp
  show "TrimSpace a = a" using n unfolding NormalizeSignerAddress_def by (metis TrimSpace_ToLower TrimSpace_idem)
  show "a \<noteq> []" by (simp add: a SignerAddressFromPublicKey_def Let_def)
qed

section \<open>Voters\<close>

definition normal_keys :: "(string, u64) gomap \<Rightarrow> bool" where
  "normal_keys m \<longleftrightarrow> gomap_wf m \<and> gomap_all (\<lambda>s e. NormalizeSignerAddress s = s) m"

lemma add_vote_normal:
  assumes "normal_keys m" "NormalizeSignerAddress (vt_Signer v) = vt_Signer v"
  shows "normal_keys (add_vote v m)"
proof -
  have "TrimSpace (vt_Signer v) = vt_Signer v"
    using assms(2) unfolding NormalizeSignerAddress_def by (metis TrimSpace_ToLower TrimSpace_idem)
  with assms show ?thesis
    by (auto simp: add_vote_def normal_keys_def Let_def gomap_all_set split: option.splits)
qed

lemma fold_add_vote_normal:
  "normal_keys m \<Longrightarrow> \<forall>v \<in> set votes. NormalizeSignerAddress (vt_Signer v) = vt_Signer v \<Longrightarrow> normal_keys (fold add_vote votes m)"
  by (induction votes arbitrary: m) (simp_all add: add_vote_normal)

lemma fold_fallback_normal:
  "gomap_all (\<lambda>a k. NormalizeSignerAddress a = a) keys \<Longrightarrow> normal_keys m \<Longrightarrow>
     normal_keys (fold (\<lambda>(signer, key). gomap_set signer (- 1)) keys m)"
proof (induction keys arbitrary: m)
  case (Cons x keys)
  obtain a k where "x = (a, k)" by force
  with Cons show ?case by (simp add: normal_keys_def gomap_all_set gomap_wf_set)
qed simp

lemma unique_votes_normal:
  assumes "keys_ok cr K (cc_signerKeys c)" "\<forall>v \<in> set votes. NormalizeSignerAddress (vt_Signer v) = vt_Signer v"
  shows "normal_keys (unique_votes c votes)"
proof -
  have "gomap_all (\<lambda>a k. NormalizeSignerAddress a = a) (cc_signerKeys c)"
    using assms(1) address_normal(1) unfolding keys_ok_def gomap_all_def by fast
  moreover have "normal_keys []" by (simp add: normal_keys_def)
  ultimately show ?thesis
    unfolding unique_votes_def Let_def using fold_add_vote_normal [OF _ assms(2)] fold_fallback_normal by auto
qed

lemma accepted_vote_normal:
  "accepted_vote cr m h v = Some x \<Longrightarrow> NormalizeSignerAddress (vt_Signer x) = vt_Signer x"
  by (auto simp: accepted_vote_def RecoverSignerFromPayload_def split: if_splits sum.splits option.splits)

lemma file_Votes_normal:
  assumes "file_Votes cr path w m h = (w', Inr votes)"
  shows "\<forall>v \<in> set votes. NormalizeSignerAddress (vt_Signer v) = vt_Signer v"
  using assms accepted_vote_normal
  by (auto simp: file_Votes_def List.map_filter_def split: option.splits if_splits sum.splits)

lemma ranked_distinct: "normal_keys m \<Longrightarrow> distinct (map fst (ranked_votes m)) \<and> (\<forall>x \<in> set (ranked_votes m). NormalizeSignerAddress (fst x) = fst x)"
  unfolding ranked_votes_def normal_keys_def gomap_wf_def gomap_all_def
  by (auto simp: distinct_map inj_on_def)

section \<open>The attestation\<close>

lemma choose_signers_Some:
  assumes "choose_signers c votes acc e = Some (ss, e')"
  shows "ss = acc @ map (NormalizeSignerAddress \<circ> fst) votes
     \<and> (\<forall>v \<in> set votes. map_of (cc_signerKeys c) (NormalizeSignerAddress (fst v)) \<noteq> None)"
  using assms
  by (induction c votes acc e rule: choose_signers.induct) (auto simp: Let_def split: if_splits)

lemma sign_all_Inr:
  assumes "sign_all cr c att signers = Inr proofs" "crypto_recovers cr" "keys_ok cr K (cc_signerKeys c)"
    and "\<forall>s \<in> set signers. map_of (cc_signerKeys c) s \<noteq> None"
  shows "map pf_Signer proofs = signers \<and> (signers \<noteq> [] \<longrightarrow> validateEnvelope att = None)
     \<and> (\<forall>p \<in> set proofs. pf_Signature p \<noteq> [] \<and> verifyProof cr p (keccak256 cr (signing_payload att)) = Inr (pf_Signer p))"
  using assms(1,4)
proof (induction signers arbitrary: proofs)
  case (Cons s signers)
  then obtain key where key: "map_of (cc_signerKeys c) s = Some key" by auto
  with assms(3) have addr: "SignerAddressFromPrivateKeyHex cr key = Inr s"
    using gomap_all_get unfolding keys_ok_def by fastforce
  from Cons.prems(1) key obtain p ps where p: "SignAttestationWithPrivateKeyHex cr att key = Inr p"
    and ps: "sign_all cr c att signers = Inr ps" "proofs = p # ps"
    by (auto split: sum.splits)
  from p obtain sk where sk: "parsePrivateKeyHex cr key = Inr sk" and env: "validateEnvelope att = None"
    and p': "p = \<lparr>pf_Signer = SignerAddressFromPublicKey cr (cr_PubKey cr sk), pf_Signature = cr_SignCompact cr sk (keccak256 cr (signing_payload att))\<rparr>"
    unfolding SignAttestationWithPrivateKeyHex_def SigningDigest_def by (auto split: sum.splits option.splits)
  have "pf_Signer p = s" using addr sk by (simp add: p' SignerAddressFromPrivateKeyHex_def)
  moreover have "pf_Signature p \<noteq> []" "verifyProof cr p (keccak256 cr (signing_payload att)) = Inr (pf_Signer p)"
    using assms(2) unfolding crypto_recovers_def by (simp_all add: p' verifyProof_def Let_def)
  ultimately have "pf_Signer p = s" "pf_Signature p \<noteq> []" "verifyProof cr p (keccak256 cr (signing_payload att)) = Inr (pf_Signer p)"
    by simp_all
  note this env
  with Cons.IH [OF ps(1)] Cons.prems(2) ps(2) show ?case by simp
qed simp

lemma Collect_Inr:
  assumes "collector_Collect cr ctx (Some c) w m h = (w', Inr att)"
  obtains source votes chosen expiry proofs where "cc_source c = Some source" "source w m h = (w', Inr votes)" "cc_threshold c \<noteq> 0"
    "cc_threshold c \<le> word_of_nat (length (unique_votes c votes))"
    "choose_signers c (take (unat (cc_threshold c)) (ranked_votes (unique_votes c votes))) [] 0 = Some (chosen, expiry)"
    "sign_all cr c (unsigned_attestation c m h (sort chosen) chosen expiry) (sort chosen) = Inr proofs"
    "att = (unsigned_attestation c m h (sort chosen) chosen expiry)\<lparr>att_Proofs := proofs\<rparr>"
  using assms
  by (auto simp: collector_Collect_def Let_def not_less split: option.splits prod.splits sum.splits if_splits)

text \<open>When no vote is accepted, the collector proceeds exactly as if every signer it has a key for had voted with the latest
  possible expiry.\<close>

lemma fold_synthetic_votes:
  "gomap_all (\<lambda>a k. TrimSpace a = a \<and> a \<noteq> []) keys \<Longrightarrow> gomap_wf keys \<Longrightarrow> (\<And>a. map_of keys a \<noteq> None \<Longrightarrow> map_of m a = None) \<Longrightarrow>
     fold add_vote (map (\<lambda>(signer, key). \<lparr>vt_Signer = signer, vt_Expiry = - 1\<rparr>) keys) m = fold (\<lambda>(signer, key). gomap_set signer (- 1)) keys m"
proof (induction keys arbitrary: m)
  case (Cons x keys)
  obtain a k where x: "x = (a, k)" by force
  from Cons.prems(1,3) have "add_vote \<lparr>vt_Signer = a, vt_Expiry = - 1\<rparr> m = gomap_set a (- 1) m"
    by (simp add: add_vote_def x)
  moreover have "map_of (gomap_set a (- 1) m) b = None" if "map_of keys b \<noteq> None" for b
    using that Cons.prems(2) Cons.prems(3) [of b] by (auto simp: x gomap_simps)
  ultimately show ?case using Cons.IH [of "gomap_set a (- 1) m"] Cons.prems(1,2) by (simp add: x)
qed simp

lemma no_votes_count_as_all:
  assumes "keys_ok cr K (cc_signerKeys c)"
  shows "unique_votes c [] = unique_votes c (map (\<lambda>(signer, key). \<lparr>vt_Signer = signer, vt_Expiry = - 1\<rparr>) (cc_signerKeys c))"
proof -
  have "gomap_all (\<lambda>a k. TrimSpace a = a \<and> a \<noteq> []) (cc_signerKeys c)"
    using assms address_normal(2,3) unfolding keys_ok_def gomap_all_def by fast
  then show ?thesis using assms by (simp add: unique_votes_def keys_ok_def fold_synthetic_votes)
qed

text \<open>What the collector hands out when it reads its votes from a file.\<close>

lemma collected_attestation:
  fixes cr :: "('pk, 'sk) crypto"
  assumes "crypto_recovers cr"
    and collect: "collector_Collect cr ctx (Some (NewCollector cr (Some (file_Votes cr path)) threshold version keys)) w m h = (w', Inr att)"
  shows "att_MessageID att = m" "att_PayloadHash att = h" "att_Threshold att = threshold" "validateEnvelope att = None"
    and "length (att_Proofs att) = unat threshold" "att_Signers att = map pf_Signer (att_Proofs att)"
    and "distinct (map pf_Signer (att_Proofs att))" "threshold \<noteq> 0"
    and "\<And>p. p \<in> set (att_Proofs att) \<Longrightarrow> (\<exists>key \<in> set keys. SignerAddressFromPrivateKeyHex cr key = Inr (pf_Signer p))
       \<and> pf_Signature p \<noteq> [] \<and> verifyProof cr p (keccak256 cr (signing_payload att)) = Inr (pf_Signer p)"
proof -
  let ?c = "NewCollector cr (Some (file_Votes cr path)) threshold version keys"
  have th: "cc_threshold ?c = threshold" by (simp add: NewCollector_def)
  note keys = NewCollector_keys [of cr keys "Some (file_Votes cr path)" threshold version]
  obtain source votes chosen expiry proofs where src: "cc_source ?c = Some source" "source w m h = (w', Inr votes)"
    and t: "threshold \<noteq> 0" "threshold \<le> word_of_nat (length (unique_votes ?c votes))"
    and choose: "choose_signers ?c (take (unat threshold) (ranked_votes (unique_votes ?c votes))) [] 0 = Some (chosen, expiry)"
    and sign: "sign_all cr ?c (unsigned_attestation ?c m h (sort chosen) chosen expiry) (sort chosen) = Inr proofs"
    and att: "att = (unsigned_attestation ?c m h (sort chosen) chosen expiry)\<lparr>att_Proofs := proofs\<rparr>"
    by (rule Collect_Inr [OF collect, unfolded th])
  let ?ranked = "take (unat threshold) (ranked_votes (unique_votes ?c votes))"
  let ?u = "unsigned_attestation ?c m h (sort chosen) chosen expiry"
  have "source = file_Votes cr path" using src(1) by (simp add: NewCollector_def)
  then have "normal_keys (unique_votes ?c votes)" using unique_votes_normal [OF keys file_Votes_normal] src(2) by simp
  note ranked = ranked_distinct [OF this]
  have ids: "map (NormalizeSignerAddress \<circ> fst) ?ranked = map fst ?ranked"
    using ranked by (intro map_cong refl) (auto dest: in_set_takeD)
  have chosen: "chosen = map fst ?ranked" "\<forall>s \<in> set chosen. map_of (cc_signerKeys ?c) s \<noteq> None"
    using choose_signers_Some [OF choose] ids ranked by (auto dest: in_set_takeD)
  have "unat threshold \<le> length (unique_votes ?c votes)"
    using t(2) mod_less_eq_dividend [of "length (unique_votes ?c votes)" "2 ^ 32"] by (simp add: word_le_nat_alt unat_of_nat)
  then have len: "length chosen = unat threshold" by (simp add: chosen(1) ranked_votes_def)
  have dist: "distinct chosen" using ranked by (simp add: chosen(1) take_map [symmetric])
  from sign_all_Inr [OF sign assms(1) keys] chosen(2)
  have proofs: "map pf_Signer proofs = sort chosen" "sort chosen \<noteq> [] \<longrightarrow> validateEnvelope ?u = None"
    "\<forall>p \<in> set proofs. pf_Signature p \<noteq> [] \<and> verifyProof cr p (keccak256 cr (signing_payload ?u)) = Inr (pf_Signer p)" by simp_all
  have payload: "signing_payload att = signing_payload ?u" "validateEnvelope att = validateEnvelope ?u"
    by (simp_all add: att signing_payload_def signing_fields_def validateEnvelope_def)
  have nonempty: "sort chosen \<noteq> []"
    using len t(1) by (metis length_0_conv sort_key_simps(1) length_sort unat_eq_zero)
  show "att_MessageID att = m" "att_PayloadHash att = h" "att_Threshold att = threshold"
    by (simp_all add: att unsigned_attestation_def th)
  show "validateEnvelope att = None" using proofs(2) nonempty payload by simp
  show "length (att_Proofs att) = unat threshold" using arg_cong [OF proofs(1), of length] len by (simp add: att)
  show "att_Signers att = map pf_Signer (att_Proofs att)" using proofs(1) by (simp add: att unsigned_attestation_def)
  show "distinct (map pf_Signer (att_Proofs att))" using proofs(1) dist by (simp add: att)
  show "threshold \<noteq> 0" by (rule t(1))
  fix p assume p: "p \<in> set (att_Proofs att)"
  then have "pf_Signer p \<in> set chosen" using arg_cong [OF proofs(1), of set] by (auto simp: att)
  then obtain key where "map_of (cc_signerKeys ?c) (pf_Signer p) = Some key" using chosen(2) by fastforce
  then have "SignerAddressFromPrivateKeyHex cr key = Inr (pf_Signer p) \<and> key \<in> set keys"
    using keys gomap_all_get unfolding keys_ok_def by fastforce
  then show "(\<exists>key \<in> set keys. SignerAddressFromPrivateKeyHex cr key = Inr (pf_Signer p))
       \<and> pf_Signature p \<noteq> [] \<and> verifyProof cr p (keccak256 cr (signing_payload att)) = Inr (pf_Signer p)"
    using proofs(3) p payload(1) by (auto simp: att)
qed

lemma check_proofs_ok:
  "distinct (map pf_Signer ps) \<Longrightarrow> set (map pf_Signer ps) \<inter> set seen = {} \<Longrightarrow>
   \<forall>p \<in> set ps. pf_Signature p \<noteq> [] \<and> TrimSpace (pf_Signer p) = pf_Signer p \<and> pf_Signer p \<noteq> [] \<Longrightarrow> check_proofs ps seen = None"
  by (induction ps seen rule: check_proofs.induct) (auto simp: Let_def)

lemma check_signers_ok:
  "distinct ss \<Longrightarrow> set ss \<inter> set seen = {} \<Longrightarrow> \<forall>s \<in> set ss. TrimSpace s = s \<and> s \<noteq> [] \<Longrightarrow> check_signers ss seen = None"
  by (induction ss seen rule: check_signers.induct) (auto simp: Let_def)

text \<open>C19: an attestation that the collector makes of the votes in its file, for the message id and the digest of
  a claim, is accepted by the bridge of the chain as long as neither the claim nor the attestation has expired, provided that the chain's active signer set
  has the collector's version, asks for no more signatures than the collector, and contains the addresses of the collector's keys.\<close>

theorem collected_attestation_verifies:
  fixes cr :: "('pk, 'sk) crypto"
  assumes "crypto_recovers cr" "unat threshold \<le> 128"
    and "collector_Collect cr fw_ctx (Some (NewCollector cr (Some (file_Votes cr path)) threshold version keys)) w
           (ci_MessageID (dc_Identity claim)) (deposit_Digest claim) = (w', Inr att)"
    and "bridge_ActiveSignerSet k = Inr s" "ss_Version s = att_SignerSetVersion att" "ss_Threshold s \<le> threshold"
    and "\<And>key a. key \<in> set keys \<Longrightarrow> SignerAddressFromPrivateKeyHex cr key = Inr a \<Longrightarrow> a \<in> NormalizeSignerAddress ` set (ss_Signers s)"
  shows "verifyDepositClaim cr k claim att =
     (if dc_Deadline claim < bk_currentHeight k then Some ErrFinalityWindowExpired
      else if att_Expiry att < bk_currentHeight k then Some ErrAttestationExpired
      else None)"
proof -
  note att = collected_attestation [OF assms(1,3)]
  let ?ps = "att_Proofs att" and ?digest = "keccak256 cr (signing_payload att)"
  have addr: "TrimSpace (pf_Signer p) = pf_Signer p" "pf_Signer p \<noteq> []" "pf_Signature p \<noteq> []"
    "pf_Signer p \<in> NormalizeSignerAddress ` set (ss_Signers s)" if "p \<in> set ?ps" for p
    using att(9) [OF that] assms(7) address_normal by blast+
  have nonempty: "?ps \<noteq> []" using att(5,8) by (metis length_0_conv unat_eq_zero)
  have basic: "attestation_ValidateBasic att = None"
  proof -
    have "check_proofs ?ps [] = None" using att(7) addr by (intro check_proofs_ok) auto
    moreover have "check_signers (att_Signers att) [] = None" using att(6,7) addr by (intro check_signers_ok) auto
    ultimately show ?thesis
      using att(3-5) nonempty assms(2) by (simp add: attestation_ValidateBasic_def maxProofsPerAttestation_def)
  qed
  have digest: "SigningDigest cr att = Inr ?digest" using att(4) by (simp add: SigningDigest_def)
  have "verified_signers cr ?digest ?ps = set (map pf_Signer ?ps)"
    using att(9) unfolding verified_signers_def by force
  moreover have "set (map pf_Signer ?ps) \<subseteq> NormalizeSignerAddress ` set (ss_Signers s)" using addr(4) by auto
  ultimately have inter: "verified_signers cr ?digest ?ps \<inter> NormalizeSignerAddress ` set (ss_Signers s) = set (map pf_Signer ?ps)" by blast
  have "unat (count_verified cr ?digest (map NormalizeSignerAddress (ss_Signers s)) ?ps [] 0) = card (set (map pf_Signer ?ps))"
    using assms(2) att(5) inter by (subst count_verified_card) simp_all
  also have "\<dots> = unat threshold" using att(5) distinct_card [OF att(7)] by simp
  finally have "\<not> count_verified cr ?digest (map NormalizeSignerAddress (ss_Signers s)) ?ps [] 0 < ss_Threshold s"
    using assms(6) by (simp add: word_less_nat_alt word_le_nat_alt)
  moreover have "\<not> att_Threshold att < ss_Threshold s" using att(3) assms(6) by (simp add: not_less)
  ultimately show ?thesis
    using basic att(1,2) assms(4,5) digest by (simp add: verifyDepositClaim_def Let_def)
qed

definition example_votes :: "persistedVote list" where
  "example_votes =
     [\<lparr>pv_MessageID = ci_MessageID example_identity, pv_PayloadHash = deposit_Digest example_claim, pv_Signer = ''0x61'', pv_Expiry = 50, pv_Signature = ''*a''\<rparr>,
      \<lparr>pv_MessageID = ci_MessageID example_identity, pv_PayloadHash = deposit_Digest example_claim, pv_Signer = ''0x62'', pv_Expiry = 60, pv_Signature = ''*b''\<rparr>]"

definition empty_file :: "'a File" where
  "empty_file = \<lparr>fl_content = None, fl_fault = None, fl_writes = []\<rparr>"

definition example_world :: FileWorld where
  "example_world =
     \<lparr>fw_ctx = None, fw_votes = empty_file\<lparr>fl_content := Some example_votes\<rparr>, fw_evm = empty_file, fw_releases = empty_file,
      fw_cosmos = empty_file, fw_claims = empty_file\<rparr>"

lemma example_collector_keys:
  "cc_signerKeys (NewCollector example_crypto source 2 1 [''0x61'', ''0x62'']) = [(''0x61'', ''0x61''), (''0x62'', ''0x62'')]"
  by (simp add: NewCollector_def) code_simp

lemma example_votes_accepted:
  assumes "fw_ctx w = None" "fw_votes w = empty_file\<lparr>fl_content := Some example_votes\<rparr>" "path \<noteq> ''''"
  shows "file_Votes example_crypto path w (ci_MessageID example_identity) (deposit_Digest example_claim)
     = (w, Inr [\<lparr>vt_Signer = ''0x61'', vt_Expiry = 50\<rparr>, \<lparr>vt_Signer = ''0x62'', vt_Expiry = 60\<rparr>])"
proof -
  have "RecoverSignerFromPayload example_crypto payload ''*a'' = Inr ''0x61''" "RecoverSignerFromPayload example_crypto payload ''*b'' = Inr ''0x62''" for payload
    by (simp_all add: RecoverSignerFromPayload_def example_crypto_def [THEN arg_cong, of cr_RecoverCompact] example_addresses)
  then show ?thesis
    using assms by (simp add: file_Votes_def votes_load_def load_json_def read_file_def empty_file_def example_votes_def
        List.map_filter_def accepted_vote_def go_eval)
qed

definition example_collected :: Attestation where
  "example_collected =
     \<lparr>att_MessageID = ci_MessageID example_identity, att_PayloadHash = deposit_Digest example_claim, att_Signers = [''0x61'', ''0x62''],
      att_Proofs = [\<lparr>pf_Signer = ''0x61'', pf_Signature = ''*a''\<rparr>, \<lparr>pf_Signer = ''0x62'', pf_Signature = ''*b''\<rparr>],
      att_Threshold = 2, att_Expiry = 50, att_SignerSetVersion = 1\<rparr>"

lemma example_collect:
  assumes "fw_ctx w = None" "fw_votes w = empty_file\<lparr>fl_content := Some example_votes\<rparr>" "path \<noteq> ''''"
  shows "collector_Collect example_crypto fw_ctx (Some (NewCollector example_crypto (Some (file_Votes example_crypto path)) 2 1 [''0x61'', ''0x62''])) w
       (ci_MessageID (dc_Identity example_claim)) (deposit_Digest example_claim) = (w, Inr example_collected)"
proof -
  let ?c = "NewCollector example_crypto (Some (file_Votes example_crypto path)) 2 1 [''0x61'', ''0x62'']"
  have unique: "unique_votes ?c [\<lparr>vt_Signer = ''0x61'', vt_Expiry = 50\<rparr>, \<lparr>vt_Signer = ''0x62'', vt_Expiry = 60\<rparr>] = [(''0x61'', 50), (''0x62'', 60)]"
    by (simp add: unique_votes_def add_vote_def go_eval)
  have ranked: "take (unat (2 :: u32)) (ranked_votes [(''0x61'', 50), (''0x62'', 60)]) = [(''0x62'', 60), (''0x61'', 50)]"
    by code_simp
  have choose: "choose_signers ?c [(''0x62'', 60), (''0x61'', 50)] [] 0 = Some ([''0x62'', ''0x61''], 50)"
    by (simp add: example_collector_keys NormalizeSignerAddress_def go_eval)
  have sorted: "sort [''0x62'', ''0x61''] = [''0x61'', ''0x62'']" by code_simp
  let ?u = "unsigned_attestation ?c (ci_MessageID example_identity) (deposit_Digest example_claim) [''0x61'', ''0x62''] [''0x62'', ''0x61''] 50"
  have env: "validateEnvelope ?u = None"
    by (simp add: validateEnvelope_def unsigned_attestation_def NewCollector_def example_identity_def Let_def deposit_Digest_bytes)
  have key: "parsePrivateKeyHex example_crypto ''0x61'' = Inr ''a''" "parsePrivateKeyHex example_crypto ''0x62'' = Inr ''b''" by code_simp+
  have pub: "cr_PubKey example_crypto k = k" "cr_SignCompact example_crypto k d = CHR ''*'' # k" for k d by (simp_all add: example_crypto_def)
  have sign: "sign_all example_crypto ?c ?u [''0x61'', ''0x62'']
      = Inr [\<lparr>pf_Signer = ''0x61'', pf_Signature = ''*a''\<rparr>, \<lparr>pf_Signer = ''0x62'', pf_Signature = ''*b''\<rparr>]"
    by (simp add: example_collector_keys SignAttestationWithPrivateKeyHex_def SigningDigest_def env key pub example_addresses)
  have att: "?u\<lparr>att_Proofs := [\<lparr>pf_Signer = ''0x61'', pf_Signature = ''*a''\<rparr>, \<lparr>pf_Signer = ''0x62'', pf_Signature = ''*b''\<rparr>]\<rparr> = example_collected"
    by (simp add: unsigned_attestation_def NewCollector_def example_collected_def)
  have c: "cc_source ?c = Some (file_Votes example_crypto path)" "cc_threshold ?c = 2" by (simp_all add: NewCollector_def)
  show ?thesis
    using choose sorted sign ranked att
    by (simp add: collector_Collect_def c assms(1) example_votes_accepted [OF assms] unique Let_def example_claim_def [THEN arg_cong, of dc_Identity])
qed

theorem collected_attestation_verifies_witness:
  "verifyDepositClaim example_crypto example_bridge example_claim example_collected = None"
proof (subst collected_attestation_verifies)
  show "crypto_recovers example_crypto" by (simp add: crypto_recovers_def example_crypto_def)
  show "collector_Collect example_crypto fw_ctx (Some (NewCollector example_crypto (Some (file_Votes example_crypto ''votes.json'')) 2 1 [''0x61'', ''0x62''])) example_world
       (ci_MessageID (dc_Identity example_claim)) (deposit_Digest example_claim) = (example_world, Inr example_collected)"
    by (rule example_collect) (simp_all add: example_world_def)
  show "bridge_ActiveSignerSet example_bridge = Inr \<lparr>ss_Version = 1, ss_Signers = [''0x61'', ''0x62''], ss_Threshold = 2, ss_ActivatedAt = 0, ss_ExpiresAt = 0\<rparr>"
    by code_simp
  have key: "parsePrivateKeyHex example_crypto ''0x61'' = Inr ''a''" "parsePrivateKeyHex example_crypto ''0x62'' = Inr ''b''" by code_simp+
  have pub: "cr_PubKey example_crypto k = k" for k by (simp add: example_crypto_def)
  show "a \<in> NormalizeSignerAddress ` set (ss_Signers \<lparr>ss_Version = 1, ss_Signers = [''0x61'', ''0x62''], ss_Threshold = 2, ss_ActivatedAt = 0, ss_ExpiresAt = 0\<rparr>)"
    if "key \<in> set [''0x61'', ''0x62'']" "SignerAddressFromPrivateKeyHex example_crypto key = Inr a" for key a
    using that by (auto simp: SignerAddressFromPrivateKeyHex_def key pub example_addresses NormalizeSignerAddress_def go_eval)
qed (simp_all add: example_collected_def example_claim_def example_bridge_def)

end
