(* ===== verification/RelayConfig.thy ===== *)
theory RelayConfig
  imports AppConfig Pipeline Collector
begin

text \<open>
  The configuration of the bridge relayer (\<^verbatim>\<open>relayer/internal/config/config.go\<close>) and the coordinator that
  \<^verbatim>\<open>relayer/cmd/bridge-relayer/main.go\<close> builds of it in the file mode. The environment variables are a function
  from names to values, empty when unset, and the temporary directory is an argument.
\<close>

section \<open>Reading the environment\<close>

text \<open>\<^verbatim>\<open>strings.Fields\<close>: the parts between runs of white space.\<close>

function Fields_from :: "string \<Rightarrow> string \<Rightarrow> string list" where
  "Fields_from cur s =
     (case find (\<lambda>w. w \<noteq> [] \<and> prefix w s) ws_tokens of
        Some w \<Rightarrow> (if cur = [] then [] else [cur]) @ Fields_from [] (drop (length w) s)
      | None \<Rightarrow> (case s of [] \<Rightarrow> (if cur = [] then [] else [cur]) | c # rest \<Rightarrow> Fields_from (cur @ [c]) rest))"
  by pat_completeness auto
termination
  by (relation "measure (\<lambda>(cur, s). length s)") (auto simp: find_Some_iff prefix_def)

declare Fields_from.simps [simp del]

definition Fields :: "string \<Rightarrow> string list" where
  "Fields s = Fields_from [] s"

text \<open>\<^verbatim>\<open>strconv.Atoi\<close>: an optional sign and decimal digits, within 64 bits.\<close>

definition Atoi :: "string \<Rightarrow> int option" where
  "Atoi s =
     (let digits = (if s \<noteq> [] \<and> (hd s = CHR ''-'' \<or> hd s = CHR ''+'') then tl s else s);
          sign = (if s \<noteq> [] \<and> hd s = CHR ''-'' then - 1 else 1)
      in case read_nat digits of
           None \<Rightarrow> None
         | Some n \<Rightarrow> if - (2 ^ 63) \<le> sign * int n \<and> sign * int n < 2 ^ 63 then Some (sign * int n) else None)"

type_synonym environment = "string \<Rightarrow> string"

definition getString :: "environment \<Rightarrow> string \<Rightarrow> string \<Rightarrow> string" where
  "getString env key fallback = (if env key \<noteq> '''' then env key else fallback)"

fun getStringAny :: "environment \<Rightarrow> string list \<Rightarrow> string \<Rightarrow> string" where
  "getStringAny env [] fallback = fallback"
| "getStringAny env (key # keys) fallback =
     (if env (TrimSpace key) \<noteq> '''' then env (TrimSpace key) else getStringAny env keys fallback)"

definition getInt :: "environment \<Rightarrow> string \<Rightarrow> int \<Rightarrow> int" where
  "getInt env key fallback =
     (let value = env key in
      if value = '''' then fallback
      else case Atoi value of
        None \<Rightarrow> fallback
      | Some parsed \<Rightarrow> if parsed < 0 then fallback else parsed)"

definition getBool :: "environment \<Rightarrow> string \<Rightarrow> bool \<Rightarrow> bool" where
  "getBool env key fallback =
     (let value = TrimSpace (env key) in
      if value = '''' then fallback
      else if ToLower value \<in> {''1'', ''true'', ''yes'', ''on''} then True
      else if ToLower value \<in> {''0'', ''false'', ''no'', ''off''} then False
      else fallback)"

definition defaultRuntimePath :: "string \<Rightarrow> string \<Rightarrow> string" where
  "defaultRuntimePath tmp name = filepath_Join [tmp, ''aegislink-relayer'', name]"

definition getFields :: "environment \<Rightarrow> string \<Rightarrow> string list" where
  "getFields env key = (let value = TrimSpace (env key) in if value = '''' then [] else Fields value)"

definition getFieldsWithFallback :: "environment \<Rightarrow> string \<Rightarrow> string list \<Rightarrow> string list" where
  "getFieldsWithFallback env key fallback = (let fields = getFields env key in if fields = [] then fallback else fields)"

text \<open>\<^verbatim>\<open>time.Duration(ms) * time.Millisecond\<close>, a signed 64-bit product.\<close>

definition milliseconds :: "int \<Rightarrow> int" where
  "milliseconds ms = signed_take_bit 63 (ms * 1000000)"

section \<open>The configuration\<close>

record RelayConfig =
  rc_CosmosChainID :: string
  rc_AttestationThreshold :: u32
  rc_AttestationSignerSetVersion :: u64
  rc_AttestationSignerKeys :: "string list"
  rc_Loop :: bool
  rc_PollInterval :: int
  rc_FailureBackoff :: int
  rc_MaxRuns :: int
  rc_SubmissionRetryLimit :: int
  rc_EVMConfirmations :: u64
  rc_CosmosConfirmations :: u64
  rc_EVMRPCURL :: string
  rc_EVMVerifierAddress :: string
  rc_EVMGatewayAddress :: string
  rc_EVMReleaseSignerPrivateKey :: string
  rc_EVMReleaseSignerAddress :: string
  rc_ReplayStorePath :: string
  rc_EVMStatePath :: string
  rc_AttestationStatePath :: string
  rc_CosmosStatePath :: string
  rc_CosmosOutboxPath :: string
  rc_EVMOutboxPath :: string
  rc_AegisLinkCommand :: string
  rc_AegisLinkCommandArgs :: "string list"
  rc_AegisLinkStatePath :: string

definition LoadFromEnv :: "string \<Rightarrow> environment \<Rightarrow> RelayConfig" where
  "LoadFromEnv tmp env =
     \<lparr>rc_CosmosChainID = getString env ''AEGISLINK_RELAYER_COSMOS_CHAIN_ID'' ''aegislink-1'',
      rc_AttestationThreshold = word_of_int (getInt env ''AEGISLINK_RELAYER_ATTESTATION_THRESHOLD'' 2),
      rc_AttestationSignerSetVersion = word_of_int (getInt env ''AEGISLINK_RELAYER_ATTESTATION_SIGNER_SET_VERSION'' 1),
      rc_AttestationSignerKeys = getFields env ''AEGISLINK_RELAYER_ATTESTATION_SIGNER_KEYS'',
      rc_Loop = getBool env ''AEGISLINK_RELAYER_LOOP'' False,
      rc_PollInterval = milliseconds (getInt env ''AEGISLINK_RELAYER_POLL_INTERVAL_MS'' 1000),
      rc_FailureBackoff = milliseconds (getInt env ''AEGISLINK_RELAYER_FAILURE_BACKOFF_MS'' 5000),
      rc_MaxRuns = getInt env ''AEGISLINK_RELAYER_MAX_RUNS'' 0,
      rc_SubmissionRetryLimit = getInt env ''AEGISLINK_RELAYER_SUBMISSION_RETRY_LIMIT'' 3,
      rc_EVMConfirmations = word_of_int (getInt env ''AEGISLINK_RELAYER_EVM_CONFIRMATIONS'' 2),
      rc_CosmosConfirmations = word_of_int (getInt env ''AEGISLINK_RELAYER_COSMOS_CONFIRMATIONS'' 1),
      rc_EVMRPCURL = getString env ''AEGISLINK_RELAYER_EVM_RPC_URL'' '''',
      rc_EVMVerifierAddress = getString env ''AEGISLINK_RELAYER_EVM_VERIFIER_ADDRESS'' '''',
      rc_EVMGatewayAddress = getString env ''AEGISLINK_RELAYER_EVM_GATEWAY_ADDRESS'' '''',
      rc_EVMReleaseSignerPrivateKey =
        getStringAny env [''AEGISLINK_RELAYER_EVM_RELEASE_SIGNER_PRIVATE_KEY'', ''AEGISLINK_RELAYER_EVM_RELEASE_PRIVATE_KEY''] '''',
      rc_EVMReleaseSignerAddress =
        getStringAny env [''AEGISLINK_RELAYER_EVM_RELEASE_SIGNER_ADDRESS'', ''AEGISLINK_RELAYER_EVM_RELEASE_ADDRESS''] '''',
      rc_ReplayStorePath = getString env ''AEGISLINK_RELAYER_REPLAY_STORE_PATH'' '''',
      rc_EVMStatePath = getString env ''AEGISLINK_RELAYER_EVM_STATE_PATH'' (defaultRuntimePath tmp ''evm-state.json''),
      rc_AttestationStatePath = getString env ''AEGISLINK_RELAYER_ATTESTATION_STATE_PATH'' (defaultRuntimePath tmp ''attestations.json''),
      rc_CosmosStatePath = getString env ''AEGISLINK_RELAYER_COSMOS_STATE_PATH'' (defaultRuntimePath tmp ''cosmos-state.json''),
      rc_CosmosOutboxPath = getString env ''AEGISLINK_RELAYER_COSMOS_OUTBOX_PATH'' (defaultRuntimePath tmp ''cosmos-outbox.json''),
      rc_EVMOutboxPath = getString env ''AEGISLINK_RELAYER_EVM_OUTBOX_PATH'' (defaultRuntimePath tmp ''evm-outbox.json''),
      rc_AegisLinkCommand = getString env ''AEGISLINK_RELAYER_AEGISLINK_CMD'' '''',
      rc_AegisLinkCommandArgs = getFields env ''AEGISLINK_RELAYER_AEGISLINK_CMD_ARGS'',
      rc_AegisLinkStatePath = getString env ''AEGISLINK_RELAYER_AEGISLINK_STATE_PATH'' (defaultRuntimePath tmp ''aegislink-state.json'')\<rparr>"

section \<open>The coordinator of the file mode\<close>

text \<open>The client that a watcher gets as its source.\<close>

definition evm_Client :: "'w LogSource option \<Rightarrow> 'w LogSource" where
  "evm_Client source = \<lparr>ls_LatestBlock = evm_LatestBlock source, ls_DepositEvents = evm_DepositEvents source\<rparr>"

definition cosmos_Client :: "'w WithdrawalSource option \<Rightarrow> 'w WithdrawalSource" where
  "cosmos_Client source = \<lparr>ws_LatestHeight = cosmos_LatestHeight source, ws_Withdrawals = cosmos_Withdrawals source\<rparr>"

text \<open>\<^verbatim>\<open>run\<close> without an RPC endpoint and without a chain command.\<close>

definition file_coordinator :: "('pk, 'sk) crypto \<Rightarrow> RelayConfig \<Rightarrow> FileWorld Coordinator" where
  "file_coordinator cr cfg =
     \<lparr>co_CosmosChainID = rc_CosmosChainID cfg,
      co_SubmissionRetryLimit = rc_SubmissionRetryLimit cfg,
      co_depositWatcher = evm_Observe fw_ctx (Some (evm_Client (Some (FileLogSource (rc_EVMStatePath cfg))))) (rc_EVMConfirmations cfg),
      co_collector = collector_Collect cr fw_ctx (Some (NewCollector cr (Some (file_Votes cr (rc_AttestationStatePath cfg)))
        (rc_AttestationThreshold cfg) (rc_AttestationSignerSetVersion cfg) (rc_AttestationSignerKeys cfg))),
      co_submitter = submitter_SubmitDepositClaim fw_ctx (Some (file_SubmitDepositClaim (rc_CosmosOutboxPath cfg))),
      co_withdrawalWatcher = cosmos_Observe fw_ctx (Some (cosmos_Client (Some (FileWithdrawalSource (rc_CosmosStatePath cfg))))) (rc_CosmosConfirmations cfg),
      co_evmRelease = releaser_ReleaseWithdrawal fw_ctx (Some (file_ReleaseWithdrawal (rc_EVMOutboxPath cfg)))\<rparr>"

text \<open>The start of the relayer: \<^verbatim>\<open>NewStoreAt\<close> panics when no replay store path is configured.\<close>

definition relayer_start :: "RelayConfig \<Rightarrow> FileWorld \<Rightarrow> store_file \<Rightarrow> FileWorld Relay option" where
  "relayer_start cfg w f =
     map_option (\<lambda>s. \<lparr>rl_world = w, rl_store = s, rl_file = f\<rparr>) (store_NewStoreAt (rc_ReplayStorePath cfg) f)"

definition relayer_run ::
    "(FileWorld Relay \<Rightarrow> bool) \<Rightarrow> (FileWorld Relay \<Rightarrow> int \<Rightarrow> FileWorld Relay \<times> bool) \<Rightarrow> ('pk, 'sk) crypto \<Rightarrow> RelayConfig \<Rightarrow> bool \<Rightarrow> FileWorld Relay
     \<Rightarrow> (FileWorld Relay \<times> relay_error option) option" where
  "relayer_run ended wait cr cfg loop r =
     (if loop
      then map_option (\<lambda>(r', events, err). (r', err))
             (daemon_Run ended wait (file_coordinator cr cfg)
               \<lparr>dm_PollInterval = rc_PollInterval cfg, dm_FailureBackoff = rc_FailureBackoff cfg, dm_MaxConsecutiveRuns = rc_MaxRuns cfg\<rparr> r)
      else case pipeline_RunOnceWithSummary (file_coordinator cr cfg) r of (r', summary, err) \<Rightarrow> Some (r', err))"

lemma client_source [simp]: "evm_Client (Some source) = source" "cosmos_Client (Some source') = source'"
  by (simp_all add: evm_Client_def cosmos_Client_def evm_LatestBlock_def evm_DepositEvents_def cosmos_LatestHeight_def
      cosmos_Withdrawals_def fun_eq_iff)

end
