(* ===== verification/PipelineLife.thy ===== *)
theory PipelineLife
  imports RelayConfig
begin

text \<open>
  What the pipeline does over many runs: how retries end, that a run relays everything it observed before it moves its
  cursor, and the invariants of the relayer's life, in which runs alternate with changes of the outside world, failing
  writes and restarts. The endpoints of the coordinator are an interface, stated as the locale \<open>relay_endpoints\<close> and
  interpreted on the file runtime.
\<close>

section \<open>Retries\<close>

text \<open>The world after some calls.\<close>

fun after_calls :: "('w \<Rightarrow> 'w \<times> relay_error option) \<Rightarrow> nat \<Rightarrow> 'w \<Rightarrow> 'w" where
  "after_calls call 0 w = w"
| "after_calls call (Suc n) w = after_calls call n (fst (call w))"

text \<open>The first \<open>n\<close> calls fail with a temporary error.\<close>

fun temporary_failures :: "('w \<Rightarrow> 'w \<times> relay_error option) \<Rightarrow> nat \<Rightarrow> 'w \<Rightarrow> bool" where
  "temporary_failures call 0 w = True"
| "temporary_failures call (Suc n) w =
     ((case snd (call w) of None \<Rightarrow> False | Some e \<Rightarrow> isTemporary e) \<and> temporary_failures call n (fst (call w)))"

lemma retry_loop_succeeds:
  assumes "temporary_failures call n w" "snd (call (after_calls call n w)) = None" "attempt + int n \<le> attempts"
  shows "retry_loop call label attempts attempt lastErr w = (after_calls call (Suc n) w, attempt + int n, None)"
  using assms
proof (induction n arbitrary: w attempt lastErr)
  case 0
  then show ?case by (subst retry_loop.simps) (cases "call w", simp)
next
  case (Suc n)
  obtain w' e where call: "call w = (w', Some e)" "isTemporary e"
    using Suc.prems(1) by (cases "call w") (auto split: option.splits)
  with Suc.prems have "retry_loop call label attempts (attempt + 1) (Some e) w' = (after_calls call (Suc n) w', attempt + 1 + int n, None)"
    by (intro Suc.IH) simp_all
  with call Suc.prems(3) show ?case by (subst retry_loop.simps) simp
qed

text \<open>A success is the first call that did not fail; the number returned is the number of calls made.\<close>

lemma retry_loop_None:
  assumes "retry_loop call label attempts attempt lastErr w = (w', k, None)"
  shows "\<exists>n. k = attempt + int n \<and> k \<le> attempts \<and> temporary_failures call n w \<and> snd (call (after_calls call n w)) = None
     \<and> w' = after_calls call (Suc n) w"
  using assms
proof (induction call label attempts attempt lastErr w rule: retry_loop.induct)
  case (1 call label attempts attempt lastErr w)
  show ?case
  proof (cases "call w")
    case (Pair w1 res)
    show ?thesis
    proof (cases res)
      case None
      with 1 Pair show ?thesis
        by (intro exI [of _ 0]) (auto simp: retry_loop.simps [of call label attempts attempt] split: if_splits)
    next
      case (Some e)
      from 1(2) Pair Some have le: "\<not> attempts < attempt" "isTemporary e" "attempt \<noteq> attempts"
        and rec: "retry_loop call label attempts (attempt + 1) (Some e) w1 = (w', k, None)"
        by (auto simp: retry_loop.simps [of call label attempts attempt] split: if_splits)
      with 1(1) [OF le(1) Pair [symmetric] Some _ rec] obtain n where
        "k = attempt + 1 + int n" "k \<le> attempts" "temporary_failures call n w1" "snd (call (after_calls call n w1)) = None"
        "w' = after_calls call (Suc n) w1" by auto
      with Pair Some le show ?thesis by (intro exI [of _ "Suc n"]) simp
    qed
  qed
qed

text \<open>A call that changes what is counted only when it succeeds: the whole loop does so, too.\<close>

lemma retry_loop_once:
  assumes "I w" "retry_loop call label attempts attempt lastErr w = (w', k, err)"
    and "\<And>w w' res. I w \<Longrightarrow> call w = (w', res) \<Longrightarrow> I w' \<and> f w' = (if res = None then g (f w) else f w)"
  shows "I w' \<and> f w' = (if err = None then g (f w) else f w)"
  using assms(1,2)
proof (induction "nat (attempts + 1 - attempt)" arbitrary: attempt lastErr w)
  case 0
  then show ?case by (auto simp: retry_loop.simps [of call label attempts attempt])
next
  case (Suc n)
  obtain w1 res where call: "call w = (w1, res)" by force
  with assms(3) Suc.prems(1) have step: "I w1" "f w1 = (if res = None then g (f w) else f w)" by blast+
  from Suc.hyps(2) have le: "\<not> attempts < attempt" by simp
  show ?case
  proof (cases "res = None \<or> (\<exists>e. res = Some e \<and> (\<not> isTemporary e \<or> attempt = attempts))")
    case True
    with Suc.prems(2) le call step show ?thesis
      by (auto simp: retry_loop.simps [of call label attempts attempt])
  next
    case False
    then obtain e where e: "res = Some e" "isTemporary e" "attempt \<noteq> attempts" by (cases res) auto
    with Suc.prems(2) le call have rec: "retry_loop call label attempts (attempt + 1) (Some e) w1 = (w', k, err)"
      by (simp add: retry_loop.simps [of call label attempts attempt])
    have "n = nat (attempts + 1 - (attempt + 1))" using Suc.hyps(2) by simp
    from Suc.hyps(1) [OF this step(1) rec] step(2) e(1) show ?thesis by simp
  qed
qed

section \<open>Moving forward\<close>

text \<open>A loop of the pipeline keeps the cursors and only adds keys; the file of the store is left alone or holds the cursors and
  at least the keys from before.\<close>

definition advances :: "'w Relay \<Rightarrow> 'w Relay \<Rightarrow> bool" where
  "advances r r' \<longleftrightarrow>
     st_path (rl_store r') = st_path (rl_store r) \<and> st_loadErr (rl_store r') = st_loadErr (rl_store r)
     \<and> st_checkpoints (rl_store r') = st_checkpoints (rl_store r)
     \<and> (store_wf (rl_store r) \<longrightarrow> store_wf (rl_store r'))
     \<and> set (st_processed (rl_store r)) \<subseteq> set (st_processed (rl_store r'))
     \<and> (fl_content (rl_file r') = fl_content (rl_file r)
        \<or> (\<exists>ps. fl_content (rl_file r') = Some \<lparr>pz_Checkpoints = st_checkpoints (rl_store r), pz_Processed = ps\<rparr>
              \<and> set (st_processed (rl_store r)) \<subseteq> set ps \<and> set ps \<subseteq> set (st_processed (rl_store r')) \<and> (store_wf (rl_store r) \<longrightarrow> distinct ps)))"

lemma advances_world [simp]: "advances r (r\<lparr>rl_world := w\<rparr>)"
  by (simp add: advances_def)

lemma advances_trans: "advances r r' \<Longrightarrow> advances r' r'' \<Longrightarrow> advances r r''"
  unfolding advances_def by (elim conjE disjE exE) (simp_all, blast+)

lemma persist_content:
  assumes "persistLocked s f = (f', err)"
  shows "fl_content f' = fl_content f \<or> fl_content f' = Some \<lparr>pz_Checkpoints = st_checkpoints s, pz_Processed = st_processed s\<rparr>"
  using assms by (auto simp: persistLocked_def write_file_def split: if_splits list.splits option.splits)

lemma advances_mark:
  assumes "store_MarkProcessed (rl_store r) (rl_file r) key = (s, f, err)"
  shows "advances r \<lparr>rl_world = w, rl_store = s, rl_file = f\<rparr>"
    and "st_loadErr (rl_store r) = None \<Longrightarrow> set (st_processed s) = insert key (set (st_processed (rl_store r)))"
proof -
  have s: "s = fst (store_MarkProcessed (rl_store r) (rl_file r) key)" using assms by simp
  show "st_loadErr (rl_store r) = None \<Longrightarrow> set (st_processed s) = insert key (set (st_processed (rl_store r)))"
    by (simp add: s MarkProcessed_processed)
  have "s = rl_store r \<and> f = rl_file r \<or> s = (rl_store r)\<lparr>st_processed := List.insert key (st_processed (rl_store r))\<rparr> \<and> persistLocked s (rl_file r) = (f, err)"
    using assms by (auto simp: store_MarkProcessed_def Let_def split: option.splits prod.splits)
  then show "advances r \<lparr>rl_world = w, rl_store = s, rl_file = f\<rparr>"
  proof
    assume "s = rl_store r \<and> f = rl_file r"
    then show ?thesis by (simp add: advances_def)
  next
    assume *: "s = (rl_store r)\<lparr>st_processed := List.insert key (st_processed (rl_store r))\<rparr> \<and> persistLocked s (rl_file r) = (f, err)"
    then show ?thesis using persist_content [of s "rl_file r" f err] by (auto simp: advances_def store_wf_def)
  qed
qed

section \<open>Where marks come from\<close>

text \<open>Every key that is marked belongs to a release that was made or to a deposit whose claim was submitted.\<close>

definition marks_justified :: "string \<Rightarrow> string list \<Rightarrow> string list \<Rightarrow> string list \<Rightarrow> bool" where
  "marks_justified chain rel sub ps \<longleftrightarrow>
     (\<forall>k \<in> set ps. k \<in> set rel \<or> (\<exists>e. k = event_ReplayKey e \<and> ci_MessageID (dc_Identity (event_Claim e chain)) \<in> set sub))"

lemma marks_justified_mono:
  "marks_justified chain rel sub ps \<Longrightarrow> set rel \<subseteq> set rel' \<Longrightarrow> set sub \<subseteq> set sub' \<Longrightarrow> set qs \<subseteq> set ps \<Longrightarrow> marks_justified chain rel' sub' qs"
  unfolding marks_justified_def by blast

definition relay_justified :: "string \<Rightarrow> ('w \<Rightarrow> string list) \<Rightarrow> ('w \<Rightarrow> string list) \<Rightarrow> 'w Relay \<Rightarrow> bool" where
  "relay_justified chain released submitted r \<longleftrightarrow>
     marks_justified chain (released (rl_world r)) (submitted (rl_world r)) (st_processed (rl_store r))
     \<and> (\<forall>st. fl_content (rl_file r) = Some st \<longrightarrow> marks_justified chain (released (rl_world r)) (submitted (rl_world r)) (pz_Processed st))"

text \<open>The logs only grow, and if the marks were justified, they are.\<close>

definition justifies :: "string \<Rightarrow> ('w \<Rightarrow> string list) \<Rightarrow> ('w \<Rightarrow> string list) \<Rightarrow> 'w Relay \<Rightarrow> 'w Relay \<Rightarrow> bool" where
  "justifies chain released submitted r r' \<longleftrightarrow>
     set (released (rl_world r)) \<subseteq> set (released (rl_world r')) \<and> set (submitted (rl_world r)) \<subseteq> set (submitted (rl_world r'))
     \<and> (marks_justified chain (released (rl_world r)) (submitted (rl_world r)) (st_processed (rl_store r)) \<longrightarrow>
          marks_justified chain (released (rl_world r')) (submitted (rl_world r')) (st_processed (rl_store r')))"

lemma justifies_refl [simp]: "justifies chain released submitted r r"
  by (simp add: justifies_def)

lemma justifies_trans: "justifies chain f g r r' \<Longrightarrow> justifies chain f g r' r'' \<Longrightarrow> justifies chain f g r r''"
  unfolding justifies_def by blast

lemma justifies_relay:
  assumes "advances r r'" "justifies chain released submitted r r'" "relay_justified chain released submitted r"
  shows "relay_justified chain released submitted r'"
proof -
  from assms(2,3) have m: "marks_justified chain (released (rl_world r')) (submitted (rl_world r')) (st_processed (rl_store r'))"
    by (simp add: justifies_def relay_justified_def)
  have "marks_justified chain (released (rl_world r')) (submitted (rl_world r')) (pz_Processed st)" if st: "fl_content (rl_file r') = Some st" for st
  proof (cases "fl_content (rl_file r') = fl_content (rl_file r)")
    case True
    with st assms(3) have "marks_justified chain (released (rl_world r)) (submitted (rl_world r)) (pz_Processed st)"
      by (simp add: relay_justified_def)
    then show ?thesis by (rule marks_justified_mono) (use assms(2) in \<open>simp_all add: justifies_def\<close>)
  next
    case False
    with assms(1) st have "set (pz_Processed st) \<subseteq> set (st_processed (rl_store r'))" unfolding advances_def by auto
    with m show ?thesis by (rule marks_justified_mono [OF _ order.refl order.refl])
  qed
  with m show ?thesis by (simp add: relay_justified_def)
qed

section \<open>The endpoints\<close>

text \<open>The parts of the outside world that matter: \<open>consistent\<close> says that the source of deposits agrees with the final history \<open>H\<close>, and
  \<open>released\<close> and \<open>submitted\<close> list the message ids of the releases made and of the claims submitted so far.\<close>

locale relay_endpoints =
  fixes c :: "'w Coordinator"
    and consistent :: "'w \<Rightarrow> bool"
    and H :: "DepositEvent list"
    and released :: "'w \<Rightarrow> string list"
    and submitted :: "'w \<Rightarrow> string list"
  assumes watch_deposits: "consistent w \<Longrightarrow> co_depositWatcher c w from = (w', es, nxt, err) \<Longrightarrow>
      consistent w' \<and> released w' = released w \<and> submitted w' = submitted w
      \<and> (err = None \<longrightarrow> (\<forall>e \<in> set H. from \<le> de_BlockNumber e \<longrightarrow> de_BlockNumber e < nxt \<longrightarrow> e \<in> set es))"
    and collect: "consistent w \<Longrightarrow> co_collector c w m h = (w', res) \<Longrightarrow> consistent w' \<and> released w' = released w \<and> submitted w' = submitted w"
    and submit: "consistent w \<Longrightarrow> co_submitter c w claim att = (w', err) \<Longrightarrow>
      consistent w' \<and> released w' = released w
      \<and> submitted w' = (if err = None then submitted w @ [ci_MessageID (dc_Identity claim)] else submitted w)"
    and watch_withdrawals: "consistent w \<Longrightarrow> co_withdrawalWatcher c w from = (w', ws, nxt, err) \<Longrightarrow>
      consistent w' \<and> released w' = released w \<and> submitted w' = submitted w"
    and release: "consistent w \<Longrightarrow> co_evmRelease c w request = (w', out) \<Longrightarrow>
      consistent w' \<and> submitted w' = submitted w \<and> released w' = (case out of Inl e \<Rightarrow> released w | Inr hash \<Rightarrow> released w @ [rr_MessageID request])"
begin

lemma submitWithRetry_once:
  assumes "consistent w" "submitWithRetry c claim att w = (w', k, err)"
  shows "consistent w' \<and> released w' = released w
     \<and> submitted w' = (if err = None then submitted w @ [ci_MessageID (dc_Identity claim)] else submitted w)"
proof -
  have "(consistent w' \<and> released w' = released w)
     \<and> submitted w' = (if err = None then submitted w @ [ci_MessageID (dc_Identity claim)] else submitted w)"
    by (rule retry_loop_once [where g = "\<lambda>x. x @ [ci_MessageID (dc_Identity claim)]" and I = "\<lambda>x. consistent x \<and> released x = released w",
          OF _ assms(2) [unfolded submitWithRetry_def Let_def]]) (use assms(1) submit in auto)
  then show ?thesis by simp
qed

lemma releaseWithRetry_once:
  assumes "consistent w" "releaseWithRetry c request w = (w', k, err)"
  shows "consistent w' \<and> submitted w' = submitted w \<and> released w' = (if err = None then released w @ [rr_MessageID request] else released w)"
proof -
  let ?call = "\<lambda>w. case co_evmRelease c w request of (w', Inl e) \<Rightarrow> (w', Some e) | (w', Inr hash) \<Rightarrow> (w', None)"
  have step: "consistent w' \<and> submitted w' = submitted w \<and> released w' = (if res = None then released w @ [rr_MessageID request] else released w)"
    if "consistent w" "?call w = (w', res)" for w w' res
    using that release [of w request] by (cases "co_evmRelease c w request") (auto split: sum.splits)
  have "(consistent w' \<and> submitted w' = submitted w) \<and> released w' = (if err = None then released w @ [rr_MessageID request] else released w)"
    by (rule retry_loop_once [where g = "\<lambda>x. x @ [rr_MessageID request]" and I = "\<lambda>x. consistent x \<and> submitted x = submitted w",
          OF _ assms(2) [unfolded releaseWithRetry_def Let_def]]) (use assms(1) step in auto)
  then show ?thesis by simp
qed

lemma deposit_loop_advances:
  assumes "deposit_loop c es r sm = (r', sm', err)" "consistent (rl_world r)" "st_loadErr (rl_store r) = None"
  shows "advances r r' \<and> consistent (rl_world r') \<and> released (rl_world r') = released (rl_world r)
     \<and> justifies (co_CosmosChainID c) released submitted r r'
     \<and> (err = None \<longrightarrow> event_ReplayKey ` set es \<subseteq> set (st_processed (rl_store r')))"
  using assms
proof (induction es arbitrary: r sm)
  case Nil
  then show ?case by (simp add: advances_def)
next
  case (Cons e es)
  let ?key = "event_ReplayKey e" and ?claim = "event_Claim e (co_CosmosChainID c)"
  show ?case
  proof (cases "store_IsProcessed (rl_store r) ?key")
    case True
    with Cons.prems(1) have rec: "deposit_loop c es r (sm\<lparr>rs_DuplicateDeposits := rs_DuplicateDeposits sm + 1\<rparr>) = (r', sm', err)" by simp
    from Cons.IH [OF this Cons.prems(2,3)] True show ?thesis by (auto simp: advances_def store_IsProcessed_def)
  next
    case False
    show ?thesis
    proof (cases "deposit_ValidateBasic ?claim")
      case (Some x)
      with False Cons.prems show ?thesis by (auto simp: Let_def advances_def)
    next
      case valid: None
      obtain w1 res where col: "co_collector c (rl_world r) (ci_MessageID (dc_Identity ?claim)) (deposit_Digest ?claim) = (w1, res)" by force
      note c1 = collect [OF Cons.prems(2) col]
      show ?thesis
      proof (cases res)
        case (Inl x)
        with False valid col c1 Cons.prems show ?thesis by (auto simp: Let_def justifies_def)
      next
        case (Inr att)
        obtain w2 k serr where sub: "submitWithRetry c ?claim att w1 = (w2, k, serr)" by (metis prod_cases3)
        from submitWithRetry_once [OF _ sub] c1 have c2: "consistent w2" "released w2 = released (rl_world r)"
          "submitted w2 = submitted (rl_world r) @ (if serr = None then [ci_MessageID (dc_Identity ?claim)] else [])" by simp_all
        show ?thesis
        proof (cases serr)
          case (Some x)
          with False valid col Inr sub c2 Cons.prems show ?thesis by (auto simp: Let_def justifies_def)
        next
          case None
          obtain s f merr where mark: "store_MarkProcessed (rl_store r) (rl_file r) ?key = (s, f, merr)" by (metis prod_cases3)
          let ?r = "\<lparr>rl_world = w2, rl_store = s, rl_file = f\<rparr>"
          note adv = advances_mark [OF mark]
          have just: "justifies (co_CosmosChainID c) released submitted r ?r"
            using c2(2,3) None adv(2) [OF Cons.prems(3)] by (auto simp: justifies_def marks_justified_def)
          show ?thesis
          proof (cases merr)
            case (Some x)
            with False valid col Inr sub None mark c2(1,2) adv(1) just Cons.prems show ?thesis by (auto simp: Let_def)
          next
            case ok: None
            from False valid col Inr sub None mark ok Cons.prems(1)
            obtain sm1 where rec: "deposit_loop c es ?r sm1 = (r', sm', err)" by (auto simp: Let_def)
            have "st_loadErr (rl_store ?r) = None" using adv(1) [of w2] Cons.prems(3) by (simp add: advances_def)
            with Cons.IH [OF rec] c2 have ih: "advances ?r r' \<and> consistent (rl_world r') \<and> released (rl_world r') = released (rl_world r)
                \<and> justifies (co_CosmosChainID c) released submitted ?r r' \<and> (err = None \<longrightarrow> event_ReplayKey ` set es \<subseteq> set (st_processed (rl_store r')))" by simp
            then have "?key \<in> set (st_processed (rl_store r'))" using adv(2) [OF Cons.prems(3)] by (auto simp: advances_def)
            with ih advances_trans [OF adv(1)] justifies_trans [OF just] show ?thesis by auto
          qed
        qed
      qed
    qed
  qed
qed

end

lemma validated_withdrawal_id:
  "withdrawal_Validate w = None \<Longrightarrow> rr_MessageID (withdrawal_ReleaseRequest w) = withdrawal_ReplayKey w"
  by (auto simp: withdrawal_Validate_def identity_ValidateBasic_def withdrawal_ReleaseRequest_def withdrawal_ReplayKey_def
      identity_ReplayKey_def Let_def split: option.splits if_splits)

text \<open>No message id is released twice, and what was released is marked.\<close>

definition releases_marked :: "string list \<Rightarrow> string list \<Rightarrow> bool" where
  "releases_marked ids marked \<longleftrightarrow> distinct ids \<and> set ids \<subseteq> set marked"

lemma releases_marked_mono: "releases_marked ids ps \<Longrightarrow> set ps \<subseteq> set qs \<Longrightarrow> releases_marked ids qs"
  by (auto simp: releases_marked_def)

context relay_endpoints
begin

lemma withdrawal_loop_advances:
  assumes "withdrawal_loop c ws r sm = (r', sm', err)" "consistent (rl_world r)" "st_loadErr (rl_store r) = None"
  shows "advances r r' \<and> consistent (rl_world r') \<and> justifies (co_CosmosChainID c) released submitted r r'
     \<and> (releases_marked (released (rl_world r)) (st_processed (rl_store r)) \<longrightarrow>
          releases_marked (released (rl_world r')) (st_processed (rl_store r')))
     \<and> (err = None \<longrightarrow> withdrawal_ReplayKey ` set ws \<subseteq> set (st_processed (rl_store r')))"
  using assms
proof (induction ws arbitrary: r sm)
  case Nil
  then show ?case by (simp add: advances_def)
next
  case (Cons x ws)
  let ?key = "withdrawal_ReplayKey x"
  show ?case
  proof (cases "store_IsProcessed (rl_store r) ?key")
    case True
    with Cons.prems(1) have rec: "withdrawal_loop c ws r (sm\<lparr>rs_DuplicateWithdrawals := rs_DuplicateWithdrawals sm + 1\<rparr>) = (r', sm', err)" by simp
    from Cons.IH [OF this Cons.prems(2,3)] True show ?thesis by (auto simp: advances_def store_IsProcessed_def)
  next
    case False
    show ?thesis
    proof (cases "withdrawal_Validate x")
      case (Some e)
      with False Cons.prems show ?thesis by (auto simp: Let_def advances_def)
    next
      case valid: None
      obtain w1 k rerr where rel: "releaseWithRetry c (withdrawal_ReleaseRequest x) (rl_world r) = (w1, k, rerr)" by (metis prod_cases3)
      note once = releaseWithRetry_once [OF Cons.prems(2) rel, unfolded validated_withdrawal_id [OF valid]]
      show ?thesis
      proof (cases rerr)
        case (Some e)
        with False valid rel once Cons.prems show ?thesis by (auto simp: Let_def justifies_def)
      next
        case None
        obtain s f merr where mark: "store_MarkProcessed (rl_store r) (rl_file r) ?key = (s, f, merr)" by (metis prod_cases3)
        let ?r = "\<lparr>rl_world = w1, rl_store = s, rl_file = f\<rparr>"
        note adv = advances_mark [OF mark]
        note marked = adv(2) [OF Cons.prems(3)]
        have ids: "releases_marked (released w1) (st_processed s)" if "releases_marked (released (rl_world r)) (st_processed (rl_store r))"
          using that once None marked False by (auto simp: releases_marked_def store_IsProcessed_def)
        have just: "justifies (co_CosmosChainID c) released submitted r ?r"
          using once None marked by (auto simp: justifies_def marks_justified_def)
        show ?thesis
        proof (cases merr)
          case (Some e)
          with False valid rel once None mark adv(1) ids just Cons.prems show ?thesis by (auto simp: Let_def)
        next
          case ok: None
          from False valid rel None mark ok Cons.prems(1)
          obtain sm1 where rec: "withdrawal_loop c ws ?r sm1 = (r', sm', err)" by (auto simp: Let_def)
          have "st_loadErr (rl_store ?r) = None" using adv(1) [of w1] Cons.prems(3) by (simp add: advances_def)
          with Cons.IH [OF rec] once have ih: "advances ?r r' \<and> consistent (rl_world r') \<and> justifies (co_CosmosChainID c) released submitted ?r r'
              \<and> (releases_marked (released w1) (st_processed s) \<longrightarrow> releases_marked (released (rl_world r')) (st_processed (rl_store r')))
              \<and> (err = None \<longrightarrow> withdrawal_ReplayKey ` set ws \<subseteq> set (st_processed (rl_store r')))" by simp
          then have "?key \<in> set (st_processed (rl_store r'))" using marked by (auto simp: advances_def)
          with ih ids advances_trans [OF adv(1)] justifies_trans [OF just] show ?thesis by auto
        qed
      qed
    qed
  qed
qed

end

section \<open>Cursors\<close>

text \<open>Every event of the final history that lies before the deposit cursor has been relayed.\<close>

definition covered :: "DepositEvent list \<Rightarrow> (string, u64) gomap \<Rightarrow> string list \<Rightarrow> bool" where
  "covered H cps ps \<longleftrightarrow>
     (\<forall>e \<in> set H. de_BlockNumber e < (case map_of cps depositCheckpointKey of None \<Rightarrow> 0 | Some v \<Rightarrow> v) \<longrightarrow> event_ReplayKey e \<in> set ps)"

lemma covered_mono: "covered H cps ps \<Longrightarrow> set ps \<subseteq> set qs \<Longrightarrow> covered H cps qs"
  by (auto simp: covered_def)

definition file_covered :: "DepositEvent list \<Rightarrow> store_file \<Rightarrow> bool" where
  "file_covered H f \<longleftrightarrow>
     (case fl_content f of None \<Rightarrow> True | Some st \<Rightarrow> covered H (pz_Checkpoints st) (pz_Processed st) \<and> gomap_wf (pz_Checkpoints st) \<and> distinct (pz_Processed st))"

definition relay_covered :: "DepositEvent list \<Rightarrow> 'w Relay \<Rightarrow> bool" where
  "relay_covered H r \<longleftrightarrow> covered H (st_checkpoints (rl_store r)) (st_processed (rl_store r)) \<and> store_wf (rl_store r) \<and> file_covered H (rl_file r)"

lemma advances_covered:
  assumes "advances r r'" "relay_covered H r"
  shows "relay_covered H r'"
proof -
  from assms have s: "covered H (st_checkpoints (rl_store r')) (st_processed (rl_store r'))" "store_wf (rl_store r')"
    using covered_mono unfolding advances_def relay_covered_def by metis+
  have "file_covered H (rl_file r')"
  proof (cases "fl_content (rl_file r') = fl_content (rl_file r)")
    case True
    with assms(2) show ?thesis by (simp add: relay_covered_def file_covered_def)
  next
    case False
    with assms(1) obtain ps where "fl_content (rl_file r') = Some \<lparr>pz_Checkpoints = st_checkpoints (rl_store r), pz_Processed = ps\<rparr>"
      "set (st_processed (rl_store r)) \<subseteq> set ps" "store_wf (rl_store r) \<longrightarrow> distinct ps" unfolding advances_def by blast
    with assms(2) show ?thesis by (auto simp: relay_covered_def file_covered_def store_wf_def intro: covered_mono)
  qed
  with s show ?thesis by (simp add: relay_covered_def)
qed

lemma save_covered:
  assumes "store_SaveCheckpoint s f key v = (s', f', err)" "store_wf s" "file_covered H f" "covered H (gomap_set key v (st_checkpoints s)) (st_processed s)"
    and "st_loadErr s = None"
  shows "store_wf s' \<and> file_covered H f' \<and> covered H (st_checkpoints s') (st_processed s') \<and> st_processed s' = st_processed s
     \<and> st_loadErr s' = None \<and> st_path s' = st_path s"
proof -
  have s': "s' = s\<lparr>st_checkpoints := gomap_set key v (st_checkpoints s)\<rparr>" and f': "persistLocked s' f = (f', err)"
    using assms(1,5) by (auto simp: store_SaveCheckpoint_def Let_def split: prod.splits)
  moreover have "store_wf s'" using assms(2) by (auto simp: s' store_wf_def)
  ultimately show ?thesis
    using persist_content [OF f'] assms(3-5) by (auto simp: file_covered_def store_wf_def)
qed

text \<open>What a part of a run keeps.\<close>

definition run_keeps ::
    "string \<Rightarrow> ('w \<Rightarrow> bool) \<Rightarrow> ('w \<Rightarrow> string list) \<Rightarrow> ('w \<Rightarrow> string list) \<Rightarrow> DepositEvent list \<Rightarrow> 'w Relay \<Rightarrow> 'w Relay \<Rightarrow> bool" where
  "run_keeps chain consistent released submitted H r r' \<longleftrightarrow>
     consistent (rl_world r') \<and> st_loadErr (rl_store r') = st_loadErr (rl_store r)
     \<and> (relay_covered H r \<longrightarrow> relay_covered H r')
     \<and> (relay_justified chain released submitted r \<longrightarrow> relay_justified chain released submitted r')
     \<and> (releases_marked (released (rl_world r)) (st_processed (rl_store r)) \<longrightarrow>
          releases_marked (released (rl_world r')) (st_processed (rl_store r')))"

lemma run_keeps_trans: "run_keeps n P f g H r r' \<Longrightarrow> run_keeps n P f g H r' r'' \<Longrightarrow> run_keeps n P f g H r r''"
  unfolding run_keeps_def by simp

lemma run_keeps_advances:
  assumes "advances r r'" "P (rl_world r')" "justifies n f g r r'"
    and "releases_marked (f (rl_world r)) (st_processed (rl_store r)) \<longrightarrow> releases_marked (f (rl_world r')) (st_processed (rl_store r'))"
  shows "run_keeps n P f g H r r'"
  using assms advances_covered [OF assms(1)] justifies_relay [OF assms(1,3)] unfolding run_keeps_def advances_def by blast

lemma run_keeps_world: "P w \<Longrightarrow> f w = f (rl_world r) \<Longrightarrow> g w = g (rl_world r) \<Longrightarrow> run_keeps n P f g H r (r\<lparr>rl_world := w\<rparr>)"
  by (simp add: run_keeps_def relay_covered_def relay_justified_def)

lemma run_keeps_save:
  assumes "store_SaveCheckpoint (rl_store r) (rl_file r) key v = (s, f, err)" "st_loadErr (rl_store r) = None" "P (rl_world r)"
    and "relay_covered H r \<Longrightarrow> covered H (gomap_set key v (st_checkpoints (rl_store r))) (st_processed (rl_store r))"
  shows "run_keeps n P ids subs H r (r\<lparr>rl_store := s, rl_file := f\<rparr>)"
proof -
  have s: "st_processed s = st_processed (rl_store r)" "st_loadErr s = st_loadErr (rl_store r)"
    using SaveCheckpoint_keeps [of "rl_store r" "rl_file r" key v] assms(1) by simp_all
  moreover have "relay_covered H (r\<lparr>rl_store := s, rl_file := f\<rparr>)" if "relay_covered H r"
    using save_covered [OF assms(1) _ _ assms(4) [OF that] assms(2)] that unfolding relay_covered_def by auto
  moreover have "persistLocked s (rl_file r) = (f, err)"
    using assms(1,2) by (auto simp: store_SaveCheckpoint_def Let_def split: prod.splits)
  from persist_content [OF this] have "relay_justified n ids subs (r\<lparr>rl_store := s, rl_file := f\<rparr>)" if "relay_justified n ids subs r"
    using that s(1) by (auto simp: relay_justified_def)
  ultimately show ?thesis using assms(3) by (simp add: run_keeps_def)
qed

context relay_endpoints
begin

lemma runDeposits_keeps:
  assumes "consistent (rl_world r)" "st_loadErr (rl_store r) = None" "runDeposits c r sm = (r', sm', err)"
  shows "run_keeps (co_CosmosChainID c) consistent released submitted H r r'"
proof -
  let ?from = "store_Checkpoint (rl_store r) depositCheckpointKey"
  obtain w es nxt werr where watch: "co_depositWatcher c (rl_world r) ?from = (w, es, nxt, werr)" by (metis prod_cases4)
  note w = watch_deposits [OF assms(1) watch]
  have k0: "run_keeps (co_CosmosChainID c) consistent released submitted H r (r\<lparr>rl_world := w\<rparr>)" using w by (intro run_keeps_world) simp_all
  show ?thesis
  proof (cases werr)
    case (Some e)
    with watch assms(3) k0 show ?thesis by (auto simp: runDeposits_def Let_def)
  next
    case None
    let ?sm = "sm\<lparr>rs_DepositFromBlock := ?from, rs_DepositsObserved := length es\<rparr>"
    obtain r1 sm1 lerr where loop: "deposit_loop c es (r\<lparr>rl_world := w\<rparr>) ?sm = (r1, sm1, lerr)" by (metis prod_cases3)
    have adv: "advances (r\<lparr>rl_world := w\<rparr>) r1" "consistent (rl_world r1)" "released (rl_world r1) = released w"
      "justifies (co_CosmosChainID c) released submitted (r\<lparr>rl_world := w\<rparr>) r1"
      "lerr = None \<longrightarrow> event_ReplayKey ` set es \<subseteq> set (st_processed (rl_store r1))"
      using deposit_loop_advances [OF loop] w assms(2) by simp_all
    have k1: "run_keeps (co_CosmosChainID c) consistent released submitted H r r1"
      using adv by (intro run_keeps_trans [OF k0] run_keeps_advances) (auto simp: advances_def intro: releases_marked_mono)
    show ?thesis
    proof (cases lerr)
      case (Some e)
      with watch None loop assms(3) k1 show ?thesis by (auto simp: runDeposits_def Let_def)
    next
      case lok: None
      obtain s f serr where save: "store_SaveCheckpoint (rl_store r1) (rl_file r1) depositCheckpointKey nxt = (s, f, serr)" by (metis prod_cases3)
      from watch None loop lok save assms(3) have r': "r' = r1\<lparr>rl_store := s, rl_file := f\<rparr>"
        by (auto simp: runDeposits_def Let_def split: option.splits)
      have cps: "st_checkpoints (rl_store r1) = st_checkpoints (rl_store r)" using adv(1) by (simp add: advances_def)
      have "event_ReplayKey e \<in> set (st_processed (rl_store r1))" if "relay_covered H r1" "e \<in> set H" "de_BlockNumber e < nxt" for e
      proof (cases "de_BlockNumber e < ?from")
        case True
        with that(1,2) cps show ?thesis by (simp add: relay_covered_def covered_def store_Checkpoint_def)
      next
        case False
        with w None that(2,3) have "e \<in> set es" by (simp add: not_less)
        with adv(5) lok show ?thesis by auto
      qed
      then have "run_keeps (co_CosmosChainID c) consistent released submitted H r1 r'"
        unfolding r' using save adv(1,2) assms(2)
        by (intro run_keeps_save) (auto simp: advances_def covered_def gomap_simps)
      with k1 show ?thesis by (rule run_keeps_trans)
    qed
  qed
qed

lemma runWithdrawals_keeps:
  assumes "consistent (rl_world r)" "st_loadErr (rl_store r) = None" "runWithdrawals c r sm = (r', sm', err)"
  shows "run_keeps (co_CosmosChainID c) consistent released submitted H r r'"
proof -
  let ?from = "store_Checkpoint (rl_store r) withdrawalCheckpointKey"
  obtain w ws nxt werr where watch: "co_withdrawalWatcher c (rl_world r) ?from = (w, ws, nxt, werr)" by (metis prod_cases4)
  note w = watch_withdrawals [OF assms(1) watch]
  have k0: "run_keeps (co_CosmosChainID c) consistent released submitted H r (r\<lparr>rl_world := w\<rparr>)" using w by (intro run_keeps_world) simp_all
  show ?thesis
  proof (cases werr)
    case (Some e)
    with watch assms(3) k0 show ?thesis by (auto simp: runWithdrawals_def Let_def)
  next
    case None
    let ?sm = "sm\<lparr>rs_WithdrawalFromHeight := ?from, rs_WithdrawalsObserved := length ws\<rparr>"
    obtain r1 sm1 lerr where loop: "withdrawal_loop c ws (r\<lparr>rl_world := w\<rparr>) ?sm = (r1, sm1, lerr)" by (metis prod_cases3)
    have adv: "advances (r\<lparr>rl_world := w\<rparr>) r1" "consistent (rl_world r1)" "justifies (co_CosmosChainID c) released submitted (r\<lparr>rl_world := w\<rparr>) r1"
      "releases_marked (released w) (st_processed (rl_store r)) \<longrightarrow> releases_marked (released (rl_world r1)) (st_processed (rl_store r1))"
      using withdrawal_loop_advances [OF loop] w assms(2) by simp_all
    have k1: "run_keeps (co_CosmosChainID c) consistent released submitted H r r1"
      using adv by (intro run_keeps_trans [OF k0] run_keeps_advances) auto
    show ?thesis
    proof (cases lerr)
      case (Some e)
      with watch None loop assms(3) k1 show ?thesis by (auto simp: runWithdrawals_def Let_def)
    next
      case lok: None
      obtain s f serr where save: "store_SaveCheckpoint (rl_store r1) (rl_file r1) withdrawalCheckpointKey nxt = (s, f, serr)" by (metis prod_cases3)
      from watch None loop lok save assms(3) have r': "r' = r1\<lparr>rl_store := s, rl_file := f\<rparr>"
        by (auto simp: runWithdrawals_def Let_def split: option.splits)
      have "run_keeps (co_CosmosChainID c) consistent released submitted H r1 r'"
        unfolding r' using save adv(1,2) assms(2)
        by (intro run_keeps_save) (auto simp: advances_def relay_covered_def covered_def gomap_simps)
      with k1 show ?thesis by (rule run_keeps_trans)
    qed
  qed
qed

lemma RunOnce_keeps:
  assumes "consistent (rl_world r)"
  shows "run_keeps (co_CosmosChainID c) consistent released submitted H r (fst (pipeline_RunOnceWithSummary c r))"
proof (cases "store_Err (rl_store r)")
  case (Some e)
  with assms show ?thesis by (simp add: pipeline_RunOnceWithSummary_def run_keeps_def)
next
  case None
  then have ok: "st_loadErr (rl_store r) = None" by (simp add: store_Err_def)
  obtain r1 sm1 err1 where dep: "runDeposits c r zeroRunSummary = (r1, sm1, err1)" by (metis prod_cases3)
  note k1 = runDeposits_keeps [OF assms ok dep]
  show ?thesis
  proof (cases err1)
    case (Some e)
    with None dep k1 show ?thesis by (simp add: pipeline_RunOnceWithSummary_def)
  next
    case dok: None
    obtain r2 sm2 err2 where wd: "runWithdrawals c r1 sm1 = (r2, sm2, err2)" by (metis prod_cases3)
    have "run_keeps (co_CosmosChainID c) consistent released submitted H r1 r2" using k1 ok by (intro runWithdrawals_keeps [OF _ _ wd]) (simp_all add: run_keeps_def)
    with k1 None dep dok wd show ?thesis by (auto simp: pipeline_RunOnceWithSummary_def intro: run_keeps_trans)
  qed
qed

end

section \<open>The life of a relayer\<close>

text \<open>Runs, changes of the outside world by others, changes of the disk that leave the content of the store's file, and restarts. A restart is
  possible where \<open>restartable\<close> says so.\<close>

inductive relay_step :: "'w Coordinator \<Rightarrow> ('w \<Rightarrow> 'w \<Rightarrow> bool) \<Rightarrow> ('w Relay \<Rightarrow> bool) \<Rightarrow> 'w Relay \<Rightarrow> 'w Relay \<Rightarrow> bool"
  for c outside restartable where
  run: "relay_step c outside restartable r (fst (pipeline_RunOnceWithSummary c r))"
| world: "outside (rl_world r) w \<Longrightarrow> relay_step c outside restartable r (r\<lparr>rl_world := w\<rparr>)"
| disk: "fl_content f = fl_content (rl_file r) \<Longrightarrow> relay_step c outside restartable r (r\<lparr>rl_file := f\<rparr>)"
| restart: "restartable r \<Longrightarrow> store_NewStoreAt (st_path (rl_store r)) (rl_file r) = Some s
    \<Longrightarrow> relay_step c outside restartable r (r\<lparr>rl_store := s\<rparr>)"

text \<open>Others may not release withdrawals, may not contradict the history and may not take back claims.\<close>

definition outside_step :: "('w \<Rightarrow> bool) \<Rightarrow> ('w \<Rightarrow> string list) \<Rightarrow> ('w \<Rightarrow> string list) \<Rightarrow> 'w \<Rightarrow> 'w \<Rightarrow> bool" where
  "outside_step consistent released submitted w w' \<longleftrightarrow> consistent w' \<and> released w' = released w \<and> set (submitted w) \<subseteq> set (submitted w')"

definition relay_init :: "('w \<Rightarrow> bool) \<Rightarrow> ('w \<Rightarrow> string list) \<Rightarrow> 'w Relay \<Rightarrow> bool" where
  "relay_init consistent released r \<longleftrightarrow>
     consistent (rl_world r) \<and> released (rl_world r) = [] \<and> fl_content (rl_file r) = None
     \<and> (\<exists>path. store_NewStoreAt path (rl_file r) = Some (rl_store r))"

definition relay_inv :: "string \<Rightarrow> ('w \<Rightarrow> bool) \<Rightarrow> ('w \<Rightarrow> string list) \<Rightarrow> ('w \<Rightarrow> string list) \<Rightarrow> DepositEvent list \<Rightarrow> 'w Relay \<Rightarrow> bool" where
  "relay_inv chain consistent released submitted H r \<longleftrightarrow>
     consistent (rl_world r) \<and> relay_covered H r \<and> relay_justified chain released submitted r"

definition release_inv :: "string \<Rightarrow> ('w \<Rightarrow> bool) \<Rightarrow> ('w \<Rightarrow> string list) \<Rightarrow> ('w \<Rightarrow> string list) \<Rightarrow> DepositEvent list \<Rightarrow> 'w Relay \<Rightarrow> bool" where
  "release_inv chain consistent released submitted H r \<longleftrightarrow>
     relay_inv chain consistent released submitted H r \<and> releases_marked (released (rl_world r)) (st_processed (rl_store r))"

text \<open>The content of the file at a restart becomes the store.\<close>

lemma reopen_content:
  assumes "store_NewStoreAt path f = Some s"
  shows "path \<noteq> ''''" "st_path s = path"
    "st_checkpoints s = [] \<and> st_processed s = [] \<or>
     (\<exists>st. fl_content f = Some st \<and> st_checkpoints s = fold (\<lambda>(key, value). gomap_set key value) (pz_Checkpoints st) []
        \<and> st_processed s = fold List.insert (pz_Processed st) [])"
  using assms
  by (auto simp: store_NewStoreAt_def store_load_def read_file_def split: if_splits sum.splits read_fault.splits option.splits)

lemma reopen_covered:
  assumes "store_NewStoreAt path f = Some s" "file_covered H f"
  shows "covered H (st_checkpoints s) (st_processed s) \<and> store_wf s"
proof -
  consider "st_checkpoints s = []" "st_processed s = []"
    | st where "fl_content f = Some st" "st_checkpoints s = fold (\<lambda>(key, value). gomap_set key value) (pz_Checkpoints st) []"
        "st_processed s = fold List.insert (pz_Processed st) []"
    using reopen_content(3) [OF assms(1)] by blast
  then show ?thesis
  proof cases
    case 1
    then show ?thesis by (simp add: covered_def store_wf_def)
  next
    case (2 st)
    with assms(2) show ?thesis
      by (auto simp: file_covered_def fold_gomap_set fold_insert_distinct store_wf_def intro: covered_mono)
  qed
qed

lemma reopen_justified:
  assumes "store_NewStoreAt path (rl_file r) = Some s" "relay_justified chain released submitted r"
  shows "relay_justified chain released submitted (r\<lparr>rl_store := s\<rparr>)"
proof -
  have union: "set (fold List.insert xs ys) = set xs \<union> set ys" for xs ys :: "string list"
    by (induction xs arbitrary: ys) auto
  from reopen_content(3) [OF assms(1)] consider "st_processed s = []"
    | st where "fl_content (rl_file r) = Some st" "set (st_processed s) = set (pz_Processed st)" by (auto simp: union)
  then have "marks_justified chain (released (rl_world r)) (submitted (rl_world r)) (st_processed s)"
  proof cases
    case 1
    then show ?thesis by (simp add: marks_justified_def)
  next
    case (2 st)
    with assms(2) show ?thesis by (simp add: relay_justified_def marks_justified_def)
  qed
  with assms(2) show ?thesis by (simp add: relay_justified_def)
qed

context relay_endpoints
begin

text \<open>No deposit is skipped, whatever fails and whenever the relayer is restarted.\<close>

lemma relay_inv_step:
  assumes "relay_inv (co_CosmosChainID c) consistent released submitted H r"
    and "relay_step c (outside_step consistent released submitted) restartable r r'"
  shows "relay_inv (co_CosmosChainID c) consistent released submitted H r'"
  using assms(2)
proof cases
  case run
  with RunOnce_keeps [of r] assms(1) show ?thesis by (simp add: run_keeps_def relay_inv_def)
next
  case (world w)
  with assms(1) show ?thesis
    by (auto simp: outside_step_def relay_inv_def relay_covered_def relay_justified_def intro: marks_justified_mono)
next
  case (disk f)
  with assms(1) show ?thesis by (simp add: relay_inv_def relay_covered_def file_covered_def relay_justified_def)
next
  case (restart s)
  from assms(1) have "relay_covered H r" "relay_justified (co_CosmosChainID c) released submitted r" "consistent (rl_world r)"
    by (simp_all add: relay_inv_def)
  with restart reopen_covered [OF restart(3), of H] reopen_justified [OF restart(3)] show ?thesis
    by (simp add: relay_inv_def relay_covered_def)
qed

lemma relay_inv_init:
  assumes "relay_init consistent released r"
  shows "relay_inv (co_CosmosChainID c) consistent released submitted H r"
proof -
  from assms obtain path where open_store: "store_NewStoreAt path (rl_file r) = Some (rl_store r)" and empty: "fl_content (rl_file r) = None"
    and cons: "consistent (rl_world r)" by (auto simp: relay_init_def)
  have "file_covered H (rl_file r)" by (simp add: file_covered_def empty)
  with reopen_covered [OF open_store this] reopen_content(3) [OF open_store] cons empty show ?thesis
    by (simp add: relay_inv_def relay_covered_def relay_justified_def marks_justified_def)
qed

text \<open>No withdrawal is released twice, if restarts find a file that is up to date.\<close>

lemma release_step:
  assumes "release_inv (co_CosmosChainID c) consistent released submitted H r"
    and "relay_step c (outside_step consistent released submitted) (\<lambda>r. store_synced (rl_store r) (rl_file r)) r r'"
  shows "release_inv (co_CosmosChainID c) consistent released submitted H r'"
proof -
  from assms(1) have base: "relay_inv (co_CosmosChainID c) consistent released submitted H r" "store_wf (rl_store r)" "consistent (rl_world r)"
    and marked: "releases_marked (released (rl_world r)) (st_processed (rl_store r))"
    by (simp_all add: release_inv_def relay_inv_def relay_covered_def)
  from assms(2) have "releases_marked (released (rl_world r')) (st_processed (rl_store r'))"
  proof cases
    case run
    with RunOnce_keeps [OF base(3)] marked show ?thesis by (simp add: run_keeps_def)
  next
    case (restart s)
    note path = reopen_content(1) [OF restart(3)]
    obtain s' where "store_NewStoreAt (st_path (rl_store r)) (rl_file r) = Some s'" "set (st_processed s') = set (st_processed (rl_store r))"
      by (rule reopen_synced [OF restart(2) base(2) path])
    with restart marked show ?thesis by (simp add: releases_marked_def)
  qed (use marked in \<open>simp_all add: outside_step_def\<close>)
  with relay_inv_step [OF base(1) assms(2)] show ?thesis by (simp add: release_inv_def)
qed

lemma release_init: "relay_init consistent released r \<Longrightarrow> release_inv (co_CosmosChainID c) consistent released submitted H r"
  using relay_inv_init by (simp add: release_inv_def releases_marked_def relay_init_def)

end

sublocale relay_endpoints \<subseteq> coverage: transition_system "relay_init consistent released"
    "relay_step c (outside_step consistent released submitted) (\<lambda>r. True)" "relay_inv (co_CosmosChainID c) consistent released submitted H"
  using relay_inv_step relay_inv_init by unfold_locales blast+

sublocale relay_endpoints \<subseteq> releases: transition_system "relay_init consistent released"
    "relay_step c (outside_step consistent released submitted) (\<lambda>r. store_synced (rl_store r) (rl_file r))"
    "release_inv (co_CosmosChainID c) consistent released submitted H"
  using release_step release_init by unfold_locales blast+

end
