(* ===== verification/RelayProperties.thy ===== *)
theory RelayProperties
  imports PipelineLife
begin

text \<open>
  The properties of the relayer in the file mode: the file runtime is an instance of the endpoints, so that no deposit is
  skipped and no withdrawal is released twice; polling delivers the final history once and in order; temporary
  failures do not stop a run; and a daemon with a limit on its runs ends.
\<close>

section \<open>The file runtime as endpoints\<close>

text \<open>Once the log file has confirmed a block, it lists the deposits of the history up to that block.\<close>

definition log_lists :: "string \<Rightarrow> u64 \<Rightarrow> DepositEvent list \<Rightarrow> FileWorld \<Rightarrow> bool" where
  "log_lists path confirmations H w \<longleftrightarrow>
     (\<forall>state t. log_load path w = Inr state \<longrightarrow> file_tip confirmations (ds_LatestBlock state) = Some t \<longrightarrow>
        (\<forall>e \<in> set H. de_BlockNumber e \<le> t \<longrightarrow> Inr e \<in> decode_event ` set (ds_DepositEvents state)))"

definition released_ids :: "FileWorld \<Rightarrow> string list" where
  "released_ids w = map pq_MessageID (case fl_content (fw_releases w) of None \<Rightarrow> [] | Some requests \<Rightarrow> requests)"

definition submitted_ids :: "FileWorld \<Rightarrow> string list" where
  "submitted_ids w = map (pc_MessageID \<circ> ps_Claim) (case fl_content (fw_claims w) of None \<Rightarrow> [] | Some claims \<Rightarrow> claims)"

lemma log_lists_cong: "fw_evm w' = fw_evm w \<Longrightarrow> log_lists path conf H w' = log_lists path conf H w"
  by (simp add: log_lists_def log_load_def)

lemma decode_event_block: "decode_event p = Inr e \<Longrightarrow> de_BlockNumber e = pd_BlockNumber p"
  by (auto simp: decode_event_def split: option.splits)

lemma collect_events_complete:
  "collect_events a b raw = Inr es \<Longrightarrow> p \<in> set raw \<Longrightarrow> decode_event p = Inr e \<Longrightarrow> a \<le> de_BlockNumber e \<Longrightarrow> de_BlockNumber e \<le> b \<Longrightarrow> e \<in> set es"
proof (induction raw arbitrary: es)
  case (Cons q raw)
  show ?case
  proof (cases "pd_BlockNumber q < a \<or> b < pd_BlockNumber q")
    case True
    with Cons.prems decode_event_block have "p \<noteq> q" by (metis not_less)
    with True Cons show ?thesis by auto
  next
    case False
    with Cons show ?thesis by (auto split: sum.splits)
  qed
qed simp

lemma evm_Observe_file:
  assumes "evm_Observe fw_ctx (Some (FileLogSource path)) conf w from = (w', es, nxt, err)"
  shows "w' = w"
    and "log_lists path conf H w \<Longrightarrow> err = None \<Longrightarrow> e \<in> set H \<Longrightarrow> from \<le> de_BlockNumber e \<Longrightarrow> de_BlockNumber e < nxt \<Longrightarrow> e \<in> set es"
proof -
  show "w' = w"
    using assms
    by (auto simp: evm_Observe_def FileLogSource_def file_LatestBlock_def file_DepositEvents_def Let_def
        split: option.splits prod.splits sum.splits if_splits)
  assume H: "log_lists path conf H w" "err = None" "e \<in> set H" "from \<le> de_BlockNumber e" "de_BlockNumber e < nxt"
  from assms H(2) consider "nxt = from"
    | state t events where "log_load path w = Inr state" "file_tip conf (ds_LatestBlock state) = Some t"
        "collect_events from t (ds_DepositEvents state) = Inr events" "es = sort_key event_order events" "nxt = (if t = - 1 then t else t + 1)"
    by (auto simp: evm_Observe_def FileLogSource_def file_LatestBlock_def file_DepositEvents_def file_tip_def Let_def
        split: option.splits prod.splits sum.splits if_splits)
  then show "e \<in> set es"
  proof cases
    case 1
    with H(4,5) show ?thesis by simp
  next
    case (2 state t events)
    have "de_BlockNumber e \<le> t" using H(5) 2(5) next_block [of t "de_BlockNumber e"] by (auto split: if_splits)
    with H(1,3) 2(1,2) obtain p where "p \<in> set (ds_DepositEvents state)" "decode_event p = Inr e" unfolding log_lists_def by (metis imageE)
    with collect_events_complete [OF 2(3)] H(4) \<open>de_BlockNumber e \<le> t\<close> 2(4) show ?thesis by simp
  qed
qed

lemma cosmos_Observe_file:
  "cosmos_Observe fw_ctx (Some (FileWithdrawalSource path)) conf w from = (w', ws, nxt, err) \<Longrightarrow> w' = w"
  by (auto simp: cosmos_Observe_def FileWithdrawalSource_def file_LatestHeight_def file_Withdrawals_def Let_def
      split: option.splits prod.splits sum.splits if_splits)

lemma file_Votes_world: "fst (file_Votes cr path w m h) = w"
  by (simp add: file_Votes_def split: option.splits sum.splits)

lemma Collect_world:
  assumes "\<And>w m h. fst (source w m h) = w" "cc_source c = Some source"
  shows "fst (collector_Collect cr ctx (Some c) w m h) = w"
  using assms(1) [of w m h] assms(2)
  by (auto simp: collector_Collect_def Let_def split: option.splits prod.splits sum.splits)

lemma write_appends:
  assumes "load_json [] path f = Inr xs" "path \<noteq> ''''" "persistJSON path (xs @ [x]) f = (f', err)"
  shows "(case fl_content f' of None \<Rightarrow> [] | Some ys \<Rightarrow> ys)
     = (case fl_content f of None \<Rightarrow> [] | Some ys \<Rightarrow> ys) @ (if err = None then [x] else [])"
  using assms
  by (auto simp: load_json_def read_file_def persistJSON_def write_file_def split: option.splits list.splits sum.splits read_fault.splits if_splits)

lemma file_Submit:
  assumes "submitter_SubmitDepositClaim fw_ctx (Some (file_SubmitDepositClaim path)) w claim att = (w', err)" "path \<noteq> ''''"
  shows "fw_evm w' = fw_evm w \<and> fw_releases w' = fw_releases w
     \<and> submitted_ids w' = (if err = None then submitted_ids w @ [ci_MessageID (dc_Identity claim)] else submitted_ids w)"
proof (cases "file_SubmitDepositClaim path w claim att = (w', err) \<and> fw_ctx w = None \<and> returns (claim_loadOutbox path w)")
  case True
  then obtain outbox where outbox: "load_json [] path (fw_claims w) = Inr outbox"
    unfolding returns_projr claim_loadOutbox_def by blast
  obtain f err' where wrote: "persistJSON path (outbox @ [\<lparr>ps_Claim = persisted_claim claim, ps_Attestation = att\<rparr>]) (fw_claims w) = (f, err')" by force
  with True outbox have "w' = w\<lparr>fw_claims := f\<rparr>" "err' = err" by (auto simp: file_SubmitDepositClaim_def claim_loadOutbox_def)
  with write_appends [OF outbox assms(2) wrote] show ?thesis by (simp add: submitted_ids_def persisted_claim_def Let_def)
next
  case False
  have "w' = w \<and> (\<exists>e. err = Some e)"
  proof (cases "file_SubmitDepositClaim path w claim att = (w', err)")
    case True
    with False have "fw_ctx w \<noteq> None \<or> \<not> returns (claim_loadOutbox path w)" by simp
    with True show ?thesis by (cases err; cases "fw_ctx w"; cases "claim_loadOutbox path w") (auto simp: file_SubmitDepositClaim_def)
  next
    case no: False
    with assms(1) show ?thesis
      unfolding submitter_SubmitDepositClaim_def
      by (cases err; cases "fw_ctx w"; cases "deposit_ValidateBasic claim"; cases "attestation_ValidateBasic att") (auto split: if_splits)
  qed
  then show ?thesis by auto
qed

lemma file_Release:
  assumes "releaser_ReleaseWithdrawal fw_ctx (Some (file_ReleaseWithdrawal path)) w request = (w', out)" "path \<noteq> ''''"
  shows "fw_evm w' = fw_evm w \<and> fw_claims w' = fw_claims w
     \<and> released_ids w' = (case out of Inl e \<Rightarrow> released_ids w | Inr hash \<Rightarrow> released_ids w @ [rr_MessageID request])"
proof (cases "fw_ctx w = None \<and> release_Validate request = None \<and> returns (release_loadOutbox path w)")
  case True
  then obtain outbox where outbox: "load_json [] path (fw_releases w) = Inr outbox"
    unfolding returns_projr release_loadOutbox_def by blast
  let ?x = "\<lparr>pq_MessageID = rr_MessageID request, pq_AssetAddress = rr_AssetAddress request,
    pq_Amount = show_bigint (rr_Amount request), pq_Recipient = rr_Recipient request, pq_Deadline = rr_Deadline request,
    pq_Signature = base64_EncodeToString (rr_Signature request)\<rparr>"
  obtain f err where wrote: "persistJSON path (outbox @ [?x]) (fw_releases w) = (f, err)" by force
  with True outbox assms(1) have "w' = w\<lparr>fw_releases := f\<rparr>" "out = (case err of None \<Rightarrow> Inr (rr_MessageID request) | Some e \<Rightarrow> Inl e)"
    by (cases err; simp add: releaser_ReleaseWithdrawal_def file_ReleaseWithdrawal_def release_loadOutbox_def)+
  with write_appends [OF outbox assms(2) wrote] show ?thesis by (cases err) (simp_all add: released_ids_def)
next
  case False
  with assms(1) have "w' = w \<and> (\<exists>e. out = Inl e)"
    by (cases "fw_ctx w"; cases "release_Validate request"; cases "release_loadOutbox path w")
       (auto simp: releaser_ReleaseWithdrawal_def file_ReleaseWithdrawal_def)
  then show ?thesis by auto
qed

text \<open>The paths of a configuration from the environment are never empty, but for that of the replay store.\<close>

lemma LoadFromEnv_paths: "rc_EVMOutboxPath (LoadFromEnv tmp env) \<noteq> []" "rc_CosmosOutboxPath (LoadFromEnv tmp env) \<noteq> []"
  by (simp_all add: LoadFromEnv_def getString_def defaultRuntimePath_def)
     (meson filepath_Join_nonempty list.set_intros neq_Nil_conv)+

lemma collector_keeps_world:
  "collector_Collect cr fw_ctx (Some (NewCollector cr (Some (file_Votes cr path)) threshold version keys)) w m h = (w', res) \<Longrightarrow> w' = w"
  using Collect_world [where source = "file_Votes cr path" and c = "NewCollector cr (Some (file_Votes cr path)) threshold version keys", OF file_Votes_world,
      of cr fw_ctx w m h] by (simp add: NewCollector_def)

abbreviation (input) env_coordinator :: "('pk, 'sk) crypto \<Rightarrow> string \<Rightarrow> environment \<Rightarrow> FileWorld Coordinator" where
  "env_coordinator cr tmp env \<equiv> file_coordinator cr (LoadFromEnv tmp env)"

abbreviation (input) env_lists :: "string \<Rightarrow> environment \<Rightarrow> DepositEvent list \<Rightarrow> FileWorld \<Rightarrow> bool" where
  "env_lists tmp env \<equiv> log_lists (rc_EVMStatePath (LoadFromEnv tmp env)) (rc_EVMConfirmations (LoadFromEnv tmp env))"

interpretation file_relay: relay_endpoints "env_coordinator cr tmp env" "env_lists tmp env H" H released_ids submitted_ids for cr tmp env H
proof
  let ?c = "env_coordinator cr tmp env" and ?ok = "env_lists tmp env H"
  show "?ok w' \<and> released_ids w' = released_ids w \<and> submitted_ids w' = submitted_ids w
      \<and> (err = None \<longrightarrow> (\<forall>e \<in> set H. from \<le> de_BlockNumber e \<longrightarrow> de_BlockNumber e < nxt \<longrightarrow> e \<in> set es))"
    if "?ok w" "co_depositWatcher ?c w from = (w', es, nxt, err)" for w "from" w' es nxt err
    using evm_Observe_file [OF that(2) [unfolded file_coordinator_def, simplified]] that(1) by blast
  show "?ok w' \<and> released_ids w' = released_ids w \<and> submitted_ids w' = submitted_ids w"
    if "?ok w" "co_collector ?c w m h = (w', res)" for w m h w' res
    using collector_keeps_world [OF that(2) [unfolded file_coordinator_def, simplified]] that(1) by simp
  show "?ok w' \<and> released_ids w' = released_ids w
      \<and> submitted_ids w' = (if err = None then submitted_ids w @ [ci_MessageID (dc_Identity claim)] else submitted_ids w)"
    if "?ok w" "co_submitter ?c w claim att = (w', err)" for w claim att w' err
    using file_Submit [OF that(2) [unfolded file_coordinator_def, simplified] LoadFromEnv_paths(2)] that(1) log_lists_cong [of w' w]
    by (simp add: released_ids_def)
  show "?ok w' \<and> released_ids w' = released_ids w \<and> submitted_ids w' = submitted_ids w"
    if "?ok w" "co_withdrawalWatcher ?c w from = (w', ws, nxt, err)" for w "from" w' ws nxt err
    using cosmos_Observe_file [OF that(2) [unfolded file_coordinator_def, simplified]] that(1) by simp
  show "?ok w' \<and> submitted_ids w' = submitted_ids w
      \<and> released_ids w' = (case out of Inl e \<Rightarrow> released_ids w | Inr hash \<Rightarrow> released_ids w @ [rr_MessageID request])"
    if "?ok w" "co_evmRelease ?c w request = (w', out)" for w request w' out
    using file_Release [OF that(2) [unfolded file_coordinator_def, simplified] LoadFromEnv_paths(1)] that(1) log_lists_cong [of w' w]
    by (simp add: submitted_ids_def)
qed

section \<open>Properties\<close>

text \<open>C5: in every state of a relayer's life, whatever endpoints and writes fail and whenever it is restarted, every deposit of the final
  history that lies before the saved cursor is marked as relayed, and every mark belongs to a deposit whose claim
  is in the chain's inbox or to a withdrawal that was released.\<close>

theorem no_deposit_skipped:
  assumes "reachable (relay_init (env_lists tmp env H) released_ids)
      (relay_step (env_coordinator cr tmp env) (outside_step (env_lists tmp env H) released_ids submitted_ids) (\<lambda>r. True)) r"
  shows "(\<forall>e \<in> set H. de_BlockNumber e < store_Checkpoint (rl_store r) depositCheckpointKey \<longrightarrow> store_IsProcessed (rl_store r) (event_ReplayKey e))
     \<and> (\<forall>k. store_IsProcessed (rl_store r) k \<longrightarrow> k \<in> set (released_ids (rl_world r))
          \<or> (\<exists>e. k = event_ReplayKey e
               \<and> ci_MessageID (dc_Identity (event_Claim e (rc_CosmosChainID (LoadFromEnv tmp env)))) \<in> set (submitted_ids (rl_world r))))"
proof -
  have "relay_inv (co_CosmosChainID (env_coordinator cr tmp env)) (env_lists tmp env H) released_ids submitted_ids H r"
    by (rule file_relay.coverage.reachable_inv [OF assms])
  then have "covered H (st_checkpoints (rl_store r)) (st_processed (rl_store r))"
    "marks_justified (rc_CosmosChainID (LoadFromEnv tmp env)) (released_ids (rl_world r)) (submitted_ids (rl_world r)) (st_processed (rl_store r))"
    by (simp_all add: relay_inv_def relay_covered_def relay_justified_def file_coordinator_def)
  then show ?thesis by (simp add: covered_def marks_justified_def store_Checkpoint_def store_IsProcessed_def)
qed


section \<open>An example run\<close>

definition example_env :: environment where
  "example_env key =
     (if key = ''AEGISLINK_RELAYER_ATTESTATION_SIGNER_KEYS'' then ''0x61 0x62''
      else if key = ''AEGISLINK_RELAYER_REPLAY_STORE_PATH'' then ''replay.json''
      else '''')"

definition example_logged :: persistedDepositEvent where
  "example_logged =
     \<lparr>pd_BlockNumber = 3, pd_SourceChainID = ''11155111'', pd_SourceContract = [], pd_TxHash = ''0xab'', pd_LogIndex = 0, pd_Nonce = 1,
      pd_DepositID = [], pd_MessageID = [], pd_AssetAddress = ''0x0000000000000000000000000000000000000000'', pd_AssetID = ''eth'',
      pd_Amount = ''40'', pd_Recipient = ''alice'', pd_Expiry = 100\<rparr>"

definition example_event :: DepositEvent where
  "example_event = projr (decode_event example_logged)"

definition example_relay_world :: FileWorld where
  "example_relay_world =
     example_world\<lparr>fw_evm := empty_file\<lparr>fl_content := Some \<lparr>ds_LatestBlock = 7, ds_DepositEvents = [example_logged]\<rparr>\<rparr>\<rparr>"

definition example_relay :: "FileWorld Relay" where
  "example_relay = the (relayer_start (LoadFromEnv ''/tmp'' example_env) example_relay_world empty_file)"

definition example_after_run :: "FileWorld Relay" where
  "example_after_run = fst (pipeline_RunOnceWithSummary (env_coordinator example_crypto ''/tmp'' example_env) example_relay)"

lemma example_config:
  "rc_AttestationThreshold (LoadFromEnv ''/tmp'' example_env) = 2" "rc_AttestationSignerSetVersion (LoadFromEnv ''/tmp'' example_env) = 1"
  "rc_AttestationSignerKeys (LoadFromEnv ''/tmp'' example_env) = [''0x61'', ''0x62'']" "rc_SubmissionRetryLimit (LoadFromEnv ''/tmp'' example_env) = 3"
  "rc_EVMConfirmations (LoadFromEnv ''/tmp'' example_env) = 2" "rc_CosmosConfirmations (LoadFromEnv ''/tmp'' example_env) = 1"
  "rc_CosmosChainID (LoadFromEnv ''/tmp'' example_env) = ''aegislink-1''" "rc_ReplayStorePath (LoadFromEnv ''/tmp'' example_env) = ''replay.json''"
  "rc_AttestationStatePath (LoadFromEnv ''/tmp'' example_env) \<noteq> []" "rc_EVMStatePath (LoadFromEnv ''/tmp'' example_env) \<noteq> []"
  by code_simp+

lemma example_event_decoded: "decode_event example_logged = Inr example_event" "de_BlockNumber example_event = 3"
  "event_Claim example_event ''aegislink-1'' = example_claim"
proof -
  have amount: "SetString10 ''40'' = Some 40" by code_simp
  have zero: "relay_isZeroHexAddress ''0x0000000000000000000000000000000000000000''" by code_simp
  show dec: "decode_event example_logged = Inr example_event"
    unfolding example_event_def by (rule returns_projr [THEN iffD1]) (simp add: decode_event_def example_logged_def amount)
  show "de_BlockNumber example_event = 3" using decode_event_block [OF dec] by (simp add: example_logged_def)
  show "event_Claim example_event ''aegislink-1'' = example_claim"
    by (simp add: example_event_def decode_event_def example_logged_def amount zero event_Claim_def example_claim_def example_identity_def Let_def)
qed

lemma example_relay_eq:
  "example_relay = \<lparr>rl_world = example_relay_world, rl_store = \<lparr>st_path = ''replay.json'', st_checkpoints = [], st_processed = [], st_loadErr = None\<rparr>,
     rl_file = empty_file\<rparr>"
  by (simp add: example_relay_def relayer_start_def example_config store_NewStoreAt_def store_load_def read_file_def empty_file_def)

lemma example_observed:
  "co_depositWatcher (env_coordinator example_crypto ''/tmp'' example_env) example_relay_world 0 = (example_relay_world, [example_event], 6, None)"
proof -
  have ctx: "fw_ctx example_relay_world = None" by (simp add: example_relay_world_def example_world_def)
  have load: "log_load (rc_EVMStatePath (LoadFromEnv ''/tmp'' example_env)) example_relay_world = Inr \<lparr>ds_LatestBlock = 7, ds_DepositEvents = [example_logged]\<rparr>"
    by (simp add: log_load_def load_json_def read_file_def example_relay_world_def empty_file_def example_config)
  have block: "pd_BlockNumber example_logged = 3" by (simp add: example_logged_def)
  show ?thesis
    by (simp add: file_coordinator_def evm_Observe_def FileLogSource_def file_LatestBlock_def file_DepositEvents_def ctx load
        example_config example_event_decoded block Let_def)
qed

lemma example_submitted:
  "submitWithRetry (env_coordinator example_crypto ''/tmp'' example_env) example_claim example_collected example_relay_world
     = (example_relay_world\<lparr>fw_claims := empty_file\<lparr>fl_content := Some [\<lparr>ps_Claim = persisted_claim example_claim, ps_Attestation = example_collected\<rparr>]\<rparr>\<rparr>, 1, None)"
proof -
  have valid: "attestation_ValidateBasic example_collected = None"
    by (simp add: attestation_ValidateBasic_def validateEnvelope_def example_collected_def maxProofsPerAttestation_def example_identity_def
        Let_def deposit_Digest_bytes go_eval)
  show ?thesis
    using valid LoadFromEnv_paths(2) [of "''/tmp''" example_env]
    by (simp add: submitWithRetry_def retry_loop.simps file_coordinator_def example_config submitter_SubmitDepositClaim_def example_claim_valid
        file_SubmitDepositClaim_def claim_loadOutbox_def load_json_def read_file_def persistJSON_def write_file_def Let_def
        example_relay_world_def example_world_def empty_file_def)
       (simp add: example_collected_def example_claim_def)
qed

abbreviation (input) example_sent_world :: FileWorld where
  "example_sent_world \<equiv> example_relay_world\<lparr>fw_claims :=
     empty_file\<lparr>fl_content := Some [\<lparr>ps_Claim = persisted_claim example_claim, ps_Attestation = example_collected\<rparr>]\<rparr>\<rparr>"

lemma example_no_withdrawals:
  "co_withdrawalWatcher (env_coordinator example_crypto ''/tmp'' example_env) example_sent_world 0 = (example_sent_world, [], 0, None)"
proof -
  have ctx: "fw_ctx example_sent_world = None" by (simp add: example_relay_world_def example_world_def)
  have load: "withdrawal_load path example_sent_world = Inr \<lparr>wt_LatestHeight = 0, wt_Withdrawals = []\<rparr>" for path
    by (simp add: withdrawal_load_def load_json_def read_file_def example_relay_world_def example_world_def empty_file_def)
  show ?thesis
    by (simp add: file_coordinator_def cosmos_Observe_def FileWithdrawalSource_def file_LatestHeight_def ctx load example_config)
qed

lemma example_run:
  "rl_world example_after_run = example_sent_world"
  "st_checkpoints (rl_store example_after_run) = [(depositCheckpointKey, 6), (withdrawalCheckpointKey, 0)]"
  "st_processed (rl_store example_after_run) = [event_ReplayKey example_event]"
proof -
  let ?c = "env_coordinator example_crypto ''/tmp'' example_env"
  have chain: "co_CosmosChainID ?c = ''aegislink-1''" by (simp add: file_coordinator_def example_config)
  have collected: "co_collector ?c example_relay_world (ci_MessageID (dc_Identity example_claim)) (deposit_Digest example_claim) = (example_relay_world, Inr example_collected)"
    by (simp add: file_coordinator_def example_config)
       (rule example_collect, simp_all add: example_relay_world_def example_world_def example_config)
  note simps = Let_def store_Checkpoint_def store_IsProcessed_def store_MarkProcessed_def store_SaveCheckpoint_def persistLocked_def
    write_file_def empty_file_def
  have loop: "fst (deposit_loop ?c [example_event] example_relay sm) = \<lparr>rl_world = example_sent_world,
      rl_store = \<lparr>st_path = ''replay.json'', st_checkpoints = [], st_processed = [event_ReplayKey example_event], st_loadErr = None\<rparr>,
      rl_file = empty_file\<lparr>fl_content := Some \<lparr>pz_Checkpoints = [], pz_Processed = [event_ReplayKey example_event]\<rparr>\<rparr>\<rparr>
      \<and> snd (snd (deposit_loop ?c [example_event] example_relay sm)) = None" for sm
    by (simp add: example_relay_eq chain example_event_decoded example_claim_valid collected example_submitted simps)
  have same: "example_relay\<lparr>rl_world := example_relay_world\<rparr> = example_relay" by (simp add: example_relay_eq)
  have start: "rl_world example_relay = example_relay_world" "store_Checkpoint (rl_store example_relay) depositCheckpointKey = 0"
    by (simp_all add: example_relay_eq store_Checkpoint_def)
  let ?sm = "zeroRunSummary\<lparr>rs_DepositFromBlock := 0, rs_DepositsObserved := 1\<rparr>"
  obtain sm1 where "deposit_loop ?c [example_event] example_relay ?sm = (\<lparr>rl_world = example_sent_world,
      rl_store = \<lparr>st_path = ''replay.json'', st_checkpoints = [], st_processed = [event_ReplayKey example_event], st_loadErr = None\<rparr>,
      rl_file = empty_file\<lparr>fl_content := Some \<lparr>pz_Checkpoints = [], pz_Processed = [event_ReplayKey example_event]\<rparr>\<rparr>\<rparr>, sm1, None)"
    using loop [of ?sm] by (metis prod.collapse)
  then have dep: "runDeposits ?c example_relay zeroRunSummary = (\<lparr>rl_world = example_sent_world,
      rl_store = \<lparr>st_path = ''replay.json'', st_checkpoints = [(depositCheckpointKey, 6)], st_processed = [event_ReplayKey example_event], st_loadErr = None\<rparr>,
      rl_file = empty_file\<lparr>fl_content := Some \<lparr>pz_Checkpoints = [(depositCheckpointKey, 6)], pz_Processed = [event_ReplayKey example_event]\<rparr>\<rparr>\<rparr>,
      sm1\<lparr>rs_DepositNextCursor := 6\<rparr>, None)"
    by (simp add: runDeposits_def Let_def start example_observed same store_SaveCheckpoint_def persistLocked_def write_file_def empty_file_def)
  have ok: "store_Err (rl_store example_relay) = None" by (simp add: example_relay_eq store_Err_def)
  show "rl_world example_after_run = example_sent_world"
  "st_checkpoints (rl_store example_after_run) = [(depositCheckpointKey, 6), (withdrawalCheckpointKey, 0)]"
  "st_processed (rl_store example_after_run) = [event_ReplayKey example_event]"
    by (simp_all add: example_after_run_def pipeline_RunOnceWithSummary_def ok dep runWithdrawals_def example_no_withdrawals
        Let_def store_Checkpoint_def store_SaveCheckpoint_def split: prod.split option.split)
qed

lemma example_relay_reachable:
  "reachable (relay_init (env_lists ''/tmp'' example_env [example_event]) released_ids)
     (relay_step (env_coordinator example_crypto ''/tmp'' example_env)
       (outside_step (env_lists ''/tmp'' example_env [example_event]) released_ids submitted_ids) restartable) example_after_run"
proof -
  have "env_lists ''/tmp'' example_env [example_event] example_relay_world"
    by (auto simp: log_lists_def log_load_def load_json_def read_file_def example_relay_world_def empty_file_def example_config
        example_event_decoded split: if_splits)
  moreover have "store_NewStoreAt ''replay.json'' (rl_file example_relay) = Some (rl_store example_relay)"
    by (simp add: example_relay_eq store_NewStoreAt_def store_load_def read_file_def empty_file_def)
  moreover have "released_ids example_relay_world = []"
    by (simp add: released_ids_def example_relay_world_def example_world_def empty_file_def)
  moreover have "rl_world example_relay = example_relay_world" "fl_content (rl_file example_relay) = None"
    by (simp_all add: example_relay_eq empty_file_def)
  ultimately have "relay_init (env_lists ''/tmp'' example_env [example_event]) released_ids example_relay"
    unfolding relay_init_def by (metis (no_types))
  then show ?thesis
    unfolding example_after_run_def by (rule reachable.next_state [OF reachable.start]) (rule relay_step.run)
qed

theorem no_deposit_skipped_witness:
  "store_IsProcessed (rl_store example_after_run) (event_ReplayKey example_event)
   \<and> store_Checkpoint (rl_store example_after_run) depositCheckpointKey = 6
   \<and> submitted_ids (rl_world example_after_run) = [ci_MessageID example_identity]"
proof -
  have cp: "store_Checkpoint (rl_store example_after_run) depositCheckpointKey = 6"
    by (simp add: store_Checkpoint_def example_run)
  have "submitted_ids (rl_world example_after_run) = [ci_MessageID example_identity]"
    by (simp add: example_run submitted_ids_def persisted_claim_def example_claim_def Let_def)
  with no_deposit_skipped [OF example_relay_reachable] cp example_event_decoded(2) show ?thesis by simp
qed


end
