(* ===== verification/RelayProgress.thy ===== *)
theory RelayProgress
  imports RelayProperties
begin

text \<open>
  Progress of the relayer: a run relays everything it observes in spite of temporary failures of the endpoints, as long as each
  call succeeds within the retry limit; and a daemon with a limit on the number of its runs ends.
\<close>

section \<open>The end of the loop\<close>

text \<open>One round of the loop with a limit: it returns at the latest in the iteration of the limit. The events it has emitted are numbered,
  all errors in them but the last are temporary, and an error that is returned is the error of the last event.\<close>

definition loop_trace :: "'m LoopEvent list \<Rightarrow> bool" where
  "loop_trace events \<longleftrightarrow>
     map le_Iteration events = map int [1..<Suc (length events)]
     \<and> (\<forall>ev \<in> set events. \<forall>e. le_Err ev = Some e \<longrightarrow> isTemporary e \<and> le_Temporary ev)"

lemma loop_trace_append:
  "loop_trace events \<Longrightarrow> le_Iteration ev = int (length events) + 1 \<Longrightarrow>
     (case le_Err ev of None \<Rightarrow> True | Some e \<Rightarrow> isTemporary e \<and> le_Temporary ev) \<Longrightarrow> loop_trace (events @ [ev])"
  by (auto simp: loop_trace_def)

text \<open>How the loop may return, given its limit.\<close>

definition loop_result :: "int \<Rightarrow> 's \<times> 'm LoopEvent list \<times> relay_error option \<Rightarrow> bool" where
  "loop_result limit result \<longleftrightarrow>
     (case result of (s, events, err) \<Rightarrow>
        int (length events) \<le> limit
        \<and> (case err of
             None \<Rightarrow> loop_trace events
           | Some e \<Rightarrow> events \<noteq> [] \<and> loop_trace (butlast events) \<and> le_Iteration (last events) = int (length events)
               \<and> le_Err (last events) = Some e \<and> \<not> isTemporary e \<and> \<not> le_Temporary (last events)))"

lemma loop_round_limit:
  assumes "0 < dm_MaxConsecutiveRuns cfg" "loop_trace events" "int (length events) < dm_MaxConsecutiveRuns cfg"
    "iteration = int (length events) + 1"
  shows "case loop_round ended wait runOnce cfg iteration failures events s of
      Inl result \<Rightarrow> loop_result (dm_MaxConsecutiveRuns cfg) result
    | Inr (s', events', failures') \<Rightarrow>
        loop_trace events' \<and> length events' = Suc (length events) \<and> int (length events') < dm_MaxConsecutiveRuns cfg"
proof -
  have trace: "loop_trace (events @ [ev])"
    if "le_Iteration ev = iteration" "case le_Err ev of None \<Rightarrow> True | Some e \<Rightarrow> isTemporary e \<and> le_Temporary ev" for ev
    using that assms loop_trace_append by blast
  obtain s1 summary err where run: "runOnce s = (s1, summary, err)" by (metis prod_cases3)
  show ?thesis
    using assms run trace
    by (cases err) (auto simp: loop_round_def loop_result_def Let_def split: prod.splits if_splits)
qed

lemma run_loop_ends:
  assumes "0 < dm_MaxConsecutiveRuns cfg" "loop_trace events" "int (length events) < dm_MaxConsecutiveRuns cfg"
    "iteration = int (length events) + 1"
  shows "\<exists>result. run_loop ended wait runOnce cfg iteration failures events s = Some result
     \<and> loop_result (dm_MaxConsecutiveRuns cfg) result"
  using assms(2-)
proof (induction "nat (dm_MaxConsecutiveRuns cfg) - length events" arbitrary: iteration failures events s rule: less_induct)
  case less
  note step = loop_round_limit [OF assms(1) less.prems, of ended wait runOnce failures s]
  show ?case
  proof (cases "loop_round ended wait runOnce cfg iteration failures events s")
    case (Inl result)
    with step show ?thesis by (simp add: run_loop.simps)
  next
    case (Inr next_round)
    obtain s' events' failures' where nr: "next_round = (s', events', failures')" by (metis prod_cases3)
    with step Inr have tr: "loop_trace events'" and len: "length events' = Suc (length events)"
      and lt: "int (length events') < dm_MaxConsecutiveRuns cfg" by simp_all
    have "\<exists>result. run_loop ended wait runOnce cfg (iteration + 1) failures' events' s' = Some result
        \<and> loop_result (dm_MaxConsecutiveRuns cfg) result"
      by (rule less.hyps [OF _ tr lt]) (use len lt less.prems in linarith)+
    with Inr nr show ?thesis by (simp add: run_loop.simps [of ended wait runOnce cfg iteration])
  qed
qed

text \<open>C16: a daemon with a limit on the number of its runs returns, whatever its runs do: it has emitted at most as many
  events as the limit says, numbered from one, each of them a success or a temporary failure but for the error it
  returns, which is the permanent error of the last event.\<close>

theorem daemon_ends:
  assumes "0 < dm_MaxConsecutiveRuns cfg"
  shows "\<exists>r' events err. daemon_Run ended wait c cfg r = Some (r', events, err)
     \<and> int (length events) \<le> dm_MaxConsecutiveRuns cfg
     \<and> map le_Iteration events = map int [1..<Suc (length events)]
     \<and> (\<forall>ev \<in> set (if err = None then events else butlast events). \<forall>e. le_Err ev = Some e \<longrightarrow> isTemporary e)
     \<and> (\<forall>e. err = Some e \<longrightarrow> events \<noteq> [] \<and> le_Err (last events) = Some e \<and> \<not> isTemporary e)"
proof -
  have lim: "dm_MaxConsecutiveRuns (NewDaemon cfg) = dm_MaxConsecutiveRuns cfg" by (simp add: NewDaemon_def)
  obtain r' events err where run: "daemon_Run ended wait c cfg r = Some (r', events, err)"
    and res: "loop_result (dm_MaxConsecutiveRuns cfg) (r', events, err)"
    using run_loop_ends [of "NewDaemon cfg" "[]" 1 ended wait "pipeline_RunOnceWithSummary c" 0 r] assms
    by (auto simp: daemon_Run_def lim loop_trace_def)
  have "map le_Iteration events = map int [1..<Suc (length events)]"
  proof (cases "err = None")
    case False
    with res have "events \<noteq> []" "loop_trace (butlast events)" "le_Iteration (last events) = int (length events)"
      by (auto simp: loop_result_def)
    then obtain evs ev where "events = evs @ [ev]" "loop_trace evs" "le_Iteration ev = int (length evs) + 1"
      by (metis append_butlast_last_id length_append_singleton butlast_snoc last_snoc of_nat_Suc add.commute)
    then show ?thesis by (simp add: loop_trace_def)
  qed (use res in \<open>simp add: loop_result_def loop_trace_def\<close>)
  with run res show ?thesis by (auto simp: loop_result_def loop_trace_def split: option.splits)
qed

section \<open>Endpoints that recover\<close>

text \<open>The store is usable and writing its file works.\<close>

definition disk_works :: "Store \<Rightarrow> store_file \<Rightarrow> bool" where
  "disk_works s f \<longleftrightarrow> st_loadErr s = None \<and> fl_writes f = []"

lemma persist_works: "fl_writes f = [] \<Longrightarrow> \<exists>f'. persistLocked s f = (f', None) \<and> fl_writes f' = []"
  by (simp add: persistLocked_def write_file_def)

lemma mark_works:
  "disk_works s f \<Longrightarrow>
     \<exists>f'. store_MarkProcessed s f k = (s\<lparr>st_processed := List.insert k (st_processed s)\<rparr>, f', None) \<and> fl_writes f' = []"
  using persist_works [of f "s\<lparr>st_processed := List.insert k (st_processed s)\<rparr>"]
  by (auto simp: disk_works_def store_MarkProcessed_def Let_def)

lemma save_works:
  "disk_works s f \<Longrightarrow>
     \<exists>f'. store_SaveCheckpoint s f k v = (s\<lparr>st_checkpoints := gomap_set k v (st_checkpoints s)\<rparr>, f', None) \<and> fl_writes f' = []"
  using persist_works [of f "s\<lparr>st_checkpoints := gomap_set k v (st_checkpoints s)\<rparr>"]
  by (auto simp: disk_works_def store_SaveCheckpoint_def Let_def)

text \<open>A call succeeds after fewer temporary failures than there are attempts, and leaves a good world behind.\<close>

definition call_recovers :: "('w \<Rightarrow> bool) \<Rightarrow> int \<Rightarrow> ('w \<Rightarrow> 'w \<times> relay_error option) \<Rightarrow> 'w \<Rightarrow> bool" where
  "call_recovers good limit call w \<longleftrightarrow>
     (\<exists>n. int n < max 1 limit \<and> temporary_failures call n w \<and> snd (call (after_calls call n w)) = None \<and> good (after_calls call (Suc n) w))"

definition deposit_recovers :: "'w Coordinator \<Rightarrow> ('w \<Rightarrow> bool) \<Rightarrow> DepositEvent \<Rightarrow> bool" where
  "deposit_recovers c good event \<longleftrightarrow>
     (let claim = event_Claim event (co_CosmosChainID c) in
      deposit_ValidateBasic claim = None
      \<and> (\<forall>w. good w \<longrightarrow>
           (\<exists>w1 att. co_collector c w (ci_MessageID (dc_Identity claim)) (deposit_Digest claim) = (w1, Inr att)
              \<and> call_recovers good (co_SubmissionRetryLimit c) (\<lambda>w. co_submitter c w claim att) w1)))"

definition release_call :: "'w Coordinator \<Rightarrow> ReleaseRequest \<Rightarrow> 'w \<Rightarrow> 'w \<times> relay_error option" where
  "release_call c request w = (case co_evmRelease c w request of (w', Inl e) \<Rightarrow> (w', Some e) | (w', Inr hash) \<Rightarrow> (w', None))"

definition withdrawal_recovers :: "'w Coordinator \<Rightarrow> ('w \<Rightarrow> bool) \<Rightarrow> Withdrawal \<Rightarrow> bool" where
  "withdrawal_recovers c good withdrawal \<longleftrightarrow>
     withdrawal_Validate withdrawal = None
     \<and> (\<forall>w. good w \<longrightarrow> call_recovers good (co_SubmissionRetryLimit c) (release_call c (withdrawal_ReleaseRequest withdrawal)) w)"

lemma retry_recovers:
  assumes "call_recovers good limit call w"
  shows "\<exists>w' k. retry_loop call label (if limit \<le> 0 then 1 else limit) 1 None w = (w', k, None) \<and> good w'"
proof -
  obtain n where n: "int n < max 1 limit" "temporary_failures call n w" "snd (call (after_calls call n w)) = None" "good (after_calls call (Suc n) w)"
    using assms by (auto simp: call_recovers_def)
  from n(1) have "1 + int n \<le> (if limit \<le> 0 then 1 else limit)" by (auto split: if_splits)
  from retry_loop_succeeds [OF n(2,3) this, of label None] n(4) show ?thesis by blast
qed

lemma submit_recovers:
  "call_recovers good (co_SubmissionRetryLimit c) (\<lambda>w. co_submitter c w claim att) w \<Longrightarrow> \<exists>w' k. submitWithRetry c claim att w = (w', k, None) \<and> good w'"
  unfolding submitWithRetry_def Let_def by (rule retry_recovers)

lemma release_recovers:
  "call_recovers good (co_SubmissionRetryLimit c) (release_call c request) w \<Longrightarrow> \<exists>w' k. releaseWithRetry c request w = (w', k, None) \<and> good w'"
  unfolding releaseWithRetry_def Let_def release_call_def [symmetric] by (rule retry_recovers)

section \<open>Runs over endpoints that recover\<close>

text \<open>The keys \<open>ks\<close> are added to those of the store, and nothing else in it changes.\<close>

definition relayed :: "('w \<Rightarrow> bool) \<Rightarrow> string set \<Rightarrow> 'w Relay \<Rightarrow> 'w Relay \<Rightarrow> bool" where
  "relayed good ks r r' \<longleftrightarrow>
     good (rl_world r') \<and> disk_works (rl_store r') (rl_file r')
     \<and> st_checkpoints (rl_store r') = st_checkpoints (rl_store r)
     \<and> set (st_processed (rl_store r')) = set (st_processed (rl_store r)) \<union> ks"

lemma relayed_step:
  assumes "disk_works (rl_store r) (rl_file r)" "good w"
  shows "\<exists>f. store_MarkProcessed (rl_store r) (rl_file r) k = ((rl_store r)\<lparr>st_processed := List.insert k (st_processed (rl_store r))\<rparr>, f, None)
    \<and> relayed good {k} r \<lparr>rl_world = w, rl_store = (rl_store r)\<lparr>st_processed := List.insert k (st_processed (rl_store r))\<rparr>, rl_file = f\<rparr>"
  using mark_works [OF assms(1), of k] assms by (auto simp: relayed_def disk_works_def)

lemma relayed_trans: "relayed good ks r r' \<Longrightarrow> relayed good ls r' r'' \<Longrightarrow> relayed good (ks \<union> ls) r r''"
  by (auto simp: relayed_def)

lemma relayed_dup: "k \<in> set (st_processed (rl_store r)) \<Longrightarrow> relayed good (insert k ks) r r' \<longleftrightarrow> relayed good ks r r'"
  by (simp add: relayed_def insert_absorb)

lemma card_fresh:
  assumes "finite B" "k \<notin> A"
  shows "card (insert k B - A) = Suc (card (B - insert k A))"
proof -
  have "insert k B - A = insert k (B - insert k A)" using assms(2) by blast
  with assms(1) show ?thesis by simp
qed

lemma deposit_loop_recovers:
  assumes "\<forall>e \<in> set es. deposit_recovers c good e" "good (rl_world r)" "disk_works (rl_store r) (rl_file r)"
  shows "\<exists>r' sm'. deposit_loop c es r sm = (r', sm', None) \<and> relayed good (event_ReplayKey ` set es) r r'
     \<and> rs_WithdrawalsReleased sm' = rs_WithdrawalsReleased sm
     \<and> rs_DepositsSubmitted sm' = rs_DepositsSubmitted sm + card (event_ReplayKey ` set es - set (st_processed (rl_store r)))"
  using assms
proof (induction es arbitrary: r sm)
  case Nil
  then show ?case by (simp add: relayed_def)
next
  case (Cons e es)
  show ?case
  proof (cases "store_IsProcessed (rl_store r) (event_ReplayKey e)")
    case True
    then have dup: "event_ReplayKey e \<in> set (st_processed (rl_store r))" by (simp add: store_IsProcessed_def)
    have "\<forall>e \<in> set es. deposit_recovers c good e" using Cons.prems(1) by simp
    from Cons.IH [OF this Cons.prems(2,3), of "sm\<lparr>rs_DuplicateDeposits := rs_DuplicateDeposits sm + 1\<rparr>"] True dup show ?thesis
      by (simp add: relayed_dup)
  next
    case False
    let ?claim = "event_Claim e (co_CosmosChainID c)" and ?k = "event_ReplayKey e"
    from Cons.prems(1) have "deposit_recovers c good e" by simp
    with Cons.prems(2) obtain w1 att where valid: "deposit_ValidateBasic ?claim = None"
      and coll: "co_collector c (rl_world r) (ci_MessageID (dc_Identity ?claim)) (deposit_Digest ?claim) = (w1, Inr att)"
      and cr: "call_recovers good (co_SubmissionRetryLimit c) (\<lambda>w. co_submitter c w ?claim att) w1"
      unfolding deposit_recovers_def Let_def by blast
    obtain w2 k where sub: "submitWithRetry c ?claim att w1 = (w2, k, None)" "good w2" using submit_recovers [OF cr] by blast
    obtain f where mark: "store_MarkProcessed (rl_store r) (rl_file r) ?k = ((rl_store r)\<lparr>st_processed := List.insert ?k (st_processed (rl_store r))\<rparr>, f, None)"
      and rel: "relayed good {?k} r \<lparr>rl_world = w2, rl_store = (rl_store r)\<lparr>st_processed := List.insert ?k (st_processed (rl_store r))\<rparr>, rl_file = f\<rparr>"
      (is "relayed _ _ _ ?r1")
      using relayed_step [where good = good, OF Cons.prems(3) sub(2)] by blast
    let ?sm = "sm\<lparr>rs_DepositSubmitAttempts := rs_DepositSubmitAttempts sm + k, rs_DepositsSubmitted := rs_DepositsSubmitted sm + 1\<rparr>"
    have "good (rl_world ?r1)" "disk_works (rl_store ?r1) (rl_file ?r1)" using rel by (simp_all only: relayed_def)
    moreover have "\<forall>e \<in> set es. deposit_recovers c good e" using Cons.prems(1) by simp
    ultimately obtain r' sm' where rest: "deposit_loop c es ?r1 ?sm = (r', sm', None)"
      "relayed good (event_ReplayKey ` set es) ?r1 r'" "rs_WithdrawalsReleased sm' = rs_WithdrawalsReleased ?sm"
      "rs_DepositsSubmitted sm' = rs_DepositsSubmitted ?sm + card (event_ReplayKey ` set es - set (st_processed (rl_store ?r1)))" using Cons.IH [of ?r1 ?sm] by blast
    have "deposit_loop c (e # es) r sm = (r', sm', None)"
      using False valid coll sub(1) mark rest(1) by (simp add: Let_def)
    moreover have "relayed good (event_ReplayKey ` set (e # es)) r r'" using relayed_trans [OF rel rest(2)] by simp
    moreover have "rs_DepositsSubmitted sm' = rs_DepositsSubmitted sm + card (event_ReplayKey ` set (e # es) - set (st_processed (rl_store r)))"
      using rest(4) False card_fresh [of "event_ReplayKey ` set es" ?k "set (st_processed (rl_store r))"] by (simp add: store_IsProcessed_def)
    ultimately show ?thesis using rest(3) by auto
  qed
qed

lemma withdrawal_loop_recovers:
  assumes "\<forall>x \<in> set xs. withdrawal_recovers c good x" "good (rl_world r)" "disk_works (rl_store r) (rl_file r)"
  shows "\<exists>r' sm'. withdrawal_loop c xs r sm = (r', sm', None) \<and> relayed good (withdrawal_ReplayKey ` set xs) r r'
     \<and> rs_DepositsSubmitted sm' = rs_DepositsSubmitted sm
     \<and> rs_WithdrawalsReleased sm' = rs_WithdrawalsReleased sm + card (withdrawal_ReplayKey ` set xs - set (st_processed (rl_store r)))"
  using assms
proof (induction xs arbitrary: r sm)
  case Nil
  then show ?case by (simp add: relayed_def)
next
  case (Cons x xs)
  show ?case
  proof (cases "store_IsProcessed (rl_store r) (withdrawal_ReplayKey x)")
    case True
    then have dup: "withdrawal_ReplayKey x \<in> set (st_processed (rl_store r))" by (simp add: store_IsProcessed_def)
    have "\<forall>x \<in> set xs. withdrawal_recovers c good x" using Cons.prems(1) by simp
    from Cons.IH [OF this Cons.prems(2,3), of "sm\<lparr>rs_DuplicateWithdrawals := rs_DuplicateWithdrawals sm + 1\<rparr>"] True dup show ?thesis
      by (simp add: relayed_dup)
  next
    case False
    let ?k = "withdrawal_ReplayKey x"
    from Cons.prems(1,2) have valid: "withdrawal_Validate x = None"
      and cr: "call_recovers good (co_SubmissionRetryLimit c) (release_call c (withdrawal_ReleaseRequest x)) (rl_world r)"
      by (simp_all add: withdrawal_recovers_def)
    obtain w2 k where sub: "releaseWithRetry c (withdrawal_ReleaseRequest x) (rl_world r) = (w2, k, None)" "good w2" using release_recovers [OF cr] by blast
    obtain f where mark: "store_MarkProcessed (rl_store r) (rl_file r) ?k = ((rl_store r)\<lparr>st_processed := List.insert ?k (st_processed (rl_store r))\<rparr>, f, None)"
      and rel: "relayed good {?k} r \<lparr>rl_world = w2, rl_store = (rl_store r)\<lparr>st_processed := List.insert ?k (st_processed (rl_store r))\<rparr>, rl_file = f\<rparr>"
      (is "relayed _ _ _ ?r1")
      using relayed_step [where good = good, OF Cons.prems(3) sub(2)] by blast
    let ?sm = "sm\<lparr>rs_WithdrawalReleaseAttempts := rs_WithdrawalReleaseAttempts sm + k, rs_WithdrawalsReleased := rs_WithdrawalsReleased sm + 1\<rparr>"
    have "good (rl_world ?r1)" "disk_works (rl_store ?r1) (rl_file ?r1)" using rel by (simp_all only: relayed_def)
    moreover have "\<forall>x \<in> set xs. withdrawal_recovers c good x" using Cons.prems(1) by simp
    ultimately obtain r' sm' where rest: "withdrawal_loop c xs ?r1 ?sm = (r', sm', None)"
      "relayed good (withdrawal_ReplayKey ` set xs) ?r1 r'" "rs_DepositsSubmitted sm' = rs_DepositsSubmitted ?sm"
      "rs_WithdrawalsReleased sm' = rs_WithdrawalsReleased ?sm + card (withdrawal_ReplayKey ` set xs - set (st_processed (rl_store ?r1)))" using Cons.IH [of ?r1 ?sm] by blast
    have "withdrawal_loop c (x # xs) r sm = (r', sm', None)"
      using False valid sub(1) mark rest(1) by (simp add: Let_def)
    moreover have "relayed good (withdrawal_ReplayKey ` set (x # xs)) r r'" using relayed_trans [OF rel rest(2)] by simp
    moreover have "rs_WithdrawalsReleased sm' = rs_WithdrawalsReleased sm + card (withdrawal_ReplayKey ` set (x # xs) - set (st_processed (rl_store r)))"
      using rest(4) False card_fresh [of "withdrawal_ReplayKey ` set xs" ?k "set (st_processed (rl_store r))"] by (simp add: store_IsProcessed_def)
    ultimately show ?thesis using rest(3) by auto
  qed
qed

text \<open>The save of a cursor after a loop.\<close>

lemma relayed_save:
  assumes "relayed good ks r r'"
  shows "\<exists>f. store_SaveCheckpoint (rl_store r') (rl_file r') key v = ((rl_store r')\<lparr>st_checkpoints := gomap_set key v (st_checkpoints (rl_store r'))\<rparr>, f, None)
     \<and> disk_works ((rl_store r')\<lparr>st_checkpoints := gomap_set key v (st_checkpoints (rl_store r'))\<rparr>) f"
  using save_works [of "rl_store r'" "rl_file r'" key v] assms by (auto simp: relayed_def disk_works_def)

lemma runDeposits_recovers:
  assumes "co_depositWatcher c (rl_world r) (store_Checkpoint (rl_store r) depositCheckpointKey) = (w, events, cursor, None)"
    "\<forall>e \<in> set events. deposit_recovers c good e" "good w" "disk_works (rl_store r) (rl_file r)"
  shows "\<exists>r' sm'. runDeposits c r sm = (r', sm', None) \<and> good (rl_world r') \<and> disk_works (rl_store r') (rl_file r')
     \<and> st_checkpoints (rl_store r') = gomap_set depositCheckpointKey cursor (st_checkpoints (rl_store r))
     \<and> set (st_processed (rl_store r')) = set (st_processed (rl_store r)) \<union> event_ReplayKey ` set events
     \<and> rs_WithdrawalsReleased sm' = rs_WithdrawalsReleased sm
     \<and> rs_DepositsSubmitted sm' = rs_DepositsSubmitted sm + card (event_ReplayKey ` set events - set (st_processed (rl_store r)))"
proof -
  let ?sm = "sm\<lparr>rs_DepositFromBlock := store_Checkpoint (rl_store r) depositCheckpointKey, rs_DepositsObserved := length events\<rparr>"
  have "good (rl_world (r\<lparr>rl_world := w\<rparr>))" "disk_works (rl_store (r\<lparr>rl_world := w\<rparr>)) (rl_file (r\<lparr>rl_world := w\<rparr>))" using assms by simp_all
  from deposit_loop_recovers [OF assms(2) this, of ?sm] obtain r1 sm1 where loop: "deposit_loop c events (r\<lparr>rl_world := w\<rparr>) ?sm = (r1, sm1, None)"
    and rel: "relayed good (event_ReplayKey ` set events) (r\<lparr>rl_world := w\<rparr>) r1"
    and n: "rs_WithdrawalsReleased sm1 = rs_WithdrawalsReleased sm" "rs_DepositsSubmitted sm1 = rs_DepositsSubmitted sm + card (event_ReplayKey ` set events - set (st_processed (rl_store r)))"
    by auto
  obtain f where "store_SaveCheckpoint (rl_store r1) (rl_file r1) depositCheckpointKey cursor
      = ((rl_store r1)\<lparr>st_checkpoints := gomap_set depositCheckpointKey cursor (st_checkpoints (rl_store r1))\<rparr>, f, None)"
    "disk_works ((rl_store r1)\<lparr>st_checkpoints := gomap_set depositCheckpointKey cursor (st_checkpoints (rl_store r1))\<rparr>) f"
    using relayed_save [OF rel] by blast
  with loop rel n assms(1) show ?thesis by (simp add: runDeposits_def Let_def relayed_def)
qed

lemma runWithdrawals_recovers:
  assumes "co_withdrawalWatcher c (rl_world r) (store_Checkpoint (rl_store r) withdrawalCheckpointKey) = (w, ws, cursor, None)"
    "\<forall>x \<in> set ws. withdrawal_recovers c good x" "good w" "disk_works (rl_store r) (rl_file r)"
  shows "\<exists>r' sm'. runWithdrawals c r sm = (r', sm', None) \<and> good (rl_world r') \<and> disk_works (rl_store r') (rl_file r')
     \<and> st_checkpoints (rl_store r') = gomap_set withdrawalCheckpointKey cursor (st_checkpoints (rl_store r))
     \<and> set (st_processed (rl_store r')) = set (st_processed (rl_store r)) \<union> withdrawal_ReplayKey ` set ws
     \<and> rs_DepositsSubmitted sm' = rs_DepositsSubmitted sm
     \<and> rs_WithdrawalsReleased sm' = rs_WithdrawalsReleased sm + card (withdrawal_ReplayKey ` set ws - set (st_processed (rl_store r)))"
proof -
  let ?sm = "sm\<lparr>rs_WithdrawalFromHeight := store_Checkpoint (rl_store r) withdrawalCheckpointKey, rs_WithdrawalsObserved := length ws\<rparr>"
  have "good (rl_world (r\<lparr>rl_world := w\<rparr>))" "disk_works (rl_store (r\<lparr>rl_world := w\<rparr>)) (rl_file (r\<lparr>rl_world := w\<rparr>))" using assms by simp_all
  from withdrawal_loop_recovers [OF assms(2) this, of ?sm] obtain r1 sm1 where loop: "withdrawal_loop c ws (r\<lparr>rl_world := w\<rparr>) ?sm = (r1, sm1, None)"
    and rel: "relayed good (withdrawal_ReplayKey ` set ws) (r\<lparr>rl_world := w\<rparr>) r1"
    and n: "rs_DepositsSubmitted sm1 = rs_DepositsSubmitted sm"
      "rs_WithdrawalsReleased sm1 = rs_WithdrawalsReleased sm + card (withdrawal_ReplayKey ` set ws - set (st_processed (rl_store r)))"
    by auto
  obtain f where "store_SaveCheckpoint (rl_store r1) (rl_file r1) withdrawalCheckpointKey cursor
      = ((rl_store r1)\<lparr>st_checkpoints := gomap_set withdrawalCheckpointKey cursor (st_checkpoints (rl_store r1))\<rparr>, f, None)"
    "disk_works ((rl_store r1)\<lparr>st_checkpoints := gomap_set withdrawalCheckpointKey cursor (st_checkpoints (rl_store r1))\<rparr>) f"
    using relayed_save [OF rel] by blast
  with loop rel n assms(1) show ?thesis by (simp add: runWithdrawals_def Let_def relayed_def)
qed

text \<open>The endpoints recover: from every good world both watchers answer with a good world and with items that are relayed within the retry limit.\<close>

definition endpoints_recover :: "'w Coordinator \<Rightarrow> ('w \<Rightarrow> bool) \<Rightarrow> bool" where
  "endpoints_recover c good \<longleftrightarrow>
     (\<forall>w from. good w \<longrightarrow>
        (case co_depositWatcher c w from of (w', events, cursor, err) \<Rightarrow> err = None \<and> good w' \<and> (\<forall>e \<in> set events. deposit_recovers c good e))
        \<and> (case co_withdrawalWatcher c w from of (w', ws, cursor, err) \<Rightarrow> err = None \<and> good w' \<and> (\<forall>x \<in> set ws. withdrawal_recovers c good x)))"

lemma endpoints_recoverD:
  assumes "endpoints_recover c good" "good w"
  shows "\<exists>w' events cursor. co_depositWatcher c w from = (w', events, cursor, None) \<and> good w' \<and> (\<forall>e \<in> set events. deposit_recovers c good e)"
    and "\<exists>w' ws cursor. co_withdrawalWatcher c w from = (w', ws, cursor, None) \<and> good w' \<and> (\<forall>x \<in> set ws. withdrawal_recovers c good x)"
proof -
  from assms(1) [unfolded endpoints_recover_def, rule_format, OF assms(2), of "from"]
  have "case co_depositWatcher c w from of (w', events, cursor, err) \<Rightarrow> err = None \<and> good w' \<and> (\<forall>e \<in> set events. deposit_recovers c good e)"
    "case co_withdrawalWatcher c w from of (w', ws, cursor, err) \<Rightarrow> err = None \<and> good w' \<and> (\<forall>x \<in> set ws. withdrawal_recovers c good x)" by simp_all
  then show "\<exists>w' events cursor. co_depositWatcher c w from = (w', events, cursor, None) \<and> good w' \<and> (\<forall>e \<in> set events. deposit_recovers c good e)"
    "\<exists>w' ws cursor. co_withdrawalWatcher c w from = (w', ws, cursor, None) \<and> good w' \<and> (\<forall>x \<in> set ws. withdrawal_recovers c good x)"
    by (cases "co_depositWatcher c w from"; cases "co_withdrawalWatcher c w from"; simp)+
qed


section \<open>Polling\<close>

text \<open>C21: polling the deposit log and the withdrawals of the chain again and again, from cursor to cursor, yields each event of the final
  history from the first cursor up to the last one exactly once and in the order of the chain, whatever the number of polls and the
  blocks at which they happen.\<close>

theorem polling_delivers_history:
  assumes "\<forall>w \<in> set worlds. shows_history (log_answers path) (log_tip path conf) (log_events path) de_BlockNumber H w
      \<and> shows_history (withdrawals_answer path') (withdrawals_tip path' conf') (withdrawals_seen path') wd_BlockHeight W w"
  shows "(case poll_all (evm_Observe fw_ctx (Some (FileLogSource path)) conf) worlds from of (events, cursor) \<Rightarrow>
       from \<le> cursor \<and> events = sort_key event_order (filter (\<lambda>e. from \<le> de_BlockNumber e \<and> de_BlockNumber e < cursor) H))
     \<and> (case poll_all (cosmos_Observe fw_ctx (Some (FileWithdrawalSource path')) conf') worlds from of (ws, cursor) \<Rightarrow>
       from \<le> cursor \<and> ws = sort_key withdrawal_order (filter (\<lambda>w. from \<le> wd_BlockHeight w \<and> wd_BlockHeight w < cursor) W))"
  using assms by (intro conjI evm_poll.poll_all_final cosmos_poll.poll_all_final) blast+

section \<open>Examples\<close>

text \<open>Endpoints at which every second call to the outside fails for a while.\<close>

definition example_withdrawal :: Withdrawal where
  "example_withdrawal =
     (let i = \<lparr>ci_Kind = ''withdrawal'', ci_SourceAssetKind = ''native_eth'', ci_SourceChainID = ''aegislink-1'',
               ci_SourceContract = [], ci_SourceTxHash = ''0xcd'', ci_SourceLogIndex = 0, ci_Nonce = 1, ci_MessageID = []\<rparr>
      in \<lparr>wd_BlockHeight = 3, wd_Identity = i\<lparr>ci_MessageID := DerivedMessageID i\<rparr>, wd_AssetID = ''eth'', wd_AssetAddress = ''0x01'',
          wd_Amount = Some 5, wd_Recipient = ''0x02'', wd_Deadline = 100, wd_Signature = ''s''\<rparr>)"

definition flaky_coordinator :: "bool Coordinator" where
  "flaky_coordinator =
     \<lparr>co_CosmosChainID = ''aegislink-1'', co_SubmissionRetryLimit = 2,
      co_depositWatcher = (\<lambda>w from. (w, [example_event, example_event], 6, None)),
      co_collector = (\<lambda>w m h. (w, Inr example_collected)),
      co_submitter = (\<lambda>w claim att. if w then (False, Some (TemporaryError None)) else (True, None)),
      co_withdrawalWatcher = (\<lambda>w from. (w, [example_withdrawal], 4, None)),
      co_evmRelease = (\<lambda>w request. if w then (False, Inl (TemporaryError None)) else (True, Inr ''0x''))\<rparr>"

definition flaky_relay :: "bool Relay" where
  "flaky_relay = \<lparr>rl_world = True, rl_store = store_NewStore, rl_file = \<lparr>fl_content = None, fl_fault = None, fl_writes = []\<rparr>\<rparr>"

lemma example_withdrawal_valid: "withdrawal_Validate example_withdrawal = None"
proof -
  have zero: "\<not> relay_isZeroHexAddress ''0x02''" by code_simp
  have id: "ci_MessageID (wd_Identity example_withdrawal) = DerivedMessageID (wd_Identity example_withdrawal)"
    by (simp add: example_withdrawal_def Let_def DerivedMessageID_def)
  have "identity_ValidateBasic (wd_Identity example_withdrawal) = None"
    unfolding identity_ValidateBasic_def id by (simp add: Let_def) (simp add: example_withdrawal_def Let_def go_eval)
  with zero show ?thesis
    by (simp add: withdrawal_Validate_def) (simp add: example_withdrawal_def not_positive_def Let_def go_eval)
qed

lemma flaky_call: "call_recovers (\<lambda>_. True) 2 (\<lambda>w. if w then (False, Some (TemporaryError None)) else (True, None)) w"
  unfolding call_recovers_def by (cases w) (rule exI [of _ "Suc 0"], simp, rule exI [of _ 0], simp)

lemma flaky_recovers: "endpoints_recover flaky_coordinator (\<lambda>_. True)"
proof -
  have "release_call flaky_coordinator request = (\<lambda>w. if w then (False, Some (TemporaryError None)) else (True, None))" for request
    by (rule ext) (simp add: release_call_def flaky_coordinator_def)
  moreover have "co_SubmissionRetryLimit flaky_coordinator = 2" by (simp add: flaky_coordinator_def)
  ultimately have "withdrawal_recovers flaky_coordinator (\<lambda>_. True) example_withdrawal"
    using flaky_call by (simp add: withdrawal_recovers_def example_withdrawal_valid)
  moreover have "deposit_recovers flaky_coordinator (\<lambda>_. True) example_event"
    using flaky_call by (simp add: deposit_recovers_def flaky_coordinator_def example_event_decoded example_claim_valid)
  ultimately show ?thesis by (simp add: endpoints_recover_def) (simp add: flaky_coordinator_def)
qed


theorem daemon_ends_witness:
  "\<exists>r' events err. daemon_Run (\<lambda>r. False) (\<lambda>r d. (r, False)) flaky_coordinator
       \<lparr>dm_PollInterval = 0, dm_FailureBackoff = 0, dm_MaxConsecutiveRuns = 3\<rparr> flaky_relay = Some (r', events, err)
     \<and> length events \<le> 3"
  using daemon_ends [of "\<lparr>dm_PollInterval = 0, dm_FailureBackoff = 0, dm_MaxConsecutiveRuns = 3\<rparr>" "\<lambda>r. False" "\<lambda>r d. (r, False)" flaky_coordinator flaky_relay]
  by fastforce

text \<open>Two polls, at the blocks 3 and 7, of a log with one deposit in block 3.\<close>

definition poll_world :: "u64 \<Rightarrow> FileWorld" where
  "poll_world latest = example_world\<lparr>fw_evm := empty_file\<lparr>fl_content := Some \<lparr>ds_LatestBlock = latest, ds_DepositEvents = [example_logged]\<rparr>\<rparr>\<rparr>"

theorem polling_delivers_history_witness:
  "poll_all (evm_Observe fw_ctx (Some (FileLogSource ''evm.json'')) 2) [poll_world 3, poll_world 7] 0 = ([example_event], 6)"
proof -
  have load: "log_load ''evm.json'' (poll_world n) = Inr \<lparr>ds_LatestBlock = n, ds_DepositEvents = [example_logged]\<rparr>"
    "withdrawal_load ''cosmos.json'' (poll_world n) = Inr \<lparr>wt_LatestHeight = 0, wt_Withdrawals = []\<rparr>" "fw_ctx (poll_world n) = None" for n
    by (simp_all add: log_load_def withdrawal_load_def load_json_def read_file_def poll_world_def example_world_def empty_file_def)
  have "\<forall>w \<in> set [poll_world 3, poll_world 7].
      shows_history (log_answers ''evm.json'') (log_tip ''evm.json'' 2) (log_events ''evm.json'') de_BlockNumber [example_event] w
      \<and> shows_history (withdrawals_answer ''cosmos.json'') (withdrawals_tip ''cosmos.json'' 1) (withdrawals_seen ''cosmos.json'') wd_BlockHeight [] w"
    by (simp add: shows_history_def log_answers_def log_tip_def log_events_def log_state_def withdrawals_answer_def withdrawals_tip_def
        withdrawals_seen_def withdrawal_state_def load returns_def example_event_decoded file_tip_def)
  from polling_delivers_history [OF this, of 0]
  have "case poll_all (evm_Observe fw_ctx (Some (FileLogSource ''evm.json'')) 2) [poll_world 3, poll_world 7] 0 of (events, cursor) \<Rightarrow>
      events = sort_key event_order (filter (\<lambda>e. 0 \<le> de_BlockNumber e \<and> de_BlockNumber e < cursor) [example_event])" by (simp split: prod.splits)
  moreover have "snd (poll_all (evm_Observe fw_ctx (Some (FileLogSource ''evm.json'')) 2) [poll_world 3, poll_world 7] 0) = 6"
    by (simp add: evm_Observe_def FileLogSource_def file_LatestBlock_def file_DepositEvents_def load Let_def example_event_decoded split: prod.splits)
  ultimately show ?thesis
    by (cases "poll_all (evm_Observe fw_ctx (Some (FileLogSource ''evm.json'')) 2) [poll_world 3, poll_world 7] 0") (simp add: example_event_decoded)
qed

end
