(* ===== verification/Route.thy ===== *)
theory Route
  imports RelayProgress IBCRouterState
begin

text \<open>
  The route relayer: \<^verbatim>\<open>relayer/internal/route/relay.go\<close>. It hands the pending transfers of the chain to the destination as
  delivery envelopes, collects the acknowledgements of the destination and settles the transfers on the chain. The memo
  of a transfer may name an action for the destination, a swap or a stake, with options.
\<close>

section \<open>Quoting\<close>

text \<open>\<^verbatim>\<open>%q\<close> of the package fmt on text: quotes, backslashes and ASCII control characters are escaped. Text beyond ASCII
  is kept as it is; Go escapes unprintable runes in it, too.\<close>

definition quote_char :: "char \<Rightarrow> string" where
  "quote_char c =
     (let n = (of_char c :: nat) in
      if n = 34 \<or> n = 92 then [CHR 0x5C, c]
      else if n = 7 then [CHR 0x5C, CHR ''a''] else if n = 8 then [CHR 0x5C, CHR ''b'']
      else if n = 12 then [CHR 0x5C, CHR ''f''] else if n = 10 then [CHR 0x5C, CHR ''n'']
      else if n = 13 then [CHR 0x5C, CHR ''r''] else if n = 9 then [CHR 0x5C, CHR ''t'']
      else if n = 11 then [CHR 0x5C, CHR ''v'']
      else if n < 32 \<or> n = 127 then [CHR 0x5C, CHR ''x'', hex_digit (n div 16), hex_digit (n mod 16)]
      else [c])"

definition Quote :: "string \<Rightarrow> string" where
  "Quote s = CHR 0x22 # concat (map quote_char s) @ [CHR 0x22]"

section \<open>Transfers, packets and acknowledgements\<close>

record Transfer =
  tf_TransferID :: string
  tf_AssetID :: string
  tf_Amount :: string
  tf_Receiver :: string
  tf_DestinationChainID :: string
  tf_ChannelID :: string
  tf_DestinationDenom :: string
  tf_TimeoutHeight :: u64
  tf_Memo :: string
  tf_Status :: string
  tf_FailureReason :: string

record PacketData =
  pk_Denom :: string
  pk_Amount :: string
  pk_Sender :: string
  pk_Receiver :: string
  pk_Memo :: string

record Packet =
  pk_Sequence :: u64
  pk_SourcePort :: string
  pk_SourceChannel :: string
  pk_DestinationPort :: string
  pk_TimeoutHeight :: u64
  pk_Data :: PacketData

record DenomTrace =
  dt_Path :: string
  dt_BaseDenom :: string
  dt_IBCDenom :: string

record RouteAction =
  ra_Type :: string
  ra_TargetDenom :: string
  ra_MinOut :: string
  ra_Recipient :: string
  ra_Path :: string

record DeliveryEnvelope =
  dv_Transfer :: Transfer
  dv_Packet :: Packet
  dv_DenomTrace :: DenomTrace
  dv_Action :: "RouteAction option"
  dv_ActionError :: string

abbreviation (input) routePacketSender :: string where "routePacketSender \<equiv> ''aegislink1ibcrouter''"

abbreviation (input) AckStatusReceived :: string where "AckStatusReceived \<equiv> ''received''"
abbreviation (input) AckStatusCompleted :: string where "AckStatusCompleted \<equiv> ''completed''"
abbreviation (input) AckStatusFailed :: string where "AckStatusFailed \<equiv> ''ack_failed''"
abbreviation (input) AckStatusTimedOut :: string where "AckStatusTimedOut \<equiv> ''timed_out''"

record Ack =
  ak_Status :: string
  ak_Reason :: string

record AckRecord =
  ar_TransferID :: string
  ar_Status :: string
  ar_Reason :: string

section \<open>Actions in memos\<close>

text \<open>The loop over the options. \<open>kind\<close> is the action type, which also stands in the messages; only a swap has the option \<^verbatim>\<open>min_out\<close>.\<close>

fun action_options :: "string \<Rightarrow> string list \<Rightarrow> string list \<Rightarrow> RouteAction \<Rightarrow> RouteAction option \<times> string" where
  "action_options kind [] seen action = (Some action, '''')"
| "action_options kind (part0 # parts) seen action =
     (let part = TrimSpace part0 in
      if part = '''' then (None, ''empty '' @ kind @ '' option'')
      else case Cut part (CHR ''='') of (key0, value0, ok) \<Rightarrow>
      if \<not> ok then (None, ''invalid '' @ kind @ '' option '' @ Quote part)
      else let key = TrimSpace key0; val = TrimSpace value0 in
      if key = '''' \<or> val = '''' then (None, ''invalid '' @ kind @ '' option '' @ Quote part)
      else if key \<in> set seen then (None, ''duplicate '' @ kind @ '' option '' @ Quote key)
      else if key = ''min_out'' \<and> kind = ''swap'' then action_options kind parts (key # seen) (action\<lparr>ra_MinOut := val\<rparr>)
      else if key = ''recipient'' then action_options kind parts (key # seen) (action\<lparr>ra_Recipient := val\<rparr>)
      else if key = ''path'' then action_options kind parts (key # seen) (action\<lparr>ra_Path := val\<rparr>)
      else (None, ''unsupported '' @ kind @ '' option '' @ Quote key))"

definition parseRouteAction :: "string \<Rightarrow> RouteAction option \<times> string" where
  "parseRouteAction memo0 =
     (let memo = TrimSpace memo0 in
      if memo = '''' then (None, '''')
      else case Split memo (CHR '':'') of
        [] \<Rightarrow> (None, '''')
      | [part] \<Rightarrow> if TrimSpace part = ''swap'' then (None, ''missing target denom for swap action'') else (None, '''')
      | part # target # options \<Rightarrow>
          let actionType = TrimSpace part in
          if actionType = ''swap'' \<or> actionType = ''stake''
          then let targetDenom = TrimSpace target in
            if targetDenom = '''' then (None, ''missing target denom for '' @ actionType @ '' action'')
            else action_options actionType options []
                   \<lparr>ra_Type = actionType, ra_TargetDenom = targetDenom, ra_MinOut = '''', ra_Recipient = '''', ra_Path = ''''\<rparr>
          else (None, ''unsupported route action '' @ Quote actionType))"

section \<open>Envelopes\<close>

definition parseTransferSequence :: "string \<Rightarrow> relay_error + u64" where
  "parseTransferSequence transferID =
     (case ParseUint64 (last (Split (TrimSpace transferID) (CHR ''/''))) of
        None \<Rightarrow> Inl (RelayError (''invalid transfer id '' @ Quote transferID))
      | Some sequence \<Rightarrow> Inr sequence)"

definition buildDeliveryEnvelope :: "Transfer \<Rightarrow> relay_error + DeliveryEnvelope" where
  "buildDeliveryEnvelope transfer =
     (case parseTransferSequence (tf_TransferID transfer) of
        Inl e \<Rightarrow> Inl e
      | Inr sequence \<Rightarrow>
          let channelID = TrimSpace (tf_ChannelID transfer);
              assetID = TrimSpace (tf_AssetID transfer);
              receiver = TrimSpace (tf_Receiver transfer)
          in if channelID = '''' then Inl (RelayError (''missing channel id for transfer '' @ tf_TransferID transfer))
             else if assetID = '''' then Inl (RelayError (''missing asset id for transfer '' @ tf_TransferID transfer))
             else if receiver = '''' then Inl (RelayError (''missing receiver for transfer '' @ tf_TransferID transfer))
             else case parseRouteAction (tf_Memo transfer) of (action, actionErr) \<Rightarrow>
               Inr \<lparr>dv_Transfer = transfer,
                    dv_Packet =
                      \<lparr>pk_Sequence = sequence, pk_SourcePort = ''transfer'', pk_SourceChannel = channelID, pk_DestinationPort = ''transfer'',
                       pk_TimeoutHeight = tf_TimeoutHeight transfer,
                       pk_Data = \<lparr>pk_Denom = assetID, pk_Amount = TrimSpace (tf_Amount transfer), pk_Sender = routePacketSender,
                                  pk_Receiver = receiver, pk_Memo = TrimSpace (tf_Memo transfer)\<rparr>\<rparr>,
                    dv_DenomTrace = \<lparr>dt_Path = ''transfer/'' @ channelID, dt_BaseDenom = assetID, dt_IBCDenom = TrimSpace (tf_DestinationDenom transfer)\<rparr>,
                    dv_Action = action, dv_ActionError = actionErr\<rparr>)"

section \<open>A run\<close>

text \<open>The three interfaces of the relayer.\<close>

record 'w RouteRelayer =
  rx_PendingTransfers :: "'w \<Rightarrow> 'w \<times> (relay_error + Transfer list)"
  rx_CompleteTransfer :: "'w \<Rightarrow> string \<Rightarrow> 'w \<times> relay_error option"
  rx_FailTransfer :: "'w \<Rightarrow> string \<Rightarrow> string \<Rightarrow> 'w \<times> relay_error option"
  rx_TimeoutTransfer :: "'w \<Rightarrow> string \<Rightarrow> 'w \<times> relay_error option"
  rx_SubmitTransfer :: "'w \<Rightarrow> Transfer \<Rightarrow> 'w \<times> (relay_error + Ack)"
  rx_ReadyAcks :: "'w \<Rightarrow> 'w \<times> (relay_error + AckRecord list)"
  rx_ConfirmAck :: "'w \<Rightarrow> string \<Rightarrow> 'w \<times> relay_error option"

record RouteSummary =
  ru_ReadyAcks :: nat
  ru_CompletedAcks :: nat
  ru_FailedAcks :: nat
  ru_TimedOutAcks :: nat
  ru_TransfersObserved :: nat
  ru_TransfersDelivered :: nat
  ru_ReceivedDeliveries :: nat

definition zeroRouteSummary :: RouteSummary where
  "zeroRouteSummary =
     \<lparr>ru_ReadyAcks = 0, ru_CompletedAcks = 0, ru_FailedAcks = 0, ru_TimedOutAcks = 0, ru_TransfersObserved = 0,
      ru_TransfersDelivered = 0, ru_ReceivedDeliveries = 0\<rparr>"

definition applyAck :: "'w RouteRelayer \<Rightarrow> 'w \<Rightarrow> string \<Rightarrow> Ack \<Rightarrow> 'w \<times> relay_error option" where
  "applyAck r w transferID ack =
     (if ak_Status ack = AckStatusCompleted then rx_CompleteTransfer r w transferID
      else if ak_Status ack = AckStatusFailed then rx_FailTransfer r w transferID (ak_Reason ack)
      else if ak_Status ack = AckStatusTimedOut then rx_TimeoutTransfer r w transferID
      else (w, Some (RelayError (''unexpected ack status '' @ Quote (ak_Status ack)))))"

definition recordAck :: "string \<Rightarrow> RouteSummary \<Rightarrow> RouteSummary" where
  "recordAck status s =
     (if status = AckStatusCompleted then s\<lparr>ru_CompletedAcks := ru_CompletedAcks s + 1\<rparr>
      else if status = AckStatusFailed then s\<lparr>ru_FailedAcks := ru_FailedAcks s + 1\<rparr>
      else if status = AckStatusTimedOut then s\<lparr>ru_TimedOutAcks := ru_TimedOutAcks s + 1\<rparr>
      else s)"

fun ack_loop :: "'w RouteRelayer \<Rightarrow> AckRecord list \<Rightarrow> 'w \<Rightarrow> RouteSummary \<Rightarrow> 'w \<times> RouteSummary \<times> relay_error option" where
  "ack_loop r [] w summary = (w, summary, None)"
| "ack_loop r (ack # acks) w summary =
     (case applyAck r w (ar_TransferID ack) \<lparr>ak_Status = ar_Status ack, ak_Reason = ar_Reason ack\<rparr> of
        (w1, Some e) \<Rightarrow> (w1, summary, Some e)
      | (w1, None) \<Rightarrow>
          let summary1 = recordAck (ar_Status ack) summary in
          case rx_ConfirmAck r w1 (ar_TransferID ack) of
            (w2, Some e) \<Rightarrow> (w2, summary1, Some e)
          | (w2, None) \<Rightarrow> ack_loop r acks w2 summary1)"

fun delivery_loop :: "'w RouteRelayer \<Rightarrow> Transfer list \<Rightarrow> 'w \<Rightarrow> RouteSummary \<Rightarrow> 'w \<times> RouteSummary \<times> relay_error option" where
  "delivery_loop r [] w summary = (w, summary, None)"
| "delivery_loop r (transfer # transfers) w summary =
     (case rx_SubmitTransfer r w transfer of
        (w1, Inl e) \<Rightarrow> (w1, summary, Some e)
      | (w1, Inr ack) \<Rightarrow>
          let summary1 = summary\<lparr>ru_TransfersDelivered := ru_TransfersDelivered summary + 1\<rparr> in
          if ak_Status ack = '''' \<or> ak_Status ack = AckStatusReceived
          then delivery_loop r transfers w1 (summary1\<lparr>ru_ReceivedDeliveries := ru_ReceivedDeliveries summary1 + 1\<rparr>)
          else case applyAck r w1 (tf_TransferID transfer) ack of
            (w2, Some e) \<Rightarrow> (w2, summary1, Some e)
          | (w2, None) \<Rightarrow> delivery_loop r transfers w2 (recordAck (ak_Status ack) summary1))"

definition route_RunOnceWithSummary :: "'w RouteRelayer \<Rightarrow> 'w \<Rightarrow> 'w \<times> RouteSummary \<times> relay_error option" where
  "route_RunOnceWithSummary r w =
     (case rx_ReadyAcks r w of
        (w1, Inl e) \<Rightarrow> (w1, zeroRouteSummary, Some e)
      | (w1, Inr readyAcks) \<Rightarrow>
      case ack_loop r readyAcks w1 (zeroRouteSummary\<lparr>ru_ReadyAcks := length readyAcks\<rparr>) of
        (w2, summary, Some e) \<Rightarrow> (w2, summary, Some e)
      | (w2, summary, None) \<Rightarrow>
      case rx_PendingTransfers r w2 of
        (w3, Inl e) \<Rightarrow> (w3, summary, Some e)
      | (w3, Inr transfers) \<Rightarrow> delivery_loop r transfers w3 (summary\<lparr>ru_TransfersObserved := length transfers\<rparr>))"

text \<open>The loop has the defaults and the rounds of the daemon.\<close>

definition route_RunLoop ::
    "('w \<Rightarrow> bool) \<Rightarrow> ('w \<Rightarrow> int \<Rightarrow> 'w \<times> bool) \<Rightarrow> 'w RouteRelayer \<Rightarrow> DaemonConfig \<Rightarrow> 'w
     \<Rightarrow> ('w \<times> RouteSummary LoopEvent list \<times> relay_error option) option" where
  "route_RunLoop ended wait r cfg w =
     (let pollInterval = (if dm_PollInterval cfg \<le> 0 then 1000000000 else dm_PollInterval cfg);
          failureBackoff = (if dm_FailureBackoff cfg \<le> 0 then 5 * 1000000000 else dm_FailureBackoff cfg)
      in run_loop ended wait (route_RunOnceWithSummary r) (cfg\<lparr>dm_PollInterval := pollInterval, dm_FailureBackoff := failureBackoff\<rparr>) 1 0 [] w)"

section \<open>Sequences\<close>

lemma parseTransferSequence_id: "parseTransferSequence (transfer_id a n) = Inr n"
  by (simp add: parseTransferSequence_def transfer_id_trim transfer_id_last)

section \<open>Actions\<close>

text \<open>The memo that stands for an action: its parts, joined by colons.\<close>

fun join_colon :: "string list \<Rightarrow> string" where
  "join_colon [] = ''''"
| "join_colon [p] = p"
| "join_colon (p # ps) = p @ CHR '':'' # join_colon ps"

definition option_parts :: "string \<Rightarrow> string \<Rightarrow> string list" where
  "option_parts key val = (if val = '''' then [] else [key @ CHR ''='' # val])"

definition action_parts :: "RouteAction \<Rightarrow> string list" where
  "action_parts a =
     option_parts ''min_out'' (ra_MinOut a) @ option_parts ''recipient'' (ra_Recipient a) @ option_parts ''path'' (ra_Path a)"

definition render_action :: "RouteAction \<Rightarrow> string" where
  "render_action a = join_colon (ra_Type a # ra_TargetDenom a # action_parts a)"

definition plain :: "string \<Rightarrow> bool" where
  "plain s \<longleftrightarrow> list_all graphic s \<and> CHR '':'' \<notin> set s"

definition action_wf :: "RouteAction \<Rightarrow> bool" where
  "action_wf a \<longleftrightarrow>
     ra_Type a \<in> {''swap'', ''stake''} \<and> ra_TargetDenom a \<noteq> '''' \<and> plain (ra_TargetDenom a) \<and> plain (ra_MinOut a)
     \<and> plain (ra_Recipient a) \<and> plain (ra_Path a) \<and> (ra_Type a = ''stake'' \<longrightarrow> ra_MinOut a = '''')"

lemma plain_trim [simp]: "plain s \<Longrightarrow> TrimSpace s = s"
  by (simp add: plain_def TrimSpace_all_graphic list_all_iff)

lemma plain_literals: "plain ''swap''" "plain ''stake''" "plain ''min_out''" "plain ''recipient''" "plain ''path''"
  by code_simp+

lemma plain_option [simp]: "plain key \<Longrightarrow> plain val \<Longrightarrow> plain (key @ CHR ''='' # val)"
  by (simp add: plain_def) (simp add: graphic_def)

lemma Split_single: "sep \<notin> set s \<Longrightarrow> Split s sep = [s]"
  by (induction s) auto

lemma Split_append: "sep \<notin> set s \<Longrightarrow> Split (s @ sep # t) sep = s # Split t sep"
  by (induction s) auto

lemma Cut_append: "sep \<notin> set s \<Longrightarrow> Cut (s @ sep # t) sep = (s, t, True)"
  by (induction s) auto

lemma Cut_hd_Split: "fst (Cut s sep) = hd (Split s sep)"
  by (induction s) (auto split: prod.splits list.splits)

lemma Split_join: "ps \<noteq> [] \<Longrightarrow> list_all plain ps \<Longrightarrow> Split (join_colon ps) (CHR '':'') = ps"
  by (induction ps rule: join_colon.induct) (simp_all add: Split_single Split_append plain_def)

lemma join_graphic: "list_all plain ps \<Longrightarrow> list_all graphic (join_colon ps)"
  by (induction ps rule: join_colon.induct) (simp_all add: plain_def, simp add: graphic_def)

lemma plain_parts: "plain key \<Longrightarrow> plain val \<Longrightarrow> list_all plain (option_parts key val)"
  by (simp add: option_parts_def)

lemma routeActionType_Split:
  "TrimSpace memo \<noteq> [] \<Longrightarrow> routeActionType memo = TrimSpace (hd (Split (TrimSpace memo) (CHR '':'')))"
  using Cut_hd_Split [of "TrimSpace memo" "CHR '':''"] by (cases "Cut (TrimSpace memo) (CHR '':'')") (simp add: routeActionType_def)

lemma action_options_part:
  assumes "plain key" "plain val" "key \<noteq> ''''" "CHR ''='' \<notin> set key" "key \<notin> set seen"
  shows "action_options kind (option_parts key val @ parts) seen action =
     (if val = '''' then action_options kind parts seen action
      else if key = ''min_out'' \<and> kind = ''swap'' then action_options kind parts (key # seen) (action\<lparr>ra_MinOut := val\<rparr>)
      else if key = ''recipient'' then action_options kind parts (key # seen) (action\<lparr>ra_Recipient := val\<rparr>)
      else if key = ''path'' then action_options kind parts (key # seen) (action\<lparr>ra_Path := val\<rparr>)
      else (None, ''unsupported '' @ kind @ '' option '' @ Quote key))"
  using assms by (simp add: option_parts_def Cut_append Let_def)

lemma action_options_render:
  assumes "action_wf a"
  shows "action_options (ra_Type a) (action_parts a) []
      \<lparr>ra_Type = ra_Type a, ra_TargetDenom = ra_TargetDenom a, ra_MinOut = '''', ra_Recipient = '''', ra_Path = ''''\<rparr> = (Some a, '''')"
proof -
  have "option_parts ''path'' (ra_Path a) = option_parts ''path'' (ra_Path a) @ []" by simp
  then have parts: "action_parts a = option_parts ''min_out'' (ra_MinOut a) @ option_parts ''recipient'' (ra_Recipient a)
      @ option_parts ''path'' (ra_Path a) @ []" by (simp add: action_parts_def)
  have min: "ra_Type a \<noteq> ''swap'' \<Longrightarrow> option_parts ''min_out'' (ra_MinOut a) = []"
    using assms by (auto simp: action_wf_def option_parts_def)
  have keep: "\<lparr>ra_Type = ra_Type a, ra_TargetDenom = ra_TargetDenom a, ra_MinOut = ra_MinOut a, ra_Recipient = ra_Recipient a, ra_Path = ra_Path a\<rparr> = a"
    by simp
  show ?thesis
    unfolding parts using assms min keep
    by (cases "ra_Type a = ''swap''") (simp_all add: action_wf_def action_options_part plain_literals del: append_Nil2)
qed

text \<open>C24: the sequence number that the chain puts into a transfer id and an action that is written into a memo are read back by the relayer
  as they were; the memo's action type is the one that the policy of the route profile looked at.\<close>

theorem memo_round_trip:
  "parseTransferSequence (transfer_id assetID sequence) = Inr sequence
   \<and> (action_wf a \<longrightarrow> parseRouteAction (render_action a) = (Some a, '''') \<and> routeActionType (render_action a) = ra_Type a)"
proof (intro conjI impI)
  assume wf: "action_wf a"
  let ?ps = "ra_Type a # ra_TargetDenom a # action_parts a"
  have plain: "list_all plain ?ps"
    using wf by (auto simp: action_wf_def action_parts_def plain_parts plain_literals)
  have ne: "render_action a \<noteq> ''''"
    using wf by (cases "ra_Type a") (auto simp: action_wf_def render_action_def)
  have trim: "TrimSpace (render_action a) = render_action a"
    using join_graphic [OF plain] unfolding render_action_def list_all_iff by (intro TrimSpace_all_graphic) blast
  have split: "Split (render_action a) (CHR '':'') = ?ps"
    unfolding render_action_def by (rule Split_join) (use plain in simp_all)
  have ty: "TrimSpace (ra_Type a) = ra_Type a" "TrimSpace (ra_TargetDenom a) = ra_TargetDenom a" using plain by simp_all
  have kinds: "ra_Type a = ''swap'' \<or> ra_Type a = ''stake''" "ra_TargetDenom a \<noteq> ''''" using wf by (auto simp: action_wf_def)
  show "parseRouteAction (render_action a) = (Some a, '''')"
    using kinds action_options_render [OF wf] by (simp add: parseRouteAction_def trim ne split ty Let_def)
  show "routeActionType (render_action a) = ra_Type a"
    using ne by (simp add: routeActionType_Split trim split ty)
qed (rule parseTransferSequence_id)

text \<open>An action that is read has the type that the policy of a route looks at, and its fields are trimmed.\<close>

lemma action_options_type:
  "action_options kind parts seen action = (Some a, err) \<Longrightarrow> ra_Type a = ra_Type action \<and> ra_TargetDenom a = ra_TargetDenom action"
proof (induction parts arbitrary: seen action)
  case (Cons part0 parts)
  obtain key val ok where cut: "Cut (TrimSpace part0) (CHR ''='') = (key, val, ok)" by (metis prod_cases3)
  obtain seen' action' where "action_options kind parts seen' action' = (Some a, err)"
    "ra_Type action' = ra_Type action" "ra_TargetDenom action' = ra_TargetDenom action"
    using Cons.prems by (simp add: cut Let_def split: if_splits)
  with Cons.IH show ?case by metis
qed simp

lemma parsed_action_type:
  assumes "parseRouteAction memo = (Some a, err)"
  shows "ra_Type a = routeActionType memo \<and> ra_Type a \<in> {''swap'', ''stake''}"
proof -
  obtain part target options where split: "Split (TrimSpace memo) (CHR '':'') = part # target # options"
    and ne: "TrimSpace memo \<noteq> ''''" and kind: "TrimSpace part = ''swap'' \<or> TrimSpace part = ''stake''"
    and opts: "action_options (TrimSpace part) options []
        \<lparr>ra_Type = TrimSpace part, ra_TargetDenom = TrimSpace target, ra_MinOut = '''', ra_Recipient = '''', ra_Path = ''''\<rparr> = (Some a, err)"
    using assms by (auto simp: parseRouteAction_def Let_def split: if_splits list.splits)
  have "ra_Type a = TrimSpace part" using action_options_type [OF opts] by simp
  moreover have "routeActionType memo = TrimSpace part"
    using ne by (simp add: routeActionType_Split split)
  ultimately show ?thesis using kind by auto
qed

end
