(* ===== verification/MockTarget.thy ===== *)
theory MockTarget
  imports Route
begin

text \<open>
  The destination chain of the local setup: \<^verbatim>\<open>relayer/internal/route/mock_target.go\<close> and \<^verbatim>\<open>runtime_target.go\<close>. It receives
  packets, executes each one as a credit, a swap against a constant-product pool or a stake, and keeps an acknowledgement ready until
  the relayer confirms it. Amounts, reserves and balances are decimal strings, as in the code.
\<close>

section \<open>State\<close>

abbreviation (input) MockTargetModeSuccess :: string where "MockTargetModeSuccess \<equiv> ''success''"
abbreviation (input) MockTargetModeFail :: string where "MockTargetModeFail \<equiv> ''fail''"
abbreviation (input) MockTargetModeTimeout :: string where "MockTargetModeTimeout \<equiv> ''timeout''"
abbreviation (input) MockTargetModeManual :: string where "MockTargetModeManual \<equiv> ''manual''"

record MockTargetPacket =
  mp_TransferID :: string
  mp_DestinationChainID :: string
  mp_PacketState :: string
  mp_AckState :: string
  mp_AckReason :: string
  mp_AckPayload :: "Ack option"
  mp_AckRelayed :: bool
  mp_Packet :: Packet
  mp_DenomTrace :: DenomTrace
  mp_Action :: "RouteAction option"
  mp_ActionError :: string

record MockTargetExecution =
  mx_TransferID :: string
  mx_PacketSequence :: u64
  mx_Result :: string
  mx_Recipient :: string
  mx_InputDenom :: string
  mx_InputAmount :: string
  mx_OutputDenom :: string
  mx_OutputAmount :: string
  mx_DexChainID :: string
  mx_RoutePath :: string
  mx_Error :: string

record MockTargetSwap =
  sw_TransferID :: string
  sw_InputDenom :: string
  sw_OutputDenom :: string
  sw_InputAmount :: string
  sw_OutputAmount :: string
  sw_Recipient :: string
  sw_DexChainID :: string
  sw_RoutePath :: string

record MockTargetStake =
  sk_TransferID :: string
  sk_Denom :: string
  sk_Amount :: string
  sk_Staker :: string
  sk_Validator :: string

record MockTargetPool =
  po_InputDenom :: string
  po_OutputDenom :: string
  po_ReserveIn :: string
  po_ReserveOut :: string
  po_FeeBPS :: u32

record MockTargetBalance =
  bl_Address :: string
  bl_Denom :: string
  bl_Amount :: string

record MockTargetState =
  ms_Packets :: "MockTargetPacket list"
  ms_Receipts :: "MockTargetPacket list"
  ms_Executions :: "MockTargetExecution list"
  ms_Swaps :: "MockTargetSwap list"
  ms_Stakes :: "MockTargetStake list"
  ms_Pools :: "MockTargetPool list"
  ms_Balances :: "MockTargetBalance list"

record MockTarget =
  mt_mode :: string
  mt_delay :: int
  mt_statePath :: string
  mt_state :: MockTargetState

record MockTargetConfig =
  mc_Mode :: string
  mc_Delay :: int
  mc_StatePath :: string
  mc_Pools :: "MockTargetPool list"

definition zeroMockTargetState :: MockTargetState where
  "zeroMockTargetState =
     \<lparr>ms_Packets = [], ms_Receipts = [], ms_Executions = [], ms_Swaps = [], ms_Stakes = [], ms_Pools = [], ms_Balances = []\<rparr>"

section \<open>Amounts\<close>

definition parsePositiveDecimal :: "string \<Rightarrow> string \<Rightarrow> string + int" where
  "parsePositiveDecimal val label =
     (case SetString10 (TrimSpace val) of
        None \<Rightarrow> Inl (''invalid '' @ label @ '' '' @ Quote val)
      | Some parsed \<Rightarrow> if parsed \<le> 0 then Inl (''invalid '' @ label @ '' '' @ Quote val) else Inr parsed)"

definition addDecimalStrings :: "string \<Rightarrow> string \<Rightarrow> string + string" where
  "addDecimalStrings current delta =
     (case SetString10 (TrimSpace current) of
        None \<Rightarrow> Inl (''invalid balance amount '' @ Quote current)
      | Some currentInt \<Rightarrow>
      case SetString10 (TrimSpace delta) of
        None \<Rightarrow> Inl (''invalid credit amount '' @ Quote delta)
      | Some deltaInt \<Rightarrow> Inr (show_int (currentInt + deltaInt)))"

section \<open>Pools and balances\<close>

definition defaultMockTargetPools :: "MockTargetPool list" where
  "defaultMockTargetPools =
     [\<lparr>po_InputDenom = ''ibc/uatom-usdc'', po_OutputDenom = ''uosmo'', po_ReserveIn = ''500000000'', po_ReserveOut = ''1000000000'', po_FeeBPS = 0\<rparr>,
      \<lparr>po_InputDenom = ''ibc/uethusdc'', po_OutputDenom = ''uosmo'', po_ReserveIn = ''500000000'', po_ReserveOut = ''1000000000'', po_FeeBPS = 0\<rparr>]"

definition ensurePoolsLocked :: "MockTargetState \<Rightarrow> MockTargetState" where
  "ensurePoolsLocked st = (if ms_Pools st = [] then st\<lparr>ms_Pools := defaultMockTargetPools\<rparr> else st)"

definition defaultMockTargetBalances :: "MockTargetBalance list" where
  "defaultMockTargetBalances = [\<lparr>bl_Address = ''osmo1faucet'', bl_Denom = ''uosmo'', bl_Amount = ''1000000000''\<rparr>]"

definition ensureBalancesLocked :: "MockTargetState \<Rightarrow> MockTargetState" where
  "ensureBalancesLocked st = (if ms_Balances st = [] then st\<lparr>ms_Balances := defaultMockTargetBalances\<rparr> else st)"

text \<open>The input after the fee. The multiplier is computed on 32-bit unsigned integers before it is widened.\<close>

definition effective_input :: "u32 \<Rightarrow> int \<Rightarrow> string + int" where
  "effective_input feeBPS inputAmount =
     (if 0 < feeBPS
      then let feeMultiplier = uint (10000 - feeBPS);
               effectiveInput = inputAmount * feeMultiplier div 10000
           in if effectiveInput \<le> 0 then Inl ''effective input is zero after fee'' else Inr effectiveInput
      else Inr inputAmount)"

fun find_pool :: "string \<Rightarrow> string \<Rightarrow> MockTargetPool list \<Rightarrow> nat option" where
  "find_pool inDenom outDenom [] = None"
| "find_pool inDenom outDenom (pool # pools) =
     (if po_InputDenom pool = inDenom \<and> po_OutputDenom pool = outDenom then Some 0 else map_option Suc (find_pool inDenom outDenom pools))"

text \<open>The arithmetic of a swap in one pool: the output, and the pool after it.\<close>

definition pool_swap :: "MockTargetPool \<Rightarrow> string \<Rightarrow> string \<Rightarrow> string + int \<times> MockTargetPool" where
  "pool_swap pool amount minOut =
     (case parsePositiveDecimal (TrimSpace amount) ''swap amount'' of
        Inl e \<Rightarrow> Inl e
      | Inr inputAmount \<Rightarrow>
      case effective_input (po_FeeBPS pool) inputAmount of
        Inl e \<Rightarrow> Inl e
      | Inr effectiveInput \<Rightarrow>
      case parsePositiveDecimal (po_ReserveIn pool) ''pool reserve in'' of
        Inl e \<Rightarrow> Inl e
      | Inr reserveIn \<Rightarrow>
      case parsePositiveDecimal (po_ReserveOut pool) ''pool reserve out'' of
        Inl e \<Rightarrow> Inl e
      | Inr reserveOut \<Rightarrow>
      let numerator = reserveOut * effectiveInput; denominator = reserveIn + effectiveInput in
      if denominator \<le> 0 then Inl ''invalid pool denominator''
      else
        let outputAmount = numerator div denominator in
        if outputAmount \<le> 0 \<or> reserveOut \<le> outputAmount
        then Inl (''insufficient liquidity for '' @ po_InputDenom pool @ '' -> '' @ po_OutputDenom pool)
        else
          case (if TrimSpace minOut = '''' then Inr None
                else case parsePositiveDecimal (TrimSpace minOut) ''min_out'' of Inl e \<Rightarrow> Inl e | Inr m \<Rightarrow> Inr (Some m)) of
            Inl e \<Rightarrow> Inl e
          | Inr limit \<Rightarrow>
              let updated = pool\<lparr>po_ReserveIn := show_int (reserveIn + effectiveInput), po_ReserveOut := show_int (reserveOut - outputAmount)\<rparr> in
              (case limit of
                 None \<Rightarrow> Inr (outputAmount, updated)
               | Some m \<Rightarrow>
                   if outputAmount < m then Inl (''min_out not met: expected at least '' @ show_int m @ '', got '' @ show_int outputAmount)
                   else Inr (outputAmount, updated)))"

definition executeSwapLocked :: "MockTargetState \<Rightarrow> MockTargetPacket \<Rightarrow> RouteAction \<Rightarrow> MockTargetState \<times> (string + string)" where
  "executeSwapLocked st packet action =
     (case find_pool (TrimSpace (dt_IBCDenom (mp_DenomTrace packet))) (TrimSpace (ra_TargetDenom action)) (ms_Pools st) of
        None \<Rightarrow> (st, Inl (''no pool for '' @ dt_IBCDenom (mp_DenomTrace packet) @ '' -> '' @ ra_TargetDenom action))
      | Some poolIndex \<Rightarrow>
          case pool_swap (ms_Pools st ! poolIndex) (pk_Amount (pk_Data (mp_Packet packet))) (ra_MinOut action) of
            Inl e \<Rightarrow> (st, Inl e)
          | Inr (outputAmount, pool) \<Rightarrow> (st\<lparr>ms_Pools := (ms_Pools st)[poolIndex := pool]\<rparr>, Inr (show_int outputAmount)))"

fun credit_in :: "MockTargetBalance list \<Rightarrow> string \<Rightarrow> string \<Rightarrow> string \<Rightarrow> string + MockTargetBalance list" where
  "credit_in [] address denom amount = Inr [\<lparr>bl_Address = TrimSpace address, bl_Denom = TrimSpace denom, bl_Amount = amount\<rparr>]"
| "credit_in (b # bs) address denom amount =
     (if bl_Address b = TrimSpace address \<and> bl_Denom b = TrimSpace denom
      then case addDecimalStrings (bl_Amount b) amount of
             Inl e \<Rightarrow> Inl e
           | Inr next_amount \<Rightarrow> Inr (b\<lparr>bl_Amount := next_amount\<rparr> # bs)
      else case credit_in bs address denom amount of Inl e \<Rightarrow> Inl e | Inr bs' \<Rightarrow> Inr (b # bs'))"

definition creditBalanceLocked :: "MockTargetState \<Rightarrow> string \<Rightarrow> string \<Rightarrow> string \<Rightarrow> MockTargetState \<times> string option" where
  "creditBalanceLocked st address denom amount0 =
     (let amount = TrimSpace amount0 in
      if amount = '''' then (st, None)
      else case credit_in (ms_Balances st) address denom amount of
        Inl e \<Rightarrow> (st, Some e)
      | Inr balances \<Rightarrow> (st\<lparr>ms_Balances := balances\<rparr>, None))"

section \<open>Executing packets\<close>

definition packetExecutionRecipient :: "MockTargetPacket \<Rightarrow> string" where
  "packetExecutionRecipient packet =
     (case mp_Action packet of
        None \<Rightarrow> TrimSpace (pk_Receiver (pk_Data (mp_Packet packet)))
      | Some action \<Rightarrow>
          if TrimSpace (ra_Recipient action) \<noteq> '''' then TrimSpace (ra_Recipient action)
          else TrimSpace (pk_Receiver (pk_Data (mp_Packet packet))))"

definition packetRoutePath :: "MockTargetPacket \<Rightarrow> string" where
  "packetRoutePath packet = (case mp_Action packet of None \<Rightarrow> '''' | Some action \<Rightarrow> TrimSpace (ra_Path action))"

definition markPacketAckReadyLocked :: "MockTargetPacket \<Rightarrow> Ack \<Rightarrow> MockTargetPacket" where
  "markPacketAckReadyLocked packet ack =
     packet\<lparr>mp_PacketState := ''ack_ready'', mp_AckState := ak_Status ack, mp_AckReason := TrimSpace (ak_Reason ack),
            mp_AckRelayed := False, mp_AckPayload := Some ack\<rparr>"

definition advancePacketAfterExecutionLocked :: "string \<Rightarrow> MockTargetPacket \<Rightarrow> MockTargetPacket" where
  "advancePacketAfterExecutionLocked mode packet =
     (if mode = MockTargetModeSuccess then markPacketAckReadyLocked packet \<lparr>ak_Status = AckStatusCompleted, ak_Reason = ''''\<rparr>
      else if mode = MockTargetModeFail then markPacketAckReadyLocked packet \<lparr>ak_Status = AckStatusFailed, ak_Reason = ''mock ack failed''\<rparr>
      else if mode = MockTargetModeTimeout then markPacketAckReadyLocked packet \<lparr>ak_Status = AckStatusTimedOut, ak_Reason = ''mock timeout''\<rparr>
      else packet\<lparr>mp_PacketState := ''executed'', mp_AckState := ''pending'', mp_AckReason := '''', mp_AckPayload := None, mp_AckRelayed := False\<rparr>)"

text \<open>The record of an execution with what every kind of execution has in common.\<close>

definition packet_execution :: "MockTargetPacket \<Rightarrow> string \<Rightarrow> MockTargetExecution" where
  "packet_execution packet result =
     \<lparr>mx_TransferID = mp_TransferID packet, mx_PacketSequence = pk_Sequence (mp_Packet packet), mx_Result = result,
      mx_Recipient = packetExecutionRecipient packet, mx_InputDenom = dt_IBCDenom (mp_DenomTrace packet),
      mx_InputAmount = TrimSpace (pk_Amount (pk_Data (mp_Packet packet))), mx_OutputDenom = '''', mx_OutputAmount = '''',
      mx_DexChainID = mp_DestinationChainID packet, mx_RoutePath = packetRoutePath packet, mx_Error = ''''\<rparr>"

text \<open>An execution that failed: it is recorded, and the packet is acknowledged as failed.\<close>

definition execution_failed ::
    "MockTargetState \<Rightarrow> MockTargetPacket \<Rightarrow> MockTargetExecution \<Rightarrow> string \<Rightarrow> string \<Rightarrow> MockTargetState \<times> MockTargetPacket" where
  "execution_failed st packet execution result e =
     (st\<lparr>ms_Executions := ms_Executions st @ [execution\<lparr>mx_Result := result, mx_Error := e\<rparr>]\<rparr>,
      markPacketAckReadyLocked packet \<lparr>ak_Status = AckStatusFailed, ak_Reason = e\<rparr>)"

definition execution_done ::
    "string \<Rightarrow> MockTargetState \<Rightarrow> MockTargetPacket \<Rightarrow> MockTargetExecution \<Rightarrow> MockTargetState \<times> MockTargetPacket" where
  "execution_done mode st packet execution =
     (st\<lparr>ms_Executions := ms_Executions st @ [execution]\<rparr>, advancePacketAfterExecutionLocked mode packet)"

definition execute_swap :: "string \<Rightarrow> MockTargetState \<Rightarrow> MockTargetPacket \<Rightarrow> RouteAction \<Rightarrow> MockTargetState \<times> MockTargetPacket" where
  "execute_swap mode st packet action =
     (let execution = (packet_execution packet ''swap_success'')\<lparr>mx_OutputDenom := ra_TargetDenom action\<rparr> in
      case executeSwapLocked st packet action of
        (st1, Inl e) \<Rightarrow> execution_failed st1 packet execution ''swap_failed'' e
      | (st1, Inr outputAmount) \<Rightarrow>
          let execution1 = execution\<lparr>mx_OutputAmount := outputAmount\<rparr>;
              swap = \<lparr>sw_TransferID = mp_TransferID packet, sw_InputDenom = dt_IBCDenom (mp_DenomTrace packet),
                      sw_OutputDenom = ra_TargetDenom action, sw_InputAmount = TrimSpace (pk_Amount (pk_Data (mp_Packet packet))),
                      sw_OutputAmount = outputAmount, sw_Recipient = packetExecutionRecipient packet,
                      sw_DexChainID = mp_DestinationChainID packet, sw_RoutePath = packetRoutePath packet\<rparr>;
              st2 = st1\<lparr>ms_Swaps := ms_Swaps st1 @ [swap]\<rparr>
          in case creditBalanceLocked st2 (packetExecutionRecipient packet) (ra_TargetDenom action) outputAmount of
               (st3, Some e) \<Rightarrow> execution_failed st3 packet execution1 ''swap_failed'' e
             | (st3, None) \<Rightarrow> execution_done mode st3 packet execution1)"

definition execute_stake :: "string \<Rightarrow> MockTargetState \<Rightarrow> MockTargetPacket \<Rightarrow> RouteAction \<Rightarrow> MockTargetState \<times> MockTargetPacket" where
  "execute_stake mode st packet action =
     (let execution = (packet_execution packet ''stake_success'')
            \<lparr>mx_OutputDenom := ra_TargetDenom action, mx_OutputAmount := TrimSpace (pk_Amount (pk_Data (mp_Packet packet)))\<rparr>
      in if TrimSpace (ra_TargetDenom action) \<noteq> TrimSpace (dt_IBCDenom (mp_DenomTrace packet))
         then execution_failed st packet execution ''stake_failed'' (''stake action requires received denom '' @ dt_IBCDenom (mp_DenomTrace packet))
         else if TrimSpace (packetRoutePath packet) = ''''
         then execution_failed st packet execution ''stake_failed'' ''missing validator path for stake action''
         else
           let stake = \<lparr>sk_TransferID = mp_TransferID packet, sk_Denom = ra_TargetDenom action,
                        sk_Amount = TrimSpace (pk_Amount (pk_Data (mp_Packet packet))), sk_Staker = packetExecutionRecipient packet,
                        sk_Validator = packetRoutePath packet\<rparr>
           in execution_done mode (st\<lparr>ms_Stakes := ms_Stakes st @ [stake]\<rparr>) packet execution)"

definition execute_credit :: "string \<Rightarrow> MockTargetState \<Rightarrow> MockTargetPacket \<Rightarrow> MockTargetState \<times> MockTargetPacket" where
  "execute_credit mode st packet =
     (let amount = TrimSpace (pk_Amount (pk_Data (mp_Packet packet)));
          denom = dt_IBCDenom (mp_DenomTrace packet);
          execution = (packet_execution packet ''credit'')\<lparr>mx_OutputDenom := denom, mx_OutputAmount := amount\<rparr>
      in case creditBalanceLocked st (packetExecutionRecipient packet) denom amount of
           (st1, Some e) \<Rightarrow> execution_failed st1 packet execution ''credit_failed'' e
         | (st1, None) \<Rightarrow> execution_done mode st1 packet execution)"

definition executePacketLocked :: "string \<Rightarrow> MockTargetState \<Rightarrow> MockTargetPacket \<Rightarrow> MockTargetState \<times> MockTargetPacket" where
  "executePacketLocked mode st0 packet =
     (let st = ensurePoolsLocked st0 in
      if TrimSpace (mp_ActionError packet) \<noteq> ''''
      then execution_failed st packet (packet_execution packet ''invalid_action'') ''invalid_action'' (TrimSpace (mp_ActionError packet))
      else case mp_Action packet of
        None \<Rightarrow> execute_credit mode st packet
      | Some action \<Rightarrow>
          if ra_Type action = ''swap'' then execute_swap mode st packet action
          else if ra_Type action = ''stake'' then execute_stake mode st packet action
          else execute_credit mode st packet)"

definition ensurePacketExecutedLocked :: "string \<Rightarrow> MockTargetState \<Rightarrow> MockTargetPacket \<Rightarrow> MockTargetState \<times> MockTargetPacket" where
  "ensurePacketExecutedLocked mode st packet =
     (if mp_PacketState packet = ''received'' then executePacketLocked mode st packet else (st, packet))"

text \<open>The loop over the packets by index. Executing a packet changes the packet in place and nothing else among the packets, so the
  loop runs over the list of packets with the rest of the state.\<close>

fun advance_packets :: "string \<Rightarrow> MockTargetState \<Rightarrow> MockTargetPacket list \<Rightarrow> MockTargetState \<times> MockTargetPacket list \<times> bool" where
  "advance_packets mode st [] = (st, [], False)"
| "advance_packets mode st (packet # packets) =
     (if mp_PacketState packet \<noteq> ''received''
      then case advance_packets mode st packets of (st', packets', changed) \<Rightarrow> (st', packet # packets', changed)
      else
        let (st1, packet') =
              (if mode = MockTargetModeTimeout
               then (st, markPacketAckReadyLocked packet \<lparr>ak_Status = AckStatusTimedOut, ak_Reason = ''mock timeout''\<rparr>)
               else executePacketLocked mode st packet)
        in (case advance_packets mode st1 packets of (st', packets', changed) \<Rightarrow> (st', packet' # packets', True)))"

definition advanceReceivedPacketsLocked :: "string \<Rightarrow> MockTargetState \<Rightarrow> MockTargetState \<times> bool" where
  "advanceReceivedPacketsLocked mode st =
     (case advance_packets mode st (ms_Packets st) of (st', packets, changed) \<Rightarrow> (st'\<lparr>ms_Packets := packets\<rparr>, changed))"

section \<open>Operations\<close>

definition normalizeMockTargetMode :: "string \<Rightarrow> string" where
  "normalizeMockTargetMode mode =
     (if TrimSpace mode \<in> {MockTargetModeFail, MockTargetModeTimeout, MockTargetModeManual} then TrimSpace mode else MockTargetModeSuccess)"

text \<open>The index of the packet with a transfer id.\<close>

fun find_packet :: "string \<Rightarrow> MockTargetPacket list \<Rightarrow> nat option" where
  "find_packet transferID [] = None"
| "find_packet transferID (p # ps) =
     (if mp_TransferID p = transferID then Some 0 else map_option Suc (find_packet transferID ps))"

definition findPacketLocked :: "MockTargetState \<Rightarrow> string \<Rightarrow> nat option" where
  "findPacketLocked st transferID = find_packet (TrimSpace transferID) (ms_Packets st)"

definition syncLegacyReceiptsLocked :: "MockTargetState \<Rightarrow> MockTargetState" where
  "syncLegacyReceiptsLocked st = st\<lparr>ms_Receipts := ms_Packets st\<rparr>"

text \<open>\<open>disk\<close> is the outcome of writing the file.\<close>

definition persistMockTargetState :: "string \<Rightarrow> relay_error option \<Rightarrow> relay_error option" where
  "persistMockTargetState path disk = (if TrimSpace path = '''' then None else disk)"

definition received_packet :: "DeliveryEnvelope \<Rightarrow> MockTargetPacket" where
  "received_packet envelope =
     \<lparr>mp_TransferID = tf_TransferID (dv_Transfer envelope), mp_DestinationChainID = tf_DestinationChainID (dv_Transfer envelope),
      mp_PacketState = ''received'', mp_AckState = ''pending'', mp_AckReason = '''', mp_AckPayload = None, mp_AckRelayed = False,
      mp_Packet = dv_Packet envelope, mp_DenomTrace = dv_DenomTrace envelope, mp_Action = dv_Action envelope,
      mp_ActionError = TrimSpace (dv_ActionError envelope)\<rparr>"

definition receive_envelope :: "MockTarget \<Rightarrow> DeliveryEnvelope \<Rightarrow> MockTarget" where
  "receive_envelope t envelope =
     (let st = mt_state t;
          st1 = (case findPacketLocked st (tf_TransferID (dv_Transfer envelope)) of
                   None \<Rightarrow> st\<lparr>ms_Packets := ms_Packets st @ [received_packet envelope]\<rparr>
                 | Some _ \<Rightarrow> st)
      in t\<lparr>mt_state := syncLegacyReceiptsLocked st1\<rparr>)"

definition target_ReceiveTransfer :: "relay_error option \<Rightarrow> MockTarget \<Rightarrow> Transfer \<Rightarrow> MockTarget \<times> (relay_error + Ack)" where
  "target_ReceiveTransfer disk t transfer =
     (case buildDeliveryEnvelope transfer of
        Inl e \<Rightarrow> (t, Inl e)
      | Inr envelope \<Rightarrow>
          let t1 = receive_envelope t envelope in
          case persistMockTargetState (mt_statePath t1) disk of
            Some e \<Rightarrow> (t1, Inl e)
          | None \<Rightarrow> (t1, Inr \<lparr>ak_Status = AckStatusReceived, ak_Reason = ''''\<rparr>))"

definition ready_acks :: "MockTargetPacket list \<Rightarrow> AckRecord list" where
  "ready_acks packets =
     List.map_filter (\<lambda>p. if mp_PacketState p \<noteq> ''ack_ready'' \<or> mp_AckRelayed p then None
       else map_option (\<lambda>ack. \<lparr>ar_TransferID = mp_TransferID p, ar_Status = ak_Status ack, ar_Reason = ak_Reason ack\<rparr>) (mp_AckPayload p)) packets"

definition target_ReadyAckRecords :: "relay_error option \<Rightarrow> MockTarget \<Rightarrow> MockTarget \<times> (relay_error + AckRecord list)" where
  "target_ReadyAckRecords disk t =
     (case advanceReceivedPacketsLocked (mt_mode t) (mt_state t) of
        (st, changed) \<Rightarrow>
          if changed
          then let t1 = t\<lparr>mt_state := syncLegacyReceiptsLocked st\<rparr> in
            (case persistMockTargetState (mt_statePath t1) disk of
               Some e \<Rightarrow> (t1, Inl e)
             | None \<Rightarrow> (t1, Inr (ready_acks (ms_Packets (mt_state t1)))))
          else (t\<lparr>mt_state := st\<rparr>, Inr (ready_acks (ms_Packets st))))"

definition target_setAckState :: "relay_error option \<Rightarrow> MockTarget \<Rightarrow> string \<Rightarrow> string \<Rightarrow> string \<Rightarrow> MockTarget \<times> relay_error option" where
  "target_setAckState disk t transferID action reason =
     (let st = mt_state t in
      case findPacketLocked st transferID of
        None \<Rightarrow> (t, Some (RelayError ''file does not exist''))
      | Some i \<Rightarrow>
          let packet = ms_Packets st ! i;
              finish = (\<lambda>st1 packet'.
                let st2 = syncLegacyReceiptsLocked (st1\<lparr>ms_Packets := (ms_Packets st1)[i := packet']\<rparr>)
                in (t\<lparr>mt_state := st2\<rparr>, persistMockTargetState (mt_statePath t) disk))
          in if action = ''confirm''
             then if mp_PacketState packet \<noteq> ''ack_ready'' then (t, Some (RelayError ''ack not ready''))
                  else finish st (packet\<lparr>mp_AckRelayed := True, mp_PacketState := ''ack_relayed''\<rparr>)
             else if action = ''complete''
             then case ensurePacketExecutedLocked (mt_mode t) st packet of (st1, packet1) \<Rightarrow>
                  finish st1 (markPacketAckReadyLocked packet1 \<lparr>ak_Status = AckStatusCompleted, ak_Reason = ''''\<rparr>)
             else if action = ''fail''
             then case ensurePacketExecutedLocked (mt_mode t) st packet of (st1, packet1) \<Rightarrow>
                  finish st1 (markPacketAckReadyLocked packet1 \<lparr>ak_Status = AckStatusFailed, ak_Reason = TrimSpace reason\<rparr>)
             else if action = ''timeout''
             then finish st (markPacketAckReadyLocked packet \<lparr>ak_Status = AckStatusTimedOut, ak_Reason = TrimSpace reason\<rparr>)
             else (t, Some (RelayError ''unknown ack action'')))"

definition target_ConfirmReadyAck :: "relay_error option \<Rightarrow> MockTarget \<Rightarrow> string \<Rightarrow> MockTarget \<times> relay_error option" where
  "target_ConfirmReadyAck disk t transferID = target_setAckState disk t transferID ''confirm'' ''''"

definition target_CompleteAck :: "relay_error option \<Rightarrow> MockTarget \<Rightarrow> string \<Rightarrow> MockTarget \<times> relay_error option" where
  "target_CompleteAck disk t transferID = target_setAckState disk t transferID ''complete'' ''''"

definition target_FailAck :: "relay_error option \<Rightarrow> MockTarget \<Rightarrow> string \<Rightarrow> string \<Rightarrow> MockTarget \<times> relay_error option" where
  "target_FailAck disk t transferID reason =
     target_setAckState disk t transferID ''fail'' (if TrimSpace reason = '''' then ''mock ack failed'' else reason)"

definition target_TimeoutAck :: "relay_error option \<Rightarrow> MockTarget \<Rightarrow> string \<Rightarrow> string \<Rightarrow> MockTarget \<times> relay_error option" where
  "target_TimeoutAck disk t transferID reason =
     target_setAckState disk t transferID ''timeout'' (if TrimSpace reason = '''' then ''mock timeout'' else reason)"

text \<open>Starting: \<open>saved\<close> is what the state file holds, \<^term>\<open>None\<close> if there is none.\<close>

definition LoadMockTargetRuntime ::
    "MockTargetConfig \<Rightarrow> relay_error + MockTargetState option \<Rightarrow> relay_error option \<Rightarrow> relay_error + MockTarget" where
  "LoadMockTargetRuntime cfg saved disk =
     (let initial = zeroMockTargetState\<lparr>ms_Pools := mc_Pools cfg\<rparr>;
          loaded =
            (if TrimSpace (mc_StatePath cfg) = '''' then Inr initial
             else case saved of
               Inl e \<Rightarrow> Inl e
             | Inr None \<Rightarrow> Inr initial
             | Inr (Some st) \<Rightarrow> Inr (if mc_Pools cfg \<noteq> [] then st\<lparr>ms_Pools := mc_Pools cfg\<rparr> else st))
      in case loaded of
           Inl e \<Rightarrow> Inl e
         | Inr st \<Rightarrow>
             let t = \<lparr>mt_mode = normalizeMockTargetMode (mc_Mode cfg), mt_delay = mc_Delay cfg, mt_statePath = TrimSpace (mc_StatePath cfg),
                      mt_state = syncLegacyReceiptsLocked (ensureBalancesLocked (ensurePoolsLocked st))\<rparr>
             in (case persistMockTargetState (mt_statePath t) disk of Some e \<Rightarrow> Inl e | None \<Rightarrow> Inr t))"

section \<open>Status\<close>

record MockTargetStatus =
  mu_Packets :: nat
  mu_Receipts :: nat
  mu_Executions :: nat
  mu_Pools :: nat
  mu_Balances :: nat
  mu_Swaps :: nat
  mu_Stakes :: nat
  mu_SwapFailures :: nat
  mu_ReceivedPackets :: nat
  mu_ExecutedPackets :: nat
  mu_ReadyAcks :: nat
  mu_CompletedAcks :: nat
  mu_FailedAcks :: nat
  mu_TimedOutAcks :: nat
  mu_RelayedAcks :: nat
  mu_PendingReceipts :: nat

definition status_packet :: "MockTargetPacket \<Rightarrow> MockTargetStatus \<Rightarrow> MockTargetStatus" where
  "status_packet p s =
     (let state = TrimSpace (mp_PacketState p);
          s1 = (if state = ''received''
                then s\<lparr>mu_ReceivedPackets := mu_ReceivedPackets s + 1, mu_PendingReceipts := mu_PendingReceipts s + 1\<rparr>
                else if state = ''executed''
                then s\<lparr>mu_ExecutedPackets := mu_ExecutedPackets s + 1, mu_PendingReceipts := mu_PendingReceipts s + 1\<rparr>
                else if state = ''ack_relayed'' then s\<lparr>mu_RelayedAcks := mu_RelayedAcks s + 1\<rparr>
                else s);
          ready = (\<lambda>s. if mp_PacketState p = ''ack_ready'' \<and> \<not> mp_AckRelayed p then s\<lparr>mu_ReadyAcks := mu_ReadyAcks s + 1\<rparr> else s);
          ack = TrimSpace (mp_AckState p)
      in if ack = AckStatusCompleted then ready (s1\<lparr>mu_CompletedAcks := mu_CompletedAcks s1 + 1\<rparr>)
         else if ack = AckStatusFailed then ready (s1\<lparr>mu_FailedAcks := mu_FailedAcks s1 + 1\<rparr>)
         else if ack = AckStatusTimedOut then ready (s1\<lparr>mu_TimedOutAcks := mu_TimedOutAcks s1 + 1\<rparr>)
         else s1)"

definition statusLocked :: "MockTargetState \<Rightarrow> MockTargetStatus" where
  "statusLocked st =
     (let s = fold status_packet (ms_Packets st)
        \<lparr>mu_Packets = length (ms_Packets st), mu_Receipts = length (ms_Packets st), mu_Executions = length (ms_Executions st),
         mu_Pools = length (ms_Pools st), mu_Balances = length (ms_Balances st), mu_Swaps = length (ms_Swaps st),
         mu_Stakes = length (ms_Stakes st), mu_SwapFailures = 0, mu_ReceivedPackets = 0, mu_ExecutedPackets = 0, mu_ReadyAcks = 0,
         mu_CompletedAcks = 0, mu_FailedAcks = 0, mu_TimedOutAcks = 0, mu_RelayedAcks = 0, mu_PendingReceipts = 0\<rparr>
      in s\<lparr>mu_SwapFailures := length (filter (\<lambda>x. mx_Result x = ''swap_failed'') (ms_Executions st))\<rparr>)"

section \<open>The HTTP interface\<close>

text \<open>A reply is its status and its body, before the JSON encoding. \<open>BodyNone\<close> is a connection on which
  nothing was written, \<open>BodyFault\<close> the text of an error.\<close>

datatype http_body =
    BodyNone
  | BodyError string
  | BodyFault relay_error
  | BodyAck Ack
  | BodyAcks "AckRecord list"
  | BodyState MockTargetState
  | BodyPacket MockTargetPacket
  | BodyPackets "MockTargetPacket list"
  | BodyExecutions "MockTargetExecution list"
  | BodyPools "MockTargetPool list"
  | BodyBalances "MockTargetBalance list"
  | BodySwaps "MockTargetSwap list"
  | BodyStakes "MockTargetStake list"
  | BodyStatus MockTargetStatus

type_synonym http_reply = "nat \<times> http_body"

abbreviation (input) method_not_allowed :: http_reply where "method_not_allowed \<equiv> (405, BodyError ''method not allowed'')"

definition NewMockTargetHandlerWithConfig :: "MockTargetConfig \<Rightarrow> MockTarget" where
  "NewMockTargetHandlerWithConfig cfg =
     \<lparr>mt_mode = normalizeMockTargetMode (mc_Mode cfg), mt_delay = mc_Delay cfg, mt_statePath = TrimSpace (mc_StatePath cfg),
      mt_state = ensurePoolsLocked (zeroMockTargetState\<lparr>ms_Pools := mc_Pools cfg\<rparr>)\<rparr>"

text \<open>\<open>body\<close> is what the request decodes to, \<open>gone\<close> says that the client left during the delay.\<close>

definition handleTransfers ::
    "relay_error option \<Rightarrow> MockTarget \<Rightarrow> string \<Rightarrow> relay_error + DeliveryEnvelope \<Rightarrow> bool \<Rightarrow> MockTarget \<times> http_reply" where
  "handleTransfers disk t meth body gone =
     (if meth = ''GET'' then let t1 = t\<lparr>mt_state := syncLegacyReceiptsLocked (mt_state t)\<rparr> in (t1, 200, BodyState (mt_state t1))
      else if meth = ''POST''
      then case body of
        Inl e \<Rightarrow> (t, 400, BodyFault e)
      | Inr envelope \<Rightarrow>
          let t1 = receive_envelope t envelope in
          (case persistMockTargetState (mt_statePath t1) disk of
             Some e \<Rightarrow> (t1, 500, BodyFault e)
           | None \<Rightarrow>
               if 0 < mt_delay t1 \<and> gone then (t1, 200, BodyNone)
               else (t1, 200, BodyAck \<lparr>ak_Status = AckStatusReceived, ak_Reason = ''''\<rparr>))
      else (t, method_not_allowed))"

definition handleAcks :: "relay_error option \<Rightarrow> MockTarget \<Rightarrow> string \<Rightarrow> MockTarget \<times> http_reply" where
  "handleAcks disk t meth =
     (if meth \<noteq> ''GET'' then (t, method_not_allowed)
      else case advanceReceivedPacketsLocked (mt_mode t) (mt_state t) of
        (st, changed) \<Rightarrow>
          if changed
          then let t1 = t\<lparr>mt_state := syncLegacyReceiptsLocked st\<rparr> in
            (case persistMockTargetState (mt_statePath t1) disk of
               Some e \<Rightarrow> (t1, 500, BodyFault e)
             | None \<Rightarrow> (t1, 200, BodyAcks (ready_acks (ms_Packets (mt_state t1)))))
          else (t\<lparr>mt_state := st\<rparr>, 200, BodyAcks (ready_acks (ms_Packets st))))"

definition handleAckControl :: "relay_error option \<Rightarrow> MockTarget \<Rightarrow> string \<Rightarrow> string \<Rightarrow> string \<Rightarrow> MockTarget \<times> http_reply" where
  "handleAckControl disk t meth path transferIDParam =
     (if meth \<noteq> ''POST'' then (t, method_not_allowed)
      else
        let action = TrimPrefix path ''/acks/''; transferID = TrimSpace transferIDParam in
        if transferID = '''' then (t, 400, BodyError ''missing transfer_id'')
        else
          let st = mt_state t in
          case findPacketLocked st transferID of
            None \<Rightarrow> (t, 404, BodyError ''packet not found'')
          | Some i \<Rightarrow>
              let packet = ms_Packets st ! i;
                  finish = (\<lambda>st1 packet'.
                    let t1 = t\<lparr>mt_state := syncLegacyReceiptsLocked (st1\<lparr>ms_Packets := (ms_Packets st1)[i := packet']\<rparr>)\<rparr>
                    in (case persistMockTargetState (mt_statePath t) disk of
                          Some e \<Rightarrow> (t1, 500, BodyFault e)
                        | None \<Rightarrow> (t1, 200, BodyPacket packet')))
              in if action = ''confirm''
                 then if mp_PacketState packet \<noteq> ''ack_ready'' then (t, 409, BodyError ''ack not ready'')
                      else finish st (packet\<lparr>mp_AckRelayed := True, mp_PacketState := ''ack_relayed''\<rparr>)
                 else if action = ''complete''
                 then case ensurePacketExecutedLocked (mt_mode t) st packet of (st1, packet1) \<Rightarrow>
                      finish st1 (markPacketAckReadyLocked packet1 \<lparr>ak_Status = AckStatusCompleted, ak_Reason = ''''\<rparr>)
                 else if action = ''fail''
                 then case ensurePacketExecutedLocked (mt_mode t) st packet of (st1, packet1) \<Rightarrow>
                      finish st1 (markPacketAckReadyLocked packet1 \<lparr>ak_Status = AckStatusFailed, ak_Reason = ''mock ack failed''\<rparr>)
                 else if action = ''timeout''
                 then finish st (markPacketAckReadyLocked packet \<lparr>ak_Status = AckStatusTimedOut, ak_Reason = ''mock timeout''\<rparr>)
                 else (t, 404, BodyError ''404 page not found''))"

text \<open>The handlers that only show a part of the state.\<close>

definition show_handler :: "(MockTargetState \<Rightarrow> http_body) \<Rightarrow> MockTarget \<Rightarrow> string \<Rightarrow> MockTarget \<times> http_reply" where
  "show_handler body t meth = (if meth \<noteq> ''GET'' then (t, method_not_allowed) else (t, 200, body (mt_state t)))"

definition handlePackets :: "MockTarget \<Rightarrow> string \<Rightarrow> MockTarget \<times> http_reply" where
  "handlePackets = show_handler (\<lambda>st. BodyPackets (ms_Packets st))"

definition handleExecutions :: "MockTarget \<Rightarrow> string \<Rightarrow> MockTarget \<times> http_reply" where
  "handleExecutions = show_handler (\<lambda>st. BodyExecutions (ms_Executions st))"

definition handlePools :: "MockTarget \<Rightarrow> string \<Rightarrow> MockTarget \<times> http_reply" where
  "handlePools = show_handler (\<lambda>st. BodyPools (ms_Pools st))"

definition handleBalances :: "MockTarget \<Rightarrow> string \<Rightarrow> MockTarget \<times> http_reply" where
  "handleBalances = show_handler (\<lambda>st. BodyBalances (ms_Balances st))"

definition handleSwaps :: "MockTarget \<Rightarrow> string \<Rightarrow> MockTarget \<times> http_reply" where
  "handleSwaps = show_handler (\<lambda>st. BodySwaps (ms_Swaps st))"

definition handleStakes :: "MockTarget \<Rightarrow> string \<Rightarrow> MockTarget \<times> http_reply" where
  "handleStakes = show_handler (\<lambda>st. BodyStakes (ms_Stakes st))"

definition handleStatus :: "MockTarget \<Rightarrow> string \<Rightarrow> MockTarget \<times> http_reply" where
  "handleStatus = show_handler (\<lambda>st. BodyStatus (statusLocked st))"

end
