(* ===== verification/TargetLife.thy ===== *)
theory TargetLife
  imports MockTarget
begin

text \<open>
  What the destination guarantees over its life: swaps keep the product of the reserves, every packet is executed at most once, and the
  balances are exactly what the executions have credited.
\<close>

section \<open>Swaps\<close>

text \<open>The division of the output amount rounds in favour of the pool.\<close>

lemma product_grows:
  fixes x y e :: int
  assumes "0 < x" "0 < y" "0 < e" "out = y * e div (x + e)"
  shows "x * y \<le> (x + e) * (y - out)"
proof -
  have "out * (x + e) \<le> y * e" unfolding assms(4) using assms(1,3) pos_mod_sign [of "x + e" "y * e"] div_mult_mod_eq [of "y * e" "x + e"] by linarith
  then show ?thesis by (simp add: algebra_simps)
qed

lemma effective_input_le:
  assumes "effective_input fee a = Inr e" "fee \<le> 10000" "0 < a"
  shows "0 < e" "e \<le> a"
proof -
  have m: "uint (10000 - fee) \<le> 10000" "0 \<le> uint (10000 - fee)"
    using unat_sub [OF assms(2)] by (simp_all add: uint_nat)
  have "a * uint (10000 - fee) \<le> a * 10000" using m(1) assms(3) by (intro mult_left_mono) simp_all
  then have "a * uint (10000 - fee) div 10000 \<le> a * 10000 div 10000" by (rule zdiv_mono1) simp
  then show "0 < e" "e \<le> a" using assms by (auto simp: effective_input_def Let_def split: if_splits)
qed

lemma parsePositiveDecimal_Inr:
  "parsePositiveDecimal s label = Inr v \<longleftrightarrow> SetString10 (TrimSpace s) = Some v \<and> 0 < v"
  by (auto simp: parsePositiveDecimal_def split: option.splits if_splits)

lemma pool_swap_Inr:
  assumes "pool_swap pool amount minOut = Inr (out, pool')"
  obtains x y a e where "SetString10 (TrimSpace (po_ReserveIn pool)) = Some x" "SetString10 (TrimSpace (po_ReserveOut pool)) = Some y"
    "SetString10 (TrimSpace amount) = Some a" "0 < x" "0 < y" "0 < a" "effective_input (po_FeeBPS pool) a = Inr e"
    "out = y * e div (x + e)" "0 < out" "out < y"
    "pool' = pool\<lparr>po_ReserveIn := show_int (x + e), po_ReserveOut := show_int (y - out)\<rparr>"
    "\<And>m. SetString10 (TrimSpace minOut) = Some m \<Longrightarrow> m \<le> out"
proof -
  obtain a where a: "parsePositiveDecimal (TrimSpace amount) ''swap amount'' = Inr a"
    using assms by (auto simp: pool_swap_def split: sum.splits)
  obtain e where e: "effective_input (po_FeeBPS pool) a = Inr e"
    using assms a by (auto simp: pool_swap_def split: sum.splits)
  obtain x where x: "parsePositiveDecimal (po_ReserveIn pool) ''pool reserve in'' = Inr x"
    using assms a e by (auto simp: pool_swap_def split: sum.splits)
  obtain y where y: "parsePositiveDecimal (po_ReserveOut pool) ''pool reserve out'' = Inr y"
    using assms a e x by (auto simp: pool_swap_def split: sum.splits)
  have "out = y * e div (x + e) \<and> 0 < out \<and> out < y \<and> pool' = pool\<lparr>po_ReserveIn := show_int (x + e), po_ReserveOut := show_int (y - out)\<rparr>
      \<and> (\<forall>m. SetString10 (TrimSpace minOut) = Some m \<longrightarrow> m \<le> out)"
    using assms a e x y
    by (auto simp: pool_swap_def Let_def parsePositiveDecimal_def [of "TrimSpace minOut"] SetString10_def split: sum.splits if_splits option.splits)
  with a e x y show thesis by (intro that [of x y a e]) (auto simp: parsePositiveDecimal_Inr)
qed

section \<open>Balances\<close>

text \<open>The value of an amount; text that is no number counts as zero.\<close>

definition amount_val :: "string \<Rightarrow> int" where
  "amount_val s = (case SetString10 (TrimSpace s) of None \<Rightarrow> 0 | Some v \<Rightarrow> v)"

definition balance_total :: "MockTargetBalance list \<Rightarrow> string \<Rightarrow> int" where
  "balance_total bs d = sum_list (map (\<lambda>b. if bl_Denom b = d then amount_val (bl_Amount b) else 0) bs)"

text \<open>What an execution has paid out in a denom.\<close>

definition credited_by :: "string \<Rightarrow> MockTargetExecution \<Rightarrow> int" where
  "credited_by d x = (if mx_Result x \<in> {''credit'', ''swap_success''} \<and> TrimSpace (mx_OutputDenom x) = d then amount_val (mx_OutputAmount x) else 0)"

definition credited_total :: "MockTargetExecution list \<Rightarrow> string \<Rightarrow> int" where
  "credited_total xs d = sum_list (map (credited_by d) xs)"

lemma amount_val_trim [simp]: "amount_val (TrimSpace s) = amount_val s"
  by (simp add: amount_val_def)

lemma credit_in_total:
  "credit_in bs address denom amount = Inr bs' \<Longrightarrow>
     balance_total bs' d = balance_total bs d + (if TrimSpace denom = d then amount_val amount else 0)"
proof (induction bs arbitrary: bs')
  case Nil
  then show ?case by (auto simp: balance_total_def)
next
  case (Cons b bs)
  show ?case
  proof (cases "bl_Address b = TrimSpace address \<and> bl_Denom b = TrimSpace denom")
    case True
    then obtain v where v: "addDecimalStrings (bl_Amount b) amount = Inr v" "bs' = b\<lparr>bl_Amount := v\<rparr> # bs"
      using Cons.prems by (auto split: sum.splits)
    then have "amount_val v = amount_val (bl_Amount b) + amount_val amount"
      by (auto simp: addDecimalStrings_def amount_val_def split: option.splits)
    with v True show ?thesis by (simp add: balance_total_def)
  next
    case False
    then obtain bs1 where "credit_in bs address denom amount = Inr bs1" "bs' = b # bs1"
      using Cons.prems by (auto split: sum.splits)
    with Cons.IH show ?thesis by (simp add: balance_total_def)
  qed
qed

lemma credit_effect:
  "creditBalanceLocked st address denom amount = (st', None) \<Longrightarrow>
     balance_total (ms_Balances st') d = balance_total (ms_Balances st) d + (if TrimSpace denom = d then amount_val amount else 0)"
  using credit_in_total [of "ms_Balances st" address denom "TrimSpace amount"]
  by (auto simp: creditBalanceLocked_def Let_def amount_val_def SetString10_def split: if_splits sum.splits)

lemma credit_fails: "creditBalanceLocked st address denom amount = (st', Some e) \<Longrightarrow> st' = st"
  by (auto simp: creditBalanceLocked_def Let_def split: if_splits sum.splits)

lemma credit_keeps:
  "ms_Packets (fst (creditBalanceLocked st a d v)) = ms_Packets st" "ms_Executions (fst (creditBalanceLocked st a d v)) = ms_Executions st"
  by (simp_all add: creditBalanceLocked_def Let_def split: sum.splits)

section \<open>Executions\<close>

text \<open>Executing a packet appends one execution of it, pays out what that execution says, and leaves the packet executed.\<close>

definition executed_once :: "MockTargetState \<Rightarrow> MockTargetPacket \<Rightarrow> MockTargetState \<times> MockTargetPacket \<Rightarrow> bool" where
  "executed_once st p result \<longleftrightarrow>
     (case result of (st', p') \<Rightarrow>
        ms_Packets st' = ms_Packets st \<and> mp_TransferID p' = mp_TransferID p \<and> mp_PacketState p' \<noteq> ''received''
        \<and> (\<exists>x. ms_Executions st' = ms_Executions st @ [x] \<and> mx_TransferID x = mp_TransferID p
             \<and> (\<forall>d. balance_total (ms_Balances st') d = balance_total (ms_Balances st) d + credited_by d x)))"

lemma mark_facts [simp]:
  "mp_TransferID (markPacketAckReadyLocked p ack) = mp_TransferID p"
  "mp_PacketState (markPacketAckReadyLocked p ack) = ''ack_ready''"
  by (simp_all add: markPacketAckReadyLocked_def)

lemma advance_facts [simp]:
  "mp_TransferID (advancePacketAfterExecutionLocked mode p) = mp_TransferID p"
  "mp_PacketState (advancePacketAfterExecutionLocked mode p) \<noteq> ''received''"
  by (simp_all add: advancePacketAfterExecutionLocked_def)

lemma failed_once:
  assumes "ms_Packets st' = ms_Packets st" "ms_Executions st' = ms_Executions st" "ms_Balances st' = ms_Balances st"
    "mx_TransferID x = mp_TransferID p" "result \<notin> {''credit'', ''swap_success''}"
  shows "executed_once st p (execution_failed st' p x result e)"
  using assms by (simp add: executed_once_def execution_failed_def credited_by_def)

lemma done_once:
  assumes "ms_Packets st' = ms_Packets st" "ms_Executions st' = ms_Executions st" "mx_TransferID x = mp_TransferID p"
    "\<And>d. balance_total (ms_Balances st') d = balance_total (ms_Balances st) d + credited_by d x"
  shows "executed_once st p (execution_done mode st' p x)"
  using assms by (simp add: executed_once_def execution_done_def)

lemma execution_id [simp]: "mx_TransferID (packet_execution p result) = mp_TransferID p" "mx_Result (packet_execution p result) = result"
  by (simp_all add: packet_execution_def)

lemma credit_once: "executed_once st p (execute_credit mode st p)"
proof (cases "creditBalanceLocked st (packetExecutionRecipient p) (dt_IBCDenom (mp_DenomTrace p)) (TrimSpace (pk_Amount (pk_Data (mp_Packet p))))")
  case (Pair st' err)
  note keeps = credit_keeps [of st "packetExecutionRecipient p" "dt_IBCDenom (mp_DenomTrace p)" "TrimSpace (pk_Amount (pk_Data (mp_Packet p)))"]
  show ?thesis
  proof (cases err)
    case None
    with Pair keeps credit_effect [OF Pair [unfolded None]] show ?thesis
      by (simp add: execute_credit_def Let_def) (rule done_once, simp_all add: credited_by_def)
  next
    case (Some e)
    with Pair credit_fails [OF Pair [unfolded Some]] show ?thesis by (simp add: execute_credit_def Let_def failed_once)
  qed
qed

lemma stake_once: "executed_once st p (execute_stake mode st p action)"
  by (auto simp: execute_stake_def Let_def intro!: failed_once done_once) (simp_all add: credited_by_def)

lemma swap_keeps:
  "executeSwapLocked st p action = (st1, res) \<Longrightarrow>
     ms_Packets st1 = ms_Packets st \<and> ms_Executions st1 = ms_Executions st \<and> ms_Balances st1 = ms_Balances st"
  by (auto simp: executeSwapLocked_def split: option.splits sum.splits)

lemma swap_once: "executed_once st p (execute_swap mode st p action)"
proof (cases "executeSwapLocked st p action")
  case (Pair st1 res)
  note keeps = swap_keeps [OF Pair]
  show ?thesis
  proof (cases res)
    case (Inl e)
    with Pair keeps show ?thesis by (simp add: execute_swap_def Let_def failed_once)
  next
    case (Inr out)
    let ?st2 = "st1\<lparr>ms_Swaps := ms_Swaps st1 @ [\<lparr>sw_TransferID = mp_TransferID p, sw_InputDenom = dt_IBCDenom (mp_DenomTrace p),
                      sw_OutputDenom = ra_TargetDenom action, sw_InputAmount = TrimSpace (pk_Amount (pk_Data (mp_Packet p))),
                      sw_OutputAmount = out, sw_Recipient = packetExecutionRecipient p,
                      sw_DexChainID = mp_DestinationChainID p, sw_RoutePath = packetRoutePath p\<rparr>]\<rparr>"
    obtain st3 err where credit: "creditBalanceLocked ?st2 (packetExecutionRecipient p) (ra_TargetDenom action) out = (st3, err)" by force
    note keeps2 = credit_keeps [of ?st2 "packetExecutionRecipient p" "ra_TargetDenom action" out]
    show ?thesis
    proof (cases err)
      case None
      with Pair Inr credit keeps keeps2 credit_effect [OF credit [unfolded None]] show ?thesis
        by (simp add: execute_swap_def Let_def) (rule done_once, simp_all add: credited_by_def)
    next
      case (Some e)
      with Pair Inr credit keeps credit_fails [OF credit [unfolded Some]] show ?thesis
        by (simp add: execute_swap_def Let_def failed_once)
    qed
  qed
qed

lemma executed_once_pools:
  "executed_once (ensurePoolsLocked st) p result \<longleftrightarrow> executed_once st p result"
  by (simp add: executed_once_def ensurePoolsLocked_def)

lemma execute_once: "executed_once st p (executePacketLocked mode st p)"
proof -
  have "executed_once (ensurePoolsLocked st) p (executePacketLocked mode st p)"
    by (simp add: executePacketLocked_def Let_def credit_once stake_once swap_once failed_once split: option.split)
  then show ?thesis by (simp only: executed_once_pools)
qed

section \<open>The life of the destination\<close>

definition packets_of :: "string \<Rightarrow> MockTargetPacket list \<Rightarrow> nat" where
  "packets_of i ps = length (filter (\<lambda>p. mp_TransferID p = i) ps)"

definition executed_packets_of :: "string \<Rightarrow> MockTargetPacket list \<Rightarrow> nat" where
  "executed_packets_of i ps = length (filter (\<lambda>p. mp_TransferID p = i \<and> mp_PacketState p \<noteq> ''received'') ps)"

definition executions_of :: "string \<Rightarrow> MockTargetExecution list \<Rightarrow> nat" where
  "executions_of i xs = length (filter (\<lambda>x. mx_TransferID x = i) xs)"

text \<open>Relative to the balances \<open>base\<close> at the start: there is one packet per trimmed transfer id, a packet is executed once at most, and the
  balances are what the executions have paid out.\<close>

definition target_inv :: "(string \<Rightarrow> int) \<Rightarrow> MockTargetState \<Rightarrow> bool" where
  "target_inv base st \<longleftrightarrow>
     (\<forall>i. TrimSpace i = i \<longrightarrow> packets_of i (ms_Packets st) \<le> 1)
     \<and> (\<forall>i. executions_of i (ms_Executions st) \<le> executed_packets_of i (ms_Packets st))
     \<and> (\<forall>d. balance_total (ms_Balances st) d = base d + credited_total (ms_Executions st) d)"

lemma count_simps [simp]:
  "packets_of i [] = 0" "packets_of i (p # ps) = (if mp_TransferID p = i then 1 else 0) + packets_of i ps"
  "packets_of i (ps @ qs) = packets_of i ps + packets_of i qs"
  "executed_packets_of i [] = 0"
  "executed_packets_of i (p # ps) = (if mp_TransferID p = i \<and> mp_PacketState p \<noteq> ''received'' then 1 else 0) + executed_packets_of i ps"
  "executed_packets_of i (ps @ qs) = executed_packets_of i ps + executed_packets_of i qs"
  "executions_of i [] = 0" "executions_of i (xs @ ys) = executions_of i xs + executions_of i ys"
  "executions_of i [x] = (if mx_TransferID x = i then 1 else 0)"
  "credited_total [] d = 0" "credited_total (xs @ ys) d = credited_total xs d + credited_total ys d" "credited_total [x] d = credited_by d x"
  by (simp_all add: packets_of_def executed_packets_of_def executions_of_def credited_total_def)

lemma count_update:
  assumes "i < length ps" "mp_TransferID q = mp_TransferID (ps ! i)"
  shows "packets_of k (ps[i := q]) = packets_of k ps"
    and "executed_packets_of k (ps[i := q]) + (if mp_TransferID q = k \<and> mp_PacketState (ps ! i) \<noteq> ''received'' then 1 else 0)
       = executed_packets_of k ps + (if mp_TransferID q = k \<and> mp_PacketState q \<noteq> ''received'' then 1 else 0)"
proof -
  have old: "ps = take i ps @ ps ! i # drop (Suc i) ps" and upd: "ps[i := q] = take i ps @ q # drop (Suc i) ps"
    using assms(1) by (rule id_take_nth_drop, rule upd_conv_take_nth_drop)
  show "packets_of k (ps[i := q]) = packets_of k ps" by (subst (2) old, subst upd) (simp add: assms(2))
  show "executed_packets_of k (ps[i := q]) + (if mp_TransferID q = k \<and> mp_PacketState (ps ! i) \<noteq> ''received'' then 1 else 0)
       = executed_packets_of k ps + (if mp_TransferID q = k \<and> mp_PacketState q \<noteq> ''received'' then 1 else 0)"
    by (subst (3) old, subst upd) (simp add: assms(2))
qed

text \<open>What a step keeps of the invariant when it replaces a packet.\<close>

lemma target_inv_update:
  assumes "target_inv base st" "i < length (ms_Packets st)" "mp_PacketState q \<noteq> ''received''" "mp_TransferID q = mp_TransferID (ms_Packets st ! i)"
    "ms_Packets st' = (ms_Packets st)[i := q]" "ms_Executions st' = ms_Executions st" "ms_Balances st' = ms_Balances st"
  shows "target_inv base st'"
proof -
  have "executed_packets_of k (ms_Packets st) \<le> executed_packets_of k (ms_Packets st')" for k
    using count_update(2) [OF assms(2,4), of k] assms(3,5) by (auto split: if_splits)
  with assms(1,5-7) count_update(1) [OF assms(2,4)] show ?thesis
    unfolding target_inv_def by (metis order.trans)
qed

lemma target_inv_execute:
  assumes "target_inv base st" "i < length (ms_Packets st)" "mp_PacketState (ms_Packets st ! i) = ''received''"
    "executed_once st (ms_Packets st ! i) (st1, q)" "ms_Packets st' = (ms_Packets st)[i := q]"
    "ms_Executions st' = ms_Executions st1" "ms_Balances st' = ms_Balances st1"
  shows "target_inv base st'"
proof -
  from assms(4) obtain x where x: "mp_TransferID q = mp_TransferID (ms_Packets st ! i)" "mp_PacketState q \<noteq> ''received''"
    "ms_Executions st1 = ms_Executions st @ [x]" "mx_TransferID x = mp_TransferID (ms_Packets st ! i)"
    "\<And>d. balance_total (ms_Balances st1) d = balance_total (ms_Balances st) d + credited_by d x"
    by (auto simp: executed_once_def)
  have "executions_of k (ms_Executions st') \<le> executed_packets_of k (ms_Packets st')" for k
    using count_update(2) [OF assms(2) x(1), of k] assms(1,3,5,6) x(1-4) by (auto simp: target_inv_def split: if_splits)
  with assms(1,5-7) count_update(1) [OF assms(2) x(1)] x(3,5) show ?thesis
    by (simp add: target_inv_def)
qed

lemma find_packet_Some: "find_packet k ps = Some i \<Longrightarrow> i < length ps \<and> mp_TransferID (ps ! i) = k"
  by (induction ps arbitrary: i) (auto split: if_splits)

lemma find_packet_None: "find_packet k ps = None \<longleftrightarrow> packets_of k ps = 0"
  by (induction ps) auto

lemma target_inv_sync [simp]: "target_inv base (syncLegacyReceiptsLocked st) \<longleftrightarrow> target_inv base st"
  by (simp add: target_inv_def syncLegacyReceiptsLocked_def)

lemma receive_inv: "target_inv base (mt_state t) \<Longrightarrow> target_inv base (mt_state (receive_envelope t envelope))"
proof -
  assume inv: "target_inv base (mt_state t)"
  show ?thesis
  proof (cases "findPacketLocked (mt_state t) (tf_TransferID (dv_Transfer envelope))")
    case None
    then have fresh: "packets_of (TrimSpace (tf_TransferID (dv_Transfer envelope))) (ms_Packets (mt_state t)) = 0"
      by (simp add: findPacketLocked_def find_packet_None)
    have "packets_of k (ms_Packets (mt_state t) @ [received_packet envelope]) \<le> 1" if "TrimSpace k = k" for k
      using inv fresh that by (auto simp: target_inv_def received_packet_def)
    with inv None show ?thesis by (simp add: receive_envelope_def Let_def target_inv_def received_packet_def syncLegacyReceiptsLocked_def)
  qed (use inv in \<open>simp add: receive_envelope_def\<close>)
qed

lemma packets_of_ids: "packets_of k ps = count_list (map mp_TransferID ps) k"
  by (induction ps) auto

lemma advance_packets_effect:
  assumes "advance_packets mode st ps = (st', ps', changed)"
  shows "ms_Packets st' = ms_Packets st \<and> map mp_TransferID ps' = map mp_TransferID ps
     \<and> executions_of k (ms_Executions st') + executed_packets_of k ps \<le> executions_of k (ms_Executions st) + executed_packets_of k ps'
     \<and> balance_total (ms_Balances st') d - credited_total (ms_Executions st') d
         = balance_total (ms_Balances st) d - credited_total (ms_Executions st) d"
  using assms
proof (induction ps arbitrary: st ps' changed)
  case (Cons p ps)
  show ?case
  proof (cases "mp_PacketState p = ''received''")
    case False
    with Cons.prems obtain qs c where "advance_packets mode st ps = (st', qs, c)" "ps' = p # qs" by (auto split: prod.splits)
    with Cons.IH [of st qs c] False show ?thesis by simp
  next
    case True
    let ?mark = "markPacketAckReadyLocked p \<lparr>ak_Status = AckStatusTimedOut, ak_Reason = ''mock timeout''\<rparr>"
    obtain st1 q where first: "(if mode = MockTargetModeTimeout then (st, ?mark) else executePacketLocked mode st p) = (st1, q)" by force
    with Cons.prems True obtain qs c where rest: "advance_packets mode st1 ps = (st', qs, c)" "ps' = q # qs" by (auto split: prod.splits)
    have q: "mp_TransferID q = mp_TransferID p" "mp_PacketState q \<noteq> ''received''" "ms_Packets st1 = ms_Packets st"
      "executions_of k (ms_Executions st1) \<le> executions_of k (ms_Executions st) + (if mp_TransferID p = k then 1 else 0)"
      "balance_total (ms_Balances st1) d - credited_total (ms_Executions st1) d = balance_total (ms_Balances st) d - credited_total (ms_Executions st) d"
      using first execute_once [of st p mode] by (auto simp: executed_once_def split: if_splits)
    from Cons.IH [OF rest(1)] rest(2) q True show ?thesis by (auto split: if_splits)
  qed
qed simp

lemma advance_inv:
  assumes "target_inv base st" "advanceReceivedPacketsLocked mode st = (st', changed)"
  shows "target_inv base st'"
proof -
  obtain st1 ps where adv: "advance_packets mode st (ms_Packets st) = (st1, ps, changed)" "st' = st1\<lparr>ms_Packets := ps\<rparr>"
    using assms(2) by (auto simp: advanceReceivedPacketsLocked_def split: prod.splits)
  note eff = advance_packets_effect [OF adv(1)]
  have "packets_of k ps = packets_of k (ms_Packets st)" for k using eff by (simp add: packets_of_ids)
  moreover have "executions_of k (ms_Executions st1) \<le> executed_packets_of k ps" for k
    using eff [of k] assms(1) by (auto simp: target_inv_def) (metis (no_types) add_le_imp_le_right add_mono_thms_linordered_semiring(3) add.commute order.trans)
  moreover have "balance_total (ms_Balances st1) d = base d + credited_total (ms_Executions st1) d" for d
    using eff [of undefined d] assms(1) unfolding target_inv_def by (metis add.commute add_diff_cancel_left' diff_add_cancel)
  ultimately show ?thesis using assms(1) by (simp add: adv(2) target_inv_def)
qed

text \<open>The changes of one packet behind \<^verbatim>\<open>setAckState\<close> and \<^verbatim>\<open>handleAckControl\<close>.\<close>

lemma ensure_executed_inv:
  assumes "target_inv base st" "i < length (ms_Packets st)" "ensurePacketExecutedLocked mode st (ms_Packets st ! i) = (st1, q)"
    "mp_TransferID r = mp_TransferID q" "mp_PacketState r \<noteq> ''received''"
  shows "target_inv base (st1\<lparr>ms_Packets := (ms_Packets st1)[i := r]\<rparr>)"
proof (cases "mp_PacketState (ms_Packets st ! i) = ''received''")
  case True
  then have ex: "executed_once st (ms_Packets st ! i) (st1, q)"
    using assms(3) execute_once [of st "ms_Packets st ! i" mode] by (simp add: ensurePacketExecutedLocked_def)
  then have "executed_once st (ms_Packets st ! i) (st1, r)" using assms(4,5) by (simp add: executed_once_def)
  moreover have "ms_Packets st1 = ms_Packets st" using ex by (simp add: executed_once_def)
  ultimately show ?thesis by (intro target_inv_execute [OF assms(1,2) True]) simp_all
next
  case False
  then have "st1 = st \<and> q = ms_Packets st ! i" using assms(3) by (auto simp: ensurePacketExecutedLocked_def)
  with assms show ?thesis by (intro target_inv_update [OF assms(1,2,5)]) simp_all
qed

lemma setAckState_inv:
  assumes "target_inv base (mt_state t)" "target_setAckState disk t transferID action reason = (t', err)"
  shows "target_inv base (mt_state t')"
proof (cases "findPacketLocked (mt_state t) transferID")
  case None
  with assms show ?thesis by (simp add: target_setAckState_def Let_def)
next
  case (Some i)
  then have i: "i < length (ms_Packets (mt_state t))" using find_packet_Some by (auto simp: findPacketLocked_def)
  obtain st1 q where ens: "ensurePacketExecutedLocked (mt_mode t) (mt_state t) (ms_Packets (mt_state t) ! i) = (st1, q)" by force
  have upd: "target_inv base ((mt_state t)\<lparr>ms_Packets := (ms_Packets (mt_state t))[i := r]\<rparr>)"
    if "mp_TransferID r = mp_TransferID (ms_Packets (mt_state t) ! i)" "mp_PacketState r \<noteq> ''received''" for r
    using target_inv_update [OF assms(1) i that(2,1)] by simp
  from assms Some ens upd ensure_executed_inv [OF assms(1) i ens] show ?thesis
    by (auto simp: target_setAckState_def Let_def split: if_splits)
qed

lemma handleAckControl_inv:
  assumes "target_inv base (mt_state t)" "handleAckControl disk t meth path transferID = (t', reply)"
  shows "target_inv base (mt_state t')"
proof (cases "findPacketLocked (mt_state t) (TrimSpace transferID)")
  case None
  with assms show ?thesis by (auto simp: handleAckControl_def Let_def split: if_splits)
next
  case (Some i)
  then have i: "i < length (ms_Packets (mt_state t))" using find_packet_Some by (auto simp: findPacketLocked_def)
  obtain st1 q where ens: "ensurePacketExecutedLocked (mt_mode t) (mt_state t) (ms_Packets (mt_state t) ! i) = (st1, q)" by force
  have upd: "target_inv base ((mt_state t)\<lparr>ms_Packets := (ms_Packets (mt_state t))[i := r]\<rparr>)"
    if "mp_TransferID r = mp_TransferID (ms_Packets (mt_state t) ! i)" "mp_PacketState r \<noteq> ''received''" for r
    using target_inv_update [OF assms(1) i that(2,1)] by simp
  from assms Some ens upd ensure_executed_inv [OF assms(1) i ens] show ?thesis
    by (auto simp: handleAckControl_def Let_def split: if_splits option.splits)
qed

inductive target_step :: "MockTarget \<Rightarrow> MockTarget \<Rightarrow> bool" where
  receive: "target_step t (fst (target_ReceiveTransfer disk t transfer))"
| acks: "target_step t (fst (target_ReadyAckRecords disk t))"
| set_ack: "target_step t (fst (target_setAckState disk t transferID action reason))"
| http_transfers: "target_step t (fst (handleTransfers disk t meth body gone))"
| http_acks: "target_step t (fst (handleAcks disk t meth))"
| http_control: "target_step t (fst (handleAckControl disk t meth path transferID))"
| restart: "LoadMockTargetRuntime cfg (Inr (Some (mt_state t))) disk = Inr t' \<Longrightarrow> TrimSpace (mc_StatePath cfg) \<noteq> '''' \<Longrightarrow>
    ms_Balances (mt_state t) \<noteq> [] \<Longrightarrow> target_step t t'"

text \<open>A new runtime, without a saved state, or a new HTTP handler.\<close>

definition target_started :: "MockTarget \<Rightarrow> bool" where
  "target_started t \<longleftrightarrow> (\<exists>cfg. LoadMockTargetRuntime cfg (Inr None) None = Inr t \<or> t = NewMockTargetHandlerWithConfig cfg)"

abbreviation (input) started_balance :: "MockTarget \<Rightarrow> string \<Rightarrow> int" where
  "started_balance t \<equiv> balance_total (ms_Balances (mt_state t))"

lemma started_inv: "target_started t \<Longrightarrow> target_inv (started_balance t) (mt_state t)"
  by (auto simp: target_started_def LoadMockTargetRuntime_def NewMockTargetHandlerWithConfig_def Let_def zeroMockTargetState_def ensurePoolsLocked_def
      ensureBalancesLocked_def target_inv_def syncLegacyReceiptsLocked_def split: if_splits option.splits)

lemma started_empty: "target_started t \<Longrightarrow> ms_Packets (mt_state t) = [] \<and> ms_Executions (mt_state t) = []"
  by (auto simp: target_started_def LoadMockTargetRuntime_def NewMockTargetHandlerWithConfig_def Let_def zeroMockTargetState_def ensurePoolsLocked_def
      ensureBalancesLocked_def syncLegacyReceiptsLocked_def split: if_splits option.splits)

lemma target_inv_step:
  assumes "target_inv base (mt_state t)" "target_step t t'"
  shows "target_inv base (mt_state t')"
  using assms(2)
proof cases
  case (receive disk transfer)
  with assms(1) receive_inv [of base t] show ?thesis
    by (auto simp: target_ReceiveTransfer_def Let_def split: sum.splits option.splits)
next
  case (acks disk)
  obtain st changed where adv: "advanceReceivedPacketsLocked (mt_mode t) (mt_state t) = (st, changed)" by force
  with acks advance_inv [OF assms(1) adv] show ?thesis by (auto simp: target_ReadyAckRecords_def Let_def split: option.splits)
next
  case (set_ack disk transferID action reason)
  with setAckState_inv [OF assms(1)] show ?thesis by (metis prod.collapse)
next
  case (http_transfers disk meth body gone)
  with assms(1) receive_inv [of base t] show ?thesis
    by (auto simp: handleTransfers_def Let_def split: sum.splits option.splits)
next
  case (http_acks disk meth)
  obtain st changed where adv: "advanceReceivedPacketsLocked (mt_mode t) (mt_state t) = (st, changed)" by force
  with http_acks assms(1) advance_inv [OF assms(1) adv] show ?thesis by (auto simp: handleAcks_def Let_def split: option.splits)
next
  case (http_control disk meth path transferID)
  with handleAckControl_inv [OF assms(1)] show ?thesis by (metis prod.collapse)
next
  case (restart cfg disk)
  with assms(1) show ?thesis
    by (auto simp: LoadMockTargetRuntime_def Let_def ensurePoolsLocked_def ensureBalancesLocked_def target_inv_def syncLegacyReceiptsLocked_def
        split: if_splits option.splits)
qed

interpretation target_life: transition_system "\<lambda>t. t = t0 \<and> target_started t" target_step "\<lambda>t. target_inv (started_balance t0) (mt_state t)" for t0
  by unfold_locales (auto intro: started_inv target_inv_step)


text \<open>C23: a swap pays out less than the reserve and not less than the requested minimum, moves exactly the paid amounts between the reserves,
  and never lowers the product of the reserves, if the fee of the pool is at most ten thousand basis points.\<close>

theorem swap_keeps_product:
  assumes "pool_swap pool amount minOut = Inr (out, pool')" "po_FeeBPS pool \<le> 10000"
  shows "\<exists>x y a e. SetString10 (TrimSpace (po_ReserveIn pool)) = Some x \<and> SetString10 (TrimSpace (po_ReserveOut pool)) = Some y
     \<and> SetString10 (TrimSpace amount) = Some a \<and> 0 < e \<and> e \<le> a \<and> 0 < out \<and> out < y
     \<and> SetString10 (TrimSpace (po_ReserveIn pool')) = Some (x + e) \<and> SetString10 (TrimSpace (po_ReserveOut pool')) = Some (y - out)
     \<and> x * y \<le> (x + e) * (y - out) \<and> (\<forall>m. SetString10 (TrimSpace minOut) = Some m \<longrightarrow> m \<le> out)"
  using assms(1)
proof (cases rule: pool_swap_Inr)
  case (1 x y a e)
  have e: "0 < e" "e \<le> a" using effective_input_le [OF 1(7) assms(2) 1(6)] by simp_all
  have "x * y \<le> (x + e) * (y - out)" by (rule product_grows [OF 1(4,5) e(1) 1(8)])
  with 1 e show ?thesis by (intro exI [of _ x] exI [of _ y] exI [of _ a] exI [of _ e]) simp
qed

text \<open>A fee above ten thousand basis points wraps around and multiplies the input: with 10001 basis points an input of 10000 counts as
  4294967295.\<close>

lemma excess_fee_inflates_input: "effective_input 10001 10000 = Inr 4294967295"
  by code_simp

section \<open>Examples\<close>

definition example_pool :: MockTargetPool where
  "example_pool = \<lparr>po_InputDenom = ''ibc/a'', po_OutputDenom = ''b'', po_ReserveIn = ''100'', po_ReserveOut = ''200'', po_FeeBPS = 0\<rparr>"

definition example_target :: MockTarget where
  "example_target = projr (LoadMockTargetRuntime \<lparr>mc_Mode = '''', mc_Delay = 0, mc_StatePath = '''', mc_Pools = [example_pool]\<rparr> (Inr None) None)"

definition example_transfer :: "string \<Rightarrow> Transfer" where
  "example_transfer transferID =
     \<lparr>tf_TransferID = transferID, tf_AssetID = ''a'', tf_Amount = ''10'', tf_Receiver = ''x'', tf_DestinationChainID = ''o'',
      tf_ChannelID = ''c'', tf_DestinationDenom = ''ibc/a'', tf_TimeoutHeight = 90, tf_Memo = ''swap:b:min_out=9'',
      tf_Status = ''pending'', tf_FailureReason = ''''\<rparr>"

text \<open>A transfer is delivered twice, then the destination is asked for its acknowledgements.\<close>

definition example_delivered :: "string \<Rightarrow> MockTarget" where
  "example_delivered transferID =
     fst (target_ReadyAckRecords None (fst (target_ReceiveTransfer None (fst (target_ReceiveTransfer None example_target (example_transfer transferID)))
       (example_transfer transferID))))"

lemma example_target_started: "target_started example_target"
proof -
  have "returns (LoadMockTargetRuntime \<lparr>mc_Mode = '''', mc_Delay = 0, mc_StatePath = '''', mc_Pools = [example_pool]\<rparr> (Inr None) None)" by code_simp
  then have "LoadMockTargetRuntime \<lparr>mc_Mode = '''', mc_Delay = 0, mc_StatePath = '''', mc_Pools = [example_pool]\<rparr> (Inr None) None = Inr example_target"
    unfolding example_target_def by (simp only: returns_projr)
  then show ?thesis unfolding target_started_def by blast
qed

lemma example_delivered_reachable: "reachable (\<lambda>t. t = example_target \<and> target_started t) target_step (example_delivered i)"
  unfolding example_delivered_def
  by (intro reachable.next_state [where step = target_step, OF _ target_step.acks] reachable.next_state [where step = target_step, OF _ target_step.receive] reachable.start)
     (simp add: example_target_started)

definition example_envelope :: "string \<Rightarrow> DeliveryEnvelope" where
  "example_envelope transferID =
     \<lparr>dv_Transfer = example_transfer transferID,
      dv_Packet =
        \<lparr>pk_Sequence = 1, pk_SourcePort = ''transfer'', pk_SourceChannel = ''c'', pk_DestinationPort = ''transfer'', pk_TimeoutHeight = 90,
         pk_Data = \<lparr>pk_Denom = ''a'', pk_Amount = ''10'', pk_Sender = routePacketSender, pk_Receiver = ''x'', pk_Memo = ''swap:b:min_out=9''\<rparr>\<rparr>,
      dv_DenomTrace = \<lparr>dt_Path = ''transfer/c'', dt_BaseDenom = ''a'', dt_IBCDenom = ''ibc/a''\<rparr>,
      dv_Action = Some \<lparr>ra_Type = ''swap'', ra_TargetDenom = ''b'', ra_MinOut = ''9'', ra_Recipient = '''', ra_Path = ''''\<rparr>, dv_ActionError = ''''\<rparr>"

lemma example_envelope_built:
  assumes "TrimSpace i = ''ibc/a/1''"
  shows "buildDeliveryEnvelope (example_transfer i) = Inr (example_envelope i)"
proof -
  have "transfer_id ''a'' 1 = ''ibc/a/1''" "TrimSpace ''ibc/a/1'' = ''ibc/a/1''" by code_simp+
  with parseTransferSequence_id [of "''a''" 1] assms have sequence: "parseTransferSequence i = Inr 1"
    by (auto simp: parseTransferSequence_def split: option.splits)
  have action: "parseRouteAction ''swap:b:min_out=9''
      = (Some \<lparr>ra_Type = ''swap'', ra_TargetDenom = ''b'', ra_MinOut = ''9'', ra_Recipient = '''', ra_Path = ''''\<rparr>, '''')" by code_simp
  show ?thesis
    by (simp add: buildDeliveryEnvelope_def example_transfer_def example_envelope_def sequence action Let_def go_eval)
qed

lemma example_delivered_eq:
  assumes "TrimSpace i = ''ibc/a/1''"
  shows "example_delivered i = fst (target_ReadyAckRecords None (receive_envelope (receive_envelope example_target (example_envelope i)) (example_envelope i)))"
  by (simp add: example_delivered_def target_ReceiveTransfer_def example_envelope_built [OF assms] persistMockTargetState_def Let_def)


text \<open>With white space around it, an id is not found again: the transfer is received and executed twice.\<close>

lemma padded_id_executed_twice:
  "executions_of ''ibc/a/1 '' (ms_Executions (mt_state (example_delivered ''ibc/a/1 ''))) = 2"
proof -
  have trim: "TrimSpace ''ibc/a/1 '' = ''ibc/a/1''" by code_simp
  show ?thesis unfolding example_delivered_eq [OF trim] by code_simp
qed

theorem swap_keeps_product_witness:
  "\<exists>e. 0 < e \<and> e \<le> 10 \<and> 100 * 200 \<le> (100 + e) * (200 - (18 :: int))"
proof -
  have swap: "pool_swap example_pool ''10'' ''9'' = Inr (18, example_pool\<lparr>po_ReserveIn := ''110'', po_ReserveOut := ''182''\<rparr>)" by code_simp
  have vals: "SetString10 (TrimSpace (po_ReserveIn example_pool)) = Some 100" "SetString10 (TrimSpace (po_ReserveOut example_pool)) = Some 200"
    "SetString10 (TrimSpace ''10'') = Some 10" "po_FeeBPS example_pool \<le> 10000" by code_simp+
  from swap_keeps_product [OF swap vals(4)] vals(1-3) show ?thesis by auto
qed

end
