(* ===== verification/RouteLife.thy ===== *)
theory RouteLife
  imports TargetLife AppState
begin

text \<open>
  The chain, the route relayer and the destination together. The relayer calls the chain through the commands of \<^verbatim>\<open>aegislinkd\<close>
  (\<^verbatim>\<open>relayer/internal/route/command_runtime.go\<close>) and the destination over HTTP (\<^verbatim>\<open>http_target.go\<close>). Every call may fail before it has an
  effect or lose its reply after it.
\<close>

section \<open>The calls of the relayer\<close>

datatype call_outcome = Delivered | NotSent relay_error | ReplyLost relay_error

text \<open>\<open>rw_outcomes\<close> lists the outcomes of the coming calls; after them calls are delivered.\<close>

record RouteWorld =
  rw_app :: App
  rw_target :: MockTarget
  rw_outcomes :: "call_outcome list"

definition remote :: "(RouteWorld \<Rightarrow> RouteWorld \<times> (relay_error + 'a)) \<Rightarrow> RouteWorld \<Rightarrow> RouteWorld \<times> (relay_error + 'a)" where
  "remote call w =
     (case rw_outcomes w of
        [] \<Rightarrow> call w
      | Delivered # rest \<Rightarrow> call (w\<lparr>rw_outcomes := rest\<rparr>)
      | NotSent e # rest \<Rightarrow> (w\<lparr>rw_outcomes := rest\<rparr>, Inl e)
      | ReplyLost e # rest \<Rightarrow> (fst (call (w\<lparr>rw_outcomes := rest\<rparr>)), Inl e))"

definition as_error :: "'w \<times> ('e + 'a) \<Rightarrow> 'w \<times> 'e option" where
  "as_error result = (case result of (w, Inl e) \<Rightarrow> (w, Some e) | (w, Inr _) \<Rightarrow> (w, None))"

subsection \<open>The chain\<close>

text \<open>A transfer as the query \<^verbatim>\<open>transfers\<close> shows it.\<close>

definition transfer_response :: "TransferRecord \<Rightarrow> Transfer" where
  "transfer_response r =
     \<lparr>tf_TransferID = tr_TransferID r, tf_AssetID = tr_AssetID r, tf_Amount = show_int (tr_Amount r), tf_Receiver = tr_Receiver r,
      tf_DestinationChainID = tr_DestinationChainID r, tf_ChannelID = tr_ChannelID r, tf_DestinationDenom = tr_DestinationDenom r,
      tf_TimeoutHeight = tr_TimeoutHeight r, tf_Memo = tr_Memo r, tf_Status = tr_Status r, tf_FailureReason = tr_FailureReason r\<rparr>"

definition queryTransfers :: "App \<Rightarrow> Transfer list" where
  "queryTransfers a = map transfer_response (sort_key tr_TransferID (app_Transfers a))"

definition command_PendingTransfers :: "RouteWorld \<Rightarrow> RouteWorld \<times> (relay_error + Transfer list)" where
  "command_PendingTransfers = remote (\<lambda>w. (w, Inr (filter (\<lambda>t. TrimSpace (tf_Status t) = ''pending'') (queryTransfers (rw_app w)))))"

text \<open>A transaction command loads the state, settles the transfer and saves the state; when it fails, nothing is saved.\<close>

definition tx_settle :: "(App \<Rightarrow> string \<Rightarrow> App \<times> (router_error + TransferRecord)) \<Rightarrow> string \<Rightarrow> RouteWorld \<Rightarrow> RouteWorld \<times> (relay_error + unit)" where
  "tx_settle settle transferID w =
     (if TrimSpace transferID = '''' then (w, Inl (RelayError ''missing transfer id''))
      else case settle (rw_app w) transferID of
        (a, Inl e) \<Rightarrow> (w, Inl (RelayError ''exit status 1''))
      | (a, Inr r) \<Rightarrow> (w\<lparr>rw_app := a\<rparr>, Inr ()))"

definition command_CompleteTransfer :: "RouteWorld \<Rightarrow> string \<Rightarrow> RouteWorld \<times> relay_error option" where
  "command_CompleteTransfer w transferID = as_error (remote (tx_settle app_CompleteIBCTransfer (TrimSpace transferID)) w)"

definition command_FailTransfer :: "RouteWorld \<Rightarrow> string \<Rightarrow> string \<Rightarrow> RouteWorld \<times> relay_error option" where
  "command_FailTransfer w transferID reason =
     as_error (remote (tx_settle (\<lambda>a i. app_FailIBCTransfer a i (TrimSpace reason)) (TrimSpace transferID)) w)"

definition command_TimeoutTransfer :: "RouteWorld \<Rightarrow> string \<Rightarrow> RouteWorld \<times> relay_error option" where
  "command_TimeoutTransfer w transferID = as_error (remote (tx_settle app_TimeoutIBCTransfer (TrimSpace transferID)) w)"

subsection \<open>The destination over HTTP\<close>

definition http_SubmitTransfer :: "RouteWorld \<Rightarrow> Transfer \<Rightarrow> RouteWorld \<times> (relay_error + Ack)" where
  "http_SubmitTransfer w transfer =
     (case buildDeliveryEnvelope transfer of
        Inl e \<Rightarrow> (w, Inl e)
      | Inr envelope \<Rightarrow>
          remote (\<lambda>w. case handleTransfers None (rw_target w) ''POST'' (Inr envelope) False of
              (t, status, body) \<Rightarrow>
                (w\<lparr>rw_target := t\<rparr>,
                 if status \<noteq> 200 then Inl (RelayError ''route target status'')
                 else case body of
                   BodyAck ack \<Rightarrow> if ak_Status ack = '''' then Inl (RelayError ''route target returned empty status'') else Inr ack
                 | _ \<Rightarrow> Inl (RelayError ''EOF''))) w)"

definition http_ReadyAcks :: "RouteWorld \<Rightarrow> RouteWorld \<times> (relay_error + AckRecord list)" where
  "http_ReadyAcks =
     remote (\<lambda>w. case handleAcks None (rw_target w) ''GET'' of
        (t, status, body) \<Rightarrow>
          (w\<lparr>rw_target := t\<rparr>,
           if status \<noteq> 200 then Inl (RelayError ''route target status'')
           else case body of BodyAcks acks \<Rightarrow> Inr acks | _ \<Rightarrow> Inl (RelayError ''EOF'')))"

definition http_ConfirmAck :: "RouteWorld \<Rightarrow> string \<Rightarrow> RouteWorld \<times> relay_error option" where
  "http_ConfirmAck w transferID =
     as_error (remote (\<lambda>w. case handleAckControl None (rw_target w) ''POST'' ''/acks/confirm'' (TrimSpace transferID) of
        (t, status, body) \<Rightarrow> (w\<lparr>rw_target := t\<rparr>, if status \<noteq> 200 then Inl (RelayError ''route target status'') else Inr ())) w)"

definition route_relayer :: "RouteWorld RouteRelayer" where
  "route_relayer =
     \<lparr>rx_PendingTransfers = command_PendingTransfers, rx_CompleteTransfer = command_CompleteTransfer, rx_FailTransfer = command_FailTransfer,
      rx_TimeoutTransfer = command_TimeoutTransfer, rx_SubmitTransfer = http_SubmitTransfer, rx_ReadyAcks = http_ReadyAcks,
      rx_ConfirmAck = http_ConfirmAck\<rparr>"

section \<open>Truthful acknowledgements\<close>

definition paid_out :: "MockTargetExecution \<Rightarrow> bool" where
  "paid_out x \<longleftrightarrow> mx_Result x \<in> {''credit'', ''swap_success'', ''stake_success''}"

text \<open>In the success mode an executed packet is acknowledged as completed exactly when its execution succeeded.\<close>

definition acked_truthfully :: "MockTargetState \<Rightarrow> MockTargetPacket \<Rightarrow> MockTargetState \<times> MockTargetPacket \<Rightarrow> bool" where
  "acked_truthfully st p result \<longleftrightarrow>
     (case result of (st', q) \<Rightarrow>
        \<exists>x ack. ms_Executions st' = ms_Executions st @ [x] \<and> mx_TransferID x = mp_TransferID p \<and> mp_TransferID q = mp_TransferID p
          \<and> mp_PacketState q = ''ack_ready'' \<and> mp_AckPayload q = Some ack
          \<and> ak_Status ack = (if paid_out x then AckStatusCompleted else AckStatusFailed))"

lemma failed_truthfully:
  assumes "ms_Executions st' = ms_Executions st" "mx_TransferID x = mp_TransferID p" "result \<notin> {''credit'', ''swap_success'', ''stake_success''}"
  shows "acked_truthfully st p (execution_failed st' p x result e)"
  using assms by (simp add: acked_truthfully_def execution_failed_def paid_out_def markPacketAckReadyLocked_def)

lemma done_truthfully:
  assumes "ms_Executions st' = ms_Executions st" "mx_TransferID x = mp_TransferID p" "paid_out x"
  shows "acked_truthfully st p (execution_done MockTargetModeSuccess st' p x)"
  using assms by (simp add: acked_truthfully_def execution_done_def advancePacketAfterExecutionLocked_def markPacketAckReadyLocked_def)

lemma credit_executions: "creditBalanceLocked st a d v = (st', err) \<Longrightarrow> ms_Executions st' = ms_Executions st"
  using credit_keeps(2) [of st a d v] by simp

lemma execute_truthfully: "acked_truthfully st p (executePacketLocked MockTargetModeSuccess st p)"
proof -
  let ?st = "ensurePoolsLocked st"
  have st: "ms_Executions ?st = ms_Executions st" by (simp add: ensurePoolsLocked_def)
  have credit: "acked_truthfully st p (execute_credit MockTargetModeSuccess ?st p)"
    unfolding execute_credit_def Let_def
    by (simp split: prod.split option.split) (auto intro!: failed_truthfully done_truthfully simp: st paid_out_def dest: credit_executions)
  have stake: "acked_truthfully st p (execute_stake MockTargetModeSuccess ?st p a)" for a
    unfolding execute_stake_def Let_def by (auto intro!: failed_truthfully done_truthfully simp: st paid_out_def)
  have swap: "acked_truthfully st p (execute_swap MockTargetModeSuccess ?st p a)" for a
    unfolding execute_swap_def Let_def
    by (simp split: prod.split sum.split option.split) (auto intro!: failed_truthfully done_truthfully simp: st paid_out_def dest!: credit_executions swap_keeps)
  show ?thesis
    unfolding executePacketLocked_def Let_def using credit stake swap
    by (auto intro!: failed_truthfully simp: st split: option.split)
qed

section \<open>Settlements and executions\<close>

text \<open>An executed packet has an acknowledgement that says whether it paid out; a packet that was only received has no execution.\<close>

definition packet_ok :: "MockTargetExecution list \<Rightarrow> MockTargetPacket \<Rightarrow> bool" where
  "packet_ok xs p \<longleftrightarrow>
     (if mp_PacketState p = ''received'' then \<forall>x \<in> set xs. mx_TransferID x \<noteq> mp_TransferID p
      else \<exists>ack. mp_AckPayload p = Some ack
        \<and> ak_Status ack = (if \<exists>x \<in> set xs. mx_TransferID x = mp_TransferID p \<and> paid_out x then AckStatusCompleted else AckStatusFailed))"

text \<open>A transfer that the chain has settled was executed accordingly.\<close>

definition settled_ok :: "MockTargetExecution list \<Rightarrow> MockTargetPacket list \<Rightarrow> TransferRecord \<Rightarrow> bool" where
  "settled_ok xs ps r \<longleftrightarrow>
     (tr_Status r = TransferStatusCompleted \<longrightarrow> (\<exists>x \<in> set xs. mx_TransferID x = tr_TransferID r \<and> paid_out x))
     \<and> (tr_Status r \<in> {TransferStatusAckFailed, TransferStatusTimedOut, TransferStatusRefunded} \<longrightarrow>
          (\<exists>p \<in> set ps. mp_TransferID p = tr_TransferID r \<and> mp_PacketState p \<noteq> ''received'')
          \<and> (\<forall>x \<in> set xs. mx_TransferID x = tr_TransferID r \<longrightarrow> \<not> paid_out x))"

definition route_ledger :: "(string, TransferRecord) gomap \<Rightarrow> MockTargetExecution list \<Rightarrow> MockTargetPacket list \<Rightarrow> bool" where
  "route_ledger T xs ps \<longleftrightarrow>
     gomap_wf T
     \<and> (\<forall>k r. map_of T k = Some r \<longrightarrow> tr_TransferID r = k \<and> TrimSpace k = k \<and> settled_ok xs ps r)
     \<and> (\<forall>p \<in> set ps. mp_TransferID p \<in> dom (map_of T) \<and> packet_ok xs p)
     \<and> distinct (map mp_TransferID ps)
     \<and> mx_TransferID ` set xs \<subseteq> mp_TransferID ` set ps"

lemma ledger_trim: "route_ledger T xs ps \<Longrightarrow> k \<in> dom (map_of T) \<Longrightarrow> TrimSpace k = k"
  by (auto simp: route_ledger_def)

text \<open>A packet that arrives.\<close>

lemma ledger_receive:
  assumes "route_ledger T xs ps" "mp_TransferID p \<in> dom (map_of T)" "mp_PacketState p = ''received''" "mp_TransferID p \<notin> mp_TransferID ` set ps"
  shows "route_ledger T xs (ps @ [p])"
proof -
  have "mx_TransferID ` set xs \<subseteq> mp_TransferID ` set ps" using assms(1) by (simp add: route_ledger_def)
  with assms(4) have "\<forall>x \<in> set xs. mx_TransferID x \<noteq> mp_TransferID p" by (metis image_subset_iff)
  with assms(3) have "packet_ok xs p" by (simp add: packet_ok_def)
  moreover have "settled_ok xs (ps @ [p]) r" if "settled_ok xs ps r" for r using that by (auto simp: settled_ok_def)
  ultimately show ?thesis using assms by (auto simp: route_ledger_def)
qed

text \<open>A packet that is executed.\<close>

lemma ledger_execute:
  assumes "route_ledger T xs (ps @ p # qs)" "mp_PacketState p = ''received''" "mp_PacketState q \<noteq> ''received''" "mp_TransferID q = mp_TransferID p"
    "mx_TransferID x = mp_TransferID p" "mp_AckPayload q = Some ack" "ak_Status ack = (if paid_out x then AckStatusCompleted else AckStatusFailed)"
  shows "route_ledger T (xs @ [x]) (ps @ q # qs)"
proof -
  have p: "mp_TransferID p \<in> dom (map_of T)" "\<forall>y \<in> set xs. mx_TransferID y \<noteq> mp_TransferID p"
    using assms(1,2) by (auto simp: route_ledger_def packet_ok_def)
  have "mp_TransferID p \<notin> mp_TransferID ` (set ps \<union> set qs)" using assms(1) by (auto simp: route_ledger_def)
  then have ids: "\<forall>p' \<in> set ps \<union> set qs. mp_TransferID p' \<noteq> mp_TransferID p" by (metis imageI)
  have others: "packet_ok (xs @ [x]) p'" if "p' \<in> set ps \<union> set qs" "packet_ok xs p'" for p'
  proof -
    have "mp_TransferID p' \<noteq> mp_TransferID p" using that(1) ids by blast
    with that(2) assms(5) show ?thesis by (auto simp: packet_ok_def)
  qed
  have q: "packet_ok (xs @ [x]) q" using assms(3-7) p(2) by (auto simp: packet_ok_def)
  have settled: "settled_ok (xs @ [x]) (ps @ q # qs) r" if "map_of T k = Some r" for k r
  proof -
    have r: "settled_ok xs (ps @ p # qs) r" using assms(1) that by (auto simp: route_ledger_def)
    show ?thesis
    proof (cases "tr_TransferID r = mp_TransferID p")
      case True
      have "\<not> (\<exists>p' \<in> set (ps @ p # qs). mp_TransferID p' = mp_TransferID p \<and> mp_PacketState p' \<noteq> ''received'')"
        using ids assms(2) by auto
      moreover have "\<not> (\<exists>y \<in> set xs. mx_TransferID y = mp_TransferID p \<and> paid_out y)" using p(2) by blast
      ultimately have "tr_Status r \<noteq> TransferStatusCompleted" "tr_Status r \<notin> {TransferStatusAckFailed, TransferStatusTimedOut, TransferStatusRefunded}"
        using r unfolding settled_ok_def True by blast+
      then show ?thesis by (simp add: settled_ok_def)
    next
      case False
      with r assms(4,5) show ?thesis by (auto simp: settled_ok_def)
    qed
  qed
  show ?thesis
    using assms(1,4,5) others q settled by (auto simp: route_ledger_def)
qed

text \<open>A packet of which only the acknowledgement is marked as relayed.\<close>

lemma ledger_confirm:
  assumes "route_ledger T xs (ps @ p # qs)" "mp_PacketState p \<noteq> ''received''" "mp_PacketState q \<noteq> ''received''" "mp_TransferID q = mp_TransferID p"
    "mp_AckPayload q = mp_AckPayload p"
  shows "route_ledger T xs (ps @ q # qs)"
proof -
  have "packet_ok xs q" using assms by (auto simp: route_ledger_def packet_ok_def)
  moreover have "settled_ok xs (ps @ q # qs) r" if "settled_ok xs (ps @ p # qs) r" for r using that assms(3,4) by (auto simp: settled_ok_def)
  ultimately show ?thesis using assms(1,4) by (auto simp: route_ledger_def)
qed

text \<open>A transfer that the chain settles, and one that it starts.\<close>

lemma ledger_settle:
  assumes "route_ledger T xs ps" "map_of T k = Some r" "tr_TransferID r' = k" "settled_ok xs ps r'"
  shows "route_ledger (gomap_set k r' T) xs ps"
  using assms by (auto simp: route_ledger_def gomap_simps)

lemma ledger_initiate:
  assumes "route_ledger T xs ps" "tr_Status r = TransferStatusPending" "tr_TransferID r = k" "TrimSpace k = k" "map_of T k = None"
  shows "route_ledger (gomap_set k r T) xs ps"
  using assms by (auto simp: route_ledger_def gomap_simps settled_ok_def)

lemma ledger_advance:
  assumes "advance_packets MockTargetModeSuccess st ps = (st', ps', changed)" "route_ledger T (ms_Executions st) (pre @ ps)"
  shows "route_ledger T (ms_Executions st') (pre @ ps')"
  using assms
proof (induction ps arbitrary: st ps' changed pre)
  case (Cons p ps)
  show ?case
  proof (cases "mp_PacketState p = ''received''")
    case False
    with Cons.prems(1) obtain qs c where "advance_packets MockTargetModeSuccess st ps = (st', qs, c)" "ps' = p # qs" by (auto split: prod.splits)
    with Cons.IH [of st qs c "pre @ [p]"] Cons.prems(2) show ?thesis by simp
  next
    case True
    obtain st1 q where ex: "executePacketLocked MockTargetModeSuccess st p = (st1, q)" by force
    with Cons.prems(1) True obtain qs c where rest: "advance_packets MockTargetModeSuccess st1 ps = (st', qs, c)" "ps' = q # qs"
      by (auto split: prod.splits)
    obtain x ack where x: "ms_Executions st1 = ms_Executions st @ [x]" "mx_TransferID x = mp_TransferID p" "mp_TransferID q = mp_TransferID p"
      "mp_PacketState q \<noteq> ''received''" "mp_AckPayload q = Some ack" "ak_Status ack = (if paid_out x then AckStatusCompleted else AckStatusFailed)"
      using execute_truthfully [of st p] ex by (auto simp: acked_truthfully_def)
    have "route_ledger T (ms_Executions st1) (pre @ q # ps)"
      using ledger_execute [OF Cons.prems(2) True x(4,3,2,5,6)] x(1) by simp
    with Cons.IH [OF rest(1), of "pre @ [q]"] rest(2) show ?thesis by simp
  qed
qed simp

section \<open>What a run keeps\<close>

definition route_inv :: "RouteWorld \<Rightarrow> bool" where
  "route_inv w \<longleftrightarrow>
     mt_mode (rw_target w) = MockTargetModeSuccess
     \<and> route_ledger (ik_transfers (app_router (rw_app w))) (ms_Executions (mt_state (rw_target w))) (ms_Packets (mt_state (rw_target w)))"

text \<open>An acknowledgement of an executed packet.\<close>

definition ack_known :: "RouteWorld \<Rightarrow> AckRecord \<Rightarrow> bool" where
  "ack_known w a \<longleftrightarrow>
     (\<exists>p \<in> set (ms_Packets (mt_state (rw_target w))). \<exists>ack. mp_TransferID p = ar_TransferID a \<and> mp_PacketState p \<noteq> ''received''
        \<and> mp_AckPayload p = Some ack \<and> ak_Status ack = ar_Status a)"

abbreviation (input) route_transfers :: "RouteWorld \<Rightarrow> (string, TransferRecord) gomap" where
  "route_transfers w \<equiv> ik_transfers (app_router (rw_app w))"

lemma outcomes_simps [simp]:
  "route_inv (w\<lparr>rw_outcomes := os\<rparr>) \<longleftrightarrow> route_inv w" "ack_known (w\<lparr>rw_outcomes := os\<rparr>) a \<longleftrightarrow> ack_known w a"
  by (simp_all add: route_inv_def ack_known_def)

text \<open>A remote call is the call in the world with other outcomes, or nothing happens and an error is returned.\<close>

lemma remote_cases:
  obtains (call) os where "fst (remote call w) = fst (call (w\<lparr>rw_outcomes := os\<rparr>))"
      "snd (remote call w) = snd (call (w\<lparr>rw_outcomes := os\<rparr>)) \<or> (\<exists>e. snd (remote call w) = Inl e)"
  | (lost) os e where "remote call w = (w\<lparr>rw_outcomes := os\<rparr>, Inl e)"
proof (cases "rw_outcomes w")
  case Nil
  then have "remote call w = call w" "w\<lparr>rw_outcomes := []\<rparr> = w" by (simp_all add: remote_def)
  then show ?thesis using call [of "[]"] by simp
next
  case (Cons outcome rest)
  then show ?thesis using call [of rest] lost [of rest] by (cases outcome) (simp_all add: remote_def)
qed

lemma fst_as_error [simp]: "fst (as_error result) = fst result"
  by (simp add: as_error_def split: prod.split sum.split)

subsection \<open>The destination\<close>

lemma POST_transfers:
  "handleTransfers None t ''POST'' (Inr envelope) False = (receive_envelope t envelope, 200, BodyAck \<lparr>ak_Status = AckStatusReceived, ak_Reason = ''''\<rparr>)"
  by (simp add: handleTransfers_def persistMockTargetState_def Let_def)

lemma find_packet_id: "find_packet k ps = None \<longleftrightarrow> k \<notin> mp_TransferID ` set ps"
  by (induction ps) auto

lemma receive_route:
  assumes "route_inv w" "tf_TransferID (dv_Transfer envelope) \<in> dom (map_of (route_transfers w))"
  shows "route_inv (w\<lparr>rw_target := receive_envelope (rw_target w) envelope\<rparr>)"
proof -
  let ?i = "tf_TransferID (dv_Transfer envelope)" and ?st = "mt_state (rw_target w)"
  have trim: "TrimSpace ?i = ?i" using assms ledger_trim unfolding route_inv_def by blast
  have "route_ledger (route_transfers w) (ms_Executions ?st) (ms_Packets ?st @ [received_packet envelope])"
    if "find_packet ?i (ms_Packets ?st) = None"
    using assms that by (intro ledger_receive) (simp_all add: route_inv_def received_packet_def find_packet_id)
  with assms(1) trim show ?thesis
    by (auto simp: route_inv_def receive_envelope_def Let_def findPacketLocked_def syncLegacyReceiptsLocked_def split: option.split)
qed

lemma submit_route:
  assumes "route_inv w" "tf_TransferID transfer \<in> dom (map_of (route_transfers w))" "http_SubmitTransfer w transfer = (w', res)"
  shows "route_inv w' \<and> rw_app w' = rw_app w \<and> (\<forall>ack. res = Inr ack \<longrightarrow> ak_Status ack = AckStatusReceived)"
proof (cases "buildDeliveryEnvelope transfer")
  case (Inl e)
  with assms show ?thesis by (auto simp: http_SubmitTransfer_def)
next
  case (Inr envelope)
  then have "dv_Transfer envelope = transfer"
    by (auto simp: buildDeliveryEnvelope_def Let_def split: sum.splits if_splits prod.splits)
  with assms(1,2) have keep: "route_inv (w\<lparr>rw_outcomes := os, rw_target := receive_envelope (rw_target w) envelope\<rparr>)" for os
    using receive_route [of "w\<lparr>rw_outcomes := os\<rparr>" envelope] by simp
  let ?call = "\<lambda>w. (w\<lparr>rw_target := receive_envelope (rw_target w) envelope\<rparr>, Inr \<lparr>ak_Status = AckStatusReceived, ak_Reason = ''''\<rparr>) :: RouteWorld \<times> (relay_error + Ack)"
  have eq: "http_SubmitTransfer w transfer = remote ?call w"
    using Inr by (simp add: http_SubmitTransfer_def POST_transfers cong: if_cong)
  show ?thesis
  proof (cases rule: remote_cases [of ?call w])
    case (call os)
    then show ?thesis using assms(3) keep [of os] unfolding eq by auto
  next
    case (lost os e)
    then show ?thesis using assms(1,3) unfolding eq by auto
  qed
qed

lemma ready_acks_known: "a \<in> set (ready_acks ps) \<Longrightarrow>
    \<exists>p \<in> set ps. \<exists>ack. mp_TransferID p = ar_TransferID a \<and> mp_PacketState p \<noteq> ''received'' \<and> mp_AckPayload p = Some ack \<and> ak_Status ack = ar_Status a"
  by (auto simp: ready_acks_def List.map_filter_def split: if_splits)

definition advanced :: "MockTarget \<Rightarrow> MockTarget" where
  "advanced t = fst (handleAcks None t ''GET'')"

lemma GET_acks: "handleAcks None t ''GET'' = (advanced t, 200, BodyAcks (ready_acks (ms_Packets (mt_state (advanced t)))))"
  by (simp add: handleAcks_def persistMockTargetState_def advanced_def Let_def split: prod.split)

lemma advanced_ledger:
  assumes "mt_mode t = MockTargetModeSuccess" "route_ledger T (ms_Executions (mt_state t)) (ms_Packets (mt_state t))"
  shows "mt_mode (advanced t) = MockTargetModeSuccess \<and> route_ledger T (ms_Executions (mt_state (advanced t))) (ms_Packets (mt_state (advanced t)))"
proof -
  obtain st ps changed where adv: "advance_packets MockTargetModeSuccess (mt_state t) (ms_Packets (mt_state t)) = (st, ps, changed)" by (metis prod_cases3)
  from ledger_advance [OF adv, of T "[]"] assms(2) have "route_ledger T (ms_Executions st) ps" by simp
  with adv assms(1) show ?thesis
    by (simp add: advanced_def handleAcks_def advanceReceivedPacketsLocked_def persistMockTargetState_def syncLegacyReceiptsLocked_def Let_def)
qed

lemma acks_route:
  assumes "route_inv w" "http_ReadyAcks w = (w', res)"
  shows "route_inv w' \<and> (\<forall>acks. res = Inr acks \<longrightarrow> (\<forall>a \<in> set acks. ack_known w' a))"
proof -
  let ?call = "\<lambda>w. (w\<lparr>rw_target := advanced (rw_target w)\<rparr>, Inr (ready_acks (ms_Packets (mt_state (advanced (rw_target w)))))) :: RouteWorld \<times> (relay_error + AckRecord list)"
  have eq: "http_ReadyAcks w = remote ?call w" by (simp add: http_ReadyAcks_def GET_acks)
  have keep: "route_inv (w\<lparr>rw_outcomes := os, rw_target := advanced (rw_target w)\<rparr>)" for os
    using assms(1) advanced_ledger [of "rw_target w" "route_transfers w"] by (simp add: route_inv_def)
  show ?thesis
  proof (cases rule: remote_cases [of ?call w])
    case (call os)
    then show ?thesis using assms(2) keep [of os] ready_acks_known unfolding eq by (fastforce simp: ack_known_def)
  next
    case (lost os e)
    then show ?thesis using assms unfolding eq by auto
  qed
qed

definition confirmed :: "string \<Rightarrow> MockTarget \<Rightarrow> MockTarget" where
  "confirmed transferID t = fst (handleAckControl None t ''POST'' ''/acks/confirm'' transferID)"

lemma confirm_path: "TrimPrefix ''/acks/confirm'' ''/acks/'' = ''confirm''"
  by code_simp

text \<open>A confirmation leaves the destination alone or marks one acknowledgement as relayed.\<close>

lemma confirmed_cases:
  obtains (same) "confirmed transferID t = t"
  | (marked) ps p qs where "ms_Packets (mt_state t) = ps @ p # qs" "mp_PacketState p = ''ack_ready''"
      "ms_Packets (mt_state (confirmed transferID t)) = ps @ p\<lparr>mp_AckRelayed := True, mp_PacketState := ''ack_relayed''\<rparr> # qs"
      "ms_Executions (mt_state (confirmed transferID t)) = ms_Executions (mt_state t)" "mt_mode (confirmed transferID t) = mt_mode t"
proof (cases "TrimSpace transferID \<noteq> '''' \<and> (\<exists>i. findPacketLocked (mt_state t) (TrimSpace transferID) = Some i
      \<and> mp_PacketState (ms_Packets (mt_state t) ! i) = ''ack_ready'')")
  case True
  then obtain i where i: "findPacketLocked (mt_state t) (TrimSpace transferID) = Some i" "mp_PacketState (ms_Packets (mt_state t) ! i) = ''ack_ready''" by blast
  then have len: "i < length (ms_Packets (mt_state t))" using find_packet_Some by (auto simp: findPacketLocked_def)
  let ?q = "(ms_Packets (mt_state t) ! i)\<lparr>mp_AckRelayed := True, mp_PacketState := ''ack_relayed''\<rparr>"
  have "mt_state (confirmed transferID t) = syncLegacyReceiptsLocked ((mt_state t)\<lparr>ms_Packets := (ms_Packets (mt_state t))[i := ?q]\<rparr>)
      \<and> mt_mode (confirmed transferID t) = mt_mode t"
    using True i by (simp add: confirmed_def handleAckControl_def confirm_path persistMockTargetState_def Let_def)
  then show ?thesis
    using i(2) marked [OF id_take_nth_drop [OF len]] upd_conv_take_nth_drop [OF len, of ?q] by (simp add: syncLegacyReceiptsLocked_def)
next
  case False
  then have "confirmed transferID t = t"
    by (auto simp: confirmed_def handleAckControl_def confirm_path Let_def split: option.split)
  then show ?thesis by (rule same)
qed

lemma confirm_route:
  assumes "route_inv w"
  shows "route_inv (fst (http_ConfirmAck w transferID)) \<and> (ack_known w a \<longrightarrow> ack_known (fst (http_ConfirmAck w transferID)) a)"
proof -
  let ?t = "confirmed (TrimSpace transferID) (rw_target w)"
  have keep: "route_inv (w\<lparr>rw_outcomes := os, rw_target := ?t\<rparr>) \<and> (ack_known w a \<longrightarrow> ack_known (w\<lparr>rw_outcomes := os, rw_target := ?t\<rparr>) a)" for os
  proof (cases rule: confirmed_cases [of "TrimSpace transferID" "rw_target w"])
    case same
    with assms show ?thesis by (simp add: route_inv_def ack_known_def)
  next
    case (marked ps p qs)
    have "route_ledger (route_transfers w) (ms_Executions (mt_state (rw_target w))) (ps @ p\<lparr>mp_AckRelayed := True, mp_PacketState := ''ack_relayed''\<rparr> # qs)"
      by (rule ledger_confirm [where p = p]) (use assms marked(1,2) in \<open>simp_all add: route_inv_def\<close>)
    then have "route_inv (w\<lparr>rw_outcomes := os, rw_target := ?t\<rparr>)" using assms marked by (simp add: route_inv_def)
    moreover have "ack_known (w\<lparr>rw_outcomes := os, rw_target := ?t\<rparr>) a" if "ack_known w a"
      using that marked by (auto simp: ack_known_def)
    ultimately show ?thesis by blast
  qed
  let ?call = "\<lambda>w. case handleAckControl None (rw_target w) ''POST'' ''/acks/confirm'' (TrimSpace transferID) of
        (t, status, body) \<Rightarrow> (w\<lparr>rw_target := t\<rparr>, if status \<noteq> 200 then Inl (RelayError ''route target status'') else Inr ())"
  have fst_call: "fst (?call v) = v\<lparr>rw_target := confirmed (TrimSpace transferID) (rw_target v)\<rparr>" for v :: RouteWorld
    by (simp add: confirmed_def split: prod.split)
  show ?thesis
  proof (cases rule: remote_cases [of ?call w])
    case (call os)
    have "fst (http_ConfirmAck w transferID) = w\<lparr>rw_outcomes := os, rw_target := ?t\<rparr>"
      unfolding http_ConfirmAck_def fst_as_error call(1) fst_call by simp
    with keep [of os] show ?thesis by simp
  next
    case (lost os e)
    then have "fst (http_ConfirmAck w transferID) = w\<lparr>rw_outcomes := os\<rparr>"
      unfolding http_ConfirmAck_def fst_as_error by simp
    with assms show ?thesis by simp
  qed
qed

subsection \<open>The chain\<close>

lemma settle_route:
  assumes "route_inv w" "ack_known w a" "TrimSpace transferID = ar_TransferID a"
    and settle: "\<And>b k r. settle b transferID = (k, Inr r) \<Longrightarrow> \<exists>r0 f. map_of (ik_transfers (app_router b)) (ar_TransferID a) = Some r0
        \<and> tr_Status r0 = TransferStatusPending
        \<and> ik_transfers (app_router k) = gomap_set (tr_TransferID r0) (r0\<lparr>tr_Status := status, tr_FailureReason := f\<rparr>) (ik_transfers (app_router b))"
    and status: "status = TransferStatusCompleted \<and> ar_Status a = AckStatusCompleted \<or> status = TransferStatusAckFailed \<and> ar_Status a = AckStatusFailed"
  shows "route_inv (fst (remote (tx_settle settle transferID) w)) \<and> rw_target (fst (remote (tx_settle settle transferID) w)) = rw_target w"
proof -
  let ?xs = "ms_Executions (mt_state (rw_target w))" and ?ps = "ms_Packets (mt_state (rw_target w))" and ?i = "ar_TransferID a"
  from assms(1,2) obtain p ack where p: "p \<in> set ?ps" "mp_TransferID p = ?i" "mp_PacketState p \<noteq> ''received''" "mp_AckPayload p = Some ack"
    "ak_Status ack = ar_Status a" and "packet_ok ?xs p"
    by (auto simp: route_inv_def route_ledger_def ack_known_def)
  then have paid: "ar_Status a = (if \<exists>x \<in> set ?xs. mx_TransferID x = ?i \<and> paid_out x then AckStatusCompleted else AckStatusFailed)"
    by (auto simp: packet_ok_def)
  have keep: "route_inv (w\<lparr>rw_outcomes := os, rw_app := k\<rparr>)" if s: "settle (rw_app w) transferID = (k, Inr r)" for k r os
  proof -
    obtain r0 f where r0: "map_of (route_transfers w) ?i = Some r0"
      "ik_transfers (app_router k) = gomap_set (tr_TransferID r0) (r0\<lparr>tr_Status := status, tr_FailureReason := f\<rparr>) (route_transfers w)"
      using settle [OF s] by blast
    have key: "tr_TransferID r0 = ?i" using assms(1) r0(1) by (auto simp: route_inv_def route_ledger_def)
    have "settled_ok ?xs ?ps (r0\<lparr>tr_Status := status, tr_FailureReason := f\<rparr>)"
      using status paid p(1-3) key by (auto simp: settled_ok_def split: if_splits)
    with assms(1) r0 key show ?thesis
      by (simp add: route_inv_def) (rule ledger_settle, simp_all)
  qed
  have step: "route_inv (fst (tx_settle settle transferID (w\<lparr>rw_outcomes := os\<rparr>)))
      \<and> rw_target (fst (tx_settle settle transferID (w\<lparr>rw_outcomes := os\<rparr>))) = rw_target w" for os
    using keep assms(1) by (auto simp: tx_settle_def split: prod.split sum.split)
  show ?thesis by (cases rule: remote_cases [of "tx_settle settle transferID" w]) (use step assms(1) in auto)
qed

lemma complete_settles:
  "app_CompleteIBCTransfer b i = (k, Inr r) \<Longrightarrow> \<exists>r0 f. map_of (ik_transfers (app_router b)) (TrimSpace i) = Some r0 \<and> tr_Status r0 = TransferStatusPending
     \<and> ik_transfers (app_router k) = gomap_set (tr_TransferID r0) (r0\<lparr>tr_Status := TransferStatusCompleted, tr_FailureReason := f\<rparr>) (ik_transfers (app_router b))"
  by (auto simp: app_CompleteIBCTransfer_def router_AcknowledgeSuccess_def pendingTransfer_Inr Let_def split: prod.splits sum.splits)

lemma fail_settles:
  "app_FailIBCTransfer b i reason = (k, Inr r) \<Longrightarrow> \<exists>r0 f. map_of (ik_transfers (app_router b)) (TrimSpace i) = Some r0 \<and> tr_Status r0 = TransferStatusPending
     \<and> ik_transfers (app_router k) = gomap_set (tr_TransferID r0) (r0\<lparr>tr_Status := TransferStatusAckFailed, tr_FailureReason := f\<rparr>) (ik_transfers (app_router b))"
  by (auto simp: app_FailIBCTransfer_def router_AcknowledgeFailure_def pendingTransfer_Inr Let_def split: prod.splits sum.splits)

lemma applyAck_route:
  assumes "route_inv w" "ack_known w a" "applyAck route_relayer w (ar_TransferID a) \<lparr>ak_Status = ar_Status a, ak_Reason = ar_Reason a\<rparr> = (w', err)"
  shows "route_inv w' \<and> rw_target w' = rw_target w"
proof -
  obtain p where "p \<in> set (ms_Packets (mt_state (rw_target w)))" "mp_TransferID p = ar_TransferID a" using assms(2) by (auto simp: ack_known_def)
  with assms(1) have trim: "TrimSpace (ar_TransferID a) = ar_TransferID a"
    by (metis ledger_trim route_inv_def route_ledger_def)
  have timed: "ar_Status a \<noteq> AckStatusTimedOut"
    using assms(1,2) by (auto simp: ack_known_def route_inv_def route_ledger_def packet_ok_def split: if_splits)
  have w': "w' = fst (applyAck route_relayer w (ar_TransferID a) \<lparr>ak_Status = ar_Status a, ak_Reason = ar_Reason a\<rparr>)" using assms(3) by simp
  consider "ar_Status a = AckStatusCompleted" | "ar_Status a = AckStatusFailed"
    | "ar_Status a \<noteq> AckStatusCompleted" "ar_Status a \<noteq> AckStatusFailed" by blast
  then show ?thesis
  proof cases
    case 1
    then show ?thesis
      unfolding w' using settle_route [OF assms(1,2), of "ar_TransferID a" app_CompleteIBCTransfer TransferStatusCompleted] complete_settles [where i = "ar_TransferID a"] trim
      by (simp add: applyAck_def route_relayer_def command_CompleteTransfer_def)
  next
    case 2
    then show ?thesis
      unfolding w' using settle_route [OF assms(1,2), of "ar_TransferID a" "\<lambda>b i. app_FailIBCTransfer b i (TrimSpace (ar_Reason a))" TransferStatusAckFailed]
        fail_settles [where i = "ar_TransferID a"] trim
      by (simp add: applyAck_def route_relayer_def command_FailTransfer_def)
  next
    case 3
    with timed assms(1) show ?thesis unfolding w' by (simp add: applyAck_def)
  qed
qed

lemma ack_loop_route:
  assumes "route_inv w" "\<forall>a \<in> set acks. ack_known w a" "ack_loop route_relayer acks w sm = (w', sm', err)"
  shows "route_inv w'"
  using assms
proof (induction acks arbitrary: w sm)
  case (Cons a acks)
  obtain w1 err1 where app: "applyAck route_relayer w (ar_TransferID a) \<lparr>ak_Status = ar_Status a, ak_Reason = ar_Reason a\<rparr> = (w1, err1)" by force
  with applyAck_route [OF Cons.prems(1) _ app] Cons.prems(2) have w1: "route_inv w1" "rw_target w1 = rw_target w" by simp_all
  obtain w2 err2 where conf: "http_ConfirmAck w1 (ar_TransferID a) = (w2, err2)" by force
  have "route_inv w2" "\<forall>b \<in> set acks. ack_known w2 b"
    using confirm_route [OF w1(1), of "ar_TransferID a"] conf Cons.prems(2) w1(2) by (auto simp: ack_known_def)
  with Cons.IH Cons.prems(3) app conf w1(1) show ?case
    by (auto simp: route_relayer_def Let_def split: option.splits)
qed simp

lemma delivery_loop_route:
  assumes "route_inv w" "\<forall>t \<in> set ts. tf_TransferID t \<in> dom (map_of (route_transfers w))" "delivery_loop route_relayer ts w sm = (w', sm', err)"
  shows "route_inv w'"
  using assms
proof (induction ts arbitrary: w sm)
  case (Cons t ts)
  obtain w1 res where sub: "http_SubmitTransfer w t = (w1, res)" by force
  from submit_route [OF Cons.prems(1) _ sub] Cons.prems(2)
  have w1: "route_inv w1" "rw_app w1 = rw_app w" "\<forall>ack. res = Inr ack \<longrightarrow> ak_Status ack = AckStatusReceived" by simp_all
  with Cons.IH Cons.prems(2,3) sub show ?case
    by (cases res) (auto simp: route_relayer_def Let_def)
qed simp

lemma pending_route:
  assumes "route_inv w" "command_PendingTransfers w = (w', res)"
  shows "route_inv w' \<and> (\<forall>ts. res = Inr ts \<longrightarrow> (\<forall>t \<in> set ts. tf_TransferID t \<in> dom (map_of (route_transfers w'))))"
proof -
  have ids: "tf_TransferID t \<in> dom (map_of (route_transfers w))" if "t \<in> set (queryTransfers (rw_app w))" for t
  proof -
    from that obtain k r where kr: "(k, r) \<in> set (route_transfers w)" "tf_TransferID t = TrimSpace (tr_TransferID r)"
      by (auto simp: queryTransfers_def transfer_response_def app_Transfers_def router_ExportTransfers_def cloneTransferRecord_def)
    with assms(1) have "map_of (route_transfers w) k = Some r" by (simp add: route_inv_def route_ledger_def gomap_wf_def map_of_eq_Some_iff)
    with assms(1) kr(2) show ?thesis by (auto simp: route_inv_def route_ledger_def)
  qed
  let ?call = "\<lambda>w. (w, Inr (filter (\<lambda>t. TrimSpace (tf_Status t) = ''pending'') (queryTransfers (rw_app w)))) :: RouteWorld \<times> (relay_error + Transfer list)"
  show ?thesis
  proof (cases rule: remote_cases [of ?call w])
    case (call os)
    with assms domD [OF ids] show ?thesis unfolding command_PendingTransfers_def by auto
  next
    case (lost os e)
    with assms show ?thesis unfolding command_PendingTransfers_def by auto
  qed
qed

lemma run_route:
  assumes "route_inv w"
  shows "route_inv (fst (route_RunOnceWithSummary route_relayer w))"
proof -
  obtain w1 res where acks: "http_ReadyAcks w = (w1, res)" by force
  note w1 = acks_route [OF assms acks]
  show ?thesis
  proof (cases res)
    case (Inl e)
    with acks w1 show ?thesis by (simp add: route_RunOnceWithSummary_def route_relayer_def)
  next
    case (Inr ready)
    obtain w2 sm err where loop: "ack_loop route_relayer ready w1 (zeroRouteSummary\<lparr>ru_ReadyAcks := length ready\<rparr>) = (w2, sm, err)" by (metis prod_cases3)
    with w1 Inr have w2: "route_inv w2" by (intro ack_loop_route [OF _ _ loop]) simp_all
    obtain w3 res3 where pending: "command_PendingTransfers w2 = (w3, res3)" by force
    note w3 = pending_route [OF w2 pending]
    show ?thesis
    proof (cases "err = None \<and> (\<exists>ts. res3 = Inr ts)")
      case False
      with acks Inr loop pending w2 w3 show ?thesis
        by (cases err; cases res3) (simp_all add: route_RunOnceWithSummary_def route_relayer_def)
    next
      case True
      then obtain ts where ts: "res3 = Inr ts" by blast
      obtain w4 sm4 err4 where last: "delivery_loop route_relayer ts w3 (sm\<lparr>ru_TransfersObserved := length ts\<rparr>) = (w4, sm4, err4)" by (metis prod_cases3)
      have "route_inv w4" by (rule delivery_loop_route [OF _ _ last]) (use w3 ts in simp_all)
      moreover have "fst (route_RunOnceWithSummary route_relayer w) = w4"
        using acks Inr loop True ts last pending by (simp add: route_RunOnceWithSummary_def) (simp add: route_relayer_def)
      ultimately show ?thesis by simp
    qed
  qed
qed

section \<open>The life of a route\<close>

text \<open>Users start transfers, with sequence numbers that have not been used, operators refund failed ones, anything else on the chain leaves the
  transfers alone, the outcomes of calls may be any, and the relayer runs.\<close>

inductive route_step :: "RouteWorld \<Rightarrow> RouteWorld \<Rightarrow> bool" where
  initiate: "map_of (route_transfers w) (transfer_id assetID (ik_nextSequence (app_router (rw_app w)))) = None \<Longrightarrow>
    route_step w (w\<lparr>rw_app := fst (app_InitiateIBCTransfer (rw_app w) assetID amount receiver timeoutHeight memo)\<rparr>)"
| initiate_profile: "map_of (route_transfers w) (transfer_id assetID (ik_nextSequence (app_router (rw_app w)))) = None \<Longrightarrow>
    route_step w (w\<lparr>rw_app := fst (app_InitiateIBCTransferWithProfile (rw_app w) profile assetID amount receiver timeoutHeight memo)\<rparr>)"
| refund: "route_step w (w\<lparr>rw_app := fst (app_RefundIBCTransfer (rw_app w) transferID)\<rparr>)"
| chain: "ik_transfers (app_router a) = route_transfers w \<Longrightarrow> route_step w (w\<lparr>rw_app := a\<rparr>)"
| calls: "route_step w (w\<lparr>rw_outcomes := os\<rparr>)"
| relay: "route_step w (fst (route_RunOnceWithSummary route_relayer w))"

definition route_started :: "RouteWorld \<Rightarrow> bool" where
  "route_started w \<longleftrightarrow>
     route_transfers w = [] \<and> mt_mode (rw_target w) = MockTargetModeSuccess \<and> target_started (rw_target w)"

lemma started_route: "route_started w \<Longrightarrow> route_inv w"
  using started_empty [of "rw_target w"] by (simp add: route_started_def route_inv_def route_ledger_def)

lemma initiate_route:
  assumes "route_inv w" "map_of (route_transfers w) (transfer_id assetID (ik_nextSequence (app_router (rw_app w)))) = None"
    "k = fst (initiateTransfer (app_router (rw_app w)) assetID amount receiver timeoutHeight memo dc ch dd)"
  shows "route_inv (w\<lparr>rw_app := (rw_app w)\<lparr>app_router := k\<rparr>\<rparr>)"
proof (cases rule: initiateTransfer_cases [of "app_router (rw_app w)" assetID amount receiver timeoutHeight memo dc ch dd])
  case (refused e)
  with assms show ?thesis by (simp add: route_inv_def)
next
  case (started x r)
  have "TrimSpace (transfer_id assetID (ik_nextSequence (app_router (rw_app w)))) = transfer_id assetID (ik_nextSequence (app_router (rw_app w)))"
    by (rule transfer_id_trim)
  with started(6,7) assms show ?thesis
    by (simp add: route_inv_def) (rule ledger_initiate, simp_all)
qed

lemma refund_transfers:
  "route_inv w \<Longrightarrow> route_inv (w\<lparr>rw_app := fst (app_RefundIBCTransfer (rw_app w) transferID)\<rparr>)"
proof -
  assume inv: "route_inv w"
  let ?k = "app_router (rw_app w)"
  show ?thesis
  proof (cases "\<exists>r. map_of (ik_transfers ?k) (TrimSpace transferID) = Some r \<and> tr_Status r \<in> {TransferStatusAckFailed, TransferStatusTimedOut}")
    case True
    then obtain r where r: "map_of (ik_transfers ?k) (TrimSpace transferID) = Some r" "tr_Status r \<in> {TransferStatusAckFailed, TransferStatusTimedOut}" by blast
    with inv have key: "tr_TransferID r = TrimSpace transferID"
      and ok: "settled_ok (ms_Executions (mt_state (rw_target w))) (ms_Packets (mt_state (rw_target w))) r"
      by (auto simp: route_inv_def route_ledger_def)
    have "settled_ok (ms_Executions (mt_state (rw_target w))) (ms_Packets (mt_state (rw_target w))) (r\<lparr>tr_Status := TransferStatusRefunded\<rparr>)"
      using ok r(2) by (auto simp: settled_ok_def)
    with inv r key show ?thesis
      by (simp add: route_inv_def app_RefundIBCTransfer_def router_MarkRefunded_def Let_def) (rule ledger_settle, simp_all)
  next
    case False
    then have "fst (app_RefundIBCTransfer (rw_app w) transferID) = rw_app w"
      by (auto simp: app_RefundIBCTransfer_def router_MarkRefunded_def Let_def split: option.splits)
    with inv show ?thesis by simp
  qed
qed

lemma route_inv_step:
  assumes "route_inv w" "route_step w w'"
  shows "route_inv w'"
  using assms(2)
proof cases
  case (initiate assetID amount receiver timeoutHeight memo)
  have same: "fst (app_InitiateIBCTransfer (rw_app w) assetID amount receiver timeoutHeight memo)
      = (rw_app w)\<lparr>app_router := fst (router_InitiateTransfer (app_router (rw_app w)) assetID amount receiver timeoutHeight memo)\<rparr>"
    by (simp add: app_InitiateIBCTransfer_def split: prod.split)
  show ?thesis
    unfolding initiate same using initiate_route [OF assms(1) initiate(2) refl] assms(1)
    by (auto simp: router_InitiateTransfer_def split: option.split)
next
  case (initiate_profile assetID profile amount receiver timeoutHeight memo)
  have same: "fst (app_InitiateIBCTransferWithProfile (rw_app w) profile assetID amount receiver timeoutHeight memo)
      = (rw_app w)\<lparr>app_router := fst (router_InitiateTransferWithProfile (app_router (rw_app w)) profile assetID amount receiver timeoutHeight memo)\<rparr>"
    by (simp add: app_InitiateIBCTransferWithProfile_def split: prod.split)
  show ?thesis
    unfolding initiate_profile same using initiate_route [OF assms(1) initiate_profile(2) refl] assms(1)
    by (auto simp: router_InitiateTransferWithProfile_def split: option.split)
next
  case (refund transferID)
  with refund_transfers [OF assms(1)] show ?thesis by simp
next
  case (chain a)
  with assms(1) show ?thesis by (simp add: route_inv_def)
next
  case (calls os)
  with assms(1) show ?thesis by simp
next
  case relay
  with run_route [OF assms(1)] show ?thesis by simp
qed

interpretation route_life: transition_system route_started route_step route_inv
  by unfold_locales (auto intro: started_route route_inv_step)


section \<open>A lost confirmation\<close>

lemma advance_packets_done:
  "advance_packets mode st ps = (st', ps', changed) \<Longrightarrow> p \<in> set ps' \<Longrightarrow> mp_PacketState p \<noteq> ''received''"
proof (induction ps arbitrary: st ps' changed)
  case (Cons q ps)
  show ?case
  proof (cases "mp_PacketState q = ''received''")
    case False
    with Cons.prems obtain qs c where "advance_packets mode st ps = (st', qs, c)" "ps' = q # qs" by (auto split: prod.splits)
    with Cons.IH [of st qs c] Cons.prems(2) False show ?thesis by auto
  next
    case True
    let ?mark = "markPacketAckReadyLocked q \<lparr>ak_Status = AckStatusTimedOut, ak_Reason = ''mock timeout''\<rparr>"
    obtain st1 q' where first: "(if mode = MockTargetModeTimeout then (st, ?mark) else executePacketLocked mode st q) = (st1, q')" by force
    with Cons.prems True obtain qs c where rest: "advance_packets mode st1 ps = (st', qs, c)" "ps' = q' # qs" by (auto split: prod.splits)
    have "mp_PacketState q' \<noteq> ''received''"
      using first execute_once [of st q mode] by (auto simp: executed_once_def split: if_splits)
    with Cons.IH [OF rest(1)] rest(2) Cons.prems(2) show ?thesis by auto
  qed
qed simp

lemma advance_packets_idle:
  "\<forall>p \<in> set ps. mp_PacketState p \<noteq> ''received'' \<Longrightarrow> advance_packets mode st ps = (st, ps, False)"
  by (induction ps) auto

lemma advanced_packets: "\<forall>p \<in> set (ms_Packets (mt_state (advanced t))). mp_PacketState p \<noteq> ''received''"
proof -
  obtain st ps changed where adv: "advance_packets (mt_mode t) (mt_state t) (ms_Packets (mt_state t)) = (st, ps, changed)" by (metis prod_cases3)
  then have "ms_Packets (mt_state (advanced t)) = ps"
    by (simp add: advanced_def handleAcks_def advanceReceivedPacketsLocked_def persistMockTargetState_def syncLegacyReceiptsLocked_def Let_def)
  with advance_packets_done [OF adv] show ?thesis by blast
qed

lemma advanced_idem: "ms_Packets (mt_state (advanced (advanced t))) = ms_Packets (mt_state (advanced t))"
  using advance_packets_idle [OF advanced_packets, of "mt_mode (advanced t)" "mt_state (advanced t)" t]
  by (simp add: advanced_def [of "advanced t"] handleAcks_def advanceReceivedPacketsLocked_def)

text \<open>The first acknowledgement that the destination shows belongs to a transfer that the chain does not wait for.\<close>

definition stale_ack :: "RouteWorld \<Rightarrow> bool" where
  "stale_ack w \<longleftrightarrow>
     rw_outcomes w = []
     \<and> (case ready_acks (ms_Packets (mt_state (advanced (rw_target w)))) of
          [] \<Rightarrow> False
        | a # _ \<Rightarrow> (case map_of (route_transfers w) (TrimSpace (ar_TransferID a)) of None \<Rightarrow> True | Some r \<Rightarrow> tr_Status r \<noteq> TransferStatusPending))"

lemma stale_run:
  assumes "stale_ack w"
  shows "\<exists>sm text. route_RunOnceWithSummary route_relayer w = (w\<lparr>rw_target := advanced (rw_target w)\<rparr>, sm, Some (RelayError text)) \<and> ru_TransfersDelivered sm = 0"
proof -
  let ?acks = "ready_acks (ms_Packets (mt_state (advanced (rw_target w))))" and ?w = "w\<lparr>rw_target := advanced (rw_target w)\<rparr>"
  from assms obtain a rest where a: "?acks = a # rest" and out: "rw_outcomes w = []"
    and np: "\<forall>r. pendingTransfer (app_router (rw_app w)) (TrimSpace (ar_TransferID a)) \<noteq> Inr r"
    by (auto simp: stale_ack_def pendingTransfer_def split: list.splits option.splits)
  then obtain e where e: "pendingTransfer (app_router (rw_app w)) (TrimSpace (ar_TransferID a)) = Inl e" by (metis sum.exhaust)
  have ready: "http_ReadyAcks w = (?w, Inr ?acks)" using out by (simp add: http_ReadyAcks_def remote_def GET_acks)
  have "\<exists>text. applyAck route_relayer ?w (ar_TransferID a) \<lparr>ak_Status = ar_Status a, ak_Reason = ar_Reason a\<rparr> = (?w, Some (RelayError text))"
    using out e by (simp add: applyAck_def route_relayer_def command_CompleteTransfer_def command_FailTransfer_def command_TimeoutTransfer_def
        remote_def tx_settle_def app_CompleteIBCTransfer_def app_FailIBCTransfer_def app_TimeoutIBCTransfer_def router_AcknowledgeSuccess_def
        router_AcknowledgeFailure_def router_TimeoutTransfer_def as_error_def)
  with ready a show ?thesis
    by (auto simp: route_RunOnceWithSummary_def zeroRouteSummary_def) (auto simp: route_relayer_def)
qed

text \<open>The state that \<open>n\<close> runs of the relayer lead to.\<close>

definition route_runs :: "nat \<Rightarrow> RouteWorld \<Rightarrow> RouteWorld" where
  "route_runs n w = ((\<lambda>v. fst (route_RunOnceWithSummary route_relayer v)) ^^ n) w"

lemma route_runs_Suc: "route_runs (Suc n) w = fst (route_RunOnceWithSummary route_relayer (route_runs n w))"
  by (simp add: route_runs_def)

lemma stale_after:
  assumes "stale_ack w"
  shows "stale_ack (w\<lparr>rw_target := advanced (rw_target w)\<rparr>)"
  using assms by (simp add: stale_ack_def advanced_idem split: list.splits)

lemma stale_runs:
  assumes "stale_ack w"
  shows "stale_ack (route_runs n w) \<and> rw_app (route_runs n w) = rw_app w"
proof (induction n)
  case 0
  with assms show ?case by (simp add: route_runs_def)
next
  case (Suc n)
  then have stale: "stale_ack (route_runs n w)" ..
  obtain sm msg where "route_RunOnceWithSummary route_relayer (route_runs n w)
      = ((route_runs n w)\<lparr>rw_target := advanced (rw_target (route_runs n w))\<rparr>, sm, Some (RelayError msg))"
    using stale_run [OF stale] by blast
  then have "route_runs (Suc n) w = (route_runs n w)\<lparr>rw_target := advanced (rw_target (route_runs n w))\<rparr>"
    by (simp only: route_runs_Suc fst_conv)
  with Suc stale_after [OF stale] show ?case by simp
qed

text \<open>C18: when a confirmation is lost after the chain has settled a transfer, the acknowledgement stays ready; from then on every run of the relayer
  fails with a permanent error before it delivers any transfer, however often it is repeated.\<close>

theorem lost_confirmation_blocks_route:
  assumes "stale_ack w"
  shows "\<exists>sm e. route_RunOnceWithSummary route_relayer (route_runs n w) = (route_runs (Suc n) w, sm, Some e)
     \<and> \<not> isTemporary e \<and> ru_TransfersDelivered sm = 0 \<and> rw_app (route_runs (Suc n) w) = rw_app w"
proof -
  obtain sm msg where run: "route_RunOnceWithSummary route_relayer (route_runs n w)
      = ((route_runs n w)\<lparr>rw_target := advanced (rw_target (route_runs n w))\<rparr>, sm, Some (RelayError msg))"
    and none: "ru_TransfersDelivered sm = 0"
    using stale_run [OF conjunct1 [OF stale_runs [OF assms]]] by blast
  then have "route_RunOnceWithSummary route_relayer (route_runs n w) = (route_runs (Suc n) w, sm, Some (RelayError msg))"
    by (simp only: route_runs_Suc fst_conv)
  moreover have "\<not> isTemporary (RelayError msg)" by simp
  ultimately show ?thesis using none conjunct2 [OF stale_runs [OF assms]] by blast
qed

end
