(* ===== verification/RouteExamples.thy ===== *)
theory RouteExamples
  imports RouteLife
begin

text \<open>
  One transfer, played through: it is started on the chain, delivered, executed and settled, and the confirmation of its
  acknowledgement is lost.
\<close>

section \<open>The chain\<close>

definition example_routed :: RouterKeeper where
  "example_routed = fst (router_SetRoute router_NewKeeper
     \<lparr>rt_AssetID = ''a'', rt_DestinationChainID = ''o'', rt_ChannelID = ''c'', rt_DestinationDenom = ''ibc/a'', rt_Enabled = True\<rparr>)"

definition example_pending :: RouterKeeper where
  "example_pending = fst (router_InitiateTransfer example_routed ''a'' (Some 10) ''x'' 90 ''swap:b:min_out=9'')"

definition example_settled :: RouterKeeper where
  "example_settled = fst (router_AcknowledgeSuccess example_pending ''ibc/a/1'')"

definition example_record :: TransferRecord where
  "example_record =
     \<lparr>tr_TransferID = ''ibc/a/1'', tr_AssetID = ''a'', tr_Amount = 10, tr_Receiver = ''x'', tr_DestinationChainID = ''o'', tr_ChannelID = ''c'',
      tr_DestinationDenom = ''ibc/a'', tr_TimeoutHeight = 90, tr_Memo = ''swap:b:min_out=9'', tr_Status = ''pending'', tr_FailureReason = ''''\<rparr>"

lemma example_pending_transfers: "ik_transfers example_routed = []" "ik_transfers example_pending = [(''ibc/a/1'', example_record)]"
  by code_simp+

lemma example_settles:
  "router_AcknowledgeSuccess example_pending ''ibc/a/1'' = (example_settled, Inr (example_record\<lparr>tr_Status := TransferStatusCompleted\<rparr>))"
  "ik_transfers example_settled = [(''ibc/a/1'', example_record\<lparr>tr_Status := TransferStatusCompleted\<rparr>)]"
proof -
  have "snd (router_AcknowledgeSuccess example_pending ''ibc/a/1'') = Inr (example_record\<lparr>tr_Status := TransferStatusCompleted\<rparr>)" by code_simp
  then show "router_AcknowledgeSuccess example_pending ''ibc/a/1'' = (example_settled, Inr (example_record\<lparr>tr_Status := TransferStatusCompleted\<rparr>))"
    by (simp add: example_settled_def prod_eq_iff)
  show "ik_transfers example_settled = [(''ibc/a/1'', example_record\<lparr>tr_Status := TransferStatusCompleted\<rparr>)]" by code_simp
qed

section \<open>The world\<close>

definition example_world :: "RouterKeeper \<Rightarrow> MockTarget \<Rightarrow> call_outcome list \<Rightarrow> RouteWorld" where
  "example_world k t os = \<lparr>rw_app = example_app\<lparr>app_router := k\<rparr>, rw_target = t, rw_outcomes = os\<rparr>"

definition example_received :: MockTarget where
  "example_received = receive_envelope (advanced example_target) (example_envelope ''ibc/a/1'')"

text \<open>The query and the settlement reach the chain, the confirmation does not reach the destination.\<close>

definition example_loss :: "call_outcome list" where
  "example_loss = [Delivered, Delivered, NotSent (TemporaryError (Some (RelayError ''connection refused'')))]"

lemma example_initiated:
  "fst (app_InitiateIBCTransfer (example_app\<lparr>app_router := example_routed\<rparr>) ''a'' (Some 10) ''x'' 90 ''swap:b:min_out=9'')
     = example_app\<lparr>app_router := example_pending\<rparr>"
  by (simp add: app_InitiateIBCTransfer_def example_pending_def split: prod.split)

lemma example_relayed:
  "fst (route_RunOnceWithSummary route_relayer (example_world example_pending example_target [])) = example_world example_pending example_received []"
proof -
  have none: "ready_acks (ms_Packets (mt_state (advanced example_target))) = []" by code_simp
  have acks: "http_ReadyAcks (example_world example_pending example_target []) = (example_world example_pending (advanced example_target) [], Inr [])"
    by (simp add: http_ReadyAcks_def remote_def GET_acks none example_world_def)
  have "queryTransfers (example_app\<lparr>app_router := example_pending\<rparr>) = [example_transfer ''ibc/a/1'']"
    by (simp add: queryTransfers_def app_Transfers_def router_ExportTransfers_def example_pending_transfers cloneTransferRecord_def
        transfer_response_def example_record_def example_transfer_def) code_simp
  then have pending: "command_PendingTransfers (example_world example_pending (advanced example_target) [])
      = (example_world example_pending (advanced example_target) [], Inr [example_transfer ''ibc/a/1''])"
    by (simp add: command_PendingTransfers_def remote_def example_world_def) (simp add: example_transfer_def go_eval)
  have trim: "TrimSpace ''ibc/a/1'' = ''ibc/a/1''" by code_simp
  have submit: "http_SubmitTransfer (example_world example_pending (advanced example_target) []) (example_transfer ''ibc/a/1'')
      = (example_world example_pending example_received [], Inr \<lparr>ak_Status = AckStatusReceived, ak_Reason = ''''\<rparr>)"
    by (simp add: http_SubmitTransfer_def example_envelope_built [OF trim] remote_def POST_transfers example_world_def example_received_def)
  show ?thesis
    using acks pending submit by (simp add: route_RunOnceWithSummary_def) (simp add: route_relayer_def Let_def)
qed

lemma example_ready:
  "ready_acks (ms_Packets (mt_state (advanced example_received))) = [\<lparr>ar_TransferID = ''ibc/a/1'', ar_Status = AckStatusCompleted, ar_Reason = ''''\<rparr>]"
  by code_simp

lemma example_lost:
  "fst (route_RunOnceWithSummary route_relayer (example_world example_pending example_received example_loss))
     = example_world example_settled (advanced example_received) []"
proof -
  have trim: "TrimSpace ''ibc/a/1'' = ''ibc/a/1''" by code_simp
  let ?e = "TemporaryError (Some (RelayError ''connection refused''))"
  have acks: "http_ReadyAcks (example_world example_pending example_received example_loss)
      = (example_world example_pending (advanced example_received) [Delivered, NotSent ?e],
         Inr [\<lparr>ar_TransferID = ''ibc/a/1'', ar_Status = AckStatusCompleted, ar_Reason = ''''\<rparr>])"
    by (simp add: http_ReadyAcks_def remote_def GET_acks example_ready example_world_def example_loss_def)
  have complete: "command_CompleteTransfer (example_world example_pending (advanced example_received) [Delivered, NotSent ?e]) ''ibc/a/1''
      = (example_world example_settled (advanced example_received) [NotSent ?e], None)"
    by (simp add: command_CompleteTransfer_def remote_def tx_settle_def trim example_world_def app_CompleteIBCTransfer_def example_settles as_error_def)
  have confirm: "http_ConfirmAck (example_world example_settled (advanced example_received) [NotSent ?e]) ''ibc/a/1''
      = (example_world example_settled (advanced example_received) [], Some ?e)"
    by (simp add: http_ConfirmAck_def remote_def trim example_world_def as_error_def)
  show ?thesis
    using acks complete confirm
    by (simp add: route_RunOnceWithSummary_def) (simp add: route_relayer_def applyAck_def Let_def)
qed

lemma example_lost_reachable: "reachable route_started route_step (example_world example_settled (advanced example_received) [])"
proof -
  have "mt_mode example_target = MockTargetModeSuccess" by code_simp
  then have "route_started (example_world example_routed example_target [])"
    by (simp add: route_started_def example_world_def example_pending_transfers example_target_started)
  then have w0: "reachable route_started route_step (example_world example_routed example_target [])" by (rule reachable.start)
  have "map_of (ik_transfers example_routed) (transfer_id ''a'' (ik_nextSequence example_routed)) = None"
    by (simp add: example_pending_transfers)
  then have "route_step (example_world example_routed example_target []) (example_world example_pending example_target [])"
    using route_step.initiate [of "example_world example_routed example_target []" "''a''" "Some 10" "''x''" 90 "''swap:b:min_out=9''"]
    by (simp add: example_world_def example_initiated)
  with w0 have w1: "reachable route_started route_step (example_world example_pending example_target [])" by (rule reachable.next_state)
  have w2: "reachable route_started route_step (example_world example_pending example_received [])"
    using reachable.next_state [OF w1 route_step.relay] by (simp only: example_relayed)
  have w3: "reachable route_started route_step (example_world example_pending example_received example_loss)"
    using reachable.next_state [OF w2 route_step.calls [of _ example_loss]] by (simp add: example_world_def)
  show ?thesis
    using reachable.next_state [OF w3 route_step.relay] by (simp only: example_lost)
qed

section \<open>Witnesses\<close>


theorem lost_confirmation_blocks_route_witness:
  "\<exists>sm e. route_RunOnceWithSummary route_relayer (route_runs 3 (example_world example_settled (advanced example_received) []))
       = (route_runs (Suc 3) (example_world example_settled (advanced example_received) []), sm, Some e) \<and> \<not> isTemporary e"
proof -
  have "TrimSpace ''ibc/a/1'' = ''ibc/a/1''" by code_simp
  moreover have "ready_acks (ms_Packets (mt_state (advanced (advanced example_received))))
      = [\<lparr>ar_TransferID = ''ibc/a/1'', ar_Status = AckStatusCompleted, ar_Reason = ''''\<rparr>]"
    by (simp only: advanced_idem example_ready)
  ultimately have "stale_ack (example_world example_settled (advanced example_received) [])"
    by (simp add: stale_ack_def example_world_def example_settles)
  from lost_confirmation_blocks_route [OF this, of 3] show ?thesis by blast
qed

theorem memo_round_trip_witness:
  "parseRouteAction (render_action \<lparr>ra_Type = ''swap'', ra_TargetDenom = ''uosmo'', ra_MinOut = ''9'', ra_Recipient = ''x'', ra_Path = ''''\<rparr>)
     = (Some \<lparr>ra_Type = ''swap'', ra_TargetDenom = ''uosmo'', ra_MinOut = ''9'', ra_Recipient = ''x'', ra_Path = ''''\<rparr>, '''')"
proof -
  have "action_wf \<lparr>ra_Type = ''swap'', ra_TargetDenom = ''uosmo'', ra_MinOut = ''9'', ra_Recipient = ''x'', ra_Path = ''''\<rparr>" by code_simp
  with memo_round_trip show ?thesis by blast
qed

end
