(* ===== verification/Node.thy ===== *)
theory Node
  imports AppState RelayFiles
begin

text \<open>
  The networked node: \<^verbatim>\<open>chain/aegislink/networked\<close>. The application runs under a consensus engine that hands it blocks of
  transactions (\<^verbatim>\<open>abci.go\<close>); a transaction is JSON text (\<^verbatim>\<open>submission.go\<close>), modelled as what it decodes to. Beside the
  application lives an SDK chain (\<^verbatim>\<open>app.go\<close>), which mirrors wallet balances and carries the transfers; it is an argument, a record
  of functions on its own state.
\<close>

section \<open>Payloads\<close>

datatype node_error =
    NodeError string | NodeChainError string | NodeAppError app_error | NodeRouterError router_error
  | NodeBankError bank_error | NodeBoth node_error node_error

record submissionClaim =
  sc_Kind :: string
  sc_SourceAssetKind :: string
  sc_SourceChainID :: string
  sc_SourceContract :: string
  sc_SourceTxHash :: string
  sc_SourceLogIndex :: u64
  sc_Nonce :: u64
  sc_MessageID :: string
  sc_DestinationChainID :: string
  sc_AssetID :: string
  sc_Amount :: string
  sc_Recipient :: string
  sc_Deadline :: u64

record submissionAttestation =
  sa_MessageID :: string
  sa_PayloadHash :: string
  sa_Signers :: "string list"
  sa_Proofs :: "AttestationProof list"
  sa_Threshold :: u32
  sa_Expiry :: u64
  sa_SignerSetVersion :: u64

record submissionPayload =
  sp_Claim :: submissionClaim
  sp_Attestation :: submissionAttestation

record InitiateIBCTransferPayload =
  ip_Sender :: string
  ip_RouteID :: string
  ip_AssetID :: string
  ip_Amount :: string
  ip_Receiver :: string
  ip_TimeoutHeight :: u64
  ip_Memo :: string

record ExecuteWithdrawalPayload =
  ep_OwnerAddress :: string
  ep_AssetID :: string
  ep_Amount :: string
  ep_Recipient :: string
  ep_Deadline :: u64
  ep_SignatureBase64 :: string
  ep_Height :: u64

record FundAccountPayload =
  fp_Address :: string
  fp_Denom :: string
  fp_Amount :: string

record demoNodeTx =
  dx_Type :: string
  dx_QueueDepositClaim :: "submissionPayload option"
  dx_InitiateIBCTransfer :: "InitiateIBCTransferPayload option"
  dx_ExecuteWithdrawal :: "ExecuteWithdrawalPayload option"
  dx_FundAccount :: "FundAccountPayload option"

text \<open>The bytes of a transaction are JSON text of a node transaction, or anything else.\<close>

datatype NodeTx = OtherTx bytes | JsonTx demoNodeTx

subsection \<open>Reading\<close>

definition depositClaimAndAttestationFromPayload :: "submissionPayload \<Rightarrow> node_error + DepositClaim \<times> Attestation" where
  "depositClaimAndAttestationFromPayload payload =
     (let c = sp_Claim payload; a = sp_Attestation payload in
      case SetString10 (sc_Amount c) of
        None \<Rightarrow> Inl (NodeError ''invalid claim amount'')
      | Some amount \<Rightarrow>
          Inr (\<lparr>dc_Identity =
                  \<lparr>ci_Kind = sc_Kind c, ci_SourceAssetKind = sc_SourceAssetKind c, ci_SourceChainID = sc_SourceChainID c,
                   ci_SourceContract = sc_SourceContract c, ci_SourceTxHash = sc_SourceTxHash c,
                   ci_SourceLogIndex = sc_SourceLogIndex c, ci_Nonce = sc_Nonce c, ci_MessageID = sc_MessageID c\<rparr>,
                dc_DestinationChainID = sc_DestinationChainID c, dc_AssetID = sc_AssetID c, dc_Amount = Some amount,
                dc_Recipient = sc_Recipient c, dc_Deadline = sc_Deadline c\<rparr>,
               \<lparr>att_MessageID = sa_MessageID a, att_PayloadHash = sa_PayloadHash a, att_Signers = sa_Signers a, att_Proofs = sa_Proofs a,
                att_Threshold = sa_Threshold a, att_Expiry = sa_Expiry a, att_SignerSetVersion = sa_SignerSetVersion a\<rparr>))"

definition decodeInitiateIBCTransferPayload ::
    "InitiateIBCTransferPayload \<Rightarrow> node_error + InitiateIBCTransferPayload \<times> int" where
  "decodeInitiateIBCTransferPayload payload0 =
     (let payload = payload0\<lparr>ip_Sender := TrimSpace (ip_Sender payload0)\<rparr> in
      if TrimSpace (ip_AssetID payload) = '''' then Inl (NodeError ''missing asset id'')
      else if TrimSpace (ip_Receiver payload) = '''' then Inl (NodeError ''missing receiver'')
      else if ip_TimeoutHeight payload = 0 then Inl (NodeError ''missing timeout height'')
      else case SetString10 (TrimSpace (ip_Amount payload)) of
        None \<Rightarrow> Inl (NodeError ''invalid amount'')
      | Some amount \<Rightarrow> Inr (payload\<lparr>ip_Amount := show_int amount\<rparr>, amount))"

definition decodeExecuteWithdrawalPayload ::
    "ExecuteWithdrawalPayload \<Rightarrow> node_error + ExecuteWithdrawalPayload \<times> int \<times> bytes" where
  "decodeExecuteWithdrawalPayload payload =
     (if TrimSpace (ep_OwnerAddress payload) = '''' then Inl (NodeError ''missing owner address'')
      else if TrimSpace (ep_AssetID payload) = '''' then Inl (NodeError ''missing asset id'')
      else if TrimSpace (ep_Amount payload) = '''' then Inl (NodeError ''missing amount'')
      else if TrimSpace (ep_Recipient payload) = '''' then Inl (NodeError ''missing recipient'')
      else if ep_Deadline payload = 0 then Inl (NodeError ''missing deadline'')
      else if TrimSpace (ep_SignatureBase64 payload) = '''' then Inl (NodeError ''missing signature'')
      else case SetString10 (TrimSpace (ep_Amount payload)) of
        None \<Rightarrow> Inl (NodeError ''invalid amount'')
      | Some amount \<Rightarrow>
      case base64_DecodeString (TrimSpace (ep_SignatureBase64 payload)) of
        None \<Rightarrow> Inl (NodeError ''decode signature'')
      | Some signature \<Rightarrow>
          Inr (payload\<lparr>ep_Amount := show_int amount, ep_SignatureBase64 := TrimSpace (ep_SignatureBase64 payload)\<rparr>, amount, signature))"

definition decodeFundAccountPayload :: "FundAccountPayload \<Rightarrow> node_error + FundAccountPayload \<times> int" where
  "decodeFundAccountPayload payload =
     (if TrimSpace (fp_Address payload) = '''' then Inl (NodeError ''missing funded account address'')
      else if TrimSpace (fp_Denom payload) = '''' then Inl (NodeError ''missing funded account denom'')
      else case SetString10 (TrimSpace (fp_Amount payload)) of
        None \<Rightarrow> Inl (NodeError ''invalid funded account amount'')
      | Some amount \<Rightarrow>
          if amount \<le> 0 then Inl (NodeError ''funded account amount must be positive'')
          else Inr (\<lparr>fp_Address = TrimSpace (fp_Address payload), fp_Denom = TrimSpace (fp_Denom payload), fp_Amount = show_int amount\<rparr>, amount))"

text \<open>The check of one payload: it must be there and it must decode.\<close>

definition payload_error :: "string \<Rightarrow> ('p \<Rightarrow> node_error + 'd) \<Rightarrow> 'p option \<Rightarrow> node_error option" where
  "payload_error missing decode payload =
     (case payload of
        None \<Rightarrow> Some (NodeError missing)
      | Some p \<Rightarrow> (case decode p of Inl e \<Rightarrow> Some e | Inr _ \<Rightarrow> None))"

definition decodeDemoNodeTx :: "NodeTx \<Rightarrow> node_error + demoNodeTx" where
  "decodeDemoNodeTx bs =
     (case bs of
        OtherTx _ \<Rightarrow> Inl (NodeError ''decode demo node tx'')
      | JsonTx tx \<Rightarrow>
          let kind = TrimSpace (dx_Type tx);
              err = (if kind = ''queue_deposit_claim''
                     then payload_error ''missing queue deposit claim payload'' depositClaimAndAttestationFromPayload (dx_QueueDepositClaim tx)
                     else if kind = ''initiate_ibc_transfer''
                     then payload_error ''missing initiate ibc transfer payload'' decodeInitiateIBCTransferPayload (dx_InitiateIBCTransfer tx)
                     else if kind = ''execute_withdrawal''
                     then payload_error ''missing execute withdrawal payload'' decodeExecuteWithdrawalPayload (dx_ExecuteWithdrawal tx)
                     else if kind = ''fund_account''
                     then payload_error ''missing fund account payload'' decodeFundAccountPayload (dx_FundAccount tx)
                     else Some (NodeError ''unsupported demo node tx type''))
          in case err of Some e \<Rightarrow> Inl e | None \<Rightarrow> Inr tx)"

subsection \<open>Writing\<close>

definition no_payload :: "string \<Rightarrow> demoNodeTx" where
  "no_payload kind =
     \<lparr>dx_Type = kind, dx_QueueDepositClaim = None, dx_InitiateIBCTransfer = None, dx_ExecuteWithdrawal = None, dx_FundAccount = None\<rparr>"

text \<open>\<^verbatim>\<open>String\<close> of a nil amount is \<^verbatim>\<open>"<nil>"\<close>.\<close>

definition encodeQueueDepositClaimTx :: "DepositClaim \<Rightarrow> Attestation \<Rightarrow> NodeTx" where
  "encodeQueueDepositClaimTx claim attestation =
     (let i = dc_Identity claim in
      JsonTx ((no_payload ''queue_deposit_claim'')\<lparr>dx_QueueDepositClaim := Some
        \<lparr>sp_Claim =
           \<lparr>sc_Kind = ci_Kind i, sc_SourceAssetKind = ci_SourceAssetKind i, sc_SourceChainID = ci_SourceChainID i,
            sc_SourceContract = ci_SourceContract i, sc_SourceTxHash = ci_SourceTxHash i, sc_SourceLogIndex = ci_SourceLogIndex i,
            sc_Nonce = ci_Nonce i, sc_MessageID = ci_MessageID i, sc_DestinationChainID = dc_DestinationChainID claim,
            sc_AssetID = dc_AssetID claim, sc_Amount = show_bigint (dc_Amount claim), sc_Recipient = dc_Recipient claim,
            sc_Deadline = dc_Deadline claim\<rparr>,
         sp_Attestation =
           \<lparr>sa_MessageID = att_MessageID attestation, sa_PayloadHash = att_PayloadHash attestation, sa_Signers = att_Signers attestation,
            sa_Proofs = att_Proofs attestation, sa_Threshold = att_Threshold attestation, sa_Expiry = att_Expiry attestation,
            sa_SignerSetVersion = att_SignerSetVersion attestation\<rparr>\<rparr>\<rparr>))"

definition encodeInitiateIBCTransferTx :: "InitiateIBCTransferPayload \<Rightarrow> node_error + NodeTx" where
  "encodeInitiateIBCTransferTx payload =
     (case decodeInitiateIBCTransferPayload payload of
        Inl e \<Rightarrow> Inl e
      | Inr (p, _) \<Rightarrow> Inr (JsonTx ((no_payload ''initiate_ibc_transfer'')\<lparr>dx_InitiateIBCTransfer := Some p\<rparr>)))"

definition encodeExecuteWithdrawalTx :: "ExecuteWithdrawalPayload \<Rightarrow> node_error + NodeTx" where
  "encodeExecuteWithdrawalTx payload =
     (case decodeExecuteWithdrawalPayload payload of
        Inl e \<Rightarrow> Inl e
      | Inr (p, _) \<Rightarrow> Inr (JsonTx ((no_payload ''execute_withdrawal'')\<lparr>dx_ExecuteWithdrawal := Some p\<rparr>)))"

definition encodeFundAccountTx :: "FundAccountPayload \<Rightarrow> node_error + NodeTx" where
  "encodeFundAccountTx payload =
     (case decodeFundAccountPayload payload of
        Inl e \<Rightarrow> Inl e
      | Inr (p, _) \<Rightarrow> Inr (JsonTx ((no_payload ''fund_account'')\<lparr>dx_FundAccount := Some p\<rparr>)))"

section \<open>The node\<close>

subsection \<open>State\<close>

datatype TxData =
    QueuedResult string string string
  | TransferResult TransferRecord
  | WithdrawalResult WithdrawalRecord
  | FundAccountResult string string int

text \<open>\<open>ExecFailed\<close> is code 1 with the error as its log, \<open>ExecOK\<close> code 0 with data and events, \<open>ExecSDK\<close> what the SDK chain answers.\<close>

datatype ExecTxResult = ExecFailed node_error | ExecOK TxData "string list" | ExecSDK nat bytes

record LocalhostTransferRequest =
  lr_Sender :: string
  lr_Denom :: string
  lr_Amount :: int
  lr_Receiver :: string
  lr_TimeoutChainID :: string
  lr_TimeoutHeight :: u64
  lr_Memo :: string

text \<open>The SDK chain. Its calls answer with an error text or a result; \<^verbatim>\<open>Commit\<close> answers with the hash of the commit.\<close>

record 'c ChainApp =
  ca_SyncAccountBalance :: "'c \<Rightarrow> string \<Rightarrow> string \<Rightarrow> int \<Rightarrow> 'c \<times> string option"
  ca_ExecuteLocalhostTransfer :: "'c \<Rightarrow> LocalhostTransferRequest \<Rightarrow> 'c \<times> (string + string list)"
  ca_FundAccount :: "'c \<Rightarrow> string \<Rightarrow> string \<Rightarrow> int \<Rightarrow> 'c \<times> string option"
  ca_LastBlockHeight :: "'c \<Rightarrow> int"
  ca_FinalizeBlock :: "'c \<Rightarrow> int \<Rightarrow> NodeTx list \<Rightarrow> 'c \<times> (string + bytes \<times> ExecTxResult list)"
  ca_Commit :: "'c \<Rightarrow> 'c \<times> (string + bytes)"
  ca_CheckTx :: "'c \<Rightarrow> NodeTx \<Rightarrow> 'c \<times> nat"

text \<open>What the node runs on: the cryptography, the check of addresses, the SDK chain if there is one, the files that exist, and the
  encoding of a status that is hashed.\<close>

record ('pk, 'sk, 'c) NodeEnv =
  ne_crypto :: "('pk, 'sk) crypto"
  ne_bech32 :: "string \<Rightarrow> bool"
  ne_chainApp :: "'c ChainApp option"
  ne_exists :: "string \<Rightarrow> bool"
  ne_marshal :: "AppStatus \<Rightarrow> bytes"

text \<open>\<^verbatim>\<open>ABCIApplication\<close>, with the state of the SDK chain and what the last commit saved.\<close>

record 'c Node =
  nd_app :: App
  nd_chain :: 'c
  nd_appHash :: bytes
  nd_lastFinalizeUsedBaseApp :: bool
  nd_pendingBaseAppCommit :: bool
  nd_saved :: "runtimeState option"

definition hashABCIStatus :: "('pk, 'sk, 'c) NodeEnv \<Rightarrow> AppStatus \<Rightarrow> bytes" where
  "hashABCIStatus env status = Sum256 (ne_marshal env status)"

definition node_Status :: "('pk, 'sk, 'c) NodeEnv \<Rightarrow> 'c Node \<Rightarrow> AppStatus" where
  "node_Status env n = app_Status (ne_exists env) (nd_app n)"

definition NewABCIApplication :: "('pk, 'sk, 'c) NodeEnv \<Rightarrow> App \<Rightarrow> 'c \<Rightarrow> 'c Node" where
  "NewABCIApplication env app chain =
     \<lparr>nd_app = app, nd_chain = chain, nd_appHash = hashABCIStatus env (app_Status (ne_exists env) app),
      nd_lastFinalizeUsedBaseApp = False, nd_pendingBaseAppCommit = False, nd_saved = None\<rparr>"

subsection \<open>Transfers\<close>

text \<open>Calls of the SDK chain, which do nothing without one.\<close>

definition sync_balance :: "('pk, 'sk, 'c) NodeEnv \<Rightarrow> 'c Node \<Rightarrow> string \<Rightarrow> string \<Rightarrow> int \<Rightarrow> 'c Node \<times> node_error option" where
  "sync_balance env n address denom amount =
     (case ne_chainApp env of
        None \<Rightarrow> (n, None)
      | Some ca \<Rightarrow>
          (case ca_SyncAccountBalance ca (nd_chain n) address denom amount of
             (c, err) \<Rightarrow> (n\<lparr>nd_chain := c\<rparr>, map_option NodeChainError err)))"

text \<open>After a failure the debited amount is credited again; errors of the two calls are ignored.\<close>

definition give_back :: "('pk, 'sk, 'c) NodeEnv \<Rightarrow> 'c Node \<Rightarrow> string \<Rightarrow> string \<Rightarrow> int \<Rightarrow> int \<Rightarrow> 'c Node" where
  "give_back env n sender denom amount preTransferBalance =
     (if sender = '''' then n
      else fst (sync_balance env (n\<lparr>nd_app := fst (app_CreditWallet (nd_app n) sender denom (Some amount))\<rparr>) sender denom preTransferBalance))"

definition take_out :: "('pk, 'sk, 'c) NodeEnv \<Rightarrow> 'c Node \<Rightarrow> string \<Rightarrow> string \<Rightarrow> int \<Rightarrow> int \<Rightarrow> 'c Node \<times> node_error option" where
  "take_out env n sender denom amount preTransferBalance =
     (if sender = '''' then (n, None)
      else if preTransferBalance < amount then (n, Some (NodeError ''wallet has insufficient balance''))
      else case sync_balance env n sender denom preTransferBalance of
        (n1, Some e) \<Rightarrow> (n1, Some e)
      | (n1, None) \<Rightarrow>
          (case app_DebitWallet (nd_app n1) sender denom (Some amount) of
             (a, err) \<Rightarrow> (n1\<lparr>nd_app := a\<rparr>, map_option NodeBankError err)))"

definition start_transfer :: "App \<Rightarrow> InitiateIBCTransferPayload \<Rightarrow> int \<Rightarrow> App \<times> (router_error + TransferRecord)" where
  "start_transfer a payload amount =
     (if TrimSpace (ip_RouteID payload) \<noteq> ''''
      then app_InitiateIBCTransferWithProfile a (ip_RouteID payload) (ip_AssetID payload) (Some amount) (ip_Receiver payload)
             (ip_TimeoutHeight payload) (ip_Memo payload)
      else app_InitiateIBCTransfer a (ip_AssetID payload) (Some amount) (ip_Receiver payload) (ip_TimeoutHeight payload) (ip_Memo payload))"

definition applyIBCTransferPayload ::
    "('pk, 'sk, 'c) NodeEnv \<Rightarrow> 'c Node \<Rightarrow> InitiateIBCTransferPayload \<Rightarrow> int \<Rightarrow> 'c Node \<times> (node_error + TransferRecord \<times> string list)" where
  "applyIBCTransferPayload env n payload amount =
     (let sender = TrimSpace (ip_Sender payload) in
      case registry_GetAsset (bk_registry (app_bridge (nd_app n))) (ip_AssetID payload) of
        None \<Rightarrow> (n, Inl (NodeError ''networked ibc asset is not registered''))
      | Some asset \<Rightarrow>
      let denom = as_Denom asset; preTransferBalance = app_WalletBalance (nd_app n) sender denom in
      case take_out env n sender denom amount preTransferBalance of
        (n1, Some e) \<Rightarrow> (n1, Inl e)
      | (n1, None) \<Rightarrow>
      case start_transfer (nd_app n1) payload amount of
        (a2, Inl e) \<Rightarrow> (give_back env (n1\<lparr>nd_app := a2\<rparr>) sender denom amount preTransferBalance, Inl (NodeRouterError e))
      | (a2, Inr transfer) \<Rightarrow>
      let n2 = n1\<lparr>nd_app := a2\<rparr> in
      case ne_chainApp env of
        None \<Rightarrow> (n2, Inr (transfer, []))
      | Some ca \<Rightarrow>
      case ca_ExecuteLocalhostTransfer ca (nd_chain n2)
             \<lparr>lr_Sender = sender, lr_Denom = denom, lr_Amount = amount, lr_Receiver = ip_Receiver payload,
              lr_TimeoutChainID = TrimSpace (tr_DestinationChainID transfer), lr_TimeoutHeight = ip_TimeoutHeight payload,
              lr_Memo = ip_Memo payload\<rparr> of
        (c, Inr events) \<Rightarrow> (n2\<lparr>nd_chain := c\<rparr>, Inr (transfer, events))
      | (c, Inl e) \<Rightarrow>
          let n3 = give_back env (n2\<lparr>nd_chain := c\<rparr>) sender denom amount preTransferBalance in
          (case app_FailIBCTransfer (nd_app n3) (tr_TransferID transfer) (''localhost sdk transfer failed: '' @ e) of
             (a4, Inl failErr) \<Rightarrow> (n3\<lparr>nd_app := a4\<rparr>, Inl (NodeBoth (NodeChainError e) (NodeRouterError failErr)))
           | (a4, Inr _) \<Rightarrow> (n3\<lparr>nd_app := a4\<rparr>, Inl (NodeChainError e))))"

subsection \<open>Transactions\<close>

definition applyDemoNodeTx :: "('pk, 'sk, 'c) NodeEnv \<Rightarrow> 'c Node \<Rightarrow> NodeTx \<Rightarrow> 'c Node \<times> ExecTxResult" where
  "applyDemoNodeTx env n bs =
     (case decodeDemoNodeTx bs of
        Inl e \<Rightarrow> (n, ExecFailed e)
      | Inr tx \<Rightarrow>
      if dx_Type tx = ''queue_deposit_claim''
      then case depositClaimAndAttestationFromPayload (the (dx_QueueDepositClaim tx)) of
          Inl e \<Rightarrow> (n, ExecFailed e)
        | Inr (claim, attestation) \<Rightarrow>
            (case app_QueueDepositClaim (ne_bech32 env) (nd_app n) claim attestation of
               (a, Some e) \<Rightarrow> (n\<lparr>nd_app := a\<rparr>, ExecFailed (NodeAppError e))
             | (a, None) \<Rightarrow>
                 (n\<lparr>nd_app := a\<rparr>, ExecOK (QueuedResult (ci_MessageID (dc_Identity claim)) (dc_AssetID claim) (show_bigint (dc_Amount claim))) []))
      else if dx_Type tx = ''initiate_ibc_transfer''
      then case decodeInitiateIBCTransferPayload (the (dx_InitiateIBCTransfer tx)) of
          Inl e \<Rightarrow> (n, ExecFailed e)
        | Inr (payload, amount) \<Rightarrow>
            (case applyIBCTransferPayload env n payload amount of
               (n1, Inl e) \<Rightarrow> (n1, ExecFailed e)
             | (n1, Inr (transfer, events)) \<Rightarrow> (n1, ExecOK (TransferResult transfer) events))
      else if dx_Type tx = ''execute_withdrawal''
      then case decodeExecuteWithdrawalPayload (the (dx_ExecuteWithdrawal tx)) of
          Inl e \<Rightarrow> (n, ExecFailed e)
        | Inr (payload, amount, signature) \<Rightarrow>
            let a1 = (if 0 < ep_Height payload then app_SetCurrentHeight (nd_app n) (ep_Height payload) else nd_app n) in
            (case app_ExecuteWithdrawal (ne_bech32 env) a1 (ep_OwnerAddress payload) (ep_AssetID payload) (Some amount)
                    (ep_Recipient payload) (ep_Deadline payload) signature of
               (a2, Inl e) \<Rightarrow> (n\<lparr>nd_app := a2\<rparr>, ExecFailed (NodeAppError e))
             | (a2, Inr withdrawal) \<Rightarrow> (n\<lparr>nd_app := a2\<rparr>, ExecOK (WithdrawalResult withdrawal) []))
      else if dx_Type tx = ''fund_account''
      then case ne_chainApp env of
          None \<Rightarrow> (n, ExecFailed (NodeError ''fund account requires chain app''))
        | Some ca \<Rightarrow>
        case decodeFundAccountPayload (the (dx_FundAccount tx)) of
          Inl e \<Rightarrow> (n, ExecFailed e)
        | Inr (payload, amount) \<Rightarrow>
            (case ca_FundAccount ca (nd_chain n) (fp_Address payload) (fp_Denom payload) amount of
               (c, Some e) \<Rightarrow> (n\<lparr>nd_chain := c\<rparr>, ExecFailed (NodeChainError e))
             | (c, None) \<Rightarrow> (n\<lparr>nd_chain := c\<rparr>, ExecOK (FundAccountResult (fp_Address payload) (fp_Denom payload) amount) []))
      else (n, ExecFailed (NodeError ''unsupported demo node tx type'')))"

fun apply_txs :: "('pk, 'sk, 'c) NodeEnv \<Rightarrow> NodeTx list \<Rightarrow> 'c Node \<Rightarrow> 'c Node \<times> ExecTxResult list" where
  "apply_txs env [] n = (n, [])"
| "apply_txs env (tx # txs) n =
     (case applyDemoNodeTx env n tx of
        (n1, result) \<Rightarrow> (case apply_txs env txs n1 of (n2, results) \<Rightarrow> (n2, result # results)))"

subsection \<open>Blocks\<close>

fun sync_claims :: "('pk, 'sk, 'c) NodeEnv \<Rightarrow> AppliedClaimBalance list \<Rightarrow> 'c Node \<Rightarrow> 'c Node \<times> node_error option" where
  "sync_claims env [] n = (n, None)"
| "sync_claims env (balance # balances) n =
     (case SetString10 (TrimSpace (ab_Amount balance)) of
        None \<Rightarrow> (n, Some (NodeError ''invalid applied claim balance amount''))
      | Some amount \<Rightarrow>
          (case sync_balance env n (ab_Address balance) (ab_Denom balance) amount of
             (n1, Some e) \<Rightarrow> (n1, Some e)
           | (n1, None) \<Rightarrow> sync_claims env balances n1))"

definition advanceAppAndSyncChain :: "('pk, 'sk, 'c) NodeEnv \<Rightarrow> 'c Node \<Rightarrow> 'c Node \<times> node_error option" where
  "advanceAppAndSyncChain env n =
     (case app_AdvanceBlock (ne_crypto env) (ne_bech32 env) (nd_app n) of
        (a, progress) \<Rightarrow>
          let n1 = n\<lparr>nd_app := a\<rparr> in
          if ne_chainApp env = None then (n1, None) else sync_claims env (bp_AppliedClaimBalances progress) n1)"

text \<open>The loop that advances the application until it has reached the height of the block.\<close>

partial_function (option) advance_to :: "('pk, 'sk, 'c) NodeEnv \<Rightarrow> u64 \<Rightarrow> 'c Node \<Rightarrow> ('c Node \<times> node_error option) option" where
  "advance_to env targetHeight n =
     (if bk_currentHeight (app_bridge (nd_app n)) < targetHeight
      then case advanceAppAndSyncChain env n of
          (n1, Some e) \<Rightarrow> Some (n1, Some e)
        | (n1, None) \<Rightarrow> advance_to env targetHeight n1
      else Some (n, None))"

text \<open>A block at height zero advances the application once, a later one up to its height.\<close>

definition advance_block :: "('pk, 'sk, 'c) NodeEnv \<Rightarrow> u64 \<Rightarrow> u64 \<Rightarrow> 'c Node \<Rightarrow> ('c Node \<times> node_error option) option" where
  "advance_block env targetHeight current n =
     (if targetHeight = 0 then Some (advanceAppAndSyncChain env n)
      else if current < targetHeight then advance_to env targetHeight n
      else Some (n, None))"

record ResponseFinalizeBlock =
  rf_AppHash :: bytes
  rf_TxResults :: "ExecTxResult list"

definition is_demo_tx :: "NodeTx \<Rightarrow> bool" where
  "is_demo_tx tx = (case decodeDemoNodeTx tx of Inl _ \<Rightarrow> False | Inr _ \<Rightarrow> True)"

text \<open>The SDK chain finalizes an empty block beside the block of node transactions when its height fits.\<close>

definition finalize_beside :: "('pk, 'sk, 'c) NodeEnv \<Rightarrow> 'c Node \<Rightarrow> int \<Rightarrow> 'c Node \<times> node_error option" where
  "finalize_beside env n height =
     (case ne_chainApp env of
        None \<Rightarrow> (n, None)
      | Some ca \<Rightarrow>
          if 0 < height \<and> ca_LastBlockHeight ca (nd_chain n) + 1 = height
          then case ca_FinalizeBlock ca (nd_chain n) height [] of
              (c, Inl e) \<Rightarrow> (n\<lparr>nd_chain := c\<rparr>, Some (NodeChainError e))
            | (c, Inr (hash, _)) \<Rightarrow>
                (n\<lparr>nd_chain := c, nd_lastFinalizeUsedBaseApp := True, nd_pendingBaseAppCommit := True,
                   nd_appHash := (if hash \<noteq> [] then hash else nd_appHash n)\<rparr>, None)
          else (n, None))"

definition node_FinalizeBlock ::
    "('pk, 'sk, 'c) NodeEnv \<Rightarrow> 'c Node \<Rightarrow> int \<Rightarrow> NodeTx list \<Rightarrow> ('c Node \<times> (node_error + ResponseFinalizeBlock)) option" where
  "node_FinalizeBlock env n height txs =
     (let hasDemoTx = list_ex is_demo_tx txs; hasSDKTx = list_ex (\<lambda>tx. \<not> is_demo_tx tx) txs in
      if hasDemoTx \<and> hasSDKTx
      then Some (n, Inr \<lparr>rf_AppHash = [],
             rf_TxResults = [ExecFailed (NodeError ''mixed demo-node and sdk txs are not supported in the same block'')]\<rparr>)
      else if \<not> hasDemoTx \<and> ne_chainApp env \<noteq> None
      then (case ca_FinalizeBlock (the (ne_chainApp env)) (nd_chain n) height txs of
          (c, Inl e) \<Rightarrow> Some (n\<lparr>nd_chain := c\<rparr>, Inl (NodeChainError e))
        | (c, Inr (hash, results)) \<Rightarrow>
            Some (n\<lparr>nd_chain := c, nd_lastFinalizeUsedBaseApp := True, nd_appHash := hash,
                nd_app := (if 0 < height then app_SetCurrentHeight (nd_app n) (word_of_int height) else nd_app n)\<rparr>,
              Inr \<lparr>rf_AppHash = hash, rf_TxResults = results\<rparr>))
      else
        let n0 = n\<lparr>nd_lastFinalizeUsedBaseApp := False, nd_pendingBaseAppCommit := False\<rparr>;
            targetHeight = (word_of_int height :: u64);
            current = bk_currentHeight (app_bridge (nd_app n0))
        in case apply_txs env txs n0 of
          (n1, txResults) \<Rightarrow>
        case finalize_beside env n1 height of
          (n2, Some e) \<Rightarrow> Some (n2, Inl e)
        | (n2, None) \<Rightarrow>
        map_option (\<lambda>(n3, err).
            case err of
              Some e \<Rightarrow> (n3, Inl e)
            | None \<Rightarrow>
                let n4 = (if nd_pendingBaseAppCommit n3 then n3 else n3\<lparr>nd_appHash := hashABCIStatus env (node_Status env n3)\<rparr>)
                in (n4, Inr \<lparr>rf_AppHash = nd_appHash n4, rf_TxResults = txResults\<rparr>))
          (advance_block env targetHeight current n2))"

text \<open>State files are written in place: a write that fails may leave the old file or one that cannot be read.\<close>

datatype write_outcome = Written | KeptOld string | Torn string

text \<open>Saving the application.\<close>

definition save_app :: "write_outcome \<Rightarrow> 'c Node \<Rightarrow> 'c Node \<times> node_error option" where
  "save_app disk n =
     (case disk of
        Written \<Rightarrow> (n\<lparr>nd_saved := Some (app_Save (nd_app n))\<rparr>, None)
      | KeptOld e \<Rightarrow> (n, Some (NodeError e))
      | Torn e \<Rightarrow> (n\<lparr>nd_saved := None\<rparr>, Some (NodeError e)))"

definition node_Commit :: "('pk, 'sk, 'c) NodeEnv \<Rightarrow> write_outcome \<Rightarrow> 'c Node \<Rightarrow> 'c Node \<times> node_error option" where
  "node_Commit env disk n =
     (case save_app disk n of
        (n1, Some e) \<Rightarrow> (n1, Some e)
      | (n1, None) \<Rightarrow>
      case ne_chainApp env of
        None \<Rightarrow> (n1, None)
      | Some ca \<Rightarrow>
          if nd_lastFinalizeUsedBaseApp n1
          then case ca_Commit ca (nd_chain n1) of
              (c, Inl e) \<Rightarrow> (n1\<lparr>nd_chain := c\<rparr>, Some (NodeChainError e))
            | (c, Inr hash) \<Rightarrow>
                (n1\<lparr>nd_chain := c, nd_lastFinalizeUsedBaseApp := False, nd_pendingBaseAppCommit := False, nd_appHash := hash\<rparr>, None)
          else (n1, None))"

text \<open>The code of the answer.\<close>

definition node_CheckTx :: "('pk, 'sk, 'c) NodeEnv \<Rightarrow> 'c Node \<Rightarrow> NodeTx \<Rightarrow> 'c Node \<times> nat" where
  "node_CheckTx env n tx =
     (if is_demo_tx tx then (n, 0)
      else case ne_chainApp env of
        Some ca \<Rightarrow> (case ca_CheckTx ca (nd_chain n) tx of (c, code) \<Rightarrow> (n\<lparr>nd_chain := c\<rparr>, code))
      | None \<Rightarrow> (n, 1))"

end
