(* ===== verification/Delivery.thy ===== *)
theory Delivery
  imports Node
begin

text \<open>
  Where a deposit is on its way: the delivery intents that users leave with the node (\<^verbatim>\<open>networked/delivery_intent.go\<close>) and the
  view of a bridge session that is put together from the claim, the intent, the transfer and the destination
  (\<^verbatim>\<open>networked/bridge_status.go\<close>).
\<close>

section \<open>Delivery intents\<close>

record DeliveryIntent =
  di_SourceTxHash :: string
  di_Sender :: string
  di_RouteID :: string
  di_AssetID :: string
  di_Amount :: string
  di_Receiver :: string
  di_TransferID :: string
  di_ChannelID :: string

definition normalizeDeliveryIntent :: "DeliveryIntent \<Rightarrow> node_error + DeliveryIntent" where
  "normalizeDeliveryIntent intent0 =
     (let intent =
        \<lparr>di_SourceTxHash = TrimSpace (di_SourceTxHash intent0), di_Sender = TrimSpace (di_Sender intent0),
         di_RouteID = TrimSpace (di_RouteID intent0), di_AssetID = TrimSpace (di_AssetID intent0),
         di_Amount = TrimSpace (di_Amount intent0), di_Receiver = TrimSpace (di_Receiver intent0),
         di_TransferID = TrimSpace (di_TransferID intent0), di_ChannelID = TrimSpace (di_ChannelID intent0)\<rparr>
      in if di_SourceTxHash intent = '''' then Inl (NodeError ''missing source tx hash'')
         else if di_Sender intent = '''' then Inl (NodeError ''missing sender'')
         else if di_RouteID intent = '''' then Inl (NodeError ''missing route id'')
         else if di_AssetID intent = '''' then Inl (NodeError ''missing asset id'')
         else if di_Amount intent = '''' then Inl (NodeError ''missing amount'')
         else if di_Receiver intent = '''' then Inl (NodeError ''missing receiver'')
         else Inr intent)"

text \<open>The file of the intents holds what its JSON text decodes to, nothing if it does not exist, or cannot be read.\<close>

datatype IntentFile = NoFile | Intents "DeliveryIntent list" | Unreadable string

definition loadDeliveryIntents :: "IntentFile \<Rightarrow> node_error + DeliveryIntent list" where
  "loadDeliveryIntents f =
     (case f of NoFile \<Rightarrow> Inr [] | Intents intents \<Rightarrow> Inr intents | Unreadable e \<Rightarrow> Inl (NodeError e))"

definition saveDeliveryIntents :: "write_outcome \<Rightarrow> DeliveryIntent list \<Rightarrow> IntentFile \<Rightarrow> IntentFile \<times> node_error option" where
  "saveDeliveryIntents disk intents f =
     (case disk of
        Written \<Rightarrow> (Intents intents, None)
      | KeptOld e \<Rightarrow> (f, Some (NodeError e))
      | Torn e \<Rightarrow> (Unreadable e, Some (NodeError e)))"

fun replace_intent :: "DeliveryIntent \<Rightarrow> DeliveryIntent list \<Rightarrow> DeliveryIntent list option" where
  "replace_intent intent [] = None"
| "replace_intent intent (i # is) =
     (if EqualFold (di_SourceTxHash i) (di_SourceTxHash intent) then Some (intent # is)
      else map_option ((#) i) (replace_intent intent is))"

definition RegisterDeliveryIntent :: "write_outcome \<Rightarrow> IntentFile \<Rightarrow> DeliveryIntent \<Rightarrow> IntentFile \<times> (node_error + DeliveryIntent)" where
  "RegisterDeliveryIntent disk f intent0 =
     (case normalizeDeliveryIntent intent0 of
        Inl e \<Rightarrow> (f, Inl e)
      | Inr intent \<Rightarrow>
      case loadDeliveryIntents f of
        Inl e \<Rightarrow> (f, Inl e)
      | Inr intents \<Rightarrow>
          let intents1 = (case replace_intent intent intents of
                            Some replaced \<Rightarrow> replaced
                          | None \<Rightarrow> sort_key di_SourceTxHash (intents @ [intent]))
          in (case saveDeliveryIntents disk intents1 f of
                (f1, Some e) \<Rightarrow> (f1, Inl e)
              | (f1, None) \<Rightarrow> (f1, Inr intent)))"

definition ListDeliveryIntents :: "IntentFile \<Rightarrow> node_error + DeliveryIntent list" where
  "ListDeliveryIntents f = loadDeliveryIntents f"

definition same_hash :: "string \<Rightarrow> string \<Rightarrow> bool" where
  "same_hash h1 h2 = EqualFold (TrimSpace h1) (TrimSpace h2)"

definition findDeliveryIntentBySourceTxHash :: "IntentFile \<Rightarrow> string \<Rightarrow> node_error + DeliveryIntent option" where
  "findDeliveryIntentBySourceTxHash f sourceTxHash =
     (case ListDeliveryIntents f of
        Inl e \<Rightarrow> Inl e
      | Inr intents \<Rightarrow> Inr (find (\<lambda>i. same_hash (di_SourceTxHash i) sourceTxHash) intents))"

section \<open>Bridge sessions\<close>

record BridgeSessionView =
  sv_SourceTxHash :: string
  sv_Status :: string
  sv_MessageID :: string
  sv_TransferID :: string
  sv_ChannelID :: string
  sv_DestinationTxHash :: string
  sv_DestinationTxURL :: string
  sv_ErrorMessage :: string

record DestinationTxLookup =
  dl_SourceTxHash :: string
  dl_SourceChannelID :: string
  dl_PacketSequence :: u64

record DestinationTxResult =
  dr_TxHash :: string
  dr_TxURL :: string

definition findClaimBySourceTxHash :: "App \<Rightarrow> string \<Rightarrow> ClaimRecordSnapshot option" where
  "findClaimBySourceTxHash app sourceTxHash =
     find (\<lambda>c. same_hash (cs_SourceTxHash c) sourceTxHash) (bst_ProcessedClaims (bridge_ExportState (app_bridge app)))"

definition transferStatusWeight :: "string \<Rightarrow> int" where
  "transferStatusWeight status =
     (if status = TransferStatusCompleted then 4
      else if status = TransferStatusPending then 3
      else if status = TransferStatusAckFailed then 2
      else if status = TransferStatusTimedOut then 1
      else if status = TransferStatusRefunded then 0
      else - 1)"

text \<open>The order by which matches are sorted: the heavier status first, then the greater id.\<close>

definition transfer_before :: "TransferRecordSnapshot \<Rightarrow> TransferRecordSnapshot \<Rightarrow> bool" where
  "transfer_before a b \<longleftrightarrow>
     transferStatusWeight (ts_Status b) < transferStatusWeight (ts_Status a)
     \<or> transferStatusWeight (ts_Status a) = transferStatusWeight (ts_Status b) \<and> ts_TransferID b < ts_TransferID a"

fun first_transfer :: "TransferRecordSnapshot list \<Rightarrow> TransferRecordSnapshot option" where
  "first_transfer [] = None"
| "first_transfer (t # ts) =
     (case first_transfer ts of None \<Rightarrow> Some t | Some u \<Rightarrow> Some (if transfer_before u t then u else t))"

definition transport_of :: "RouterStateSnapshot \<Rightarrow> TransferRecordSnapshot \<Rightarrow> TransportRecord option" where
  "transport_of state transfer = find (\<lambda>t. tp_TransferID t = ts_TransferID transfer) (rs_Transport state)"

text \<open>The transfer that the intent names, if it is known under that channel.\<close>

definition named_transfer :: "RouterStateSnapshot \<Rightarrow> DeliveryIntent option \<Rightarrow> TransferRecordSnapshot option" where
  "named_transfer state intent =
     (case intent of
        None \<Rightarrow> None
      | Some i \<Rightarrow>
          if TrimSpace (di_TransferID i) = '''' then None
          else find (\<lambda>t. ts_TransferID t = TrimSpace (di_TransferID i)
                 \<and> (TrimSpace (di_ChannelID i) = '''' \<or> TrimSpace (ts_ChannelID t) = TrimSpace (di_ChannelID i))) (rs_Transfers state))"

text \<open>What the intent says, or the claim where the intent is silent.\<close>

definition expected :: "(DeliveryIntent \<Rightarrow> string) \<Rightarrow> DeliveryIntent option \<Rightarrow> string \<Rightarrow> string" where
  "expected field intent fallback =
     (case intent of None \<Rightarrow> TrimSpace fallback | Some i \<Rightarrow> if TrimSpace (field i) \<noteq> '''' then TrimSpace (field i) else TrimSpace fallback)"

definition claim_matches :: "ClaimRecordSnapshot \<Rightarrow> DeliveryIntent option \<Rightarrow> TransferRecordSnapshot \<Rightarrow> bool" where
  "claim_matches claim intent transfer \<longleftrightarrow>
     TrimSpace (ts_AssetID transfer) = TrimSpace (cs_AssetID claim)
     \<and> TrimSpace (ts_Receiver transfer) = expected di_Receiver intent (cs_Recipient claim)
     \<and> TrimSpace (ts_Amount transfer) = expected di_Amount intent (cs_Amount claim)"

definition findTransferForClaim ::
    "App \<Rightarrow> ClaimRecordSnapshot \<Rightarrow> DeliveryIntent option \<Rightarrow> (TransferRecordSnapshot \<times> TransportRecord option) option" where
  "findTransferForClaim app claim intent =
     (let state = router_ExportState (app_router app) in
      case named_transfer state intent of
        Some transfer \<Rightarrow> Some (transfer, transport_of state transfer)
      | None \<Rightarrow>
          map_option (\<lambda>selected. (selected, transport_of state selected)) (first_transfer (filter (claim_matches claim intent) (rs_Transfers state))))"

definition destinationTxSearchQuery :: "DestinationTxLookup \<Rightarrow> string option" where
  "destinationTxSearchQuery lookup =
     (let sourceTxHash = TrimSpace (dl_SourceTxHash lookup); channelID = TrimSpace (dl_SourceChannelID lookup);
          apostrophe = [CHR 0x27]
      in if sourceTxHash \<noteq> ''''
         then Some (''fungible_token_packet.memo='' @ apostrophe @ ''bridge:'' @ sourceTxHash @ apostrophe)
         else if channelID \<noteq> '''' \<and> 0 < dl_PacketSequence lookup
         then Some (''recv_packet.packet_src_channel='' @ apostrophe @ channelID @ apostrophe @ '' AND recv_packet.packet_sequence=''
                @ apostrophe @ show_u64 (dl_PacketSequence lookup) @ apostrophe)
         else None)"

text \<open>The resolver that asks a destination node. \<open>search\<close> is the HTTP call: the base URL and the query give an error, another status
  than 200, or the hashes of the transactions that were found.\<close>

datatype search_reply = SearchError string | SearchStatus string | SearchFound "string list"

definition LCDDestinationTxResolver_Resolve ::
    "(string \<Rightarrow> string \<Rightarrow> search_reply) \<Rightarrow> string \<Rightarrow> DestinationTxLookup \<Rightarrow> string + DestinationTxResult option" where
  "LCDDestinationTxResolver_Resolve search url lookup =
     (let baseURL = rev (dropWhile (\<lambda>c. c = CHR ''/'') (rev (TrimSpace url))) in
      if baseURL = '''' then Inr None
      else case destinationTxSearchQuery lookup of
        None \<Rightarrow> Inr None
      | Some query \<Rightarrow>
      case search baseURL query of
        SearchError e \<Rightarrow> Inl e
      | SearchStatus status \<Rightarrow> Inl (''destination tx lookup failed with '' @ status)
      | SearchFound [] \<Rightarrow> Inr None
      | SearchFound (hash # _) \<Rightarrow> if TrimSpace hash = '''' then Inr None else Inr (Some \<lparr>dr_TxHash = hash, dr_TxURL = ''''\<rparr>))"

definition session_result :: "TransferRecordSnapshot \<Rightarrow> bool \<Rightarrow> BridgeSessionView \<Rightarrow> BridgeSessionView" where
  "session_result transfer destinationFound view =
     (if ts_Status transfer = TransferStatusPending
      then view\<lparr>sv_Status := (if destinationFound then ''completed'' else ''osmosis_pending'')\<rparr>
      else if ts_Status transfer = TransferStatusCompleted then view\<lparr>sv_Status := ''completed''\<rparr>
      else if ts_Status transfer \<in> {TransferStatusAckFailed, TransferStatusTimedOut, TransferStatusRefunded}
      then view\<lparr>sv_Status := ''failed'',
             sv_ErrorMessage := (if TrimSpace (ts_FailureReason transfer) = '''' then ts_Status transfer else TrimSpace (ts_FailureReason transfer))\<rparr>
      else view\<lparr>sv_Status := ''osmosis_pending''\<rparr>)"

definition ResolveBridgeSessionView ::
    "App \<Rightarrow> IntentFile \<Rightarrow> (DestinationTxLookup \<Rightarrow> string + DestinationTxResult option) option \<Rightarrow> string \<Rightarrow> node_error + BridgeSessionView" where
  "ResolveBridgeSessionView app f resolver sourceTxHash0 =
     (let sourceTxHash = TrimSpace sourceTxHash0;
          view = \<lparr>sv_SourceTxHash = sourceTxHash, sv_Status = ''sepolia_confirming'', sv_MessageID = '''', sv_TransferID = '''', sv_ChannelID = '''',
                  sv_DestinationTxHash = '''', sv_DestinationTxURL = '''', sv_ErrorMessage = ''''\<rparr>
      in if sourceTxHash = '''' then Inl (NodeError ''missing source tx hash'')
         else case findClaimBySourceTxHash app sourceTxHash of
           None \<Rightarrow> Inr view
         | Some claim \<Rightarrow>
         let view1 = view\<lparr>sv_MessageID := cs_MessageID claim, sv_Status := ''aegislink_processing''\<rparr> in
         case findDeliveryIntentBySourceTxHash f sourceTxHash of
           Inl e \<Rightarrow> Inl e
         | Inr intent \<Rightarrow>
         case findTransferForClaim app claim intent of
           None \<Rightarrow> Inr view1
         | Some (transfer, transport) \<Rightarrow>
         let view2 = view1\<lparr>sv_TransferID := ts_TransferID transfer, sv_ChannelID := ts_ChannelID transfer\<rparr> in
         case (resolver, transport) of
           (Some resolve, Some t) \<Rightarrow>
             (case resolve \<lparr>dl_SourceTxHash = sourceTxHash, dl_SourceChannelID = tp_ChannelID t, dl_PacketSequence = tp_PacketSequence t\<rparr> of
                Inl e \<Rightarrow> Inr (session_result transfer False (view2\<lparr>sv_ErrorMessage := e\<rparr>))
              | Inr (Some result) \<Rightarrow>
                  Inr (session_result transfer True (view2\<lparr>sv_DestinationTxHash := dr_TxHash result, sv_DestinationTxURL := dr_TxURL result\<rparr>))
              | Inr None \<Rightarrow> Inr (session_result transfer False view2))
         | _ \<Rightarrow> Inr (session_result transfer False view2))"

end
