(* ===== verification/NodeHttp.thy ===== *)
theory NodeHttp
  imports Delivery
begin

text \<open>
  The HTTP interface of the node: \<^verbatim>\<open>serveHTTP\<close> and its handlers in \<^verbatim>\<open>networked/start.go\<close> and \<^verbatim>\<open>networked/seed.go\<close>. Bodies of
  requests are what they decode to, replies are values before their JSON encoding. The handlers call the application directly,
  beside the consensus engine.
\<close>

section \<open>Seeding\<close>

record SeedBridgeLimitPayload =
  sl_AssetID :: string
  sl_WindowBlocks :: u64
  sl_MaxAmount :: string

record SeedBridgeAssetsPayload =
  sb_Assets :: "Asset list"
  sb_Limits :: "SeedBridgeLimitPayload list"

record SetRouteProfilePayload =
  sr_RouteID :: string
  sr_DestinationChainID :: string
  sr_ChannelID :: string
  sr_Enabled :: bool
  sr_Assets :: "AssetRoute list"
  sr_AllowedMemoPrefixes :: "string list"
  sr_AllowedActionTypes :: "string list"

definition cleanSeedStrings :: "string list \<Rightarrow> string list" where
  "cleanSeedStrings items = filter (\<lambda>s. s \<noteq> '''') (map TrimSpace items)"

definition trim_seed_asset :: "Asset \<Rightarrow> Asset" where
  "trim_seed_asset a =
     a\<lparr>as_AssetID := TrimSpace (as_AssetID a), as_SourceChainID := TrimSpace (as_SourceChainID a),
       as_SourceAssetAddress := TrimSpace (as_SourceAssetAddress a), as_SourceContract := TrimSpace (as_SourceContract a),
       as_Denom := TrimSpace (as_Denom a), as_DisplayName := TrimSpace (as_DisplayName a), as_DisplaySymbol := TrimSpace (as_DisplaySymbol a)\<rparr>"

fun seed_assets :: "Asset list \<Rightarrow> node_error + Asset list" where
  "seed_assets [] = Inr []"
| "seed_assets (a # as) =
     (case asset_ValidateBasic (trim_seed_asset a) of
        Some e \<Rightarrow> Inl (NodeAppError (AppRegistryError e))
      | None \<Rightarrow> (case seed_assets as of Inl e \<Rightarrow> Inl e | Inr rest \<Rightarrow> Inr (trim_seed_asset a # rest)))"

fun seed_limits ::
    "string list \<Rightarrow> SeedBridgeLimitPayload list \<Rightarrow> (string, int) gomap \<Rightarrow> node_error + SeedBridgeLimitPayload list \<times> (string, int) gomap" where
  "seed_limits ids [] parsed = Inr ([], parsed)"
| "seed_limits ids (l # ls) parsed =
     (let i = TrimSpace (sl_AssetID l) in
      if i = '''' then Inl (NodeError ''missing rate-limit asset id'')
      else if sl_WindowBlocks l = 0 then Inl (NodeError ''missing rate-limit window seconds'')
      else if i \<notin> set ids then Inl (NodeError ''rate limit references unknown asset'')
      else case SetString10 (TrimSpace (sl_MaxAmount l)) of
        None \<Rightarrow> Inl (NodeError ''invalid rate-limit amount'')
      | Some amount \<Rightarrow>
          if amount \<le> 0 then Inl (NodeError ''invalid rate-limit amount'')
          else case seed_limits ids ls (gomap_set i amount parsed) of
            Inl e \<Rightarrow> Inl e
          | Inr (rest, parsed1) \<Rightarrow> Inr (l\<lparr>sl_AssetID := i, sl_MaxAmount := show_int amount\<rparr> # rest, parsed1))"

definition decodeSeedBridgeAssetsPayload ::
    "SeedBridgeAssetsPayload \<Rightarrow> node_error + SeedBridgeAssetsPayload \<times> (string, int) gomap" where
  "decodeSeedBridgeAssetsPayload payload =
     (if sb_Assets payload = [] then Inl (NodeError ''missing bridge assets'')
      else case seed_assets (sb_Assets payload) of
        Inl e \<Rightarrow> Inl e
      | Inr assets \<Rightarrow>
      case seed_limits (map as_AssetID assets) (sb_Limits payload) [] of
        Inl e \<Rightarrow> Inl e
      | Inr (limits, parsed) \<Rightarrow> Inr (\<lparr>sb_Assets = assets, sb_Limits = limits\<rparr>, parsed))"

fun check_routes :: "AssetRoute list \<Rightarrow> router_error option" where
  "check_routes [] = None"
| "check_routes (a # as) =
     (case assetroute_ValidateBasic (assetroute_Canonical a) of Some e \<Rightarrow> Some e | None \<Rightarrow> check_routes as)"

definition decodeSetRouteProfilePayload :: "SetRouteProfilePayload \<Rightarrow> node_error + RouteProfile" where
  "decodeSetRouteProfilePayload payload =
     (let profile =
        \<lparr>pr_RouteID = TrimSpace (sr_RouteID payload), pr_DestinationChainID = TrimSpace (sr_DestinationChainID payload),
         pr_ChannelID = TrimSpace (sr_ChannelID payload), pr_Enabled = sr_Enabled payload,
         pr_Assets = map assetroute_Canonical (sr_Assets payload),
         pr_Policy = \<lparr>rp_AllowedMemoPrefixes = cleanSeedStrings (sr_AllowedMemoPrefixes payload),
                      rp_AllowedActionTypes = cleanSeedStrings (sr_AllowedActionTypes payload)\<rparr>\<rparr>
      in case check_routes (sr_Assets payload) of
           Some e \<Rightarrow> Inl (NodeRouterError e)
         | None \<Rightarrow>
         case profile_ValidateBasic profile of
           Some e \<Rightarrow> Inl (NodeRouterError e)
         | None \<Rightarrow> Inr (profile_Canonical profile))"

definition sameSeededAsset :: "Asset \<Rightarrow> Asset \<Rightarrow> bool" where
  "sameSeededAsset existing wanted \<longleftrightarrow>
     as_AssetID existing = as_AssetID wanted \<and> as_SourceChainID existing = as_SourceChainID wanted
     \<and> as_SourceAssetKind existing = as_SourceAssetKind wanted
     \<and> EqualFold (as_SourceAssetAddress existing) (as_SourceAssetAddress wanted)
     \<and> EqualFold (as_SourceContract existing) (as_SourceContract wanted) \<and> as_Denom existing = as_Denom wanted
     \<and> as_Decimals existing = as_Decimals wanted \<and> as_DisplayName existing = as_DisplayName wanted
     \<and> as_DisplaySymbol existing = as_DisplaySymbol wanted \<and> as_Enabled existing = as_Enabled wanted"

definition ensureSeededAsset :: "App \<Rightarrow> Asset \<Rightarrow> App \<times> node_error option" where
  "ensureSeededAsset app asset =
     (case registry_GetAsset (bk_registry (app_bridge app)) (as_AssetID asset) of
        Some existing \<Rightarrow>
          if \<not> sameSeededAsset existing asset then (app, Some (NodeError ''asset already exists with different metadata'')) else (app, None)
      | None \<Rightarrow> (case app_RegisterAsset app asset of (a, e) \<Rightarrow> (a, map_option (\<lambda>err. NodeAppError (AppRegistryError err)) e)))"

fun ensure_assets :: "Asset list \<Rightarrow> App \<Rightarrow> App \<times> node_error option" where
  "ensure_assets [] app = (app, None)"
| "ensure_assets (asset # assets) app =
     (case ensureSeededAsset app asset of (a, Some e) \<Rightarrow> (a, Some e) | (a, None) \<Rightarrow> ensure_assets assets a)"

fun set_limits :: "(string, int) gomap \<Rightarrow> SeedBridgeLimitPayload list \<Rightarrow> App \<Rightarrow> App \<times> node_error option" where
  "set_limits parsed [] app = (app, None)"
| "set_limits parsed (l # ls) app =
     (case app_SetLimit app \<lparr>rl_AssetID = sl_AssetID l, rl_WindowBlocks = sl_WindowBlocks l, rl_MaxAmount = gomap_get parsed (sl_AssetID l)\<rparr> of
        (a, Some e) \<Rightarrow> (a, Some (NodeAppError (AppLimitsError e)))
      | (a, None) \<Rightarrow> set_limits parsed ls a)"

section \<open>The server\<close>

record 'c NodeServer =
  ns_node :: "'c Node"
  ns_intents :: IntentFile

datatype NodeReply =
    ReplyNone
  | ReplyStatus AppStatus
  | ReplyBalances "BalanceRecord list"
  | ReplyTransfers "TransferRecord list"
  | ReplySession BridgeSessionView
  | ReplyIntents "DeliveryIntent list"
  | ReplyIntent DeliveryIntent
  | ReplyData TxData
  | ReplySeeded "string list" "u64 list"
  | ReplyProfile RouteProfile
  | ReplyError node_error

datatype http_method = GET | POST | OPTIONS | OtherMethod

text \<open>The requests of the endpoints, with the bodies of posts as they decode. The health check, which only repeats the addresses of
  the node, and the faucet, which broadcasts a transaction of the SDK chain, are left out.\<close>

datatype NodeRequest =
    StatusRequest | BalancesRequest string | TransfersRequest | SessionRequest string | ListIntents
  | PostIntent "string + DeliveryIntent"
  | QueueClaim "string + submissionPayload"
  | InitiateTransfer "string + InitiateIBCTransferPayload"
  | SeedAssets "string + SeedBridgeAssetsPayload"
  | SetProfile "string + SetRouteProfilePayload"
  | OtherIntents
  | OtherPath

definition saved_reply :: "write_outcome \<Rightarrow> 'c Node \<Rightarrow> 'a \<Rightarrow> 'c Node \<times> (node_error + 'a)" where
  "saved_reply disk n reply = (case save_app disk n of (n1, Some e) \<Rightarrow> (n1, Inl e) | (n1, None) \<Rightarrow> (n1, Inr reply))"

definition handleQueueDepositClaim ::
    "('pk, 'sk, 'c) NodeEnv \<Rightarrow> write_outcome \<Rightarrow> 'c Node \<Rightarrow> string + submissionPayload \<Rightarrow> 'c Node \<times> (node_error + NodeReply)" where
  "handleQueueDepositClaim env disk n body =
     (case body of
        Inl e \<Rightarrow> (n, Inl (NodeError e))
      | Inr payload \<Rightarrow>
      case depositClaimAndAttestationFromPayload payload of
        Inl e \<Rightarrow> (n, Inl e)
      | Inr (claim, attestation) \<Rightarrow>
      case app_QueueDepositClaim (ne_bech32 env) (nd_app n) claim attestation of
        (a, Some e) \<Rightarrow> (n\<lparr>nd_app := a\<rparr>, Inl (NodeAppError e))
      | (a, None) \<Rightarrow>
          saved_reply disk (n\<lparr>nd_app := a\<rparr>)
            (ReplyData (QueuedResult (ci_MessageID (dc_Identity claim)) (dc_AssetID claim) (show_bigint (dc_Amount claim)))))"

text \<open>The sender of the payload is decoded, but not used.\<close>

definition handleInitiateIBCTransfer ::
    "write_outcome \<Rightarrow> 'c Node \<Rightarrow> string + InitiateIBCTransferPayload \<Rightarrow> 'c Node \<times> (node_error + NodeReply)" where
  "handleInitiateIBCTransfer disk n body =
     (case body of
        Inl e \<Rightarrow> (n, Inl (NodeError e))
      | Inr payload \<Rightarrow>
      if TrimSpace (ip_AssetID payload) = '''' then (n, Inl (NodeError ''missing asset id''))
      else if TrimSpace (ip_Receiver payload) = '''' then (n, Inl (NodeError ''missing receiver''))
      else if ip_TimeoutHeight payload = 0 then (n, Inl (NodeError ''missing timeout height''))
      else case SetString10 (TrimSpace (ip_Amount payload)) of
        None \<Rightarrow> (n, Inl (NodeError ''invalid amount''))
      | Some amount \<Rightarrow>
      case start_transfer (nd_app n) payload amount of
        (a, Inl e) \<Rightarrow> (n\<lparr>nd_app := a\<rparr>, Inl (NodeRouterError e))
      | (a, Inr transfer) \<Rightarrow> saved_reply disk (n\<lparr>nd_app := a\<rparr>) (ReplyData (TransferResult transfer)))"

definition handleSeedBridgeAssets ::
    "write_outcome \<Rightarrow> 'c Node \<Rightarrow> string + SeedBridgeAssetsPayload \<Rightarrow> 'c Node \<times> (node_error + NodeReply)" where
  "handleSeedBridgeAssets disk n body =
     (case body of
        Inl e \<Rightarrow> (n, Inl (NodeError e))
      | Inr payload0 \<Rightarrow>
      case decodeSeedBridgeAssetsPayload payload0 of
        Inl e \<Rightarrow> (n, Inl e)
      | Inr (payload, parsedLimits) \<Rightarrow>
      case ensure_assets (sb_Assets payload) (nd_app n) of
        (a, Some e) \<Rightarrow> (n\<lparr>nd_app := a\<rparr>, Inl e)
      | (a, None) \<Rightarrow>
      case set_limits parsedLimits (sb_Limits payload) a of
        (a1, Some e) \<Rightarrow> (n\<lparr>nd_app := a1\<rparr>, Inl e)
      | (a1, None) \<Rightarrow>
          saved_reply disk (n\<lparr>nd_app := a1\<rparr>) (ReplySeeded (map as_AssetID (sb_Assets payload)) (map sl_WindowBlocks (sb_Limits payload))))"

definition handleSetRouteProfile ::
    "write_outcome \<Rightarrow> 'c Node \<Rightarrow> string + SetRouteProfilePayload \<Rightarrow> 'c Node \<times> (node_error + NodeReply)" where
  "handleSetRouteProfile disk n body =
     (case body of
        Inl e \<Rightarrow> (n, Inl (NodeError e))
      | Inr payload \<Rightarrow>
      case decodeSetRouteProfilePayload payload of
        Inl e \<Rightarrow> (n, Inl e)
      | Inr profile \<Rightarrow>
      if list_ex (\<lambda>a. registry_GetAsset (bk_registry (app_bridge (nd_app n))) (ar_AssetID a) = None) (pr_Assets profile)
      then (n, Inl (NodeError ''asset is not registered in the AegisLink runtime''))
      else case app_SetRouteProfile (nd_app n) profile of
        (a, Some e) \<Rightarrow> (n\<lparr>nd_app := a\<rparr>, Inl (NodeRouterError e))
      | (a, None) \<Rightarrow> saved_reply disk (n\<lparr>nd_app := a\<rparr>) (ReplyProfile profile))"

text \<open>A handler that answers with its result, or with status 400 and the error; other methods than POST are refused.\<close>

definition post_handler ::
    "http_method \<Rightarrow> ('c Node \<Rightarrow> 'c Node \<times> (node_error + NodeReply)) \<Rightarrow> 'c NodeServer \<Rightarrow> 'c NodeServer \<times> nat \<times> NodeReply" where
  "post_handler meth handler s =
     (if meth \<noteq> POST then (s, 405, ReplyError (NodeError ''method not allowed''))
      else case handler (ns_node s) of
        (n, Inl e) \<Rightarrow> (s\<lparr>ns_node := n\<rparr>, 400, ReplyError e)
      | (n, Inr reply) \<Rightarrow> (s\<lparr>ns_node := n\<rparr>, 200, reply))"

definition serveHTTP ::
    "('pk, 'sk, 'c) NodeEnv \<Rightarrow> (DestinationTxLookup \<Rightarrow> string + DestinationTxResult option) option \<Rightarrow> write_outcome
     \<Rightarrow> 'c NodeServer \<Rightarrow> http_method \<Rightarrow> NodeRequest \<Rightarrow> 'c NodeServer \<times> nat \<times> NodeReply" where
  "serveHTTP env resolver disk s meth request =
     (if meth = OPTIONS then (s, 204, ReplyNone)
      else case request of
        StatusRequest \<Rightarrow> (s, 200, ReplyStatus (node_Status env (ns_node s)))
      | BalancesRequest address0 \<Rightarrow>
          let address = TrimSpace address0 in
          if address = '''' then (s, 400, ReplyError (NodeError ''missing address''))
          else (case app_WalletBalances (ne_bech32 env) (nd_app (ns_node s)) address of
              Inl e \<Rightarrow> (s, 400, ReplyError (NodeBankError e))
            | Inr balances \<Rightarrow> (s, 200, ReplyBalances balances))
      | TransfersRequest \<Rightarrow> (s, 200, ReplyTransfers (sort_key tr_TransferID (app_Transfers (nd_app (ns_node s)))))
      | SessionRequest hash0 \<Rightarrow>
          let sourceTxHash = TrimSpace hash0 in
          if sourceTxHash = '''' then (s, 400, ReplyError (NodeError ''missing sourceTxHash''))
          else (case ResolveBridgeSessionView (nd_app (ns_node s)) (ns_intents s) resolver sourceTxHash of
              Inl e \<Rightarrow> (s, 400, ReplyError e)
            | Inr view \<Rightarrow> (s, 200, ReplySession view))
      | ListIntents \<Rightarrow>
          (if meth \<noteq> GET then (s, 405, ReplyError (NodeError ''method not allowed''))
           else case ListDeliveryIntents (ns_intents s) of
             Inl e \<Rightarrow> (s, 500, ReplyError e)
           | Inr intents \<Rightarrow> (s, 200, ReplyIntents intents))
      | PostIntent body \<Rightarrow>
          (if meth \<noteq> POST then (s, 405, ReplyError (NodeError ''method not allowed''))
           else case body of
             Inl e \<Rightarrow> (s, 400, ReplyError (NodeError e))
           | Inr intent \<Rightarrow>
               (case RegisterDeliveryIntent disk (ns_intents s) intent of
                  (f, Inl e) \<Rightarrow> (s\<lparr>ns_intents := f\<rparr>, 400, ReplyError e)
                | (f, Inr stored) \<Rightarrow> (s\<lparr>ns_intents := f\<rparr>, 200, ReplyIntent stored)))
      | OtherIntents \<Rightarrow> (s, 405, ReplyError (NodeError ''method not allowed''))
      | OtherPath \<Rightarrow> (s, 404, ReplyNone)
      | QueueClaim body \<Rightarrow> post_handler meth (\<lambda>n. handleQueueDepositClaim env disk n body) s
      | InitiateTransfer body \<Rightarrow> post_handler meth (\<lambda>n. handleInitiateIBCTransfer disk n body) s
      | SeedAssets body \<Rightarrow> post_handler meth (\<lambda>n. handleSeedBridgeAssets disk n body) s
      | SetProfile body \<Rightarrow> post_handler meth (\<lambda>n. handleSetRouteProfile disk n body) s)"

end
