(* ===== verification/NodeQuery.thy ===== *)
theory NodeQuery
  imports NodeHttp
begin

text \<open>
  The queries of a node: \<^verbatim>\<open>Info\<close> and \<^verbatim>\<open>Query\<close> of \<^verbatim>\<open>networked/abci.go\<close>, and the client's side of them in \<^verbatim>\<open>query.go\<close> and
  \<^verbatim>\<open>submission.go\<close>. A query is its path with the data as they decode; an answer is a value before its JSON encoding.
\<close>

section \<open>Views\<close>

record SummaryView =
  su_AppName :: string
  su_Modules :: "string list"
  su_Assets :: nat
  su_Limits :: nat
  su_PausedFlows :: nat
  su_CurrentHeight :: u64
  su_Withdrawals :: nat
  su_SupplyByDenom :: "(string, string) gomap"

record TransferView =
  tv_TransferID :: string
  tv_AssetID :: string
  tv_Amount :: string
  tv_Receiver :: string
  tv_DestinationChainID :: string
  tv_ChannelID :: string
  tv_DestinationDenom :: string
  tv_TimeoutHeight :: u64
  tv_Memo :: string
  tv_Status :: string
  tv_FailureReason :: string

definition transfer_view :: "TransferRecord \<Rightarrow> TransferView" where
  "transfer_view t =
     \<lparr>tv_TransferID = tr_TransferID t, tv_AssetID = tr_AssetID t, tv_Amount = show_int (tr_Amount t), tv_Receiver = tr_Receiver t,
      tv_DestinationChainID = tr_DestinationChainID t, tv_ChannelID = tr_ChannelID t, tv_DestinationDenom = tr_DestinationDenom t,
      tv_TimeoutHeight = tr_TimeoutHeight t, tv_Memo = tr_Memo t, tv_Status = tr_Status t, tv_FailureReason = tr_FailureReason t\<rparr>"

definition transferViewsFromRecords :: "TransferRecord list \<Rightarrow> TransferView list" where
  "transferViewsFromRecords transfers = map transfer_view transfers"

definition summaryViewFromApp :: "App \<Rightarrow> SummaryView" where
  "summaryViewFromApp app =
     (let bridgeState = bridge_ExportState (app_bridge app) in
      \<lparr>su_AppName = cf_AppName (app_Config app), su_Modules = app_ModuleNames app,
       su_Assets = length (registry_ExportAssets (bk_registry (app_bridge app))),
       su_Limits = length (limits_ExportLimits (bk_limits (app_bridge app))),
       su_PausedFlows = length (pauser_ExportPausedFlows (bk_pauser (app_bridge app))),
       su_CurrentHeight = bst_CurrentHeight bridgeState, su_Withdrawals = length (bst_Withdrawals bridgeState),
       su_SupplyByDenom = bst_SupplyByDenom bridgeState\<rparr>)"

section \<open>The node's side\<close>

text \<open>Without an SDK chain the node describes itself; heights are read as signed numbers.\<close>

record ResponseInfo =
  ri_Data :: string
  ri_Version :: string
  ri_AppVersion :: nat
  ri_LastBlockHeight :: int
  ri_LastBlockAppHash :: bytes

definition node_Info :: "('pk, 'sk, 'c) NodeEnv \<Rightarrow> 'c Node \<Rightarrow> ResponseInfo" where
  "node_Info env n =
     \<lparr>ri_Data = cf_AppName (app_Config (nd_app n)), ri_Version = ''aegislink-demo-abci'', ri_AppVersion = 1,
      ri_LastBlockHeight = sint (st_CurrentHeight (node_Status env n)), ri_LastBlockAppHash = nd_appHash n\<rparr>"

datatype NodeQuery =
    QueryStatus | QuerySummary | QueryBalancesOf string | QueryTransfersAll
  | QueryWithdrawalsIn "(string + u64 \<times> u64) option"
  | QueryClaimOf string

datatype QueryValue =
    StatusValue AppStatus | SummaryValue SummaryView | BalancesValue "BalanceRecord list" | TransfersValue "TransferView list"
  | WithdrawalsValue "WithdrawalRecord list" | ClaimValue ClaimRecordSnapshot

record ResponseQuery =
  rq_Code :: nat
  rq_Log :: "node_error option"
  rq_Height :: int
  rq_Value :: "QueryValue option"

definition query_failed :: "int \<Rightarrow> node_error \<Rightarrow> ResponseQuery" where
  "query_failed height e = \<lparr>rq_Code = 1, rq_Log = Some e, rq_Height = height, rq_Value = None\<rparr>"

definition query_answer :: "int \<Rightarrow> QueryValue \<Rightarrow> ResponseQuery" where
  "query_answer height v = \<lparr>rq_Code = 0, rq_Log = None, rq_Height = height, rq_Value = Some v\<rparr>"

definition node_Query :: "('pk, 'sk, 'c) NodeEnv \<Rightarrow> 'c Node \<Rightarrow> NodeQuery \<Rightarrow> ResponseQuery" where
  "node_Query env n req =
     (let status = node_Status env n; height = sint (st_CurrentHeight status) in
      case req of
        QueryStatus \<Rightarrow> query_answer height (StatusValue status)
      | QuerySummary \<Rightarrow> query_answer height (SummaryValue (summaryViewFromApp (nd_app n)))
      | QueryBalancesOf data \<Rightarrow>
          let address = TrimSpace data in
          if address = '''' then query_failed height (NodeError ''missing balance query address'')
          else (case app_WalletBalances (ne_bech32 env) (nd_app n) address of
              Inl e \<Rightarrow> query_failed height (NodeBankError e)
            | Inr balances \<Rightarrow> query_answer height (BalancesValue balances))
      | QueryTransfersAll \<Rightarrow>
          query_answer height (TransfersValue (transferViewsFromRecords (sort_key tr_TransferID (app_Transfers (nd_app n)))))
      | QueryWithdrawalsIn data \<Rightarrow>
          (case data of
             Some (Inl e) \<Rightarrow> query_failed height (NodeError ''decode withdrawals query'')
           | Some (Inr (fromHeight, toHeight)) \<Rightarrow> query_answer height (WithdrawalsValue (app_Withdrawals (nd_app n) fromHeight toHeight))
           | None \<Rightarrow> query_answer height (WithdrawalsValue (app_Withdrawals (nd_app n) 0 0)))
      | QueryClaimOf data \<Rightarrow>
          let message = TrimSpace data in
          if message = '''' then query_failed height (NodeError ''missing claim query message id'')
          else (case query_GetClaim (nd_app n) message of
              None \<Rightarrow> query_failed height (NodeError ''claim not found'')
            | Some claim \<Rightarrow> query_answer height (ClaimValue claim)))"

section \<open>The client's side\<close>

text \<open>A query over RPC: the call fails, or it brings an answer.\<close>

definition abciQueryJSON :: "string + ResponseQuery \<Rightarrow> node_error + QueryValue option" where
  "abciQueryJSON reply =
     (case reply of
        Inl e \<Rightarrow> Inl (NodeError e)
      | Inr resp \<Rightarrow>
          if rq_Code resp \<noteq> 0 then Inl (case rq_Log resp of Some e \<Rightarrow> e | None \<Rightarrow> NodeError ''abci query failed'')
          else Inr (rq_Value resp))"

definition QueryClaim :: "string + ResponseQuery \<Rightarrow> node_error + ClaimRecordSnapshot option" where
  "QueryClaim reply =
     (case abciQueryJSON reply of
        Inl e \<Rightarrow> if e = NodeError ''claim not found'' then Inr None else Inl e
      | Inr (Some (ClaimValue claim)) \<Rightarrow> Inr (Some claim)
      | Inr _ \<Rightarrow> Inl (NodeError ''decode claim''))"

text \<open>The wait for a queued claim: each poll gets its reply, and after the last one the time is over.\<close>

fun await_claim :: "(string + ResponseQuery) list \<Rightarrow> node_error + ClaimResult" where
  "await_claim [] = Inl (NodeError ''timed out waiting for processed claim'')"
| "await_claim (reply # replies) =
     (case QueryClaim reply of
        Inl e \<Rightarrow> Inl e
      | Inr None \<Rightarrow> await_claim replies
      | Inr (Some claim) \<Rightarrow>
          (case SetString10 (cs_Amount claim) of
             None \<Rightarrow> Inl (NodeError ''invalid processed claim amount'')
           | Some amount \<Rightarrow>
               Inr \<lparr>res_Status = cs_Status claim, res_MessageID = cs_MessageID claim, res_Denom = cs_Denom claim, res_Amount = Some amount\<rparr>))"

end
