(* ===== verification/AutoDelivery.thy ===== *)
theory AutoDelivery
  imports NodeQuery RouteLife RelayConfig
begin

text \<open>
  Auto delivery: the coordinator that takes each delivery intent from its deposit to the destination
  (\<^verbatim>\<open>relayer/internal/autodelivery/coordinator.go\<close>), what its four interfaces do to a node (\<^verbatim>\<open>runtime.go\<close>, and the calls in
  \<^verbatim>\<open>networked/submission.go\<close> and \<^verbatim>\<open>delivery_intent.go\<close>), and its part in \<^verbatim>\<open>relayer/cmd/public-bridge-relayer/main.go\<close>.
\<close>

section \<open>The coordinator\<close>

record Intent =
  it_SourceTxHash :: string
  it_Sender :: string
  it_RouteID :: string
  it_AssetID :: string
  it_Amount :: string
  it_Receiver :: string

record BridgeStatus =
  bs_Status :: string
  bs_ChannelID :: string

record SubmittedTransfer =
  sm_TransferID :: string
  sm_ChannelID :: string
  sm_Status :: string

record AutoSummary =
  au_IntentsObserved :: nat
  au_IntentsWaiting :: nat
  au_TransfersInitiated :: nat
  au_FlushesTriggered :: nat
  au_CompletedDeliveries :: nat
  au_FailedDeliveries :: nat

definition zeroAutoSummary :: AutoSummary where
  "zeroAutoSummary =
     \<lparr>au_IntentsObserved = 0, au_IntentsWaiting = 0, au_TransfersInitiated = 0, au_FlushesTriggered = 0, au_CompletedDeliveries = 0,
      au_FailedDeliveries = 0\<rparr>"

text \<open>The four interfaces, on a world that they change.\<close>

record 'w AutoCoordinator =
  ac_PendingIntents :: "'w \<Rightarrow> 'w \<times> (relay_error + Intent list)"
  ac_QueryStatus :: "'w \<Rightarrow> string \<Rightarrow> 'w \<times> (relay_error + BridgeStatus)"
  ac_InitiateTransfer :: "'w \<Rightarrow> Intent \<Rightarrow> 'w \<times> (relay_error + SubmittedTransfer)"
  ac_Flush :: "'w \<Rightarrow> string \<Rightarrow> string \<Rightarrow> 'w \<times> relay_error option"

definition auto_flush :: "'w AutoCoordinator \<Rightarrow> string \<Rightarrow> string \<Rightarrow> 'w \<Rightarrow> AutoSummary \<Rightarrow> 'w \<times> AutoSummary \<times> relay_error option" where
  "auto_flush c routeName channelID w summary =
     (case ac_Flush c w routeName channelID of
        (w1, Some e) \<Rightarrow> (w1, summary, Some e)
      | (w1, None) \<Rightarrow> (w1, summary\<lparr>au_FlushesTriggered := au_FlushesTriggered summary + 1\<rparr>, None))"

text \<open>What the coordinator does with one intent.\<close>

definition auto_intent :: "'w AutoCoordinator \<Rightarrow> Intent \<Rightarrow> 'w \<Rightarrow> AutoSummary \<Rightarrow> 'w \<times> AutoSummary \<times> relay_error option" where
  "auto_intent c intent w summary =
     (case ac_QueryStatus c w (it_SourceTxHash intent) of
        (w1, Inl e) \<Rightarrow> (w1, summary, Some e)
      | (w1, Inr status) \<Rightarrow>
          let waiting = summary\<lparr>au_IntentsWaiting := au_IntentsWaiting summary + 1\<rparr>; state = TrimSpace (bs_Status status) in
          if state \<in> {'''', ''deposit_submitted'', ''sepolia_confirming''} then (w1, waiting, None)
          else if state = ''aegislink_processing''
          then (case ac_InitiateTransfer c w1 intent of
              (w2, Inl e) \<Rightarrow> (w2, summary, Some e)
            | (w2, Inr transfer) \<Rightarrow>
                let summary1 = summary\<lparr>au_TransfersInitiated := au_TransfersInitiated summary + 1\<rparr> in
                if TrimSpace (sm_ChannelID transfer) = '''' then (w2, summary1, None)
                else auto_flush c (it_RouteID intent) (sm_ChannelID transfer) w2 summary1)
          else if state = ''osmosis_pending''
          then (let channelID = TrimSpace (bs_ChannelID status) in
                if channelID = '''' then (w1, waiting, None) else auto_flush c (it_RouteID intent) channelID w1 summary)
          else if state = ''completed'' then (w1, summary\<lparr>au_CompletedDeliveries := au_CompletedDeliveries summary + 1\<rparr>, None)
          else if state = ''failed'' then (w1, summary\<lparr>au_FailedDeliveries := au_FailedDeliveries summary + 1\<rparr>, None)
          else (w1, waiting, None))"

fun auto_loop :: "'w AutoCoordinator \<Rightarrow> Intent list \<Rightarrow> 'w \<Rightarrow> AutoSummary \<Rightarrow> 'w \<times> AutoSummary \<times> relay_error option" where
  "auto_loop c [] w summary = (w, summary, None)"
| "auto_loop c (intent # intents) w summary =
     (case auto_intent c intent w summary of
        (w1, summary1, Some e) \<Rightarrow> (w1, summary1, Some e)
      | (w1, summary1, None) \<Rightarrow> auto_loop c intents w1 summary1)"

definition auto_RunOnce :: "'w AutoCoordinator \<Rightarrow> 'w \<Rightarrow> 'w \<times> AutoSummary \<times> relay_error option" where
  "auto_RunOnce c w =
     (case ac_PendingIntents c w of
        (w1, Inl e) \<Rightarrow> (w1, zeroAutoSummary, Some e)
      | (w1, Inr intents) \<Rightarrow> auto_loop c intents w1 (zeroAutoSummary\<lparr>au_IntentsObserved := length intents\<rparr>))"

section \<open>Its interfaces on a node\<close>

text \<open>The node, the height of the consensus engine, the outcomes of the coming calls (after them calls are delivered), and the
  channels that the relayer program has flushed.\<close>

record 'c AutoWorld =
  aw_server :: "'c NodeServer"
  aw_height :: int
  aw_outcomes :: "call_outcome list"
  aw_flushed :: "(string \<times> string) list"

definition auto_remote :: "('c AutoWorld \<Rightarrow> 'c AutoWorld \<times> (relay_error + 'a)) \<Rightarrow> 'c AutoWorld \<Rightarrow> 'c AutoWorld \<times> (relay_error + 'a)" where
  "auto_remote call w =
     (case aw_outcomes w of
        [] \<Rightarrow> call w
      | Delivered # rest \<Rightarrow> call (w\<lparr>aw_outcomes := rest\<rparr>)
      | NotSent e # rest \<Rightarrow> (w\<lparr>aw_outcomes := rest\<rparr>, Inl e)
      | ReplyLost e # rest \<Rightarrow> (fst (call (w\<lparr>aw_outcomes := rest\<rparr>)), Inl e))"

text \<open>A request to the node over HTTP; \<open>got\<close> reads the body of a reply with status 200.\<close>

definition node_request ::
    "('pk, 'sk, 'c) NodeEnv \<Rightarrow> (DestinationTxLookup \<Rightarrow> string + DestinationTxResult option) option \<Rightarrow> http_method \<Rightarrow> NodeRequest
     \<Rightarrow> (NodeReply \<Rightarrow> 'a option) \<Rightarrow> 'c AutoWorld \<Rightarrow> 'c AutoWorld \<times> (relay_error + 'a)" where
  "node_request env resolver meth request got =
     auto_remote (\<lambda>w. case serveHTTP env resolver Written (aw_server w) meth request of
       (s, status, reply) \<Rightarrow>
         (w\<lparr>aw_server := s\<rparr>,
          if status \<noteq> 200 then Inl (RelayError ''query failed'')
          else case got reply of None \<Rightarrow> Inl (RelayError ''decode reply'') | Some v \<Rightarrow> Inr v))"

definition QueryDeliveryIntents ::
    "('pk, 'sk, 'c) NodeEnv \<Rightarrow> 'c AutoWorld \<Rightarrow> 'c AutoWorld \<times> (relay_error + DeliveryIntent list)" where
  "QueryDeliveryIntents env = node_request env None GET ListIntents (\<lambda>r. case r of ReplyIntents is \<Rightarrow> Some is | _ \<Rightarrow> None)"

definition QueryBridgeSession ::
    "('pk, 'sk, 'c) NodeEnv \<Rightarrow> (DestinationTxLookup \<Rightarrow> string + DestinationTxResult option) option \<Rightarrow> 'c AutoWorld \<Rightarrow> string
     \<Rightarrow> 'c AutoWorld \<times> (relay_error + BridgeSessionView)" where
  "QueryBridgeSession env resolver w sourceTxHash =
     node_request env resolver GET (SessionRequest (TrimSpace sourceTxHash)) (\<lambda>r. case r of ReplySession v \<Rightarrow> Some v | _ \<Rightarrow> None) w"

definition RegisterDeliveryIntentOverHTTP ::
    "('pk, 'sk, 'c) NodeEnv \<Rightarrow> 'c AutoWorld \<Rightarrow> DeliveryIntent \<Rightarrow> 'c AutoWorld \<times> (relay_error + DeliveryIntent)" where
  "RegisterDeliveryIntentOverHTTP env w intent =
     (case normalizeDeliveryIntent intent of
        Inl e \<Rightarrow> (w, Inl (RelayError ''invalid delivery intent''))
      | Inr i \<Rightarrow> node_request env None POST (PostIntent (Inr i)) (\<lambda>r. case r of ReplyIntent stored \<Rightarrow> Some stored | _ \<Rightarrow> None) w)"

text \<open>The consensus engine checks a transaction, puts it alone into its next block and commits; other blocks come before and after.\<close>

definition next_block :: "('pk, 'sk, 'c) NodeEnv \<Rightarrow> NodeTx \<Rightarrow> 'c AutoWorld \<Rightarrow> 'c AutoWorld \<times> (relay_error + ExecTxResult)" where
  "next_block env tx w =
     (case node_CheckTx env (ns_node (aw_server w)) tx of
        (n1, code) \<Rightarrow>
          let w1 = w\<lparr>aw_server := (aw_server w)\<lparr>ns_node := n1\<rparr>\<rparr> in
          if code \<noteq> 0 then (w1, Inl (RelayError ''check tx failed''))
          else case node_FinalizeBlock env n1 (aw_height w + 1) [tx] of
            None \<Rightarrow> (w1, Inl (RelayError ''no answer''))
          | Some (n2, Inl e) \<Rightarrow> (w1\<lparr>aw_server := (aw_server w)\<lparr>ns_node := n2\<rparr>\<rparr>, Inl (RelayError ''finalize block failed''))
          | Some (n2, Inr resp) \<Rightarrow>
              (w1\<lparr>aw_server := (aw_server w)\<lparr>ns_node := fst (node_Commit env Written n2)\<rparr>, aw_height := aw_height w + 1\<rparr>,
               case rf_TxResults resp of [] \<Rightarrow> Inl (RelayError ''no result'') | result # _ \<Rightarrow> Inr result))"

definition broadcastTxJSON :: "('pk, 'sk, 'c) NodeEnv \<Rightarrow> NodeTx \<Rightarrow> 'c AutoWorld \<Rightarrow> 'c AutoWorld \<times> (relay_error + TxData)" where
  "broadcastTxJSON env tx w =
     (case auto_remote (next_block env tx) w of
        (w1, Inl e) \<Rightarrow> (w1, Inl e)
      | (w1, Inr (ExecFailed e)) \<Rightarrow> (w1, Inl (RelayError ''deliver tx failed''))
      | (w1, Inr (ExecSDK _ _)) \<Rightarrow> (w1, Inl (RelayError ''decode tx result data''))
      | (w1, Inr (ExecOK result _)) \<Rightarrow> (w1, Inr result))"

definition SubmitInitiateIBCTransfer ::
    "('pk, 'sk, 'c) NodeEnv \<Rightarrow> 'c AutoWorld \<Rightarrow> InitiateIBCTransferPayload \<Rightarrow> 'c AutoWorld \<times> (relay_error + TransferView)" where
  "SubmitInitiateIBCTransfer env w payload =
     (case encodeInitiateIBCTransferTx payload of
        Inl e \<Rightarrow> (w, Inl (RelayError ''invalid transfer payload''))
      | Inr tx \<Rightarrow>
          (case broadcastTxJSON env tx w of
             (w1, Inl e) \<Rightarrow> (w1, Inl e)
           | (w1, Inr (TransferResult t)) \<Rightarrow> (w1, Inr (transfer_view t))
           | (w1, Inr _) \<Rightarrow> (w1, Inl (RelayError ''decode tx result data''))))"

definition autoDeliveryMemo :: "string \<Rightarrow> string" where
  "autoDeliveryMemo sourceTxHash0 =
     (let sourceTxHash = TrimSpace sourceTxHash0 in if sourceTxHash = '''' then ''bridge:auto'' else ''bridge:'' @ sourceTxHash)"

definition intent_of :: "DeliveryIntent \<Rightarrow> Intent" where
  "intent_of i =
     \<lparr>it_SourceTxHash = di_SourceTxHash i, it_Sender = di_Sender i, it_RouteID = di_RouteID i, it_AssetID = di_AssetID i,
      it_Amount = di_Amount i, it_Receiver = di_Receiver i\<rparr>"

definition networked_PendingIntents :: "('pk, 'sk, 'c) NodeEnv \<Rightarrow> 'c AutoWorld \<Rightarrow> 'c AutoWorld \<times> (relay_error + Intent list)" where
  "networked_PendingIntents env w =
     (case QueryDeliveryIntents env w of (w1, Inl e) \<Rightarrow> (w1, Inl e) | (w1, Inr intents) \<Rightarrow> (w1, Inr (map intent_of intents)))"

definition networked_QueryStatus ::
    "('pk, 'sk, 'c) NodeEnv \<Rightarrow> (DestinationTxLookup \<Rightarrow> string + DestinationTxResult option) option \<Rightarrow> 'c AutoWorld \<Rightarrow> string
     \<Rightarrow> 'c AutoWorld \<times> (relay_error + BridgeStatus)" where
  "networked_QueryStatus env resolver w sourceTxHash =
     (case QueryBridgeSession env resolver w sourceTxHash of
        (w1, Inl e) \<Rightarrow> (w1, Inl e)
      | (w1, Inr view) \<Rightarrow> (w1, Inr \<lparr>bs_Status = sv_Status view, bs_ChannelID = sv_ChannelID view\<rparr>))"

definition transfer_payload :: "u64 \<Rightarrow> Intent \<Rightarrow> InitiateIBCTransferPayload" where
  "transfer_payload timeoutHeight intent =
     \<lparr>ip_Sender = it_Sender intent, ip_RouteID = it_RouteID intent, ip_AssetID = it_AssetID intent, ip_Amount = it_Amount intent,
      ip_Receiver = it_Receiver intent, ip_TimeoutHeight = timeoutHeight, ip_Memo = autoDeliveryMemo (it_SourceTxHash intent)\<rparr>"

definition recordIntentTransfer ::
    "('pk, 'sk, 'c) NodeEnv \<Rightarrow> 'c AutoWorld \<Rightarrow> Intent \<Rightarrow> TransferView \<Rightarrow> 'c AutoWorld \<times> (relay_error + DeliveryIntent)" where
  "recordIntentTransfer env w intent transfer =
     RegisterDeliveryIntentOverHTTP env w
       \<lparr>di_SourceTxHash = it_SourceTxHash intent, di_Sender = it_Sender intent, di_RouteID = it_RouteID intent,
        di_AssetID = it_AssetID intent, di_Amount = it_Amount intent, di_Receiver = it_Receiver intent,
        di_TransferID = tv_TransferID transfer, di_ChannelID = tv_ChannelID transfer\<rparr>"

definition networked_InitiateTransfer ::
    "('pk, 'sk, 'c) NodeEnv \<Rightarrow> u64 \<Rightarrow> 'c AutoWorld \<Rightarrow> Intent \<Rightarrow> 'c AutoWorld \<times> (relay_error + SubmittedTransfer)" where
  "networked_InitiateTransfer env timeoutHeight w intent =
     (case SubmitInitiateIBCTransfer env w (transfer_payload timeoutHeight intent) of
        (w1, Inl e) \<Rightarrow> (w1, Inl e)
      | (w1, Inr transfer) \<Rightarrow>
      case recordIntentTransfer env w1 intent transfer of
        (w2, Inl e) \<Rightarrow> (w2, Inl e)
      | (w2, Inr _) \<Rightarrow>
          (w2, Inr \<lparr>sm_TransferID = tv_TransferID transfer, sm_ChannelID = tv_ChannelID transfer, sm_Status = tv_Status transfer\<rparr>))"

text \<open>The program that flushes a channel.\<close>

record RlyFlusher =
  rf_Command :: string
  rf_PathByRoute :: "(string, string) gomap"
  rf_DefaultPath :: string
  rf_Home :: string

definition resolvePath :: "RlyFlusher \<Rightarrow> string \<Rightarrow> string" where
  "resolvePath f routeName =
     (if routeName \<noteq> ''''
      then case gomap_get (rf_PathByRoute f) routeName of
          Some path \<Rightarrow> if TrimSpace path \<noteq> '''' then TrimSpace path else TrimSpace (rf_DefaultPath f)
        | None \<Rightarrow> TrimSpace (rf_DefaultPath f)
      else TrimSpace (rf_DefaultPath f))"

definition rly_Flush :: "RlyFlusher \<Rightarrow> 'c AutoWorld \<Rightarrow> string \<Rightarrow> string \<Rightarrow> 'c AutoWorld \<times> relay_error option" where
  "rly_Flush f w routeName channelID0 =
     (let pathName = resolvePath f routeName; channelID = TrimSpace channelID0 in
      if pathName = '''' then (w, Some (RelayError ''missing relayer path for auto delivery flush''))
      else if TrimSpace (rf_Home f) = '''' then (w, Some (RelayError ''missing relayer home for auto delivery flush''))
      else if channelID = '''' then (w, Some (RelayError ''missing channel id for auto delivery flush''))
      else as_error (auto_remote (\<lambda>w. (w\<lparr>aw_flushed := aw_flushed w @ [(pathName, channelID)]\<rparr>, Inr ())) w))"

definition networked_coordinator ::
    "('pk, 'sk, 'c) NodeEnv \<Rightarrow> (DestinationTxLookup \<Rightarrow> string + DestinationTxResult option) option \<Rightarrow> u64 \<Rightarrow> RlyFlusher
     \<Rightarrow> 'c AutoWorld AutoCoordinator" where
  "networked_coordinator env resolver timeoutHeight flusher =
     \<lparr>ac_PendingIntents = networked_PendingIntents env, ac_QueryStatus = networked_QueryStatus env resolver,
      ac_InitiateTransfer = networked_InitiateTransfer env timeoutHeight, ac_Flush = rly_Flush flusher\<rparr>"

end
