(* ===== verification/PublicBridge.thy ===== *)
theory PublicBridge
  imports AutoDelivery
begin

text \<open>
  The public bridge relayer (\<^verbatim>\<open>relayer/cmd/public-bridge-relayer/main.go\<close>): its configuration from the environment, and a run that
  lets auto delivery follow the bridge.
\<close>

section \<open>Configuration\<close>

record publicBridgeConfig =
  pb_Loop :: bool
  pb_PollInterval :: int
  pb_FailureBackoff :: int
  pb_MaxRuns :: int
  pb_SubmissionRetryLimit :: int
  pb_EVMConfirmations :: u64
  pb_CosmosConfirmations :: u64
  pb_CosmosChainID :: string
  pb_EVMRPCURL :: string
  pb_EVMVerifierAddress :: string
  pb_EVMGatewayAddress :: string
  pb_EVMReleaseSignerPrivateKey :: string
  pb_EVMReleaseSignerAddress :: string
  pb_ReplayStorePath :: string
  pb_EVMStatePath :: string
  pb_AttestationStatePath :: string
  pb_CosmosStatePath :: string
  pb_CosmosOutboxPath :: string
  pb_EVMOutboxPath :: string
  pb_AegisLinkCommand :: string
  pb_AegisLinkCommandArgs :: "string list"
  pb_AegisLinkStatePath :: string
  pb_AutoDeliveryEnabled :: bool
  pb_AutoDeliveryRelayerCommand :: string
  pb_AutoDeliveryRelayerHome :: string
  pb_AutoDeliveryPathName :: string
  pb_AutoDeliveryPathByRoute :: "(string, string) gomap"
  pb_AutoDeliveryTimeoutHeight :: u64
  pb_AttestationThreshold :: u32
  pb_AttestationSignerSetVersion :: u64
  pb_AttestationSignerKeys :: "string list"

definition autoDeliveryTimeoutHeightBuffer :: u64 where
  "autoDeliveryTimeoutHeightBuffer = 1000"

definition commandArgsContainFlag :: "string list \<Rightarrow> string \<Rightarrow> bool" where
  "commandArgsContainFlag args flagName \<longleftrightarrow> TrimSpace flagName \<noteq> '''' \<and> list_ex (\<lambda>arg. TrimSpace arg = TrimSpace flagName) args"

definition metricsOutputEnabled :: "environment \<Rightarrow> bool" where
  "metricsOutputEnabled env =
     (let value = TrimSpace (env ''AEGISLINK_PRINT_METRICS'') in value = ''1'' \<or> EqualFold value ''true'')"

definition autoDeliveryEnabled :: "environment \<Rightarrow> bool" where
  "autoDeliveryEnabled env =
     (let value = TrimSpace (env ''AEGISLINK_RELAYER_AUTODELIVERY_ENABLED'') in
      if value \<noteq> '''' then value = ''1'' \<or> EqualFold value ''true''
      else TrimSpace (env ''AEGISLINK_RELAYER_RLY_HOME'') \<noteq> '''')"

definition parseConfiguredAutoDeliveryTimeoutHeight :: "string \<Rightarrow> u64 option" where
  "parseConfiguredAutoDeliveryTimeoutHeight value =
     (if value = '''' then None
      else case ParseUint64 (TrimSpace value) of None \<Rightarrow> None | Some parsed \<Rightarrow> if parsed = 0 then None else Some parsed)"

text \<open>The latest height of the destination: \<open>get\<close> is the HTTP call, which fails or brings the height as the body has it.\<close>

definition fetchLatestLCDHeight :: "(string \<Rightarrow> string + string) \<Rightarrow> string \<Rightarrow> string + u64" where
  "fetchLatestLCDHeight get url =
     (let baseURL = rev (dropWhile (\<lambda>c. c = CHR ''/'') (rev (TrimSpace url))) in
      if baseURL = '''' then Inl ''missing destination lcd base url''
      else case get (baseURL @ ''/cosmos/base/tendermint/v1beta1/blocks/latest'') of
        Inl e \<Rightarrow> Inl e
      | Inr h \<Rightarrow>
          (case ParseUint64 (TrimSpace h) of
             None \<Rightarrow> Inl ''invalid destination lcd latest height''
           | Some height \<Rightarrow> if height = 0 then Inl ''invalid destination lcd latest height'' else Inr height))"

definition loadAutoDeliveryTimeoutHeight :: "(string \<Rightarrow> string + string) \<Rightarrow> environment \<Rightarrow> u64" where
  "loadAutoDeliveryTimeoutHeight get env =
     (let configured = parseConfiguredAutoDeliveryTimeoutHeight (TrimSpace (env ''AEGISLINK_RELAYER_IBC_TIMEOUT_HEIGHT''));
          url = TrimSpace (env ''AEGISLINK_RELAYER_DESTINATION_LCD_BASE_URL'');
          otherwise = (case configured of Some h \<Rightarrow> h | None \<Rightarrow> 120)
      in if url = '''' then otherwise
         else case fetchLatestLCDHeight get url of
           Inl e \<Rightarrow> otherwise
         | Inr latest \<Rightarrow>
             let minimumSafeHeight = latest + autoDeliveryTimeoutHeightBuffer in
             (case configured of
                None \<Rightarrow> minimumSafeHeight
              | Some h \<Rightarrow> if h < minimumSafeHeight then minimumSafeHeight else h))"

text \<open>A list of entries \<^verbatim>\<open>route:path\<close>; the last entry of a route counts.\<close>

fun add_paths :: "string list \<Rightarrow> (string, string) gomap \<Rightarrow> (string, string) gomap" where
  "add_paths [] result = result"
| "add_paths (entry0 # entries) result =
     (let entry = TrimSpace entry0 in
      if entry = '''' then add_paths entries result
      else case Cut entry (CHR '':'') of (route, path, ok) \<Rightarrow>
          if ok \<and> TrimSpace route \<noteq> '''' \<and> TrimSpace path \<noteq> '''' then add_paths entries (gomap_set (TrimSpace route) (TrimSpace path) result)
          else add_paths entries result)"

definition parseRlyPathMap :: "string \<Rightarrow> (string, string) gomap" where
  "parseRlyPathMap raw = add_paths (Split (TrimSpace raw) (CHR '','')) []"

definition validatePublicBridgeConfig :: "publicBridgeConfig \<Rightarrow> relay_error option" where
  "validatePublicBridgeConfig cfg =
     (if TrimSpace (pb_EVMRPCURL cfg) = '''' then Some (RelayError ''missing required env: AEGISLINK_RELAYER_EVM_RPC_URL'')
      else if TrimSpace (pb_EVMVerifierAddress cfg) = '''' then Some (RelayError ''missing required env: AEGISLINK_RELAYER_EVM_VERIFIER_ADDRESS'')
      else if TrimSpace (pb_EVMGatewayAddress cfg) = '''' then Some (RelayError ''missing required env: AEGISLINK_RELAYER_EVM_GATEWAY_ADDRESS'')
      else if TrimSpace (pb_AegisLinkCommand cfg) = '''' then Some (RelayError ''missing required env: AEGISLINK_RELAYER_AEGISLINK_CMD'')
      else if pb_AegisLinkCommandArgs cfg = [] then Some (RelayError ''missing required env: AEGISLINK_RELAYER_AEGISLINK_CMD_ARGS'')
      else if pb_AttestationThreshold cfg = 0 then Some (RelayError ''attestation threshold must be greater than zero'')
      else if length (pb_AttestationSignerKeys cfg) < unat (pb_AttestationThreshold cfg)
      then Some (RelayError ''configured attestation signer keys do not satisfy threshold'')
      else None)"

definition buildPublicBridgeConfig :: "(string \<Rightarrow> string + string) \<Rightarrow> environment \<Rightarrow> RelayConfig \<Rightarrow> relay_error + publicBridgeConfig" where
  "buildPublicBridgeConfig get env cfg =
     (let command = TrimSpace (env ''AEGISLINK_RELAYER_RLY_CMD'');
          public =
            \<lparr>pb_Loop = rc_Loop cfg, pb_PollInterval = rc_PollInterval cfg, pb_FailureBackoff = rc_FailureBackoff cfg,
             pb_MaxRuns = rc_MaxRuns cfg, pb_SubmissionRetryLimit = rc_SubmissionRetryLimit cfg,
             pb_EVMConfirmations = rc_EVMConfirmations cfg, pb_CosmosConfirmations = rc_CosmosConfirmations cfg,
             pb_CosmosChainID = rc_CosmosChainID cfg, pb_EVMRPCURL = TrimSpace (rc_EVMRPCURL cfg),
             pb_EVMVerifierAddress = TrimSpace (rc_EVMVerifierAddress cfg), pb_EVMGatewayAddress = TrimSpace (rc_EVMGatewayAddress cfg),
             pb_EVMReleaseSignerPrivateKey = TrimSpace (rc_EVMReleaseSignerPrivateKey cfg),
             pb_EVMReleaseSignerAddress = TrimSpace (rc_EVMReleaseSignerAddress cfg), pb_ReplayStorePath = TrimSpace (rc_ReplayStorePath cfg),
             pb_EVMStatePath = TrimSpace (rc_EVMStatePath cfg), pb_AttestationStatePath = TrimSpace (rc_AttestationStatePath cfg),
             pb_CosmosStatePath = TrimSpace (rc_CosmosStatePath cfg), pb_CosmosOutboxPath = TrimSpace (rc_CosmosOutboxPath cfg),
             pb_EVMOutboxPath = TrimSpace (rc_EVMOutboxPath cfg), pb_AegisLinkCommand = TrimSpace (rc_AegisLinkCommand cfg),
             pb_AegisLinkCommandArgs = rc_AegisLinkCommandArgs cfg,
             pb_AegisLinkStatePath =
               (if commandArgsContainFlag (rc_AegisLinkCommandArgs cfg) ''--home'' then '''' else TrimSpace (rc_AegisLinkStatePath cfg)),
             pb_AutoDeliveryEnabled = autoDeliveryEnabled env,
             pb_AutoDeliveryRelayerCommand = (if command = '''' then ''./bin/relayer'' else command),
             pb_AutoDeliveryRelayerHome = TrimSpace (env ''AEGISLINK_RELAYER_RLY_HOME''),
             pb_AutoDeliveryPathName = TrimSpace (env ''AEGISLINK_RELAYER_RLY_PATH_NAME''),
             pb_AutoDeliveryPathByRoute = parseRlyPathMap (env ''AEGISLINK_RELAYER_RLY_PATH_MAP''),
             pb_AutoDeliveryTimeoutHeight = loadAutoDeliveryTimeoutHeight get env,
             pb_AttestationThreshold = rc_AttestationThreshold cfg, pb_AttestationSignerSetVersion = rc_AttestationSignerSetVersion cfg,
             pb_AttestationSignerKeys = rc_AttestationSignerKeys cfg\<rparr>
      in case validatePublicBridgeConfig public of Some e \<Rightarrow> Inl e | None \<Rightarrow> Inr public)"

text \<open>Where the node is, from the arguments of the chain command.\<close>

record NodeConfig =
  nc_HomeDir :: string
  nc_ReadyFile :: string

fun node_config_args :: "string list \<Rightarrow> NodeConfig \<Rightarrow> NodeConfig" where
  "node_config_args (flag # value # rest) cfg =
     (if TrimSpace flag = ''--home'' then node_config_args rest (cfg\<lparr>nc_HomeDir := TrimSpace value\<rparr>)
      else if TrimSpace flag = ''--demo-node-ready-file'' then node_config_args rest (cfg\<lparr>nc_ReadyFile := TrimSpace value\<rparr>)
      else node_config_args (value # rest) cfg)"
| "node_config_args _ cfg = cfg"

definition resolveAutoDeliveryNodeConfig :: "string list \<Rightarrow> relay_error + NodeConfig" where
  "resolveAutoDeliveryNodeConfig args =
     (let cfg = node_config_args args \<lparr>nc_HomeDir = '''', nc_ReadyFile = ''''\<rparr> in
      if TrimSpace (nc_HomeDir cfg) = '''' \<and> TrimSpace (nc_ReadyFile cfg) = ''''
      then Inl (RelayError ''autodelivery requires --home or --demo-node-ready-file'')
      else Inr cfg)"

section \<open>A run\<close>

text \<open>\<open>node\<close> is the node that a configuration names.\<close>

definition buildAutoDeliveryCoordinator ::
    "(NodeConfig \<Rightarrow> RlyFlusher \<Rightarrow> u64 \<Rightarrow> 'w AutoCoordinator) \<Rightarrow> publicBridgeConfig \<Rightarrow> relay_error + 'w AutoCoordinator option" where
  "buildAutoDeliveryCoordinator node cfg =
     (if \<not> pb_AutoDeliveryEnabled cfg then Inr None
      else case resolveAutoDeliveryNodeConfig (pb_AegisLinkCommandArgs cfg) of
        Inl e \<Rightarrow> Inl e
      | Inr nodeConfig \<Rightarrow>
          Inr (Some (node nodeConfig
            \<lparr>rf_Command = pb_AutoDeliveryRelayerCommand cfg, rf_PathByRoute = pb_AutoDeliveryPathByRoute cfg,
             rf_DefaultPath = pb_AutoDeliveryPathName cfg, rf_Home = pb_AutoDeliveryRelayerHome cfg\<rparr>
            (pb_AutoDeliveryTimeoutHeight cfg))))"

text \<open>Auto delivery runs after the bridge, and only when the bridge did not fail; its counts stand beside those of the bridge.\<close>

definition combined_RunOnceWithSummary ::
    "'w Coordinator \<Rightarrow> 'w AutoCoordinator option \<Rightarrow> 'w Relay \<Rightarrow> 'w Relay \<times> (RunSummary \<times> AutoSummary) \<times> relay_error option" where
  "combined_RunOnceWithSummary bridge auto r =
     (case pipeline_RunOnceWithSummary bridge r of
        (r1, summary, Some e) \<Rightarrow> (r1, (summary, zeroAutoSummary), Some e)
      | (r1, summary, None) \<Rightarrow>
          (case auto of
             None \<Rightarrow> (r1, (summary, zeroAutoSummary), None)
           | Some c \<Rightarrow>
               (case auto_RunOnce c (rl_world r1) of (w, autoSummary, err) \<Rightarrow> (r1\<lparr>rl_world := w\<rparr>, (summary, autoSummary), err))))"

end
