(* ===== verification/NodeLife.thy ===== *)
theory NodeLife
  imports NodeHttp
begin

text \<open>
  The books of a running node: in every state that blocks, requests and settlements lead to, the bridge supply of a denom is covered
  by the wallets together with the transfers that were started; a transfer transaction takes effect or leaves every balance alone;
  and a block of transactions always returns.
\<close>

section \<open>What has left the wallets\<close>

definition outstanding :: "App \<Rightarrow> string \<Rightarrow> int" where
  "outstanding a d = bridge_SupplyForDenom (app_bridge a) d - bank_total (app_bank a) d"

definition transfer_denom :: "RegistryKeeper \<Rightarrow> TransferRecord \<Rightarrow> string option" where
  "transfer_denom reg t = map_option (\<lambda>asset. TrimSpace (as_Denom asset)) (registry_GetAsset reg (tr_AssetID t))"

definition amount_in :: "RegistryKeeper \<Rightarrow> string \<Rightarrow> TransferRecord \<Rightarrow> int" where
  "amount_in reg d t = (if transfer_denom reg t = Some d then tr_Amount t else 0)"

text \<open>The sum of the transfers of a denom, of every status.\<close>

definition in_transfers :: "App \<Rightarrow> string \<Rightarrow> int" where
  "in_transfers a d = gomap_sum (\<lambda>_. amount_in (bk_registry (app_bridge a)) d) (ik_transfers (app_router a))"

text \<open>The 64-bit sequence of the transfers has not wrapped.\<close>

definition unwrapped :: "App \<Rightarrow> bool" where
  "unwrapped a \<longleftrightarrow> length (ik_transfers (app_router a)) < 2 ^ 64 - 1"

definition node_inv :: "App \<Rightarrow> bool" where
  "node_inv a \<longleftrightarrow>
     app_books (outstanding a) a \<and> bank_persistHook (app_bank a) = None \<and> router_inv (app_router a)
     \<and> (\<forall>d. 0 \<le> outstanding a d) \<and> (unwrapped a \<longrightarrow> (\<forall>d. outstanding a d \<le> in_transfers a d))"

lemma books_outstanding: "app_books out a \<Longrightarrow> out = outstanding a"
  by (rule ext) (simp add: app_books_def outstanding_def)

lemma node_books: "node_inv a \<Longrightarrow> app_books (outstanding a) a"
  by (simp add: node_inv_def)

lemma gomap_sum_mono: "(\<And>k v. (k, v) \<in> set m \<Longrightarrow> f k v \<le> g k v) \<Longrightarrow> gomap_sum f m \<le> gomap_sum g m"
  unfolding gomap_sum_def by (rule sum_list_mono) auto

text \<open>Once an asset is registered its denom stays; amounts are positive, so a transfer only gains a denom.\<close>

lemma in_transfers_mono:
  assumes "router_inv (app_router a)" "unwrapped a" "app_router a' = app_router a"
    "registry_extends (bk_registry (app_bridge a)) (bk_registry (app_bridge a'))"
  shows "in_transfers a d \<le> in_transfers a' d"
  unfolding in_transfers_def assms(3)
proof (rule gomap_sum_mono)
  fix k t assume "(k, t) \<in> set (ik_transfers (app_router a))"
  then have "0 < tr_Amount t" using assms(1,2) by (auto simp: router_inv_def unwrapped_def transfer_ok_def)
  moreover have "transfer_denom (bk_registry (app_bridge a)) t = Some d \<Longrightarrow> transfer_denom (bk_registry (app_bridge a')) t = Some d"
    using assms(4) unfolding transfer_denom_def registry_extends_def by fastforce
  ultimately show "amount_in (bk_registry (app_bridge a)) d t \<le> amount_in (bk_registry (app_bridge a')) d t"
    by (auto simp: amount_in_def)
qed

text \<open>An operation that keeps the books, the transfers and the denoms.\<close>

lemma node_inv_kept:
  assumes "node_inv a" "app_books (outstanding a) a'" "bank_persistHook (app_bank a') = bank_persistHook (app_bank a)"
    "app_router a' = app_router a" "registry_extends (bk_registry (app_bridge a)) (bk_registry (app_bridge a'))"
  shows "node_inv a'"
proof -
  have out: "outstanding a' = outstanding a" using books_outstanding [OF assms(2)] by simp
  have "outstanding a' d \<le> in_transfers a' d" if "unwrapped a'" for d
  proof -
    have "unwrapped a" using that assms(4) by (simp add: unwrapped_def)
    then have "outstanding a d \<le> in_transfers a d" "in_transfers a d \<le> in_transfers a' d"
      using assms(1) in_transfers_mono [of a a' d] assms(4,5) by (simp_all add: node_inv_def)
    then show ?thesis by (simp add: out)
  qed
  with assms show ?thesis unfolding node_inv_def out by simp
qed

section \<open>Operations of the application\<close>

text \<open>Submissions keep the router, the registry, the height and the hook of the bank.\<close>

definition quiet :: "App \<Rightarrow> App \<Rightarrow> bool" where
  "quiet a a' \<longleftrightarrow> app_frame a a' \<and> bk_currentHeight (app_bridge a') = bk_currentHeight (app_bridge a)
     \<and> bank_persistHook (app_bank a') = bank_persistHook (app_bank a)"

lemma quiet_trans: "quiet a b \<Longrightarrow> quiet b c \<Longrightarrow> quiet a c"
  by (auto simp: quiet_def intro: app_frame_trans)

lemma restored_quiet: "restored a a' \<Longrightarrow> quiet a a'"
  by (simp add: quiet_def restored_frame) (simp add: restored_def)

lemma credit_hook: "bank_persistHook (fst (bank_Credit k x d v)) = bank_persistHook k"
  by (simp add: bank_Credit_def Let_def split: sum.split)

lemma debit_hook: "bank_persistHook (fst (bank_Debit k x d v)) = bank_persistHook k"
  by (simp add: bank_Debit_def Let_def split: sum.split option.split)

lemma submit_quiet:
  assumes "app_books out a"
  shows "quiet a (fst (submitDepositClaimLocked cr bech32 a claim att))"
proof (cases rule: submit_cases [OF assms, of cr bech32 claim att])
  case (3 e)
  then show ?thesis by (simp add: restored_quiet)
next
  case (4 asset v k res)
  then show ?thesis
    using credit_hook [of "app_bank a" "TrimSpace (dc_Recipient claim)" "bridgeDenomForAsset asset" "Some v"]
    by (simp add: quiet_def app_frame_def)
qed (simp_all add: quiet_def app_frame_def)

lemma submit_pending_quiet: "app_books out a \<Longrightarrow> quiet a (fst (submit_pending cr bech32 ss a progress))"
proof (induction ss arbitrary: a progress)
  case (Cons s ss)
  obtain a1 res e where run: "submitDepositClaimLocked cr bech32 a (qd_Claim s) (qd_Attestation s) = (a1, res, e)"
    by (metis prod_cases3)
  have "app_books out a1" "quiet a a1"
    using app_inv_submit [OF Cons.prems, of cr bech32 "qd_Claim s" "qd_Attestation s"]
      submit_quiet [OF Cons.prems, of cr bech32 "qd_Claim s" "qd_Attestation s"] run by simp_all
  with Cons.IH [of a1] run quiet_trans show ?case by (cases e) fastforce+
qed (simp add: quiet_def app_frame_def)

lemma AdvanceBlock_quiet:
  assumes "app_books out a"
  shows "bk_currentHeight (app_bridge (fst (app_AdvanceBlock cr bech32 a))) = bk_currentHeight (app_bridge a) + 1"
    "bank_persistHook (app_bank (fst (app_AdvanceBlock cr bech32 a))) = bank_persistHook (app_bank a)"
proof -
  let ?h = "bk_currentHeight (app_bridge a) + 1"
  let ?a1 = "a\<lparr>app_bridge := bridge_SetCurrentHeight (app_bridge a) ?h, app_pending := []\<rparr>"
  have h: "bst_CurrentHeight (bridge_ExportState b) = bk_currentHeight b" for b by (simp add: bridge_ExportState_def)
  have inv: "app_books out ?a1" using assms by (simp add: app_inv_pending app_inv_height)
  have "bk_currentHeight (app_bridge ?a1) = ?h" "bank_persistHook (app_bank ?a1) = bank_persistHook (app_bank a)"
    by (simp_all add: bridge_SetCurrentHeight_def)
  with submit_pending_quiet [OF inv, of cr bech32]
  have "bk_currentHeight (app_bridge (fst (submit_pending cr bech32 ss ?a1 p))) = ?h"
    "bank_persistHook (app_bank (fst (submit_pending cr bech32 ss ?a1 p))) = bank_persistHook (app_bank a)" for ss p
    unfolding quiet_def by simp_all
  then show "bk_currentHeight (app_bridge (fst (app_AdvanceBlock cr bech32 a))) = ?h"
    "bank_persistHook (app_bank (fst (app_AdvanceBlock cr bech32 a))) = bank_persistHook (app_bank a)"
    by (simp_all add: app_AdvanceBlock_def Let_def split_beta h) (simp_all add: bridge_SetCurrentHeight_def)
qed

lemma withdraw_quiet:
  assumes "app_books out a"
  shows "quiet a (fst (app_ExecuteWithdrawal bech32 a owner i amount r dl sig))"
proof (cases rule: withdrawal_cases [OF assms, of bech32 owner i amount r dl sig])
  case (3 e)
  then show ?thesis by (simp add: restored_quiet)
next
  case (4 asset v k)
  then show ?thesis
    using debit_hook [of "app_bank a" "TrimSpace owner" "as_Denom asset" "Some v"]
    by (simp add: quiet_def app_frame_def withdraw_state_def)
qed (simp_all add: quiet_def app_frame_def withdraw_limited_def)

lemma node_inv_quiet: "node_inv a \<Longrightarrow> app_books (outstanding a) a' \<Longrightarrow> quiet a a' \<Longrightarrow> node_inv a'"
  using registry_extends_refl by (intro node_inv_kept [of a a']) (auto simp: quiet_def app_frame_def)

lemma node_inv_withdraw: "node_inv a \<Longrightarrow> node_inv (fst (app_ExecuteWithdrawal bech32 a owner i amount r dl sig))"
  by (rule node_inv_quiet [of a]) (simp_all add: node_books app_inv_withdraw withdraw_quiet [OF node_books])

lemma node_inv_AdvanceBlock:
  assumes "node_inv a"
  shows "node_inv (fst (app_AdvanceBlock cr bech32 a))"
proof (rule node_inv_kept [OF assms])
  show "app_books (outstanding a) (fst (app_AdvanceBlock cr bech32 a))" by (rule app_inv_AdvanceBlock [OF node_books [OF assms]])
  show "bank_persistHook (app_bank (fst (app_AdvanceBlock cr bech32 a))) = bank_persistHook (app_bank a)"
    by (rule AdvanceBlock_quiet [OF node_books [OF assms]])
  have "app_frame a (fst (app_AdvanceBlock cr bech32 a))" by (rule AdvanceBlock_frame [OF node_books [OF assms]])
  then show "app_router (fst (app_AdvanceBlock cr bech32 a)) = app_router a"
    "registry_extends (bk_registry (app_bridge a)) (bk_registry (app_bridge (fst (app_AdvanceBlock cr bech32 a))))"
    by (simp_all add: app_frame_def)
qed

lemma node_inv_height: "node_inv a \<Longrightarrow> node_inv (app_SetCurrentHeight a h)"
  by (rule node_inv_kept [of a])
     (simp_all add: app_SetCurrentHeight_def app_inv_height node_books, simp_all add: bridge_SetCurrentHeight_def)

lemma queue_only_pending: "\<exists>q. fst (app_QueueDepositClaim bech32 a claim att) = a\<lparr>app_pending := q\<rparr>"
proof -
  have same: "\<exists>q. a = a\<lparr>app_pending := q\<rparr>" by (rule exI [of _ "app_pending a"]) simp
  show ?thesis by (auto simp: app_QueueDepositClaim_def Let_def same split: option.split sum.split)
qed

lemma node_inv_queue: "node_inv a \<Longrightarrow> node_inv (fst (app_QueueDepositClaim bech32 a claim att))"
proof -
  assume a: "node_inv a"
  obtain q where "fst (app_QueueDepositClaim bech32 a claim att) = a\<lparr>app_pending := q\<rparr>" using queue_only_pending by blast
  with a node_books [OF a] show ?thesis by (simp add: app_inv_pending node_inv_kept [OF a])
qed

lemma node_inv_register: "node_inv a \<Longrightarrow> node_inv (fst (app_RegisterAsset a asset))"
  by (rule node_inv_kept [of a])
     (simp_all add: app_inv_step [OF _ app_step.register] node_books,
      simp_all add: app_RegisterAsset_def split_beta registry_extends_Register)

lemma node_inv_limit: "node_inv a \<Longrightarrow> node_inv (fst (app_SetLimit a l))"
  by (rule node_inv_kept [of a])
     (simp_all add: app_inv_step [OF _ app_step.limit] node_books, simp_all add: app_SetLimit_def split_beta)


section \<open>Transfers\<close>

lemma app_books_router [simp]: "app_books out (a\<lparr>app_router := k\<rparr>) \<longleftrightarrow> app_books out a"
  by (simp add: app_books_def)

lemma outstanding_router: "outstanding (a\<lparr>app_router := k\<rparr>) = outstanding a"
  by (rule ext) (simp add: outstanding_def)

lemma in_transfers_set:
  assumes "ik_transfers k = gomap_set i t (ik_transfers (app_router a))"
  shows "in_transfers (a\<lparr>app_router := k\<rparr>) d =
    in_transfers a d - sum_opt (amount_in (bk_registry (app_bridge a)) d) (map_of (ik_transfers (app_router a)) i)
      + amount_in (bk_registry (app_bridge a)) d t"
  by (simp add: in_transfers_def assms)

lemma unwrapped_set:
  "unwrapped (a\<lparr>app_router := k\<rparr>) \<Longrightarrow> ik_transfers k = gomap_set i t (ik_transfers (app_router a)) \<Longrightarrow> unwrapped a"
  by (auto simp: unwrapped_def length_update split: if_splits)

lemma amount_in_terms: "same_terms r r' \<Longrightarrow> amount_in reg d r' = amount_in reg d r"
  by (auto simp: same_terms_def amount_in_def transfer_denom_def)

lemma router_step_in_transfers:
  assumes "router_inv (app_router a)" "router_step (app_router a) k" "unwrapped (a\<lparr>app_router := k\<rparr>)"
  shows "unwrapped a" "in_transfers a d \<le> in_transfers (a\<lparr>app_router := k\<rparr>) d"
proof -
  consider (new) i r where "tr_TransferID r = transfer_id i (ik_nextSequence (app_router a))" "0 < tr_Amount r"
      "ik_transfers k = gomap_set (tr_TransferID r) r (ik_transfers (app_router a))"
    | (replaced) key r r' where "map_of (ik_transfers (app_router a)) key = Some r" "same_terms r r'"
      "ik_transfers k = gomap_set key r' (ik_transfers (app_router a))"
    | (kept) "ik_transfers k = ik_transfers (app_router a)"
    using router_step_cases [OF assms(1,2)] unfolding initiates_one_def replaces_one_def keeps_transfers_def by blast
  then have "unwrapped a \<and> in_transfers a d \<le> in_transfers (a\<lparr>app_router := k\<rparr>) d"
  proof cases
    case new
    have u: "unwrapped a" by (rule unwrapped_set [OF assms(3) new(3)])
    then have "map_of (ik_transfers (app_router a)) (tr_TransferID r) = None"
      using transfer_id_fresh [OF assms(1)] new(1) by (simp add: unwrapped_def)
    with u new(2) show ?thesis by (simp add: in_transfers_set [OF new(3)] amount_in_def)
  next
    case replaced
    with unwrapped_set [OF assms(3) replaced(3)] show ?thesis
      by (simp add: in_transfers_set [OF replaced(3)] amount_in_terms)
  next
    case kept
    with assms(3) show ?thesis by (simp add: unwrapped_def in_transfers_def)
  qed
  then show "unwrapped a" "in_transfers a d \<le> in_transfers (a\<lparr>app_router := k\<rparr>) d" by simp_all
qed

lemma node_inv_router:
  assumes "node_inv a" "router_step (app_router a) k"
  shows "node_inv (a\<lparr>app_router := k\<rparr>)"
proof -
  have "router_inv (app_router a)" using assms(1) by (simp add: node_inv_def)
  moreover from this have "router_inv k" using router.step_inv assms(2) by blast
  moreover have "outstanding a d \<le> in_transfers (a\<lparr>app_router := k\<rparr>) d" if "unwrapped (a\<lparr>app_router := k\<rparr>)" for d
  proof -
    note step = router_step_in_transfers [OF \<open>router_inv (app_router a)\<close> assms(2) that]
    have "outstanding a d \<le> in_transfers a d" using assms(1) step(1) by (simp add: node_inv_def)
    then show ?thesis using step(2) by (rule order_trans)
  qed
  ultimately show ?thesis using assms(1) by (simp add: node_inv_def outstanding_router)
qed

text \<open>What starting a transfer does: nothing, or one pending record under the next id.\<close>

definition started :: "App \<Rightarrow> InitiateIBCTransferPayload \<Rightarrow> int \<Rightarrow> TransferRecord \<Rightarrow> RouterKeeper \<Rightarrow> bool" where
  "started a payload amount t k \<longleftrightarrow>
     0 < amount \<and> tr_TransferID t = transfer_id (ip_AssetID payload) (ik_nextSequence (app_router a))
     \<and> tr_AssetID t = TrimSpace (ip_AssetID payload) \<and> tr_Amount t = amount \<and> tr_Receiver t = TrimSpace (ip_Receiver payload)
     \<and> tr_Status t = TransferStatusPending \<and> ik_transfers k = gomap_set (tr_TransferID t) t (ik_transfers (app_router a))"

lemma initiated:
  assumes "start_transfer a payload amount = (a\<lparr>app_router := fst run\<rparr>, snd run)" "router_step (app_router a) (fst run)"
    "(\<exists>e. run = (app_router a, Inl e))
     \<or> (\<exists>dc ch dd. run = initiateTransfer (app_router a) (ip_AssetID payload) (Some amount) (ip_Receiver payload) t m dc ch dd)"
  obtains (refused) e where "start_transfer a payload amount = (a, Inl e)"
  | (accepted) r k where "start_transfer a payload amount = (a\<lparr>app_router := k\<rparr>, Inr r)" "started a payload amount r k"
      "router_step (app_router a) k"
  using assms(3)
proof (elim disjE exE)
  fix e assume "run = (app_router a, Inl e)"
  with assms(1) show ?thesis by (intro that(1)) simp
next
  fix dc ch dd
  assume run: "run = initiateTransfer (app_router a) (ip_AssetID payload) (Some amount) (ip_Receiver payload) t m dc ch dd"
  show ?thesis
  proof (cases rule: initiateTransfer_cases [of "app_router a" "ip_AssetID payload" "Some amount" "ip_Receiver payload" t m dc ch dd])
    case (refused e)
    with assms(1) run show ?thesis by (intro that(1)) simp
  next
    case (started x r)
    with assms(1,2) run show ?thesis by (intro that(2) [of "fst run" r]) (simp_all add: started_def)
  qed
qed

lemma start_transfer_cases:
  obtains (refused) e where "start_transfer a payload amount = (a, Inl e)"
  | (accepted) r k where "start_transfer a payload amount = (a\<lparr>app_router := k\<rparr>, Inr r)" "started a payload amount r k"
      "router_step (app_router a) k"
proof (cases "TrimSpace (ip_RouteID payload) = []")
  case True
  show ?thesis
  proof (rule initiated [of a payload amount "router_InitiateTransfer (app_router a) (ip_AssetID payload) (Some amount)
      (ip_Receiver payload) (ip_TimeoutHeight payload) (ip_Memo payload)" "ip_TimeoutHeight payload" "ip_Memo payload"])
  qed (use True in \<open>simp_all add: start_transfer_def app_InitiateIBCTransfer_def split_beta router_step.initiate refused accepted\<close>,
       simp add: router_InitiateTransfer_def split: option.split, blast)
next
  case False
  show ?thesis
  proof (rule initiated [of a payload amount "router_InitiateTransferWithProfile (app_router a) (ip_RouteID payload) (ip_AssetID payload)
      (Some amount) (ip_Receiver payload) (ip_TimeoutHeight payload) (ip_Memo payload)" "ip_TimeoutHeight payload" "ip_Memo payload"])
  qed (use False in \<open>simp_all add: start_transfer_def app_InitiateIBCTransferWithProfile_def split_beta router_step.initiate_profile
       refused accepted\<close>, simp add: router_InitiateTransferWithProfile_def split: option.split, blast)
qed


section \<open>A transfer of a wallet\<close>

lemma Debit_error_same: "bank_persistHook k = None \<Longrightarrow> bank_Debit k x d v = (k', Some e) \<Longrightarrow> k' = k"
  by (auto simp: bank_Debit_def bank_persist_def Let_def split: if_splits sum.splits option.splits)

lemma Credit_succeeds:
  "bank_persistHook k = None \<Longrightarrow> TrimSpace x \<noteq> [] \<Longrightarrow> TrimSpace d \<noteq> [] \<Longrightarrow> 0 < v \<Longrightarrow> snd (bank_Credit k x d (Some v)) = None"
  by (simp add: bank_Credit_def bank_persist_def normalizeDenom_def normalizeAmount_def Let_def)

text \<open>Two banks that hold the same.\<close>

definition same_wallets :: "BankKeeper \<Rightarrow> BankKeeper \<Rightarrow> bool" where
  "same_wallets k k' \<longleftrightarrow> bank_inv k' \<and> bank_persistHook k' = bank_persistHook k
     \<and> (\<forall>x d. bank_BalanceOf k' x d = bank_BalanceOf k x d) \<and> (\<forall>d. bank_total k' d = bank_total k d)"

lemma same_wallets_refl: "bank_inv k \<Longrightarrow> same_wallets k k"
  by (simp add: same_wallets_def)

lemma debit_then_credit:
  assumes "bank_inv k" "bank_Debit k x d (Some v) = (k1, None)"
  shows "same_wallets k (fst (bank_Credit k1 x d (Some v)))"
proof -
  have ok: "snd (bank_Debit k x d (Some v)) = None" using assms(2) by simp
  have valid: "0 < v" "TrimSpace x \<noteq> []" "TrimSpace d \<noteq> []" "bank_persistHook k1 = None" "bank_persistHook k = None"
    using Debit_None [OF ok] debit_hook [of k x d "Some v"] assms(2) by auto
  have inv1: "bank_inv k1" using bank_inv_Debit [OF assms(1), of x d "Some v"] assms(2) by simp
  have credit: "snd (bank_Credit k1 x d (Some v)) = None" using Credit_succeeds valid by blast
  have "bank_BalanceOf k1 y c = bank_BalanceOf k y c - (if TrimSpace y = TrimSpace x \<and> TrimSpace c = TrimSpace d then v else 0)"
    "bank_total k1 c = bank_total k c - (if c = TrimSpace d then v else 0)" for y c
    using bank.debit_bal [OF assms(1) ok, of y c] bank.debit_total [OF assms(1) ok, of c] assms(2) by simp_all
  then show ?thesis
    using bank.credit_bal [OF credit] bank.credit_total [OF inv1 credit] bank_inv_Credit [OF inv1] credit_hook [of k1] valid
    by (simp add: same_wallets_def)
qed

lemma sync_balance_app [simp]: "nd_app (fst (sync_balance env n x d v)) = nd_app n"
  by (simp add: sync_balance_def split: option.split prod.split)

text \<open>The wallet pays, or nothing happens to the application.\<close>

lemma take_out_cases:
  assumes "bank_persistHook (app_bank (nd_app n)) = None"
  obtains (nobody) "sender = []" "take_out env n sender denom amount v = (n, None)"
  | (refused) n1 e where "take_out env n sender denom amount v = (n1, Some e)" "nd_app n1 = nd_app n"
  | (paid) n1 k where "sender \<noteq> []" "take_out env n sender denom amount v = (n1, None)" "nd_app n1 = (nd_app n)\<lparr>app_bank := k\<rparr>"
      "bank_Debit (app_bank (nd_app n)) sender denom (Some amount) = (k, None)"
proof -
  consider "sender = []" | "sender \<noteq> []" "v < amount" | "sender \<noteq> []" "\<not> v < amount" by blast
  then show ?thesis
  proof cases
    case 1
    then show ?thesis by (intro nobody) (simp_all add: take_out_def)
  next
    case 2
    then show ?thesis by (intro refused) (simp_all add: take_out_def)
  next
    case 3
    obtain n1 e where sync: "sync_balance env n sender denom v = (n1, e)" by fastforce
    then have app: "nd_app n1 = nd_app n" using sync_balance_app [of env n sender denom v] by simp
    show ?thesis
    proof (cases e)
      case (Some err)
      with 3 sync app show ?thesis by (intro refused [of n1 err]) (simp_all add: take_out_def)
    next
      case None
      obtain k d where debit: "bank_Debit (app_bank (nd_app n)) sender denom (Some amount) = (k, d)" by fastforce
      show ?thesis
      proof (cases d)
        case None
        with 3 sync \<open>e = None\<close> app debit show ?thesis
          by (intro paid [of "n1\<lparr>nd_app := (nd_app n)\<lparr>app_bank := k\<rparr>\<rparr>" k]) (simp_all add: take_out_def app_DebitWallet_def)
      next
        case (Some err)
        with Debit_error_same [OF assms] debit have "k = app_bank (nd_app n)" by blast
        with 3 sync \<open>e = None\<close> app debit Some show ?thesis
          by (intro refused [of "n1\<lparr>nd_app := nd_app n\<rparr>" "NodeBankError err"]) (simp_all add: take_out_def app_DebitWallet_def)
      qed
    qed
  qed
qed

lemma give_back_app:
  "nd_app (give_back env n sender denom amount v) =
     (if sender = [] then nd_app n else (nd_app n)\<lparr>app_bank := fst (bank_Credit (app_bank (nd_app n)) sender denom (Some amount))\<rparr>)"
  by (simp add: give_back_def app_CreditWallet_def split_beta)

text \<open>The four ways a transfer transaction ends.\<close>

definition failed_of :: "TransferRecord \<Rightarrow> string \<Rightarrow> TransferRecord" where
  "failed_of t reason = t\<lparr>tr_Status := TransferStatusAckFailed, tr_FailureReason := TrimSpace reason\<rparr>"

lemma fail_started:
  assumes "started a payload amount t k"
  shows "ik_transfers (fst (router_AcknowledgeFailure k (tr_TransferID t) reason)) =
      gomap_set (tr_TransferID t) (failed_of t reason) (ik_transfers (app_router a))"
    "\<exists>r. snd (router_AcknowledgeFailure k (tr_TransferID t) reason) = Inr r"
proof -
  have id: "TrimSpace (tr_TransferID t) = tr_TransferID t" and st: "tr_Status t = TransferStatusPending"
    and tr: "ik_transfers k = gomap_set (tr_TransferID t) t (ik_transfers (app_router a))"
    using assms by (simp_all add: started_def)
  have pending: "pendingTransfer k (tr_TransferID t) = Inr t" by (simp add: pendingTransfer_def id tr st gomap_simps)
  have twice: "gomap_set i y (gomap_set i x m) = gomap_set i y m" for i m and x y :: TransferRecord by (induction m) auto
  show "ik_transfers (fst (router_AcknowledgeFailure k (tr_TransferID t) reason)) =
      gomap_set (tr_TransferID t) (failed_of t reason) (ik_transfers (app_router a))"
    "\<exists>r. snd (router_AcknowledgeFailure k (tr_TransferID t) reason) = Inr r"
    by (simp_all add: router_AcknowledgeFailure_def pending Let_def failed_of_def tr twice)
qed

lemma transfer_cases:
  assumes run_def: "run = applyIBCTransferPayload env n payload amount"
    and hook: "bank_persistHook (app_bank (nd_app n)) = None" and inv: "bank_inv (app_bank (nd_app n))"
  obtains
    (refused) e k where "snd (run) = Inl e" "nd_app (fst (run)) = (nd_app n)\<lparr>app_bank := k\<rparr>"
      "same_wallets (app_bank (nd_app n)) k"
  | (failed) e t k rk rk2 reason where "snd (run) = Inl e"
      "nd_app (fst (run)) = (nd_app n)\<lparr>app_bank := k, app_router := rk2\<rparr>"
      "same_wallets (app_bank (nd_app n)) k" "router_step (app_router (nd_app n)) rk" "router_step rk rk2"
      "started (nd_app n) payload amount t rk"
      "ik_transfers rk2 = gomap_set (tr_TransferID t) (failed_of t reason) (ik_transfers (app_router (nd_app n)))"
  | (sent) asset t events k rk where "snd (run) = Inr (t, events)"
      "registry_GetAsset (bk_registry (app_bridge (nd_app n))) (ip_AssetID payload) = Some asset"
      "nd_app (fst (run)) = (nd_app n)\<lparr>app_bank := k, app_router := rk\<rparr>"
      "started (nd_app n) payload amount t rk" "router_step (app_router (nd_app n)) rk"
      "TrimSpace (ip_Sender payload) = [] \<and> k = app_bank (nd_app n)
       \<or> TrimSpace (ip_Sender payload) \<noteq> [] \<and> bank_Debit (app_bank (nd_app n)) (TrimSpace (ip_Sender payload)) (as_Denom asset) (Some amount) = (k, None)"
proof (cases "registry_GetAsset (bk_registry (app_bridge (nd_app n))) (ip_AssetID payload)")
  case None
  then show ?thesis
    by (intro refused [of _ "app_bank (nd_app n)"]) (simp_all add: run_def applyIBCTransferPayload_def Let_def same_wallets_refl inv)
next
  case (Some asset)
  let ?sender = "TrimSpace (ip_Sender payload)" and ?denom = "as_Denom asset"
  let ?v = "app_WalletBalance (nd_app n) ?sender ?denom"
  let ?bank = "app_bank (nd_app n)"
  have gives: "same_wallets ?bank (app_bank (nd_app (give_back env m ?sender ?denom amount ?v)))
      \<and> nd_app (give_back env m ?sender ?denom amount ?v) = (nd_app m)\<lparr>app_bank := app_bank (nd_app (give_back env m ?sender ?denom amount ?v))\<rparr>"
    if "?sender = [] \<and> app_bank (nd_app m) = ?bank
        \<or> ?sender \<noteq> [] \<and> bank_Debit ?bank ?sender ?denom (Some amount) = (app_bank (nd_app m), None)" for m
    using that debit_then_credit [OF inv] same_wallets_refl [OF inv] by (auto simp: give_back_app)
  consider (out) n1 e where "take_out env n ?sender ?denom amount ?v = (n1, Some e)" "nd_app n1 = nd_app n"
    | (taken) n1 k where "take_out env n ?sender ?denom amount ?v = (n1, None)" "nd_app n1 = (nd_app n)\<lparr>app_bank := k\<rparr>"
        "?sender = [] \<and> k = ?bank \<or> ?sender \<noteq> [] \<and> bank_Debit ?bank ?sender ?denom (Some amount) = (k, None)"
    by (cases rule: take_out_cases [OF hook, of ?sender env ?denom amount ?v]) auto
  then show ?thesis
  proof cases
    case out
    with Some show ?thesis
      by (intro refused [of e "app_bank (nd_app n)"]) (simp_all add: run_def applyIBCTransferPayload_def Let_def same_wallets_refl inv)
  next
    case taken
    show ?thesis
    proof (cases rule: start_transfer_cases [of "nd_app n1" payload amount])
      case (refused e)
      let ?n2 = "give_back env (n1\<lparr>nd_app := nd_app n1\<rparr>) ?sender ?denom amount ?v"
      have "run = (?n2, Inl (NodeRouterError e))"
        using Some taken(1) refused by (simp add: run_def applyIBCTransferPayload_def Let_def)
      with gives [of "n1\<lparr>nd_app := nd_app n1\<rparr>"] taken(2,3) show ?thesis
        by (intro that(1) [of "NodeRouterError e" "app_bank (nd_app ?n2)"]) auto
    next
      case (accepted t rk)
      let ?n2 = "n1\<lparr>nd_app := (nd_app n)\<lparr>app_bank := k, app_router := rk\<rparr>\<rparr>"
      have st: "started (nd_app n) payload amount t rk" and step: "router_step (app_router (nd_app n)) rk"
        using accepted(2,3) taken(2) by (simp_all add: started_def)
      have run2: "start_transfer (nd_app n1) payload amount = ((nd_app n)\<lparr>app_bank := k, app_router := rk\<rparr>, Inr t)"
        using accepted(1) taken(2) by simp
      show ?thesis
      proof (cases "ne_chainApp env")
        case None
        then have "run = (?n2, Inr (t, []))"
          using Some taken(1) run2 by (simp add: run_def applyIBCTransferPayload_def Let_def)
        with Some taken(3) st step show ?thesis by (intro sent [of t "[]" asset rk k]) simp_all
      next
        case (Some ca)
        let ?call = "ca_ExecuteLocalhostTransfer ca (nd_chain ?n2)
             \<lparr>lr_Sender = ?sender, lr_Denom = ?denom, lr_Amount = amount, lr_Receiver = ip_Receiver payload,
              lr_TimeoutChainID = TrimSpace (tr_DestinationChainID t), lr_TimeoutHeight = ip_TimeoutHeight payload,
              lr_Memo = ip_Memo payload\<rparr>"
        obtain c r where call: "?call = (c, r)" by fastforce
        note defs = run_def applyIBCTransferPayload_def Let_def
        show ?thesis
        proof (cases r)
          case (Inr events)
          then have "run = (?n2\<lparr>nd_chain := c\<rparr>, Inr (t, events))"
            using Some \<open>registry_GetAsset _ _ = Some asset\<close> taken(1) run2 call by (simp add: defs)
          with \<open>registry_GetAsset _ _ = Some asset\<close> taken(3) st step show ?thesis by (intro sent [of t events asset rk k]) simp_all
        next
          case (Inl e)
          define m where "m = ?n2\<lparr>nd_chain := c\<rparr>"
          define n3 where "n3 = give_back env m ?sender ?denom amount ?v"
          define k3 where "k3 = app_bank (nd_app n3)"
          define reason where "reason = ''localhost sdk transfer failed: '' @ e"
          define rk2 where "rk2 = fst (router_AcknowledgeFailure rk (tr_TransferID t) reason)"
          have m: "nd_app m = (nd_app n)\<lparr>app_bank := k, app_router := rk\<rparr>" by (simp add: m_def)
          have n3: "same_wallets ?bank k3 \<and> nd_app n3 = (nd_app m)\<lparr>app_bank := k3\<rparr>"
            unfolding k3_def n3_def using taken(3) m by (intro gives) auto
          then have app3: "nd_app n3 = (nd_app n)\<lparr>app_bank := k3, app_router := rk\<rparr>" by (simp add: m)
          obtain r' where "snd (router_AcknowledgeFailure rk (tr_TransferID t) reason) = Inr r'" using fail_started(2) [OF st] by blast
          then have "app_FailIBCTransfer (nd_app n3) (tr_TransferID t) reason = ((nd_app n)\<lparr>app_bank := k3, app_router := rk2\<rparr>, Inr r')"
            by (simp add: app_FailIBCTransfer_def split_beta app3 rk2_def)
          then have run: "run = (n3\<lparr>nd_app := (nd_app n)\<lparr>app_bank := k3, app_router := rk2\<rparr>\<rparr>, Inl (NodeChainError e))"
            using Some \<open>registry_GetAsset _ _ = Some asset\<close> taken(1) run2 call Inl
            by (simp add: defs m_def [symmetric] n3_def [symmetric] reason_def [symmetric] del: append.simps)
          have "router_step rk rk2"
            using router_step.ack [of rk "tr_TransferID t" False reason] by (simp add: router_ReceiveIBCAck_def rk2_def)
          with run n3 step st fail_started(1) [OF st, of reason] show ?thesis
            unfolding rk2_def [symmetric] by (intro failed [of "NodeChainError e" rk2 k3 rk t reason]) simp_all
        qed
      qed
    qed
  qed
qed

lemma node_inv_bank:
  assumes "node_inv a" "same_wallets (app_bank a) k"
  shows "node_inv (a\<lparr>app_bank := k\<rparr>)"
proof (rule node_inv_kept [OF assms(1)])
  show "app_books (outstanding a) (a\<lparr>app_bank := k\<rparr>)"
    using node_books [OF assms(1)] assms(2) by (simp add: app_books_def same_wallets_def)
qed (use assms(2) in \<open>simp_all add: same_wallets_def\<close>)

text \<open>A debit for a transfer moves its amount from the wallets to the transfers.\<close>

lemma node_inv_sent:
  assumes a: "node_inv a" and asset: "registry_GetAsset (bk_registry (app_bridge a)) (ip_AssetID payload) = Some asset"
    and st: "started a payload amount t rk" "router_step (app_router a) rk"
    and debit: "bank_Debit (app_bank a) x (as_Denom asset) (Some amount) = (k, None)"
  shows "node_inv (a\<lparr>app_bank := k, app_router := rk\<rparr>)"
proof -
  let ?a = "a\<lparr>app_bank := k, app_router := rk\<rparr>" and ?d = "TrimSpace (as_Denom asset)"
  have inv: "bank_inv (app_bank a)" "router_inv (app_router a)" using a by (simp_all add: node_inv_def app_books_def)
  have ok: "snd (bank_Debit (app_bank a) x (as_Denom asset) (Some amount)) = None" using debit by simp
  have total: "bank_total k d = bank_total (app_bank a) d - (if d = ?d then amount else 0)" for d
    using bank.debit_total [OF inv(1) ok, of d] debit by simp
  have out: "outstanding ?a d = outstanding a d + (if d = ?d then amount else 0)" for d
    by (simp add: outstanding_def total)
  have out_fun: "outstanding ?a = (\<lambda>d. outstanding a d + (if d = ?d then amount else 0))" using out by (intro ext)
  have books: "app_books (outstanding ?a) ?a"
    unfolding out_fun using node_books [OF a] bank_inv_Debit [OF inv(1), of x "as_Denom asset" "Some amount"] debit
    by (simp add: app_books_def total)
  have trans: "ik_transfers rk = gomap_set (tr_TransferID t) t (ik_transfers (app_router a))" using st(1) by (simp add: started_def)
  have "outstanding ?a d \<le> in_transfers ?a d" if u: "unwrapped ?a" for d
  proof -
    have u': "unwrapped (a\<lparr>app_router := rk\<rparr>)" using u by (simp add: unwrapped_def)
    have un: "unwrapped a" by (rule unwrapped_set [OF u' trans])
    then have "map_of (ik_transfers (app_router a)) (tr_TransferID t) = None"
      using transfer_id_fresh [OF inv(2)] st(1) by (simp add: unwrapped_def started_def)
    moreover have "in_transfers ?a d = in_transfers (a\<lparr>app_router := rk\<rparr>) d" by (simp add: in_transfers_def)
    moreover have "amount_in (bk_registry (app_bridge a)) d t = (if d = ?d then amount else 0)"
      using asset st(1) by (auto simp: amount_in_def transfer_denom_def started_def)
    ultimately have "in_transfers ?a d = in_transfers a d + (if d = ?d then amount else 0)"
      by (simp add: in_transfers_set [OF trans])
    with un a show ?thesis by (simp add: out node_inv_def)
  qed
  moreover have "0 \<le> outstanding ?a d" for d using a st(1) by (simp add: out node_inv_def started_def)
  moreover have "bank_persistHook k = None"
    using debit_hook [of "app_bank a" x "as_Denom asset" "Some amount"] debit a by (simp add: node_inv_def)
  moreover have "router_inv rk" using router.step_inv [OF inv(2) st(2)] .
  ultimately show ?thesis using books by (simp add: node_inv_def)
qed

lemma node_inv_transfer:
  assumes "node_inv (nd_app n)"
  shows "node_inv (nd_app (fst (applyIBCTransferPayload env n payload amount)))"
proof -
  have hook: "bank_persistHook (app_bank (nd_app n)) = None" "bank_inv (app_bank (nd_app n))"
    using assms by (simp_all add: node_inv_def app_books_def)
  show ?thesis
  proof (cases rule: transfer_cases [OF refl hook, of env payload amount])
    case (1 e k)
    then show ?thesis using node_inv_bank [OF assms] by simp
  next
    case (2 e t k rk rk2 reason)
    have "node_inv ((nd_app n)\<lparr>app_bank := k\<rparr>)" by (rule node_inv_bank [OF assms 2(3)])
    then have "node_inv ((nd_app n)\<lparr>app_bank := k\<rparr>\<lparr>app_router := rk\<rparr>)" by (rule node_inv_router) (simp add: 2(4))
    then have "node_inv ((nd_app n)\<lparr>app_bank := k\<rparr>\<lparr>app_router := rk\<rparr>\<lparr>app_router := rk2\<rparr>)"
      by (rule node_inv_router) (simp add: 2(5))
    then show ?thesis by (simp add: 2(2))
  next
    case (3 asset t events k rk)
    from 3(6) show ?thesis
    proof (elim disjE conjE)
      assume "k = app_bank (nd_app n)"
      moreover have "node_inv ((nd_app n)\<lparr>app_router := rk\<rparr>)" by (rule node_inv_router [OF assms 3(5)])
      moreover have "(nd_app n)\<lparr>app_bank := app_bank (nd_app n), app_router := rk\<rparr> = (nd_app n)\<lparr>app_router := rk\<rparr>" by simp
      ultimately show ?thesis by (simp only: 3(3))
    next
      assume "bank_Debit (app_bank (nd_app n)) (TrimSpace (ip_Sender payload)) (as_Denom asset) (Some amount) = (k, None)"
      then show ?thesis unfolding 3(3) by (rule node_inv_sent [OF assms 3(2,4,5)])
    qed
  qed
qed

section \<open>Blocks and requests\<close>

abbreviation node_height :: "'c Node \<Rightarrow> u64" where
  "node_height n \<equiv> bk_currentHeight (app_bridge (nd_app n))"

lemma node_inv_tx:
  assumes "node_inv (nd_app n)"
  shows "node_inv (nd_app (fst (applyDemoNodeTx env n tx)))"
proof (cases "decodeDemoNodeTx tx")
  case (Inl e)
  then show ?thesis using assms by (simp add: applyDemoNodeTx_def)
next
  case (Inr t)
  note run = applyDemoNodeTx_def Inr Let_def split_beta
  consider "dx_Type t = ''queue_deposit_claim''" | "dx_Type t = ''initiate_ibc_transfer''" | "dx_Type t = ''execute_withdrawal''"
    | "dx_Type t = ''fund_account''" | "dx_Type t \<notin> {''queue_deposit_claim'', ''initiate_ibc_transfer'', ''execute_withdrawal'', ''fund_account''}"
    by blast
  then show ?thesis
  proof cases
    case 1
    then show ?thesis using assms by (simp add: run node_inv_queue split: sum.split option.split)
  next
    case 2
    then show ?thesis using assms by (simp add: run node_inv_transfer split: sum.split)
  next
    case 3
    then show ?thesis using assms by (simp add: run node_inv_withdraw node_inv_height split: sum.split)
  next
    case 4
    then show ?thesis using assms by (simp add: run split: sum.split option.split)
  next
    case 5
    then show ?thesis using assms by (simp add: run)
  qed
qed

lemma apply_txs_inv: "node_inv (nd_app n) \<Longrightarrow> node_inv (nd_app (fst (apply_txs env txs n)))"
  by (induction txs arbitrary: n) (simp_all add: split_beta node_inv_tx)

lemma apply_txs_length: "length (snd (apply_txs env txs n)) = length txs"
  by (induction txs arbitrary: n) (simp_all add: split_beta)

lemma sync_claims_app [simp]: "nd_app (fst (sync_claims env bs n)) = nd_app n"
  by (induction bs arbitrary: n) (simp_all add: split_beta split: option.split)

lemma advance_app: "nd_app (fst (advanceAppAndSyncChain env n)) = fst (app_AdvanceBlock (ne_crypto env) (ne_bech32 env) (nd_app n))"
  by (simp add: advanceAppAndSyncChain_def Let_def split_beta)

lemma finalize_beside_app [simp]: "nd_app (fst (finalize_beside env n h)) = nd_app n"
  by (simp add: finalize_beside_def split: option.split prod.split sum.split)

lemma advance_alone: "ne_chainApp env = None \<Longrightarrow> snd (advanceAppAndSyncChain env n) = None"
  by (simp add: advanceAppAndSyncChain_def split_beta Let_def)

lemma advance_to_returns:
  assumes "node_inv (nd_app n)"
  shows "\<exists>n' e. advance_to env h n = Some (n', e) \<and> node_inv (nd_app n') \<and> (e = None \<longrightarrow> h \<le> node_height n')
    \<and> (ne_chainApp env = None \<longrightarrow> e = None) \<and> app_router (nd_app n') = app_router (nd_app n)"
  using assms
proof (induction "unat h - unat (node_height n)" arbitrary: n rule: less_induct)
  case less
  show ?case
  proof (cases "node_height n < h")
    case False
    with less.prems show ?thesis by (simp add: advance_to.simps)
  next
    case True
    obtain n1 e where adv: "advanceAppAndSyncChain env n = (n1, e)" by fastforce
    have app: "nd_app n1 = fst (app_AdvanceBlock (ne_crypto env) (ne_bech32 env) (nd_app n))"
      using advance_app [of env n] adv by simp
    have router: "app_router (nd_app n1) = app_router (nd_app n)"
      using AdvanceBlock_frame [OF node_books [OF less.prems], of "ne_crypto env" "ne_bech32 env"] app by (simp add: app_frame_def)
    have inv: "node_inv (nd_app n1)" using node_inv_AdvanceBlock [OF less.prems] app by simp
    show ?thesis
    proof (cases e)
      case (Some err)
      moreover from this have "ne_chainApp env \<noteq> None" using advance_alone [of env n] adv by auto
      ultimately show ?thesis using True adv inv router by (simp add: advance_to.simps)
    next
      case None
      have "node_height n1 = node_height n + 1" using AdvanceBlock_quiet(1) [OF node_books [OF less.prems]] app by simp
      with True have "unat h - unat (node_height n1) < unat h - unat (node_height n)" by unat_arith
      from less.hyps [OF this inv] show ?thesis by (subst advance_to.simps) (simp add: True adv None router)
    qed
  qed
qed

text \<open>A block of node transactions, once they are not mixed with others.\<close>

lemma finalize_node_block:
  assumes inv: "node_inv (nd_app n)"
    and unmixed: "\<not> (list_ex is_demo_tx txs \<and> list_ex (\<lambda>tx. \<not> is_demo_tx tx) txs)"
    and own: "list_ex is_demo_tx txs \<or> ne_chainApp env = None"
  obtains n' r where "node_FinalizeBlock env n height txs = Some (n', r)" "node_inv (nd_app n')"
    "\<And>resp. r = Inr resp \<Longrightarrow> length (rf_TxResults resp) = length txs
       \<and> (node_height n < word_of_int height \<longrightarrow> word_of_int height \<le> node_height n')"
    "ne_chainApp env = None \<Longrightarrow> \<exists>resp. r = Inr resp"
    "app_router (nd_app n') = app_router (nd_app (fst (apply_txs env txs
       (n\<lparr>nd_lastFinalizeUsedBaseApp := False, nd_pendingBaseAppCommit := False\<rparr>))))"
    "\<And>resp. r = Inr resp \<Longrightarrow> rf_TxResults resp = snd (apply_txs env txs
       (n\<lparr>nd_lastFinalizeUsedBaseApp := False, nd_pendingBaseAppCommit := False\<rparr>))"
proof -
  let ?n0 = "n\<lparr>nd_lastFinalizeUsedBaseApp := False, nd_pendingBaseAppCommit := False\<rparr>" and ?h = "word_of_int height :: u64"
  obtain n1 results where txs: "apply_txs env txs ?n0 = (n1, results)" by fastforce
  have inv1: "node_inv (nd_app n1)" and len: "length results = length txs"
    using apply_txs_inv [of ?n0 env txs] apply_txs_length [of env txs ?n0] inv txs by simp_all
  obtain n2 e2 where fin: "finalize_beside env n1 height = (n2, e2)" by fastforce
  have inv2: "node_inv (nd_app n2)" using finalize_beside_app [of env n1 height] fin inv1 by simp
  let ?adv = "advance_block env ?h (node_height n) n2"
  have "\<exists>n3 e. ?adv = Some (n3, e) \<and> node_inv (nd_app n3) \<and> (e = None \<and> node_height n < ?h \<longrightarrow> ?h \<le> node_height n3)
    \<and> (ne_chainApp env = None \<longrightarrow> e = None) \<and> app_router (nd_app n3) = app_router (nd_app n2)"
  proof -
    obtain n3 e where "advanceAppAndSyncChain env n2 = (n3, e)" by fastforce
    moreover from this have "ne_chainApp env = None \<longrightarrow> e = None" using advance_alone [of env n2] by auto
    moreover from calculation(1) have "node_inv (nd_app n3)" using node_inv_AdvanceBlock [OF inv2] advance_app [of env n2] by simp
    moreover from calculation(1) have "app_router (nd_app n3) = app_router (nd_app n2)"
      using AdvanceBlock_frame [OF node_books [OF inv2], of "ne_crypto env" "ne_bech32 env"] advance_app [of env n2] by (simp add: app_frame_def)
    ultimately show ?thesis using advance_to_returns [OF inv2, of env ?h] inv2 by (auto simp: advance_block_def)
  qed
  then obtain n3 e where "?adv = Some (n3, e) \<and> node_inv (nd_app n3)
      \<and> (e = None \<and> node_height n < ?h \<longrightarrow> ?h \<le> node_height n3) \<and> (ne_chainApp env = None \<longrightarrow> e = None)
      \<and> app_router (nd_app n3) = app_router (nd_app n2)"
    by (elim exE)
  then have adv: "?adv = Some (n3, e)" "node_inv (nd_app n3)" "e = None \<Longrightarrow> node_height n < ?h \<Longrightarrow> ?h \<le> node_height n3"
    "ne_chainApp env = None \<Longrightarrow> e = None" "app_router (nd_app n3) = app_router (nd_app n2)"
    by simp_all
  have router: "app_router (nd_app n2) = app_router (nd_app n1)" using finalize_beside_app [of env n1 height] fin by simp
  have alone: "ne_chainApp env = None \<Longrightarrow> e2 = None" using fin by (auto simp: finalize_beside_def)
  have run: "node_FinalizeBlock env n height txs = (case e2 of Some e \<Rightarrow> Some (n2, Inl e) | None \<Rightarrow>
      (case e of Some e \<Rightarrow> Some (n3, Inl e)
       | None \<Rightarrow> let n4 = (if nd_pendingBaseAppCommit n3 then n3 else n3\<lparr>nd_appHash := hashABCIStatus env (node_Status env n3)\<rparr>)
                in Some (n4, Inr \<lparr>rf_AppHash = nd_appHash n4, rf_TxResults = results\<rparr>)))"
  proof -
    have c: "(list_ex is_demo_tx txs \<and> list_ex (\<lambda>tx. \<not> is_demo_tx tx) txs) = False"
      "(\<not> list_ex is_demo_tx txs \<and> ne_chainApp env \<noteq> None) = False"
      using unmixed own by auto
    have h: "node_height ?n0 = node_height n" by simp
    show ?thesis
      unfolding node_FinalizeBlock_def Let_def c if_False h txs prod.case fin
      by (cases e2; cases e) (simp_all add: adv(1))
  qed
  show ?thesis
  proof (cases e2)
    case (Some e)
    with run inv2 alone router txs show ?thesis by (intro that [of n2 "Inl e"]) auto
  next
    case None
    show ?thesis
    proof (cases e)
      case (Some err)
      with run None adv(2,4,5) router txs show ?thesis by (intro that [of n3 "Inl err"]) auto
    next
      case none: None
      define n4 where "n4 = (if nd_pendingBaseAppCommit n3 then n3 else n3\<lparr>nd_appHash := hashABCIStatus env (node_Status env n3)\<rparr>)"
      have "nd_app n4 = nd_app n3" by (simp add: n4_def)
      with run None none adv(2,3,5) len router txs show ?thesis
        unfolding n4_def [symmetric] Let_def by (intro that [of n4 "Inr \<lparr>rf_AppHash = nd_appHash n4, rf_TxResults = results\<rparr>"]) auto
    qed
  qed
qed

lemma finalize_inv:
  assumes "node_inv (nd_app n)" "node_FinalizeBlock env n height txs = Some (n', r)"
  shows "node_inv (nd_app n')"
proof (cases "list_ex is_demo_tx txs \<and> list_ex (\<lambda>tx. \<not> is_demo_tx tx) txs")
  case True
  then have "n' = n" using assms(2) unfolding node_FinalizeBlock_def Let_def by simp
  then show ?thesis using assms(1) by simp
next
  case unmixed: False
  show ?thesis
  proof (cases "list_ex is_demo_tx txs \<or> ne_chainApp env = None")
    case True
    show ?thesis by (rule finalize_node_block [OF assms(1) unmixed True, of height]) (use assms(2) in simp)
  next
    case False
    then have c: "(list_ex is_demo_tx txs \<and> list_ex (\<lambda>tx. \<not> is_demo_tx tx) txs) = False"
      "(\<not> list_ex is_demo_tx txs \<and> ne_chainApp env \<noteq> None) = True" by auto
    have "nd_app n' \<in> {nd_app n, app_SetCurrentHeight (nd_app n) (word_of_int height)}"
      using assms(2) unfolding node_FinalizeBlock_def Let_def c if_True if_False
      by (auto split: prod.splits sum.splits)
    then show ?thesis using assms(1) node_inv_height by auto
  qed
qed

lemma save_app_app [simp]: "nd_app (fst (save_app disk n)) = nd_app n"
  by (simp add: save_app_def split: write_outcome.split)

lemma node_Commit_app [simp]: "nd_app (fst (node_Commit env disk n)) = nd_app n"
  by (simp add: node_Commit_def split_beta split: option.split sum.split)

lemma node_CheckTx_app [simp]: "nd_app (fst (node_CheckTx env n tx)) = nd_app n"
  by (simp add: node_CheckTx_def split_beta split: option.split)

lemma saved_reply_app [simp]: "nd_app (fst (saved_reply disk n reply)) = nd_app n"
  using save_app_app [of disk n] by (auto simp: saved_reply_def simp del: save_app_app split: prod.split option.split)

lemma queue_request_inv: "node_inv (nd_app n) \<Longrightarrow> node_inv (nd_app (fst (handleQueueDepositClaim env disk n body)))"
  by (simp add: handleQueueDepositClaim_def split_beta node_inv_queue split: sum.split option.split)

lemma transfer_request_inv:
  assumes "node_inv (nd_app n)"
  shows "node_inv (nd_app (fst (handleInitiateIBCTransfer disk n body)))"
proof -
  have "node_inv (fst (start_transfer (nd_app n) payload amount))" for payload amount
    using assms node_inv_router [OF assms] by (cases rule: start_transfer_cases [of "nd_app n" payload amount]) simp_all
  then show ?thesis
    using assms by (simp add: handleInitiateIBCTransfer_def split_beta split: sum.split option.split)
qed

lemma ensure_assets_inv: "node_inv a \<Longrightarrow> node_inv (fst (ensure_assets assets a))"
proof (induction assets arbitrary: a)
  case (Cons asset assets)
  have "node_inv (fst (ensureSeededAsset a asset))"
    using Cons.prems by (simp add: ensureSeededAsset_def split_beta node_inv_register split: option.split)
  with Cons.IH [of "fst (ensureSeededAsset a asset)"] show ?case by (simp add: split_beta split: option.split)
qed simp

lemma set_limits_inv: "node_inv a \<Longrightarrow> node_inv (fst (set_limits parsed ls a))"
  by (induction ls arbitrary: a) (simp_all add: split_beta node_inv_limit split: option.split)

lemma seed_request_inv: "node_inv (nd_app n) \<Longrightarrow> node_inv (nd_app (fst (handleSeedBridgeAssets disk n body)))"
  by (simp add: handleSeedBridgeAssets_def split_beta ensure_assets_inv set_limits_inv split: sum.split option.split)

lemma profile_request_inv: "node_inv (nd_app n) \<Longrightarrow> node_inv (nd_app (fst (handleSetRouteProfile disk n body)))"
proof -
  assume n: "node_inv (nd_app n)"
  then have "node_inv (fst (app_SetRouteProfile (nd_app n) p))" for p
    using node_inv_router [OF n router_step.set_profile] by (simp add: app_SetRouteProfile_def split_beta)
  with n show ?thesis by (simp add: handleSetRouteProfile_def split_beta split: sum.split option.split)
qed

lemma post_handler_node:
  "ns_node (fst (post_handler meth handler s)) = (if meth = POST then fst (handler (ns_node s)) else ns_node s)"
  by (simp add: post_handler_def split_beta split: sum.split)

lemma serveHTTP_inv:
  assumes "node_inv (nd_app (ns_node s))"
  shows "node_inv (nd_app (ns_node (fst (serveHTTP env resolver disk s meth request))))"
  using assms
  by (cases request)
     (simp_all add: serveHTTP_def Let_def split_beta post_handler_node queue_request_inv transfer_request_inv seed_request_inv
        profile_request_inv split: sum.split)

section \<open>Runs of a node\<close>

text \<open>What a node does: blocks, commits and checks for the consensus engine, requests, and the settlement of transfers by the
  commands of the relayer.\<close>

inductive node_step :: "('pk, 'sk, 'c) NodeEnv \<Rightarrow> 'c NodeServer \<Rightarrow> 'c NodeServer \<Rightarrow> bool" for env where
  block: "node_FinalizeBlock env (ns_node s) height txs = Some (n, r) \<Longrightarrow> node_step env s (s\<lparr>ns_node := n\<rparr>)"
| commit: "node_step env s (s\<lparr>ns_node := fst (node_Commit env disk (ns_node s))\<rparr>)"
| check: "node_step env s (s\<lparr>ns_node := fst (node_CheckTx env (ns_node s) tx)\<rparr>)"
| request: "node_step env s (fst (serveHTTP env resolver disk s meth request))"
| settle: "router_step (app_router (nd_app (ns_node s))) k
    \<Longrightarrow> node_step env s (s\<lparr>ns_node := (ns_node s)\<lparr>nd_app := (nd_app (ns_node s))\<lparr>app_router := k\<rparr>\<rparr>\<rparr>)"

text \<open>It starts from an application that has been set up by any operations, with its accounts in memory.\<close>

definition node_init :: "('pk, 'sk, 'c) NodeEnv \<Rightarrow> 'c NodeServer \<Rightarrow> bool" where
  "node_init env s \<longleftrightarrow>
     (\<exists>a chain. reachable app_init (app_step (ne_crypto env) (ne_bech32 env)) a \<and> bank_persistHook (app_bank a) = None
        \<and> s = \<lparr>ns_node = NewABCIApplication env a chain, ns_intents = NoFile\<rparr>)"

abbreviation node_reachable :: "('pk, 'sk, 'c) NodeEnv \<Rightarrow> 'c NodeServer \<Rightarrow> bool" where
  "node_reachable env \<equiv> reachable (node_init env) (node_step env)"

lemma gov_router_inv: "router_inv (gk_ibcRouter g) \<Longrightarrow> router_inv (gk_ibcRouter (fst (gov_ApplyRoutePolicyUpdateProposal g a r)))"
  using router.step_inv [OF _ router_step.set_profile]
  by (auto simp: gov_ApplyRoutePolicyUpdateProposal_def dest!: arg_cong [of _ _ fst] split: option.split sum.split prod.split)

lemma app_router_inv_step:
  assumes "app_inv a" "router_inv (app_router a)" "app_step cr bech32 a a'"
  shows "router_inv (app_router a')"
  using assms(3)
proof cases
  case (submit claim att)
  then show ?thesis using assms(2) submit_frame [OF assms(1), of cr bech32 claim att] by (simp add: app_SubmitDepositClaim_def app_frame_def)
next
  case (withdraw owner i amount r dl sig)
  then show ?thesis using assms(2) withdraw_frame [OF assms(1), of bech32 owner i amount r dl sig] by (simp add: app_frame_def)
next
  case block
  then show ?thesis using assms(2) AdvanceBlock_frame [OF assms(1), of cr bech32] by (simp add: app_frame_def)
next
  case (queue claim att)
  then show ?thesis using assms(2) queue_only_pending [of bech32 a claim att] by auto
next
  case (router k)
  then show ?thesis using assms(2) router.step_inv by simp
next
  case (asset_status b p)
  then show ?thesis using assms(2) by (simp add: app_ApplyAssetStatusProposal_def split_beta app_set_governance_def gov_routers)
next
  case (limit_update b q)
  then show ?thesis using assms(2) by (simp add: app_ApplyLimitUpdateProposal_def split_beta app_set_governance_def gov_routers)
next
  case (route_policy b rp)
  then show ?thesis using assms(2) gov_router_inv [of "app_governance a"]
    by (simp add: app_ApplyRoutePolicyUpdateProposal_def split_beta app_set_governance_def)
qed (use assms(2) in \<open>simp_all add: app_SetCurrentHeight_def app_RegisterAsset_def app_SetLimit_def app_Pause_def app_Unpause_def split_beta\<close>)

interpretation routed_application: transition_system app_init "app_step cr bech32" "\<lambda>a. app_inv a \<and> router_inv (app_router a)" for cr bech32
proof unfold_locales
  fix a assume "app_init a"
  moreover from this have "app_router a = router_NewKeeper"
    by (auto simp: app_init_def app_NewWithConfig_def newAppFromKeepers_def gov_NewKeeper_def Let_def)
  ultimately show "app_inv a \<and> router_inv (app_router a)" using app_init_inv router_inv_New by simp
qed (use app_inv_step app_router_inv_step in blast)

lemma in_transfers_nonneg: "router_inv (app_router a) \<Longrightarrow> unwrapped a \<Longrightarrow> 0 \<le> in_transfers a d"
  unfolding in_transfers_def gomap_sum_def
  by (rule sum_list_nonneg) (fastforce simp: router_inv_def unwrapped_def transfer_ok_def amount_in_def)

lemma node_inv_init:
  assumes "reachable app_init (app_step cr bech32) a" "bank_persistHook (app_bank a) = None"
  shows "node_inv a"
proof -
  have inv: "app_inv a" "router_inv (app_router a)" using routed_application.reachable_inv [OF assms(1)] by simp_all
  then have out: "outstanding a = (\<lambda>d. 0)" using books_outstanding [OF inv(1)] by simp
  show ?thesis unfolding node_inv_def out using inv assms(2) in_transfers_nonneg by simp
qed

lemma node_step_inv: "node_inv (nd_app (ns_node s)) \<Longrightarrow> node_step env s t \<Longrightarrow> node_inv (nd_app (ns_node t))"
  by (erule node_step.cases) (simp_all add: finalize_inv serveHTTP_inv node_inv_router)

interpretation node: transition_system "node_init env" "node_step env" "\<lambda>s. node_inv (nd_app (ns_node s))" for env
  by unfold_locales (auto simp: node_init_def NewABCIApplication_def intro: node_inv_init, rule node_step_inv)
end
