(* ===== verification/NodeProperties.thy ===== *)
theory NodeProperties
  imports NodeLife
begin

text \<open>
  The properties of a running node, shown at an application that was funded by one attested deposit and given a route.
\<close>

section \<open>A concrete node\<close>

definition node_env :: "(string, string, unit) NodeEnv" where
  "node_env = \<lparr>ne_crypto = example_crypto, ne_bech32 = any_address, ne_chainApp = None, ne_exists = (\<lambda>_. True), ne_marshal = (\<lambda>_. [])\<rparr>"

definition example_route :: Route where
  "example_route = \<lparr>rt_AssetID = ''eth'', rt_DestinationChainID = ''osmo-1'', rt_ChannelID = ''channel-0'', rt_DestinationDenom = ''uosmo'',
     rt_Enabled = True\<rparr>"

definition example_node_app :: App where
  "example_node_app = example_app_funded\<lparr>app_router := fst (router_SetRoute (app_router example_app_funded) example_route)\<rparr>"

definition example_server :: "unit NodeServer" where
  "example_server = \<lparr>ns_node = NewABCIApplication node_env example_node_app (), ns_intents = NoFile\<rparr>"

definition example_transfer :: InitiateIBCTransferPayload where
  "example_transfer = \<lparr>ip_Sender = ''alice'', ip_RouteID = [], ip_AssetID = ''eth'', ip_Amount = ''15'', ip_Receiver = ''osmo1bob'',
     ip_TimeoutHeight = 99, ip_Memo = []\<rparr>"

lemma example_server_reachable: "node_reachable node_env example_server"
proof (rule reachable.start)
  have "reachable app_init (app_step example_crypto any_address) example_node_app"
    unfolding example_node_app_def
    by (rule reachable.next_state [OF example_app_funded_reachable app_step.router [OF router_step.set_route]])
  moreover have "bank_persistHook (app_bank example_node_app) = None"
    by (simp add: example_node_app_def example_app_funded_eq credit_hook bank_NewKeeper_def)
  ultimately show "node_init node_env example_server"
    unfolding node_init_def example_server_def by (auto simp: node_env_def)
qed

lemma example_registered: "registry_GetAsset (bk_registry example_funded) ''eth'' = Some example_asset"
  by (simp add: example_funded_simps registry_GetAsset_def assetKey_def go_eval)

lemma example_transfer_runs:
  obtains n t where "applyIBCTransferPayload node_env (ns_node example_server) example_transfer 15 = (n, Inr (t, []))"
proof -
  let ?a = "nd_app (ns_node example_server)"
  have app: "?a = example_node_app" by (simp add: example_server_def NewABCIApplication_def)
  have asset: "registry_GetAsset (bk_registry (app_bridge ?a)) ''eth'' = Some example_asset"
    by (simp add: app example_node_app_def example_app_funded_facts example_registered)
  have bank: "app_bank ?a = app_bank example_app_funded" by (simp add: app example_node_app_def)
  have "snd (bank_Debit (app_bank example_app_funded) ''alice'' ''ueth'' (Some 15)) = None"
    unfolding example_app_funded_eq by simp code_simp
  then obtain k where debit: "bank_Debit (app_bank ?a) ''alice'' ''ueth'' (Some 15) = (k, None)"
    by (metis bank prod.collapse)
  have router: "app_router example_app_funded = router_NewKeeper"
    by (simp add: example_app_funded_eq example_app_def app_SetCurrentHeight_def app_SetLimit_def app_RegisterAsset_def split_beta
        app_NewWithConfig_def newAppFromKeepers_def gov_NewKeeper_def Let_def)
  have "\<exists>r t. router_InitiateTransfer (fst (router_SetRoute router_NewKeeper example_route)) ''eth'' (Some 15) ''osmo1bob'' 99 [] = (r, Inr t)"
    by (simp add: example_route_def router_SetRoute_def router_InitiateTransfer_def router_GetRoute_def initiateTransfer_def Let_def go_eval
        route_ValidateBasic_def canonicalRoute_def routeKey_def router_NewKeeper_def gomap_simps)
  then obtain r t where start: "router_InitiateTransfer (fst (router_SetRoute router_NewKeeper example_route)) ''eth'' (Some 15) ''osmo1bob'' 99 [] = (r, Inr t)"
    by blast
  have "as_Denom example_asset = ''ueth''" by (simp add: example_asset_def)
  with debit have "\<exists>n. applyIBCTransferPayload node_env (ns_node example_server) example_transfer 15 = (n, Inr (t, []))"
    using start by (simp add: applyIBCTransferPayload_def example_transfer_def go_eval asset take_out_def app_WalletBalance_def bank
        example_app_funded_facts sync_balance_def node_env_def app_DebitWallet_def start_transfer_def app_InitiateIBCTransfer_def
        app example_node_app_def router example_registered Let_def)
  then show ?thesis using that by blast
qed

section \<open>Properties\<close>

text \<open>C2: in every state of a running node - after any blocks, commits, checks, requests and
  settlements, with any answers of the SDK chain and of the disk - the wallets hold no more of a denom than its bridged supply, and
  as long as the 64-bit transfer sequence has not wrapped the rest of the supply does not exceed what was put into transfers.\<close>

theorem wallets_and_transfers_cover_supply:
  assumes "node_reachable env s" "a = nd_app (ns_node s)"
  shows "bank_total (app_bank a) d \<le> bridge_SupplyForDenom (app_bridge a) d
     \<and> (unwrapped a \<longrightarrow> bridge_SupplyForDenom (app_bridge a) d \<le> bank_total (app_bank a) d + in_transfers a d)"
proof -
  have inv: "node_inv a" using node.reachable_inv [OF assms(1)] assms(2) by simp
  then have "0 \<le> outstanding a d" "unwrapped a \<Longrightarrow> outstanding a d \<le> in_transfers a d" by (simp_all add: node_inv_def)
  then show ?thesis by (auto simp: outstanding_def)
qed

theorem wallets_and_transfers_cover_supply_witness:
  "bank_total (app_bank (nd_app (ns_node example_server))) ''ueth'' \<le> bridge_SupplyForDenom (app_bridge (nd_app (ns_node example_server))) ''ueth''"
  using wallets_and_transfers_cover_supply [OF example_server_reachable refl] by blast

text \<open>C7: a transfer transaction either starts a pending transfer of its amount, and then the sender paid
  exactly that amount of the asset's denom and no other balance changed (nobody paid when the transaction names no sender); or it
  fails, and then every balance is what it was, also when the SDK chain refused after the debit, and no transfer is pending that was
  not pending before.\<close>

theorem transfer_tx_all_or_nothing:
  assumes "node_reachable env s" "applyIBCTransferPayload env (ns_node s) payload amount = (n, r)"
  shows "case r of
      Inl e \<Rightarrow>
        (\<forall>x d. app_WalletBalance (nd_app n) x d = app_WalletBalance (nd_app (ns_node s)) x d)
        \<and> (\<forall>i t. map_of (ik_transfers (app_router (nd_app n))) i = Some t \<and> tr_Status t = TransferStatusPending
             \<longrightarrow> map_of (ik_transfers (app_router (nd_app (ns_node s)))) i = Some t)
    | Inr (t, events) \<Rightarrow>
        (\<exists>asset. registry_GetAsset (bk_registry (app_bridge (nd_app (ns_node s)))) (ip_AssetID payload) = Some asset
          \<and> (\<forall>x d. app_WalletBalance (nd_app n) x d = app_WalletBalance (nd_app (ns_node s)) x d
               - (if TrimSpace (ip_Sender payload) \<noteq> [] \<and> TrimSpace x = TrimSpace (ip_Sender payload) \<and> TrimSpace d = TrimSpace (as_Denom asset)
                  then amount else 0)))
        \<and> 0 < amount \<and> tr_Amount t = amount \<and> tr_Status t = TransferStatusPending
        \<and> map_of (ik_transfers (app_router (nd_app n))) (tr_TransferID t) = Some t"
proof -
  let ?a = "nd_app (ns_node s)"
  have inv: "bank_persistHook (app_bank ?a) = None" "bank_inv (app_bank ?a)"
    using node.reachable_inv [OF assms(1)] by (simp_all add: node_inv_def app_books_def)
  show ?thesis
  proof (cases rule: transfer_cases [OF refl inv, of env payload amount])
    case (1 e k)
    then show ?thesis using assms(2) by (simp add: app_WalletBalance_def same_wallets_def)
  next
    case (2 e t k rk rk2 reason)
    then show ?thesis using assms(2) by (auto simp: app_WalletBalance_def same_wallets_def gomap_simps failed_of_def split: if_splits)
  next
    case (3 asset t events k rk)
    have balance: "bank_BalanceOf k x d = bank_BalanceOf (app_bank ?a) x d
       - (if TrimSpace (ip_Sender payload) \<noteq> [] \<and> TrimSpace x = TrimSpace (ip_Sender payload) \<and> TrimSpace d = TrimSpace (as_Denom asset)
          then amount else 0)" for x d
      using 3(6) bank.debit_bal [OF inv(2), of "TrimSpace (ip_Sender payload)" "as_Denom asset" amount x d] by auto
    have "map_of (ik_transfers rk) (tr_TransferID t) = Some t" using 3(4) by (simp add: started_def gomap_simps)
    with 3 balance assms(2) show ?thesis by (simp add: app_WalletBalance_def started_def)
  qed
qed

theorem transfer_tx_all_or_nothing_witness:
  "\<exists>n t. applyIBCTransferPayload node_env (ns_node example_server) example_transfer 15 = (n, Inr (t, []))
     \<and> tr_Status t = TransferStatusPending \<and> app_WalletBalance (nd_app n) ''alice'' ''ueth'' = 25"
proof -
  obtain n t where run: "applyIBCTransferPayload node_env (ns_node example_server) example_transfer 15 = (n, Inr (t, []))"
    by (rule example_transfer_runs)
  have app: "nd_app (ns_node example_server) = example_node_app" by (simp add: example_server_def NewABCIApplication_def)
  have before: "app_WalletBalance example_node_app ''alice'' ''ueth'' = 40"
    by (simp add: app_WalletBalance_def example_node_app_def example_app_funded_facts)
  have asset: "registry_GetAsset (bk_registry (app_bridge example_node_app)) ''eth'' = Some example_asset"
    by (simp add: example_node_app_def example_app_funded_facts example_registered)
  have "as_Denom example_asset = ''ueth''" "ip_Sender example_transfer = ''alice''" "ip_AssetID example_transfer = ''eth''"
    by (simp_all add: example_asset_def example_transfer_def)
  with transfer_tx_all_or_nothing [OF example_server_reachable run] before run show ?thesis
    by (simp add: app asset go_eval)
qed




definition example_payload :: ExecuteWithdrawalPayload where
  "example_payload = \<lparr>ep_OwnerAddress = ''bob'', ep_AssetID = ''eth'', ep_Amount = ''5'', ep_Recipient = ''0xr'', ep_Deadline = 50,
     ep_SignatureBase64 = ''cw=='', ep_Height = 1000\<rparr>"

definition example_withdrawal_tx :: demoNodeTx where
  "example_withdrawal_tx = (no_payload ''execute_withdrawal'')\<lparr>dx_ExecuteWithdrawal := Some example_payload\<rparr>"

end
