(* ===== verification/AutoLife.thy ===== *)
theory AutoLife
  imports PublicBridge NodeProperties
begin

text \<open>
  Auto delivery over a running node: how transfers evolve while the node runs, when a bridge session counts as under way, and so
  which intents the coordinator acts on.
\<close>

section \<open>Transfers of a running node\<close>

lemma steps_trans: "steps step t u \<Longrightarrow> steps step s t \<Longrightarrow> steps step s u"
  by (induction rule: steps.induct) (auto intro: steps.more)

lemma steps_one: "step s t \<Longrightarrow> steps step s t"
  by (rule steps.more [OF steps.none])

text \<open>Whatever a node does, its router takes steps of its own.\<close>

abbreviation router_runs :: "App \<Rightarrow> App \<Rightarrow> bool" where
  "router_runs a a' \<equiv> steps router_step (app_router a) (app_router a')"

lemma router_same: "app_router a' = app_router a \<Longrightarrow> router_runs a a'"
  by (simp add: steps.none)

lemma transfer_router:
  assumes "node_inv (nd_app n)"
  shows "router_runs (nd_app n) (nd_app (fst (applyIBCTransferPayload env n payload amount)))"
proof -
  have hook: "bank_persistHook (app_bank (nd_app n)) = None" "bank_inv (app_bank (nd_app n))"
    using assms by (simp_all add: node_inv_def app_books_def)
  show ?thesis
  proof (cases rule: transfer_cases [OF refl hook, of env payload amount])
    case (1 e k)
    then show ?thesis by (simp add: router_same)
  next
    case (2 e t k rk rk2 reason)
    then show ?thesis using steps.more [OF steps_one] by simp
  next
    case (3 asset t events k rk)
    then show ?thesis using steps_one by simp
  qed
qed

lemma tx_router:
  assumes "node_inv (nd_app n)"
  shows "router_runs (nd_app n) (nd_app (fst (applyDemoNodeTx env n tx)))"
proof (cases "decodeDemoNodeTx tx")
  case (Inl e)
  then show ?thesis by (simp add: applyDemoNodeTx_def steps.none)
next
  case (Inr t)
  note run = applyDemoNodeTx_def Inr Let_def split_beta
  consider "dx_Type t = ''queue_deposit_claim''" | "dx_Type t = ''initiate_ibc_transfer''" | "dx_Type t = ''execute_withdrawal''"
    | "dx_Type t = ''fund_account''" | "dx_Type t \<notin> {''queue_deposit_claim'', ''initiate_ibc_transfer'', ''execute_withdrawal'', ''fund_account''}"
    by blast
  then show ?thesis
  proof cases
    case 1
    have "app_router (fst (app_QueueDepositClaim b a c at)) = app_router a" for b a c at
      using queue_only_pending [of b a c at] by auto
    with 1 show ?thesis by (simp add: run steps.none split: sum.split option.split)
  next
    case 2
    then show ?thesis by (simp add: run steps.none transfer_router [OF assms] split: sum.split)
  next
    case 3
    have a1: "node_inv (if c then app_SetCurrentHeight (nd_app n) h else nd_app n)" for c h using assms node_inv_height by simp
    have "app_router (fst (app_ExecuteWithdrawal b a x i v r d g)) = app_router a" if "node_inv a" for a b x i v r d g
      using withdraw_frame [OF node_books [OF that], of b x i v r d g] by (simp add: app_frame_def)
    moreover have "app_router (app_SetCurrentHeight a h) = app_router a" for a h by (simp add: app_SetCurrentHeight_def)
    ultimately show ?thesis using 3 assms by (simp add: run node_inv_height steps.none split: sum.split)
  next
    case 4
    then show ?thesis by (simp add: run steps.none split: sum.split option.split)
  next
    case 5
    then show ?thesis by (simp add: run steps.none)
  qed
qed

lemma txs_router: "node_inv (nd_app n) \<Longrightarrow> router_runs (nd_app n) (nd_app (fst (apply_txs env txs n)))"
proof (induction txs arbitrary: n)
  case (Cons tx txs)
  have "router_runs (nd_app (fst (applyDemoNodeTx env n tx))) (nd_app (fst (apply_txs env txs (fst (applyDemoNodeTx env n tx)))))"
    by (rule Cons.IH [OF node_inv_tx [OF Cons.prems]])
  from steps_trans [OF this tx_router [OF Cons.prems]] show ?case by (simp add: split_beta)
qed (simp add: steps.none)

lemma finalize_router:
  assumes "node_inv (nd_app n)" "node_FinalizeBlock env n height txs = Some (n', r)"
  shows "router_runs (nd_app n) (nd_app n')"
proof (cases "list_ex is_demo_tx txs \<and> list_ex (\<lambda>tx. \<not> is_demo_tx tx) txs")
  case True
  then have "n' = n" using assms(2) unfolding node_FinalizeBlock_def Let_def by simp
  then show ?thesis by (simp add: steps.none)
next
  case unmixed: False
  show ?thesis
  proof (cases "list_ex is_demo_tx txs \<or> ne_chainApp env = None")
    case True
    let ?n0 = "n\<lparr>nd_lastFinalizeUsedBaseApp := False, nd_pendingBaseAppCommit := False\<rparr>"
    show ?thesis
      by (rule finalize_node_block [OF assms(1) unmixed True, of height])
         (use assms txs_router [of ?n0 env txs] in simp)
  next
    case False
    then have c: "(list_ex is_demo_tx txs \<and> list_ex (\<lambda>tx. \<not> is_demo_tx tx) txs) = False"
      "(\<not> list_ex is_demo_tx txs \<and> ne_chainApp env \<noteq> None) = True" by auto
    have "nd_app n' \<in> {nd_app n, app_SetCurrentHeight (nd_app n) (word_of_int height)}"
      using assms(2) unfolding node_FinalizeBlock_def Let_def c if_True if_False
      by (auto split: prod.splits sum.splits)
    then show ?thesis by (auto simp: app_SetCurrentHeight_def steps.none)
  qed
qed

lemma start_router: "router_runs a (fst (start_transfer a payload amount))"
  by (cases rule: start_transfer_cases [of a payload amount]) (simp_all add: steps.none steps_one)

lemma ensure_assets_router [simp]: "app_router (fst (ensure_assets assets a)) = app_router a"
  by (induction assets arbitrary: a)
     (simp_all add: ensureSeededAsset_def app_RegisterAsset_def split_beta split: option.split prod.split)

lemma set_limits_router [simp]: "app_router (fst (set_limits parsed ls a)) = app_router a"
  by (induction ls arbitrary: a) (simp_all add: app_SetLimit_def split_beta split: option.split)

lemma request_router: "router_runs (nd_app (ns_node s)) (nd_app (ns_node (fst (serveHTTP env resolver disk s meth request))))"
proof -
  have queue: "app_router (fst (app_QueueDepositClaim b a c at)) = app_router a" for b a c at
    using queue_only_pending [of b a c at] by auto
  have profile: "router_runs a (fst (app_SetRouteProfile a p))" for a p
    by (simp add: app_SetRouteProfile_def split_beta steps_one router_step.set_profile)
  show ?thesis
    by (cases request)
       (simp_all add: serveHTTP_def Let_def split_beta post_handler_node steps.none handleQueueDepositClaim_def queue
          handleInitiateIBCTransfer_def start_router handleSeedBridgeAssets_def handleSetRouteProfile_def profile
          split: sum.split option.split)
qed

lemma node_step_router:
  "node_inv (nd_app (ns_node s)) \<Longrightarrow> node_step env s t \<Longrightarrow> router_runs (nd_app (ns_node s)) (nd_app (ns_node t))"
  by (erule node_step.cases) (simp_all add: finalize_router request_router steps.none steps_one)

lemma node_steps_router:
  assumes "steps (node_step env) s t" "node_inv (nd_app (ns_node s))"
  shows "router_runs (nd_app (ns_node s)) (nd_app (ns_node t))"
  by (rule node.steps_related [OF assms]) (auto intro: steps.none steps_trans node_step_router)

text \<open>So a transfer stays, with its terms, until the sequence of the transfers wraps.\<close>

lemma transfer_stays:
  assumes "steps (node_step env) s t" "node_inv (nd_app (ns_node s))" "unwrapped (nd_app (ns_node t))"
    "map_of (ik_transfers (app_router (nd_app (ns_node s)))) key = Some r"
  obtains r' where "map_of (ik_transfers (app_router (nd_app (ns_node t)))) key = Some r'" "same_terms r r'"
proof -
  have "router_inv (app_router (nd_app (ns_node s)))" using assms(2) by (simp add: node_inv_def)
  then have "transfers_evolve (app_router (nd_app (ns_node s))) (app_router (nd_app (ns_node t)))"
    using router_steps_evolve [OF node_steps_router [OF assms(1,2)]] assms(3) by (simp add: unwrapped_def)
  then show ?thesis using assms(4) that unfolding transfers_evolve_def by blast
qed


section \<open>Sessions and intents\<close>

lemma first_transfer_None: "first_transfer ts = None \<longleftrightarrow> ts = []"
  by (cases ts) (auto split: option.split)

lemma session_result_status:
  "sv_Status (session_result t found view) \<in> {''completed'', ''osmosis_pending'', ''failed''}"
  by (simp add: session_result_def)

text \<open>A claim that a transfer matches is never shown as being processed.\<close>

lemma matched_session:
  assumes "TrimSpace h \<noteq> []" "findClaimBySourceTxHash app h = Some claim"
    "findDeliveryIntentBySourceTxHash f h = Inr i" "map_of (ik_transfers (app_router app)) key = Some t"
    "claim_matches claim i (transfer_snapshot t)"
  shows "\<exists>view. ResolveBridgeSessionView app f resolver h = Inr view \<and> sv_Status view \<in> {''completed'', ''osmosis_pending'', ''failed''}"
proof -
  have trim: "findClaimBySourceTxHash app (TrimSpace h) = findClaimBySourceTxHash app h"
    "findDeliveryIntentBySourceTxHash f (TrimSpace h) = findDeliveryIntentBySourceTxHash f h"
    by (simp_all add: findClaimBySourceTxHash_def findDeliveryIntentBySourceTxHash_def same_hash_def split: sum.split)
  have "transfer_snapshot t \<in> set (rs_Transfers (router_ExportState (app_router app)))"
    using map_of_SomeD [OF assms(4)] by (force simp: router_ExportState_def)
  with assms(5) have "filter (claim_matches claim i) (rs_Transfers (router_ExportState (app_router app))) \<noteq> []"
    by (auto simp: filter_empty_conv)
  then have "\<exists>u. first_transfer (filter (claim_matches claim i) (rs_Transfers (router_ExportState (app_router app)))) = Some u"
    using first_transfer_None by blast
  then have "findTransferForClaim app claim i \<noteq> None"
    by (auto simp: findTransferForClaim_def Let_def split: option.split)
  then obtain u tp where "findTransferForClaim app claim i = Some (u, tp)" by auto
  then show ?thesis
    using assms(1-3) session_result_status
    by (auto simp: ResolveBridgeSessionView_def Let_def trim split: option.split sum.split)
qed

text \<open>A status query leaves the node alone and shows what its session says.\<close>

lemma auto_remote_cases:
  obtains (arrived) os where "auto_remote call w = call (w\<lparr>aw_outcomes := os\<rparr>)"
  | (lost) os e where "auto_remote call w = (fst (call (w\<lparr>aw_outcomes := os\<rparr>)), Inl e)"
  | (unsent) os e where "auto_remote call w = (w\<lparr>aw_outcomes := os\<rparr>, Inl e)"
proof (cases "aw_outcomes w")
  case Nil
  then have "auto_remote call w = call w" "w\<lparr>aw_outcomes := []\<rparr> = w" by (simp_all add: auto_remote_def)
  then show ?thesis using that(1) [of "[]"] by simp
next
  case (Cons outcome rest)
  then show ?thesis using that(1) [of rest] that(2) [of rest] that(3) [of rest] by (cases outcome) (simp_all add: auto_remote_def)
qed


lemma QueryStatus_cases:
  fixes w :: "'c AutoWorld"
  assumes "networked_QueryStatus env resolver w h = (w1, r)"
  shows "aw_server w1 = aw_server w"
    "r = Inr status \<Longrightarrow> \<exists>view. ResolveBridgeSessionView (nd_app (ns_node (aw_server w))) (ns_intents (aw_server w)) resolver (TrimSpace h) = Inr view
       \<and> status = \<lparr>bs_Status = sv_Status view, bs_ChannelID = sv_ChannelID view\<rparr>"
proof -
  let ?call = "\<lambda>w :: 'c AutoWorld. case serveHTTP env resolver Written (aw_server w) GET (SessionRequest (TrimSpace h)) of
       (s, status, reply) \<Rightarrow>
         (w\<lparr>aw_server := s\<rparr>,
          if status \<noteq> 200 then Inl (RelayError ''query failed'')
          else case (case reply of ReplySession v \<Rightarrow> Some v | _ \<Rightarrow> None) of None \<Rightarrow> Inl (RelayError ''decode reply'') | Some v \<Rightarrow> Inr v)"
  have run: "networked_QueryStatus env resolver w h =
      (case auto_remote ?call w of (w1, Inl e) \<Rightarrow> (w1, Inl e)
       | (w1, Inr view) \<Rightarrow> (w1, Inr \<lparr>bs_Status = sv_Status view, bs_ChannelID = sv_ChannelID view\<rparr>))"
    by (simp add: networked_QueryStatus_def QueryBridgeSession_def node_request_def)
  have call: "aw_server (fst (?call u)) = aw_server u"
    "snd (?call u) = Inr view \<Longrightarrow> ResolveBridgeSessionView (nd_app (ns_node (aw_server u))) (ns_intents (aw_server u)) resolver (TrimSpace h) = Inr view"
    for u :: "'c AutoWorld" and view
    by (auto simp: serveHTTP_def Let_def split: sum.splits if_splits)
  have "aw_server w1 = aw_server w \<and> (\<forall>status. r = Inr status \<longrightarrow>
      (\<exists>view. ResolveBridgeSessionView (nd_app (ns_node (aw_server w))) (ns_intents (aw_server w)) resolver (TrimSpace h) = Inr view
       \<and> status = \<lparr>bs_Status = sv_Status view, bs_ChannelID = sv_ChannelID view\<rparr>))"
  proof (cases rule: auto_remote_cases [of ?call w])
    case (arrived os)
    then show ?thesis using assms call [of "w\<lparr>aw_outcomes := os\<rparr>"] unfolding run
      by (auto simp del: split_paired_Ex split: prod.splits sum.splits)
  next
    case (lost os e)
    then show ?thesis using assms call [of "w\<lparr>aw_outcomes := os\<rparr>"] unfolding run by auto
  next
    case (unsent os e)
    then show ?thesis using assms unfolding run by auto
  qed
  then show "aw_server w1 = aw_server w"
    "r = Inr status \<Longrightarrow> \<exists>view. ResolveBridgeSessionView (nd_app (ns_node (aw_server w))) (ns_intents (aw_server w)) resolver (TrimSpace h) = Inr view
       \<and> status = \<lparr>bs_Status = sv_Status view, bs_ChannelID = sv_ChannelID view\<rparr>" by blast+
qed

lemma Flush_server [simp]: "aw_server (fst (rly_Flush f w routeName channel)) = aw_server w"
  by (cases rule: auto_remote_cases [of "\<lambda>w. (w\<lparr>aw_flushed := aw_flushed w @ [(resolvePath f routeName, TrimSpace channel)]\<rparr>, Inr ())" w])
     (simp_all add: rly_Flush_def Let_def as_error_def)

text \<open>An intent whose session is not waiting for a transfer does not get one.\<close>

lemma auto_idle:
  assumes "\<And>view. ResolveBridgeSessionView (nd_app (ns_node (aw_server w))) (ns_intents (aw_server w)) resolver (TrimSpace (it_SourceTxHash intent))
      = Inr view \<Longrightarrow> sv_Status view \<noteq> ''aegislink_processing''"
    "\<And>view. ResolveBridgeSessionView (nd_app (ns_node (aw_server w))) (ns_intents (aw_server w)) resolver (TrimSpace (it_SourceTxHash intent))
      = Inr view \<Longrightarrow> TrimSpace (sv_Status view) = sv_Status view"
    "auto_intent (networked_coordinator env resolver th f) intent w summary = (w', summary', e)"
  shows "aw_server w' = aw_server w \<and> au_TransfersInitiated summary' = au_TransfersInitiated summary"
proof -
  have flush: "aw_server (fst (auto_flush (networked_coordinator env resolver th f) n c u s)) = aw_server u
      \<and> au_TransfersInitiated (fst (snd (auto_flush (networked_coordinator env resolver th f) n c u s))) = au_TransfersInitiated s" for n c u s
    using Flush_server [of f u n c]
    by (auto simp: auto_flush_def networked_coordinator_def simp del: Flush_server split: prod.splits option.splits)
  obtain w1 r where q: "networked_QueryStatus env resolver w (it_SourceTxHash intent) = (w1, r)" by fastforce
  note server = QueryStatus_cases(1) [OF q] and status = QueryStatus_cases(2) [OF q]
  show ?thesis
  proof (cases r)
    case (Inl e')
    then show ?thesis using assms(3) q server by (auto simp: auto_intent_def networked_coordinator_def)
  next
    case (Inr st)
    then have "TrimSpace (bs_Status st) \<noteq> ''aegislink_processing''" using status [of st] assms(1,2) by fastforce
    then show ?thesis
      using assms(3) q server Inr flush [of "it_RouteID intent" "TrimSpace (bs_ChannelID st)" w1 summary]
      by (auto simp: auto_intent_def networked_coordinator_def Let_def split: if_splits)
  qed
qed

section \<open>Starting a delivery\<close>

lemma decode_again:
  "decodeInitiateIBCTransferPayload payload = Inr (p, v) \<Longrightarrow>
     decodeInitiateIBCTransferPayload p = Inr (p, v) \<and> ip_AssetID p = ip_AssetID payload \<and> ip_Receiver p = ip_Receiver payload
     \<and> TrimSpace (ip_Receiver payload) \<noteq> [] \<and> SetString10 (TrimSpace (ip_Amount payload)) = Some v"
  by (auto simp: decodeInitiateIBCTransferPayload_def Let_def split: if_splits option.splits)

text \<open>A transaction that was encoded for a transfer is read as that transfer.\<close>

lemma encoded_transfer:
  assumes "encodeInitiateIBCTransferTx payload = Inr tx"
  obtains p v where "decodeInitiateIBCTransferPayload payload = Inr (p, v)" "is_demo_tx tx"
    "fst (applyDemoNodeTx env n tx) = fst (applyIBCTransferPayload env n p v)"
    "snd (applyDemoNodeTx env n tx) = (case snd (applyIBCTransferPayload env n p v) of
        Inl e \<Rightarrow> ExecFailed e | Inr (t, events) \<Rightarrow> ExecOK (TransferResult t) events)"
proof -
  obtain p v where dec: "decodeInitiateIBCTransferPayload payload = Inr (p, v)"
    and tx: "tx = JsonTx ((no_payload ''initiate_ibc_transfer'')\<lparr>dx_InitiateIBCTransfer := Some p\<rparr>)"
    using assms by (auto simp: encodeInitiateIBCTransferTx_def split: sum.splits)
  have read: "decodeDemoNodeTx tx = Inr ((no_payload ''initiate_ibc_transfer'')\<lparr>dx_InitiateIBCTransfer := Some p\<rparr>)"
    using decode_again [OF dec] by (simp add: tx decodeDemoNodeTx_def no_payload_def payload_error_def go_eval Let_def)
  then have "is_demo_tx tx" by (simp add: is_demo_tx_def)
  moreover have "fst (applyDemoNodeTx env n tx) = fst (applyIBCTransferPayload env n p v)"
    "snd (applyDemoNodeTx env n tx) = (case snd (applyIBCTransferPayload env n p v) of
        Inl e \<Rightarrow> ExecFailed e | Inr (t, events) \<Rightarrow> ExecOK (TransferResult t) events)"
    using decode_again [OF dec] by (simp_all add: applyDemoNodeTx_def read no_payload_def split_beta split: sum.split)
  ultimately show ?thesis using dec by (intro that)
qed

text \<open>A transfer with the terms of a payload.\<close>

definition pays_for :: "InitiateIBCTransferPayload \<Rightarrow> TransferRecord \<Rightarrow> bool" where
  "pays_for payload t \<longleftrightarrow> tr_AssetID t = TrimSpace (ip_AssetID payload) \<and> tr_Receiver t = TrimSpace (ip_Receiver payload)
     \<and> TrimSpace (ip_Receiver payload) \<noteq> [] \<and> SetString10 (TrimSpace (ip_Amount payload)) = Some (tr_Amount t)"

abbreviation transfers_of :: "'c AutoWorld \<Rightarrow> (string, TransferRecord) gomap" where
  "transfers_of w \<equiv> ik_transfers (app_router (nd_app (ns_node (aw_server w))))"

lemma next_block_cases:
  assumes inv: "node_inv (nd_app (ns_node (aw_server w)))" and enc: "encodeInitiateIBCTransferTx payload = Inr tx"
  shows "steps (node_step env) (aw_server w) (aw_server (fst (next_block env tx w)))
     \<and> (transfers_of (fst (next_block env tx w)) = transfers_of w
        \<or> (\<exists>key t. map_of (transfers_of (fst (next_block env tx w))) key = Some t \<and> pays_for payload t))"
proof -
  let ?n = "ns_node (aw_server w)"
  let ?m = "?n\<lparr>nd_lastFinalizeUsedBaseApp := False, nd_pendingBaseAppCommit := False\<rparr>"
  obtain p v where dec: "decodeInitiateIBCTransferPayload payload = Inr (p, v)" and demo: "is_demo_tx tx"
    and runs: "fst (applyDemoNodeTx env ?m tx) = fst (applyIBCTransferPayload env ?m p v)"
    by (rule encoded_transfer [OF enc])
  have check: "node_CheckTx env ?n tx = (?n, 0)" by (simp add: node_CheckTx_def demo)
  obtain n' r where fin: "node_FinalizeBlock env ?n (aw_height w + 1) [tx] = Some (n', r)"
    and router: "app_router (nd_app n') = app_router (nd_app (fst (apply_txs env [tx] ?m)))"
    by (rule finalize_node_block [OF inv, of "[tx]" env "aw_height w + 1"]) (use demo in auto)
  have "transfers_of (fst (next_block env tx w)) = ik_transfers (app_router (nd_app n'))"
    by (simp add: next_block_def check fin Let_def split: sum.split)
  also have "\<dots> = ik_transfers (app_router (nd_app (fst (applyIBCTransferPayload env ?m p v))))"
    by (simp add: router split_beta runs)
  finally have transfers: "transfers_of (fst (next_block env tx w)) = \<dots>" .
  have hook: "bank_persistHook (app_bank (nd_app ?m)) = None" "bank_inv (app_bank (nd_app ?m))"
    using inv by (simp_all add: node_inv_def app_books_def)
  have paid: "started (nd_app ?m) p v t k \<Longrightarrow> pays_for payload t" "started (nd_app ?m) p v t k \<Longrightarrow> pays_for payload (failed_of t reason)"
    for t k reason using decode_again [OF dec] by (auto simp: started_def pays_for_def failed_of_def)
  have "transfers_of (fst (next_block env tx w)) = transfers_of w
        \<or> (\<exists>key t. map_of (transfers_of (fst (next_block env tx w))) key = Some t \<and> pays_for payload t)"
  proof (cases rule: transfer_cases [OF refl hook, of env p v])
    case (1 e k)
    then show ?thesis by (simp add: transfers)
  next
    case (2 e t k rk rk2 reason)
    then show ?thesis using paid(2) by (auto simp: transfers gomap_simps)
  next
    case (3 asset t events k rk)
    then show ?thesis using paid(1) unfolding transfers by (auto simp: started_def gomap_simps)
  qed
  moreover have "steps (node_step env) (aw_server w) (aw_server (fst (next_block env tx w)))"
  proof -
    let ?s1 = "(aw_server w)\<lparr>ns_node := n'\<rparr>"
    have "node_step env (aw_server w) ?s1" using node_step.block [OF fin] by simp
    moreover have "node_step env ?s1 ((aw_server w)\<lparr>ns_node := fst (node_Commit env Written n')\<rparr>)"
      using node_step.commit [of env ?s1 Written] by simp
    ultimately show ?thesis
      using steps_one [of "node_step env"] steps.more [OF steps_one [of "node_step env"]]
      by (auto simp: next_block_def check fin Let_def split: sum.split)
  qed
  ultimately show ?thesis by blast
qed

lemma record_intent:
  fixes w :: "'c AutoWorld"
  shows
  "steps (node_step env) (aw_server w) (aw_server (fst (recordIntentTransfer env w intent transfer)))
   \<and> ns_node (aw_server (fst (recordIntentTransfer env w intent transfer))) = ns_node (aw_server w)"
proof -
  let ?i = "\<lparr>di_SourceTxHash = it_SourceTxHash intent, di_Sender = it_Sender intent, di_RouteID = it_RouteID intent,
      di_AssetID = it_AssetID intent, di_Amount = it_Amount intent, di_Receiver = it_Receiver intent,
      di_TransferID = tv_TransferID transfer, di_ChannelID = tv_ChannelID transfer\<rparr>"
  show ?thesis
  proof (cases "normalizeDeliveryIntent ?i")
    case (Inl e)
    then show ?thesis by (simp add: recordIntentTransfer_def RegisterDeliveryIntentOverHTTP_def steps.none)
  next
    case (Inr i)
    let ?call = "\<lambda>w :: 'c AutoWorld. case serveHTTP env None Written (aw_server w) POST (PostIntent (Inr i)) of
       (s, status, reply) \<Rightarrow>
         (w\<lparr>aw_server := s\<rparr>,
          if status \<noteq> 200 then Inl (RelayError ''query failed'')
          else case (case reply of ReplyIntent stored \<Rightarrow> Some stored | _ \<Rightarrow> None) of
            None \<Rightarrow> Inl (RelayError ''decode reply'') | Some v \<Rightarrow> Inr v)"
    have run: "recordIntentTransfer env w intent transfer = auto_remote ?call w"
      by (simp add: recordIntentTransfer_def RegisterDeliveryIntentOverHTTP_def node_request_def Inr)
    have call: "aw_server (fst (?call u)) = fst (serveHTTP env None Written (aw_server u) POST (PostIntent (Inr i)))" for u :: "'c AutoWorld"
      by (simp add: split_beta)
    have "steps (node_step env) (aw_server u) (aw_server (fst (?call u))) \<and> ns_node (aw_server (fst (?call u))) = ns_node (aw_server u)"
      for u :: "'c AutoWorld"
      unfolding call by (simp add: steps_one node_step.request) (simp add: serveHTTP_def split_beta split: sum.split)
    from this [of "w\<lparr>aw_outcomes := _\<rparr>"] show ?thesis
      unfolding run by (cases rule: auto_remote_cases [of ?call w]) (simp_all add: steps.none)
  qed
qed

lemma InitiateTransfer_cases:
  assumes "node_inv (nd_app (ns_node (aw_server w)))" "networked_InitiateTransfer env th w intent = (w', r)"
  shows "steps (node_step env) (aw_server w) (aw_server w')
     \<and> (transfers_of w' = transfers_of w \<or> (\<exists>key t. map_of (transfers_of w') key = Some t \<and> pays_for (transfer_payload th intent) t))"
proof (cases "encodeInitiateIBCTransferTx (transfer_payload th intent)")
  case (Inl e)
  then have "w' = w" using assms(2) by (simp add: networked_InitiateTransfer_def SubmitInitiateIBCTransfer_def)
  then show ?thesis by (simp add: steps.none)
next
  case (Inr tx)
  obtain w1 r1 where remote: "auto_remote (next_block env tx) w = (w1, r1)" by fastforce
  have sent: "steps (node_step env) (aw_server w) (aw_server w1)
     \<and> (transfers_of w1 = transfers_of w \<or> (\<exists>key t. map_of (transfers_of w1) key = Some t \<and> pays_for (transfer_payload th intent) t))"
    using next_block_cases [of "w\<lparr>aw_outcomes := _\<rparr>", OF _ Inr] assms(1) remote
    by (cases rule: auto_remote_cases [of "next_block env tx" w]) (auto simp: steps.none prod_eq_iff)
  have "w' = w1 \<or> (\<exists>transfer. w' = fst (recordIntentTransfer env w1 intent transfer))"
  proof -
    have "fst (broadcastTxJSON env tx w) = w1" by (simp add: broadcastTxJSON_def remote split: sum.split ExecTxResult.split)
    then have "fst (SubmitInitiateIBCTransfer env w (transfer_payload th intent)) = w1"
      by (auto simp: SubmitInitiateIBCTransfer_def Inr split: sum.split prod.split TxData.split)
    then obtain r2 where "SubmitInitiateIBCTransfer env w (transfer_payload th intent) = (w1, r2)" by (metis prod.collapse)
    then show ?thesis
      using assms(2) by (cases r2; simp add: networked_InitiateTransfer_def split: prod.splits sum.splits) (metis fst_conv)+
  qed
  then show ?thesis
    using sent record_intent [of env w1 intent] steps_trans [of "node_step env" "aw_server w1"] by auto
qed

text \<open>While a transfer with the terms of an intent exists, the coordinator starts no other for it.\<close>

lemma paid_intent_idle:
  assumes inv: "node_inv (nd_app (ns_node s))" and paid: "map_of (ik_transfers (app_router (nd_app (ns_node s)))) key = Some t"
      "TrimSpace (tr_AssetID t) = TrimSpace (cs_AssetID claim)" "TrimSpace (tr_Receiver t) = expected di_Receiver i (cs_Recipient claim)"
      "show_int (tr_Amount t) = expected di_Amount i (cs_Amount claim)"
    and later: "steps (node_step env) s (aw_server w)" "unwrapped (nd_app (ns_node (aw_server w)))"
    and claim: "TrimSpace (it_SourceTxHash intent) \<noteq> []"
      "findClaimBySourceTxHash (nd_app (ns_node (aw_server w))) (it_SourceTxHash intent) = Some claim"
      "findDeliveryIntentBySourceTxHash (ns_intents (aw_server w)) (it_SourceTxHash intent) = Inr i"
    and run: "auto_intent (networked_coordinator env resolver th f) intent w summary = (w', summary', e)"
  shows "aw_server w' = aw_server w \<and> au_TransfersInitiated summary' = au_TransfersInitiated summary"
proof (rule auto_idle [OF _ _ run])
  obtain r where r: "map_of (ik_transfers (app_router (nd_app (ns_node (aw_server w))))) key = Some r" "same_terms t r"
    by (rule transfer_stays [OF later(1) inv later(2) paid(1)])
  then have "claim_matches claim i (transfer_snapshot r)"
    using paid(2,3) by (simp add: claim_matches_def transfer_snapshot_def same_terms_def flip: paid(4))
  from matched_session [OF claim r(1) this, of resolver]
  obtain view where view: "ResolveBridgeSessionView (nd_app (ns_node (aw_server w))) (ns_intents (aw_server w)) resolver (it_SourceTxHash intent) = Inr view"
    "sv_Status view \<in> {''completed'', ''osmosis_pending'', ''failed''}" by blast
  have trim: "ResolveBridgeSessionView a is resolver (TrimSpace h) = ResolveBridgeSessionView a is resolver h" for a "is" h
    by (simp add: ResolveBridgeSessionView_def)
  fix view'
  assume "ResolveBridgeSessionView (nd_app (ns_node (aw_server w))) (ns_intents (aw_server w)) resolver (TrimSpace (it_SourceTxHash intent)) = Inr view'"
  then have "view' = view" using view(1) by (simp add: trim)
  then show "sv_Status view' \<noteq> ''aegislink_processing''" "TrimSpace (sv_Status view') = sv_Status view'"
    using view(2) by (auto simp: go_eval)
qed

end
