(* ===== verification/AutoProperties.thy ===== *)
theory AutoProperties
  imports AutoLife
begin

text \<open>
  The properties of delivery intents and of auto delivery, with a node on which a deposit waits for its delivery.
\<close>

section \<open>Intents are kept per deposit\<close>

text \<open>What the file of the intents holds: at most one intent per hash, whatever its letter case, and hashes without white space around
  them.\<close>

definition intents_of :: "IntentFile \<Rightarrow> DeliveryIntent list" where
  "intents_of f = (case f of Intents is \<Rightarrow> is | _ \<Rightarrow> [])"

definition intents_inv :: "IntentFile \<Rightarrow> bool" where
  "intents_inv f \<longleftrightarrow> distinct (map (\<lambda>i. ToLower (di_SourceTxHash i)) (intents_of f))
     \<and> (\<forall>i \<in> set (intents_of f). TrimSpace (di_SourceTxHash i) = di_SourceTxHash i)"

definition found :: "DeliveryIntent list \<Rightarrow> string \<Rightarrow> DeliveryIntent option" where
  "found is h = find (\<lambda>i. same_hash (di_SourceTxHash i) h) is"

lemma normalized_hash:
  "normalizeDeliveryIntent i = Inr j \<Longrightarrow> di_SourceTxHash j = TrimSpace (di_SourceTxHash i) \<and> TrimSpace (di_SourceTxHash i) \<noteq> []"
  by (auto simp: normalizeDeliveryIntent_def Let_def split: if_splits)

lemma same_hash_trimmed: "TrimSpace x = x \<Longrightarrow> same_hash x h \<longleftrightarrow> ToLower x = ToLower (TrimSpace h)"
  by (simp add: same_hash_def EqualFold_def)

text \<open>With one intent per hash a lookup finds the intent of that hash, in whatever order they are stored.\<close>

lemma found_iff:
  assumes "distinct (map (\<lambda>i. ToLower (di_SourceTxHash i)) is)" "\<forall>i \<in> set is. TrimSpace (di_SourceTxHash i) = di_SourceTxHash i"
  shows "found is h = Some i \<longleftrightarrow> i \<in> set is \<and> ToLower (di_SourceTxHash i) = ToLower (TrimSpace h)"
  using assms by (induction "is") (auto simp: found_def same_hash_trimmed image_iff)

lemma found_cong:
  assumes "distinct (map (\<lambda>i. ToLower (di_SourceTxHash i)) is)" "\<forall>i \<in> set is. TrimSpace (di_SourceTxHash i) = di_SourceTxHash i"
    "distinct (map (\<lambda>i. ToLower (di_SourceTxHash i)) js)" "\<forall>i \<in> set js. TrimSpace (di_SourceTxHash i) = di_SourceTxHash i"
    "\<And>i. ToLower (di_SourceTxHash i) = ToLower (TrimSpace h) \<Longrightarrow> i \<in> set is \<longleftrightarrow> i \<in> set js"
  shows "found is h = found js h"
proof -
  have "found is h = Some i \<longleftrightarrow> found js h = Some i" for i using found_iff [OF assms(1,2)] found_iff [OF assms(3,4)] assms(5) by blast
  then show ?thesis by (metis option_eqI)
qed

lemma replace_intent_None: "replace_intent i is = None \<longleftrightarrow> (\<forall>j \<in> set is. ToLower (di_SourceTxHash j) \<noteq> ToLower (di_SourceTxHash i))"
  by (induction "is") (auto simp: EqualFold_def)

lemma replace_intent_Some:
  "replace_intent i is = Some js \<Longrightarrow> map (\<lambda>i. ToLower (di_SourceTxHash i)) js = map (\<lambda>i. ToLower (di_SourceTxHash i)) is
     \<and> i \<in> set js \<and> set js \<subseteq> insert i (set is)
     \<and> (\<forall>j \<in> set is. ToLower (di_SourceTxHash j) \<noteq> ToLower (di_SourceTxHash i) \<longrightarrow> j \<in> set js)"
  by (induction "is" arbitrary: js) (auto simp: EqualFold_def split: if_splits)

text \<open>A registration that is accepted stores its intent for its hash and keeps the intents of all others.\<close>

lemma registered:
  assumes "intents_inv f" "RegisterDeliveryIntent disk f i = (f', Inr j)"
  shows "intents_inv f' \<and> found (intents_of f') h
     = (if same_hash h (di_SourceTxHash i) then Some j else found (intents_of f) h) \<and> (\<exists>is. f' = Intents is)"
proof -
  let ?key = "\<lambda>i. ToLower (di_SourceTxHash i)"
  have n: "normalizeDeliveryIntent i = Inr j" and disk: "disk = Written"
    using assms(2) by (auto simp: RegisterDeliveryIntent_def saveDeliveryIntents_def Let_def split: sum.splits write_outcome.splits)
  have load: "loadDeliveryIntents f = Inr (intents_of f)"
    using assms(2) n by (cases f) (simp_all add: RegisterDeliveryIntent_def loadDeliveryIntents_def intents_of_def)
  define js where "js = (case replace_intent j (intents_of f) of Some replaced \<Rightarrow> replaced
    | None \<Rightarrow> sort_key di_SourceTxHash (intents_of f @ [j]))"
  have f': "f' = Intents js" using assms(2) n load disk by (simp add: RegisterDeliveryIntent_def saveDeliveryIntents_def Let_def js_def)
  have trimmed: "TrimSpace (di_SourceTxHash j) = di_SourceTxHash j" using normalized_hash [OF n] by simp
  have inv: "distinct (map ?key (intents_of f))" "\<forall>i \<in> set (intents_of f). TrimSpace (di_SourceTxHash i) = di_SourceTxHash i"
    using assms(1) by (auto simp: intents_inv_def)
  have js: "distinct (map ?key js)" "set js \<subseteq> insert j (set (intents_of f))" "j \<in> set js"
    "\<forall>k \<in> set (intents_of f). ?key k \<noteq> ?key j \<longrightarrow> k \<in> set js"
  proof -
    have "distinct (map ?key js) \<and> set js \<subseteq> insert j (set (intents_of f)) \<and> j \<in> set js
      \<and> (\<forall>k \<in> set (intents_of f). ?key k \<noteq> ?key j \<longrightarrow> k \<in> set js)"
    proof (cases "replace_intent j (intents_of f)")
      case None
      then have "distinct (map ?key (intents_of f @ [j]))" using inv(1) replace_intent_None [of j "intents_of f"] by auto
      then have "distinct (map ?key js)"
        by (metis None js_def mset_map mset_eq_imp_distinct_iff mset_sort option.simps(4))
      then show ?thesis by (auto simp: js_def None)
    next
      case (Some replaced)
      then show ?thesis using replace_intent_Some [OF Some] inv(1) by (simp add: js_def)
    qed
    then show "distinct (map ?key js)" "set js \<subseteq> insert j (set (intents_of f))" "j \<in> set js"
      "\<forall>k \<in> set (intents_of f). ?key k \<noteq> ?key j \<longrightarrow> k \<in> set js" by blast+
  qed
  then have trims: "\<forall>i \<in> set js. TrimSpace (di_SourceTxHash i) = di_SourceTxHash i" using inv(2) trimmed by auto
  have hash: "same_hash h (di_SourceTxHash i) \<longleftrightarrow> ToLower (TrimSpace h) = ?key j" for h
    using normalized_hash [OF n] by (simp add: same_hash_def EqualFold_def)
  have "found js h = (if same_hash h (di_SourceTxHash i) then Some j else found (intents_of f) h)"
  proof (cases "same_hash h (di_SourceTxHash i)")
    case True
    then show ?thesis using js(3) hash [of h] found_iff [OF js(1) trims, of h j] by simp
  next
    case False
    then show ?thesis using js(2,4) hash [of h] by (auto intro!: found_cong js(1) trims inv)
  qed
  then show ?thesis using js(1) trims by (simp add: f' intents_inv_def intents_of_def)
qed

lemma register_inv: "intents_inv f \<Longrightarrow> intents_inv (fst (RegisterDeliveryIntent disk f i))"
proof -
  assume inv: "intents_inv f"
  obtain f' r where run: "RegisterDeliveryIntent disk f i = (f', r)" by fastforce
  show ?thesis
  proof (cases r)
    case (Inl e)
    then have "f' = f \<or> (\<exists>e. f' = Unreadable e)" using run
      by (auto simp: RegisterDeliveryIntent_def saveDeliveryIntents_def Let_def split: sum.splits write_outcome.splits)
    then show ?thesis using run inv by (auto simp: intents_inv_def intents_of_def)
  next
    case (Inr j)
    then show ?thesis using registered [OF inv, of disk i f' j "[]"] run by simp
  qed
qed

lemma post_handler_intents: "ns_intents (fst (post_handler meth h s)) = ns_intents s"
  by (simp add: post_handler_def split_beta split: sum.split)

lemma node_step_intents: "intents_inv (ns_intents s) \<Longrightarrow> node_step env s t \<Longrightarrow> intents_inv (ns_intents t)"
proof (erule node_step.cases; clarsimp)
  fix resolver disk meth request
  assume "intents_inv (ns_intents s)"
  then show "intents_inv (ns_intents (fst (serveHTTP env resolver disk s meth request)))"
    by (cases request)
       (simp_all add: serveHTTP_def Let_def split_beta post_handler_intents register_inv split: sum.split)
qed

interpretation node_intents: transition_system "node_init env" "node_step env" "\<lambda>s. intents_inv (ns_intents s)" for env
proof unfold_locales
  fix s t assume "intents_inv (ns_intents s)" "node_step env s t"
  then show "intents_inv (ns_intents t)" by (rule node_step_intents)
qed (auto simp: node_init_def intents_inv_def intents_of_def)


section \<open>A node with an intent\<close>

definition delivery_profile :: RouteProfile where
  "delivery_profile = \<lparr>pr_RouteID = ''osmosis'', pr_DestinationChainID = ''osmo-1'', pr_ChannelID = ''channel-0'', pr_Enabled = True,
     pr_Assets = [\<lparr>ar_AssetID = ''eth'', ar_DestinationDenom = ''uosmo''\<rparr>],
     pr_Policy = \<lparr>rp_AllowedMemoPrefixes = [], rp_AllowedActionTypes = []\<rparr>\<rparr>"

definition delivery_app :: App where
  "delivery_app = example_app_funded\<lparr>app_router := fst (router_SetRouteProfile (app_router example_app_funded) delivery_profile)\<rparr>"

definition delivery_intent :: DeliveryIntent where
  "delivery_intent = \<lparr>di_SourceTxHash = ''0xab'', di_Sender = ''alice'', di_RouteID = ''osmosis'', di_AssetID = ''eth'', di_Amount = ''15'',
     di_Receiver = ''osmo1bob'', di_TransferID = [], di_ChannelID = []\<rparr>"

definition delivery_server :: "unit NodeServer" where
  "delivery_server = \<lparr>ns_node = NewABCIApplication node_env delivery_app (), ns_intents = Intents [delivery_intent]\<rparr>"

lemma register_first: "RegisterDeliveryIntent Written NoFile delivery_intent = (Intents [delivery_intent], Inr delivery_intent)"
  by (simp add: RegisterDeliveryIntent_def normalizeDeliveryIntent_def delivery_intent_def loadDeliveryIntents_def saveDeliveryIntents_def
      go_eval Let_def)

lemma delivery_server_reachable: "node_reachable node_env delivery_server"
proof -
  let ?s = "\<lparr>ns_node = NewABCIApplication node_env delivery_app (), ns_intents = NoFile\<rparr>"
  have "reachable app_init (app_step example_crypto any_address) delivery_app"
    unfolding delivery_app_def
    by (rule reachable.next_state [OF example_app_funded_reachable app_step.router [OF router_step.set_profile]])
  moreover have "bank_persistHook (app_bank delivery_app) = None"
    by (simp add: delivery_app_def example_app_funded_eq credit_hook bank_NewKeeper_def)
  ultimately have "node_init node_env ?s" unfolding node_init_def by (auto simp: node_env_def)
  then have "node_reachable node_env ?s" by (rule reachable.start)
  moreover have "node_step node_env ?s (fst (serveHTTP node_env None Written ?s POST (PostIntent (Inr delivery_intent))))"
    by (rule node_step.request)
  moreover have "fst (serveHTTP node_env None Written ?s POST (PostIntent (Inr delivery_intent))) = delivery_server"
    by (simp add: serveHTTP_def register_first delivery_server_def)
  ultimately show ?thesis using reachable.next_state by metis
qed

section \<open>Properties\<close>

text \<open>C27: whatever has happened to a node, a registration that is accepted stores its intent under its deposit
  hash, compared without letter case and surrounding white space, and leaves what is found for every other hash unchanged.\<close>

theorem registered_intent_is_found:
  assumes "node_reachable env s" "RegisterDeliveryIntent disk (ns_intents s) i = (f, Inr j)"
  shows "findDeliveryIntentBySourceTxHash f h
     = (if same_hash h (di_SourceTxHash i) then Inr (Some j) else findDeliveryIntentBySourceTxHash (ns_intents s) h)"
proof -
  have inv: "intents_inv (ns_intents s)" by (rule node_intents.reachable_inv [OF assms(1)])
  have find: "findDeliveryIntentBySourceTxHash g h = Inr (found (intents_of g) h)" if "\<not> isl (loadDeliveryIntents g)" for g
    using that by (cases g) (simp_all add: findDeliveryIntentBySourceTxHash_def ListDeliveryIntents_def loadDeliveryIntents_def found_def intents_of_def)
  have "\<not> isl (loadDeliveryIntents (ns_intents s))"
    using assms(2) by (auto simp: RegisterDeliveryIntent_def split: sum.splits)
  moreover have "\<not> isl (loadDeliveryIntents f)" using registered [OF inv assms(2), of h] by (auto simp: loadDeliveryIntents_def)
  ultimately show ?thesis using registered [OF inv assms(2), of h] by (simp add: find)
qed

theorem registered_intent_is_found_witness:
  "findDeliveryIntentBySourceTxHash (Intents [delivery_intent]) '' 0xAB'' = Inr (Some delivery_intent)
     \<and> findDeliveryIntentBySourceTxHash (Intents [delivery_intent]) ''0xcd'' = Inr None"
proof -
  have "RegisterDeliveryIntent Written (ns_intents example_server) delivery_intent = (Intents [delivery_intent], Inr delivery_intent)"
    by (simp add: example_server_def register_first)
  note stored = registered_intent_is_found [OF example_server_reachable this]
  have "same_hash '' 0xAB'' (di_SourceTxHash delivery_intent)" "\<not> same_hash ''0xcd'' (di_SourceTxHash delivery_intent)" by code_simp+
  then show ?thesis
    using stored [of "'' 0xAB''"] stored [of "''0xcd''"]
    by (simp add: example_server_def findDeliveryIntentBySourceTxHash_def [of NoFile] ListDeliveryIntents_def loadDeliveryIntents_def)
qed


text \<open>C20: a deposit is never delivered once any transfer of its asset, with the receiver and the amount of its
  intent, exists - a transfer for another deposit, or one that anybody started: from then on no run of the coordinator starts a transfer
  for it.\<close>

theorem equal_transfer_ends_delivery:
  assumes "node_reachable env s" "map_of (ik_transfers (app_router (nd_app (ns_node s)))) key = Some t"
    "steps (node_step env) s (aw_server w)" "unwrapped (nd_app (ns_node (aw_server w)))"
    "TrimSpace (it_SourceTxHash intent) \<noteq> []"
    "findClaimBySourceTxHash (nd_app (ns_node (aw_server w))) (it_SourceTxHash intent) = Some claim"
    "findDeliveryIntentBySourceTxHash (ns_intents (aw_server w)) (it_SourceTxHash intent) = Inr (Some i)"
    "TrimSpace (tr_AssetID t) = TrimSpace (cs_AssetID claim)" "TrimSpace (di_Receiver i) = TrimSpace (tr_Receiver t)"
    "TrimSpace (di_Receiver i) \<noteq> []" "TrimSpace (di_Amount i) = show_int (tr_Amount t)"
    "auto_intent (networked_coordinator env resolver th f) intent w summary = (w', summary', e)"
  shows "aw_server w' = aw_server w \<and> au_TransfersInitiated summary' = au_TransfersInitiated summary"
  by (rule paid_intent_idle [OF node.reachable_inv [OF assms(1)] assms(2) _ _ _ assms(3-7,12)])
     (use assms(8-11) in \<open>simp_all add: expected_def\<close>)


section \<open>A delivery whose reply is lost\<close>

definition delivery_world :: "unit AutoWorld" where
  "delivery_world = \<lparr>aw_server = delivery_server, aw_height = 0, aw_outcomes = [ReplyLost (RelayError ''timeout'')], aw_flushed = []\<rparr>"

lemma delivery_decoded:
  "decodeInitiateIBCTransferPayload (transfer_payload 99 (intent_of delivery_intent)) = Inr (transfer_payload 99 (intent_of delivery_intent), 15)"
  by code_simp

lemma delivery_transfer_runs:
  assumes "nd_app n = delivery_app"
  obtains n' t where "applyIBCTransferPayload node_env n (transfer_payload 99 (intent_of delivery_intent)) 15 = (n', Inr (t, []))"
proof -
  have asset: "registry_GetAsset (bk_registry (app_bridge delivery_app)) ''eth'' = Some example_asset"
    by (simp add: delivery_app_def example_app_funded_facts example_registered)
  have bank: "app_bank delivery_app = app_bank example_app_funded" by (simp add: delivery_app_def)
  have "snd (bank_Debit (app_bank example_app_funded) ''alice'' ''ueth'' (Some 15)) = None"
    unfolding example_app_funded_eq by simp code_simp
  then obtain k where debit: "bank_Debit (app_bank delivery_app) ''alice'' ''ueth'' (Some 15) = (k, None)"
    by (metis bank prod.collapse)
  have router: "app_router example_app_funded = router_NewKeeper"
    by (simp add: example_app_funded_eq example_app_def app_SetCurrentHeight_def app_SetLimit_def app_RegisterAsset_def split_beta
        app_NewWithConfig_def newAppFromKeepers_def gov_NewKeeper_def Let_def)
  have "\<not> isl (snd (router_InitiateTransferWithProfile (fst (router_SetRouteProfile router_NewKeeper delivery_profile)) ''osmosis'' ''eth'' (Some 15)
      ''osmo1bob'' 99 (autoDeliveryMemo ''0xab'')))" by code_simp
  then obtain r t where start: "router_InitiateTransferWithProfile (fst (router_SetRouteProfile router_NewKeeper delivery_profile)) ''osmosis'' ''eth''
      (Some 15) ''osmo1bob'' 99 (autoDeliveryMemo ''0xab'') = (r, Inr t)" by (metis isl_def prod.collapse sum.exhaust)
  have "as_Denom example_asset = ''ueth''" by (simp add: example_asset_def)
  with debit have "\<exists>n'. applyIBCTransferPayload node_env n (transfer_payload 99 (intent_of delivery_intent)) 15 = (n', Inr (t, []))"
    using start by (simp add: applyIBCTransferPayload_def transfer_payload_def intent_of_def delivery_intent_def go_eval asset take_out_def
        app_WalletBalance_def bank example_app_funded_facts sync_balance_def node_env_def app_DebitWallet_def start_transfer_def
        app_InitiateIBCTransferWithProfile_def assms delivery_app_def router example_registered Let_def)
  then show ?thesis using that by blast
qed

text \<open>A block at a height that the application has passed applies its transaction and nothing else.\<close>

lemma finalize_now:
  assumes "ne_chainApp env = None" "is_demo_tx tx" "(word_of_int height :: u64) \<noteq> 0" "word_of_int height \<le> node_height n"
  shows "\<exists>n' resp. node_FinalizeBlock env n height [tx] = Some (n', Inr resp)
     \<and> nd_app n' = nd_app (fst (applyDemoNodeTx env (n\<lparr>nd_lastFinalizeUsedBaseApp := False, nd_pendingBaseAppCommit := False\<rparr>) tx))"
proof -
  have "\<not> node_height n < word_of_int height" using assms(4) by simp
  with assms(1-3) show ?thesis by (simp add: node_FinalizeBlock_def finalize_beside_def advance_block_def split_beta Let_def)
qed

lemma delivery_starts:
  obtains w1 e t where "networked_InitiateTransfer node_env 99 delivery_world (intent_of delivery_intent) = (w1, Inl e)"
    "app_bridge (nd_app (ns_node (aw_server w1))) = app_bridge delivery_app" "ns_intents (aw_server w1) = Intents [delivery_intent]"
    "transfers_of delivery_world = []" "transfers_of w1 = [(tr_TransferID t, t)]"
    "tr_AssetID t = ''eth''" "tr_Receiver t = ''osmo1bob''" "tr_Amount t = 15"
proof -
  let ?payload = "transfer_payload 99 (intent_of delivery_intent)" and ?n = "NewABCIApplication node_env delivery_app ()"
  let ?m = "?n\<lparr>nd_lastFinalizeUsedBaseApp := False, nd_pendingBaseAppCommit := False\<rparr>"
  let ?w = "delivery_world\<lparr>aw_outcomes := []\<rparr>"
  obtain tx where enc: "encodeInitiateIBCTransferTx ?payload = Inr tx" by (simp add: encodeInitiateIBCTransferTx_def delivery_decoded)
  obtain p v where dec: "decodeInitiateIBCTransferPayload ?payload = Inr (p, v)" and demo: "is_demo_tx tx"
    and runs: "fst (applyDemoNodeTx node_env ?m tx) = fst (applyIBCTransferPayload node_env ?m p v)"
    by (rule encoded_transfer [OF enc])
  have pv: "p = ?payload" "v = 15" using dec delivery_decoded by simp_all
  have apps: "nd_app ?m = delivery_app" "nd_app ?n = delivery_app" by (simp_all add: NewABCIApplication_def)
  have router: "app_router example_app_funded = router_NewKeeper"
    by (simp add: example_app_funded_eq example_app_def app_SetCurrentHeight_def app_SetLimit_def app_RegisterAsset_def split_beta
        app_NewWithConfig_def newAppFromKeepers_def gov_NewKeeper_def Let_def)
  have start: "ik_transfers (app_router delivery_app) = []" by (simp add: delivery_app_def router) code_simp
  have inv: "node_inv delivery_app"
    using node.reachable_inv [OF delivery_server_reachable] by (simp add: delivery_server_def NewABCIApplication_def)
  have hook: "bank_persistHook (app_bank (nd_app ?m)) = None" "bank_inv (app_bank (nd_app ?m))"
    using inv by (simp_all add: apps node_inv_def app_books_def)
  obtain m' t where sent: "applyIBCTransferPayload node_env ?m ?payload 15 = (m', Inr (t, []))" by (rule delivery_transfer_runs [OF apps(1)])
  have after: "app_bridge (nd_app m') = app_bridge delivery_app" "ik_transfers (app_router (nd_app m')) = [(tr_TransferID t, t)]"
    "tr_AssetID t = ''eth''" "tr_Receiver t = ''osmo1bob''" "tr_Amount t = 15"
  proof -
    have "app_bridge (nd_app m') = app_bridge delivery_app \<and> started delivery_app ?payload 15 t (app_router (nd_app m'))"
      by (cases rule: transfer_cases [OF refl hook, of node_env ?payload 15]) (simp_all add: sent apps)
    then show "app_bridge (nd_app m') = app_bridge delivery_app" "ik_transfers (app_router (nd_app m')) = [(tr_TransferID t, t)]"
      "tr_AssetID t = ''eth''" "tr_Receiver t = ''osmo1bob''" "tr_Amount t = 15"
      by (simp_all add: started_def start transfer_payload_def intent_of_def delivery_intent_def go_eval)
  qed
  have "node_height ?n = 5" by (simp add: NewABCIApplication_def delivery_app_def example_app_funded_facts example_funded_simps)
  then obtain n' resp where fin: "node_FinalizeBlock node_env ?n 1 [tx] = Some (n', Inr resp)"
    and app: "nd_app n' = nd_app (fst (applyDemoNodeTx node_env ?m tx))"
    using finalize_now [of node_env tx 1 ?n] demo by (auto simp: node_env_def)
  have app': "nd_app n' = nd_app m'" by (simp add: app runs pv sent)
  have check: "node_CheckTx node_env ?n tx = (?n, 0)" by (simp add: node_CheckTx_def demo)
  have "fst (next_block node_env tx ?w) = ?w\<lparr>aw_server := delivery_server\<lparr>ns_node := fst (node_Commit node_env Written n')\<rparr>, aw_height := 1\<rparr>"
    by (simp add: next_block_def delivery_world_def delivery_server_def check fin Let_def)
  then have "networked_InitiateTransfer node_env 99 delivery_world (intent_of delivery_intent) =
      (?w\<lparr>aw_server := delivery_server\<lparr>ns_node := fst (node_Commit node_env Written n')\<rparr>, aw_height := 1\<rparr>, Inl (RelayError ''timeout''))"
    by (simp add: networked_InitiateTransfer_def SubmitInitiateIBCTransfer_def enc broadcastTxJSON_def auto_remote_def delivery_world_def)
  then show ?thesis
    by (rule that [of _ _ t]) (simp_all add: after start app' delivery_world_def delivery_server_def apps)
qed


lemma delivery_claim:
  assumes "app_bridge a = app_bridge delivery_app"
  obtains claim where "findClaimBySourceTxHash a ''0xab'' = Some claim" "cs_AssetID claim = ''eth''"
proof -
  have "bk_processedClaims example_bridge = []" by (simp add: example_bridge_def bridge_NewKeeper_def Let_def)
  then obtain key r where "bk_processedClaims (app_bridge a) = [(key, r)]" "cl_SourceTxHash r = ''0xab''" "cl_AssetID r = ''eth''"
    using assms by (auto simp: delivery_app_def example_app_funded_facts example_funded_def deposit_state_def acceptDepositClaim_def
        mintRepresentation_def example_claim_def example_identity_fields Let_def)
  then show ?thesis using that
    by (simp add: findClaimBySourceTxHash_def bridge_ExportState_def claim_snapshot_def same_hash_def EqualFold_def)
qed


lemma reachable_steps: "steps step s t \<Longrightarrow> reachable init step s \<Longrightarrow> reachable init step t"
  by (induction rule: steps.induct) (auto intro: reachable.next_state)

theorem equal_transfer_ends_delivery_witness:
  "\<exists>w. aw_server (fst (auto_intent (networked_coordinator node_env None 99 \<lparr>rf_Command = [], rf_PathByRoute = [], rf_DefaultPath = [], rf_Home = []\<rparr>)
       (intent_of delivery_intent) w zeroAutoSummary)) = aw_server w \<and> transfers_of w \<noteq> []"
proof -
  obtain w1 e t where start: "networked_InitiateTransfer node_env 99 delivery_world (intent_of delivery_intent) = (w1, Inl e)"
    "app_bridge (nd_app (ns_node (aw_server w1))) = app_bridge delivery_app" "ns_intents (aw_server w1) = Intents [delivery_intent]"
    "transfers_of w1 = [(tr_TransferID t, t)]" "tr_AssetID t = ''eth''" "tr_Receiver t = ''osmo1bob''" "tr_Amount t = 15"
    by (rule delivery_starts)
  obtain claim where claim: "findClaimBySourceTxHash (nd_app (ns_node (aw_server w1))) ''0xab'' = Some claim" "cs_AssetID claim = ''eth''"
    by (rule delivery_claim [OF start(2)])
  let ?c = "networked_coordinator node_env None 99 \<lparr>rf_Command = [], rf_PathByRoute = [], rf_DefaultPath = [], rf_Home = []\<rparr>"
  obtain w3 summary' e' where run: "auto_intent ?c (intent_of delivery_intent) w1 zeroAutoSummary = (w3, summary', e')" by (metis prod_cases3)
  have reach: "node_reachable node_env (aw_server delivery_world)" using delivery_server_reachable by (simp add: delivery_world_def)
  have reach1: "node_reachable node_env (aw_server w1)"
    using InitiateTransfer_cases [OF node.reachable_inv [OF reach] start(1)] by (intro reachable_steps [OF _ reach]) blast
  have intent: "findDeliveryIntentBySourceTxHash (Intents [delivery_intent]) ''0xab'' = Inr (Some delivery_intent)" by code_simp
  have fields: "it_SourceTxHash (intent_of delivery_intent) = ''0xab''" "di_Amount delivery_intent = ''15''" "di_Receiver delivery_intent = ''osmo1bob''"
    by (simp_all add: intent_of_def delivery_intent_def)
  have "show_int 15 = ''15''" by code_simp
  note idle = equal_transfer_ends_delivery [where t = t and claim = claim and i = delivery_intent and key = "tr_TransferID t",
      OF reach1 _ steps.none _ _ _ _ _ _ _ _ run]
  have "aw_server w3 = aw_server w1 \<and> au_TransfersInitiated summary' = au_TransfersInitiated zeroAutoSummary"
    by (rule idle) (simp_all add: start claim intent fields unwrapped_def go_eval \<open>show_int 15 = ''15''\<close>)
  with run start(4) show ?thesis by (intro exI [of _ w1]) simp
qed

end
