(* ===== verification/Spec2Isabelle.thy ===== *)
theory Spec2Isabelle
  imports AppState RelayProgress RouteExamples AutoProperties
begin

text \<open>
  A verification development of AegisLink, a bridge between Ethereum and a Cosmos-style chain.
\<close>

end
